(* ===== verification/Py_Prelude.thy ===== *)
theory Py_Prelude
  imports Complex_Main "HOL-Library.AList" "HOL-Library.Char_ord" "HOL-Library.List_Lexorder" "HOL-Library.Multiset"
begin

text \<open>
  What every component of the model shares: Python's exceptions as values, the Python values
  that reach \<^verbatim>\<open>json.dumps\<close>, the string operations of the standard library that the
  code uses, insertion-ordered dictionaries, and a state monad in which a raised exception
  keeps the mutations made before it, as a Python method does.

  Conventions of the whole development.
  \<^item> A Python \<^verbatim>\<open>str\<close> is a HOL \<open>string\<close> of code points U+0000 to U+00FF: one
    \<open>char\<close> is one code point, so \<open>length\<close> counts what Python's \<^verbatim>\<open>len\<close> counts. Every
    name the repository declares (the accented OCS names among them) lies in that range.
  \<^item> A Python \<^verbatim>\<open>int\<close> is an \<open>int\<close>; a finite \<^verbatim>\<open>float\<close> is a \<open>rat\<close>, and the
    kernel only compares them. A call of \<^verbatim>\<open>time()\<close> is an argument of the operation that
    makes it: an operation that reads the clock twice has two such arguments.
  \<^item> A Python \<^verbatim>\<open>dict\<close> with string keys is an association list in insertion order, read
    with \<open>map_of\<close> and written with \<open>AList.update\<close>, which keeps the position of a
    key that is present and appends a new one, as Python does.
\<close>

section \<open>Exceptions\<close>

datatype exn =
    ValueError string
  | RuntimeError string
  | MaterialEffectFailure string string
  | HazelIntegrationError string
  | InstanceBindingError string
  | KeyError string
  | PermissionError string
  | IntegrityError string
  | OtherError string

text \<open>
  \<^verbatim>\<open>str(exc)\<close>. The second argument of \<open>MaterialEffectFailure\<close> is its
  \<^verbatim>\<open>mutation_id\<close>.
\<close>

fun exn_str :: "exn \<Rightarrow> string" where
  "exn_str (ValueError m) = m"
| "exn_str (RuntimeError m) = m"
| "exn_str (MaterialEffectFailure m _) = m"
| "exn_str (HazelIntegrationError m) = m"
| "exn_str (InstanceBindingError m) = m"
| "exn_str (KeyError m) = m"
| "exn_str (PermissionError m) = m"
| "exn_str (IntegrityError m) = m"
| "exn_str (OtherError m) = m"

text \<open>
  What an \<^verbatim>\<open>except ValueError\<close> and an \<^verbatim>\<open>except RuntimeError\<close> clause catch:
  the three errors the repository declares are subclasses of \<^verbatim>\<open>RuntimeError\<close>.
\<close>

fun is_value_error :: "exn \<Rightarrow> bool" where
  "is_value_error (ValueError _) = True"
| "is_value_error _ = False"

fun is_runtime_error :: "exn \<Rightarrow> bool" where
  "is_runtime_error (RuntimeError _) = True"
| "is_runtime_error (MaterialEffectFailure _ _) = True"
| "is_runtime_error (HazelIntegrationError _) = True"
| "is_runtime_error (InstanceBindingError _) = True"
| "is_runtime_error _ = False"

type_synonym 'a res = "exn + 'a"
type_synonym pytime = rat

text \<open>
  A sequence of guards that each raise a \<^verbatim>\<open>ValueError\<close>, in order, before a value is given.
\<close>

fun checks :: "(bool \<times> string) list \<Rightarrow> 'a \<Rightarrow> 'a res" where
  "checks [] x = Inr x"
| "checks ((ok, message) # cs) x = (if ok then checks cs x else Inl (ValueError message))"

lemma checks_Inr: "checks cs x = Inr y \<longleftrightarrow> y = x \<and> list_all fst cs"
  by (induction cs x rule: checks.induct) auto

lemma map_sum_id_Inr: "map_sum id f x = Inr y \<longleftrightarrow> (\<exists>z. x = Inr z \<and> y = f z)"
  by (cases x) auto

text \<open>A list comprehension whose expression may raise.\<close>

fun traverse :: "('a \<Rightarrow> 'b res) \<Rightarrow> 'a list \<Rightarrow> 'b list res" where
  "traverse f [] = Inr []"
| "traverse f (x # xs) = (case f x of Inl e \<Rightarrow> Inl e | Inr y \<Rightarrow> map_sum id (\<lambda>ys. y # ys) (traverse f xs))"

lemma traverse_total: "(\<And>x. x \<in> set xs \<Longrightarrow> f x = Inr (g x)) \<Longrightarrow> traverse f xs = Inr (map g xs)"
  by (induction xs) auto

lemma traverse_Inr: "traverse f xs = Inr ys \<Longrightarrow> y \<in> set ys \<Longrightarrow> \<exists>x \<in> set xs. f x = Inr y"
  by (induction xs arbitrary: ys) (auto simp: map_sum_id_Inr split: sum.splits)

section \<open>A state monad with exceptions\<close>

text \<open>
  A method of an object is a function from the object's state to its outcome (a raised
  exception, \<open>Inl\<close>, or a returned value, \<open>Inr\<close>) and the state it leaves, in both
  cases. \<open>py_try m h k\<close> is \<^verbatim>\<open>try: x = m\<close> with \<open>h\<close> for the handlers and \<open>k\<close>
  for what follows the statement.
\<close>

type_synonym ('s, 'a) py = "'s \<Rightarrow> 'a res \<times> 's"

definition py_return :: "'a \<Rightarrow> ('s, 'a) py" where
  "py_return x = (\<lambda>s. (Inr x, s))"

definition py_raise :: "exn \<Rightarrow> ('s, 'a) py" where
  "py_raise e = (\<lambda>s. (Inl e, s))"

definition py_try :: "('s, 'a) py \<Rightarrow> (exn \<Rightarrow> ('s, 'b) py) \<Rightarrow> ('a \<Rightarrow> ('s, 'b) py) \<Rightarrow> ('s, 'b) py" where
  "py_try m h k = (\<lambda>s. case m s of (Inl e, t) \<Rightarrow> h e t | (Inr x, t) \<Rightarrow> k x t)"

definition py_bind :: "('s, 'a) py \<Rightarrow> ('a \<Rightarrow> ('s, 'b) py) \<Rightarrow> ('s, 'b) py" where
  "py_bind m k = py_try m py_raise k"

definition py_gets :: "('s \<Rightarrow> 'a) \<Rightarrow> ('s, 'a) py" where
  "py_gets f = (\<lambda>s. (Inr (f s), s))"

definition py_modify :: "('s \<Rightarrow> 's) \<Rightarrow> ('s, unit) py" where
  "py_modify f = (\<lambda>s. (Inr (), f s))"

definition py_lift :: "'a res \<Rightarrow> ('s, 'a) py" where
  "py_lift r = (\<lambda>s. (r, s))"

definition py_unless :: "bool \<Rightarrow> exn \<Rightarrow> ('s, unit) py" where
  "py_unless b e = (if b then py_return () else py_raise e)"

text \<open>An operation of a part of the state, run on the whole.\<close>

definition py_on :: "('s \<Rightarrow> 't) \<Rightarrow> ('t \<Rightarrow> 's \<Rightarrow> 's) \<Rightarrow> ('t, 'a) py \<Rightarrow> ('s, 'a) py" where
  "py_on get put m = (\<lambda>s. case m (get s) of (r, t) \<Rightarrow> (r, put t s))"

named_theorems py_simps \<open>unfolding the monad at a state\<close>

lemma py_return_run [py_simps]: "py_return x s = (Inr x, s)"
  by (simp add: py_return_def)

lemma py_raise_run [py_simps]: "py_raise e s = (Inl e, s)"
  by (simp add: py_raise_def)

lemma py_try_run [py_simps]:
  "py_try m h k s = (case m s of (Inl e, t) \<Rightarrow> h e t | (Inr x, t) \<Rightarrow> k x t)"
  by (simp add: py_try_def)

lemma py_bind_run [py_simps]:
  "py_bind m k s = (case m s of (Inl e, t) \<Rightarrow> (Inl e, t) | (Inr x, t) \<Rightarrow> k x t)"
  by (simp add: py_bind_def py_try_def py_raise_def split: prod.splits sum.splits)

lemma py_gets_run [py_simps]: "py_gets f s = (Inr (f s), s)"
  by (simp add: py_gets_def)

lemma py_modify_run [py_simps]: "py_modify f s = (Inr (), f s)"
  by (simp add: py_modify_def)

lemma py_lift_run [py_simps]: "py_lift r s = (r, s)"
  by (simp add: py_lift_def)

lemma py_unless_run [py_simps]: "py_unless b e s = (if b then Inr () else Inl e, s)"
  by (simp add: py_unless_def py_return_def py_raise_def)

lemma py_on_run [py_simps]:
  "py_on get put m s = (fst (m (get s)), put (snd (m (get s))) s)"
  by (simp add: py_on_def split: prod.splits)

text \<open>Inversion of a successful run.\<close>

lemma py_bind_Inr:
  "py_bind m k s = (Inr y, u) \<longleftrightarrow> (\<exists>x t. m s = (Inr x, t) \<and> k x t = (Inr y, u))"
  by (auto simp: py_bind_run split: prod.splits sum.splits)

lemma py_try_Inr:
  "py_try m h k s = (Inr y, u) \<longleftrightarrow>
     (\<exists>x t. m s = (Inr x, t) \<and> k x t = (Inr y, u)) \<or>
     (\<exists>e t. m s = (Inl e, t) \<and> h e t = (Inr y, u))"
  by (auto simp: py_try_run split: prod.splits sum.splits)

lemma py_unless_Inr: "py_unless b e s = (Inr x, t) \<longleftrightarrow> b \<and> t = s"
  by (auto simp: py_unless_run)

section \<open>What an operation may do to its state\<close>

text \<open>
  \<open>steps R m\<close>: whatever the outcome, \<open>m\<close> takes the state to one that \<open>R\<close> allows.
  For a preorder \<open>R\<close> the property is closed under the monad; the locale proves that
  once, and its interpretation for \<open>P s \<longrightarrow> P t\<close> gives the rules by which an
  operation keeps an invariant \<open>P\<close>.
\<close>

definition steps :: "('s \<Rightarrow> 's \<Rightarrow> bool) \<Rightarrow> ('s, 'a) py \<Rightarrow> bool" where
  "steps R m \<longleftrightarrow> (\<forall>s. R s (snd (m s)))"

abbreviation keeps :: "('s \<Rightarrow> bool) \<Rightarrow> ('s, 'a) py \<Rightarrow> bool" where
  "keeps P m \<equiv> steps (\<lambda>s t. P s \<longrightarrow> P t) m"

lemma stepsI: "(\<And>s. R s (snd (m s))) \<Longrightarrow> steps R m"
  by (simp add: steps_def)

lemma stepsD: "steps R m \<Longrightarrow> m s = (r, t) \<Longrightarrow> R s t"
  by (metis snd_conv steps_def)

locale step_order =
  fixes R :: "'s \<Rightarrow> 's \<Rightarrow> bool"
  assumes step_refl: "R s s"
    and step_trans: "R s t \<Longrightarrow> R t u \<Longrightarrow> R s u"
begin

lemma steps_return: "steps R (py_return x)"
  by (simp add: steps_def py_simps step_refl)

lemma steps_raise: "steps R (py_raise e)"
  by (simp add: steps_def py_simps step_refl)

lemma steps_gets: "steps R (py_gets f)"
  by (simp add: steps_def py_simps step_refl)

lemma steps_lift: "steps R (py_lift r)"
  by (simp add: steps_def py_simps step_refl)

lemma steps_unless: "steps R (py_unless b e)"
  by (simp add: steps_def py_simps step_refl)

lemma steps_modify: "(\<And>s. R s (f s)) \<Longrightarrow> steps R (py_modify f)"
  by (simp add: steps_def py_simps)

lemma steps_try:
  assumes "steps R m" and "\<And>e. steps R (h e)" and "\<And>x. steps R (k x)"
  shows "steps R (py_try m h k)"
proof (rule stepsI)
  fix s
  obtain r t where m: "m s = (r, t)"
    by (cases "m s")
  then have "R s t"
    using assms(1) by (rule stepsD [rotated])
  moreover have "R t (snd (h e t))" and "R t (snd (k x t))" for e x
    using assms(2,3) by (auto simp: steps_def)
  ultimately show "R s (snd (py_try m h k s))"
    using m by (auto simp: py_try_run intro: step_trans split: sum.splits)
qed

lemma steps_bind:
  assumes "steps R m" and "\<And>x. steps R (k x)"
  shows "steps R (py_bind m k)"
  unfolding py_bind_def by (intro steps_try assms steps_raise)

lemma steps_on:
  assumes "steps Q m" and "\<And>s t. Q (get s) t \<Longrightarrow> R s (put t s)"
  shows "steps R (py_on get put m)"
  using assms by (auto simp: steps_def py_on_run)

lemmas steps_basic = steps_return steps_raise steps_gets steps_lift steps_unless

end

interpretation keep: step_order "\<lambda>s t. P s \<longrightarrow> P t" for P :: "'s \<Rightarrow> bool"
  by unfold_locales auto

lemma keepsD: "keeps P m \<Longrightarrow> P s \<Longrightarrow> P (snd (m s))"
  by (simp add: steps_def)

lemma keeps_true: "keeps (\<lambda>_. True) m"
  by (simp add: steps_def)

section \<open>Transactions\<close>

text \<open>
  \<^verbatim>\<open>with self._connect() as connection\<close>: the connection commits when the block ends and
  rolls back when it raises.
\<close>

definition transaction :: "('s, 'a) py \<Rightarrow> ('s, 'a) py" where
  "transaction m = (\<lambda>db. case m db of (Inl x, _) \<Rightarrow> (Inl x, db) | (Inr y, db') \<Rightarrow> (Inr y, db'))"

lemma transaction_Inl: "transaction m db = (Inl e, db') \<Longrightarrow> db' = db"
  by (auto simp: transaction_def split: prod.splits sum.splits)

lemma transaction_Inr: "transaction m db = (Inr x, db') \<longleftrightarrow> m db = (Inr x, db')"
  by (auto simp: transaction_def split: prod.splits sum.splits)

lemma transaction_state: "snd (transaction m db) = (case m db of (Inl _, _) \<Rightarrow> db | (Inr _, db') \<Rightarrow> db')"
  by (simp add: transaction_def split: prod.splits sum.splits)

lemma steps_transaction:
  assumes "steps R m" and "\<And>db. R db db"
  shows "steps R (transaction m)"
  using assms by (simp add: steps_def transaction_state split: prod.splits sum.splits)
    (metis snd_conv)

section \<open>Strings of the standard library\<close>

definition starts_with :: "string \<Rightarrow> string \<Rightarrow> bool" where
  "starts_with p s \<longleftrightarrow> take (length p) s = p"

text \<open>\<^verbatim>\<open>s.split(c, 1)[0]\<close>: what precedes the first \<open>c\<close>.\<close>

definition split_first :: "char \<Rightarrow> string \<Rightarrow> string" where
  "split_first c s = takeWhile (\<lambda>x. x \<noteq> c) s"

text \<open>\<^verbatim>\<open>sub in s\<close>.\<close>

fun contains_str :: "string \<Rightarrow> string \<Rightarrow> bool" where
  "contains_str p [] = (p = [])"
| "contains_str p (c # cs) = (starts_with p (c # cs) \<or> contains_str p cs)"

text \<open>
  \<^verbatim>\<open>str.casefold\<close> on code points up to U+00FF. The micro sign U+00B5 folds to the
  Greek letter outside the range; since that letter cannot occur here, leaving the sign in
  place gives the same comparisons.
\<close>

definition casefold_char :: "char \<Rightarrow> string" where
  "casefold_char c =
     (let n = (of_char c :: nat)
      in if (65 \<le> n \<and> n \<le> 90) \<or> (192 \<le> n \<and> n \<le> 222 \<and> n \<noteq> 215) then [char_of (n + 32)]
         else if n = 223 then ''ss''
         else [c])"

definition casefold :: "string \<Rightarrow> string" where
  "casefold s = concat (map casefold_char s)"

text \<open>
  \<^verbatim>\<open>s.strip()\<close> removes white space at both ends; \<open>blank\<close> is \<^verbatim>\<open>not s.strip()\<close>.
\<close>

definition is_space :: "char \<Rightarrow> bool" where
  "is_space c = ((of_char c :: nat) \<in> {9, 10, 11, 12, 13, 28, 29, 30, 31, 32, 133, 160})"

definition strip_spaces :: "string \<Rightarrow> string" where
  "strip_spaces s = List.rev (dropWhile is_space (List.rev (dropWhile is_space s)))"

definition blank :: "string \<Rightarrow> bool" where
  "blank s \<longleftrightarrow> strip_spaces s = []"

text \<open>\<^verbatim>\<open>','.join(xs)\<close>.\<close>

fun join_with :: "string \<Rightarrow> string list \<Rightarrow> string" where
  "join_with sep [] = []"
| "join_with sep [x] = x"
| "join_with sep (x # y # ys) = x @ sep @ join_with sep (y # ys)"

text \<open>Decimal notation, as an f-string prints a non-negative integer.\<close>

fun show_nat :: "nat \<Rightarrow> string" where
  "show_nat n =
     (if n < 10 then [char_of (48 + n)] else show_nat (n div 10) @ [char_of (48 + n mod 10)])"

declare show_nat.simps [simp del]

definition show_int :: "int \<Rightarrow> string" where
  "show_int i = (if i < 0 then CHR ''-'' # show_nat (nat (- i)) else show_nat (nat i))"

definition digit_value :: "char \<Rightarrow> nat" where
  "digit_value c = of_char c - 48"

definition read_nat :: "string \<Rightarrow> nat" where
  "read_nat s = foldl (\<lambda>n c. 10 * n + digit_value c) 0 s"

lemma digit_value_digit: "d < 10 \<Longrightarrow> digit_value (char_of (48 + d)) = d"
  by (simp add: digit_value_def)

lemma read_show_nat: "read_nat (show_nat n) = n"
proof (induction n rule: show_nat.induct)
  case (1 n)
  show ?case
  proof (cases "n < 10")
    case True
    then show ?thesis
      by (simp add: show_nat.simps [of n] read_nat_def digit_value_digit)
  next
    case False
    with "1.IH" have "read_nat (show_nat (n div 10)) = n div 10" by simp
    with False show ?thesis
      by (simp add: show_nat.simps [of n] read_nat_def digit_value_digit)
  qed
qed

lemma show_nat_inject [simp]: "show_nat m = show_nat n \<longleftrightarrow> m = n"
  by (metis read_show_nat)

lemma casefold_Nil [simp]: "casefold [] = []"
  by (simp add: casefold_def)

section \<open>Dictionaries\<close>

abbreviation dset :: "'k \<Rightarrow> 'v \<Rightarrow> ('k \<times> 'v) list \<Rightarrow> ('k \<times> 'v) list" where
  "dset \<equiv> AList.update"

abbreviation dpop :: "'k \<Rightarrow> ('k \<times> 'v) list \<Rightarrow> ('k \<times> 'v) list" where
  "dpop \<equiv> AList.delete"

lemma map_of_dset [simp]: "map_of (dset k v d) = (map_of d)(k \<mapsto> v)"
  by (rule AList.update_conv')

lemma map_of_dpop [simp]: "map_of (dpop k d) = (map_of d)(k := None)"
  by (rule AList.delete_conv')

lemma keys_dset:
  "map fst (dset k v d) = (if k \<in> fst ` set d then map fst d else map fst d @ [k])"
  by (induction d) auto

lemma distinct_keys_dset: "distinct (map fst d) \<Longrightarrow> distinct (map fst (dset k v d))"
  by (auto simp: keys_dset)

lemma dset_present:
  assumes "map_of d k = Some w"
  shows "map fst (dset k v d) = map fst d"
  using assms by (simp add: keys_dset domIff dom_map_of_conv_image_fst [symmetric])

lemma dset_absent: "map_of d k = None \<Longrightarrow> dset k v d = d @ [(k, v)]"
  by (induction d) (auto split: if_splits)

lemma length_dset_absent: "map_of d k = None \<Longrightarrow> length (dset k v d) = Suc (length d)"
  by (simp add: dset_absent)

section \<open>Values that reach json.dumps\<close>

text \<open>
  A value of type \<^verbatim>\<open>object\<close> in a payload. \<open>PyObject\<close> stands for an object that
  \<^verbatim>\<open>json.dumps\<close> refuses with a \<^verbatim>\<open>TypeError\<close>.
\<close>

datatype pyval =
    PyNone
  | PyBool bool
  | PyInt int
  | PyFloat rat
  | PyStr string
  | PyList "pyval list"
  | PyTuple "pyval list"
  | PyDict "(string \<times> pyval) list"
  | PyObject nat

text \<open>
  Python compares dictionaries without regard to the order of their keys: \<open>py_eq\<close>
  sorts them first. Numbers of different types (1 and 1.0) are kept apart.
\<close>

fun sort_dicts :: "pyval \<Rightarrow> pyval" where
  "sort_dicts (PyList xs) = PyList (map sort_dicts xs)"
| "sort_dicts (PyTuple xs) = PyTuple (map sort_dicts xs)"
| "sort_dicts (PyDict kvs) = PyDict (sort_key fst (map (\<lambda>(k, v). (k, sort_dicts v)) kvs))"
| "sort_dicts v = v"

definition py_eq :: "pyval \<Rightarrow> pyval \<Rightarrow> bool" where
  "py_eq a b \<longleftrightarrow> sort_dicts a = sort_dicts b"

text \<open>
  What \<^verbatim>\<open>dumps(v, sort_keys=True, separators=(",", ":"))\<close> writes, as a tree: tuples
  become arrays and keys are sorted. Distinct trees have distinct texts, so a digest of the
  text is a function of the tree. Reading the text back gives the tree.
\<close>

fun json_tree :: "pyval \<Rightarrow> pyval" where
  "json_tree (PyList xs) = PyList (map json_tree xs)"
| "json_tree (PyTuple xs) = PyList (map json_tree xs)"
| "json_tree (PyDict kvs) = PyDict (sort_key fst (map (\<lambda>(k, v). (k, json_tree v)) kvs))"
| "json_tree v = v"

fun serializable :: "pyval \<Rightarrow> bool" where
  "serializable (PyList xs) = list_all serializable xs"
| "serializable (PyTuple xs) = list_all serializable xs"
| "serializable (PyDict kvs) = list_all (\<lambda>(k, v). serializable v) kvs"
| "serializable (PyObject _) = False"
| "serializable _ = True"

definition py_opt_str :: "string option \<Rightarrow> pyval" where
  "py_opt_str x = (case x of None \<Rightarrow> PyNone | Some s \<Rightarrow> PyStr s)"

lemma py_opt_str_inject [simp]: "py_opt_str x = py_opt_str y \<longleftrightarrow> x = y"
  by (auto simp: py_opt_str_def split: option.splits)

definition py_strs :: "string list \<Rightarrow> pyval" where
  "py_strs xs = PyTuple (map PyStr xs)"

text \<open>\<^verbatim>\<open>d.get(k)\<close> of a dictionary value; anything else has no such key here.\<close>

fun py_get :: "pyval \<Rightarrow> string \<Rightarrow> pyval option" where
  "py_get (PyDict kvs) k = map_of kvs k"
| "py_get _ _ = None"

text \<open>
  The normal forms are idempotent, and they agree on a value without tuples: such a value
  survives a trip through its text.
\<close>

lemma insort_key_map_snd:
  "insort_key fst (k, f v) (map (\<lambda>(k, v). (k, f v)) ys)
     = map (\<lambda>(k, v). (k, f v)) (insort_key fst (k, v) ys)"
  by (induction ys) auto

lemma sort_key_map_snd:
  "sort_key fst (map (\<lambda>(k, v). (k, f v)) kvs) = map (\<lambda>(k, v). (k, f v)) (sort_key fst kvs)"
  by (induction kvs) (auto simp: insort_key_map_snd)

lemma sort_key_idem [simp]: "sort_key fst (sort_key fst xs) = sort_key fst xs"
  by (rule sort_key_id_if_sorted) simp

lemma json_tree_idem [simp]: "json_tree (json_tree v) = json_tree v"
proof (induction v rule: json_tree.induct)
  case (3 kvs)
  have "map (\<lambda>(k, v). (k, json_tree v)) (map (\<lambda>(k, v). (k, json_tree v)) (sort_key fst kvs))
      = map (\<lambda>(k, v). (k, json_tree v)) (sort_key fst kvs)"
    using "3" by auto
  then show ?case
    by (simp only: json_tree.simps sort_key_map_snd sort_key_idem)
qed auto

fun no_tuples :: "pyval \<Rightarrow> bool" where
  "no_tuples (PyList xs) = list_all no_tuples xs"
| "no_tuples (PyTuple xs) = False"
| "no_tuples (PyDict kvs) = list_all (\<lambda>(k, v). no_tuples v) kvs"
| "no_tuples _ = True"

lemma sort_dicts_no_tuples: "no_tuples v \<Longrightarrow> sort_dicts v = json_tree v"
proof (induction v rule: json_tree.induct)
  case (3 kvs)
  have "map (\<lambda>(k, v). (k, sort_dicts v)) kvs = map (\<lambda>(k, v). (k, json_tree v)) kvs"
    using "3" by (auto simp: list_all_iff)
  then show ?case by (simp only: sort_dicts.simps json_tree.simps)
qed (auto simp: list_all_iff)

lemma no_tuples_json_tree: "no_tuples (json_tree v)"
proof (induction v rule: json_tree.induct)
  case (3 kvs)
  then show ?case by (auto simp: list_all_iff)
qed (auto simp: list_all_iff)

lemma py_eq_refl [simp]: "py_eq v v"
  by (simp add: py_eq_def)

lemma py_eq_json_tree: "no_tuples v \<Longrightarrow> py_eq (json_tree v) v"
  by (simp add: py_eq_def sort_dicts_no_tuples no_tuples_json_tree)

text \<open>Reading a key of the tree of a dictionary with distinct keys.\<close>

lemma map_of_sort_key:
  assumes "distinct (map fst kvs)"
  shows "map_of (sort_key fst kvs) = map_of kvs"
proof (rule ext)
  fix k
  have d: "distinct (map fst (sort_key fst kvs))"
  proof -
    have "mset (map fst (sort_key fst kvs)) = mset (map fst kvs)" by simp
    then show ?thesis using assms by (rule mset_eq_imp_distinct_iff [THEN iffD2])
  qed
  have "map_of (sort_key fst kvs) k = Some v \<longleftrightarrow> map_of kvs k = Some v" for v
    by (simp only: map_of_eq_Some_iff [OF d] map_of_eq_Some_iff [OF assms] set_sort)
  then show "map_of (sort_key fst kvs) k = map_of kvs k"
    by (cases "map_of kvs k") (metis not_None_eq)+
qed

lemma py_get_json_tree:
  assumes "distinct (map fst kvs)"
  shows "py_get (json_tree (PyDict kvs)) k = map_option json_tree (map_of kvs k)"
proof -
  have "distinct (map fst (map (\<lambda>(k, v). (k, json_tree v)) kvs))"
    using assms by (simp add: o_def split_def)
  then show ?thesis
    by (simp add: map_of_sort_key map_of_map)
qed

lemma json_tree_py_opt_str [simp]: "json_tree (py_opt_str x) = py_opt_str x"
  by (cases x) (simp_all add: py_opt_str_def)

fun dict_items :: "pyval \<Rightarrow> (string \<times> pyval) list" where
  "dict_items (PyDict kvs) = kvs"
| "dict_items _ = []"

section \<open>Digests\<close>

text \<open>
  \<^verbatim>\<open>sha256(dumps(v, sort_keys=True, ...)).hexdigest()\<close> and
  \<^verbatim>\<open>hmac.new(key, dumps(v, ...), sha256).hexdigest()\<close> are calls of \<^verbatim>\<open>hashlib\<close>
  and \<^verbatim>\<open>hmac\<close>, C code the repository only calls: the model takes them as parameters, a
  function of the tree that \<^verbatim>\<open>dumps\<close> writes. No theorem assumes that a digest is
  injective. Where the code relies on it, the theorem says that either the two inputs agree
  or they are a collision.
\<close>

type_synonym digest = "pyval \<Rightarrow> string"
type_synonym mac = "string \<Rightarrow> pyval \<Rightarrow> string"

definition collision :: "('a \<Rightarrow> 'b) \<Rightarrow> 'a \<Rightarrow> 'a \<Rightarrow> bool" where
  "collision h x y \<longleftrightarrow> x \<noteq> y \<and> h x = h y"

lemma digest_eq_or_collision: "h x = h y \<Longrightarrow> x = y \<or> collision h x y"
  by (auto simp: collision_def)

end
