(* ===== verification/Profiles.thy ===== *)
theory Profiles
  imports Py_Prelude
begin

text \<open>
  The eleven OCS profiles of \<^verbatim>\<open>app/profile_bindings/profiles.py\<close>: the profile record, the
  slug of an OCS name, the constructor \<^verbatim>\<open>_profile\<close>, the table \<^verbatim>\<open>PROFILES\<close>, and the
  validation that the table passes. The lemmas show that the table does pass, that the
  namespaces of distinct OCS are distinct, and what any table that passes guarantees.
\<close>

section \<open>The profile record\<close>

definition KERNEL_INTERFACE_REF :: string where
  "KERNEL_INTERFACE_REF = ''R1-UNIVERSAL-KERNEL@06393743bfc49ba2aa837a0a6e58c6b89bbe1704''"

definition PROFILE_VERSION :: string where
  "PROFILE_VERSION = ''r2-v0.1.0''"

record ocs_profile =
  op_ocs_id :: string
  op_identity :: string
  op_ancestry :: string
  op_constitution_ref :: string
  op_csp_ref :: string
  op_specialty :: string
  op_support_capabilities :: "string list"
  op_authority_envelope_ref :: string
  op_allowed_action_classes :: "string list"
  op_denied_action_classes :: "string list"
  op_evidence_profile :: string
  op_pi_activation_policy :: string
  op_capability_adapters :: "string list"
  op_tool_permissions :: "string list"
  op_state_namespace :: string
  op_memory_namespace :: string
  op_risk_model :: string
  op_stop_policy :: string
  op_handoff_policy :: string
  op_recovery_policy :: string
  op_version :: string
  op_predecessor :: string
  op_rollback_pointer :: string
  op_kernel_interface_ref :: string

section \<open>Slugs\<close>

text \<open>
  \<^verbatim>\<open>normalize("NFKD", s).encode("ascii", "ignore").decode("ascii").lower()\<close>, one code
  point at a time: what the compatibility decomposition of a code point up to U+00FF leaves
  in ASCII, in lower case. An accented letter leaves its base letter, a code point with no
  ASCII part leaves nothing.
\<close>

definition slug_char :: "char \<Rightarrow> string" where
  "slug_char c =
     (let n = (of_char c :: nat)
      in if 65 \<le> n \<and> n \<le> 90 then [char_of (n + 32)]
         else if n < 128 then [c]
         else if n \<in> {160, 168, 175, 180, 184} then '' ''
         else if n = 178 then ''2'' else if n = 179 then ''3'' else if n = 185 then ''1''
         else if n = 188 then ''14'' else if n = 189 then ''12'' else if n = 190 then ''34''
         else if n = 170 \<or> (192 \<le> n \<and> n \<le> 197) \<or> (224 \<le> n \<and> n \<le> 229) then ''a''
         else if n = 199 \<or> n = 231 then ''c''
         else if (200 \<le> n \<and> n \<le> 203) \<or> (232 \<le> n \<and> n \<le> 235) then ''e''
         else if (204 \<le> n \<and> n \<le> 207) \<or> (236 \<le> n \<and> n \<le> 239) then ''i''
         else if n = 209 \<or> n = 241 then ''n''
         else if n = 186 \<or> (210 \<le> n \<and> n \<le> 214) \<or> (242 \<le> n \<and> n \<le> 246) then ''o''
         else if (217 \<le> n \<and> n \<le> 220) \<or> (249 \<le> n \<and> n \<le> 252) then ''u''
         else if n = 221 \<or> n = 253 \<or> n = 255 then ''y''
         else [])"

definition slugify_ocs_id :: "string \<Rightarrow> string" where
  "slugify_ocs_id ocs_id = concat (map slug_char ocs_id)"

section \<open>The table\<close>

definition mk_profile ::
    "string \<Rightarrow> string \<Rightarrow> string list \<Rightarrow> string list \<Rightarrow> string list \<Rightarrow> ocs_profile" where
  "mk_profile ocs_id specialty allowed denied support =
     (let slug = slugify_ocs_id ocs_id
      in \<lparr> op_ocs_id = ocs_id,
           op_identity = ''identity://'' @ slug,
           op_ancestry = ''ancestry://'' @ slug,
           op_constitution_ref = ''constitution://'' @ slug @ ''/current'',
           op_csp_ref = ''csp://'' @ slug @ ''/current'',
           op_specialty = specialty,
           op_support_capabilities = support,
           op_authority_envelope_ref = ''authority://'' @ slug @ ''/current'',
           op_allowed_action_classes = allowed,
           op_denied_action_classes = denied,
           op_evidence_profile = ''evidence://'' @ slug @ ''/risk-dependent'',
           op_pi_activation_policy = ''pi://'' @ slug @ ''/local-only'',
           op_capability_adapters = [],
           op_tool_permissions = [],
           op_state_namespace = ''state://'' @ slug @ ''/'' @ PROFILE_VERSION,
           op_memory_namespace = ''memory://'' @ slug @ ''/'' @ PROFILE_VERSION,
           op_risk_model = ''risk://'' @ slug @ ''/csp-bound'',
           op_stop_policy =
             ''deny_hold_escalate_on_invalid_scope_authority_lease_or_evidence'',
           op_handoff_policy =
             ''context_and_evidence_refs_only;authority_transfer=false;memory_import=false'',
           op_recovery_policy = ''recovery://'' @ slug @ ''/verified-checkpoint-only'',
           op_version = PROFILE_VERSION,
           op_predecessor = KERNEL_INTERFACE_REF,
           op_rollback_pointer = KERNEL_INTERFACE_REF,
           op_kernel_interface_ref = KERNEL_INTERFACE_REF \<rparr>)"

definition NOESIS :: string where "NOESIS = ''N'' @ [CHR 0xD3] @ ''ESIS''"

definition DEDALA :: string where "DEDALA = ''D'' @ [CHR 0xC9] @ ''DALA''"

definition SYNESIS :: string where "SYNESIS = ''S'' @ [CHR 0xDD] @ ''NESIS''"

definition IRIS :: string where "IRIS = [CHR 0xCD] @ ''RIS''"

definition METIS :: string where "METIS = ''M'' @ [CHR 0xCA] @ ''TIS''"

definition AGORA :: string where "AGORA = [CHR 0xC1] @ ''GORA''"

definition TEMIS :: string where "TEMIS = ''T'' @ [CHR 0xCA] @ ''MIS''"

definition PROFILES :: "(string \<times> ocs_profile) list" where
  "PROFILES =
    [(NOESIS, mk_profile NOESIS
        ''orchestration_governance_routing_program_coordination_state''
        [''orchestrate'', ''route'', ''govern_epistemic_state'', ''govern_program_state'']
        [''direct_material_implementation'', ''self_assurance'', ''authority_creation'']
        [''coordination'', ''routing'', ''governance'']),
     (DEDALA, mk_profile DEDALA
        ''technical_architecture_systems_integration_security_recovery''
        [''architectural_analysis'', ''technical_design'', ''technical_recovery_planning'']
        [''unmediated_material_effect'', ''self_assurance'', ''nontechnical_domain_takeover'']
        [''architecture'', ''systems'', ''security'', ''integration'']),
     (SYNESIS, mk_profile SYNESIS
        ''independent_institutional_assurance''
        [''independent_verification'', ''falsification'', ''assurance_judgment'']
        [''primary_construction_under_assurance'', ''self_assurance'', ''promotion'']
        [''assurance'', ''verification'', ''falsification'']),
     (IRIS, mk_profile IRIS
        ''ux_ui_interaction_perception_accessibility''
        [''experience_analysis'', ''design_artifact'', ''accessibility_analysis'']
        [''architecture_security_takeover'', ''self_assurance'', ''authority_expansion'']
        [''ux'', ''ui'', ''accessibility'']),
     (''LYRA'', mk_profile ''LYRA''
        ''branding_identity_positioning_language_brand_communication''
        [''brand_artifact'', ''identity_artifact'', ''positioning_artifact'']
        [''implementation_authority_by_profile'', ''cross_domain_takeover'']
        [''brand'', ''identity'', ''positioning'', ''communication'']),
     (''SOFIA'', mk_profile ''SOFIA''
        ''software_implementation_code_incremental_integration''
        [''software_implementation_via_valid_envelope_lease_effector'']
        [''architecture_rewrite_without_authority'', ''self_assurance'', ''lateral_effect_route'']
        [''code'', ''integration'', ''implementation'']),
     (METIS, mk_profile METIS
        ''research_intelligence_strategy_market_hypotheses''
        [''research'', ''strategic_analysis'', ''falsifiable_recommendation'']
        [''material_execution_by_inference'', ''administrative_system_of_record_takeover'']
        [''research'', ''strategy'', ''market_intelligence'']),
     (AGORA, mk_profile AGORA
        ''technical_qa_software_audit_reproducibility_implementation_conformance''
        [''independent_technical_verification'']
        [''primary_implementation_under_verification'', ''self_assurance'', ''promotion'']
        [''qa'', ''audit'', ''reproducibility'', ''conformance'']),
     (''AURI'', mk_profile ''AURI''
        ''administration_priority_continuity_system_of_record''
        [''administrative_coordination'', ''record_write_with_explicit_authority'']
        [''technical_strategic_authority_by_profile'', ''unconfirmed_write'']
        [''administration'', ''records'', ''continuity'']),
     (''SYNERGEIA'', mk_profile ''SYNERGEIA''
        ''gtm_activation_distribution_channels_market_coordination''
        [''gtm_execution_with_approved_strategy_budget_authority'', ''channel_coordination'']
        [''strategy_invention_as_authority'', ''unapproved_spend'', ''unapproved_publication'']
        [''gtm'', ''activation'', ''distribution'', ''channels'']),
     (TEMIS, mk_profile TEMIS
        ''android_google_play_stewardship''
        [''android_policy_analysis'', ''play_store_readiness_assessment'',
         ''android_architecture_review'']
        [''production_publication'', ''self_assurance'', ''authority_creation'',
         ''unapproved_commerce_change'']
        [''android'', ''google_play'', ''policy'', ''store_readiness''])]"

definition get_profile :: "string \<Rightarrow> ocs_profile res" where
  "get_profile ocs_id =
     (case map_of PROFILES ocs_id of None \<Rightarrow> Inl (KeyError ocs_id) | Some p \<Rightarrow> Inr p)"

section \<open>Validation\<close>

fun validate_each :: "ocs_profile list \<Rightarrow> unit res" where
  "validate_each [] = Inr ()"
| "validate_each (p # ps) =
     (if op_authority_envelope_ref p = [] then
        Inl (ValueError ''explicit_authority_reference_required'')
      else if op_kernel_interface_ref p \<noteq> KERNEL_INTERFACE_REF then
        Inl (ValueError ''kernel_interface_mismatch'')
      else if \<not> contains_str ''authority_transfer=false'' (op_handoff_policy p) then
        Inl (ValueError ''handoff_authority_transfer_prohibited'')
      else if \<not> contains_str ''memory_import=false'' (op_handoff_policy p) then
        Inl (ValueError ''cross_ocs_memory_import_prohibited'')
      else if op_capability_adapters p \<noteq> [] \<or> op_tool_permissions p \<noteq> [] then
        Inl (ValueError ''direct_effect_route_prohibited'')
      else validate_each ps)"

definition validate_profiles :: "(string \<times> ocs_profile) list \<Rightarrow> unit res" where
  "validate_profiles profiles =
     (let ps = map snd profiles
      in if length profiles \<noteq> 11 then
           Inl (ValueError ''eleven_distinct_ocs_profiles_required'')
         else if length (remdups (map op_identity ps)) \<noteq> 11 then
           Inl (ValueError ''profile_identity_merge_prohibited'')
         else if length (remdups (map op_state_namespace ps)) \<noteq> 11 then
           Inl (ValueError ''state_namespace_isolation_required'')
         else if length (remdups (map op_memory_namespace ps)) \<noteq> 11 then
           Inl (ValueError ''memory_namespace_isolation_required'')
         else validate_each ps)"

section \<open>What the validation guarantees\<close>

lemma distinct_if_remdups_length:
  "length (remdups xs) = n \<Longrightarrow> length xs = n \<Longrightarrow> distinct xs"
  by (metis card_distinct length_remdups_card_conv)

lemma validate_each_Inr:
  "validate_each ps = Inr () \<longleftrightarrow>
     (\<forall>p \<in> set ps. op_authority_envelope_ref p \<noteq> [] \<and>
        op_kernel_interface_ref p = KERNEL_INTERFACE_REF \<and>
        contains_str ''authority_transfer=false'' (op_handoff_policy p) \<and>
        contains_str ''memory_import=false'' (op_handoff_policy p) \<and>
        op_capability_adapters p = [] \<and> op_tool_permissions p = [])"
  by (induction ps) auto

lemma validate_profiles_Inr:
  "validate_profiles profiles = Inr () \<longleftrightarrow>
     length profiles = 11 \<and>
     length (remdups (map (op_identity \<circ> snd) profiles)) = 11 \<and>
     length (remdups (map (op_state_namespace \<circ> snd) profiles)) = 11 \<and>
     length (remdups (map (op_memory_namespace \<circ> snd) profiles)) = 11 \<and>
     validate_each (map snd profiles) = Inr ()"
  by (auto simp: validate_profiles_def Let_def o_def split: if_splits)

lemma map_snd_distinct_lookup:
  assumes "distinct (map (f \<circ> snd) d)" "map_of d k = Some p" "map_of d k' = Some q" "k \<noteq> k'"
  shows "f p \<noteq> f q"
proof -
  from assms(2,3) have "(k, p) \<in> set d" "(k', q) \<in> set d" by (auto dest: map_of_SomeD)
  with assms(1,4) show ?thesis
    by (simp add: distinct_map inj_on_def) (metis Pair_inject snd_conv)
qed

text \<open>
  A table that passes \<^verbatim>\<open>validate_profiles\<close> isolates its eleven profiles: looked up
  under two names, two profiles that are not one entry differ in their identity, in their state
  namespace and in their memory namespace, and no profile has a direct route to an effect.
\<close>

lemma validated_profiles_isolated:
  assumes "validate_profiles table = Inr ()"
    and "map_of table a = Some p" and "map_of table b = Some q" and "a \<noteq> b"
  shows "op_identity p \<noteq> op_identity q \<and> op_state_namespace p \<noteq> op_state_namespace q \<and>
    op_memory_namespace p \<noteq> op_memory_namespace q \<and>
    op_capability_adapters p = [] \<and> op_tool_permissions p = []"
proof -
  have "distinct (map (op_identity \<circ> snd) table)" "distinct (map (op_state_namespace \<circ> snd) table)"
    "distinct (map (op_memory_namespace \<circ> snd) table)"
    using assms(1) by (auto simp: validate_profiles_Inr intro: distinct_if_remdups_length)
  moreover have "p \<in> set (map snd table)"
    using assms(2) by (force dest: map_of_SomeD)
  ultimately show ?thesis
    using assms(1) map_snd_distinct_lookup [OF _ assms(2,3,4)]
    by (auto simp: validate_profiles_Inr validate_each_Inr)
qed

lemma PROFILES_valid: "validate_profiles PROFILES = Inr ()"
  by code_simp

lemma PROFILES_lookup:
  "\<exists>p. map_of PROFILES ''AURI'' = Some p" "\<exists>p. map_of PROFILES ''SYNERGEIA'' = Some p"
  by (simp_all add: PROFILES_def NOESIS_def DEDALA_def SYNESIS_def IRIS_def METIS_def AGORA_def
      TEMIS_def)

lemma validated_profiles_isolated_witness:
  "\<exists>p q. map_of PROFILES ''AURI'' = Some p \<and> map_of PROFILES ''SYNERGEIA'' = Some q \<and>
     op_state_namespace p \<noteq> op_state_namespace q"
proof -
  obtain p q where "map_of PROFILES ''AURI'' = Some p" "map_of PROFILES ''SYNERGEIA'' = Some q"
    using PROFILES_lookup by blast
  with validated_profiles_isolated [OF PROFILES_valid this] show ?thesis by auto
qed

end
