(* ===== verification/Chained_Log.thy ===== *)
theory Chained_Log
  imports Py_Prelude
begin

text \<open>
  The contract of an append-only log whose entries name their predecessor, stated once for the
  identity audit log, the kernel's trace and the other ledgers: appending extends the log by
  one entry and keeps it valid, and a prefix of a valid log is valid. What a client may rely on
  after any number of appends is proved here and used through the interpretations.
\<close>

locale chained_log =
  fixes snoc :: "'x \<Rightarrow> 'e list \<Rightarrow> 'e list"
    and valid :: "'e list \<Rightarrow> bool"
  assumes valid_Nil: "valid []"
    and snoc_extends: "\<exists>e. snoc x l = l @ [e]"
    and valid_snoc: "valid l \<Longrightarrow> valid (snoc x l)"
    and valid_prefix: "valid (l @ l') \<Longrightarrow> valid l"
begin

lemma appends_valid: "valid l \<Longrightarrow> valid (fold snoc xs l)"
  by (induction xs arbitrary: l) (auto intro: valid_snoc)

lemma appends_extend: "\<exists>es. fold snoc xs l = l @ es \<and> length es = length xs"
proof (induction xs arbitrary: l)
  case (Cons x xs)
  obtain e where "snoc x l = l @ [e]" using snoc_extends by blast
  moreover obtain es where "fold snoc xs (snoc x l) = snoc x l @ es \<and> length es = length xs"
    using Cons.IH by blast
  ultimately show ?case by (intro exI [of _ "e # es"]) simp
qed simp

lemma appends_from_empty: "valid (fold snoc xs []) \<and> length (fold snoc xs []) = length xs"
  using appends_valid [OF valid_Nil] appends_extend [of xs "[]"] by auto

lemma invalid_forever: "\<not> valid l \<Longrightarrow> \<not> valid (fold snoc xs l)"
  using appends_extend [of xs l] valid_prefix by metis

end

end
