(* ===== verification/Identity.thy ===== *)
theory Identity
  imports Profiles Chained_Log
begin

text \<open>
  \<^verbatim>\<open>app/universal_kernel/identity.py\<close>: the binding of a run to an OCS identity, the
  hash-chained audit log and the guard that binds, recovers, revalidates and holds
  identities. The log's file is left out: a log is the list of its events, and loading a file
  is taking over the list it holds. A guard is its profile table, its log and its
  \<^verbatim>\<open>_bindings\<close> dictionary; every operation threads it.
\<close>

section \<open>Bindings\<close>

definition INSTITUTION :: string where
  "INSTITUTION = ''REIS OS''"

datatype identity_status = Id_VALID | Id_HOLD

fun identity_status_value :: "identity_status \<Rightarrow> string" where
  "identity_status_value Id_VALID = ''valid''"
| "identity_status_value Id_HOLD = ''hold''"

datatype recheck_trigger =
    NEW_OCS_MENTION | AMBIGUOUS_PRONOUN | HANDOFF | HOST_REFERENCE | CAUSAL_ATTRIBUTION
  | LONG_CONTEXT_DRIFT | IDENTITY_CONFLICT | PRE_ACTION | PRE_PERSIST | PRE_HANDOFF | COLD_START

fun trigger_value :: "recheck_trigger \<Rightarrow> string" where
  "trigger_value NEW_OCS_MENTION = ''new_ocs_mention''"
| "trigger_value AMBIGUOUS_PRONOUN = ''ambiguous_pronoun''"
| "trigger_value HANDOFF = ''handoff''"
| "trigger_value HOST_REFERENCE = ''host_reference''"
| "trigger_value CAUSAL_ATTRIBUTION = ''causal_attribution''"
| "trigger_value LONG_CONTEXT_DRIFT = ''long_context_drift''"
| "trigger_value IDENTITY_CONFLICT = ''identity_conflict''"
| "trigger_value PRE_ACTION = ''pre_action''"
| "trigger_value PRE_PERSIST = ''pre_persist''"
| "trigger_value PRE_HANDOFF = ''pre_handoff''"
| "trigger_value COLD_START = ''cold_start''"

record active_binding =
  ab_run_id :: string
  ab_ocs_canonical_name :: string
  ab_ocs_id :: string
  ab_institution :: string
  ab_lineage_ref :: string
  ab_identity_ref :: string
  ab_constitution_ref :: string
  ab_csp_ref :: string
  ab_host :: string
  ab_session_context :: string
  ab_state_namespace :: string
  ab_memory_namespace :: string
  ab_authority_envelope_ref :: string
  ab_profile_version :: string
  ab_bound_at :: pytime
  ab_status :: identity_status
  ab_hold_reason :: "string option"

record revalidation_result =
  rv_valid :: bool
  rv_reason :: string
  rv_binding :: "active_binding option"

text \<open>\<^verbatim>\<open>asdict(binding)\<close> with the status replaced by its value.\<close>

definition binding_data :: "active_binding \<Rightarrow> pyval" where
  "binding_data b = PyDict
     [(''run_id'', PyStr (ab_run_id b)),
      (''ocs_canonical_name'', PyStr (ab_ocs_canonical_name b)),
      (''ocs_id'', PyStr (ab_ocs_id b)),
      (''institution'', PyStr (ab_institution b)),
      (''lineage_ref'', PyStr (ab_lineage_ref b)),
      (''identity_ref'', PyStr (ab_identity_ref b)),
      (''constitution_ref'', PyStr (ab_constitution_ref b)),
      (''csp_ref'', PyStr (ab_csp_ref b)),
      (''host'', PyStr (ab_host b)),
      (''session_context'', PyStr (ab_session_context b)),
      (''state_namespace'', PyStr (ab_state_namespace b)),
      (''memory_namespace'', PyStr (ab_memory_namespace b)),
      (''authority_envelope_ref'', PyStr (ab_authority_envelope_ref b)),
      (''profile_version'', PyStr (ab_profile_version b)),
      (''bound_at'', PyFloat (ab_bound_at b)),
      (''status'', PyStr (identity_status_value (ab_status b))),
      (''hold_reason'', py_opt_str (ab_hold_reason b))]"

section \<open>The audit log\<close>

record identity_event =
  ie_sequence :: int
  ie_event_type :: string
  ie_run_id :: string
  ie_ocs_id :: string
  ie_binding :: active_binding
  ie_details :: pyval
  ie_predecessor_hash :: "string option"
  ie_event_hash :: string

type_synonym identity_log = "identity_event list"

definition hash_payload :: "digest \<Rightarrow> pyval \<Rightarrow> string" where
  "hash_payload H payload = H (json_tree payload)"

definition binding_hash :: "digest \<Rightarrow> active_binding \<Rightarrow> string" where
  "binding_hash H b = H (json_tree (binding_data b))"

definition event_base ::
    "int \<Rightarrow> string \<Rightarrow> string \<Rightarrow> string \<Rightarrow> active_binding \<Rightarrow> pyval \<Rightarrow> string option \<Rightarrow> pyval" where
  "event_base sequence event_type run_id ocs_id binding details predecessor_hash = PyDict
     [(''sequence'', PyInt sequence),
      (''event_type'', PyStr event_type),
      (''run_id'', PyStr run_id),
      (''ocs_id'', PyStr ocs_id),
      (''binding'', binding_data binding),
      (''details'', details),
      (''predecessor_hash'', py_opt_str predecessor_hash)]"

definition last_event_hash :: "identity_log \<Rightarrow> string option" where
  "last_event_hash evs = (if evs = [] then None else Some (ie_event_hash (last evs)))"

definition make_event ::
    "digest \<Rightarrow> identity_log \<Rightarrow> string \<Rightarrow> active_binding \<Rightarrow> pyval \<Rightarrow> identity_event" where
  "make_event H evs event_type b details =
     (let sequence = int (length evs) + 1;
          predecessor_hash = last_event_hash evs;
          base = event_base sequence event_type (ab_run_id b) (ab_ocs_id b) b details
                   predecessor_hash
      in \<lparr> ie_sequence = sequence, ie_event_type = event_type, ie_run_id = ab_run_id b,
           ie_ocs_id = ab_ocs_id b, ie_binding = b, ie_details = details,
           ie_predecessor_hash = predecessor_hash, ie_event_hash = hash_payload H base \<rparr>)"

definition audit_append ::
    "digest \<Rightarrow> string \<Rightarrow> active_binding \<Rightarrow> pyval \<Rightarrow> identity_log \<Rightarrow> identity_log" where
  "audit_append H event_type b details evs = evs @ [make_event H evs event_type b details]"

definition event_payload :: "identity_event \<Rightarrow> pyval" where
  "event_payload e =
     event_base (ie_sequence e) (ie_event_type e) (ie_run_id e) (ie_ocs_id e) (ie_binding e)
       (ie_details e) (ie_predecessor_hash e)"

text \<open>The loop of \<^verbatim>\<open>chain_is_valid\<close>, from an expected sequence number and predecessor.\<close>

fun chain_from :: "digest \<Rightarrow> int \<Rightarrow> string option \<Rightarrow> identity_log \<Rightarrow> bool" where
  "chain_from H expected predecessor [] = True"
| "chain_from H expected predecessor (e # es) =
     (if ie_sequence e \<noteq> expected \<or> ie_predecessor_hash e \<noteq> predecessor then False
      else if hash_payload H (event_payload e) \<noteq> ie_event_hash e then False
      else chain_from H (expected + 1) (Some (ie_event_hash e)) es)"

definition chain_is_valid :: "digest \<Rightarrow> identity_log \<Rightarrow> bool" where
  "chain_is_valid H evs = chain_from H 1 None evs"

text \<open>
  The events carry the binding as the dictionary \<^verbatim>\<open>append\<close> wrote; reading its fields
  back is reading the record's.
\<close>

definition binding_from_event :: "identity_event \<Rightarrow> active_binding" where
  "binding_from_event e = ie_binding e"

definition recover_current_binding ::
    "digest \<Rightarrow> identity_log \<Rightarrow> string \<Rightarrow> active_binding option res" where
  "recover_current_binding H evs run_id =
     (if \<not> chain_is_valid H evs then Inl (RuntimeError ''identity_log_integrity_failed'')
      else case find (\<lambda>e. ie_run_id e = run_id) (rev evs) of
             None \<Rightarrow> Inr None
           | Some e \<Rightarrow>
               (let binding = binding_from_event e
                in if ab_status binding = Id_HOLD
                   then Inl (ValueError ''identity_hold_rebind_required'')
                   else Inr (Some binding)))"

definition load_log :: "digest \<Rightarrow> identity_event list \<Rightarrow> identity_log res" where
  "load_log H stored =
     (if chain_is_valid H stored then Inr stored
      else Inl (RuntimeError ''identity_log_integrity_failed''))"

section \<open>The guard\<close>

record identity_guard =
  ig_profiles :: "(string \<times> ocs_profile) list"
  ig_log :: identity_log
  ig_bindings :: "(string \<times> active_binding) list"

definition new_guard :: "(string \<times> ocs_profile) list \<Rightarrow> identity_log \<Rightarrow> identity_guard" where
  "new_guard profiles evs = \<lparr> ig_profiles = profiles, ig_log = evs, ig_bindings = [] \<rparr>"

definition binding_for :: "identity_guard \<Rightarrow> string \<Rightarrow> active_binding option" where
  "binding_for g run_id = map_of (ig_bindings g) run_id"

definition guard_log ::
    "digest \<Rightarrow> string \<Rightarrow> active_binding \<Rightarrow> pyval \<Rightarrow> (identity_guard, unit) py" where
  "guard_log H event_type b details =
     py_modify (\<lambda>g. g\<lparr>ig_log := audit_append H event_type b details (ig_log g)\<rparr>)"

definition set_binding :: "string \<Rightarrow> active_binding \<Rightarrow> (identity_guard, unit) py" where
  "set_binding run_id b = py_modify (\<lambda>g. g\<lparr>ig_bindings := dset run_id b (ig_bindings g)\<rparr>)"

definition binding_of_profile ::
    "ocs_profile \<Rightarrow> string \<Rightarrow> string \<Rightarrow> string \<Rightarrow> pytime \<Rightarrow> active_binding" where
  "binding_of_profile p run_id host session_context now =
     \<lparr> ab_run_id = run_id,
       ab_ocs_canonical_name = op_ocs_id p,
       ab_ocs_id = op_ocs_id p,
       ab_institution = INSTITUTION,
       ab_lineage_ref = op_ancestry p,
       ab_identity_ref = op_identity p,
       ab_constitution_ref = op_constitution_ref p,
       ab_csp_ref = op_csp_ref p,
       ab_host = host,
       ab_session_context = session_context,
       ab_state_namespace = op_state_namespace p,
       ab_memory_namespace = op_memory_namespace p,
       ab_authority_envelope_ref = op_authority_envelope_ref p,
       ab_profile_version = op_version p,
       ab_bound_at = now,
       ab_status = Id_VALID,
       ab_hold_reason = None \<rparr>"

definition bind_active_identity ::
    "digest \<Rightarrow> pytime \<Rightarrow> string \<Rightarrow> string \<Rightarrow> string \<Rightarrow> string
       \<Rightarrow> (identity_guard, active_binding) py" where
  "bind_active_identity H now run_id ocs_id host session_context =
     (if run_id = [] \<or> host = [] \<or> session_context = [] then
        py_raise (ValueError ''identity_binding_fields_required'')
      else
        py_bind (py_gets (\<lambda>g. map_of (ig_profiles g) ocs_id)) (\<lambda>profile.
        case profile of
          None \<Rightarrow> py_raise (ValueError ''unknown_ocs_identity'')
        | Some p \<Rightarrow>
            (let b = binding_of_profile p run_id host session_context now
             in py_bind (set_binding run_id b) (\<lambda>_.
                py_bind (guard_log H ''BIND_ACTIVE_IDENTITY'' b (PyDict [])) (\<lambda>_.
                py_return b)))))"

definition validate_profile_binding ::
    "(string \<times> ocs_profile) list \<Rightarrow> active_binding \<Rightarrow> unit res" where
  "validate_profile_binding profiles b =
     (case map_of profiles (ab_ocs_id b) of
        None \<Rightarrow> Inl (ValueError ''unknown_ocs_identity'')
      | Some p \<Rightarrow>
          if ab_institution b \<noteq> INSTITUTION then
            Inl (ValueError ''institution_identity_mismatch'')
          else if ab_identity_ref b \<noteq> op_identity p then
            Inl (ValueError ''identity_profile_mismatch'')
          else if ab_lineage_ref b \<noteq> op_ancestry p then
            Inl (ValueError ''identity_lineage_mismatch'')
          else if ab_constitution_ref b \<noteq> op_constitution_ref p then
            Inl (ValueError ''identity_constitution_mismatch'')
          else if ab_csp_ref b \<noteq> op_csp_ref p then
            Inl (ValueError ''identity_csp_mismatch'')
          else if ab_state_namespace b \<noteq> op_state_namespace p then
            Inl (ValueError ''identity_state_namespace_mismatch'')
          else if ab_memory_namespace b \<noteq> op_memory_namespace p then
            Inl (ValueError ''identity_memory_namespace_mismatch'')
          else if ab_profile_version b \<noteq> op_version p then
            Inl (ValueError ''identity_profile_version_mismatch'')
          else Inr ())"

definition recover_state :: "digest \<Rightarrow> string \<Rightarrow> (identity_guard, active_binding) py" where
  "recover_state H run_id =
     py_bind (\<lambda>g. py_lift (recover_current_binding H (ig_log g) run_id) g) (\<lambda>recovered.
     case recovered of
       None \<Rightarrow> py_raise (ValueError ''identity_recovery_source_missing'')
     | Some b \<Rightarrow>
         py_bind (\<lambda>g. py_lift (validate_profile_binding (ig_profiles g) b) g) (\<lambda>_.
         py_bind (set_binding run_id b) (\<lambda>_.
         py_bind (guard_log H ''RECOVER_IDENTITY'' b
                    (PyDict [(''source'', PyStr ''hazel_identity_log'')])) (\<lambda>_.
         py_return b))))"

definition hold_identity :: "digest \<Rightarrow> string \<Rightarrow> string \<Rightarrow> (identity_guard, active_binding) py" where
  "hold_identity H run_id reason =
     py_bind (py_gets (\<lambda>g. binding_for g run_id)) (\<lambda>binding.
     case binding of
       None \<Rightarrow> py_raise (ValueError ''identity_binding_required'')
     | Some b \<Rightarrow>
         (let held = b\<lparr>ab_status := Id_HOLD, ab_hold_reason := Some reason\<rparr>
          in py_bind (set_binding run_id held) (\<lambda>_.
             py_bind (guard_log H ''IDENTITY_HOLD'' held (PyDict [(''reason'', PyStr reason)]))
             (\<lambda>_. py_return held))))"

definition hold_and_reject ::
    "digest \<Rightarrow> string \<Rightarrow> string \<Rightarrow> (identity_guard, revalidation_result) py" where
  "hold_and_reject H run_id reason =
     py_bind (hold_identity H run_id reason) (\<lambda>held.
     py_return \<lparr> rv_valid = False, rv_reason = reason, rv_binding = Some held \<rparr>)"

definition hold_reason_or :: "active_binding \<Rightarrow> string" where
  "hold_reason_or b =
     (case ab_hold_reason b of
        None \<Rightarrow> ''identity_hold''
      | Some r \<Rightarrow> if r = [] then ''identity_hold'' else r)"

definition revalidate ::
    "digest \<Rightarrow> string \<Rightarrow> string \<Rightarrow> recheck_trigger \<Rightarrow> string option
       \<Rightarrow> (identity_guard, revalidation_result) py" where
  "revalidate H run_id expected_ocs trigger host =
     py_bind (py_gets (\<lambda>g. (binding_for g run_id, ig_profiles g))) (\<lambda>(binding, profiles).
     case binding of
       None \<Rightarrow>
         py_return \<lparr> rv_valid = False, rv_reason = ''identity_binding_required'',
                     rv_binding = None \<rparr>
     | Some b \<Rightarrow>
         (case validate_profile_binding profiles b of
            Inl e \<Rightarrow> hold_and_reject H run_id (exn_str e)
          | Inr _ \<Rightarrow>
              if ab_status b \<noteq> Id_VALID then
                py_return \<lparr> rv_valid = False, rv_reason = hold_reason_or b,
                            rv_binding = Some b \<rparr>
              else if expected_ocs \<noteq> ab_ocs_id b then
                hold_and_reject H run_id ''active_ocs_identity_mismatch''
              else if host \<noteq> None \<and> host \<noteq> Some (ab_host b) then
                hold_and_reject H run_id ''host_identity_context_mismatch''
              else
                py_bind (guard_log H ''IDENTITY_REVALIDATION'' b
                           (PyDict [(''trigger'', PyStr (trigger_value trigger)),
                                    (''result'', PyStr ''valid'')])) (\<lambda>_.
                py_return \<lparr> rv_valid = True, rv_reason = ''identity_valid'',
                            rv_binding = Some b \<rparr>)))"

definition require_valid ::
    "digest \<Rightarrow> string \<Rightarrow> string \<Rightarrow> recheck_trigger \<Rightarrow> string option
       \<Rightarrow> (identity_guard, active_binding) py" where
  "require_valid H run_id expected_ocs trigger host =
     py_bind (revalidate H run_id expected_ocs trigger host) (\<lambda>result.
     case (rv_valid result, rv_binding result) of
       (True, Some b) \<Rightarrow> py_return b
     | _ \<Rightarrow> py_raise (ValueError (rv_reason result)))"

definition rebind ::
    "digest \<Rightarrow> pytime \<Rightarrow> string \<Rightarrow> string \<Rightarrow> string \<Rightarrow> string \<Rightarrow> string
       \<Rightarrow> (identity_guard, active_binding) py" where
  "rebind H now run_id ocs_id host session_context reason =
     py_bind (py_gets (\<lambda>g. binding_for g run_id)) (\<lambda>previous.
     py_bind (bind_active_identity H now run_id ocs_id host session_context) (\<lambda>b.
     py_bind (guard_log H ''IDENTITY_REBIND'' b
                (PyDict [(''reason'', PyStr reason),
                         (''previous_ocs'', py_opt_str (map_option ab_ocs_id previous))])) (\<lambda>_.
     py_return b)))"

section \<open>The chain\<close>

lemma chain_from_snoc:
  "chain_from H n p (xs @ [e]) \<longleftrightarrow>
     chain_from H n p xs \<and> ie_sequence e = n + int (length xs) \<and>
     ie_predecessor_hash e = (if xs = [] then p else Some (ie_event_hash (last xs))) \<and>
     hash_payload H (event_payload e) = ie_event_hash e"
  by (induction xs arbitrary: n p) (auto simp: algebra_simps)

lemma chain_snoc:
  "chain_is_valid H (xs @ [e]) \<longleftrightarrow>
     chain_is_valid H xs \<and> ie_sequence e = int (length xs) + 1 \<and>
     ie_predecessor_hash e = last_event_hash xs \<and>
     hash_payload H (event_payload e) = ie_event_hash e"
  by (auto simp: chain_is_valid_def chain_from_snoc last_event_hash_def)

lemma chain_make_event: "chain_is_valid H l \<Longrightarrow> chain_is_valid H (l @ [make_event H l t b d])"
  by (simp add: chain_snoc) (simp add: make_event_def Let_def event_payload_def)

lemma chain_from_prefix: "chain_from H n p (xs @ ys) \<Longrightarrow> chain_from H n p xs"
  by (induction xs arbitrary: n p) (auto split: if_splits)

interpretation identity_log: chained_log
  "\<lambda>(t, b, d). audit_append H t b d" "chain_is_valid H" for H
proof unfold_locales
  show "chain_is_valid H []" by (simp add: chain_is_valid_def)
next
  fix x and l :: identity_log
  show "\<exists>e. (case x of (t, b, d) \<Rightarrow> audit_append H t b d) l = l @ [e]"
    by (cases x) (simp add: audit_append_def)
next
  fix l :: identity_log and x
  assume "chain_is_valid H l"
  then show "chain_is_valid H ((case x of (t, b, d) \<Rightarrow> audit_append H t b d) l)"
    by (cases x) (simp add: audit_append_def chain_make_event)
next
  fix l l' :: identity_log
  assume "chain_is_valid H (l @ l')"
  then show "chain_is_valid H l"
    by (auto simp: chain_is_valid_def intro: chain_from_prefix)
qed

lemma identity_status_value_inject [simp]:
  "identity_status_value s = identity_status_value t \<longleftrightarrow> s = t"
  by (cases s; cases t) simp_all

lemma binding_tree_get:
  "py_get (json_tree (binding_data b)) k
     = map_option json_tree (map_of (dict_items (binding_data b)) k)"
  unfolding binding_data_def dict_items.simps by (rule py_get_json_tree) simp

lemma binding_data_tree_inject:
  assumes "json_tree (binding_data b) = json_tree (binding_data c)"
  shows "b = c"
proof -
  have get: "map_option json_tree (map_of (dict_items (binding_data b)) k)
           = map_option json_tree (map_of (dict_items (binding_data c)) k)" for k
    using assms by (simp only: binding_tree_get [symmetric])
  show ?thesis
  proof (rule active_binding.equality)
    show "ab_run_id b = ab_run_id c" using get [of "''run_id''"] by (simp add: binding_data_def)
    show "ab_ocs_canonical_name b = ab_ocs_canonical_name c"
      using get [of "''ocs_canonical_name''"] by (simp add: binding_data_def)
    show "ab_ocs_id b = ab_ocs_id c" using get [of "''ocs_id''"] by (simp add: binding_data_def)
    show "ab_institution b = ab_institution c"
      using get [of "''institution''"] by (simp add: binding_data_def)
    show "ab_lineage_ref b = ab_lineage_ref c"
      using get [of "''lineage_ref''"] by (simp add: binding_data_def)
    show "ab_identity_ref b = ab_identity_ref c"
      using get [of "''identity_ref''"] by (simp add: binding_data_def)
    show "ab_constitution_ref b = ab_constitution_ref c"
      using get [of "''constitution_ref''"] by (simp add: binding_data_def)
    show "ab_csp_ref b = ab_csp_ref c" using get [of "''csp_ref''"] by (simp add: binding_data_def)
    show "ab_host b = ab_host c" using get [of "''host''"] by (simp add: binding_data_def)
    show "ab_session_context b = ab_session_context c"
      using get [of "''session_context''"] by (simp add: binding_data_def)
    show "ab_state_namespace b = ab_state_namespace c"
      using get [of "''state_namespace''"] by (simp add: binding_data_def)
    show "ab_memory_namespace b = ab_memory_namespace c"
      using get [of "''memory_namespace''"] by (simp add: binding_data_def)
    show "ab_authority_envelope_ref b = ab_authority_envelope_ref c"
      using get [of "''authority_envelope_ref''"] by (simp add: binding_data_def)
    show "ab_profile_version b = ab_profile_version c"
      using get [of "''profile_version''"] by (simp add: binding_data_def)
    show "ab_bound_at b = ab_bound_at c"
      using get [of "''bound_at''"] by (simp add: binding_data_def)
    show "ab_status b = ab_status c" using get [of "''status''"] by (simp add: binding_data_def)
    show "ab_hold_reason b = ab_hold_reason c"
      using get [of "''hold_reason''"] by (simp add: binding_data_def)
  qed simp
qed

definition event_tree :: "identity_event \<Rightarrow> pyval" where
  "event_tree e = json_tree (event_payload e)"

lemma event_tree_get:
  "py_get (event_tree e) k = map_option json_tree (map_of (dict_items (event_payload e)) k)"
  unfolding event_tree_def event_payload_def event_base_def dict_items.simps
  by (rule py_get_json_tree) simp

lemma event_tree_inject:
  assumes "event_tree d = event_tree e"
  shows "ie_sequence d = ie_sequence e \<and> ie_event_type d = ie_event_type e
    \<and> ie_run_id d = ie_run_id e \<and> ie_ocs_id d = ie_ocs_id e \<and> ie_binding d = ie_binding e
    \<and> json_tree (ie_details d) = json_tree (ie_details e)
    \<and> ie_predecessor_hash d = ie_predecessor_hash e"
proof -
  have get: "map_option json_tree (map_of (dict_items (event_payload d)) k)
           = map_option json_tree (map_of (dict_items (event_payload e)) k)" for k
    using assms by (simp only: event_tree_get [symmetric])
  have "json_tree (binding_data (ie_binding d)) = json_tree (binding_data (ie_binding e))"
    using get [of "''binding''"] by (simp add: event_payload_def event_base_def)
  then have "ie_binding d = ie_binding e" by (rule binding_data_tree_inject)
  then show ?thesis
    using get [of "''sequence''"] get [of "''event_type''"] get [of "''run_id''"]
      get [of "''ocs_id''"] get [of "''details''"] get [of "''predecessor_hash''"]
    by (simp add: event_payload_def event_base_def)
qed

lemma chain_determined_by_last:
  assumes "chain_is_valid H xs" "chain_is_valid H ys" "last_event_hash xs = last_event_hash ys"
  shows "map event_tree xs = map event_tree ys
     \<or> (\<exists>x \<in> set xs. \<exists>y \<in> set ys. collision H (event_tree x) (event_tree y))"
  using assms
proof (induction xs arbitrary: ys rule: rev_induct)
  case Nil
  then show ?case by (simp add: last_event_hash_def split: if_splits)
next
  case (snoc x xs)
  from snoc.prems(3) have "ys \<noteq> []" by (auto simp: last_event_hash_def)
  then obtain zs y where ys: "ys = zs @ [y]" by (metis rev_exhaust)
  have h: "H (event_tree x) = H (event_tree y)"
    using snoc.prems by (simp add: ys chain_snoc last_event_hash_def hash_payload_def event_tree_def)
  show ?case
  proof (cases "event_tree x = event_tree y")
    case True
    then have "last_event_hash xs = last_event_hash zs"
      using snoc.prems(1,2) event_tree_inject [OF True] by (simp add: ys chain_snoc)
    then show ?thesis
      using snoc.IH [of zs] snoc.prems(1,2) True by (auto simp: ys chain_snoc)
  next
    case False
    then show ?thesis using h by (auto simp: ys collision_def)
  qed
qed

section \<open>Bindings and the log agree\<close>

definition last_logged :: "string \<Rightarrow> identity_log \<Rightarrow> active_binding option" where
  "last_logged run_id l = map_option ie_binding (find (\<lambda>e. ie_run_id e = run_id) (rev l))"

lemma last_logged_append:
  "last_logged r (audit_append H t b d l) = (if ab_run_id b = r then Some b else last_logged r l)"
  by (simp add: last_logged_def audit_append_def make_event_def Let_def)

definition log_consistent :: "identity_log \<Rightarrow> bool" where
  "log_consistent l \<longleftrightarrow> (\<forall>e \<in> set l. ie_run_id e = ab_run_id (ie_binding e))"

definition guard_inv :: "digest \<Rightarrow> identity_guard \<Rightarrow> bool" where
  "guard_inv H g \<longleftrightarrow>
     chain_is_valid H (ig_log g) \<and> log_consistent (ig_log g) \<and>
     (\<forall>r b. binding_for g r = Some b \<longrightarrow> ab_run_id b = r \<and> last_logged r (ig_log g) = Some b)"

lemma guard_inv_new:
  "chain_is_valid H l \<Longrightarrow> log_consistent l \<Longrightarrow> guard_inv H (new_guard profiles l)"
  by (simp add: guard_inv_def new_guard_def binding_for_def)

lemma log_consistent_append: "log_consistent l \<Longrightarrow> log_consistent (audit_append H t b d l)"
  by (auto simp: log_consistent_def audit_append_def make_event_def Let_def)

lemma chain_append: "chain_is_valid H l \<Longrightarrow> chain_is_valid H (audit_append H t b d l)"
  by (simp add: audit_append_def chain_make_event)

text \<open>The two ways an operation writes: a new binding with its event, or an event only.\<close>

lemma guard_inv_record:
  assumes "guard_inv H g" and "ab_run_id b = r"
  shows "guard_inv H (g\<lparr>ig_bindings := dset r b (ig_bindings g),
                        ig_log := audit_append H t b d (ig_log g)\<rparr>)"
  using assms
  by (auto simp: guard_inv_def binding_for_def last_logged_append log_consistent_append chain_append)

lemma guard_inv_log:
  assumes "guard_inv H g" and "binding_for g r = Some b"
  shows "guard_inv H (g\<lparr>ig_log := audit_append H t b d (ig_log g)\<rparr>)"
proof -
  have "ab_run_id b = r" using assms by (simp add: guard_inv_def)
  then show ?thesis
    using assms
    by (auto simp: guard_inv_def binding_for_def last_logged_append log_consistent_append
        chain_append)
qed

lemmas guard_simps = py_simps guard_log_def set_binding_def binding_for_def

lemma bind_cases:
  obtains e where "bind_active_identity H now r ocs h c g = (Inl e, g)"
  | p where "r \<noteq> []" "h \<noteq> []" "c \<noteq> []" "map_of (ig_profiles g) ocs = Some p"
      "bind_active_identity H now r ocs h c g =
        (Inr (binding_of_profile p r h c now),
         g\<lparr>ig_bindings := dset r (binding_of_profile p r h c now) (ig_bindings g),
           ig_log := audit_append H ''BIND_ACTIVE_IDENTITY'' (binding_of_profile p r h c now)
             (PyDict []) (ig_log g)\<rparr>)"
  by (cases "r = [] \<or> h = [] \<or> c = []"; cases "map_of (ig_profiles g) ocs")
    (auto simp: bind_active_identity_def guard_simps Let_def)

lemma ab_run_id_of_profile [simp]: "ab_run_id (binding_of_profile p r h c now) = r"
  by (simp add: binding_of_profile_def)

lemma hold_cases:
  obtains "binding_for g r = None"
      "hold_identity H r reason g = (Inl (ValueError ''identity_binding_required''), g)"
  | b held where "binding_for g r = Some b"
      "held = b\<lparr>ab_status := Id_HOLD, ab_hold_reason := Some reason\<rparr>"
      "hold_identity H r reason g =
        (Inr held, g\<lparr>ig_bindings := dset r held (ig_bindings g),
           ig_log := audit_append H ''IDENTITY_HOLD'' held (PyDict [(''reason'', PyStr reason)])
             (ig_log g)\<rparr>)"
proof (cases "binding_for g r")
  case None
  then show ?thesis by (intro that(1)) (simp_all add: hold_identity_def py_simps)
next
  case (Some b)
  then show ?thesis
    by (intro that(2) [OF _ refl])
      (simp_all add: hold_identity_def py_simps guard_log_def set_binding_def Let_def)
qed

lemma hold_inv: "keeps (guard_inv H) (hold_identity H r reason)"
proof (rule stepsI, rule impI)
  fix g assume inv: "guard_inv H g"
  show "guard_inv H (snd (hold_identity H r reason g))"
  proof (rule hold_cases [of g r H reason])
    fix b held
    assume b: "binding_for g r = Some b"
      and held: "held = b\<lparr>ab_status := Id_HOLD, ab_hold_reason := Some reason\<rparr>"
    have "ab_run_id held = r" using b inv by (simp add: held guard_inv_def)
    moreover assume "hold_identity H r reason g =
        (Inr held, g\<lparr>ig_bindings := dset r held (ig_bindings g),
           ig_log := audit_append H ''IDENTITY_HOLD'' held (PyDict [(''reason'', PyStr reason)])
             (ig_log g)\<rparr>)"
    ultimately show ?thesis using guard_inv_record [OF inv] by simp
  qed (use inv in simp)
qed

lemma bind_inv: "keeps (guard_inv H) (bind_active_identity H now r ocs h c)"
proof (rule stepsI, rule impI)
  fix g assume "guard_inv H g"
  then show "guard_inv H (snd (bind_active_identity H now r ocs h c g))"
    by (cases rule: bind_cases [of H now r ocs h c g]) (auto intro!: guard_inv_record)
qed

lemma hold_and_reject_inv: "keeps (guard_inv H) (hold_and_reject H r reason)"
  unfolding hold_and_reject_def by (intro keep.steps_bind hold_inv keep.steps_return)

lemma revalidate_inv: "keeps (guard_inv H) (revalidate H r ocs tr h)"
proof (rule stepsI, rule impI)
  fix g assume inv: "guard_inv H g"
  have "guard_inv H (snd (hold_and_reject H r reason g))" for reason
    using hold_and_reject_inv [of H r reason] inv by (simp add: steps_def)
  with inv show "guard_inv H (snd (revalidate H r ocs tr h g))"
    by (auto simp: revalidate_def py_simps guard_log_def intro!: guard_inv_log
        split: option.splits sum.splits)
qed

lemma require_valid_inv: "keeps (guard_inv H) (require_valid H r ocs tr h)"
  unfolding require_valid_def
  by (intro keep.steps_bind revalidate_inv)
    (auto intro: keep.steps_basic split: option.splits bool.splits)

lemma recover_Some:
  assumes "recover_state H r g = (x, g')" and "g' \<noteq> g"
  obtains b where "x = Inr b" "chain_is_valid H (ig_log g)" "last_logged r (ig_log g) = Some b"
    "ab_status b = Id_VALID" "validate_profile_binding (ig_profiles g) b = Inr ()"
    "g' = g\<lparr>ig_bindings := dset r b (ig_bindings g),
             ig_log := audit_append H ''RECOVER_IDENTITY'' b
               (PyDict [(''source'', PyStr ''hazel_identity_log'')]) (ig_log g)\<rparr>"
proof -
  have "ab_status b \<noteq> Id_HOLD \<longleftrightarrow> ab_status b = Id_VALID" for b
    by (cases "ab_status b") simp_all
  with assms show thesis
    by (auto simp: recover_state_def recover_current_binding_def py_simps Let_def
        guard_log_def set_binding_def last_logged_def binding_from_event_def
        split: if_splits option.splits sum.splits intro!: that)
qed

lemma last_logged_run: "log_consistent l \<Longrightarrow> last_logged r l = Some b \<Longrightarrow> ab_run_id b = r"
  by (auto simp: log_consistent_def last_logged_def find_Some_iff)
    (metis nth_mem set_rev length_rev)

lemma recover_inv: "keeps (guard_inv H) (recover_state H r)"
proof (rule stepsI, rule impI)
  fix g assume inv: "guard_inv H g"
  obtain x g' where run: "recover_state H r g = (x, g')" by (cases "recover_state H r g")
  show "guard_inv H (snd (recover_state H r g))"
  proof (cases "g' = g")
    case True
    then show ?thesis using inv run by simp
  next
    case False
    with run show ?thesis
    proof (rule recover_Some)
      fix b
      assume "last_logged r (ig_log g) = Some b"
      then have "ab_run_id b = r"
        using inv by (auto simp: guard_inv_def intro: last_logged_run)
      moreover assume "g' = g\<lparr>ig_bindings := dset r b (ig_bindings g),
             ig_log := audit_append H ''RECOVER_IDENTITY'' b
               (PyDict [(''source'', PyStr ''hazel_identity_log'')]) (ig_log g)\<rparr>"
      ultimately show ?thesis using guard_inv_record [OF inv] run by simp
    qed
  qed
qed

lemma rebind_inv: "keeps (guard_inv H) (rebind H now r ocs h c reason)"
proof (rule stepsI, rule impI)
  fix g assume inv: "guard_inv H g"
  show "guard_inv H (snd (rebind H now r ocs h c reason g))"
  proof (cases rule: bind_cases [of H now r ocs h c g])
    case (1 e)
    then show ?thesis using inv by (simp add: rebind_def py_simps)
  next
    case (2 p)
    let ?b = "binding_of_profile p r h c now"
    have "guard_inv H (snd (bind_active_identity H now r ocs h c g))"
      using bind_inv [of H now r ocs h c] inv by (simp add: steps_def)
    with 2 have "guard_inv H (g\<lparr>ig_bindings := dset r ?b (ig_bindings g),
        ig_log := audit_append H ''BIND_ACTIVE_IDENTITY'' ?b (PyDict []) (ig_log g)\<rparr>)"
      (is "guard_inv H ?g1")
      by simp
    then have "guard_inv H (?g1\<lparr>ig_log := audit_append H t ?b d (ig_log ?g1)\<rparr>)" for t d
      by (rule guard_inv_log [where r = r]) (simp add: binding_for_def)
    with 2 show ?thesis by (simp add: rebind_def py_simps guard_log_def)
  qed
qed

section \<open>Any sequence of calls\<close>

datatype guard_call =
    Call_bind pytime string string string string
  | Call_recover string
  | Call_revalidate string string recheck_trigger "string option"
  | Call_require string string recheck_trigger "string option"
  | Call_hold string string
  | Call_rebind pytime string string string string string

fun guard_step :: "digest \<Rightarrow> guard_call \<Rightarrow> identity_guard \<Rightarrow> identity_guard" where
  "guard_step H (Call_bind now r ocs h c) g = snd (bind_active_identity H now r ocs h c g)"
| "guard_step H (Call_recover r) g = snd (recover_state H r g)"
| "guard_step H (Call_revalidate r ocs tr h) g = snd (revalidate H r ocs tr h g)"
| "guard_step H (Call_require r ocs tr h) g = snd (require_valid H r ocs tr h g)"
| "guard_step H (Call_hold r reason) g = snd (hold_identity H r reason g)"
| "guard_step H (Call_rebind now r ocs h c reason) g = snd (rebind H now r ocs h c reason g)"

definition guard_run :: "digest \<Rightarrow> guard_call list \<Rightarrow> identity_guard \<Rightarrow> identity_guard" where
  "guard_run H calls g = fold (guard_step H) calls g"

lemma guard_step_inv: "guard_inv H g \<Longrightarrow> guard_inv H (guard_step H call g)"
  by (cases call)
    (use bind_inv recover_inv revalidate_inv require_valid_inv hold_inv rebind_inv
      in \<open>simp_all add: steps_def\<close>)

lemma guard_run_inv: "guard_inv H g \<Longrightarrow> guard_inv H (guard_run H calls g)"
  unfolding guard_run_def by (induction calls arbitrary: g) (simp_all add: guard_step_inv)

fun (sequential) binds_run :: "string \<Rightarrow> guard_call \<Rightarrow> bool" where
  "binds_run r (Call_bind now r' ocs h c) = (r' = r)"
| "binds_run r (Call_rebind now r' ocs h c reason) = (r' = r)"
| "binds_run r _ = False"

definition held :: "identity_guard \<Rightarrow> string \<Rightarrow> bool" where
  "held g r \<longleftrightarrow> (\<exists>b. binding_for g r = Some b \<and> ab_status b = Id_HOLD)"

lemma heldI [intro]: "binding_for g r = Some b \<Longrightarrow> ab_status b = Id_HOLD \<Longrightarrow> held g r"
  by (auto simp: held_def)

lemma held_update:
  "held (g\<lparr>ig_bindings := dset r' b (ig_bindings g)\<rparr>) r \<longleftrightarrow>
     (if r' = r then ab_status b = Id_HOLD else held g r)"
  "held (g\<lparr>ig_log := l\<rparr>) r \<longleftrightarrow> held g r"
  by (auto simp: held_def binding_for_def)

lemma hold_held: "held g r \<Longrightarrow> held (snd (hold_identity H r' reason g)) r"
  by (cases rule: hold_cases [of g r' H reason]) (auto simp: held_update)

lemma bind_held: "held g r \<Longrightarrow> r' \<noteq> r \<Longrightarrow> held (snd (bind_active_identity H now r' ocs h c g)) r"
  by (cases rule: bind_cases [of H now r' ocs h c g]) (auto simp: held_update)

lemma rebind_held: "held g r \<Longrightarrow> r' \<noteq> r \<Longrightarrow> held (snd (rebind H now r' ocs h c reason g)) r"
  by (cases rule: bind_cases [of H now r' ocs h c g])
    (auto simp: held_update rebind_def py_simps guard_log_def)

lemma hold_and_reject_held: "held g r \<Longrightarrow> held (snd (hold_and_reject H r' reason g)) r"
  using hold_held [of g r H r' reason]
  by (auto simp: hold_and_reject_def py_simps split: prod.splits sum.splits)

lemma revalidate_held: "held g r \<Longrightarrow> held (snd (revalidate H r' ocs tr h g)) r"
  by (auto simp: revalidate_def py_simps guard_log_def held_update hold_and_reject_held
      split: option.splits sum.splits)

lemma require_valid_snd: "snd (require_valid H r ocs tr h g) = snd (revalidate H r ocs tr h g)"
  by (auto simp: require_valid_def py_simps split: prod.splits sum.splits option.splits bool.splits)

lemma recover_held:
  assumes "guard_inv H g" and "held g r"
  shows "held (snd (recover_state H r' g)) r"
proof -
  obtain x g' where run: "recover_state H r' g = (x, g')" by (cases "recover_state H r' g")
  show ?thesis
  proof (cases "g' = g")
    case True
    then show ?thesis using assms run by simp
  next
    case False
    with run show ?thesis
    proof (rule recover_Some)
      fix b
      assume b: "last_logged r' (ig_log g) = Some b" "ab_status b = Id_VALID"
        "g' = g\<lparr>ig_bindings := dset r' b (ig_bindings g),
             ig_log := audit_append H ''RECOVER_IDENTITY'' b
               (PyDict [(''source'', PyStr ''hazel_identity_log'')]) (ig_log g)\<rparr>"
      from assms b(1,2) have "r' \<noteq> r" by (auto simp: guard_inv_def held_def)
      then show ?thesis using assms(2) run b(3) by (simp add: held_update)
    qed
  qed
qed

lemma guard_step_held:
  assumes "guard_inv H g" "held g r" "\<not> binds_run r call"
  shows "held (guard_step H call g) r"
  using assms
  by (cases call)
    (simp_all add: bind_held rebind_held recover_held revalidate_held hold_held require_valid_snd)

lemma guard_run_held:
  "guard_inv H g \<Longrightarrow> held g r \<Longrightarrow> (\<forall>call \<in> set calls. \<not> binds_run r call) \<Longrightarrow>
     held (guard_run H calls g) r"
  unfolding guard_run_def
  by (induction calls arbitrary: g) (simp_all add: guard_step_held guard_step_inv)

lemma held_rejected:
  assumes "held g r"
  shows "\<exists>m. fst (require_valid H r ocs tr h g) = Inl (ValueError m)"
proof -
  obtain b where b: "binding_for g r = Some b" "ab_status b = Id_HOLD"
    using assms by (auto simp: held_def)
  show ?thesis
    using b by (cases rule: hold_cases)
     (auto simp: require_valid_def revalidate_def hold_and_reject_def hold_identity_def py_simps
      guard_log_def set_binding_def Let_def
        split: option.splits sum.splits)
qed

section \<open>Properties\<close>

definition sample_profiles :: "(string \<times> ocs_profile) list" where
  "sample_profiles = [(''A'', mk_profile ''A'' ''s'' [] [] []), (''B'', mk_profile ''B'' ''s'' [] [] [])]"

definition sample_digest :: digest where
  "sample_digest v = (case py_get v ''event_type'' of Some (PyStr t) \<Rightarrow> t | _ \<Rightarrow> ''h'')"

definition sample_guard :: identity_guard where
  "sample_guard = guard_run sample_digest [Call_bind 1 ''r'' ''A'' ''h'' ''c'']
     (new_guard sample_profiles [])"

lemma sample_guard_eval:
  "sample_guard = \<lparr> ig_profiles = sample_profiles,
     ig_log = audit_append sample_digest ''BIND_ACTIVE_IDENTITY''
       (binding_of_profile (mk_profile ''A'' ''s'' [] [] []) ''r'' ''h'' ''c'' 1) (PyDict []) [],
     ig_bindings = [(''r'', binding_of_profile (mk_profile ''A'' ''s'' [] [] []) ''r'' ''h'' ''c'' 1)] \<rparr>"
  by (simp add: sample_guard_def guard_run_def new_guard_def bind_active_identity_def py_simps
      set_binding_def guard_log_def sample_profiles_def Let_def)

lemma binding_of_profile_valid [simp]: "ab_status (binding_of_profile p r h c now) = Id_VALID"
  "ab_host (binding_of_profile p r h c now) = h"
  "ab_ocs_id (binding_of_profile p r h c now) = op_ocs_id p"
  by (simp_all add: binding_of_profile_def)

lemma mk_profile_id [simp]: "op_ocs_id (mk_profile x s a d c) = x"
  by (simp add: mk_profile_def Let_def)

lemma validate_own_profile:
  "map_of P (op_ocs_id p) = Some p \<Longrightarrow> validate_profile_binding P (binding_of_profile p r h c now) = Inr ()"
  by (simp add: validate_profile_binding_def binding_of_profile_def)

lemma load_log_empty: "load_log H [] = Inr []"
  by (simp add: load_log_def chain_is_valid_def)

lemma log_consistent_empty: "log_consistent []"
  by (simp add: log_consistent_def)

text \<open>
  C5: every guard opened on a stored log that loads, whatever calls it serves and however they
  fail, keeps the hash chain valid and every live binding equal to the last event of its run.
\<close>

theorem identity_guard_invariant:
  assumes "load_log H stored = Inr l" and "log_consistent l"
  shows "guard_inv H (guard_run H calls (new_guard profiles l))"
  using assms by (auto simp: load_log_def intro!: guard_run_inv guard_inv_new split: if_splits)

theorem identity_guard_invariant_witness: "guard_inv sample_digest sample_guard"
  unfolding sample_guard_def
  by (rule identity_guard_invariant [OF load_log_empty log_consistent_empty])

lemma recover_logged:
  assumes "guard_inv H g" "binding_for g r = Some b"
  shows "fst (recover_state H r (new_guard profiles (ig_log g))) =
    (if ab_status b = Id_HOLD then Inl (ValueError ''identity_hold_rebind_required'')
     else case validate_profile_binding profiles b of
            Inl e \<Rightarrow> Inl e
          | Inr _ \<Rightarrow> Inr b)"
proof -
  have "last_logged r (ig_log g) = Some b" and "chain_is_valid H (ig_log g)"
    using assms by (simp_all add: guard_inv_def)
  then obtain e where "find (\<lambda>e. ie_run_id e = r) (rev (ig_log g)) = Some e"
    and "ie_binding e = b" and "chain_is_valid H (ig_log g)"
    by (auto simp: last_logged_def)
  then show ?thesis
    by (simp add: recover_state_def recover_current_binding_def new_guard_def py_simps
        Let_def guard_log_def set_binding_def binding_from_event_def split: sum.splits)
qed

text \<open>
  A process restart loses nothing: a new guard on the log of a running one recovers
  exactly the binding the old one held for the run (after the same profile check), and a run
  on hold cannot be recovered.
\<close>

lemma cold_start_recovers_binding:
  assumes "load_log H stored = Inr l" and "log_consistent l"
    and "g = guard_run H calls (new_guard profiles l)"
    and "binding_for g r = Some b"
  shows "fst (recover_state H r (new_guard profiles' (ig_log g))) =
    (if ab_status b = Id_HOLD then Inl (ValueError ''identity_hold_rebind_required'')
     else case validate_profile_binding profiles' b of
            Inl e \<Rightarrow> Inl e
          | Inr _ \<Rightarrow> Inr b)"
  using assms
  by (intro recover_logged)
    (auto simp: load_log_def intro!: guard_run_inv guard_inv_new split: if_splits)

lemma cold_start_recovers_binding_witness:
  "fst (recover_state sample_digest ''r'' (new_guard sample_profiles (ig_log sample_guard)))
     = Inr (binding_of_profile (mk_profile ''A'' ''s'' [] [] []) ''r'' ''h'' ''c'' 1)"
proof -
  let ?b = "binding_of_profile (mk_profile ''A'' ''s'' [] [] []) ''r'' ''h'' ''c'' 1"
  have "binding_for sample_guard ''r'' = Some ?b"
    by (simp add: sample_guard_eval binding_for_def)
  from cold_start_recovers_binding [OF load_log_empty log_consistent_empty sample_guard_def this]
  have "fst (recover_state sample_digest ''r'' (new_guard sample_profiles (ig_log sample_guard))) =
    (case validate_profile_binding sample_profiles ?b of Inl e \<Rightarrow> Inl e | Inr _ \<Rightarrow> Inr ?b)"
    by simp
  moreover have "validate_profile_binding sample_profiles ?b = Inr ()"
    by (rule validate_own_profile) (simp add: sample_profiles_def)
  ultimately show ?thesis by simp
qed

text \<open>
  A hold is final until somebody binds the run again: after any calls that do not bind or
  rebind the run, recovery included, every check of the run is rejected.
\<close>

lemma hold_requires_rebind:
  assumes "load_log H stored = Inr l" and "log_consistent l"
    and "held (guard_run H before (new_guard profiles l)) r"
    and "\<forall>call \<in> set after. \<not> binds_run r call"
  shows "\<exists>m. fst (require_valid H r ocs tr h
           (guard_run H (before @ after) (new_guard profiles l))) = Inl (ValueError m)"
proof (rule held_rejected)
  let ?g = "guard_run H before (new_guard profiles l)"
  have "guard_inv H ?g"
    using assms(1,2) by (auto simp: load_log_def intro!: guard_run_inv guard_inv_new split: if_splits)
  then have "held (guard_run H after ?g) r" using assms(3,4) by (rule guard_run_held)
  then show "held (guard_run H (before @ after) (new_guard profiles l)) r"
    by (simp add: guard_run_def)
qed

lemma hold_requires_rebind_witness:
  "\<exists>m. fst (require_valid sample_digest ''r'' ''A'' PRE_ACTION None
     (guard_run sample_digest
        ([Call_bind 1 ''r'' ''A'' ''h'' ''c'', Call_hold ''r'' ''why'']
          @ [Call_recover ''r'', Call_bind 2 ''q'' ''B'' ''h'' ''c''])
        (new_guard sample_profiles []))) = Inl (ValueError m)"
proof (rule hold_requires_rebind [OF load_log_empty log_consistent_empty])
  have "held (snd (hold_identity sample_digest ''r'' ''why'' sample_guard)) ''r''"
    by (simp add: hold_identity_def sample_guard_eval binding_for_def py_simps set_binding_def
        guard_log_def Let_def held_def)
  then show "held (guard_run sample_digest
      [Call_bind 1 ''r'' ''A'' ''h'' ''c'', Call_hold ''r'' ''why'']
      (new_guard sample_profiles [])) ''r''"
    by (simp add: sample_guard_def guard_run_def)
qed simp

lemma hold_and_reject_invalid:
  "fst (hold_and_reject H r reason g) = Inr x \<Longrightarrow> \<not> rv_valid x"
  by (auto simp: hold_and_reject_def py_simps split: prod.splits sum.splits)

lemma require_valid_reject:
  assumes "revalidate H r ocs tr h g = hold_and_reject H r reason g"
  shows "fst (require_valid H r ocs tr h g) \<noteq> Inr b"
proof -
  obtain y t where y: "hold_and_reject H r reason g = (y, t)" by fastforce
  with hold_and_reject_invalid [of H r reason g]
  have "\<forall>x. y = Inr x \<longrightarrow> \<not> rv_valid x" by simp
  then show ?thesis
    using assms y by (auto simp: require_valid_def py_simps split: sum.splits)
qed

lemma identity_status_not_hold: "ab_status b \<noteq> Id_VALID \<longleftrightarrow> ab_status b = Id_HOLD"
  by (cases "ab_status b") simp_all

lemma require_valid_Inr:
  "fst (require_valid H r ocs tr h g) = Inr b \<longleftrightarrow>
     binding_for g r = Some b \<and> ab_status b = Id_VALID \<and>
     validate_profile_binding (ig_profiles g) b = Inr () \<and>
     ab_ocs_id b = ocs \<and> h \<in> {None, Some (ab_host b)}"
proof (cases "binding_for g r")
  case None
  then show ?thesis by (simp add: require_valid_def revalidate_def py_simps)
next
  case (Some c)
  note bound = this
  show ?thesis
  proof (cases "validate_profile_binding (ig_profiles g) c")
    case (Inl e)
    then have "revalidate H r ocs tr h g = hold_and_reject H r (exn_str e) g"
      using bound by (simp add: revalidate_def py_simps)
    then show ?thesis using require_valid_reject bound Inl by auto
  next
    case (Inr u)
    consider "ab_status c = Id_HOLD" | "ab_status c = Id_VALID" "ocs \<noteq> ab_ocs_id c"
      | "ab_status c = Id_VALID" "ocs = ab_ocs_id c" "h \<noteq> None" "h \<noteq> Some (ab_host c)"
      | "ab_status c = Id_VALID" "ocs = ab_ocs_id c" "h \<in> {None, Some (ab_host c)}"
      by (cases "ab_status c"; cases "ocs = ab_ocs_id c"; cases "h \<in> {None, Some (ab_host c)}") auto
    then show ?thesis
    proof cases
      case 1
      then show ?thesis
        using bound Inr by (auto simp: require_valid_def revalidate_def py_simps)
    next
      case 2
      then have "revalidate H r ocs tr h g = hold_and_reject H r ''active_ocs_identity_mismatch'' g"
        using bound Inr by (simp add: revalidate_def py_simps)
      then show ?thesis using require_valid_reject 2 bound by auto
    next
      case 3
      then have "revalidate H r ocs tr h g = hold_and_reject H r ''host_identity_context_mismatch'' g"
        using bound Inr by (simp add: revalidate_def py_simps)
      then show ?thesis using require_valid_reject 3 bound by auto
    next
      case 4
      then show ?thesis
        using bound Inr by (auto simp: require_valid_def revalidate_def py_simps guard_log_def)
    qed
  qed
qed

text \<open>
  \<^verbatim>\<open>require_valid\<close> answers exactly when the run is bound, the binding is not on
  hold, it still matches the profile table, and it is the expected OCS on the expected host.
\<close>

lemma require_valid_iff:
  "fst (require_valid H r ocs tr h g) = Inr b \<longleftrightarrow>
     binding_for g r = Some b \<and> ab_status b = Id_VALID \<and>
     validate_profile_binding (ig_profiles g) b = Inr () \<and>
     ab_ocs_id b = ocs \<and> h \<in> {None, Some (ab_host b)}"
  by (rule require_valid_Inr)

text \<open>
  The log is tamper evident: two logs whose chains check and whose last hashes agree hold
  the same events, or they exhibit a collision of the digest.
\<close>

lemma identity_log_tamper_evident:
  assumes "chain_is_valid H xs" and "chain_is_valid H ys"
    and "last_event_hash xs = last_event_hash ys"
  shows "map event_tree xs = map event_tree ys
     \<or> (\<exists>x \<in> set xs. \<exists>y \<in> set ys. collision H (event_tree x) (event_tree y))"
  using assms by (rule chain_determined_by_last)

lemma identity_log_tamper_evident_witness:
  "map event_tree (ig_log sample_guard) = map event_tree (ig_log sample_guard)
     \<or> (\<exists>x \<in> set (ig_log sample_guard). \<exists>y \<in> set (ig_log sample_guard).
          collision sample_digest (event_tree x) (event_tree y))"
proof -
  have "chain_is_valid sample_digest (ig_log sample_guard)"
    using identity_log.appends_from_empty [of sample_digest
        "[(''BIND_ACTIVE_IDENTITY'',
           binding_of_profile (mk_profile ''A'' ''s'' [] [] []) ''r'' ''h'' ''c'' 1, PyDict [])]"]
    by (simp add: sample_guard_eval)
  then show ?thesis using identity_log_tamper_evident by blast
qed

end
