(* ===== verification/Context_Guard.thy ===== *)
theory Context_Guard
  imports Py_Prelude
begin

text \<open>
  \<^verbatim>\<open>app/universal_kernel/context_guard.py\<close>: the sanitizer that treats conversation
  context as input. The loop of \<^verbatim>\<open>assess\<close> is a fold over the items whose accumulator is
  the assessment built so far; the theorem at the end says what the loop computes.
\<close>

datatype context_class =
    CANONICAL_STATE | RECOVERED_INSTITUTIONAL_STATE | CURRENT_RUN_CONTEXT
  | NON_CANONICAL_CONVERSATIONAL_CONTEXT | FOREIGN_OCS_CONTEXT | HOST_METADATA

record context_item =
  ci_context_ref :: string
  ci_context_class :: context_class
  ci_source_ocs :: "string option"
  ci_autobiographical :: bool
  ci_declared_actor :: "string option"
  ci_declared_host :: "string option"

record context_assessment =
  ca_accepted_refs :: "string list"
  ca_rejected_refs :: "string list"
  ca_identity_conflict :: bool
  ca_reasons :: "string list"

text \<open>The two ways an iteration ends.\<close>

definition reject_item ::
    "context_item \<Rightarrow> string \<Rightarrow> bool \<Rightarrow> context_assessment \<Rightarrow> context_assessment" where
  "reject_item item reason conflict a =
     a\<lparr>ca_rejected_refs := ca_rejected_refs a @ [ci_context_ref item],
       ca_reasons := ca_reasons a @ [reason],
       ca_identity_conflict := ca_identity_conflict a \<or> conflict\<rparr>"

definition accept_item :: "context_item \<Rightarrow> context_assessment \<Rightarrow> context_assessment" where
  "accept_item item a = a\<lparr>ca_accepted_refs := ca_accepted_refs a @ [ci_context_ref item]\<rparr>"

definition assess_item ::
    "string \<Rightarrow> context_item \<Rightarrow> context_assessment \<Rightarrow> context_assessment" where
  "assess_item active_ocs item a =
     (if ci_context_ref item = [] then
        reject_item item ''context_ref_required'' False a
      else if ci_context_class item = FOREIGN_OCS_CONTEXT then
        reject_item item ''foreign_ocs_context_rejected'' (ci_autobiographical item) a
      else if ci_source_ocs item \<noteq> None \<and> ci_source_ocs item \<noteq> Some active_ocs \<and>
          ci_autobiographical item then
        reject_item item ''cross_ocs_autobiographical_context_rejected'' True a
      else if ci_declared_actor item \<noteq> None \<and> ci_declared_actor item \<noteq> Some active_ocs \<and>
          ci_context_class item \<noteq> HOST_METADATA then
        reject_item item ''institutional_actor_identity_conflict'' True a
      else accept_item item a)"

definition assess_context :: "string \<Rightarrow> context_item list \<Rightarrow> context_assessment" where
  "assess_context active_ocs items =
     fold (assess_item active_ocs) items
       \<lparr> ca_accepted_refs = [], ca_rejected_refs = [], ca_identity_conflict = False,
         ca_reasons = [] \<rparr>"

definition classify_context ::
    "string \<Rightarrow> string option \<Rightarrow> bool \<Rightarrow> bool \<Rightarrow> bool \<Rightarrow> context_class" where
  "classify_context active_ocs source_ocs canonical recovered host_metadata =
     (if host_metadata then HOST_METADATA
      else if canonical then CANONICAL_STATE
      else if recovered then RECOVERED_INSTITUTIONAL_STATE
      else if source_ocs \<noteq> None \<and> source_ocs \<noteq> Some active_ocs then FOREIGN_OCS_CONTEXT
      else if source_ocs = Some active_ocs then CURRENT_RUN_CONTEXT
      else NON_CANONICAL_CONVERSATIONAL_CONTEXT)"

section \<open>What the loop computes\<close>

text \<open>
  An item belongs to another OCS when it is classified so, when it is another's autobiography,
  or when another actor speaks in it outside the host's metadata.
\<close>

definition foreign_autobiography :: "string \<Rightarrow> context_item \<Rightarrow> bool" where
  "foreign_autobiography ocs item \<longleftrightarrow>
     ci_autobiographical item \<and>
     (ci_context_class item = FOREIGN_OCS_CONTEXT \<or>
      (\<exists>s. ci_source_ocs item = Some s \<and> s \<noteq> ocs))"

definition foreign_actor :: "string \<Rightarrow> context_item \<Rightarrow> bool" where
  "foreign_actor ocs item \<longleftrightarrow>
     ci_context_class item \<notin> {HOST_METADATA, FOREIGN_OCS_CONTEXT} \<and>
     (\<exists>s. ci_declared_actor item = Some s \<and> s \<noteq> ocs)"

definition admissible :: "string \<Rightarrow> context_item \<Rightarrow> bool" where
  "admissible ocs item \<longleftrightarrow>
     ci_context_ref item \<noteq> [] \<and> ci_context_class item \<noteq> FOREIGN_OCS_CONTEXT \<and>
     \<not> foreign_autobiography ocs item \<and> \<not> foreign_actor ocs item"

definition conflicting :: "string \<Rightarrow> context_item \<Rightarrow> bool" where
  "conflicting ocs item \<longleftrightarrow>
     ci_context_ref item \<noteq> [] \<and> (foreign_autobiography ocs item \<or> foreign_actor ocs item)"

lemma assess_item_fields:
  "ca_accepted_refs (assess_item ocs i a) =
     ca_accepted_refs a @ (if admissible ocs i then [ci_context_ref i] else [])"
  "ca_rejected_refs (assess_item ocs i a) =
     ca_rejected_refs a @ (if admissible ocs i then [] else [ci_context_ref i])"
  "ca_identity_conflict (assess_item ocs i a) \<longleftrightarrow> ca_identity_conflict a \<or> conflicting ocs i"
  "length (ca_reasons (assess_item ocs i a)) =
     length (ca_reasons a) + (if admissible ocs i then 0 else 1)"
  by (auto simp: assess_item_def reject_item_def accept_item_def admissible_def conflicting_def
      foreign_autobiography_def foreign_actor_def)

lemma assess_fold_fields:
  "ca_accepted_refs (fold (assess_item ocs) is a) =
     ca_accepted_refs a @ map ci_context_ref (filter (admissible ocs) is)"
  "ca_rejected_refs (fold (assess_item ocs) is a) =
     ca_rejected_refs a @ map ci_context_ref (filter (\<lambda>i. \<not> admissible ocs i) is)"
  "ca_identity_conflict (fold (assess_item ocs) is a) \<longleftrightarrow>
     ca_identity_conflict a \<or> (\<exists>i \<in> set is. conflicting ocs i)"
  "length (ca_reasons (fold (assess_item ocs) is a)) =
     length (ca_reasons a) + length (filter (\<lambda>i. \<not> admissible ocs i) is)"
  by (induction "is" arbitrary: a) (auto simp: assess_item_fields)

text \<open>
  The sanitizer splits the items in order into the admissible and the others, gives one
  reason for each rejection, and raises the identity conflict exactly when a named item is
  another OCS's autobiography or speaks for another actor.
\<close>

lemma context_assessment_spec:
  "ca_accepted_refs (assess_context ocs items)
       = map ci_context_ref (filter (admissible ocs) items) \<and>
   ca_rejected_refs (assess_context ocs items)
       = map ci_context_ref (filter (\<lambda>i. \<not> admissible ocs i) items) \<and>
   length (ca_reasons (assess_context ocs items))
       = length (ca_rejected_refs (assess_context ocs items)) \<and>
   (ca_identity_conflict (assess_context ocs items) \<longleftrightarrow> (\<exists>i \<in> set items. conflicting ocs i))"
  by (simp add: assess_context_def assess_fold_fields)

end
