(* ===== verification/Kernel_Contracts.thy ===== *)
theory Kernel_Contracts
  imports Py_Prelude
begin

text \<open>
  The frozen dataclasses and enumerations of \<^verbatim>\<open>app/universal_kernel/contracts.py\<close>. Field
  names carry the initials of their class, because HOL records share one name space. Python's
  \<^verbatim>\<open>None\<close> default is \<open>None\<close> of an option; a \<^verbatim>\<open>tuple[str, ...]\<close> is a \<open>string list\<close>;
  \<^verbatim>\<open>dict[str, object]\<close> is a \<open>pyval\<close>.
\<close>

section \<open>Enumerations\<close>

datatype risk_level = Risk_LOW | Risk_MEDIUM | Risk_HIGH

datatype authorization_decision = Decision_ALLOW | Decision_DENY | Decision_HOLD

fun decision_value :: "authorization_decision \<Rightarrow> string" where
  "decision_value Decision_ALLOW = ''allow''"
| "decision_value Decision_DENY = ''deny''"
| "decision_value Decision_HOLD = ''hold''"

datatype side_effect_class = Effect_NONE | Effect_BOUNDED | Effect_MATERIAL

datatype reversibility_class = Rev_REVERSIBLE | Rev_COMPENSATABLE | Rev_IRREVERSIBLE

section \<open>Evidence\<close>

record evidence =
  ev_ref :: string
  ev_passed :: bool
  ev_independent_assurer :: "string option"

record evidence_assessment =
  ea_sufficiency :: bool
  ea_deficits :: "string list"
  ea_contradictions :: "string list"
  ea_risk_burden :: risk_level
  ea_evidence_ref :: string

section \<open>Proposals and envelopes\<close>

record action_proposal =
  ap_action_id :: string
  ap_actor :: string
  ap_ocs :: string
  ap_capability :: string
  ap_operation :: string
  ap_payload :: pyval
  ap_risk :: risk_level
  ap_lease_id :: "string option"
  ap_evidence :: "evidence list"
  ap_action_type :: "string option"
  ap_issued_at :: "pytime option"
  ap_csp_ref :: "string option"
  ap_object_ref :: "string option"
  ap_tenant :: "string option"
  ap_context_ref :: "string option"
  ap_scope :: "string list"
  ap_authority_ref :: "string option"
  ap_policy_snapshot :: "string option"
  ap_idempotency_key :: "string option"
  ap_expected_effect :: "string option"
  ap_side_effect_class :: "side_effect_class option"
  ap_reversibility_class :: "reversibility_class option"
  ap_recovery_ref :: "string option"
  ap_expires_at :: "pytime option"
  ap_evidence_assessment_ref :: "string option"
  ap_trace_id :: "string option"

record action_envelope =
  ae_action_id :: string
  ae_actor :: string
  ae_ocs :: string
  ae_capability :: string
  ae_operation :: string
  ae_action_type :: string
  ae_issued_at :: pytime
  ae_payload :: pyval
  ae_lease_id :: string
  ae_evidence_refs :: "string list"
  ae_csp_ref :: string
  ae_object_ref :: string
  ae_tenant :: string
  ae_context_ref :: string
  ae_scope :: "string list"
  ae_valid_scope :: bool
  ae_authority_ref :: string
  ae_policy_snapshot :: string
  ae_idempotency_key :: string
  ae_expected_effect :: string
  ae_side_effect_class :: side_effect_class
  ae_reversibility_class :: reversibility_class
  ae_recovery_ref :: string
  ae_expires_at :: pytime
  ae_evidence_assessment_ref :: string
  ae_max_uses :: int
  ae_trace_id :: string
  ae_lease_use_index :: "int option"

record governance_result =
  gr_decision :: authorization_decision
  gr_reason :: string
  gr_envelope :: "action_envelope option"
  gr_assessment :: "evidence_assessment option"

section \<open>Effects, state and trace\<close>

record material_readback =
  mr_mutation_id :: string
  mr_state :: pyval

record recovery_receipt =
  rr_disposition :: string
  rr_state_recovered :: bool
  rr_material_compensated :: bool
  rr_residual_effect :: bool
  rr_external_readback :: "material_readback option"

record execution_result =
  er_authorized :: bool
  er_effected :: bool
  er_proven :: bool
  er_reason :: string
  er_readback :: "material_readback option"
  er_decision :: "authorization_decision option"
  er_trace_id :: "string option"
  er_recovery_receipt :: "recovery_receipt option"
  er_residual_effect :: bool

record state_record =
  sr_state_id :: string
  sr_ocs :: string
  sr_version :: int
  sr_predecessor :: "string option"
  sr_payload :: pyval
  sr_verified :: bool

record verified_checkpoint =
  vc_checkpoint_id :: string
  vc_state :: state_record

record trace_event =
  te_event_id :: string
  te_action_id :: string
  te_stage :: string
  te_predecessor :: "string option"
  te_details :: pyval

section \<open>Handoff and learning messages\<close>

record handoff_receipt =
  hr_receipt_id :: string
  hr_source_ocs :: string
  hr_target_ocs :: string
  hr_state_ref :: string
  hr_authority_transferred :: bool
  hr_context_refs :: "string list"
  hr_evidence_refs :: "string list"
  hr_source_authority_ref :: string

definition hr_handoff_id :: "handoff_receipt \<Rightarrow> string" where
  "hr_handoff_id r = hr_receipt_id r"

record handoff_acceptance =
  ha_handoff_id :: string
  ha_receiver_ocs :: string
  ha_context_refs :: "string list"
  ha_evidence_refs :: "string list"
  ha_executable_authority_ref :: "string option"

record lpe_update =
  lu_ocs :: string
  lu_category :: string
  lu_experience_ref :: string
  lu_changes_authority :: bool
  lu_changes_constitution :: bool
  lu_imports_autobiography_from_ocs :: "string option"

end
