(* ===== verification/Leases.thy ===== *)
theory Leases
  imports Kernel_Contracts "HOL-Library.Product_Lexorder"
begin

text \<open>
  The authority lease manager of \<^verbatim>\<open>app/universal_kernel/governance.py\<close>: leases, the
  reservations of their uses, the checks made before a reservation and at the material
  boundary, and the signed snapshot a manager is restored from. Every method holds the
  manager's lock, so its model is one step. A parameter \<open>now\<close>, \<open>t1\<close>, \<open>t2\<close> is what a
  call of \<^verbatim>\<open>time()\<close> in it returned, in the order the calls are made. The MAC is a parameter
  \<open>M\<close>: key and canonical tree to hexadecimal text; \<^verbatim>\<open>compare_digest\<close> of two such
  texts is equality.
\<close>

section \<open>Leases and reservations\<close>

datatype lease_state = Lease_ACTIVE | Lease_CONSUMED | Lease_RELEASED

fun lease_state_value :: "lease_state \<Rightarrow> string" where
  "lease_state_value Lease_ACTIVE = ''active''"
| "lease_state_value Lease_CONSUMED = ''consumed''"
| "lease_state_value Lease_RELEASED = ''released''"

record authority_lease =
  al_lease_id :: string
  al_ocs :: string
  al_capability :: string
  al_expires_at :: pytime
  al_actor :: string
  al_issued_at :: pytime
  al_not_before :: pytime
  al_scope :: "string list"
  al_tenant :: string
  al_context_ref :: string
  al_authority_ref :: string
  al_policy_snapshot :: string
  al_action_binding :: string
  al_object_ref_or_selector :: string
  al_trace_ref :: string
  al_max_uses :: int
  al_uses_consumed :: int
  al_revocable :: bool
  al_single_use :: bool
  al_state :: lease_state
  al_revoked :: bool

type_synonym reservations = "(string \<times> (string \<times> int)) list"

record lease_snapshot =
  ls_lease :: authority_lease
  ls_reservations :: "(string \<times> string \<times> int) list"

record authenticated_lease_snapshot =
  as_snapshots :: "lease_snapshot list"
  as_mac :: string
  as_algorithm :: string

record lease_manager =
  lm_leases :: "(string \<times> authority_lease) list"
  lm_usage :: "(string \<times> reservations) list"

definition new_lease_manager :: lease_manager where
  "new_lease_manager = \<lparr> lm_leases = [], lm_usage = [] \<rparr>"

definition set_lease :: "string \<Rightarrow> authority_lease \<Rightarrow> (lease_manager, unit) py" where
  "set_lease lease_id lease =
     py_modify (\<lambda>m. m\<lparr>lm_leases := dset lease_id lease (lm_leases m)\<rparr>)"

definition set_usage :: "string \<Rightarrow> reservations \<Rightarrow> (lease_manager, unit) py" where
  "set_usage lease_id usage =
     py_modify (\<lambda>m. m\<lparr>lm_usage := dset lease_id usage (lm_usage m)\<rparr>)"

text \<open>\<^verbatim>\<open>self._leases[lease_id]\<close>.\<close>

definition lease_for :: "string \<Rightarrow> (lease_manager, authority_lease) py" where
  "lease_for lease_id =
     (\<lambda>m. case map_of (lm_leases m) lease_id of
        None \<Rightarrow> (Inl (KeyError lease_id), m)
      | Some l \<Rightarrow> (Inr l, m))"

definition issue_check :: "pytime \<Rightarrow> authority_lease \<Rightarrow> unit res" where
  "issue_check now lease =
     (if al_max_uses lease \<le> 0 then Inl (ValueError ''lease_max_uses_must_be_positive'')
      else if al_uses_consumed lease \<noteq> 0 then Inl (ValueError ''lease_must_issue_unconsumed'')
      else if al_single_use lease \<and> al_max_uses lease \<noteq> 1 then
        Inl (ValueError ''single_use_lease_requires_max_uses_one'')
      else if al_scope lease = [] then Inl (ValueError ''lease_scope_required'')
      else if al_state lease \<noteq> Lease_ACTIVE then Inl (ValueError ''lease_must_issue_active'')
      else if al_issued_at lease \<le> 0 \<or> al_issued_at lease > now then
        Inl (ValueError ''lease_issued_at_invalid'')
      else if al_not_before lease < al_issued_at lease then
        Inl (ValueError ''lease_not_before_invalid'')
      else if al_expires_at lease \<le> al_not_before lease then
        Inl (ValueError ''lease_expiry_invalid'')
      else if [] \<in> set [al_actor lease, al_tenant lease, al_context_ref lease,
          al_authority_ref lease, al_policy_snapshot lease, al_action_binding lease,
          al_object_ref_or_selector lease, al_trace_ref lease] then
        Inl (ValueError ''lease_binding_required'')
      else Inr ())"

definition issue :: "pytime \<Rightarrow> authority_lease \<Rightarrow> (lease_manager, unit) py" where
  "issue now lease =
     py_bind (py_lift (issue_check now lease)) (\<lambda>_.
     py_bind (py_gets (\<lambda>m. map_of (lm_leases m) (al_lease_id lease))) (\<lambda>known.
     if known \<noteq> None then py_raise (ValueError ''duplicate_lease_id'')
     else py_bind (set_lease (al_lease_id lease) lease) (\<lambda>_.
          set_usage (al_lease_id lease) [])))"

definition revoke :: "string \<Rightarrow> (lease_manager, unit) py" where
  "revoke lease_id =
     py_bind (lease_for lease_id) (\<lambda>lease.
     if \<not> al_revocable lease then py_raise (ValueError ''lease_not_revocable'')
     else set_lease lease_id (lease\<lparr>al_revoked := True\<rparr>))"

definition release :: "string \<Rightarrow> (lease_manager, unit) py" where
  "release lease_id =
     py_bind (lease_for lease_id) (\<lambda>lease.
     if al_state lease = Lease_RELEASED then py_return ()
     else if al_state lease \<noteq> Lease_CONSUMED then
       py_raise (ValueError ''lease_release_requires_consumed_state'')
     else set_lease lease_id (lease\<lparr>al_state := Lease_RELEASED\<rparr>))"

definition finalize :: "string \<Rightarrow> (lease_manager, lease_state) py" where
  "finalize lease_id =
     py_bind (lease_for lease_id) (\<lambda>lease.
     if al_state lease = Lease_RELEASED then py_return Lease_RELEASED
     else if al_state lease \<noteq> Lease_CONSUMED then
       py_raise (ValueError ''lease_finalize_requires_consumed_state'')
     else if al_single_use lease then
       py_bind (set_lease lease_id (lease\<lparr>al_state := Lease_RELEASED\<rparr>)) (\<lambda>_.
       py_return Lease_RELEASED)
     else py_return Lease_CONSUMED)"

definition uses_consumed :: "string \<Rightarrow> (lease_manager, int) py" where
  "uses_consumed lease_id = py_bind (lease_for lease_id) (\<lambda>l. py_return (al_uses_consumed l))"

section \<open>Validation\<close>

type_synonym verdict = "bool \<times> string"

definition validate_basic ::
    "pytime \<Rightarrow> string option \<Rightarrow> string \<Rightarrow> string \<Rightarrow> lease_manager \<Rightarrow> verdict" where
  "validate_basic now lease_id ocs capability m =
     (case lease_id of
        None \<Rightarrow> (False, ''lease_required'')
      | Some i \<Rightarrow>
         (case map_of (lm_leases m) i of
            None \<Rightarrow> (False, ''lease_unknown'')
          | Some lease \<Rightarrow>
              if al_revoked lease then (False, ''lease_revoked'')
              else if al_state lease = Lease_RELEASED then (False, ''lease_released'')
              else if now < al_not_before lease then (False, ''lease_not_before'')
              else if al_expires_at lease \<le> now then (False, ''lease_expired'')
              else if al_ocs lease \<noteq> ocs \<or> al_capability lease \<noteq> capability then
                (False, ''lease_scope_mismatch'')
              else (True, ''lease_valid'')))"

definition proposal_bindings ::
    "pytime \<Rightarrow> action_proposal \<Rightarrow> authority_lease \<Rightarrow> verdict" where
  "proposal_bindings t2 p lease =
     (if ap_actor p \<noteq> al_actor lease then (False, ''lease_actor_mismatch'')
      else if ap_action_type p \<noteq> Some (al_action_binding lease) then
        (False, ''lease_action_binding_mismatch'')
      else if ap_object_ref p \<noteq> Some (al_object_ref_or_selector lease) then
        (False, ''lease_object_binding_mismatch'')
      else if ap_trace_id p \<noteq> Some (al_trace_ref lease) then
        (False, ''lease_trace_binding_mismatch'')
      else if (case ap_issued_at p of None \<Rightarrow> True | Some i \<Rightarrow> i < al_not_before lease) then
        (False, ''lease_not_before'')
      else if ap_tenant p \<noteq> Some (al_tenant lease) then (False, ''lease_tenant_mismatch'')
      else if ap_context_ref p \<noteq> Some (al_context_ref lease) then
        (False, ''lease_context_mismatch'')
      else if ap_authority_ref p \<noteq> Some (al_authority_ref lease) then
        (False, ''lease_authority_ref_mismatch'')
      else if ap_policy_snapshot p \<noteq> Some (al_policy_snapshot lease) then
        (False, ''lease_policy_snapshot_mismatch'')
      else if ap_scope p = [] \<or> \<not> set (ap_scope p) \<subseteq> set (al_scope lease) then
        (False, ''lease_scope_mismatch'')
      else if (case ap_expires_at p of None \<Rightarrow> True | Some x \<Rightarrow> x > al_expires_at lease) then
        (False, ''envelope_expiry_exceeds_lease'')
      else if (case ap_expires_at p of None \<Rightarrow> True | Some x \<Rightarrow> x \<le> t2) then
        (False, ''envelope_expired'')
      else (True, ''lease_binding_valid''))"

definition validate_proposal ::
    "pytime \<Rightarrow> pytime \<Rightarrow> action_proposal \<Rightarrow> lease_manager \<Rightarrow> verdict" where
  "validate_proposal t1 t2 p m =
     (case validate_basic t1 (ap_lease_id p) (ap_ocs p) (ap_capability p) m of
        (False, reason) \<Rightarrow> (False, reason)
      | (True, _) \<Rightarrow>
         (case Option.bind (ap_lease_id p) (map_of (lm_leases m)) of
            None \<Rightarrow> (False, ''lease_unknown'')
          | Some lease \<Rightarrow> proposal_bindings t2 p lease))"

definition validate_envelope_bindings ::
    "pytime \<Rightarrow> action_envelope \<Rightarrow> authority_lease \<Rightarrow> verdict" where
  "validate_envelope_bindings t2 e lease =
     (if ae_actor e \<noteq> al_actor lease then (False, ''lease_actor_mismatch'')
      else if ae_action_type e \<noteq> al_action_binding lease then
        (False, ''lease_action_binding_mismatch'')
      else if ae_object_ref e \<noteq> al_object_ref_or_selector lease then
        (False, ''lease_object_binding_mismatch'')
      else if ae_trace_id e \<noteq> al_trace_ref lease then (False, ''lease_trace_binding_mismatch'')
      else if ae_issued_at e < al_not_before lease then (False, ''lease_not_before'')
      else if ae_tenant e \<noteq> al_tenant lease then (False, ''lease_tenant_mismatch'')
      else if ae_context_ref e \<noteq> al_context_ref lease then (False, ''lease_context_mismatch'')
      else if ae_authority_ref e \<noteq> al_authority_ref lease then
        (False, ''lease_authority_ref_mismatch'')
      else if ae_policy_snapshot e \<noteq> al_policy_snapshot lease then
        (False, ''lease_policy_snapshot_mismatch'')
      else if \<not> ae_valid_scope e \<or> \<not> set (ae_scope e) \<subseteq> set (al_scope lease) then
        (False, ''lease_scope_mismatch'')
      else if ae_expires_at e > al_expires_at lease \<or> ae_expires_at e \<le> t2 then
        (False, ''envelope_expired'')
      else if ae_max_uses e \<noteq> al_max_uses lease then
        (False, ''lease_max_uses_binding_mismatch'')
      else (True, ''lease_envelope_binding_valid''))"

text \<open>
  \<^verbatim>\<open>reserve_use\<close>. After the basic check the lease and its usage are subscripted; the
  \<^verbatim>\<open>KeyError\<close> of a missing usage is kept.
\<close>

definition reserve_use ::
    "pytime \<Rightarrow> pytime \<Rightarrow> action_envelope
       \<Rightarrow> (lease_manager, bool \<times> string \<times> int option) py" where
  "reserve_use t1 t2 e = (\<lambda>m.
     case validate_basic t1 (Some (ae_lease_id e)) (ae_ocs e) (ae_capability e) m of
       (False, reason) \<Rightarrow> (Inr (False, reason, None), m)
     | (True, _) \<Rightarrow>
        (case (map_of (lm_leases m) (ae_lease_id e), map_of (lm_usage m) (ae_lease_id e)) of
           (Some lease, Some usage) \<Rightarrow>
             (case validate_envelope_bindings t2 e lease of
                (False, reason) \<Rightarrow> (Inr (False, reason, None), m)
              | (True, _) \<Rightarrow>
                 (case map_of usage (ae_idempotency_key e) of
                    Some (existing_action, use_index) \<Rightarrow>
                      if existing_action \<noteq> ae_action_id e then
                        (Inr (False, ''idempotency_conflict'', None), m)
                      else (Inr (True, ''lease_use_already_reserved'', Some use_index), m)
                  | None \<Rightarrow>
                      if al_uses_consumed lease \<ge> al_max_uses lease then
                        (Inr (False, ''lease_max_uses_exhausted'', None), m)
                      else
                        (let use_index = al_uses_consumed lease + 1
                         in (Inr (True, ''lease_use_reserved'', Some use_index),
                             m\<lparr>lm_leases := dset (ae_lease_id e)
                                  (lease\<lparr>al_uses_consumed := use_index,
                                         al_state := Lease_CONSUMED\<rparr>)
                                  (lm_leases m),
                               lm_usage := dset (ae_lease_id e)
                                  (dset (ae_idempotency_key e) (ae_action_id e, use_index) usage)
                                  (lm_usage m)\<rparr>))))
         | _ \<Rightarrow> (Inl (KeyError (ae_lease_id e)), m)))"

definition validate_reserved_use ::
    "pytime \<Rightarrow> pytime \<Rightarrow> action_envelope \<Rightarrow> lease_manager \<Rightarrow> verdict res" where
  "validate_reserved_use t1 t2 e m =
     (case validate_basic t1 (Some (ae_lease_id e)) (ae_ocs e) (ae_capability e) m of
        (False, reason) \<Rightarrow> Inr (False, reason)
      | (True, _) \<Rightarrow>
         (case (map_of (lm_leases m) (ae_lease_id e), map_of (lm_usage m) (ae_lease_id e)) of
            (Some lease, usage) \<Rightarrow>
              (case validate_envelope_bindings t2 e lease of
                 (False, reason) \<Rightarrow> Inr (False, reason)
               | (True, _) \<Rightarrow>
                  (case ae_lease_use_index e of
                     None \<Rightarrow> Inr (False, ''lease_reservation_required'')
                   | Some index \<Rightarrow>
                      (case usage of
                         None \<Rightarrow> Inl (KeyError (ae_lease_id e))
                       | Some reserved \<Rightarrow>
                          (case map_of reserved (ae_idempotency_key e) of
                             None \<Rightarrow> Inr (False, ''lease_reservation_missing'')
                           | Some (action_id, use_index) \<Rightarrow>
                               if action_id \<noteq> ae_action_id e then
                                 Inr (False, ''lease_reservation_action_mismatch'')
                               else if use_index \<noteq> index then
                                 Inr (False, ''lease_reservation_index_mismatch'')
                               else Inr (True, ''lease_reserved_use_valid_at_effect'')))))
          | _ \<Rightarrow> Inl (KeyError (ae_lease_id e))))"

text \<open>What entering \<^verbatim>\<open>material_effect_guard\<close> does before its body runs.\<close>

definition material_effect_guard ::
    "pytime \<Rightarrow> pytime \<Rightarrow> action_envelope \<Rightarrow> lease_manager \<Rightarrow> unit res" where
  "material_effect_guard t1 t2 e m =
     (case validate_reserved_use t1 t2 e m of
        Inl x \<Rightarrow> Inl x
      | Inr (ok, reason) \<Rightarrow> if ok then Inr () else Inl (ValueError reason))"

section \<open>Snapshots\<close>

fun snapshot_items ::
    "lease_manager \<Rightarrow> (string \<times> authority_lease) list \<Rightarrow> lease_snapshot list res" where
  "snapshot_items m [] = Inr []"
| "snapshot_items m ((lease_id, lease) # rest) =
     (case map_of (lm_usage m) lease_id of
        None \<Rightarrow> Inl (KeyError lease_id)
      | Some usage \<Rightarrow>
         (case snapshot_items m rest of
            Inl x \<Rightarrow> Inl x
          | Inr items \<Rightarrow>
              Inr (\<lparr> ls_lease = lease,
                     ls_reservations = sort (map (\<lambda>(k, a, i). (k, a, i)) usage) \<rparr> # items)))"

definition snapshot :: "lease_manager \<Rightarrow> lease_snapshot list res" where
  "snapshot m = snapshot_items m (lm_leases m)"

definition lease_data :: "authority_lease \<Rightarrow> pyval" where
  "lease_data l = PyDict
     [(''lease_id'', PyStr (al_lease_id l)), (''ocs'', PyStr (al_ocs l)),
      (''capability'', PyStr (al_capability l)), (''expires_at'', PyFloat (al_expires_at l)),
      (''actor'', PyStr (al_actor l)), (''issued_at'', PyFloat (al_issued_at l)),
      (''not_before'', PyFloat (al_not_before l)), (''scope'', py_strs (al_scope l)),
      (''tenant'', PyStr (al_tenant l)), (''context_ref'', PyStr (al_context_ref l)),
      (''authority_ref'', PyStr (al_authority_ref l)),
      (''policy_snapshot'', PyStr (al_policy_snapshot l)),
      (''action_binding'', PyStr (al_action_binding l)),
      (''object_ref_or_selector'', PyStr (al_object_ref_or_selector l)),
      (''trace_ref'', PyStr (al_trace_ref l)), (''max_uses'', PyInt (al_max_uses l)),
      (''uses_consumed'', PyInt (al_uses_consumed l)),
      (''revocable'', PyBool (al_revocable l)), (''single_use'', PyBool (al_single_use l)),
      (''state'', PyStr (lease_state_value (al_state l))), (''revoked'', PyBool (al_revoked l))]"

definition snapshot_data :: "lease_snapshot \<Rightarrow> pyval" where
  "snapshot_data s = PyDict
     [(''lease'', lease_data (ls_lease s)),
      (''reservations'',
       PyTuple (map (\<lambda>(k, a, i). PyTuple [PyStr k, PyStr a, PyInt i]) (ls_reservations s)))]"

definition canonical_snapshot :: "lease_snapshot list \<Rightarrow> pyval" where
  "canonical_snapshot items = json_tree (PyList (map snapshot_data items))"

definition sign_snapshot ::
    "mac \<Rightarrow> lease_snapshot list \<Rightarrow> string \<Rightarrow> authenticated_lease_snapshot res" where
  "sign_snapshot M items key =
     (if key = [] then Inl (ValueError ''lease_snapshot_authentication_key_required'')
      else Inr \<lparr> as_snapshots = items, as_mac = M key (canonical_snapshot items),
                 as_algorithm = ''HMAC-SHA256'' \<rparr>)"

definition snapshot_authenticated ::
    "mac \<Rightarrow> authenticated_lease_snapshot \<Rightarrow> string \<Rightarrow> bool" where
  "snapshot_authenticated M s key =
     (if as_algorithm s \<noteq> ''HMAC-SHA256'' \<or> key = [] then False
      else M key (canonical_snapshot (as_snapshots s)) = as_mac s)"

definition authenticated_snapshot ::
    "mac \<Rightarrow> string \<Rightarrow> lease_manager \<Rightarrow> authenticated_lease_snapshot res" where
  "authenticated_snapshot M key m =
     (case snapshot m of Inl x \<Rightarrow> Inl x | Inr items \<Rightarrow> sign_snapshot M items key)"

datatype snapshot_source =
    Signed authenticated_lease_snapshot
  | Unsigned "lease_snapshot list"

fun restore_reservations ::
    "(string \<times> string \<times> int) list \<Rightarrow> reservations \<Rightarrow> int list
       \<Rightarrow> (reservations \<times> int list) res" where
  "restore_reservations [] reserved indices = Inr (reserved, indices)"
| "restore_reservations ((key, action_id, use_index) # rest) reserved indices =
     (if key = [] \<or> action_id = [] then
        Inl (ValueError ''lease_snapshot_reservation_binding_invalid'')
      else if map_of reserved key \<noteq> None then
        Inl (ValueError ''lease_snapshot_duplicate_idempotency_key'')
      else restore_reservations rest (dset key (action_id, use_index) reserved)
             (indices @ [use_index]))"

definition restore_item :: "lease_snapshot \<Rightarrow> (lease_manager, unit) py" where
  "restore_item item =
     (let lease = ls_lease item; lease_id = al_lease_id lease
      in py_bind (py_gets (\<lambda>m. map_of (lm_leases m) lease_id)) (\<lambda>known.
         if known \<noteq> None then py_raise (ValueError ''duplicate_lease_id'')
         else if al_uses_consumed lease < 0 \<or> al_uses_consumed lease > al_max_uses lease then
           py_raise (ValueError ''lease_snapshot_usage_invalid'')
         else
           py_bind (py_lift (restore_reservations (ls_reservations item) [] []))
             (\<lambda>(reserved, indices).
           if sort indices \<noteq> [1..al_uses_consumed lease]
              \<or> length (remdups indices) \<noteq> length indices then
             py_raise (ValueError ''lease_snapshot_index_set_invalid'')
           else py_bind (set_lease lease_id lease) (\<lambda>_. set_usage lease_id reserved))))"

fun restore_items :: "lease_snapshot list \<Rightarrow> (lease_manager, unit) py" where
  "restore_items [] = py_return ()"
| "restore_items (item # rest) = py_bind (restore_item item) (\<lambda>_. restore_items rest)"

definition from_snapshot ::
    "mac \<Rightarrow> snapshot_source \<Rightarrow> string option \<Rightarrow> lease_manager res" where
  "from_snapshot M source key =
     (case source of
        Unsigned items \<Rightarrow> Inl (ValueError ''lease_snapshot_authentication_required'')
      | Signed s \<Rightarrow>
          if (case key of None \<Rightarrow> True | Some k \<Rightarrow> \<not> snapshot_authenticated M s k) then
            Inl (ValueError ''lease_snapshot_authentication_failed'')
          else
            (case restore_items (as_snapshots s) new_lease_manager of
               (Inl x, _) \<Rightarrow> Inl x
             | (Inr _, m) \<Rightarrow> Inr m))"

section \<open>Well-formed managers\<close>

definition usage_wf :: "authority_lease \<Rightarrow> reservations \<Rightarrow> bool" where
  "usage_wf l u \<longleftrightarrow> 0 \<le> al_uses_consumed l \<and> al_uses_consumed l \<le> al_max_uses l \<and>
     distinct (map fst u) \<and> sort (map (snd \<circ> snd) u) = [1..al_uses_consumed l]"

definition lm_wf :: "lease_manager \<Rightarrow> bool" where
  "lm_wf m \<longleftrightarrow> map fst (lm_leases m) = map fst (lm_usage m) \<and>
     distinct (map fst (lm_leases m)) \<and>
     (\<forall>i l. map_of (lm_leases m) i = Some l \<longrightarrow>
        al_lease_id l = i \<and> (\<exists>u. map_of (lm_usage m) i = Some u \<and> usage_wf l u))"

lemma lm_wf_new: "lm_wf new_lease_manager"
  by (simp add: lm_wf_def new_lease_manager_def)

lemma lm_wfD:
  assumes "lm_wf m" "map_of (lm_leases m) i = Some l"
  obtains u where "al_lease_id l = i" "map_of (lm_usage m) i = Some u" "usage_wf l u"
  using assms by (auto simp: lm_wf_def)

lemma map_of_keys_eq:
  "map fst a = map fst b \<Longrightarrow> map_of a k = None \<longleftrightarrow> map_of b k = None"
  by (metis list.set_map map_of_eq_None_iff)

lemma lm_wf_usage_None: "lm_wf m \<Longrightarrow> map_of (lm_usage m) i = None \<longleftrightarrow> map_of (lm_leases m) i = None"
  using map_of_keys_eq [of "lm_usage m" "lm_leases m"] by (simp add: lm_wf_def)

lemma lm_wf_both:
  assumes "lm_wf m" and "al_lease_id l = i" and "usage_wf l u"
  shows "lm_wf (m\<lparr>lm_leases := dset i l (lm_leases m), lm_usage := dset i u (lm_usage m)\<rparr>)"
proof -
  have "fst ` set (lm_leases m) = fst ` set (lm_usage m)"
    using assms(1) by (metis lm_wf_def list.set_map)
  then show ?thesis
    using assms by (auto simp: lm_wf_def keys_dset)
qed

lemma lm_wf_lease:
  assumes "lm_wf m" and "map_of (lm_leases m) i = Some l" and "al_lease_id l' = al_lease_id l"
    and "al_uses_consumed l' = al_uses_consumed l" and "al_max_uses l' = al_max_uses l"
  shows "lm_wf (m\<lparr>lm_leases := dset i l' (lm_leases m)\<rparr>)"
  using assms by (auto simp: lm_wf_def dset_present usage_wf_def intro!: distinct_keys_dset)

lemma usage_wf_fresh: "issue_check now l = Inr () \<Longrightarrow> usage_wf l []"
  by (auto simp: issue_check_def usage_wf_def split: if_splits)

lemma sort_upto_snoc: "sort xs = [1..n] \<Longrightarrow> 0 \<le> n \<Longrightarrow> sort (xs @ [n + 1]) = [1..n + 1]"
proof (rule properties_for_sort)
  assume s: "sort xs = [1..n]" and "0 \<le> n"
  have "mset xs = mset [1..n]" by (metis mset_sort s)
  then show "mset [1..n + 1] = mset (xs @ [n + 1])"
    using \<open>0 \<le> n\<close> by (simp add: upto_rec2)
qed simp

lemma usage_wf_reserve:
  assumes "usage_wf l u" and "map_of u k = None" and "al_uses_consumed l < al_max_uses l"
  shows "usage_wf (l\<lparr>al_uses_consumed := al_uses_consumed l + 1, al_state := s\<rparr>)
           (dset k (a, al_uses_consumed l + 1) u)"
  using assms sort_upto_snoc [of "map (snd \<circ> snd) u" "al_uses_consumed l"]
  by (auto simp: usage_wf_def dset_absent map_of_eq_None_iff)

section \<open>Calls\<close>

datatype lease_call =
    Call_issue pytime authority_lease
  | Call_revoke string
  | Call_release string
  | Call_finalize string
  | Call_reserve pytime pytime action_envelope

fun lease_step :: "lease_call \<Rightarrow> lease_manager \<Rightarrow> lease_manager" where
  "lease_step (Call_issue now l) m = snd (issue now l m)"
| "lease_step (Call_revoke i) m = snd (revoke i m)"
| "lease_step (Call_release i) m = snd (release i m)"
| "lease_step (Call_finalize i) m = snd (finalize i m)"
| "lease_step (Call_reserve t1 t2 e) m = snd (reserve_use t1 t2 e m)"

text \<open>The four ways a call changes a manager.\<close>

inductive lease_change :: "lease_manager \<Rightarrow> lease_manager \<Rightarrow> bool" where
  same: "lease_change m m"
| issued: "map_of (lm_leases m) (al_lease_id l) = None \<Longrightarrow> issue_check now l = Inr () \<Longrightarrow>
    lease_change m (m\<lparr>lm_leases := dset (al_lease_id l) l (lm_leases m),
                      lm_usage := dset (al_lease_id l) [] (lm_usage m)\<rparr>)"
| ended: "map_of (lm_leases m) i = Some l \<Longrightarrow>
    l' \<in> {l\<lparr>al_revoked := True\<rparr>, l\<lparr>al_state := Lease_RELEASED\<rparr>} \<Longrightarrow>
    lease_change m (m\<lparr>lm_leases := dset i l' (lm_leases m)\<rparr>)"
| reserved: "map_of (lm_leases m) i = Some l \<Longrightarrow> map_of (lm_usage m) i = Some u \<Longrightarrow>
    \<not> al_revoked l \<Longrightarrow> al_state l \<noteq> Lease_RELEASED \<Longrightarrow>
    map_of u k = None \<Longrightarrow> al_uses_consumed l < al_max_uses l \<Longrightarrow>
    lease_change m (m\<lparr>lm_leases := dset i (l\<lparr>al_uses_consumed := al_uses_consumed l + 1,
                                             al_state := Lease_CONSUMED\<rparr>) (lm_leases m),
                      lm_usage := dset i (dset k (a, al_uses_consumed l + 1) u) (lm_usage m)\<rparr>)"

lemma lease_for_run: "lease_for i m = (case map_of (lm_leases m) i of
    None \<Rightarrow> (Inl (KeyError i), m) | Some l \<Rightarrow> (Inr l, m))"
  by (simp add: lease_for_def)

lemmas lease_simps = py_simps lease_for_run set_lease_def set_usage_def

lemma validate_basic_True:
  "validate_basic now (Some i) ocs cap m = (True, r) \<longleftrightarrow>
     (\<exists>l. map_of (lm_leases m) i = Some l \<and> \<not> al_revoked l \<and> al_state l \<noteq> Lease_RELEASED \<and>
        al_not_before l \<le> now \<and> now < al_expires_at l \<and> al_ocs l = ocs \<and>
        al_capability l = cap) \<and> r = ''lease_valid''"
  by (auto simp: validate_basic_def split: option.splits)

lemma issue_change: "lease_change m (snd (issue now l m))"
proof (cases "issue_check now l = Inr () \<and> map_of (lm_leases m) (al_lease_id l) = None")
  case True
  then show ?thesis by (auto simp: issue_def lease_simps intro!: issued)
next
  case False
  then show ?thesis
    by (cases "issue_check now l") (auto simp: issue_def lease_simps intro!: same)
qed

lemma revoke_change: "lease_change m (snd (revoke i m))"
  by (auto simp: revoke_def lease_simps split: option.split intro: same ended)

lemma release_change: "lease_change m (snd (release i m))"
  by (auto simp: release_def lease_simps split: option.split intro: same ended)

lemma finalize_change: "lease_change m (snd (finalize i m))"
  by (auto simp: finalize_def lease_simps split: option.split intro: same ended)

text \<open>What \<^verbatim>\<open>reserve_use\<close> does, in the three cases that are not a refusal for want of validity.\<close>

lemma reserve_cases:
  obtains x where "reserve_use t1 t2 e m = (x, m)" "\<And>n r. x \<noteq> Inr (True, r, n)"
  | l u n where "map_of (lm_leases m) (ae_lease_id e) = Some l"
      "map_of (lm_usage m) (ae_lease_id e) = Some u" "\<not> al_revoked l"
      "al_state l \<noteq> Lease_RELEASED"
      "map_of u (ae_idempotency_key e) = Some (ae_action_id e, n)"
      "reserve_use t1 t2 e m = (Inr (True, ''lease_use_already_reserved'', Some n), m)"
  | l u where "map_of (lm_leases m) (ae_lease_id e) = Some l"
      "map_of (lm_usage m) (ae_lease_id e) = Some u" "\<not> al_revoked l"
      "al_state l \<noteq> Lease_RELEASED"
      "map_of u (ae_idempotency_key e) = None" "al_uses_consumed l < al_max_uses l"
      "reserve_use t1 t2 e m =
         (Inr (True, ''lease_use_reserved'', Some (al_uses_consumed l + 1)),
          m\<lparr>lm_leases := dset (ae_lease_id e) (l\<lparr>al_uses_consumed := al_uses_consumed l + 1,
                                     al_state := Lease_CONSUMED\<rparr>) (lm_leases m),
            lm_usage := dset (ae_lease_id e)
              (dset (ae_idempotency_key e) (ae_action_id e, al_uses_consumed l + 1) u)
              (lm_usage m)\<rparr>)"
proof -
  obtain ok r where b: "validate_basic t1 (Some (ae_lease_id e)) (ae_ocs e) (ae_capability e) m = (ok, r)"
    by fastforce
  show thesis
  proof (cases ok)
    case False
    then show thesis using b by (intro that(1)) (auto simp: reserve_use_def)
  next
    case True
    then obtain l where l: "map_of (lm_leases m) (ae_lease_id e) = Some l" "\<not> al_revoked l"
        "al_state l \<noteq> Lease_RELEASED"
      using b by (auto simp: validate_basic_True)
    show thesis
    proof (cases "map_of (lm_usage m) (ae_lease_id e)")
      case None
      then show thesis using b True l by (intro that(1)) (auto simp: reserve_use_def)
    next
      case (Some u)
      obtain ok' r' where v: "validate_envelope_bindings t2 e l = (ok', r')" by fastforce
      consider "\<not> ok'" | a n where "ok'" "map_of u (ae_idempotency_key e) = Some (a, n)"
        | "ok'" "map_of u (ae_idempotency_key e) = None" by fastforce
      then show thesis
      proof cases
        case 1
        then show thesis using b True l v Some by (intro that(1)) (auto simp: reserve_use_def)
      next
        case 2
        show thesis
        proof (cases "a = ae_action_id e")
          case True
          then show thesis using 2 b \<open>ok\<close> l v Some by (intro that(2)) (auto simp: reserve_use_def)
        next
          case False
          then show thesis using 2 b \<open>ok\<close> l v Some by (intro that(1)) (auto simp: reserve_use_def)
        qed
      next
        case 3
        show thesis
        proof (cases "al_uses_consumed l < al_max_uses l")
          case True
          then show thesis using 3 b \<open>ok\<close> l v Some
            by (intro that(3)) (auto simp: reserve_use_def Let_def)
        next
          case False
          then show thesis using 3 b \<open>ok\<close> l v Some by (intro that(1)) (auto simp: reserve_use_def)
        qed
      qed
    qed
  qed
qed

lemma reserve_change: "lease_change m (snd (reserve_use t1 t2 e m))"
  by (rule reserve_cases [of t1 t2 e m]) (auto intro: same reserved)

lemma lease_step_change: "lease_change m (lease_step c m)"
  by (cases c) (simp_all add: issue_change revoke_change release_change finalize_change reserve_change)

lemma lease_change_wf: "lease_change m m' \<Longrightarrow> lm_wf m \<Longrightarrow> lm_wf m'"
proof (induction rule: lease_change.induct)
  case (reserved m i l u k a)
  from reserved.prems reserved.hyps(1) obtain v
    where "al_lease_id l = i" "map_of (lm_usage m) i = Some v" "usage_wf l v" by (rule lm_wfD)
  then have "al_lease_id l = i" "usage_wf l u" using reserved.hyps(2) by simp_all
  with reserved show ?case by (intro lm_wf_both usage_wf_reserve) simp_all
qed (auto intro: lm_wf_both usage_wf_fresh intro!: lm_wf_lease)

section \<open>Histories\<close>

definition lease_run :: "lease_call list \<Rightarrow> lease_manager \<Rightarrow> lease_manager" where
  "lease_run calls m = fold lease_step calls m"

lemma lease_run_induct [case_names change]:
  assumes "\<And>m m'. lease_change m m' \<Longrightarrow> lm_wf m \<Longrightarrow> P m \<Longrightarrow> P m'" and "lm_wf m" and "P m"
  shows "lm_wf (lease_run calls m) \<and> P (lease_run calls m)"
  using assms(2,3) unfolding lease_run_def
proof (induction calls arbitrary: m)
  case (Cons c calls)
  then show ?case
    using lease_step_change [of m c] lease_change_wf assms(1) by simp
qed simp

lemma lease_run_wf: "lm_wf m \<Longrightarrow> lm_wf (lease_run calls m)"
  using lease_run_induct [where P = "\<lambda>_. True"] by blast

definition lease_dead :: "lease_manager \<Rightarrow> string \<Rightarrow> bool" where
  "lease_dead m i \<longleftrightarrow> (\<exists>l. map_of (lm_leases m) i = Some l \<and> (al_revoked l \<or> al_state l = Lease_RELEASED))"

definition reservation_of :: "lease_manager \<Rightarrow> string \<Rightarrow> string \<Rightarrow> (string \<times> int) option" where
  "reservation_of m i k = Option.bind (map_of (lm_usage m) i) (\<lambda>u. map_of u k)"

lemma change_dead: "lease_change m m' \<Longrightarrow> lease_dead m i \<Longrightarrow> lease_dead m' i"
  by (induction rule: lease_change.induct) (auto simp: lease_dead_def)

lemma change_reservation:
  "lease_change m m' \<Longrightarrow> lm_wf m \<Longrightarrow> reservation_of m i k = Some r \<Longrightarrow> reservation_of m' i k = Some r"
proof (induction rule: lease_change.induct)
  case (issued m l now)
  then show ?case using lm_wf_usage_None [of m "al_lease_id l"]
    by (auto simp: reservation_of_def)
qed (auto simp: reservation_of_def bind_eq_Some_conv)

lemma change_max_uses:
  "lease_change m m' \<Longrightarrow> map_of (lm_leases m) i = Some l \<Longrightarrow>
     \<exists>l'. map_of (lm_leases m') i = Some l' \<and> al_max_uses l' = al_max_uses l"
  by (induction rule: lease_change.induct) auto

text \<open>The uses granted along a history: lease, idempotency key, action and index.\<close>

fun grants :: "lease_call list \<Rightarrow> lease_manager \<Rightarrow> (string \<times> string \<times> string \<times> int) list" where
  "grants [] m = []"
| "grants (c # cs) m =
     (case c of
        Call_reserve t1 t2 e \<Rightarrow>
          (case fst (reserve_use t1 t2 e m) of
             Inr (True, _, Some n) \<Rightarrow>
               [(ae_lease_id e, ae_idempotency_key e, ae_action_id e, n)]
           | _ \<Rightarrow> [])
      | _ \<Rightarrow> []) @ grants cs (lease_step c m)"

lemma reserve_grant:
  assumes "lm_wf m" "fst (reserve_use t1 t2 e m) = Inr (True, r, Some n)"
  shows "reservation_of (snd (reserve_use t1 t2 e m)) (ae_lease_id e) (ae_idempotency_key e)
    = Some (ae_action_id e, n)"
  using assms by (cases rule: reserve_cases [of t1 t2 e m]) (auto simp: reservation_of_def)

lemma lease_run_reservation:
  "lm_wf m \<Longrightarrow> reservation_of m i k = Some r \<Longrightarrow> reservation_of (lease_run calls m) i k = Some r"
  using lease_run_induct [where P = "\<lambda>m. reservation_of m i k = Some r"] change_reservation
  by blast

lemma lease_run_dead: "lm_wf m \<Longrightarrow> lease_dead m i \<Longrightarrow> lease_dead (lease_run calls m) i"
  using lease_run_induct [where P = "\<lambda>m. lease_dead m i"] change_dead by blast

lemma grants_reserved:
  "lm_wf m \<Longrightarrow> (i, k, a, n) \<in> set (grants calls m) \<Longrightarrow>
     reservation_of (lease_run calls m) i k = Some (a, n)"
proof (induction calls arbitrary: m)
  case (Cons c calls)
  have run: "lease_run (c # calls) m = lease_run calls (lease_step c m)"
    by (simp add: lease_run_def)
  have wf: "lm_wf (lease_step c m)"
    using Cons.prems(1) lease_step_change lease_change_wf by blast
  show ?case
  proof (cases "(i, k, a, n) \<in> set (grants calls (lease_step c m))")
    case True
    then show ?thesis using Cons.IH [OF wf] by (simp add: run)
  next
    case False
    then obtain t1 t2 e r where "c = Call_reserve t1 t2 e"
      "fst (reserve_use t1 t2 e m) = Inr (True, r, Some n)"
      "i = ae_lease_id e" "k = ae_idempotency_key e" "a = ae_action_id e"
      using Cons.prems(2)
      by (auto split: lease_call.splits sum.splits bool.splits option.splits
          dest!: sym [of "Inr x" for x])
    then show ?thesis
      unfolding run using reserve_grant [OF Cons.prems(1)] lease_run_reservation [OF wf] by simp
  qed
qed simp

lemma reservation_index:
  assumes "lm_wf m" "reservation_of m i k = Some (a, n)"
  shows "\<exists>l. map_of (lm_leases m) i = Some l \<and> 1 \<le> n \<and> n \<le> al_uses_consumed l \<and>
    al_uses_consumed l \<le> al_max_uses l"
proof -
  obtain u where u: "map_of (lm_usage m) i = Some u" "map_of u k = Some (a, n)"
    using assms(2) by (auto simp: reservation_of_def bind_eq_Some_conv)
  then obtain l where l: "map_of (lm_leases m) i = Some l"
    using lm_wf_usage_None [OF assms(1), of i] by force
  then have "usage_wf l u" using assms(1) u(1) by (auto elim: lm_wfD)
  then have "set (map (snd \<circ> snd) u) = {1..al_uses_consumed l}"
    by (metis set_sort set_upto usage_wf_def)
  moreover have "n \<in> set (map (snd \<circ> snd) u)" using u(2) by (force dest: map_of_SomeD)
  ultimately show ?thesis using l \<open>usage_wf l u\<close> by (auto simp: usage_wf_def)
qed

lemma reservation_index_inject:
  assumes "lm_wf m" "reservation_of m i k = Some (a, n)" "reservation_of m i k' = Some (a', n)"
  shows "k = k'"
proof -
  obtain u where u: "map_of (lm_usage m) i = Some u" "map_of u k = Some (a, n)"
      "map_of u k' = Some (a', n)"
    using assms(2,3) by (auto simp: reservation_of_def bind_eq_Some_conv)
  then obtain l where "map_of (lm_leases m) i = Some l"
    using lm_wf_usage_None [OF assms(1), of i] by force
  then have "usage_wf l u" using assms(1) u(1) by (auto elim: lm_wfD)
  then have "distinct (map (snd \<circ> snd) u)" by (metis distinct_sort distinct_upto usage_wf_def)
  moreover have "(k, (a, n)) \<in> set u" "(k', (a', n)) \<in> set u" using u by (auto dest: map_of_SomeD)
  ultimately show ?thesis by (auto simp: distinct_map inj_on_def) (metis comp_apply snd_conv fst_conv)
qed

section \<open>Restoring a snapshot\<close>

lemma restore_reservations_Inr:
  "restore_reservations rs u js = Inr (u', js') \<Longrightarrow> u' = u @ rs \<and> js' = js @ map (snd \<circ> snd) rs"
  by (induction rs u js rule: restore_reservations.induct) (auto simp: dset_absent simp del: not_None_eq not_Some_eq split: if_splits)

lemma restore_reservations_distinct:
  "restore_reservations rs u js = Inr (u', js') \<Longrightarrow> distinct (map fst u) \<Longrightarrow> distinct (map fst u')"
  by (induction rs u js rule: restore_reservations.induct)
    (auto simp: distinct_keys_dset split: if_splits)

lemma restore_reservations_ok:
  assumes "distinct (map fst (u @ rs))" and "\<forall>(k, a, n) \<in> set rs. k \<noteq> [] \<and> a \<noteq> []"
  shows "restore_reservations rs u js = Inr (u @ rs, js @ map (snd \<circ> snd) rs)"
  using assms
proof (induction rs u js rule: restore_reservations.induct)
  case (2 key action_id use_index rest reserved indices)
  then have "map_of reserved key = None" by (auto simp: map_of_eq_None_iff)
  with 2 show ?case by (simp add: dset_absent)
qed simp

lemma restore_item_wf:
  assumes "restore_item item m = (Inr x, m')" and "lm_wf m"
  shows "lm_wf m'"
proof -
  let ?l = "ls_lease item" and ?i = "al_lease_id (ls_lease item)"
  obtain u js where "restore_reservations (ls_reservations item) [] [] = Inr (u, js)"
    and range: "0 \<le> al_uses_consumed ?l" "al_uses_consumed ?l \<le> al_max_uses ?l"
    and idx: "sort js = [1..al_uses_consumed ?l]"
    and m': "m' = m\<lparr>lm_leases := dset ?i ?l (lm_leases m), lm_usage := dset ?i u (lm_usage m)\<rparr>"
    using assms(1)
    by (auto simp: restore_item_def Let_def lease_simps split: if_splits sum.splits)
  then have "u = ls_reservations item" "js = map (snd \<circ> snd) u" "distinct (map fst u)"
    using restore_reservations_Inr restore_reservations_distinct by fastforce+
  then have "usage_wf ?l u" using range idx by (simp add: usage_wf_def)
  then show ?thesis unfolding m' by (intro lm_wf_both assms(2)) simp_all
qed

lemma restore_items_wf: "restore_items items m = (Inr x, m') \<Longrightarrow> lm_wf m \<Longrightarrow> lm_wf m'"
proof (induction items arbitrary: m)
  case (Cons item items)
  then show ?case by (auto simp: py_bind_Inr dest: restore_item_wf)
qed (simp add: py_simps)

definition named_reservations :: "lease_manager \<Rightarrow> bool" where
  "named_reservations m \<longleftrightarrow>
     (\<forall>(i, u) \<in> set (lm_usage m). \<forall>(k, a, n) \<in> set u. k \<noteq> [] \<and> a \<noteq> [])"

lemma sort_keys_distinct: "distinct (map fst u) \<Longrightarrow> distinct (map fst (sort u))"
  by (metis mset_eq_imp_distinct_iff mset_map mset_sort)

lemma restore_item_ok:
  fixes u :: reservations
  assumes "usage_wf l u" and "\<forall>(k, a, n) \<in> set u. k \<noteq> [] \<and> a \<noteq> []" and "al_lease_id l = i"
    and "map_of (lm_leases m) i = None" and "map_of (lm_usage m) i = None"
  shows "restore_item \<lparr> ls_lease = l, ls_reservations = sort u \<rparr> m =
    (Inr (), m\<lparr>lm_leases := lm_leases m @ [(i, l)], lm_usage := lm_usage m @ [(i, sort u)]\<rparr>)"
proof -
  have "distinct (map fst ([] @ sort u))"
    using assms(1) sort_keys_distinct by (auto simp: usage_wf_def)
  then have r: "restore_reservations (sort u) [] [] = Inr (sort u, map (snd \<circ> snd) (sort u))"
    using assms(2) restore_reservations_ok [of "[]" "sort u" "[]"] by simp
  have "mset [1..al_uses_consumed l] = mset (map (snd \<circ> snd) u)"
    using assms(1) by (metis mset_sort usage_wf_def)
  then have s: "sort (map (snd \<circ> snd) (sort u)) = [1..al_uses_consumed l]"
    by (intro properties_for_sort) simp_all
  then have "distinct (map (snd \<circ> snd) (sort u))" by (metis distinct_sort distinct_upto)
  then show ?thesis
    using assms s by (simp add: restore_item_def Let_def lease_simps r dset_absent usage_wf_def
        distinct_remdups_id)
qed

lemma restore_snapshot_items:
  assumes "distinct (map fst ls)"
    and "\<forall>(i, l) \<in> set ls. al_lease_id l = i \<and> (\<exists>u. map_of (lm_usage m) i = Some u \<and>
           usage_wf l u \<and> (\<forall>(k, a, n) \<in> set u. k \<noteq> [] \<and> a \<noteq> []))"
    and "\<forall>i \<in> fst ` set ls. map_of (lm_leases s) i = None \<and> map_of (lm_usage s) i = None"
  shows "\<exists>items. snapshot_items m ls = Inr items \<and> restore_items items s =
     (Inr (), s\<lparr>lm_leases := lm_leases s @ ls,
                lm_usage := lm_usage s @
                  map (\<lambda>(i, l). (i, sort (the (map_of (lm_usage m) i)))) ls\<rparr>)"
  using assms
proof (induction ls arbitrary: s)
  case (Cons il ls)
  obtain i l where il: "il = (i, l)" by fastforce
  from Cons.prems(2) obtain u where u: "al_lease_id l = i" "map_of (lm_usage m) i = Some u"
    "usage_wf l u" "\<forall>(k, a, n) \<in> set u. k \<noteq> [] \<and> a \<noteq> []"
    by (auto simp: il)
  let ?s = "s\<lparr>lm_leases := lm_leases s @ [(i, l)], lm_usage := lm_usage s @ [(i, sort u)]\<rparr>"
  have "\<forall>j \<in> fst ` set ls. map_of (lm_leases ?s) j = None \<and> map_of (lm_usage ?s) j = None"
    using Cons.prems(1,3) by (auto simp: il map_add_def)
  moreover have "distinct (map fst ls)" using Cons.prems(1) by (simp add: il)
  ultimately obtain items where items: "snapshot_items m ls = Inr items"
    "restore_items items ?s = (Inr (), ?s\<lparr>lm_leases := lm_leases ?s @ ls,
       lm_usage := lm_usage ?s @ map (\<lambda>(i, l). (i, sort (the (map_of (lm_usage m) i)))) ls\<rparr>)"
    using Cons.IH [of ?s] Cons.prems(2) by auto
  have "restore_item \<lparr> ls_lease = l, ls_reservations = sort u \<rparr> s = (Inr (), ?s)"
    using u Cons.prems(3) by (intro restore_item_ok) (simp_all add: il)
  then show ?case using items u(2) by (simp add: il py_simps split_def)
qed (simp add: py_simps)

lemma usage_by_lease:
  "map fst ls = map fst us \<Longrightarrow> distinct (map fst us) \<Longrightarrow>
     map (\<lambda>(i, l). (i, f (the (map_of us i)))) ls = map (\<lambda>(i, u). (i, f u)) us"
proof (induction ls us rule: list_induct2')
  case (4 il ls iu us)
  then have "fst iu \<notin> set (map fst ls)" and fst: "fst il = fst iu" by simp_all
  then have "map (\<lambda>(i, l). (i, f (the (map_of (iu # us) i)))) ls
      = map (\<lambda>(i, l). (i, f (the (map_of us i)))) ls"
    by (intro map_cong) (force simp: split_def)+
  also have "\<dots> = map (\<lambda>(i, u). (i, f u)) us" using 4 by simp
  finally show ?case by (cases il; cases iu) (use fst in simp)
qed simp_all

lemma snapshot_round_trip:
  assumes "lm_wf m" and "named_reservations m" and "key \<noteq> []"
  shows "\<exists>s. authenticated_snapshot M key m = Inr s \<and>
    from_snapshot M (Signed s) (Some key) =
      Inr \<lparr> lm_leases = lm_leases m, lm_usage = map (\<lambda>(i, u). (i, sort u)) (lm_usage m) \<rparr>"
proof -
  have d: "distinct (map fst (lm_leases m))" using assms(1) unfolding lm_wf_def by blast
  have "al_lease_id l = i \<and> (\<exists>u. map_of (lm_usage m) i = Some u \<and> usage_wf l u \<and>
        (\<forall>(k, a, n) \<in> set u. k \<noteq> [] \<and> a \<noteq> []))" if "(i, l) \<in> set (lm_leases m)" for i l
  proof -
    have "map_of (lm_leases m) i = Some l" using d that by (rule map_of_is_SomeI)
    with assms(1) obtain u where "al_lease_id l = i" "map_of (lm_usage m) i = Some u" "usage_wf l u"
      by (rule lm_wfD)
    then show ?thesis using assms(2) by (auto simp: named_reservations_def dest!: map_of_SomeD)
  qed
  then have "\<forall>(i, l) \<in> set (lm_leases m). al_lease_id l = i \<and>
      (\<exists>u. map_of (lm_usage m) i = Some u \<and> usage_wf l u \<and>
        (\<forall>(k, a, n) \<in> set u. k \<noteq> [] \<and> a \<noteq> []))" by blast
  from restore_snapshot_items [OF d this, of new_lease_manager]
  obtain items where items: "snapshot m = Inr items"
    "restore_items items new_lease_manager = (Inr (), new_lease_manager\<lparr>lm_leases := lm_leases m,
       lm_usage := map (\<lambda>(i, l). (i, sort (the (map_of (lm_usage m) i)))) (lm_leases m)\<rparr>)"
    by (auto simp: snapshot_def new_lease_manager_def)
  moreover have "map (\<lambda>(i, l). (i, sort (the (map_of (lm_usage m) i)))) (lm_leases m)
      = map (\<lambda>(i, u). (i, sort u)) (lm_usage m)"
    using assms(1) by (intro usage_by_lease) (auto simp: lm_wf_def)
  ultimately show ?thesis
    using assms(3) by (simp add: authenticated_snapshot_def sign_snapshot_def from_snapshot_def
        snapshot_authenticated_def new_lease_manager_def)
qed

section \<open>The signature covers the snapshot\<close>

lemma lease_state_value_inject [simp]: "lease_state_value s = lease_state_value t \<longleftrightarrow> s = t"
  by (cases s; cases t) simp_all

lemma json_tree_strs [simp]: "json_tree (py_strs xs) = PyList (map PyStr xs)"
  by (simp add: py_strs_def o_def)

lemma map_PyStr_inject [simp]: "map PyStr xs = map PyStr ys \<longleftrightarrow> xs = ys"
  by (rule inj_map_eq_map) (simp add: inj_def)

lemma lease_tree_get:
  "py_get (json_tree (lease_data l)) k = map_option json_tree (map_of (dict_items (lease_data l)) k)"
  unfolding lease_data_def dict_items.simps by (rule py_get_json_tree) simp

lemma lease_data_tree_inject:
  assumes "json_tree (lease_data a) = json_tree (lease_data b)"
  shows "a = b"
proof -
  have get: "map_option json_tree (map_of (dict_items (lease_data a)) k)
           = map_option json_tree (map_of (dict_items (lease_data b)) k)" for k
    using assms by (simp only: lease_tree_get [symmetric])
  note field = get [unfolded lease_data_def dict_items.simps]
  show ?thesis
  proof (rule authority_lease.equality)
    show "al_lease_id a = al_lease_id b" using field [of "''lease_id''"] by simp
    show "al_ocs a = al_ocs b" using field [of "''ocs''"] by simp
    show "al_capability a = al_capability b" using field [of "''capability''"] by simp
    show "al_expires_at a = al_expires_at b" using field [of "''expires_at''"] by simp
    show "al_actor a = al_actor b" using field [of "''actor''"] by simp
    show "al_issued_at a = al_issued_at b" using field [of "''issued_at''"] by simp
    show "al_not_before a = al_not_before b" using field [of "''not_before''"] by simp
    show "al_scope a = al_scope b" using field [of "''scope''"] by simp
    show "al_tenant a = al_tenant b" using field [of "''tenant''"] by simp
    show "al_context_ref a = al_context_ref b" using field [of "''context_ref''"] by simp
    show "al_authority_ref a = al_authority_ref b" using field [of "''authority_ref''"] by simp
    show "al_policy_snapshot a = al_policy_snapshot b"
      using field [of "''policy_snapshot''"] by simp
    show "al_action_binding a = al_action_binding b" using field [of "''action_binding''"] by simp
    show "al_object_ref_or_selector a = al_object_ref_or_selector b"
      using field [of "''object_ref_or_selector''"] by simp
    show "al_trace_ref a = al_trace_ref b" using field [of "''trace_ref''"] by simp
    show "al_max_uses a = al_max_uses b" using field [of "''max_uses''"] by simp
    show "al_uses_consumed a = al_uses_consumed b" using field [of "''uses_consumed''"] by simp
    show "al_revocable a = al_revocable b" using field [of "''revocable''"] by simp
    show "al_single_use a = al_single_use b" using field [of "''single_use''"] by simp
    show "al_state a = al_state b" using field [of "''state''"] by simp
    show "al_revoked a = al_revoked b" using field [of "''revoked''"] by simp
  qed simp
qed

lemma snapshot_tree_get:
  "py_get (json_tree (snapshot_data s)) k
     = map_option json_tree (map_of (dict_items (snapshot_data s)) k)"
  unfolding snapshot_data_def dict_items.simps by (rule py_get_json_tree) simp

lemma reservation_tree_inject:
  "map (json_tree \<circ> (\<lambda>(k, a, i). PyTuple [PyStr k, PyStr a, PyInt i])) xs =
     map (json_tree \<circ> (\<lambda>(k, a, i). PyTuple [PyStr k, PyStr a, PyInt i])) ys \<Longrightarrow> xs = ys"
  by (rule map_injective) (auto simp: inj_def)

lemma snapshot_data_tree_inject:
  assumes "json_tree (snapshot_data s) = json_tree (snapshot_data t)"
  shows "s = t"
proof -
  have get: "map_option json_tree (map_of (dict_items (snapshot_data s)) k)
           = map_option json_tree (map_of (dict_items (snapshot_data t)) k)" for k
    using assms by (simp only: snapshot_tree_get [symmetric])
  note field = get [unfolded snapshot_data_def dict_items.simps]
  have "ls_lease s = ls_lease t"
    using field [of "''lease''"] by (auto intro: lease_data_tree_inject)
  moreover have "ls_reservations s = ls_reservations t"
    using field [of "''reservations''"] by (intro reservation_tree_inject) simp
  ultimately show ?thesis by simp
qed

lemma canonical_snapshot_inject: "canonical_snapshot xs = canonical_snapshot ys \<Longrightarrow> xs = ys"
  by (rule map_injective [of "json_tree \<circ> snapshot_data"])
    (simp_all add: canonical_snapshot_def inj_def snapshot_data_tree_inject)

lemma lm_wf_empty_usage [simp]: "lm_wf \<lparr>lm_leases = [], lm_usage = []\<rparr>"
  by (simp add: lm_wf_def)

lemma from_snapshot_wf: "from_snapshot M source key = Inr m \<Longrightarrow> lm_wf m"
  by (auto simp: from_snapshot_def split: snapshot_source.splits if_splits prod.splits sum.splits
      intro: restore_items_wf [OF _ lm_wf_new])

lemma snapshot_tamper:
  assumes "sign_snapshot M items key = Inr s" and "from_snapshot M (Signed t) (Some key) = Inr m"
    and "as_mac t = as_mac s"
  shows "as_snapshots t = items
     \<or> collision (M key) (canonical_snapshot items) (canonical_snapshot (as_snapshots t))"
  using assms
  by (auto simp: sign_snapshot_def from_snapshot_def snapshot_authenticated_def collision_def
      split: if_splits dest: canonical_snapshot_inject)

section \<open>Properties\<close>

definition sample_lease :: authority_lease where
  "sample_lease = \<lparr> al_lease_id = ''l'', al_ocs = ''A'', al_capability = ''c'', al_expires_at = 100,
     al_actor = ''A'', al_issued_at = 1, al_not_before = 1, al_scope = [''s''], al_tenant = ''t'',
     al_context_ref = ''x'', al_authority_ref = ''au'', al_policy_snapshot = ''p'',
     al_action_binding = ''act'', al_object_ref_or_selector = ''obj'', al_trace_ref = ''tr'',
     al_max_uses = 2, al_uses_consumed = 0, al_revocable = True, al_single_use = False,
     al_state = Lease_ACTIVE, al_revoked = False \<rparr>"

definition sample_envelope :: "string \<Rightarrow> string \<Rightarrow> action_envelope" where
  "sample_envelope action key = \<lparr> ae_action_id = action, ae_actor = ''A'', ae_ocs = ''A'',
     ae_capability = ''c'', ae_operation = ''op'', ae_action_type = ''act'', ae_issued_at = 1,
     ae_payload = PyDict [], ae_lease_id = ''l'', ae_evidence_refs = [], ae_csp_ref = ''csp'',
     ae_object_ref = ''obj'', ae_tenant = ''t'', ae_context_ref = ''x'', ae_scope = [''s''],
     ae_valid_scope = True, ae_authority_ref = ''au'', ae_policy_snapshot = ''p'',
     ae_idempotency_key = key, ae_expected_effect = ''e'', ae_side_effect_class = Effect_BOUNDED,
     ae_reversibility_class = Rev_REVERSIBLE, ae_recovery_ref = ''rec'', ae_expires_at = 50,
     ae_evidence_assessment_ref = ''ev'', ae_max_uses = 2, ae_trace_id = ''tr'',
     ae_lease_use_index = None \<rparr>"

definition sample_calls :: "lease_call list" where
  "sample_calls = [Call_issue 2 sample_lease, Call_reserve 3 3 (sample_envelope ''a'' ''k''),
     Call_reserve 4 4 (sample_envelope ''a'' ''k''), Call_reserve 5 5 (sample_envelope ''b'' ''j''),
     Call_reserve 6 6 (sample_envelope ''d'' ''i'')]"

lemmas sample_simps = sample_lease_def sample_envelope_def issue_def issue_check_def lease_simps
  new_lease_manager_def reserve_use_def validate_basic_def validate_envelope_bindings_def

lemma sample_grants:
  "grants sample_calls new_lease_manager = [(''l'', ''k'', ''a'', 1), (''l'', ''k'', ''a'', 1), (''l'', ''j'', ''b'', 2)]"
  by code_simp

text \<open>
  C1: no double spending. Along any history of a manager, issue, revoke, release, finalize and
  reservation calls in any order and with any outcome, the uses granted on a lease are numbered
  from 1 to at most its \<^verbatim>\<open>max_uses\<close>; two grants carry the same number exactly when they are the
  same idempotency key, and then they are for the same action.
\<close>

theorem lease_no_double_spend:
  assumes "lm_wf m" and "(i, k, a, n) \<in> set (grants calls m)"
    and "(i, k', a', n') \<in> set (grants calls m)"
  shows "(n = n' \<longleftrightarrow> k = k') \<and> (k = k' \<longrightarrow> a = a') \<and> 1 \<le> n \<and>
    (\<exists>l. map_of (lm_leases (lease_run calls m)) i = Some l \<and> n \<le> al_max_uses l)"
proof -
  let ?m = "lease_run calls m"
  have wf: "lm_wf ?m" using assms(1) by (rule lease_run_wf)
  have r: "reservation_of ?m i k = Some (a, n)" "reservation_of ?m i k' = Some (a', n')"
    using assms by (simp_all add: grants_reserved)
  obtain l where "map_of (lm_leases ?m) i = Some l" "1 \<le> n" "n \<le> al_max_uses l"
    using reservation_index [OF wf r(1)] by auto
  moreover have "n = n' \<longleftrightarrow> k = k'"
    using reservation_index_inject [OF wf, of i k a n k' a'] r by fastforce
  moreover have "k = k' \<longrightarrow> a = a'" using r by auto
  ultimately show ?thesis by blast
qed

theorem lease_no_double_spend_witness:
  "\<exists>l. map_of (lm_leases (lease_run sample_calls new_lease_manager)) ''l'' = Some l \<and>
     1 \<le> al_max_uses l"
proof -
  have "(''l'', ''k'', ''a'', 1) \<in> set (grants sample_calls new_lease_manager)"
    "(''l'', ''j'', ''b'', 2) \<in> set (grants sample_calls new_lease_manager)"
    by (simp_all only: sample_grants list.set insert_iff simp_thms)
  from lease_no_double_spend [OF lm_wf_new this] show ?thesis by blast
qed

lemma dead_refused:
  assumes "lease_dead m (ae_lease_id e)"
  shows "\<exists>r. reserve_use t1 t2 e m = (Inr (False, r, None), m)"
    and "\<exists>r. material_effect_guard t1 t2 e m = Inl (ValueError r)"
proof -
  have "\<not> fst (validate_basic t1 (Some (ae_lease_id e)) (ae_ocs e) (ae_capability e) m)"
    using assms by (auto simp: lease_dead_def validate_basic_def split: if_splits)
  then obtain r where
    "validate_basic t1 (Some (ae_lease_id e)) (ae_ocs e) (ae_capability e) m = (False, r)"
    by (metis prod.collapse)
  then show "\<exists>r. reserve_use t1 t2 e m = (Inr (False, r, None), m)"
    and "\<exists>r. material_effect_guard t1 t2 e m = Inl (ValueError r)"
    by (simp_all add: reserve_use_def material_effect_guard_def validate_reserved_use_def)
qed

text \<open>
  A lease that is revoked or released stays so under every later call, and it grants no
  use and passes no effect: reserving on it and entering the material guard are refused.
\<close>

lemma lease_end_is_final:
  assumes "lm_wf m" and "lease_dead m (ae_lease_id e)"
  shows "lease_dead (lease_run calls m) (ae_lease_id e) \<and>
    (\<exists>r. fst (reserve_use t1 t2 e (lease_run calls m)) = Inr (False, r, None)) \<and>
    (\<exists>r. material_effect_guard t1 t2 e (lease_run calls m) = Inl (ValueError r))"
proof -
  have d: "lease_dead (lease_run calls m) (ae_lease_id e)" using assms by (rule lease_run_dead)
  show ?thesis
    using d dead_refused(1) [OF d, of t1 t2] dead_refused(2) [OF d, of t1 t2] by fastforce
qed

lemma lease_end_is_final_witness:
  "\<exists>r. fst (reserve_use 7 7 (sample_envelope ''z'' ''z'')
     (lease_run [Call_finalize ''l'', Call_issue 6 sample_lease]
       (lease_run [Call_issue 2 sample_lease, Call_revoke ''l''] new_lease_manager)))
     = Inr (False, r, None)"
proof -
  let ?m = "lease_run [Call_issue 2 sample_lease, Call_revoke ''l''] new_lease_manager"
  have "lease_dead ?m (ae_lease_id (sample_envelope ''z'' ''z''))"
    by (simp add: lease_run_def lease_dead_def sample_simps revoke_def)
  then show ?thesis using lease_end_is_final [OF lease_run_wf [OF lm_wf_new]] by blast
qed

text \<open>
  A snapshot restores the manager it was taken from: the same leases and, for each, the same
  reservations in sorted order.
\<close>

lemma lease_snapshot_round_trip:
  assumes "lm_wf m" and "named_reservations m" and "key \<noteq> []"
  shows "\<exists>s. authenticated_snapshot M key m = Inr s \<and>
    from_snapshot M (Signed s) (Some key) =
      Inr \<lparr> lm_leases = lm_leases m, lm_usage = map (\<lambda>(i, u). (i, sort u)) (lm_usage m) \<rparr>"
  using assms by (rule snapshot_round_trip)

lemma lease_snapshot_round_trip_witness:
  "\<exists>s. authenticated_snapshot (\<lambda>k v. ''mac'') ''key'' (lease_run sample_calls new_lease_manager) = Inr s \<and>
    from_snapshot (\<lambda>k v. ''mac'') (Signed s) (Some ''key'') =
      Inr \<lparr> lm_leases = lm_leases (lease_run sample_calls new_lease_manager),
            lm_usage = [(''l'', sort [(''k'', ''a'', 1), (''j'', ''b'', 2)])] \<rparr>"
proof -
  let ?m = "lease_run sample_calls new_lease_manager"
  have u: "lm_usage ?m = [(''l'', [(''k'', ''a'', 1), (''j'', ''b'', 2)])]"
    by (simp add: lease_run_def sample_calls_def sample_simps)
  then have "named_reservations ?m" by (simp add: named_reservations_def)
  from lease_snapshot_round_trip [OF lease_run_wf [OF lm_wf_new] this, of "''key''" "\<lambda>k v. ''mac''"]
  show ?thesis by (simp only: u list.map prod.case list.distinct simp_thms not_Cons_self2)
qed

text \<open>
  C4: a forged snapshot is refused or is a MAC collision: one that restores under the key and
  carries the tag of a signed snapshot holds the same leases and reservations as the signed one,
  or exhibits a collision of the keyed digest. What restores is always a well-formed manager.
\<close>

theorem lease_snapshot_tamper_evident:
  assumes "sign_snapshot M items key = Inr s" and "from_snapshot M (Signed t) (Some key) = Inr m"
    and "as_mac t = as_mac s"
  shows "lm_wf m \<and> (as_snapshots t = items
     \<or> collision (M key) (canonical_snapshot items) (canonical_snapshot (as_snapshots t)))"
  using snapshot_tamper [OF assms] from_snapshot_wf [OF assms(2)] by blast

theorem lease_snapshot_tamper_evident_witness:
  "lm_wf new_lease_manager \<and>
     ([\<lparr>ls_lease = sample_lease, ls_reservations = []\<rparr>] = [] \<or>
      collision (\<lambda>v. ''mac'') (canonical_snapshot [\<lparr>ls_lease = sample_lease, ls_reservations = []\<rparr>])
        (canonical_snapshot []))"
proof -
  let ?M = "\<lambda>k v. ''mac''" and ?items = "[\<lparr>ls_lease = sample_lease, ls_reservations = []\<rparr>]"
  let ?t = "\<lparr>as_snapshots = [], as_mac = ''mac'', as_algorithm = ''HMAC-SHA256''\<rparr>"
  have "sign_snapshot ?M ?items ''key''
      = Inr \<lparr>as_snapshots = ?items, as_mac = ''mac'', as_algorithm = ''HMAC-SHA256''\<rparr>"
    by (simp add: sign_snapshot_def)
  moreover have "from_snapshot ?M (Signed ?t) (Some ''key'') = Inr new_lease_manager"
    by (simp add: from_snapshot_def snapshot_authenticated_def py_simps)
  ultimately show ?thesis
    using lease_snapshot_tamper_evident by fastforce
qed

end
