(* ===== verification/Governance.thy ===== *)
theory Governance
  imports Leases
begin

text \<open>
  The rest of \<^verbatim>\<open>app/universal_kernel/governance.py\<close>: the identity loader, the capability
  registry, authenticated assurance receipts, the evidence engine and the governance engine
  that turns a proposal into an envelope, reserves a use for it, guards the effect and
  finalizes the lease.
\<close>

section \<open>Identities and capabilities\<close>

record ocs_identity =
  oi_ocs :: string
  oi_specialty :: string
  oi_constitution_version :: string
  oi_allowed_capabilities :: "string list"
  oi_self_assurance_allowed :: bool

definition identity_loader :: "ocs_identity list \<Rightarrow> (string \<times> ocs_identity) list" where
  "identity_loader identities = fold (\<lambda>identity d. dset (oi_ocs identity) identity d) identities []"

definition load_identity :: "(string \<times> ocs_identity) list \<Rightarrow> string \<Rightarrow> ocs_identity res" where
  "load_identity d ocs =
     (case map_of d ocs of
        None \<Rightarrow> Inl (ValueError ''unknown_ocs_identity'')
      | Some identity \<Rightarrow> Inr identity)"

type_synonym capability_registry = "(string \<times> string list) list"

definition register_capabilities ::
    "string \<Rightarrow> string list \<Rightarrow> capability_registry \<Rightarrow> capability_registry" where
  "register_capabilities ocs capabilities r = dset ocs capabilities r"

definition has_capability :: "capability_registry \<Rightarrow> string \<Rightarrow> string \<Rightarrow> bool" where
  "has_capability r ocs capability =
     (case map_of r ocs of None \<Rightarrow> False | Some cs \<Rightarrow> capability \<in> set cs)"

section \<open>Assurance receipts\<close>

record assurance_receipt =
  ar_receipt_id :: string
  ar_evidence_ref :: string
  ar_object_ref :: string
  ar_policy_snapshot :: string
  ar_assurer :: string
  ar_verdict_passed :: bool
  ar_issued_at :: pytime
  ar_mac :: string

record assurance_registry =
  rg_authentication_key :: string
  rg_receipts :: "(string \<times> assurance_receipt) list"

definition new_assurance_registry :: "string \<Rightarrow> assurance_registry res" where
  "new_assurance_registry key =
     (if key = [] then Inl (ValueError ''assurance_registry_authentication_key_required'')
      else Inr \<lparr> rg_authentication_key = key, rg_receipts = [] \<rparr>)"

definition assurance_payload ::
    "string \<Rightarrow> string \<Rightarrow> string \<Rightarrow> string \<Rightarrow> string \<Rightarrow> bool \<Rightarrow> pytime \<Rightarrow> pyval" where
  "assurance_payload receipt_id evidence_ref object_ref policy_snapshot assurer verdict_passed
       issued_at = json_tree (PyDict
     [(''assurer'', PyStr assurer),
      (''evidence_ref'', PyStr evidence_ref),
      (''issued_at'', PyFloat issued_at),
      (''object_ref'', PyStr object_ref),
      (''policy_snapshot'', PyStr policy_snapshot),
      (''receipt_id'', PyStr receipt_id),
      (''verdict_passed'', PyBool verdict_passed)])"

definition receipt_payload :: "assurance_receipt \<Rightarrow> pyval" where
  "receipt_payload r =
     assurance_payload (ar_receipt_id r) (ar_evidence_ref r) (ar_object_ref r)
       (ar_policy_snapshot r) (ar_assurer r) (ar_verdict_passed r) (ar_issued_at r)"

definition store_receipt :: "assurance_receipt \<Rightarrow> (assurance_registry, unit) py" where
  "store_receipt r =
     py_modify (\<lambda>g. g\<lparr>rg_receipts := dset (ar_evidence_ref r) r (rg_receipts g)\<rparr>)"

definition issue_receipt ::
    "mac \<Rightarrow> pytime \<Rightarrow> string \<Rightarrow> string \<Rightarrow> string \<Rightarrow> string \<Rightarrow> string \<Rightarrow> bool \<Rightarrow> pytime option
       \<Rightarrow> (assurance_registry, assurance_receipt) py" where
  "issue_receipt M now receipt_id evidence_ref object_ref policy_snapshot assurer verdict_passed
       issued_at =
     (let issued = (case issued_at of None \<Rightarrow> now | Some t \<Rightarrow> t);
          payload = assurance_payload receipt_id evidence_ref object_ref policy_snapshot assurer
                      verdict_passed issued
      in py_bind (py_gets rg_authentication_key) (\<lambda>key.
         let receipt = \<lparr> ar_receipt_id = receipt_id, ar_evidence_ref = evidence_ref,
                         ar_object_ref = object_ref, ar_policy_snapshot = policy_snapshot,
                         ar_assurer = assurer, ar_verdict_passed = verdict_passed,
                         ar_issued_at = issued, ar_mac = M key payload \<rparr>
         in py_bind (store_receipt receipt) (\<lambda>_. py_return receipt)))"

definition register_receipt :: "mac \<Rightarrow> assurance_receipt \<Rightarrow> (assurance_registry, unit) py" where
  "register_receipt M r =
     py_bind (py_gets rg_authentication_key) (\<lambda>key.
     if M key (receipt_payload r) \<noteq> ar_mac r then
       py_raise (ValueError ''assurance_receipt_authentication_failed'')
     else store_receipt r)"

definition validate_receipt_for ::
    "mac \<Rightarrow> string \<Rightarrow> action_proposal \<Rightarrow> assurance_registry \<Rightarrow> verdict" where
  "validate_receipt_for M evidence_ref p g =
     (case map_of (rg_receipts g) evidence_ref of
        None \<Rightarrow> (False, ''assurance_receipt_not_found'')
      | Some r \<Rightarrow>
          if M (rg_authentication_key g) (receipt_payload r) \<noteq> ar_mac r then
            (False, ''assurance_receipt_authentication_failed'')
          else if \<not> ar_verdict_passed r then (False, ''assurance_receipt_failed'')
          else if ap_object_ref p \<noteq> Some (ar_object_ref r) then
            (False, ''assurance_receipt_object_mismatch'')
          else if ap_policy_snapshot p \<noteq> Some (ar_policy_snapshot r) then
            (False, ''assurance_receipt_revision_mismatch'')
          else if ar_assurer r \<in> {ap_ocs p, ap_actor p} then (False, ''self_assurance_denied'')
          else (True, ''assurance_receipt_valid''))"

section \<open>Evidence\<close>

definition assess_evidence ::
    "mac \<Rightarrow> assurance_registry option \<Rightarrow> action_proposal \<Rightarrow> evidence_assessment" where
  "assess_evidence M registry p =
     (let failed = map ev_ref (filter (\<lambda>e. \<not> ev_passed e) (ap_evidence p));
          authenticated_independent =
            (case registry of
               None \<Rightarrow> False
             | Some g \<Rightarrow> list_ex (\<lambda>e. fst (validate_receipt_for M (ev_ref e) p g)) (ap_evidence p));
          deficits =
            (if ap_evidence p = [] then [''evidence_required''] else []) @
            (if failed \<noteq> [] then [''evidence_failed''] else []) @
            (if ap_risk p = Risk_HIGH \<and> \<not> authenticated_independent
             then [''independent_assurance_required''] else []);
          evidence_ref =
            (case ap_evidence_assessment_ref p of
               None \<Rightarrow> ''assessment:'' @ ap_action_id p
             | Some r \<Rightarrow> if r = [] then ''assessment:'' @ ap_action_id p else r)
      in \<lparr> ea_sufficiency = deficits = [], ea_deficits = deficits, ea_contradictions = failed,
           ea_risk_burden = ap_risk p, ea_evidence_ref = evidence_ref \<rparr>)"

definition evidence_sufficient ::
    "mac \<Rightarrow> assurance_registry option \<Rightarrow> action_proposal \<Rightarrow> verdict" where
  "evidence_sufficient M registry p =
     (let a = assess_evidence M registry p
      in (ea_sufficiency a,
          if ea_deficits a = [] then ''evidence_sufficient'' else hd (ea_deficits a)))"

section \<open>The engine\<close>

record governance =
  ge_identities :: "(string \<times> ocs_identity) list"
  ge_capabilities :: capability_registry
  ge_assurance :: "assurance_registry option"
  ge_leases :: lease_manager

definition missing_str :: "string option \<Rightarrow> bool" where
  "missing_str v \<longleftrightarrow> v = None \<or> v = Some []"

text \<open>The names whose value is \<^verbatim>\<open>None\<close> or empty, in the order of the dictionary.\<close>

definition missing_fields :: "action_proposal \<Rightarrow> string list" where
  "missing_fields p = map fst (filter snd
     [(''action_type'', missing_str (ap_action_type p)),
      (''issued_at'', ap_issued_at p = None),
      (''csp_ref'', missing_str (ap_csp_ref p)),
      (''object_ref'', missing_str (ap_object_ref p)),
      (''tenant'', missing_str (ap_tenant p)),
      (''context_ref'', missing_str (ap_context_ref p)),
      (''authority_ref'', missing_str (ap_authority_ref p)),
      (''policy_snapshot'', missing_str (ap_policy_snapshot p)),
      (''idempotency_key'', missing_str (ap_idempotency_key p)),
      (''expected_effect'', missing_str (ap_expected_effect p)),
      (''side_effect_class'', ap_side_effect_class p = None),
      (''reversibility_class'', ap_reversibility_class p = None),
      (''recovery_ref'', missing_str (ap_recovery_ref p)),
      (''expires_at'', ap_expires_at p = None),
      (''evidence_assessment_ref'', missing_str (ap_evidence_assessment_ref p)),
      (''trace_id'', missing_str (ap_trace_id p))])"

definition validate_envelope_contract :: "pytime \<Rightarrow> action_proposal \<Rightarrow> verdict" where
  "validate_envelope_contract now p =
     (if missing_fields p \<noteq> [] then
        (False, ''action_envelope_incomplete:'' @ join_with '','' (sort (missing_fields p)))
      else if ap_scope p = [] then (False, ''action_envelope_incomplete:scope'')
      else
        (case (ap_issued_at p, ap_expires_at p) of
           (Some issued, Some expires) \<Rightarrow>
             if issued > now then (False, ''action_envelope_issued_in_future'')
             else if issued > expires then (False, ''action_envelope_invalid_lifetime'')
             else (True, ''action_envelope_complete'')
         | _ \<Rightarrow> (False, ''action_envelope_incomplete'')))"

text \<open>
  The envelope of a proposal whose fields are all present: the assertions before the
  constructor make each of them so, and \<open>the\<close> reads it.
\<close>

definition envelope_of :: "action_proposal \<Rightarrow> int \<Rightarrow> action_envelope" where
  "envelope_of p max_uses =
     \<lparr> ae_action_id = ap_action_id p, ae_actor = ap_actor p, ae_ocs = ap_ocs p,
       ae_capability = ap_capability p, ae_operation = ap_operation p,
       ae_action_type = the (ap_action_type p), ae_issued_at = the (ap_issued_at p),
       ae_payload = ap_payload p, ae_lease_id = the (ap_lease_id p),
       ae_evidence_refs = map ev_ref (ap_evidence p), ae_csp_ref = the (ap_csp_ref p),
       ae_object_ref = the (ap_object_ref p), ae_tenant = the (ap_tenant p),
       ae_context_ref = the (ap_context_ref p), ae_scope = ap_scope p, ae_valid_scope = True,
       ae_authority_ref = the (ap_authority_ref p),
       ae_policy_snapshot = the (ap_policy_snapshot p),
       ae_idempotency_key = the (ap_idempotency_key p),
       ae_expected_effect = the (ap_expected_effect p),
       ae_side_effect_class = the (ap_side_effect_class p),
       ae_reversibility_class = the (ap_reversibility_class p),
       ae_recovery_ref = the (ap_recovery_ref p), ae_expires_at = the (ap_expires_at p),
       ae_evidence_assessment_ref = the (ap_evidence_assessment_ref p),
       ae_max_uses = max_uses, ae_trace_id = the (ap_trace_id p),
       ae_lease_use_index = None \<rparr>"

definition decide ::
    "authorization_decision \<Rightarrow> string \<Rightarrow> action_envelope option \<Rightarrow> evidence_assessment option
       \<Rightarrow> governance_result" where
  "decide d reason envelope assessment =
     \<lparr> gr_decision = d, gr_reason = reason, gr_envelope = envelope, gr_assessment = assessment \<rparr>"

text \<open>
  \<^verbatim>\<open>authorize\<close> reads the clock at most three times: for the envelope's lifetime, for the
  lease's and for the envelope's expiry.
\<close>

definition authorize ::
    "mac \<Rightarrow> pytime \<times> pytime \<times> pytime \<Rightarrow> action_proposal \<Rightarrow> governance \<Rightarrow> governance_result res"
  where
  "authorize M ts p g =
     (case load_identity (ge_identities g) (ap_ocs p) of
        Inl x \<Rightarrow> Inl x
      | Inr identity \<Rightarrow>
         if ap_actor p \<noteq> ap_ocs p then
           Inr (decide Decision_DENY ''actor_ocs_mismatch'' None None)
         else if ap_capability p \<notin> set (oi_allowed_capabilities identity) then
           Inr (decide Decision_DENY ''constitution_denies_capability'' None None)
         else if \<not> has_capability (ge_capabilities g) (ap_ocs p) (ap_capability p) then
           Inr (decide Decision_DENY ''capability_not_registered'' None None)
         else if list_ex (\<lambda>e. ev_independent_assurer e \<in> {Some (ap_ocs p), Some (ap_actor p)})
                (ap_evidence p) then
           Inr (decide Decision_DENY ''self_assurance_denied'' None None)
         else
           (let a = assess_evidence M (ge_assurance g) p
            in if ea_contradictions a \<noteq> [] then
                 Inr (decide Decision_DENY ''evidence_failed'' None (Some a))
               else if \<not> ea_sufficiency a then
                 Inr (decide Decision_HOLD (hd (ea_deficits a)) None (Some a))
               else
                 (case validate_envelope_contract (fst ts) p of
                    (False, reason) \<Rightarrow> Inr (decide Decision_DENY reason None (Some a))
                  | (True, _) \<Rightarrow>
                     (case validate_proposal (fst (snd ts)) (snd (snd ts)) p (ge_leases g) of
                        (False, reason) \<Rightarrow> Inr (decide Decision_DENY reason None (Some a))
                      | (True, _) \<Rightarrow>
                         (case fst (lease_for (the (ap_lease_id p)) (ge_leases g)) of
                            Inl x \<Rightarrow> Inl x
                          | Inr lease \<Rightarrow>
                              Inr (decide Decision_ALLOW ''authorized''
                                     (Some (envelope_of p (al_max_uses lease))) (Some a)))))))"

definition on_leases :: "(lease_manager, 'a) py \<Rightarrow> (governance, 'a) py" where
  "on_leases m = py_on ge_leases (\<lambda>l g. g\<lparr>ge_leases := l\<rparr>) m"

definition reserve_authority ::
    "pytime \<Rightarrow> pytime \<Rightarrow> action_envelope \<Rightarrow> (governance, governance_result) py" where
  "reserve_authority t1 t2 e =
     py_bind (on_leases (reserve_use t1 t2 e)) (\<lambda>(ok, reason, use_index).
     case (ok, use_index) of
       (True, Some n) \<Rightarrow>
         py_return (decide Decision_ALLOW reason (Some (e\<lparr>ae_lease_use_index := Some n\<rparr>)) None)
     | _ \<Rightarrow> py_return (decide Decision_DENY reason None None))"

definition governance_effect_guard ::
    "pytime \<Rightarrow> pytime \<Rightarrow> action_envelope \<Rightarrow> governance \<Rightarrow> unit res" where
  "governance_effect_guard t1 t2 e g = material_effect_guard t1 t2 e (ge_leases g)"

definition finalize_authority :: "action_envelope \<Rightarrow> (governance, lease_state) py" where
  "finalize_authority e = on_leases (finalize (ae_lease_id e))"

section \<open>When a proposal is allowed\<close>

lemma validate_proposal_True:
  "fst (validate_proposal t1 t2 p m) \<longleftrightarrow>
     (\<exists>i l. ap_lease_id p = Some i \<and> map_of (lm_leases m) i = Some l \<and>
        fst (validate_basic t1 (Some i) (ap_ocs p) (ap_capability p) m) \<and>
        fst (proposal_bindings t2 p l))"
  by (auto simp: validate_proposal_def validate_basic_def split: option.splits bool.splits prod.splits if_splits)

text \<open>The conditions, stated without their order.\<close>

definition proposal_bound :: "pytime \<Rightarrow> action_proposal \<Rightarrow> authority_lease \<Rightarrow> bool" where
  "proposal_bound t2 p l \<longleftrightarrow>
     ap_actor p = al_actor l \<and> ap_action_type p = Some (al_action_binding l) \<and>
     ap_object_ref p = Some (al_object_ref_or_selector l) \<and> ap_trace_id p = Some (al_trace_ref l) \<and>
     (\<exists>i. ap_issued_at p = Some i \<and> al_not_before l \<le> i) \<and>
     ap_tenant p = Some (al_tenant l) \<and> ap_context_ref p = Some (al_context_ref l) \<and>
     ap_authority_ref p = Some (al_authority_ref l) \<and>
     ap_policy_snapshot p = Some (al_policy_snapshot l) \<and>
     ap_scope p \<noteq> [] \<and> set (ap_scope p) \<subseteq> set (al_scope l) \<and>
     (\<exists>x. ap_expires_at p = Some x \<and> x \<le> al_expires_at l \<and> t2 < x)"

definition lease_live :: "pytime \<Rightarrow> string \<Rightarrow> string \<Rightarrow> authority_lease \<Rightarrow> bool" where
  "lease_live now ocs capability l \<longleftrightarrow>
     \<not> al_revoked l \<and> al_state l \<noteq> Lease_RELEASED \<and> al_not_before l \<le> now \<and>
     now < al_expires_at l \<and> al_ocs l = ocs \<and> al_capability l = capability"

definition proposal_complete :: "pytime \<Rightarrow> action_proposal \<Rightarrow> bool" where
  "proposal_complete now p \<longleftrightarrow>
     (\<forall>v \<in> {ap_action_type p, ap_csp_ref p, ap_object_ref p, ap_tenant p, ap_context_ref p,
            ap_authority_ref p, ap_policy_snapshot p, ap_idempotency_key p, ap_expected_effect p,
            ap_recovery_ref p, ap_evidence_assessment_ref p, ap_trace_id p}. \<not> missing_str v) \<and>
     ap_side_effect_class p \<noteq> None \<and> ap_reversibility_class p \<noteq> None \<and> ap_scope p \<noteq> [] \<and>
     (\<exists>i x. ap_issued_at p = Some i \<and> ap_expires_at p = Some x \<and> i \<le> now \<and> i \<le> x)"

definition evidence_holds :: "mac \<Rightarrow> assurance_registry option \<Rightarrow> action_proposal \<Rightarrow> bool" where
  "evidence_holds M registry p \<longleftrightarrow>
     ap_evidence p \<noteq> [] \<and> (\<forall>e \<in> set (ap_evidence p). ev_passed e) \<and>
     (ap_risk p = Risk_HIGH \<longrightarrow>
        (\<exists>g. registry = Some g \<and>
           (\<exists>e \<in> set (ap_evidence p). fst (validate_receipt_for M (ev_ref e) p g))))"

definition actor_admitted :: "governance \<Rightarrow> action_proposal \<Rightarrow> bool" where
  "actor_admitted g p \<longleftrightarrow>
     (\<exists>identity. map_of (ge_identities g) (ap_ocs p) = Some identity \<and>
        ap_capability p \<in> set (oi_allowed_capabilities identity)) \<and>
     ap_actor p = ap_ocs p \<and> has_capability (ge_capabilities g) (ap_ocs p) (ap_capability p) \<and>
     (\<forall>e \<in> set (ap_evidence p). ev_independent_assurer e \<noteq> Some (ap_ocs p))"

lemma verdict_if: "fst (if c then (False, r) else v) \<longleftrightarrow> \<not> c \<and> fst v"
  by simp

lemma proposal_bindings_True: "fst (proposal_bindings t2 p l) \<longleftrightarrow> proposal_bound t2 p l"
  unfolding proposal_bindings_def proposal_bound_def verdict_if
  by (cases "ap_issued_at p"; cases "ap_expires_at p") (auto simp: not_less not_le)

lemma validate_basic_live:
  "fst (validate_basic now (Some i) ocs cap m) \<longleftrightarrow>
     (\<exists>l. map_of (lm_leases m) i = Some l \<and> lease_live now ocs cap l)"
  by (auto simp: validate_basic_def lease_live_def split: option.splits)

lemma validate_proposal_iff:
  "fst (validate_proposal t1 t2 p m) \<longleftrightarrow>
     (\<exists>i l. ap_lease_id p = Some i \<and> map_of (lm_leases m) i = Some l \<and>
        lease_live t1 (ap_ocs p) (ap_capability p) l \<and> proposal_bound t2 p l)"
  by (auto simp: validate_proposal_True validate_basic_live proposal_bindings_True)

lemma missing_fields_Nil:
  "missing_fields p = [] \<longleftrightarrow>
     (\<forall>v \<in> {ap_action_type p, ap_csp_ref p, ap_object_ref p, ap_tenant p, ap_context_ref p,
            ap_authority_ref p, ap_policy_snapshot p, ap_idempotency_key p, ap_expected_effect p,
            ap_recovery_ref p, ap_evidence_assessment_ref p, ap_trace_id p}. \<not> missing_str v) \<and>
     ap_side_effect_class p \<noteq> None \<and> ap_reversibility_class p \<noteq> None \<and>
     ap_issued_at p \<noteq> None \<and> ap_expires_at p \<noteq> None"
  unfolding missing_fields_def by (simp add: filter_empty_conv conj_ac)

lemma validate_envelope_contract_True:
  "fst (validate_envelope_contract now p) \<longleftrightarrow> proposal_complete now p"
proof (cases "missing_fields p = []")
  case True
  then obtain i x where ix: "ap_issued_at p = Some i" "ap_expires_at p = Some x"
    by (auto simp: missing_fields_Nil)
  have "proposal_complete now p \<longleftrightarrow> ap_scope p \<noteq> [] \<and> i \<le> now \<and> i \<le> x"
    using True [unfolded missing_fields_Nil] ix unfolding proposal_complete_def by simp
  then show ?thesis using True ix by (auto simp: validate_envelope_contract_def)
next
  case False
  then have "\<not> proposal_complete now p"
    unfolding missing_fields_Nil proposal_complete_def by blast
  then show ?thesis using False by (simp add: validate_envelope_contract_def)
qed

lemma assess_evidence_holds:
  "ea_contradictions (assess_evidence M r p) = [] \<and> ea_sufficiency (assess_evidence M r p)
     \<longleftrightarrow> evidence_holds M r p"
  by (auto simp: assess_evidence_def evidence_holds_def Let_def list_ex_iff filter_empty_conv
      split: option.splits if_splits)

lemma authorize_allow:
  "authorize M (t0, t1, t2) p g = Inr r \<and> gr_decision r = Decision_ALLOW \<longleftrightarrow>
     actor_admitted g p \<and> evidence_holds M (ge_assurance g) p \<and> proposal_complete t0 p \<and>
     (\<exists>i l. ap_lease_id p = Some i \<and> map_of (lm_leases (ge_leases g)) i = Some l \<and>
        lease_live t1 (ap_ocs p) (ap_capability p) l \<and> proposal_bound t2 p l \<and>
        r = decide Decision_ALLOW ''authorized'' (Some (envelope_of p (al_max_uses l)))
              (Some (assess_evidence M (ge_assurance g) p)))"
  (is "?L \<longleftrightarrow> ?R")
proof (cases "actor_admitted g p")
  case False
  have "\<not> ?L"
  proof (cases "map_of (ge_identities g) (ap_ocs p)")
    case None
    then show ?thesis by (simp add: authorize_def load_identity_def)
  next
    case (Some identity)
    consider "ap_actor p \<noteq> ap_ocs p"
      | "ap_actor p = ap_ocs p" "ap_capability p \<notin> set (oi_allowed_capabilities identity)"
      | "ap_actor p = ap_ocs p" "ap_capability p \<in> set (oi_allowed_capabilities identity)"
        "\<not> has_capability (ge_capabilities g) (ap_ocs p) (ap_capability p)"
      | "ap_actor p = ap_ocs p" "ap_capability p \<in> set (oi_allowed_capabilities identity)"
        "has_capability (ge_capabilities g) (ap_ocs p) (ap_capability p)"
        "list_ex (\<lambda>e. ev_independent_assurer e \<in> {Some (ap_ocs p), Some (ap_actor p)}) (ap_evidence p)"
      using False Some by (auto simp: actor_admitted_def list_ex_iff)
    then show ?thesis
      by cases (auto simp: Some authorize_def load_identity_def decide_def)
  qed
  then show ?thesis using False by blast
next
  case True
  then obtain identity where "load_identity (ge_identities g) (ap_ocs p) = Inr identity"
    "ap_capability p \<in> set (oi_allowed_capabilities identity)" "ap_actor p = ap_ocs p"
    "has_capability (ge_capabilities g) (ap_ocs p) (ap_capability p)"
    "\<not> list_ex (\<lambda>e. ev_independent_assurer e \<in> {Some (ap_ocs p), Some (ap_actor p)}) (ap_evidence p)"
    by (auto simp: actor_admitted_def load_identity_def list_ex_iff)
  note admitted = this
  let ?a = "assess_evidence M (ge_assurance g) p"
  show ?thesis
  proof (cases "evidence_holds M (ge_assurance g) p")
    case False
    then have "\<not> (ea_contradictions ?a = [] \<and> ea_sufficiency ?a)"
      by (simp only: assess_evidence_holds not_False_eq_True)
    then have "\<not> ?L" using admitted by (auto simp: authorize_def decide_def Let_def)
    then show ?thesis using False by blast
  next
    case holds: True
    then have ea: "ea_contradictions ?a = []" "ea_sufficiency ?a"
      by (simp_all only: assess_evidence_holds [symmetric])
    obtain ok1 r1 where c: "validate_envelope_contract t0 p = (ok1, r1)" by fastforce
    obtain ok2 r2 where v: "validate_proposal t1 t2 p (ge_leases g) = (ok2, r2)" by fastforce
    have ok: "ok1 = proposal_complete t0 p"
      "ok2 = (\<exists>i l. ap_lease_id p = Some i \<and> map_of (lm_leases (ge_leases g)) i = Some l \<and>
        lease_live t1 (ap_ocs p) (ap_capability p) l \<and> proposal_bound t2 p l)"
      using validate_envelope_contract_True [of t0 p] c
        validate_proposal_iff [of t1 t2 p "ge_leases g"] v by simp_all
    show ?thesis
    proof (cases "ok1 \<and> ok2")
      case False
      then have "\<not> ?L" using admitted ea c v
        by (cases ok1; cases ok2) (auto simp: authorize_def decide_def Let_def)
      moreover have "\<not> ?R" using False ok by blast
      ultimately show ?thesis by blast
    next
      case both: True
      then obtain i l where l: "ap_lease_id p = Some i" "map_of (lm_leases (ge_leases g)) i = Some l"
        "lease_live t1 (ap_ocs p) (ap_capability p) l" "proposal_bound t2 p l"
        using ok by blast
      have "authorize M (t0, t1, t2) p g =
          Inr (decide Decision_ALLOW ''authorized'' (Some (envelope_of p (al_max_uses l))) (Some ?a))"
        using admitted ea c v both l by (simp add: authorize_def Let_def lease_for_run)
      then show ?thesis using True holds both ok(1) l by (auto simp: decide_def)
    qed
  qed
qed

section \<open>From the decision to the effect\<close>

definition envelope_bound :: "pytime \<Rightarrow> action_envelope \<Rightarrow> authority_lease \<Rightarrow> bool" where
  "envelope_bound t2 e l \<longleftrightarrow>
     ae_actor e = al_actor l \<and> ae_action_type e = al_action_binding l \<and>
     ae_object_ref e = al_object_ref_or_selector l \<and> ae_trace_id e = al_trace_ref l \<and>
     al_not_before l \<le> ae_issued_at e \<and> ae_tenant e = al_tenant l \<and>
     ae_context_ref e = al_context_ref l \<and> ae_authority_ref e = al_authority_ref l \<and>
     ae_policy_snapshot e = al_policy_snapshot l \<and> ae_valid_scope e \<and>
     set (ae_scope e) \<subseteq> set (al_scope l) \<and> ae_expires_at e \<le> al_expires_at l \<and>
     t2 < ae_expires_at e \<and> ae_max_uses e = al_max_uses l"

lemma validate_envelope_bindings_True:
  "fst (validate_envelope_bindings t2 e l) \<longleftrightarrow> envelope_bound t2 e l"
  unfolding validate_envelope_bindings_def envelope_bound_def verdict_if
  by (auto simp: not_less not_le)

lemma effect_guard_opens:
  "material_effect_guard t1 t2 e m = Inr () \<longleftrightarrow>
     (\<exists>l n. map_of (lm_leases m) (ae_lease_id e) = Some l \<and>
        lease_live t1 (ae_ocs e) (ae_capability e) l \<and> envelope_bound t2 e l \<and>
        ae_lease_use_index e = Some n \<and>
        reservation_of m (ae_lease_id e) (ae_idempotency_key e) = Some (ae_action_id e, n))"
proof (cases "fst (validate_basic t1 (Some (ae_lease_id e)) (ae_ocs e) (ae_capability e) m)")
  case False
  then obtain r where
    "validate_basic t1 (Some (ae_lease_id e)) (ae_ocs e) (ae_capability e) m = (False, r)"
    by (metis prod.collapse)
  then show ?thesis
    using False [unfolded validate_basic_live]
    by (auto simp: material_effect_guard_def validate_reserved_use_def)
next
  case True
  then obtain r where b:
    "validate_basic t1 (Some (ae_lease_id e)) (ae_ocs e) (ae_capability e) m = (True, r)"
    by (metis (full_types) prod.collapse)
  from True obtain l where l: "map_of (lm_leases m) (ae_lease_id e) = Some l"
    "lease_live t1 (ae_ocs e) (ae_capability e) l"
    by (auto simp: validate_basic_live)
  obtain ok r' where v: "validate_envelope_bindings t2 e l = (ok, r')" by fastforce
  then have ok: "ok = envelope_bound t2 e l"
    using validate_envelope_bindings_True [of t2 e l] by simp
  show ?thesis
    using b l v ok
    by (auto simp: material_effect_guard_def validate_reserved_use_def reservation_of_def
        split: bool.splits option.splits)
qed

lemma reserve_use_fresh:
  assumes "map_of (lm_leases m) (ae_lease_id e) = Some l" "lm_wf m"
    "lease_live t1 (ae_ocs e) (ae_capability e) l" "envelope_bound t2 e l"
    "reservation_of m (ae_lease_id e) (ae_idempotency_key e) = None"
    "al_uses_consumed l < al_max_uses l"
  shows "fst (reserve_use t1 t2 e m) =
      Inr (True, ''lease_use_reserved'', Some (al_uses_consumed l + 1))"
    and "reservation_of (snd (reserve_use t1 t2 e m)) (ae_lease_id e) (ae_idempotency_key e)
       = Some (ae_action_id e, al_uses_consumed l + 1)"
    and "map_of (lm_leases (snd (reserve_use t1 t2 e m))) (ae_lease_id e)
       = Some (l\<lparr>al_uses_consumed := al_uses_consumed l + 1, al_state := Lease_CONSUMED\<rparr>)"
proof -
  obtain u where u: "map_of (lm_usage m) (ae_lease_id e) = Some u"
    using assms(1,2) by (auto elim: lm_wfD)
  have "fst (validate_basic t1 (Some (ae_lease_id e)) (ae_ocs e) (ae_capability e) m)"
    using assms(1,3) by (auto simp: validate_basic_live)
  then obtain r where
    "validate_basic t1 (Some (ae_lease_id e)) (ae_ocs e) (ae_capability e) m = (True, r)"
    by (metis (full_types) prod.collapse)
  moreover obtain r' where "validate_envelope_bindings t2 e l = (True, r')"
    using validate_envelope_bindings_True [of t2 e l] assms(4) by (metis (full_types) prod.collapse)
  moreover have "map_of u (ae_idempotency_key e) = None"
    using u assms(5) by (simp add: reservation_of_def)
  ultimately have run: "reserve_use t1 t2 e m =
      (Inr (True, ''lease_use_reserved'', Some (al_uses_consumed l + 1)),
       m\<lparr>lm_leases := dset (ae_lease_id e) (l\<lparr>al_uses_consumed := al_uses_consumed l + 1,
                                     al_state := Lease_CONSUMED\<rparr>) (lm_leases m),
         lm_usage := dset (ae_lease_id e)
              (dset (ae_idempotency_key e) (ae_action_id e, al_uses_consumed l + 1) u)
              (lm_usage m)\<rparr>)"
    using assms(1,6) u by (simp add: reserve_use_def Let_def)
  show "fst (reserve_use t1 t2 e m) =
      Inr (True, ''lease_use_reserved'', Some (al_uses_consumed l + 1))"
    and "reservation_of (snd (reserve_use t1 t2 e m)) (ae_lease_id e) (ae_idempotency_key e)
       = Some (ae_action_id e, al_uses_consumed l + 1)"
    and "map_of (lm_leases (snd (reserve_use t1 t2 e m))) (ae_lease_id e)
       = Some (l\<lparr>al_uses_consumed := al_uses_consumed l + 1, al_state := Lease_CONSUMED\<rparr>)"
    by (simp_all add: run reservation_of_def)
qed

lemma envelope_of_bound:
  assumes "proposal_bound t2 p l" and "t4 < the (ap_expires_at p)"
  shows "envelope_bound t4 (envelope_of p (al_max_uses l)) l"
  using assms by (auto simp: proposal_bound_def envelope_bound_def envelope_of_def)

lemma on_leases_run:
  "on_leases f g = (fst (f (ge_leases g)), g\<lparr>ge_leases := snd (f (ge_leases g))\<rparr>)"
  by (simp add: on_leases_def py_simps)

text \<open>
  C2: what \<^verbatim>\<open>authorize\<close> answers, without the order of its checks: it allows a proposal, with
  the envelope built from it, exactly when the actor is the OCS and is entitled to the
  capability by constitution and registry, none of the evidence is self-assured, all of it
  passed (and one item has an authenticated independent receipt when the risk is high), the
  proposal is complete and current, and the lease it names is live and binds every field of it.
\<close>

theorem authorize_allow_iff:
  "authorize M (t0, t1, t2) p g = Inr r \<and> gr_decision r = Decision_ALLOW \<longleftrightarrow>
     actor_admitted g p \<and> evidence_holds M (ge_assurance g) p \<and> proposal_complete t0 p \<and>
     (\<exists>i l. ap_lease_id p = Some i \<and> map_of (lm_leases (ge_leases g)) i = Some l \<and>
        lease_live t1 (ap_ocs p) (ap_capability p) l \<and> proposal_bound t2 p l \<and>
        r = decide Decision_ALLOW ''authorized'' (Some (envelope_of p (al_max_uses l)))
              (Some (assess_evidence M (ge_assurance g) p)))"
  by (rule authorize_allow)

text \<open>
  A HIGH-risk proposal is allowed only on an assurance receipt whose MAC checks under the
  registry's key, which passed the same object under the same policy, and whose assurer is
  neither the actor nor the OCS.
\<close>

lemma high_risk_needs_independent_receipt:
  assumes "authorize M ts p g = Inr r" and "gr_decision r = Decision_ALLOW"
    and "ap_risk p = Risk_HIGH"
  shows "\<exists>reg e rc. ge_assurance g = Some reg \<and> e \<in> set (ap_evidence p) \<and>
    map_of (rg_receipts reg) (ev_ref e) = Some rc \<and>
    M (rg_authentication_key reg) (receipt_payload rc) = ar_mac rc \<and> ar_verdict_passed rc \<and>
    ap_object_ref p = Some (ar_object_ref rc) \<and> ap_policy_snapshot p = Some (ar_policy_snapshot rc) \<and>
    ar_assurer rc \<noteq> ap_ocs p \<and> ar_assurer rc \<noteq> ap_actor p"
proof -
  obtain t0 t1 t2 where "ts = (t0, t1, t2)" by (metis prod.collapse)
  with assms have "evidence_holds M (ge_assurance g) p"
    using authorize_allow [of M t0 t1 t2 p g r] by blast
  then obtain reg e where "ge_assurance g = Some reg" "e \<in> set (ap_evidence p)"
    "fst (validate_receipt_for M (ev_ref e) p reg)"
    using assms(3) by (auto simp: evidence_holds_def)
  then show ?thesis
    by (auto simp: validate_receipt_for_def split: option.splits if_splits)
qed

text \<open>
  C3: an allowed proposal can be carried out: while its lease has a use left and its
  idempotency key is new, reserving at any time up to the envelope's expiry is granted, and the
  material guard then opens for the reserved envelope at any time up to the expiry.
\<close>

theorem authorized_envelope_reaches_effect:
  assumes "authorize M (t0, t1, t2) p g = Inr r" and "gr_decision r = Decision_ALLOW"
    and "gr_envelope r = Some e" and "lm_wf (ge_leases g)"
    and "map_of (lm_leases (ge_leases g)) (ae_lease_id e) = Some l"
    and "al_uses_consumed l < al_max_uses l"
    and "reservation_of (ge_leases g) (ae_lease_id e) (ae_idempotency_key e) = None"
    and "t0 \<le> t3" and "t3 < ae_expires_at e" and "t4 < ae_expires_at e"
  shows "\<exists>g'. reserve_authority t3 t4 e g =
      (Inr (decide Decision_ALLOW ''lease_use_reserved''
              (Some (e\<lparr>ae_lease_use_index := Some (al_uses_consumed l + 1)\<rparr>)) None), g') \<and>
    (\<forall>t5 t6. t0 \<le> t5 \<and> t5 < ae_expires_at e \<and> t6 < ae_expires_at e \<longrightarrow>
       governance_effect_guard t5 t6 (e\<lparr>ae_lease_use_index := Some (al_uses_consumed l + 1)\<rparr>) g'
         = Inr ())"
proof -
  from assms(1,2) obtain i l' where "proposal_complete t0 p" "ap_lease_id p = Some i"
    "map_of (lm_leases (ge_leases g)) i = Some l'" "lease_live t1 (ap_ocs p) (ap_capability p) l'"
    "proposal_bound t2 p l'"
    "r = decide Decision_ALLOW ''authorized'' (Some (envelope_of p (al_max_uses l')))
              (Some (assess_evidence M (ge_assurance g) p))"
    using authorize_allow [of M t0 t1 t2 p g r] by blast
  moreover from this assms(3) have e: "e = envelope_of p (al_max_uses l')"
    by (simp add: decide_def)
  moreover from this calculation have "l' = l" using assms(5) by (simp add: envelope_of_def)
  ultimately have live: "lease_live t1 (ae_ocs e) (ae_capability e) l"
    and pb: "proposal_bound t2 p l" and complete: "proposal_complete t0 p"
    and e: "e = envelope_of p (al_max_uses l)"
    by (simp_all add: envelope_of_def)
  have "al_not_before l \<le> t0" "ae_expires_at e \<le> al_expires_at l"
    using pb complete by (auto simp: proposal_bound_def proposal_complete_def e envelope_of_def)
  with live have live': "lease_live t (ae_ocs e) (ae_capability e) l"
    if "t0 \<le> t" "t < ae_expires_at e" for t
    using that by (auto simp: lease_live_def)
  have bound: "envelope_bound t e l" if "t < ae_expires_at e" for t
    using envelope_of_bound [OF pb] that by (simp add: e envelope_of_def)
  define m' where "m' = snd (reserve_use t3 t4 e (ge_leases g))"
  note m' = reserve_use_fresh [OF assms(5,4) live' [OF assms(8,9)] bound [OF assms(10)] assms(7,6),
      folded m'_def]
  have "material_effect_guard t5 t6 (e\<lparr>ae_lease_use_index := Some (al_uses_consumed l + 1)\<rparr>) m' = Inr ()"
    if "t0 \<le> t5" "t5 < ae_expires_at e" "t6 < ae_expires_at e" for t5 t6
    unfolding effect_guard_opens
    using m'(2,3) live' [OF that(1,2)] bound [OF that(3)]
    by (simp add: lease_live_def envelope_bound_def)
  then show ?thesis
    using m'(1) by (simp add: reserve_authority_def on_leases_run py_simps governance_effect_guard_def
        m'_def)
qed

text \<open>
  The last check before an effect: the guard opens exactly for an envelope that names a live
  lease, is bound to it field by field, and carries the index that was reserved on that lease
  for its idempotency key and its action.
\<close>

lemma effect_guard_iff:
  "governance_effect_guard t1 t2 e g = Inr () \<longleftrightarrow>
     (\<exists>l n. map_of (lm_leases (ge_leases g)) (ae_lease_id e) = Some l \<and>
        lease_live t1 (ae_ocs e) (ae_capability e) l \<and> envelope_bound t2 e l \<and>
        ae_lease_use_index e = Some n \<and>
        reservation_of (ge_leases g) (ae_lease_id e) (ae_idempotency_key e)
          = Some (ae_action_id e, n))"
  by (simp add: governance_effect_guard_def effect_guard_opens)

text \<open>A HIGH-risk proposal with its receipt, allowed; the two properties above applied to it.\<close>

definition sample_proposal :: action_proposal where
  "sample_proposal = \<lparr> ap_action_id = ''a'', ap_actor = ''A'', ap_ocs = ''A'', ap_capability = ''c'',
     ap_operation = ''op'', ap_payload = PyDict [], ap_risk = Risk_HIGH, ap_lease_id = Some ''l'',
     ap_evidence = [\<lparr> ev_ref = ''e'', ev_passed = True, ev_independent_assurer = Some ''Z'' \<rparr>],
     ap_action_type = Some ''act'', ap_issued_at = Some 1, ap_csp_ref = Some ''csp'',
     ap_object_ref = Some ''obj'', ap_tenant = Some ''t'', ap_context_ref = Some ''x'',
     ap_scope = [''s''], ap_authority_ref = Some ''au'', ap_policy_snapshot = Some ''p'',
     ap_idempotency_key = Some ''k'', ap_expected_effect = Some ''e'',
     ap_side_effect_class = Some Effect_BOUNDED, ap_reversibility_class = Some Rev_REVERSIBLE,
     ap_recovery_ref = Some ''rec'', ap_expires_at = Some 50,
     ap_evidence_assessment_ref = Some ''ev'', ap_trace_id = Some ''tr'' \<rparr>"

definition sample_receipt :: assurance_receipt where
  "sample_receipt = \<lparr> ar_receipt_id = ''r'', ar_evidence_ref = ''e'', ar_object_ref = ''obj'',
     ar_policy_snapshot = ''p'', ar_assurer = ''Z'', ar_verdict_passed = True, ar_issued_at = 1,
     ar_mac = ''mac'' \<rparr>"

definition sample_mac :: mac where
  "sample_mac k v = ''mac''"

definition sample_governance :: governance where
  "sample_governance = \<lparr> ge_identities = identity_loader
       [\<lparr> oi_ocs = ''A'', oi_specialty = ''s'', oi_constitution_version = ''1'',
          oi_allowed_capabilities = [''c''], oi_self_assurance_allowed = False \<rparr>],
     ge_capabilities = register_capabilities ''A'' [''c''] [],
     ge_assurance = Some \<lparr> rg_authentication_key = ''key'', rg_receipts = [(''e'', sample_receipt)] \<rparr>,
     ge_leases = lease_run [Call_issue 2 sample_lease] new_lease_manager \<rparr>"

lemma sample_leases:
  "ge_leases sample_governance = \<lparr> lm_leases = [(''l'', sample_lease)], lm_usage = [(''l'', [])] \<rparr>"
  by (simp add: sample_governance_def lease_run_def sample_simps)

lemma sample_evidence_holds: "evidence_holds sample_mac (ge_assurance sample_governance) sample_proposal"
  by (simp add: evidence_holds_def sample_governance_def sample_proposal_def validate_receipt_for_def
      sample_receipt_def sample_mac_def)

lemma sample_admitted: "actor_admitted sample_governance sample_proposal"
  by (simp add: actor_admitted_def sample_governance_def sample_proposal_def identity_loader_def
      register_capabilities_def has_capability_def)

lemma sample_complete: "proposal_complete 3 sample_proposal"
  by (simp add: proposal_complete_def sample_proposal_def missing_str_def)

lemma sample_authorized:
  "authorize sample_mac (3, 3, 3) sample_proposal sample_governance =
     Inr (decide Decision_ALLOW ''authorized'' (Some (envelope_of sample_proposal 2))
       (Some (assess_evidence sample_mac (ge_assurance sample_governance) sample_proposal)))"
proof -
  have "lease_live 3 (ap_ocs sample_proposal) (ap_capability sample_proposal) sample_lease"
    by (simp add: lease_live_def sample_proposal_def sample_lease_def)
  moreover have "proposal_bound 3 sample_proposal sample_lease"
    by (simp add: proposal_bound_def sample_proposal_def sample_lease_def)
  moreover have "ap_lease_id sample_proposal = Some ''l''" "al_max_uses sample_lease = 2"
    by (simp_all add: sample_proposal_def sample_lease_def)
  ultimately show ?thesis
    using sample_admitted sample_evidence_holds sample_complete
    by (auto simp: authorize_allow [THEN iffD2, THEN conjunct1] sample_leases)
qed

lemma high_risk_needs_independent_receipt_witness:
  "\<exists>reg e rc. ge_assurance sample_governance = Some reg \<and> e \<in> set (ap_evidence sample_proposal) \<and>
    map_of (rg_receipts reg) (ev_ref e) = Some rc \<and>
    sample_mac (rg_authentication_key reg) (receipt_payload rc) = ar_mac rc \<and> ar_verdict_passed rc \<and>
    ap_object_ref sample_proposal = Some (ar_object_ref rc) \<and>
    ap_policy_snapshot sample_proposal = Some (ar_policy_snapshot rc) \<and>
    ar_assurer rc \<noteq> ap_ocs sample_proposal \<and> ar_assurer rc \<noteq> ap_actor sample_proposal"
  by (rule high_risk_needs_independent_receipt [OF sample_authorized])
    (simp_all add: decide_def sample_proposal_def)

theorem authorized_envelope_reaches_effect_witness:
  "\<exists>e g'. reserve_authority 4 5 (envelope_of sample_proposal 2) sample_governance =
      (Inr (decide Decision_ALLOW ''lease_use_reserved'' (Some e) None), g') \<and>
    governance_effect_guard 6 7 e g' = Inr ()"
proof -
  have "lm_wf (ge_leases sample_governance)"
    using lease_run_wf [OF lm_wf_new] by (simp add: sample_governance_def)
  from authorized_envelope_reaches_effect [OF sample_authorized _ _ this, of _ sample_lease 4 5]
  obtain g' where r: "reserve_authority 4 5 (envelope_of sample_proposal 2) sample_governance =
      (Inr (decide Decision_ALLOW ''lease_use_reserved''
         (Some (envelope_of sample_proposal 2
            \<lparr>ae_lease_use_index := Some (al_uses_consumed sample_lease + 1)\<rparr>)) None), g')"
    and opens: "\<forall>t5 t6. 3 \<le> t5 \<and> t5 < ae_expires_at (envelope_of sample_proposal 2) \<and>
       t6 < ae_expires_at (envelope_of sample_proposal 2) \<longrightarrow>
       governance_effect_guard t5 t6 (envelope_of sample_proposal 2
         \<lparr>ae_lease_use_index := Some (al_uses_consumed sample_lease + 1)\<rparr>) g' = Inr ()"
    by (auto simp add: decide_def sample_leases reservation_of_def envelope_of_def
        sample_proposal_def sample_lease_def)
  have "ae_expires_at (envelope_of sample_proposal 2) = 50"
    by (simp add: envelope_of_def sample_proposal_def)
  with opens [rule_format, of 6 7] r show ?thesis by auto
qed

end
