(* ===== verification/State_Trace.thy ===== *)
theory State_Trace
  imports Kernel_Contracts Chained_Log "HOL-Library.Product_Lexorder"
begin

text \<open>
  \<^verbatim>\<open>app/universal_kernel/state_trace.py\<close>: the canonical form of a state record, the SQLite
  port as a table with its two uniqueness constraints, the state core with its version lineage,
  and the trace core. A row's text is the tree that \<^verbatim>\<open>dumps\<close> wrote (see
  \<^verbatim>\<open>Py_Prelude\<close>); SQLite itself is a list of rows with \<^verbatim>\<open>PRIMARY KEY\<close>,
  \<^verbatim>\<open>UNIQUE\<close>, \<^verbatim>\<open>ORDER BY\<close> and \<^verbatim>\<open>DELETE\<close> as SQL defines them, and
  \<^verbatim>\<open>sqlite3.IntegrityError\<close> as an exception value.
\<close>

section \<open>The canonical form of a record\<close>

definition state_data :: "state_record \<Rightarrow> pyval" where
  "state_data r = PyDict
     [(''state_id'', PyStr (sr_state_id r)),
      (''ocs'', PyStr (sr_ocs r)),
      (''version'', PyInt (sr_version r)),
      (''predecessor'', py_opt_str (sr_predecessor r)),
      (''payload'', sr_payload r),
      (''verified'', PyBool (sr_verified r))]"

definition canonical_state_json :: "state_record \<Rightarrow> pyval res" where
  "canonical_state_json r =
     (if serializable (sr_payload r) then Inr (json_tree (state_data r))
      else Inl (ValueError ''state_payload_not_serializable''))"

definition state_record_hash :: "digest \<Rightarrow> state_record \<Rightarrow> string res" where
  "state_record_hash H r =
     (case canonical_state_json r of Inl x \<Rightarrow> Inl x | Inr v \<Rightarrow> Inr (H v))"

definition durable_integrity_failed :: exn where
  "durable_integrity_failed = RuntimeError ''state_durable_integrity_failed''"

text \<open>
  Reading a row's text back. The rows hold what \<^verbatim>\<open>write\<close> put there, with the payload
  replaced at most, so the fields have the types \<^verbatim>\<open>write\<close> gave them and the conversions
  \<^verbatim>\<open>str\<close>, \<^verbatim>\<open>int\<close> and \<^verbatim>\<open>bool\<close> change nothing; any other shape is a failure.
\<close>

definition state_from_json :: "pyval \<Rightarrow> state_record res" where
  "state_from_json v =
     (case py_get v ''payload'' of
        Some (PyDict kvs) \<Rightarrow>
          (case (py_get v ''state_id'', py_get v ''ocs'', py_get v ''version'',
                 py_get v ''predecessor'', py_get v ''verified'') of
             (Some (PyStr i), Some (PyStr ocs), Some (PyInt n), Some PyNone, Some (PyBool b)) \<Rightarrow>
               Inr \<lparr> sr_state_id = i, sr_ocs = ocs, sr_version = n, sr_predecessor = None,
                     sr_payload = PyDict kvs, sr_verified = b \<rparr>
           | (Some (PyStr i), Some (PyStr ocs), Some (PyInt n), Some (PyStr p), Some (PyBool b)) \<Rightarrow>
               Inr \<lparr> sr_state_id = i, sr_ocs = ocs, sr_version = n, sr_predecessor = Some p,
                     sr_payload = PyDict kvs, sr_verified = b \<rparr>
           | _ \<Rightarrow> Inl durable_integrity_failed)
      | _ \<Rightarrow> Inl durable_integrity_failed)"

section \<open>The SQLite port\<close>

record state_row =
  row_state_id :: string
  row_ocs :: string
  row_version :: int
  row_predecessor :: "string option"
  row_json :: pyval
  row_hash :: string

type_synonym state_table = "state_row list"

definition sqlite_insert :: "state_row \<Rightarrow> (state_table, unit) py" where
  "sqlite_insert row =
     (\<lambda>t. if row_state_id row \<in> row_state_id ` set t
           \<or> (row_ocs row, row_version row) \<in> (\<lambda>x. (row_ocs x, row_version x)) ` set t
         then (Inl (IntegrityError ''UNIQUE constraint failed''), t)
         else (Inr (), t @ [row]))"

definition sqlite_write :: "digest \<Rightarrow> state_record \<Rightarrow> (state_table, unit) py" where
  "sqlite_write H r =
     py_bind (py_lift (canonical_state_json r)) (\<lambda>raw.
     py_bind (py_lift (state_record_hash H r)) (\<lambda>digest.
     sqlite_insert
       \<lparr> row_state_id = sr_state_id r, row_ocs = sr_ocs r, row_version = sr_version r,
         row_predecessor = sr_predecessor r, row_json = raw, row_hash = digest \<rparr>))"

definition read_row :: "digest \<Rightarrow> state_row \<Rightarrow> state_record res" where
  "read_row H row =
     (case state_from_json (row_json row) of
        Inl x \<Rightarrow> Inl x
      | Inr r \<Rightarrow>
         (case state_record_hash H r of
            Inl x \<Rightarrow> Inl x
          | Inr h \<Rightarrow> if h \<noteq> row_hash row then Inl durable_integrity_failed else Inr r))"

definition read_fresh :: "digest \<Rightarrow> string \<Rightarrow> state_table \<Rightarrow> state_record res" where
  "read_fresh H state_id t =
     (case find (\<lambda>row. row_state_id row = state_id) t of
        None \<Rightarrow> Inl (KeyError state_id)
      | Some row \<Rightarrow> read_row H row)"

fun read_all :: "digest \<Rightarrow> state_table \<Rightarrow> string list \<Rightarrow> state_record list res" where
  "read_all H t [] = Inr []"
| "read_all H t (i # is) =
     (case read_fresh H i t of
        Inl x \<Rightarrow> Inl x
      | Inr r \<Rightarrow> (case read_all H t is of Inl x \<Rightarrow> Inl x | Inr rs \<Rightarrow> Inr (r # rs)))"

definition load_all :: "digest \<Rightarrow> state_table \<Rightarrow> state_record list res" where
  "load_all H t =
     read_all H t (map row_state_id (sort_key (\<lambda>row. (row_ocs row, row_version row)) t))"

definition sqlite_delete :: "string \<Rightarrow> state_table \<Rightarrow> state_table" where
  "sqlite_delete state_id t = filter (\<lambda>row. row_state_id row \<noteq> state_id) t"

definition corrupt_payload :: "string \<Rightarrow> pyval \<Rightarrow> (state_table, unit) py" where
  "corrupt_payload state_id payload =
     (\<lambda>t. if state_id \<notin> row_state_id ` set t then (Inl (KeyError state_id), t)
         else (Inr (), map (\<lambda>row. if row_state_id row = state_id
           then row\<lparr>row_json := json_tree (PyDict (dset ''payload'' payload (dict_items (row_json row))))\<rparr>
           else row) t))"

section \<open>The state core\<close>

record state_core =
  sc_records :: "(string \<times> state_record) list"
  sc_current :: "(string \<times> string) list"
  sc_port :: "state_table option"

text \<open>\<^verbatim>\<open>current\<close>: \<^verbatim>\<open>None\<close>, the record, or the \<^verbatim>\<open>KeyError\<close> of the subscript.\<close>

definition sc_get :: "string \<Rightarrow> state_core \<Rightarrow> state_record res" where
  "sc_get state_id c =
     (case map_of (sc_records c) state_id of
        None \<Rightarrow> Inl (KeyError state_id)
      | Some r \<Rightarrow> Inr r)"

definition sc_current_record :: "string \<Rightarrow> state_core \<Rightarrow> state_record option res" where
  "sc_current_record ocs c =
     (case map_of (sc_current c) ocs of
        None \<Rightarrow> Inr None
      | Some i \<Rightarrow> (case sc_get i c of Inl x \<Rightarrow> Inl x | Inr r \<Rightarrow> Inr (Some r)))"

definition sc_put :: "state_record \<Rightarrow> state_core \<Rightarrow> state_core" where
  "sc_put r c = c\<lparr>sc_records := dset (sr_state_id r) r (sc_records c),
                 sc_current := dset (sr_ocs r) (sr_state_id r) (sc_current c)\<rparr>"

text \<open>The loop of \<^verbatim>\<open>_reload_from_durable_state\<close>.\<close>

fun reload_records :: "state_record list \<Rightarrow> state_core \<Rightarrow> state_core res" where
  "reload_records [] c = Inr c"
| "reload_records (r # rs) c =
     (if map_of (sc_records c) (sr_state_id r) \<noteq> None then Inl durable_integrity_failed
      else
        (case sc_current_record (sr_ocs r) c of
           Inl x \<Rightarrow> Inl x
         | Inr None \<Rightarrow>
             if sr_version r \<noteq> 1 \<or> sr_predecessor r \<noteq> None then Inl durable_integrity_failed
             else reload_records rs (sc_put r c)
         | Inr (Some current) \<Rightarrow>
             if sr_version r \<noteq> sr_version current + 1 then Inl durable_integrity_failed
             else if sr_predecessor r \<noteq> Some (sr_state_id current) then
               Inl durable_integrity_failed
             else reload_records rs (sc_put r c)))"

definition open_state_core :: "digest \<Rightarrow> state_table option \<Rightarrow> state_core res" where
  "open_state_core H port =
     (let c = \<lparr> sc_records = [], sc_current = [], sc_port = port \<rparr>
      in case port of
           None \<Rightarrow> Inr c
         | Some t \<Rightarrow>
            (case load_all H t of Inl x \<Rightarrow> Inl x | Inr records \<Rightarrow> reload_records records c))"

definition validate_namespace :: "string \<Rightarrow> string \<Rightarrow> string \<Rightarrow> unit res" where
  "validate_namespace actor_ocs_id target_namespace record_ocs =
     (if \<not> starts_with ''state://'' target_namespace then
        Inl (ValueError ''state_namespace_invalid'')
      else
        (let owner = split_first (CHR ''/'') (drop (length ''state://'') target_namespace)
         in if owner = [] then Inl (ValueError ''state_namespace_owner_required'')
            else if casefold owner \<noteq> casefold record_ocs then
              Inl (ValueError ''state_namespace_record_owner_mismatch'')
            else if casefold actor_ocs_id \<noteq> casefold owner then
              Inl (ValueError ''state_namespace_violation'')
            else Inr ()))"

definition check_lineage :: "state_record \<Rightarrow> state_record option \<Rightarrow> unit res" where
  "check_lineage r current =
     (case current of
        None \<Rightarrow>
          if sr_predecessor r \<noteq> None then Inl (ValueError ''genesis_predecessor_must_be_none'')
          else if sr_version r \<noteq> 1 then Inl (ValueError ''genesis_version_must_be_one'')
          else Inr ()
      | Some c \<Rightarrow>
          if sr_predecessor r \<noteq> Some (sr_state_id c) then Inl (ValueError ''predecessor_required'')
          else if sr_version r \<noteq> sr_version c + 1 then
            Inl (ValueError ''state_version_must_increment'')
          else Inr ())"

definition write_checks ::
    "state_record \<Rightarrow> string option \<Rightarrow> string option \<Rightarrow> string option \<Rightarrow> string option
       \<Rightarrow> state_core \<Rightarrow> unit res" where
  "write_checks r actor_ocs_id target_namespace state_ref authority_context c =
     (case actor_ocs_id of None \<Rightarrow> Inl (ValueError ''state_actor_ocs_required'')
      | Some actor \<Rightarrow>
     (case target_namespace of None \<Rightarrow> Inl (ValueError ''state_namespace_required'')
      | Some ns \<Rightarrow>
     (case state_ref of None \<Rightarrow> Inl (ValueError ''state_ref_required'')
      | Some ref \<Rightarrow>
        if authority_context = None \<or> authority_context = Some [] then
          Inl (ValueError ''state_authority_context_required'')
        else
          (case validate_namespace actor ns (sr_ocs r) of
             Inl x \<Rightarrow> Inl x
           | Inr _ \<Rightarrow>
              if ref \<noteq> sr_state_id r then Inl (ValueError ''state_ref_mismatch'')
              else if sr_version r < 1 then Inl (ValueError ''state_version_required'')
              else
                (case sc_current_record (sr_ocs r) c of
                   Inl x \<Rightarrow> Inl x
                 | Inr current \<Rightarrow> check_lineage r current)))))"

text \<open>The readback of a durable write: the record read, or what it raises.\<close>

definition durable_readback ::
    "digest \<Rightarrow> state_record \<Rightarrow> (state_record \<Rightarrow> bool) \<Rightarrow> state_table \<Rightarrow> state_record res" where
  "durable_readback H r check t =
     (case read_fresh H (sr_state_id r) t of
        Inl x \<Rightarrow> Inl x
      | Inr p \<Rightarrow>
          if sr_state_id p \<noteq> sr_state_id r \<or> sr_ocs p \<noteq> sr_ocs r \<or> sr_version p \<noteq> sr_version r
             \<or> sr_predecessor p \<noteq> sr_predecessor r then
            Inl (RuntimeError ''state_readback_failed'')
          else
            (case (state_record_hash H p, state_record_hash H r) of
               (Inl x, _) \<Rightarrow> Inl x
             | (_, Inl x) \<Rightarrow> Inl x
             | (Inr h, Inr h') \<Rightarrow>
                 if h \<noteq> h' \<or> \<not> check p then Inl (RuntimeError ''state_readback_failed'')
                 else Inr p))"

definition sc_write ::
    "digest \<Rightarrow> state_record \<Rightarrow> (state_record \<Rightarrow> bool) \<Rightarrow> string option \<Rightarrow> string option
       \<Rightarrow> string option \<Rightarrow> string option \<Rightarrow> (state_core, state_record) py" where
  "sc_write H r check actor_ocs_id target_namespace state_ref authority_context = (\<lambda>c.
     case write_checks r actor_ocs_id target_namespace state_ref authority_context c of
       Inl x \<Rightarrow> (Inl x, c)
     | Inr _ \<Rightarrow>
        (case sc_port c of
           Some t \<Rightarrow>
             (case sqlite_write H r t of
                (Inl x, _) \<Rightarrow> (Inl x, c)
              | (Inr _, t') \<Rightarrow>
                  (case durable_readback H r check t' of
                     Inl x \<Rightarrow> (Inl x, c\<lparr>sc_port := Some (sqlite_delete (sr_state_id r) t')\<rparr>)
                   | Inr p \<Rightarrow>
                       (Inr p, c\<lparr>sc_port := Some t',
                                 sc_records := dset (sr_state_id r) p (sc_records c),
                                 sc_current := dset (sr_ocs r) (sr_state_id r) (sc_current c)\<rparr>)))
         | None \<Rightarrow>
             if \<not> check r then
               (Inl (RuntimeError ''state_readback_failed''),
                c\<lparr>sc_records := dpop (sr_state_id r) (dset (sr_state_id r) r (sc_records c))\<rparr>)
             else
               (Inr r, c\<lparr>sc_records := dset (sr_state_id r) r (sc_records c),
                        sc_current := dset (sr_ocs r) (sr_state_id r) (sc_current c)\<rparr>)))"

text \<open>\<^verbatim>\<open>stored == record\<close> of two dataclasses: their fields, payloads as dictionaries.\<close>

definition state_eq :: "state_record \<Rightarrow> state_record \<Rightarrow> bool" where
  "state_eq a b \<longleftrightarrow> sr_state_id a = sr_state_id b \<and> sr_ocs a = sr_ocs b \<and>
     sr_version a = sr_version b \<and> sr_predecessor a = sr_predecessor b \<and>
     py_eq (sr_payload a) (sr_payload b) \<and> sr_verified a = sr_verified b"

definition restore_verified ::
    "digest \<Rightarrow> verified_checkpoint \<Rightarrow> (state_core, state_record) py" where
  "restore_verified H cp = (\<lambda>c.
     if \<not> sr_verified (vc_state cp) then (Inl (ValueError ''verified_checkpoint_required''), c)
     else
       (case map_of (sc_records c) (sr_state_id (vc_state cp)) of
          None \<Rightarrow> (Inl (ValueError ''verified_checkpoint_source_missing''), c)
        | Some source \<Rightarrow>
            if \<not> sr_verified source then
              (Inl (ValueError ''verified_checkpoint_source_not_verified''), c)
            else if casefold (sr_ocs source) \<noteq> casefold (sr_ocs (vc_state cp)) then
              (Inl (ValueError ''verified_checkpoint_source_ocs_mismatch''), c)
            else
              (case (state_record_hash H source, state_record_hash H (vc_state cp)) of
                 (Inl x, _) \<Rightarrow> (Inl x, c)
               | (_, Inl x) \<Rightarrow> (Inl x, c)
               | (Inr h, Inr h') \<Rightarrow>
                   if h \<noteq> h' then (Inl (ValueError ''verified_checkpoint_source_mismatch''), c)
                   else
                     (case sc_current_record (sr_ocs (vc_state cp)) c of
                        Inl x \<Rightarrow> (Inl x, c)
                      | Inr current \<Rightarrow>
                         (let version = (case current of None \<Rightarrow> 1 | Some r \<Rightarrow> sr_version r + 1);
                              restored = source\<lparr>
                                sr_state_id := ''recovery:'' @ vc_checkpoint_id cp @ '':'' @ show_int version,
                                sr_version := version,
                                sr_predecessor := map_option sr_state_id current,
                                sr_verified := True\<rparr>
                          in sc_write H restored (\<lambda>stored. state_eq stored restored)
                               (Some (sr_ocs restored))
                               (Some (''state://'' @ sr_ocs restored @ ''/recovery''))
                               (Some (sr_state_id restored))
                               (Some ''recovery:verified-checkpoint:provenance-bound'') c)))))"

section \<open>The trace\<close>

record trace_core =
  tc_events :: "trace_event list"
  tc_fail_next_append :: bool
  tc_fail_next_preflight :: bool
  tc_fail_next_finalization :: bool

definition new_trace_core :: trace_core where
  "new_trace_core = \<lparr> tc_events = [], tc_fail_next_append = False,
     tc_fail_next_preflight = False, tc_fail_next_finalization = False \<rparr>"

definition last_event_id :: "trace_event list \<Rightarrow> string option" where
  "last_event_id evs = (if evs = [] then None else Some (te_event_id (last evs)))"

definition trace_append :: "trace_event \<Rightarrow> (trace_core, unit) py" where
  "trace_append e = (\<lambda>c.
     if tc_fail_next_append c then
       (Inl (RuntimeError ''trace_append_failed''), c\<lparr>tc_fail_next_append := False\<rparr>)
     else if te_predecessor e \<noteq> last_event_id (tc_events c) then
       (Inl (ValueError ''trace_predecessor_mismatch''), c)
     else (Inr (), c\<lparr>tc_events := tc_events c @ [e]\<rparr>))"

definition stage_event ::
    "string \<Rightarrow> string \<Rightarrow> string \<Rightarrow> pyval \<Rightarrow> trace_event list \<Rightarrow> trace_event" where
  "stage_event event_id action_id stage details evs =
     \<lparr> te_event_id = event_id, te_action_id = action_id, te_stage = stage,
       te_predecessor = last_event_id evs, te_details = details \<rparr>"

definition append_stage ::
    "string \<Rightarrow> string \<Rightarrow> string \<Rightarrow> pyval \<Rightarrow> (trace_core, trace_event) py" where
  "append_stage event_id action_id stage details = (\<lambda>c.
     if stage = ''TRACE_CLOSE'' \<and> tc_fail_next_finalization c then
       (Inl (RuntimeError ''trace_finalization_failed''), c\<lparr>tc_fail_next_finalization := False\<rparr>)
     else
       (let e = stage_event event_id action_id stage details (tc_events c)
        in py_bind (trace_append e) (\<lambda>_. py_return e) c))"

definition preflight_gate :: "(trace_core, unit) py" where
  "preflight_gate = (\<lambda>c.
     if tc_fail_next_preflight c then
       (Inl (RuntimeError ''trace_preflight_failed''), c\<lparr>tc_fail_next_preflight := False\<rparr>)
     else (Inr (), c))"

definition preflight ::
    "string \<Rightarrow> string \<Rightarrow> string \<Rightarrow> string \<Rightarrow> string \<Rightarrow> (trace_core, trace_event) py" where
  "preflight event_id action_id trace_id authority_ref lease_id =
     py_bind preflight_gate (\<lambda>_.
     append_stage event_id action_id ''TRACE_PREFLIGHT''
       (PyDict [(''trace_id'', PyStr trace_id), (''authority_ref'', PyStr authority_ref),
                (''lease_id'', PyStr lease_id)]))"

fun trace_chain_from :: "string option \<Rightarrow> trace_event list \<Rightarrow> bool" where
  "trace_chain_from predecessor [] = True"
| "trace_chain_from predecessor (e # es) =
     (if te_predecessor e \<noteq> predecessor then False
      else trace_chain_from (Some (te_event_id e)) es)"

definition trace_chain_is_valid :: "trace_event list \<Rightarrow> bool" where
  "trace_chain_is_valid evs = trace_chain_from None evs"

section \<open>The trace is a chained log\<close>

lemma trace_chain_from_snoc:
  "trace_chain_from p (xs @ [e]) \<longleftrightarrow> trace_chain_from p xs \<and>
     te_predecessor e = (if xs = [] then p else Some (te_event_id (last xs)))"
  by (induction xs arbitrary: p) auto

lemma trace_chain_from_prefix: "trace_chain_from p (xs @ ys) \<Longrightarrow> trace_chain_from p xs"
  by (induction xs arbitrary: p) (auto split: if_splits)

interpretation trace_log: chained_log
  "\<lambda>(event_id, action_id, stage, details) evs.
     evs @ [stage_event event_id action_id stage details evs]" trace_chain_is_valid
proof unfold_locales
  fix l :: "trace_event list" and x
  assume "trace_chain_is_valid l"
  then show "trace_chain_is_valid ((case x of (event_id, action_id, stage, details) \<Rightarrow>
      \<lambda>evs. evs @ [stage_event event_id action_id stage details evs]) l)"
    by (cases x) (simp add: trace_chain_is_valid_def trace_chain_from_snoc stage_event_def
        last_event_id_def)
qed (auto simp: trace_chain_is_valid_def intro: trace_chain_from_prefix)

definition trace_valid :: "trace_core \<Rightarrow> bool" where
  "trace_valid c = trace_chain_is_valid (tc_events c)"

lemma trace_append_valid: "keeps trace_valid (trace_append e)"
  by (rule stepsI) (auto simp: trace_append_def trace_valid_def trace_chain_is_valid_def
      trace_chain_from_snoc last_event_id_def)

lemma append_stage_valid: "keeps trace_valid (append_stage i a s d)"
proof (rule stepsI, rule impI)
  fix c assume v: "trace_valid c"
  have "keeps trace_valid (py_bind (trace_append e) (\<lambda>_. py_return e))" for e
    by (intro keep.steps_bind trace_append_valid keep.steps_return)
  then show "trace_valid (snd (append_stage i a s d c))"
    using v by (auto simp: append_stage_def steps_def Let_def trace_valid_def)
qed

lemma preflight_gate_valid: "keeps trace_valid preflight_gate"
  by (rule stepsI) (simp add: preflight_gate_def trace_valid_def)

lemma preflight_valid: "keeps trace_valid (preflight i a t r l)"
  unfolding preflight_def by (intro keep.steps_bind preflight_gate_valid append_stage_valid)

section \<open>The table and the core agree\<close>

definition row_ok :: "digest \<Rightarrow> state_row \<Rightarrow> state_record \<Rightarrow> bool" where
  "row_ok H row r \<longleftrightarrow> read_row H row = Inr r \<and> sr_state_id r = row_state_id row \<and>
     sr_ocs r = row_ocs row \<and> sr_version r = row_version row \<and>
     sr_predecessor r = row_predecessor row"

abbreviation row_key :: "state_row \<Rightarrow> string \<times> int" where
  "row_key row \<equiv> (row_ocs row, row_version row)"

definition row_linked :: "state_row set \<Rightarrow> state_row \<Rightarrow> bool" where
  "row_linked rows row \<longleftrightarrow> 1 \<le> row_version row \<and>
     (if row_version row = 1 then row_predecessor row = None
      else \<exists>prev \<in> rows. row_ocs prev = row_ocs row \<and> row_version prev = row_version row - 1 \<and>
             row_predecessor row = Some (row_state_id prev))"

definition table_ok :: "digest \<Rightarrow> state_table \<Rightarrow> bool" where
  "table_ok H t \<longleftrightarrow> distinct (map row_state_id t) \<and> distinct (map row_key t) \<and>
     (\<forall>row \<in> set t. (\<exists>r. row_ok H row r) \<and> row_linked (set t) row)"

definition synced :: "digest \<Rightarrow> state_table \<Rightarrow> state_core \<Rightarrow> bool" where
  "synced H t c \<longleftrightarrow>
     (\<forall>i r. map_of (sc_records c) i = Some r \<longleftrightarrow>
        (\<exists>row \<in> set t. row_state_id row = i \<and> read_row H row = Inr r)) \<and>
     (\<forall>ocs i. map_of (sc_current c) ocs = Some i \<longleftrightarrow>
        (\<exists>row \<in> set t. row_ocs row = ocs \<and> row_state_id row = i \<and>
           (\<forall>x \<in> set t. row_ocs x = ocs \<longrightarrow> row_version x \<le> row_version row)))"

definition durable_ok :: "digest \<Rightarrow> state_core \<Rightarrow> bool" where
  "durable_ok H c \<longleftrightarrow> (\<exists>t. sc_port c = Some t \<and> table_ok H t \<and> synced H t c)"

lemma distinct_map_sort: "distinct (map g (sort_key f xs)) \<longleftrightarrow> distinct (map g xs)"
  by (rule mset_eq_imp_distinct_iff) simp

lemma table_ok_sort: "table_ok H t \<Longrightarrow> table_ok H (sort_key f t)"
  by (simp add: table_ok_def distinct_map_sort)

lemma synced_put:
  assumes "synced H t c" and "row_ok H row r"
    and "row_state_id row \<notin> row_state_id ` set t"
    and "\<forall>x \<in> set t. row_ocs x = row_ocs row \<longrightarrow> row_version x < row_version row"
  shows "synced H (t @ [row]) (sc_put r c)"
proof -
  have rec: "map_of (sc_records (sc_put r c)) i = Some s \<longleftrightarrow>
      (\<exists>x \<in> set (t @ [row]). row_state_id x = i \<and> read_row H x = Inr s)" for i s
  proof (cases "i = row_state_id row")
    case True
    then have "\<not> (row_state_id x = i \<and> x \<in> set t)" for x using assms(3) by (metis image_eqI)
    then show ?thesis using assms(2) True by (auto simp: sc_put_def row_ok_def)
  next
    case False
    then have "map_of (sc_records (sc_put r c)) i = map_of (sc_records c) i"
      using assms(2) by (simp add: sc_put_def row_ok_def)
    then show ?thesis using assms(1) False by (auto simp: synced_def)
  qed
  have cur: "map_of (sc_current (sc_put r c)) ocs = Some i \<longleftrightarrow>
      (\<exists>x \<in> set (t @ [row]). row_ocs x = ocs \<and> row_state_id x = i \<and>
         (\<forall>y \<in> set (t @ [row]). row_ocs y = ocs \<longrightarrow> row_version y \<le> row_version x))" for ocs i
  proof (cases "ocs = row_ocs row")
    case True
    then show ?thesis using assms(2,4) by (force simp: sc_put_def row_ok_def)
  next
    case False
    then have "map_of (sc_current (sc_put r c)) ocs = map_of (sc_current c) ocs"
      using assms(2) by (simp add: sc_put_def row_ok_def)
    then show ?thesis using assms(1) False by (auto simp: synced_def)
  qed
  show ?thesis unfolding synced_def using rec cur by blast
qed

lemma finite_has_top:
  fixes f :: "'x \<Rightarrow> 'b::linorder"
  shows "finite A \<Longrightarrow> A \<noteq> {} \<Longrightarrow> \<exists>m \<in> A. \<forall>x \<in> A. f x \<le> f m"
proof (induction rule: finite_ne_induct)
  case (insert a A)
  then obtain m where "m \<in> A" "\<forall>x \<in> A. f x \<le> f m" by blast
  then show ?case by (cases "f a \<le> f m") (auto intro: order_trans)
qed simp

lemma synced_determines:
  assumes "synced H t c" "synced H t' c'" "set t = set t'"
  shows "map_of (sc_records c) = map_of (sc_records c')"
    "map_of (sc_current c) = map_of (sc_current c')"
proof -
  have ext: "f = g" if "\<And>x y. f x = Some y \<longleftrightarrow> g x = Some y" for f g :: "'x \<Rightarrow> 'y option"
    using that by (intro ext) (metis not_None_eq)
  show "map_of (sc_records c) = map_of (sc_records c')"
    "map_of (sc_current c) = map_of (sc_current c')"
    using assms by (auto simp: synced_def intro!: ext)
qed

text \<open>The record a core calls current is the top row of its OCS.\<close>

lemma synced_current:
  assumes "synced H t c" and "table_ok H t"
  shows "(sc_current_record ocs c = Inr None \<and> (\<forall>x \<in> set t. row_ocs x \<noteq> ocs)) \<or>
    (\<exists>r row. sc_current_record ocs c = Inr (Some r) \<and> row \<in> set t \<and> row_ok H row r \<and>
       row_ocs row = ocs \<and> (\<forall>x \<in> set t. row_ocs x = ocs \<longrightarrow> row_version x \<le> row_version row))"
proof (cases "map_of (sc_current c) ocs")
  case None
  have "\<forall>x \<in> set t. row_ocs x \<noteq> ocs"
  proof (rule ccontr)
    assume "\<not> (\<forall>x \<in> set t. row_ocs x \<noteq> ocs)"
    then have "finite {x \<in> set t. row_ocs x = ocs}" "{x \<in> set t. row_ocs x = ocs} \<noteq> {}" by auto
    then obtain m where m: "m \<in> set t" "row_ocs m = ocs"
      "\<forall>x \<in> set t. row_ocs x = ocs \<longrightarrow> row_version x \<le> row_version m"
      using finite_has_top [of "{x \<in> set t. row_ocs x = ocs}" row_version] by blast
    then have "map_of (sc_current c) ocs = Some (row_state_id m)"
      using assms(1) unfolding synced_def by blast
    then show False using None by simp
  qed
  then show ?thesis using None by (simp add: sc_current_record_def)
next
  case (Some i)
  then obtain row where row: "row \<in> set t" "row_ocs row = ocs" "row_state_id row = i"
    "\<forall>x \<in> set t. row_ocs x = ocs \<longrightarrow> row_version x \<le> row_version row"
    using assms(1) by (auto simp: synced_def)
  moreover obtain r where r: "row_ok H row r"
    using assms(2) row(1) by (auto simp: table_ok_def)
  moreover have "map_of (sc_records c) i = Some r"
    using assms(1) row r unfolding synced_def row_ok_def by blast
  ultimately show ?thesis using Some by (auto simp: sc_current_record_def sc_get_def)
qed

section \<open>Reloading\<close>

lemma find_row:
  "distinct (map row_state_id t) \<Longrightarrow> row \<in> set t \<Longrightarrow>
     find (\<lambda>x. row_state_id x = row_state_id row) t = Some row"
  by (induction t) auto

lemma read_all_rows:
  assumes "distinct (map row_state_id t)" "set rows \<subseteq> set t" "\<forall>row \<in> set rows. \<exists>r. row_ok H row r"
  shows "\<exists>rs. read_all H t (map row_state_id rows) = Inr rs \<and> list_all2 (row_ok H) rows rs"
  using assms(2,3)
proof (induction rows)
  case (Cons row rows)
  then obtain r rs where "row_ok H row r" "read_all H t (map row_state_id rows) = Inr rs"
    "list_all2 (row_ok H) rows rs" by auto
  moreover have "read_fresh H (row_state_id row) t = Inr r"
    using find_row [OF assms(1), of row] Cons.prems(1) \<open>row_ok H row r\<close>
    by (simp add: read_fresh_def row_ok_def)
  ultimately show ?case by auto
qed simp

lemma reload_step:
  assumes zs: "table_ok H (ys @ y # ws)" "sorted (map row_key (ys @ y # ws))"
    and c: "synced H ys c" "table_ok H ys" and r: "row_ok H y r"
  shows "reload_records (r # rs) c = reload_records rs (sc_put r c)" "synced H (ys @ [y]) (sc_put r c)"
proof -
  have before: "row_version x < row_version y" if "x \<in> set ys" "row_ocs x = row_ocs y" for x
  proof -
    have le: "row_key x \<le> row_key y" using zs(2) that(1) by (auto simp: sorted_append)
    have "row_key y \<notin> row_key ` set ys" using zs(1) by (auto simp: table_ok_def)
    moreover have "row_key x \<in> row_key ` set ys" using that(1) by (rule imageI)
    ultimately have "row_key x \<noteq> row_key y" by metis
    then show ?thesis using le that(2) by (auto simp: less_eq_prod_def)
  qed
  have after: "\<not> row_version x < row_version y" if "x \<in> set ws" "row_ocs x = row_ocs y" for x
    using zs(2) that by (auto simp: sorted_append less_eq_prod_def)
  have new: "row_state_id y \<notin> row_state_id ` set ys" using zs(1) by (auto simp: table_ok_def)
  show "synced H (ys @ [y]) (sc_put r c)"
    using c(1) r new before by (intro synced_put) auto
  have fresh: "map_of (sc_records c) (sr_state_id r) = None"
  proof (rule ccontr)
    assume "map_of (sc_records c) (sr_state_id r) \<noteq> None"
    then obtain s x where "x \<in> set ys" "row_state_id x = row_state_id y"
      using c(1) r by (auto simp: synced_def row_ok_def)
    then show False using new by (metis image_eqI)
  qed
  have linked: "row_linked (set (ys @ y # ws)) y" using zs(1) by (auto simp: table_ok_def)
  from synced_current [OF c, of "row_ocs y"]
  show "reload_records (r # rs) c = reload_records rs (sc_put r c)"
  proof (elim disjE exE conjE)
    assume none: "sc_current_record (row_ocs y) c = Inr None" "\<forall>x \<in> set ys. row_ocs x \<noteq> row_ocs y"
    have "row_version y = 1 \<and> row_predecessor y = None"
    proof (cases "row_version y = 1")
      case False
      then obtain prev where "prev \<in> set (ys @ y # ws)" "row_ocs prev = row_ocs y"
        "row_version prev = row_version y - 1"
        using linked by (auto simp: row_linked_def)
      then show ?thesis using none(2) after [of prev] by auto
    qed (use linked in \<open>simp add: row_linked_def\<close>)
    then show ?thesis using none(1) fresh r by (simp add: row_ok_def)
  next
    fix s x
    assume top: "sc_current_record (row_ocs y) c = Inr (Some s)" "x \<in> set ys" "row_ok H x s"
      "row_ocs x = row_ocs y" "\<forall>z \<in> set ys. row_ocs z = row_ocs y \<longrightarrow> row_version z \<le> row_version x"
    have lt: "row_version x < row_version y" using before top(2,4) by blast
    moreover have "1 \<le> row_version x" using c(2) top(2) by (auto simp: table_ok_def row_linked_def)
    ultimately obtain prev where prev: "prev \<in> set (ys @ y # ws)" "row_ocs prev = row_ocs y"
        "row_version prev = row_version y - 1" "row_predecessor y = Some (row_state_id prev)"
      using linked by (auto simp: row_linked_def)
    then have "prev \<in> set ys" using after [of prev] by auto
    then have "row_version prev \<le> row_version x" using top(5) prev(2) by blast
    then have "row_version x = row_version prev" using lt prev(3) by linarith
    then have "row_key x = row_key prev" using top(4) prev(2) by simp
    then have "x = prev"
      using c(2) top(2) \<open>prev \<in> set ys\<close> by (auto simp: table_ok_def distinct_map dest: inj_onD)
    then show ?thesis using top(1,3) fresh r prev by (simp add: row_ok_def)
  qed
qed

lemma table_ok_prefix:
  assumes "table_ok H (ys @ ws)" "sorted (map row_key (ys @ ws))"
  shows "table_ok H ys"
proof -
  have "row_linked (set ys) y" if y: "y \<in> set ys" for y
  proof -
    have "row_linked (set (ys @ ws)) y" using assms(1) y by (auto simp: table_ok_def)
    moreover have inside: "prev \<in> set ys"
      if "prev \<in> set (ys @ ws)" "row_ocs prev = row_ocs y" "row_version prev = row_version y - 1" for prev
    proof (rule ccontr)
      assume "prev \<notin> set ys"
      then have "row_key y \<le> row_key prev" using that(1) y assms(2) by (auto simp: sorted_append)
      then show False using that(2,3) by (auto simp: less_eq_prod_def)
    qed
    ultimately show ?thesis unfolding row_linked_def by (metis inside)
  qed
  then show ?thesis using assms(1) by (auto simp: table_ok_def)
qed

lemma reload_rows:
  assumes "table_ok H (ys @ ws)" "sorted (map row_key (ys @ ws))" "synced H ys c"
    "list_all2 (row_ok H) ws rs"
  shows "\<exists>c'. reload_records rs c = Inr c' \<and> synced H (ys @ ws) c' \<and> sc_port c' = sc_port c"
  using assms
proof (induction ws arbitrary: ys c rs)
  case (Cons y ws)
  then obtain r rs' where rs: "rs = r # rs'" "row_ok H y r" "list_all2 (row_ok H) ws rs'"
    by (auto simp: list_all2_Cons1)
  have ok: "table_ok H ys" using Cons.prems(1,2) by (rule table_ok_prefix)
  note step = reload_step [OF Cons.prems(1,2,3) ok rs(2)]
  obtain c' where "reload_records rs' (sc_put r c) = Inr c'" "synced H (ys @ y # ws) c'"
    "sc_port c' = sc_port (sc_put r c)"
    using Cons.IH [of "ys @ [y]" "sc_put r c" rs'] Cons.prems(1,2) step(2) rs(3) by auto
  then show ?case unfolding rs(1) step(1) by (simp add: sc_put_def)
qed auto

lemma open_durable:
  assumes "table_ok H t"
  shows "\<exists>c. open_state_core H (Some t) = Inr c \<and> synced H t c \<and> sc_port c = Some t"
proof -
  let ?zs = "sort_key row_key t"
  have ok: "table_ok H ?zs" using assms by (rule table_ok_sort)
  have "distinct (map row_state_id t)" "\<forall>row \<in> set ?zs. \<exists>r. row_ok H row r"
    using assms by (auto simp: table_ok_def)
  then obtain rs where rs: "load_all H t = Inr rs" "list_all2 (row_ok H) ?zs rs"
    unfolding load_all_def using read_all_rows [of t ?zs H] by auto
  let ?c = "\<lparr>sc_records = [], sc_current = [], sc_port = Some t\<rparr>"
  have "synced H [] ?c" by (simp add: synced_def)
  then obtain c where "reload_records rs ?c = Inr c" "synced H ?zs c" "sc_port c = Some t"
    using reload_rows [of H "[]" ?zs ?c rs] ok rs(2) by auto
  then show ?thesis using rs(1) by (auto simp: open_state_core_def synced_def)
qed

section \<open>Writing\<close>

lemma check_lineage_Inr:
  "check_lineage r current = Inr () \<longleftrightarrow>
     sr_predecessor r = map_option sr_state_id current \<and>
     sr_version r = (case current of None \<Rightarrow> 1 | Some c \<Rightarrow> sr_version c + 1)"
  by (auto simp: check_lineage_def split: option.splits)

lemma write_checks_Inr:
  "write_checks r a ns ref auth c = Inr u \<longleftrightarrow>
     (\<exists>actor target x current. a = Some actor \<and> ns = Some target \<and> ref = Some (sr_state_id r) \<and>
        auth = Some x \<and> x \<noteq> [] \<and> validate_namespace actor target (sr_ocs r) = Inr () \<and>
        1 \<le> sr_version r \<and> sc_current_record (sr_ocs r) c = Inr current \<and>
        check_lineage r current = Inr ())"
  by (cases a; cases ns; cases ref; cases auth)
    (auto simp: write_checks_def not_less split: sum.splits if_splits)

lemma sqlite_write_Inr:
  assumes "sqlite_write H r t = (Inr u, t')"
  obtains row where "t' = t @ [row]" "row_state_id row = sr_state_id r" "row_ocs row = sr_ocs r"
    "row_version row = sr_version r" "row_predecessor row = sr_predecessor r"
    "row_state_id row \<notin> row_state_id ` set t" "row_key row \<notin> row_key ` set t"
    "row_json row = json_tree (state_data r)" "serializable (sr_payload r)"
    "row_hash row = H (json_tree (state_data r))"
proof -
  let ?row = "\<lparr>row_state_id = sr_state_id r, row_ocs = sr_ocs r, row_version = sr_version r,
    row_predecessor = sr_predecessor r, row_json = json_tree (state_data r),
    row_hash = H (json_tree (state_data r))\<rparr>"
  have "t' = t @ [?row] \<and> sr_state_id r \<notin> row_state_id ` set t \<and>
      (sr_ocs r, sr_version r) \<notin> row_key ` set t \<and> serializable (sr_payload r)"
    using assms by (auto simp: sqlite_write_def sqlite_insert_def py_simps state_record_hash_def
        canonical_state_json_def split: if_splits)
  then show thesis by (intro that [of ?row]) simp_all
qed

lemma read_fresh_new:
  "row_state_id row \<notin> row_state_id ` set t \<Longrightarrow>
     read_fresh H (row_state_id row) (t @ [row]) = read_row H row"
proof -
  assume "row_state_id row \<notin> row_state_id ` set t"
  then have "find (\<lambda>x. row_state_id x = row_state_id row) (t @ [row]) = Some row"
    by (induction t) auto
  then show ?thesis by (simp add: read_fresh_def)
qed

lemma sqlite_delete_new:
  "row_state_id row \<notin> row_state_id ` set t \<Longrightarrow> sqlite_delete (row_state_id row) (t @ [row]) = t"
proof -
  assume new: "row_state_id row \<notin> row_state_id ` set t"
  have "row_state_id x \<noteq> row_state_id row" if "x \<in> set t" for x using new that by (metis image_eqI)
  then show ?thesis by (simp add: sqlite_delete_def filter_id_conv)
qed

lemma durable_readback_Inr:
  "durable_readback H r check t = Inr p \<Longrightarrow>
     read_fresh H (sr_state_id r) t = Inr p \<and> sr_state_id p = sr_state_id r \<and>
     sr_ocs p = sr_ocs r \<and> sr_version p = sr_version r \<and> sr_predecessor p = sr_predecessor r \<and>
     check p \<and> state_record_hash H p = state_record_hash H r"
  by (auto simp: durable_readback_def split: sum.splits if_splits)

text \<open>A durable write that raises leaves no trace; one that returns appended one row.\<close>

lemma durable_write_cases:
  assumes "sc_port c = Some t"
  obtains x where "sc_write H r check a ns ref auth c = (Inl x, c)"
  | p row current where "sc_write H r check a ns ref auth c = (Inr p, (sc_put p c)\<lparr>sc_port := Some (t @ [row])\<rparr>)"
      "row_ok H row p" "row_state_id row = sr_state_id r" "row_ocs row = sr_ocs r"
      "row_version row = sr_version r" "row_predecessor row = sr_predecessor r"
      "row_state_id row \<notin> row_state_id ` set t" "row_key row \<notin> row_key ` set t"
      "1 \<le> sr_version r" "sc_current_record (sr_ocs r) c = Inr current"
      "check_lineage r current = Inr ()" "check p"
proof (cases "write_checks r a ns ref auth c")
  case (Inl x)
  then show thesis by (intro that(1)) (simp add: sc_write_def)
next
  case checks: (Inr u)
  obtain w t' where w: "sqlite_write H r t = (w, t')" by fastforce
  show thesis
  proof (cases w)
    case (Inl x)
    then show thesis using checks w assms by (intro that(1)) (simp add: sc_write_def)
  next
    case (Inr v)
    then obtain row where row: "t' = t @ [row]" "row_state_id row = sr_state_id r"
      "row_ocs row = sr_ocs r" "row_version row = sr_version r" "row_predecessor row = sr_predecessor r"
      "row_state_id row \<notin> row_state_id ` set t" "row_key row \<notin> row_key ` set t"
      using sqlite_write_Inr [of H r t v t'] w by blast
    show thesis
    proof (cases "durable_readback H r check t'")
      case (Inl x)
      have "sqlite_delete (sr_state_id r) t' = t"
        using sqlite_delete_new [OF row(6)] row(1,2) by simp
      then have "sc_write H r check a ns ref auth c = (Inl x, c\<lparr>sc_port := Some t\<rparr>)"
        using checks w assms Inr Inl by (simp add: sc_write_def)
      then show thesis using assms by (intro that(1)) simp
    next
      case rb: (Inr p)
      note p = durable_readback_Inr [OF rb]
      obtain current where lin: "1 \<le> sr_version r" "sc_current_record (sr_ocs r) c = Inr current"
        "check_lineage r current = Inr ()"
        using checks [unfolded write_checks_Inr] by blast
      have "row_ok H row p"
        using p row read_fresh_new [OF row(6), of H] by (simp add: row_ok_def)
      moreover have "sc_write H r check a ns ref auth c =
          (Inr p, (sc_put p c)\<lparr>sc_port := Some (t @ [row])\<rparr>)"
        using checks w assms Inr rb p row(1) by (simp add: sc_write_def sc_put_def)
      ultimately show thesis
        using lin p row by (intro that(2) [of p row current]) simp_all
    qed
  qed
qed

lemma row_linked_mono: "row_linked A row \<Longrightarrow> A \<subseteq> B \<Longrightarrow> row_linked B row"
  unfolding row_linked_def by (metis subsetD)

lemma synced_port [simp]: "synced H t (c\<lparr>sc_port := q\<rparr>) = synced H t c"
  by (simp add: synced_def)

lemma sc_write_durable_ok: "keeps (durable_ok H) (sc_write H r check a ns ref auth)"
proof (rule stepsI, rule impI)
  fix c assume "durable_ok H c"
  then obtain t where t: "sc_port c = Some t" "table_ok H t" "synced H t c"
    by (auto simp: durable_ok_def)
  show "durable_ok H (snd (sc_write H r check a ns ref auth c))"
  proof (rule durable_write_cases [OF t(1), of H r check a ns ref auth])
    fix x assume "sc_write H r check a ns ref auth c = (Inl x, c)"
    then show ?thesis using \<open>durable_ok H c\<close> by simp
  next
    fix p row current
    assume w: "sc_write H r check a ns ref auth c = (Inr p, (sc_put p c)\<lparr>sc_port := Some (t @ [row])\<rparr>)"
      and ok: "row_ok H row p" and id: "row_state_id row = sr_state_id r" "row_ocs row = sr_ocs r"
      "row_version row = sr_version r" and pred: "row_predecessor row = sr_predecessor r"
      and new: "row_state_id row \<notin> row_state_id ` set t" "row_key row \<notin> row_key ` set t"
      and v: "1 \<le> sr_version r" and cur: "sc_current_record (sr_ocs r) c = Inr current"
      and lin: "check_lineage r current = Inr ()"
    have "(\<forall>x \<in> set t. row_ocs x = row_ocs row \<longrightarrow> row_version x < row_version row) \<and>
        row_linked (set (t @ [row])) row"
      using synced_current [OF t(3,2), of "sr_ocs r"]
    proof (elim disjE exE conjE)
      assume "sc_current_record (sr_ocs r) c = Inr None" "\<forall>x \<in> set t. row_ocs x \<noteq> sr_ocs r"
      then show ?thesis using cur lin id pred by (auto simp: check_lineage_Inr row_linked_def)
    next
      fix s x
      assume top: "sc_current_record (sr_ocs r) c = Inr (Some s)" "x \<in> set t" "row_ok H x s"
        "row_ocs x = sr_ocs r" "\<forall>z \<in> set t. row_ocs z = sr_ocs r \<longrightarrow> row_version z \<le> row_version x"
      have "row_version row = row_version x + 1" "row_predecessor row = Some (row_state_id x)"
        using cur lin top(1,3) id pred by (auto simp: check_lineage_Inr row_ok_def)
      moreover have "1 \<le> row_version x" using t(2) top(2) by (auto simp: table_ok_def row_linked_def)
      ultimately show ?thesis using top id by (force simp: row_linked_def)
    qed
    then have "table_ok H (t @ [row])" "synced H (t @ [row]) (sc_put p c)"
      using t ok new by (auto simp: table_ok_def intro: row_linked_mono synced_put)
    then show ?thesis using w by (simp add: durable_ok_def)
  qed
qed

lemma restore_verified_durable_ok: "keeps (durable_ok H) (restore_verified H cp)"
proof (rule stepsI, rule impI)
  fix c assume ok: "durable_ok H c"
  have "durable_ok H (snd (sc_write H r check a ns ref auth c))" for r check a ns ref auth
    using sc_write_durable_ok [of H r check a ns ref auth] ok by (simp add: steps_def)
  then show "durable_ok H (snd (restore_verified H cp c))"
    using ok by (simp add: restore_verified_def Let_def split: option.splits sum.splits prod.splits)
qed

section \<open>Properties\<close>

datatype state_call =
    Call_write state_record "state_record \<Rightarrow> bool" "string option" "string option"
      "string option" "string option"
  | Call_restore verified_checkpoint

fun state_step :: "digest \<Rightarrow> state_call \<Rightarrow> state_core \<Rightarrow> state_core" where
  "state_step H (Call_write r check a ns ref auth) c = snd (sc_write H r check a ns ref auth c)"
| "state_step H (Call_restore cp) c = snd (restore_verified H cp c)"

definition state_run :: "digest \<Rightarrow> state_call list \<Rightarrow> state_core \<Rightarrow> state_core" where
  "state_run H calls c = fold (state_step H) calls c"

definition empty_durable_core :: state_core where
  "empty_durable_core = \<lparr> sc_records = [], sc_current = [], sc_port = Some [] \<rparr>"

lemma empty_durable_ok: "durable_ok H empty_durable_core"
  by (simp add: durable_ok_def empty_durable_core_def table_ok_def synced_def)

lemma state_step_durable_ok: "durable_ok H c \<Longrightarrow> durable_ok H (state_step H call c)"
  using sc_write_durable_ok restore_verified_durable_ok
  by (cases call) (simp_all add: steps_def)

lemma state_run_durable_ok: "durable_ok H c \<Longrightarrow> durable_ok H (state_run H calls c)"
  unfolding state_run_def by (induction calls arbitrary: c) (simp_all add: state_step_durable_ok)

text \<open>
  A durable state core survives a restart. After any writes and restores, failed ones
  included, opening a new core on the same database succeeds and gives the same records and the
  same current record of every OCS.
\<close>

lemma durable_restart_recovers_state:
  "\<exists>c'. open_state_core H (sc_port (state_run H calls empty_durable_core)) = Inr c' \<and>
     map_of (sc_records c') = map_of (sc_records (state_run H calls empty_durable_core)) \<and>
     map_of (sc_current c') = map_of (sc_current (state_run H calls empty_durable_core)) \<and>
     sc_port c' = sc_port (state_run H calls empty_durable_core)"
proof -
  let ?c = "state_run H calls empty_durable_core"
  have "durable_ok H ?c" by (rule state_run_durable_ok [OF empty_durable_ok])
  then obtain t where t: "sc_port ?c = Some t" "table_ok H t" "synced H t ?c"
    by (auto simp: durable_ok_def)
  then show ?thesis
    using open_durable [OF t(2)] synced_determines [OF _ t(3) refl] by metis
qed

lemma write_appends:
  assumes "durable_ok H c" and "map_of (sc_records c) i = Some r"
  shows "map_of (sc_records (snd (sc_write H s check a ns ref auth c))) i = Some r"
proof -
  from assms(1) obtain t where t: "sc_port c = Some t" "synced H t c" by (auto simp: durable_ok_def)
  show ?thesis
  proof (rule durable_write_cases [OF t(1), of H s check a ns ref auth])
    fix p row
    assume p: "row_ok H row p" "row_state_id row \<notin> row_state_id ` set t"
      and w: "sc_write H s check a ns ref auth c = (Inr p, (sc_put p c)\<lparr>sc_port := Some (t @ [row])\<rparr>)"
    from assms(2) t(2) obtain x where x: "x \<in> set t" "row_state_id x = i"
      unfolding synced_def by blast
    then have "i \<noteq> row_state_id row" using p(2) by (metis image_eqI)
    then show ?thesis using w assms(2) p(1) by (simp add: sc_put_def row_ok_def)
  qed (use assms(2) in simp)
qed

lemma state_step_appends:
  assumes "durable_ok H c" and "map_of (sc_records c) i = Some r"
  shows "map_of (sc_records (state_step H call c)) i = Some r"
  using write_appends [OF assms] assms(2)
  by (cases call) (auto simp: restore_verified_def Let_def split: option.splits sum.splits)

lemma state_run_appends:
  "durable_ok H c \<Longrightarrow> map_of (sc_records c) i = Some r \<Longrightarrow>
     map_of (sc_records (state_run H calls c)) i = Some r"
  unfolding state_run_def
  by (induction calls arbitrary: c) (simp_all add: state_step_durable_ok state_step_appends)

lemma state_run_append: "state_run H (xs @ ys) c = state_run H ys (state_run H xs c)"
  by (simp add: state_run_def)

text \<open>
  The durable history is append-only: a record that was committed is returned unchanged by
  \<^verbatim>\<open>get\<close> after any later calls.
\<close>

lemma durable_history_append_only:
  assumes "sc_get i (state_run H before empty_durable_core) = Inr r"
  shows "sc_get i (state_run H (before @ after) empty_durable_core) = Inr r"
  using assms state_run_appends [OF state_run_durable_ok [OF empty_durable_ok]]
  by (auto simp: sc_get_def state_run_append split: option.splits)

definition sample_state :: state_record where
  "sample_state = \<lparr> sr_state_id = ''s1'', sr_ocs = ''A'', sr_version = 1, sr_predecessor = None,
     sr_payload = PyDict [], sr_verified = True \<rparr>"

definition sample_write :: state_call where
  "sample_write = Call_write sample_state (\<lambda>p. state_eq p sample_state) (Some ''a'')
     (Some ''state://A/runtime'') (Some ''s1'') (Some ''auth'')"

lemma sample_state_fields [simp]: "sr_payload sample_state = PyDict []"
  "sr_state_id sample_state = ''s1''" "sr_ocs sample_state = ''A''"
  "sr_version sample_state = 1" "sr_predecessor sample_state = None"
  by (simp_all add: sample_state_def)

lemma empty_durable_fields [simp]: "sc_records empty_durable_core = []"
  "sc_current empty_durable_core = []" "sc_port empty_durable_core = Some []"
  by (simp_all add: empty_durable_core_def)

lemma sample_state_tree:
  "state_from_json (json_tree (state_data sample_state)) = Inr sample_state"
proof -
  have get: "py_get (json_tree (state_data sample_state)) k
      = map_option json_tree (map_of (dict_items (state_data sample_state)) k)" for k
    unfolding state_data_def dict_items.simps by (rule py_get_json_tree) simp
  show ?thesis
    by (simp add: state_from_json_def get) (simp add: state_data_def sample_state_def py_opt_str_def)
qed

lemma sample_namespace: "validate_namespace ''a'' ''state://A/runtime'' ''A'' = Inr ()"
  by code_simp

lemma sample_write_run:
  "state_run (\<lambda>v. ''h'') [sample_write] empty_durable_core =
     \<lparr> sc_records = [(''s1'', sample_state)], sc_current = [(''A'', ''s1'')],
       sc_port = Some [\<lparr> row_state_id = ''s1'', row_ocs = ''A'', row_version = 1,
         row_predecessor = None, row_json = json_tree (state_data sample_state),
         row_hash = ''h'' \<rparr>] \<rparr>"
proof -
  have "canonical_state_json sample_state = Inr (json_tree (state_data sample_state))"
    by (simp add: canonical_state_json_def)
  moreover have "state_eq sample_state sample_state" by (simp add: state_eq_def)
  moreover have "write_checks sample_state (Some ''a'') (Some ''state://A/runtime'') (Some ''s1'')
      (Some ''auth'') empty_durable_core = Inr ()"
    by (simp add: write_checks_def sample_namespace sc_current_record_def check_lineage_def)
  ultimately show ?thesis
    by (simp add: state_run_def sample_write_def sc_write_def sqlite_write_def sqlite_insert_def
        py_simps state_record_hash_def durable_readback_def read_fresh_def read_row_def
        sample_state_tree)
qed

lemma durable_history_append_only_witness:
  "sc_get ''s1'' (state_run (\<lambda>v. ''h'') ([sample_write] @ [sample_write, sample_write])
     empty_durable_core) = Inr sample_state"
  by (rule durable_history_append_only) (simp add: sample_write_run sc_get_def)

lemma durable_write_result:
  assumes "sc_port c = Some t"
    and "sc_write H r check actor ns ref auth c = (res, c')"
  shows "case res of
      Inl x \<Rightarrow> c' = c
    | Inr p \<Rightarrow> check p \<and> sr_state_id p = sr_state_id r \<and> sr_ocs p = sr_ocs r \<and>
        sc_current_record (sr_ocs r) c' = Inr (Some p) \<and>
        (\<exists>a. actor = Some a \<and> casefold a = casefold (sr_ocs r)) \<and>
        (\<exists>current. sc_current_record (sr_ocs r) c = Inr current \<and>
           sr_predecessor p = map_option sr_state_id current \<and>
           sr_version p = (case current of None \<Rightarrow> 1 | Some q \<Rightarrow> sr_version q + 1))"
proof (rule durable_write_cases [OF assms(1), of H r check actor ns ref auth])
  fix p row current
  assume w: "sc_write H r check actor ns ref auth c = (Inr p, (sc_put p c)\<lparr>sc_port := Some (t @ [row])\<rparr>)"
    and ok: "row_ok H row p" "row_state_id row = sr_state_id r" "row_ocs row = sr_ocs r"
      "row_version row = sr_version r" "row_predecessor row = sr_predecessor r"
    and lin: "sc_current_record (sr_ocs r) c = Inr current" "check_lineage r current = Inr ()" "check p"
  have "write_checks r actor ns ref auth c = Inr ()"
    using w by (auto simp: sc_write_def split: sum.splits)
  then obtain a target where "actor = Some a" "validate_namespace a target (sr_ocs r) = Inr ()"
    by (auto simp: write_checks_Inr)
  then have "\<exists>a. actor = Some a \<and> casefold a = casefold (sr_ocs r)"
    by (auto simp: validate_namespace_def Let_def split: if_splits)
  moreover have "res = Inr p" "c' = (sc_put p c)\<lparr>sc_port := Some (t @ [row])\<rparr>"
    using assms(2) w by simp_all
  moreover have "sc_current_record (sr_ocs r) c' = Inr (Some p)"
    using ok calculation(3) by (simp add: row_ok_def sc_put_def sc_current_record_def sc_get_def)
  ultimately show ?thesis using ok lin by (simp add: row_ok_def check_lineage_Inr)
qed (use assms(2) in simp)

text \<open>
  A durable write is atomic and isolated. If it raises, the core and its database are as
  before; if it returns, the record read back is committed as the current one, one version
  after the previous current record and linked to it, the actor and the namespace's owner are
  the record's OCS up to case, and the caller's readback check held of what was read.
\<close>

lemma durable_write_atomic:
  assumes "sc_port c = Some t"
    and "sc_write H r check actor ns ref auth c = (res, c')"
  shows "case res of
      Inl x \<Rightarrow> c' = c
    | Inr p \<Rightarrow> check p \<and> sr_state_id p = sr_state_id r \<and> sr_ocs p = sr_ocs r \<and>
        sc_current_record (sr_ocs r) c' = Inr (Some p) \<and>
        (\<exists>a. actor = Some a \<and> casefold a = casefold (sr_ocs r)) \<and>
        (\<exists>current. sc_current_record (sr_ocs r) c = Inr current \<and>
           sr_predecessor p = map_option sr_state_id current \<and>
           sr_version p = (case current of None \<Rightarrow> 1 | Some q \<Rightarrow> sr_version q + 1))"
  by (rule durable_write_result [OF assms])

lemma durable_write_atomic_witness:
  "\<exists>c'. sc_write (\<lambda>v. ''h'') sample_state (\<lambda>p. False) (Some ''a'') (Some ''state://A/runtime'')
     (Some ''s1'') (Some ''auth'') empty_durable_core = (Inl (RuntimeError ''state_readback_failed''), c')
     \<and> c' = empty_durable_core"
proof -
  have "write_checks sample_state (Some ''a'') (Some ''state://A/runtime'') (Some ''s1'')
      (Some ''auth'') empty_durable_core = Inr ()"
    by (simp add: write_checks_def sample_namespace sc_current_record_def check_lineage_def)
  then obtain c' where "sc_write (\<lambda>v. ''h'') sample_state (\<lambda>p. False) (Some ''a'')
      (Some ''state://A/runtime'') (Some ''s1'') (Some ''auth'') empty_durable_core
      = (Inl (RuntimeError ''state_readback_failed''), c')"
    by (simp add: sc_write_def sqlite_write_def sqlite_insert_def py_simps state_record_hash_def canonical_state_json_def durable_readback_def read_fresh_def
        read_row_def sample_state_tree)
  with durable_write_atomic [OF _ this, of "[]"] show ?thesis by simp
qed

text \<open>
  Without a database nothing keeps state ids apart: a write that reuses the id of the
  current record is accepted, replaces it, and leaves a record that is its own predecessor, so
  that the earlier version can no longer be read.
\<close>

lemma memory_write_overwrites_history:
  assumes "sc_port c = None" and "sc_current_record ocs c = Inr (Some cur)" and "sr_ocs cur = ocs"
    and "1 \<le> sr_version cur" and "validate_namespace actor ns ocs = Inr ()" and "auth \<noteq> []"
    and "r = cur\<lparr>sr_version := sr_version cur + 1, sr_predecessor := Some (sr_state_id cur),
                sr_payload := payload\<rparr>"
  shows "\<exists>c'. sc_write H r (\<lambda>stored. state_eq stored r) (Some actor) (Some ns)
      (Some (sr_state_id r)) (Some auth) c = (Inr r, c') \<and>
    sc_get (sr_state_id cur) c' = Inr r \<and> sr_predecessor r = Some (sr_state_id r)"
proof -
  have "write_checks r (Some actor) (Some ns) (Some (sr_state_id r)) (Some auth) c = Inr ()"
    using assms by (simp add: write_checks_Inr check_lineage_Inr)
  moreover have "state_eq r r" by (simp add: state_eq_def)
  ultimately show ?thesis
    using assms by (simp add: sc_write_def sc_get_def)
qed

lemma memory_write_overwrites_history_witness:
  "\<exists>c'. sc_write (\<lambda>v. ''h'') (sample_state\<lparr>sr_version := 2, sr_predecessor := Some ''s1''\<rparr>)
      (\<lambda>stored. state_eq stored (sample_state\<lparr>sr_version := 2, sr_predecessor := Some ''s1''\<rparr>))
      (Some ''a'') (Some ''state://A/runtime'') (Some ''s1'') (Some ''auth'')
      \<lparr> sc_records = [(''s1'', sample_state)], sc_current = [(''A'', ''s1'')], sc_port = None \<rparr>
    = (Inr (sample_state\<lparr>sr_version := 2, sr_predecessor := Some ''s1''\<rparr>), c') \<and>
    sc_get ''s1'' c' = Inr (sample_state\<lparr>sr_version := 2, sr_predecessor := Some ''s1''\<rparr>)"
proof -
  let ?c = "\<lparr> sc_records = [(''s1'', sample_state)], sc_current = [(''A'', ''s1'')], sc_port = None \<rparr>"
  have "sc_current_record ''A'' ?c = Inr (Some sample_state)"
    by (simp add: sc_current_record_def sc_get_def)
  from memory_write_overwrites_history [OF _ this _ _ sample_namespace, of "''auth''"
      "sample_state\<lparr>sr_version := 2, sr_predecessor := Some ''s1''\<rparr>" "PyDict []" "\<lambda>v. ''h''"]
  show ?thesis by (simp add: sample_state_def)
qed

lemma state_tree_get:
  "py_get (json_tree (state_data r)) k = map_option json_tree (map_of (dict_items (state_data r)) k)"
  unfolding state_data_def dict_items.simps by (rule py_get_json_tree) simp

text \<open>
  An altered payload is found out: after the payload of a stored row is replaced, reading
  the row raises, or the new payload has the same canonical form, or the digest has a collision.
\<close>

lemma corrupted_payload_detected:
  assumes "distinct (map row_state_id t)" and "row \<in> set t"
    and "row_json row = json_tree (state_data r)" and "row_hash row = H (json_tree (state_data r))"
    and "corrupt_payload (row_state_id row) payload t = (Inr u, t')"
    and "read_fresh H (row_state_id row) t' = Inr s"
  shows "json_tree (state_data s) = json_tree (state_data r)
    \<or> collision H (json_tree (state_data s)) (json_tree (state_data r))"
proof -
  let ?row = "row\<lparr>row_json := json_tree (PyDict (dset ''payload'' payload (dict_items (row_json row))))\<rparr>"
  let ?f = "\<lambda>x. if row_state_id x = row_state_id row
     then x\<lparr>row_json := json_tree (PyDict (dset ''payload'' payload (dict_items (row_json x))))\<rparr> else x"
  have t': "t' = map ?f t" using assms(5) by (simp add: corrupt_payload_def split: if_splits)
  have "map row_state_id (map ?f t) = map row_state_id t" by simp
  then have "distinct (map row_state_id t')" using assms(1) t' by metis
  moreover have "?row \<in> set t'" using assms(2) by (force simp: t')
  ultimately have "find (\<lambda>x. row_state_id x = row_state_id ?row) t' = Some ?row" by (rule find_row)
  then have "read_row H ?row = Inr s" using assms(6) by (simp add: read_fresh_def)
  then have "state_record_hash H s = Inr (row_hash row)"
    by (simp add: read_row_def split: sum.splits if_splits)
  then show ?thesis
    using assms(4) by (auto simp: state_record_hash_def canonical_state_json_def collision_def
        split: if_splits)
qed

definition sample_row :: state_row where
  "sample_row = \<lparr> row_state_id = ''s1'', row_ocs = ''A'', row_version = 1, row_predecessor = None,
     row_json = json_tree (state_data sample_state), row_hash = ''h'' \<rparr>"

lemma sample_corrupt_read:
  "read_fresh (\<lambda>v. ''h'') ''s1'' (snd (corrupt_payload ''s1'' (PyDict [(''x'', PyInt 1)]) [sample_row]))
     = Inr (sample_state\<lparr>sr_payload := PyDict [(''x'', PyInt 1)]\<rparr>)"
  by code_simp

lemma corrupted_payload_detected_witness:
  "json_tree (state_data (sample_state\<lparr>sr_payload := PyDict [(''x'', PyInt 1)]\<rparr>))
      = json_tree (state_data sample_state)
    \<or> collision (\<lambda>v. ''h'') (json_tree (state_data (sample_state\<lparr>sr_payload := PyDict [(''x'', PyInt 1)]\<rparr>)))
        (json_tree (state_data sample_state))"
proof -
  let ?p = "PyDict [(''x'', PyInt 1)]"
  obtain t' where t': "corrupt_payload (row_state_id sample_row) ?p [sample_row] = (Inr (), t')"
    by (simp add: corrupt_payload_def)
  then have "snd (corrupt_payload ''s1'' ?p [sample_row]) = t'" by (simp add: sample_row_def)
  then have "read_fresh (\<lambda>v. ''h'') (row_state_id sample_row) t'
      = Inr (sample_state\<lparr>sr_payload := ?p\<rparr>)"
    using sample_corrupt_read by (simp add: sample_row_def)
  from corrupted_payload_detected [OF _ _ _ _ t' this, of sample_state]
  show ?thesis by (simp add: sample_row_def)
qed

end
