(* ===== verification/Effects.thy ===== *)
theory Effects
  imports State_Trace
begin

text \<open>
  \<^verbatim>\<open>app/universal_kernel/effect_recovery.py\<close>: the tool broker, the thin effector and the
  recovery manager. Adapters and compensation verifiers are objects the kernel is given: the
  model takes them as records of functions over an external world of any type \<open>'w\<close>, with a
  number for their identity (Python's \<^verbatim>\<open>id\<close>). They see the world only, not the kernel.
  The broker's context variable is a flag: set while the broker resolves an adapter.
\<close>

section \<open>Adapters\<close>

record 'w adapter =
  ad_id :: nat
  ad_mutate :: "string \<Rightarrow> pyval \<Rightarrow> string \<Rightarrow> ('w, string) py"
  ad_readback :: "string \<Rightarrow> ('w, material_readback) py"
  ad_compensate :: "(string \<Rightarrow> pyval \<Rightarrow> string \<Rightarrow> string \<Rightarrow> ('w, string) py) option"

record 'w compensation_verifier =
  cv_id :: nat
  cv_readback :: "string \<Rightarrow> ('w, material_readback) py"
  cv_verify :: "string \<Rightarrow> material_readback \<Rightarrow> ('w, bool) py"

record material_boundary_claim =
  mb_strength :: string
  mb_structural_denial :: bool
  mb_process_isolated :: bool

section \<open>The broker\<close>

record 'w broker =
  tb_adapters :: "(string \<times> 'w adapter) list"
  tb_verifiers :: "(string \<times> 'w compensation_verifier) list"
  tb_bound_ids :: "nat list"
  tb_resolving :: bool

text \<open>The broker, the effector's cache and the world outside.\<close>

record 'w effects =
  fx_broker :: "'w broker"
  fx_completed :: "(string \<times> material_readback) list"
  fx_world :: 'w

definition new_broker :: "'w broker" where
  "new_broker = \<lparr> tb_adapters = [], tb_verifiers = [], tb_bound_ids = [], tb_resolving = False \<rparr>"

definition material_boundary_claim_of :: "'w broker \<Rightarrow> material_boundary_claim" where
  "material_boundary_claim_of b =
     \<lparr> mb_strength = ''IN_PROCESS_GUARD_ONLY'', mb_structural_denial = False,
       mb_process_isolated = False \<rparr>"

definition on_world :: "('w, 'a) py \<Rightarrow> ('w effects, 'a) py" where
  "on_world m = py_on fx_world (\<lambda>w f. f\<lparr>fx_world := w\<rparr>) m"

definition register_adapter ::
    "string \<Rightarrow> 'w adapter \<Rightarrow> 'w compensation_verifier option \<Rightarrow> ('w broker, unit) py" where
  "register_adapter capability adapter verifier = (\<lambda>b.
     if ad_id adapter \<in> set (tb_bound_ids b) then
       (Inl (ValueError ''adapter_already_broker_bound''), b)
     else if (case verifier of None \<Rightarrow> False | Some v \<Rightarrow> cv_id v = ad_id adapter) then
       (Inl (ValueError ''compensation_verifier_must_be_independent''), b)
     else
       (Inr (), b\<lparr>tb_bound_ids := ad_id adapter # tb_bound_ids b,
                 tb_adapters := dset capability adapter (tb_adapters b),
                 tb_verifiers := (case verifier of
                     None \<Rightarrow> tb_verifiers b
                   | Some v \<Rightarrow> dset capability v (tb_verifiers b))\<rparr>))"

text \<open>What \<^verbatim>\<open>register\<close> replaces the adapter's own methods with.\<close>

definition guarded_mutate ::
    "'w adapter \<Rightarrow> string \<Rightarrow> pyval \<Rightarrow> string \<Rightarrow> ('w effects, string) py" where
  "guarded_mutate a operation payload key = (\<lambda>f.
     if \<not> tb_resolving (fx_broker f) then
       (Inl (ValueError ''direct_adapter_mutation_prohibited''), f)
     else on_world (ad_mutate a operation payload key) f)"

definition guarded_compensate ::
    "(string \<Rightarrow> pyval \<Rightarrow> string \<Rightarrow> string \<Rightarrow> ('w, string) py)
       \<Rightarrow> string \<Rightarrow> pyval \<Rightarrow> string \<Rightarrow> string \<Rightarrow> ('w effects, string) py" where
  "guarded_compensate compensate operation payload mutation_id key = (\<lambda>f.
     if \<not> tb_resolving (fx_broker f) then
       (Inl (ValueError ''direct_adapter_compensation_prohibited''), f)
     else on_world (compensate operation payload mutation_id key) f)"

definition has_independent_verifier :: "'w broker \<Rightarrow> string \<Rightarrow> bool" where
  "has_independent_verifier b capability =
     (case (map_of (tb_verifiers b) capability, map_of (tb_adapters b) capability) of
        (Some v, Some a) \<Rightarrow> cv_id v \<noteq> ad_id a
      | _ \<Rightarrow> False)"

definition adapter_for :: "string \<Rightarrow> ('w effects, 'w adapter) py" where
  "adapter_for capability = (\<lambda>f.
     if \<not> tb_resolving (fx_broker f) then
       (Inl (ValueError ''direct_adapter_resolution_prohibited''), f)
     else
       (case map_of (tb_adapters (fx_broker f)) capability of
          None \<Rightarrow> (Inl (ValueError ''adapter_not_registered''), f)
        | Some a \<Rightarrow> (Inr a, f)))"

definition validate_envelope :: "action_envelope \<Rightarrow> unit res" where
  "validate_envelope e =
     (if ae_capability e \<notin> set (ae_scope e) \<or> \<not> ae_valid_scope e then
        Inl (ValueError ''material_boundary_scope_invalid'')
      else if ae_authority_ref e = [] \<or> ae_lease_use_index e = None then
        Inl (ValueError ''material_boundary_authority_required'')
      else Inr ())"

text \<open>\<^verbatim>\<open>try ... finally\<close> around the context variable: set, run, reset to what it was.\<close>

definition set_resolving :: "bool \<Rightarrow> 'w effects \<Rightarrow> 'w effects" where
  "set_resolving v f = f\<lparr>fx_broker := (fx_broker f)\<lparr>tb_resolving := v\<rparr>\<rparr>"

definition while_resolving :: "('w effects, 'a) py \<Rightarrow> ('w effects, 'a) py" where
  "while_resolving m = (\<lambda>f.
     case m (set_resolving True f) of
       (r, f') \<Rightarrow> (r, set_resolving (tb_resolving (fx_broker f)) f'))"

definition resolve_for :: "action_envelope \<Rightarrow> ('w effects, 'w adapter) py" where
  "resolve_for e =
     py_bind (py_lift (validate_envelope e)) (\<lambda>_. while_resolving (adapter_for (ae_capability e)))"

definition mutate_for :: "action_envelope \<Rightarrow> ('w effects, string) py" where
  "mutate_for e =
     py_bind (py_lift (validate_envelope e)) (\<lambda>_.
     while_resolving (py_bind (adapter_for (ae_capability e)) (\<lambda>a.
       guarded_mutate a (ae_operation e) (ae_payload e) (ae_idempotency_key e))))"

definition readback_for :: "action_envelope \<Rightarrow> string \<Rightarrow> ('w effects, material_readback) py" where
  "readback_for e mutation_id =
     py_bind (py_lift (validate_envelope e)) (\<lambda>_.
     while_resolving (py_bind (adapter_for (ae_capability e)) (\<lambda>a.
       on_world (ad_readback a mutation_id))))"

definition compensate_for :: "action_envelope \<Rightarrow> string \<Rightarrow> ('w effects, material_readback) py" where
  "compensate_for e mutation_id =
     py_bind (py_lift (validate_envelope e)) (\<lambda>_.
     py_bind (py_gets fx_broker) (\<lambda>b.
     case (map_of (tb_verifiers b) (ae_capability e), map_of (tb_adapters b) (ae_capability e)) of
       (Some v, Some a) \<Rightarrow>
         if cv_id v = ad_id a then
           py_raise (RuntimeError ''independent_compensation_verifier_required'')
         else
           py_bind (while_resolving (py_bind (adapter_for (ae_capability e)) (\<lambda>bound.
             case ad_compensate bound of
               None \<Rightarrow> py_raise (RuntimeError ''material_compensation_unavailable'')
             | Some compensate \<Rightarrow>
                 guarded_compensate compensate (ae_operation e) (ae_payload e) mutation_id
                   (''compensate:'' @ ae_idempotency_key e)))) (\<lambda>compensation_id.
           py_bind (on_world (cv_readback v compensation_id)) (\<lambda>external.
           py_bind (on_world (cv_verify v mutation_id external)) (\<lambda>ok.
           if \<not> ok then py_raise (RuntimeError ''material_compensation_verification_failed'')
           else py_return external)))
     | _ \<Rightarrow> py_raise (RuntimeError ''independent_compensation_verifier_required'')))"

section \<open>The effector\<close>

definition effector_execute :: "action_envelope \<Rightarrow> ('w effects, material_readback) py" where
  "effector_execute e =
     py_bind (py_gets (\<lambda>f. map_of (fx_completed f) (ae_idempotency_key e))) (\<lambda>cached.
     case cached of
       Some readback \<Rightarrow> py_return readback
     | None \<Rightarrow>
         py_bind (mutate_for e) (\<lambda>mutation_id.
         py_try (readback_for e mutation_id)
           (\<lambda>x. if is_runtime_error x then py_raise (MaterialEffectFailure (exn_str x) mutation_id)
                else py_raise x)
           (\<lambda>readback.
             py_bind (py_modify (\<lambda>f. f\<lparr>fx_completed :=
                 dset (ae_idempotency_key e) readback (fx_completed f)\<rparr>)) (\<lambda>_.
             py_return readback))))"

section \<open>Recovery\<close>

type_synonym checkpoints = "(string \<times> verified_checkpoint) list"

definition register_checkpoint :: "string \<Rightarrow> verified_checkpoint \<Rightarrow> (checkpoints, unit) py" where
  "register_checkpoint recovery_ref cp =
     (if \<not> sr_verified (vc_state cp) then py_raise (ValueError ''verified_checkpoint_required'')
      else py_modify (dset recovery_ref cp))"

definition recovery_receipt_of ::
    "string \<Rightarrow> bool \<Rightarrow> bool \<Rightarrow> bool \<Rightarrow> material_readback option \<Rightarrow> recovery_receipt" where
  "recovery_receipt_of disposition recovered compensated residual readback =
     \<lparr> rr_disposition = disposition, rr_state_recovered = recovered,
       rr_material_compensated = compensated, rr_residual_effect = residual,
       rr_external_readback = readback \<rparr>"

text \<open>The manager shares the runtime's effector and state core.\<close>

definition on_effects :: "('w effects, 'a) py \<Rightarrow> ('w effects \<times> state_core, 'a) py" where
  "on_effects m = py_on fst (\<lambda>f s. (f, snd s)) m"

definition on_core :: "(state_core, 'a) py \<Rightarrow> ('w effects \<times> state_core, 'a) py" where
  "on_core m = py_on snd (\<lambda>c s. (fst s, c)) m"

definition recover_post_effect ::
    "digest \<Rightarrow> checkpoints \<Rightarrow> action_envelope \<Rightarrow> string
       \<Rightarrow> ('w effects \<times> state_core, recovery_receipt) py" where
  "recover_post_effect H cps e mutation_id =
     (let checkpoint = map_of cps (ae_recovery_ref e)
      in if ae_reversibility_class e = Rev_IRREVERSIBLE then
           py_return (recovery_receipt_of ''incident'' False False True None)
         else
           py_try (on_effects (compensate_for e mutation_id))
             (\<lambda>x. if is_runtime_error x \<or> is_value_error x then
                    py_return (recovery_receipt_of ''compensation_unverified'' False False True None)
                  else py_raise x)
             (\<lambda>external.
               case checkpoint of
                 None \<Rightarrow> py_return (recovery_receipt_of ''recovered'' False True False (Some external))
               | Some cp \<Rightarrow>
                   py_bind (\<lambda>s. (sc_current_record (sr_ocs (vc_state cp)) (snd s), s)) (\<lambda>current.
                   if map_option sr_state_id current = Some (sr_state_id (vc_state cp)) then
                     py_return (recovery_receipt_of ''recovered'' True True False (Some external))
                   else
                     py_bind (on_core (restore_verified H cp)) (\<lambda>_.
                     py_return (recovery_receipt_of ''recovered'' True True False (Some external))))))"

section \<open>The broker's flag is down between calls\<close>

definition quiet :: "'w effects \<Rightarrow> bool" where
  "quiet f \<longleftrightarrow> \<not> tb_resolving (fx_broker f)"

lemma while_resolving_quiet: "keeps quiet (while_resolving m)"
  by (rule stepsI) (auto simp: while_resolving_def quiet_def set_resolving_def split: prod.split)

lemma on_world_broker [simp]: "fx_broker (snd (on_world m f)) = fx_broker f"
  by (simp add: on_world_def py_simps)

lemma on_world_completed [simp]: "fx_completed (snd (on_world m f)) = fx_completed f"
  by (simp add: on_world_def py_simps)

lemma on_world_quiet: "keeps quiet (on_world m)"
  by (rule stepsI) (simp add: quiet_def)

lemma resolve_for_quiet: "keeps quiet (resolve_for e)"
  unfolding resolve_for_def by (intro keep.steps_bind keep.steps_basic while_resolving_quiet)

lemma mutate_for_quiet: "keeps quiet (mutate_for e)"
  unfolding mutate_for_def by (intro keep.steps_bind keep.steps_basic while_resolving_quiet)

lemma readback_for_quiet: "keeps quiet (readback_for e i)"
  unfolding readback_for_def by (intro keep.steps_bind keep.steps_basic while_resolving_quiet)

lemma compensate_for_quiet: "keeps quiet (compensate_for e i)"
  unfolding compensate_for_def
  by (intro keep.steps_bind keep.steps_basic)
    (auto split: option.split intro!: keep.steps_bind keep.steps_basic while_resolving_quiet
      on_world_quiet)

lemma store_readback_quiet:
  "keeps quiet (py_modify (\<lambda>f. f\<lparr>fx_completed := dset k rb (fx_completed f)\<rparr>))"
  by (rule stepsI) (simp add: py_simps quiet_def)

lemma effector_execute_quiet: "keeps quiet (effector_execute e)"
  unfolding effector_execute_def
  by (intro keep.steps_bind keep.steps_basic)
    (auto split: option.split intro!: keep.steps_bind keep.steps_try keep.steps_basic
      mutate_for_quiet readback_for_quiet store_readback_quiet)

lemma register_adapter_quiet:
  "keeps quiet (py_on fx_broker (\<lambda>b f. f\<lparr>fx_broker := b\<rparr>) (register_adapter c a v))"
  by (rule stepsI) (simp add: py_simps quiet_def register_adapter_def split: option.splits)

section \<open>What an effector has read back stays\<close>

definition cached_at :: "string \<Rightarrow> material_readback \<Rightarrow> 'w effects \<Rightarrow> bool" where
  "cached_at k rb f \<longleftrightarrow> map_of (fx_completed f) k = Some rb"

lemma while_resolving_completed:
  assumes "\<And>g. fx_completed (snd (m g)) = fx_completed g"
  shows "fx_completed (snd (while_resolving m f)) = fx_completed f"
  using assms [of "set_resolving True f"]
  by (cases "m (set_resolving True f)") (simp add: while_resolving_def set_resolving_def)

lemma adapter_for_same [simp]: "snd (adapter_for c f) = f"
  by (simp add: adapter_for_def split: option.split)

lemma guarded_mutate_completed [simp]: "fx_completed (snd (guarded_mutate a op p k f)) = fx_completed f"
  by (simp add: guarded_mutate_def)

lemma guarded_compensate_completed [simp]:
  "fx_completed (snd (guarded_compensate a op p i k f)) = fx_completed f"
  by (simp add: guarded_compensate_def)

lemma bind_completed:
  assumes "\<And>g. fx_completed (snd (m g)) = fx_completed g"
    and "\<And>x g. fx_completed (snd (k x g)) = fx_completed g"
  shows "fx_completed (snd (py_bind m k f)) = fx_completed f"
  using assms by (auto simp: py_bind_run split: prod.split sum.split) (metis snd_conv)+

lemma lift_completed: "fx_completed (snd (py_lift r f)) = fx_completed f"
  "fx_completed (snd (py_gets h f)) = fx_completed f"
  "fx_completed (snd (py_raise x f)) = fx_completed f"
  "fx_completed (snd (py_return y f)) = fx_completed f"
  by (simp_all add: py_simps)

lemma resolve_for_completed: "fx_completed (snd (resolve_for e f)) = fx_completed f"
  unfolding resolve_for_def by (intro bind_completed lift_completed while_resolving_completed) simp

lemma mutate_for_completed: "fx_completed (snd (mutate_for e f)) = fx_completed f"
  unfolding mutate_for_def
  by (intro bind_completed lift_completed while_resolving_completed) simp_all

lemma readback_for_completed: "fx_completed (snd (readback_for e i f)) = fx_completed f"
  unfolding readback_for_def
  by (intro bind_completed lift_completed while_resolving_completed) simp_all

lemma compensate_for_completed: "fx_completed (snd (compensate_for e i f)) = fx_completed f"
  unfolding compensate_for_def
  by (intro bind_completed lift_completed)
    (auto split: option.split intro!: bind_completed lift_completed while_resolving_completed)

lemma effector_execute_cached:
  "map_of (fx_completed f) (ae_idempotency_key e) = Some rb \<Longrightarrow> effector_execute e f = (Inr rb, f)"
  by (simp add: effector_execute_def py_simps)

lemma effector_execute_stores:
  assumes "effector_execute e f = (Inr rb, f')"
  shows "cached_at (ae_idempotency_key e) rb f'"
proof (cases "map_of (fx_completed f) (ae_idempotency_key e)")
  case None
  then show ?thesis
    using assms by (auto simp: effector_execute_def py_simps cached_at_def
        split: prod.splits sum.splits if_splits)
next
  case (Some rb')
  then show ?thesis using assms by (simp add: cached_at_def effector_execute_cached)
qed

lemma effector_execute_keeps_cached: "cached_at k rb f \<Longrightarrow> cached_at k rb (snd (effector_execute e f))"
proof (cases "map_of (fx_completed f) (ae_idempotency_key e)")
  case None
  assume c: "cached_at k rb f"
  obtain r g where m: "mutate_for e f = (r, g)" by fastforce
  then have g: "fx_completed g = fx_completed f" by (metis mutate_for_completed snd_conv)
  show ?thesis
  proof (cases r)
    case (Inl x)
    then show ?thesis using None m g c by (simp add: effector_execute_def py_simps cached_at_def)
  next
    case (Inr i)
    obtain r' h where rb: "readback_for e i g = (r', h)" by fastforce
    then have "fx_completed h = fx_completed f" by (metis readback_for_completed snd_conv g)
    then show ?thesis using None m g c rb Inr
      by (cases r') (auto simp: effector_execute_def py_simps cached_at_def)
  qed
next
  case (Some x)
  assume "cached_at k rb f"
  then show ?thesis using Some by (simp add: cached_at_def effector_execute_cached)
qed

section \<open>Calls\<close>

datatype 'w effect_call =
    Fx_register string "'w adapter" "'w compensation_verifier option"
  | Fx_resolve action_envelope
  | Fx_mutate action_envelope
  | Fx_readback action_envelope string
  | Fx_compensate action_envelope string
  | Fx_execute action_envelope

fun effect_step :: "'w effect_call \<Rightarrow> 'w effects \<Rightarrow> 'w effects" where
  "effect_step (Fx_register c a v) f =
     snd (py_on fx_broker (\<lambda>b f. f\<lparr>fx_broker := b\<rparr>) (register_adapter c a v) f)"
| "effect_step (Fx_resolve e) f = snd (resolve_for e f)"
| "effect_step (Fx_mutate e) f = snd (mutate_for e f)"
| "effect_step (Fx_readback e i) f = snd (readback_for e i f)"
| "effect_step (Fx_compensate e i) f = snd (compensate_for e i f)"
| "effect_step (Fx_execute e) f = snd (effector_execute e f)"

definition effect_run :: "'w effect_call list \<Rightarrow> 'w effects \<Rightarrow> 'w effects" where
  "effect_run calls f = fold effect_step calls f"

lemma effect_step_quiet: "quiet f \<Longrightarrow> quiet (effect_step c f)"
  by (cases c)
    (simp_all add: register_adapter_quiet [THEN keepsD] resolve_for_quiet [THEN keepsD]
      mutate_for_quiet [THEN keepsD] readback_for_quiet [THEN keepsD]
      compensate_for_quiet [THEN keepsD] effector_execute_quiet [THEN keepsD])

lemma effect_run_quiet: "quiet f \<Longrightarrow> quiet (effect_run calls f)"
  unfolding effect_run_def by (induction calls arbitrary: f) (simp_all add: effect_step_quiet)

lemma effect_step_cached: "cached_at k rb f \<Longrightarrow> cached_at k rb (effect_step c f)"
  by (cases c)
    (simp_all add: cached_at_def resolve_for_completed mutate_for_completed readback_for_completed
      compensate_for_completed py_on_run effector_execute_keeps_cached [unfolded cached_at_def])

lemma effect_run_cached: "cached_at k rb f \<Longrightarrow> cached_at k rb (effect_run calls f)"
  unfolding effect_run_def by (induction calls arbitrary: f) (simp_all add: effect_step_cached)

text \<open>
  The effector's answer for an idempotency key is final: once a call for the key has answered,
  any later call with that key, whatever its envelope and whatever happened in between, answers
  the same readback and touches neither the world nor the kernel. A call that raised is not an
  answer: see \<open>failed_readback_mutates_again\<close>.
\<close>

lemma effector_answer_final:
  assumes "effector_execute e f = (Inr rb, f')"
    and "ae_idempotency_key e' = ae_idempotency_key e"
  shows "effector_execute e' (effect_run calls f') = (Inr rb, effect_run calls f')"
  using effect_run_cached [OF effector_execute_stores [OF assms(1)]] assms(2)
  by (auto simp: cached_at_def intro: effector_execute_cached)

text \<open>
  Between two calls of the broker nobody can reach an adapter: after any calls, failed
  ones included, a direct call of a registered adapter's \<^verbatim>\<open>mutate\<close> or \<^verbatim>\<open>compensate\<close>
  and a direct resolution are refused and change nothing.
\<close>

lemma direct_adapter_calls_refused:
  defines "f0 \<equiv> \<lambda>w. \<lparr> fx_broker = new_broker, fx_completed = [], fx_world = w \<rparr>"
  shows "guarded_mutate a op p k (effect_run calls (f0 w)) =
      (Inl (ValueError ''direct_adapter_mutation_prohibited''), effect_run calls (f0 w)) \<and>
    guarded_compensate c op p i k (effect_run calls (f0 w)) =
      (Inl (ValueError ''direct_adapter_compensation_prohibited''), effect_run calls (f0 w)) \<and>
    adapter_for cap (effect_run calls (f0 w)) =
      (Inl (ValueError ''direct_adapter_resolution_prohibited''), effect_run calls (f0 w))"
proof -
  have "quiet (f0 w)" by (simp add: f0_def quiet_def new_broker_def)
  then have "quiet (effect_run calls (f0 w))" by (rule effect_run_quiet)
  then show ?thesis
    by (simp add: guarded_mutate_def guarded_compensate_def adapter_for_def quiet_def)
qed

text \<open>
  What a recovery receipt says is what happened: compensation is reported exactly when the
  effect is not irreversible and the compensation ran and was verified by an independent
  verifier, whose readback the receipt carries; otherwise the effect is reported residual, and
  an irreversible effect is left untouched.
\<close>

lemma recovery_receipt_truthful:
  assumes "recover_post_effect H cps e i (f, c) = (Inr r, (f', c'))"
  shows "(rr_material_compensated r \<longleftrightarrow> ae_reversibility_class e \<noteq> Rev_IRREVERSIBLE \<and>
      (\<exists>x. fst (compensate_for e i f) = Inr x \<and> rr_external_readback r = Some x)) \<and>
    rr_residual_effect r = (\<not> rr_material_compensated r) \<and>
    (rr_state_recovered r \<longrightarrow> rr_material_compensated r) \<and>
    (ae_reversibility_class e = Rev_IRREVERSIBLE \<longrightarrow> f' = f \<and> c' = c)"
proof (cases "ae_reversibility_class e = Rev_IRREVERSIBLE")
  case True
  then show ?thesis
    using assms by (auto simp: recover_post_effect_def py_simps recovery_receipt_of_def)
next
  case False
  obtain y g where y: "compensate_for e i f = (y, g)" by fastforce
  show ?thesis
  proof (cases y)
    case (Inl x)
    then show ?thesis using assms False y
      by (auto simp: recover_post_effect_def py_simps recovery_receipt_of_def on_effects_def
          split: if_splits)
  next
    case (Inr x)
    then have "rr_material_compensated r \<and> \<not> rr_residual_effect r \<and> rr_external_readback r = Some x"
      using assms False y
      by (auto simp: recover_post_effect_def py_simps recovery_receipt_of_def on_effects_def
          split: if_splits option.splits prod.splits sum.splits)
    then show ?thesis using False y Inr by simp
  qed
qed

section \<open>A world that counts its mutations\<close>

definition sample_adapter :: "int adapter" where
  "sample_adapter = \<lparr> ad_id = 1, ad_mutate = (\<lambda>op p k w. (Inr ''m'', w + 1)),
     ad_readback = (\<lambda>i w. (Inr \<lparr> mr_mutation_id = i, mr_state = PyDict [] \<rparr>, w)),
     ad_compensate = Some (\<lambda>op p i k w. (Inr ''c'', w - 1)) \<rparr>"

definition sample_verifier :: "int compensation_verifier" where
  "sample_verifier = \<lparr> cv_id = 2,
     cv_readback = (\<lambda>i w. (Inr \<lparr> mr_mutation_id = i, mr_state = PyInt w \<rparr>, w)),
     cv_verify = (\<lambda>i rb w. (Inr (mr_state rb = PyInt 0), w)) \<rparr>"

definition reserved_envelope :: "reversibility_class \<Rightarrow> string \<Rightarrow> action_envelope" where
  "reserved_envelope rc key = \<lparr> ae_action_id = ''a'', ae_actor = ''A'', ae_ocs = ''A'',
     ae_capability = ''c'', ae_operation = ''op'', ae_action_type = ''act'', ae_issued_at = 1,
     ae_payload = PyDict [], ae_lease_id = ''l'', ae_evidence_refs = [], ae_csp_ref = ''csp'',
     ae_object_ref = ''obj'', ae_tenant = ''t'', ae_context_ref = ''x'', ae_scope = [''c''],
     ae_valid_scope = True, ae_authority_ref = ''au'', ae_policy_snapshot = ''p'',
     ae_idempotency_key = key, ae_expected_effect = ''e'', ae_side_effect_class = Effect_BOUNDED,
     ae_reversibility_class = rc, ae_recovery_ref = ''rec'', ae_expires_at = 50,
     ae_evidence_assessment_ref = ''ev'', ae_max_uses = 2, ae_trace_id = ''tr'',
     ae_lease_use_index = Some 1 \<rparr>"

definition counting_effects :: "int \<Rightarrow> int effects" where
  "counting_effects w = effect_run [Fx_register ''c'' sample_adapter (Some sample_verifier)]
     \<lparr> fx_broker = new_broker, fx_completed = [], fx_world = w \<rparr>"

lemma counting_effects_eval:
  "counting_effects w = \<lparr> fx_broker = \<lparr> tb_adapters = [(''c'', sample_adapter)],
       tb_verifiers = [(''c'', sample_verifier)], tb_bound_ids = [1], tb_resolving = False \<rparr>,
     fx_completed = [], fx_world = w \<rparr>"
  by (simp add: counting_effects_def effect_run_def register_adapter_def new_broker_def py_simps
      sample_adapter_def sample_verifier_def)

lemmas effect_simps = py_simps counting_effects_eval reserved_envelope_def validate_envelope_def
  while_resolving_def set_resolving_def adapter_for_def guarded_mutate_def guarded_compensate_def
  on_world_def sample_adapter_def sample_verifier_def

lemma counting_execute:
  "effector_execute (reserved_envelope rc k) (counting_effects 0) =
     (Inr \<lparr> mr_mutation_id = ''m'', mr_state = PyDict [] \<rparr>,
      (counting_effects 1)\<lparr>fx_completed := [(k, \<lparr> mr_mutation_id = ''m'', mr_state = PyDict [] \<rparr>)]\<rparr>)"
  by (simp add: effector_execute_def mutate_for_def readback_for_def effect_simps)

lemma effector_answer_final_witness:
  "fx_world (snd (effector_execute (reserved_envelope Rev_IRREVERSIBLE ''k'')
     (effect_run [Fx_execute (reserved_envelope Rev_REVERSIBLE ''k'')]
       (snd (effector_execute (reserved_envelope Rev_REVERSIBLE ''k'') (counting_effects 0)))))) = 1"
proof -
  let ?e = "reserved_envelope Rev_REVERSIBLE ''k''"
  let ?f = "(counting_effects 1)\<lparr>fx_completed := [(''k'', \<lparr> mr_mutation_id = ''m'', mr_state = PyDict [] \<rparr>)]\<rparr>"
  have key: "ae_idempotency_key (reserved_envelope rc k) = k" for rc k
    by (simp add: reserved_envelope_def)
  have "effect_run [Fx_execute ?e] ?f = ?f"
    using effector_execute_cached [of ?f ?e] by (simp add: effect_run_def key)
  then show ?thesis
    using effector_answer_final [OF counting_execute [of Rev_REVERSIBLE "''k''"],
        of "reserved_envelope Rev_IRREVERSIBLE ''k''" "[Fx_execute ?e]"]
    by (simp add: key counting_execute) (simp add: counting_effects_eval)
qed

lemma recovery_receipt_truthful_witness:
  "\<exists>r f' c'. recover_post_effect (\<lambda>v. ''h'') [] (reserved_envelope Rev_COMPENSATABLE ''k'') ''m''
      (counting_effects 1, \<lparr> sc_records = [], sc_current = [], sc_port = None \<rparr>) = (Inr r, (f', c')) \<and>
    rr_material_compensated r \<and> \<not> rr_residual_effect r \<and> fx_world f' = 0"
proof -
  let ?e = "reserved_envelope Rev_COMPENSATABLE ''k''"
  let ?c = "\<lparr> sc_records = [], sc_current = [], sc_port = None \<rparr>"
  have comp: "compensate_for ?e ''m'' (counting_effects 1) =
      (Inr \<lparr> mr_mutation_id = ''c'', mr_state = PyInt 0 \<rparr>, counting_effects 0)"
    by (simp add: compensate_for_def effect_simps)
  have rcl: "ae_reversibility_class ?e = Rev_COMPENSATABLE" by (simp add: reserved_envelope_def)
  obtain r where run: "recover_post_effect (\<lambda>v. ''h'') [] ?e ''m'' (counting_effects 1, ?c)
      = (Inr r, (counting_effects 0, ?c))"
    and rb: "rr_external_readback r = Some \<lparr> mr_mutation_id = ''c'', mr_state = PyInt 0 \<rparr>"
    by (simp add: recover_post_effect_def rcl on_effects_def py_simps comp recovery_receipt_of_def)
  from recovery_receipt_truthful [OF run] have "rr_material_compensated r \<and> \<not> rr_residual_effect r"
    using comp rcl rb by simp
  moreover have "fx_world (counting_effects 0) = 0" by (simp add: counting_effects_eval)
  ultimately show ?thesis using run by blast
qed

text \<open>
  Registering another adapter for a capability without a verifier keeps the verifier of the
  adapter it replaces: the broker then claims an independent verifier for an adapter that was
  registered without one.
\<close>

lemma replaced_adapter_keeps_verifier:
  assumes "register_adapter cap a (Some v) b = (Inr (), b1)"
    and "register_adapter cap a' None b1 = (Inr (), b2)" and "cv_id v \<noteq> ad_id a'"
  shows "map_of (tb_adapters b2) cap = Some a' \<and> map_of (tb_verifiers b2) cap = Some v \<and>
    has_independent_verifier b2 cap"
  using assms by (auto simp: register_adapter_def has_independent_verifier_def split: if_splits)

lemma replaced_adapter_keeps_verifier_witness:
  "has_independent_verifier (snd (register_adapter ''c'' (sample_adapter\<lparr>ad_id := 7\<rparr>) None
     (fx_broker (counting_effects 0)))) ''c''"
proof -
  have "register_adapter ''c'' sample_adapter (Some sample_verifier) new_broker
      = (Inr (), fx_broker (counting_effects 0))"
    by (simp add: register_adapter_def new_broker_def counting_effects_eval sample_adapter_def
        sample_verifier_def)
  moreover obtain b2 where b2: "register_adapter ''c'' (sample_adapter\<lparr>ad_id := 7\<rparr>) None
      (fx_broker (counting_effects 0)) = (Inr (), b2)"
    by (simp add: register_adapter_def counting_effects_eval)
  moreover have "cv_id sample_verifier \<noteq> ad_id (sample_adapter\<lparr>ad_id := 7\<rparr>)"
    by (simp add: sample_verifier_def)
  ultimately have "has_independent_verifier b2 ''c''"
    using replaced_adapter_keeps_verifier by blast
  then show ?thesis using b2 by simp
qed

text \<open>
  The idempotency key does not protect an effect whose readback fails: nothing is kept for the
  key, and a retry mutates again. The world counts its mutations; the first readback fails.
\<close>

definition flaky_adapter :: "int adapter" where
  "flaky_adapter = sample_adapter\<lparr>ad_readback := (\<lambda>i w.
     if w = 1 then (Inl (RuntimeError ''readback_unavailable''), w)
     else (Inr \<lparr> mr_mutation_id = i, mr_state = PyDict [] \<rparr>, w))\<rparr>"

lemma failed_readback_mutates_again:
  defines "e \<equiv> reserved_envelope Rev_REVERSIBLE ''k''"
    and "f0 \<equiv> effect_run [Fx_register ''c'' flaky_adapter None] \<lparr> fx_broker = new_broker, fx_completed = [], fx_world = 0 \<rparr>"
  shows "fst (effector_execute e f0) = Inl (MaterialEffectFailure ''readback_unavailable'' ''m'') \<and>
    fst (effector_execute e (effect_run [Fx_execute e] f0)) = Inr \<lparr> mr_mutation_id = ''m'', mr_state = PyDict [] \<rparr> \<and>
    fx_world (effect_run [Fx_execute e, Fx_execute e] f0) = 2"
proof -
  have f0: "f0 = \<lparr> fx_broker = \<lparr> tb_adapters = [(''c'', flaky_adapter)], tb_verifiers = [],
       tb_bound_ids = [1], tb_resolving = False \<rparr>, fx_completed = [], fx_world = 0 \<rparr>"
    by (simp add: f0_def effect_run_def register_adapter_def new_broker_def py_simps flaky_adapter_def sample_adapter_def)
  show ?thesis
    unfolding f0 e_def effect_run_def
    by (simp add: effector_execute_def mutate_for_def readback_for_def effect_simps flaky_adapter_def)
qed

end
