(* ===== verification/Kernel_Runtime.thy ===== *)
theory Kernel_Runtime
  imports Identity Context_Guard Governance Effects
begin

text \<open>
  \<^verbatim>\<open>app/universal_kernel/runtime.py\<close>: the runtime that takes a proposal through identity,
  governance, trace, material effect, state and lease. Its state is that of the objects it was
  given, with its own counter, results and context. A \<open>kernel_clock\<close> holds what the calls of
  \<^verbatim>\<open>time()\<close> in one execution return. The recovery manager restores into the runtime's own
  state core.

  The \<^verbatim>\<open>try\<close> statement of \<^verbatim>\<open>execute\<close> is split at the assignment
  \<^verbatim>\<open>effected = True\<close>: the handlers see \<^verbatim>\<open>False\<close> and no readback for what the first
  part raises, \<^verbatim>\<open>True\<close> and the readback for what the second raises.
\<close>

record 'w kernel =
  kr_governance :: governance
  kr_effects :: "'w effects"
  kr_state :: state_core
  kr_trace :: trace_core
  kr_recovery :: "checkpoints option"
  kr_seq :: int
  kr_completed :: "(string \<times> string \<times> execution_result) list"
  kr_identity :: "identity_guard option"
  kr_run_id :: "string option"
  kr_active_ocs :: "string option"
  kr_host :: "string option"
  kr_session_context :: "string option"
  kr_context_items :: "context_item list"

record kernel_clock =
  ck_authorize :: "pytime \<times> pytime \<times> pytime"
  ck_reserve :: "pytime \<times> pytime"
  ck_guard :: "pytime \<times> pytime"

section \<open>The parts of the state\<close>

definition on_governance :: "(governance, 'a) py \<Rightarrow> ('w kernel, 'a) py" where
  "on_governance m = py_on kr_governance (\<lambda>x k. k\<lparr>kr_governance := x\<rparr>) m"

definition on_fx :: "('w effects, 'a) py \<Rightarrow> ('w kernel, 'a) py" where
  "on_fx m = py_on kr_effects (\<lambda>x k. k\<lparr>kr_effects := x\<rparr>) m"

definition on_state :: "(state_core, 'a) py \<Rightarrow> ('w kernel, 'a) py" where
  "on_state m = py_on kr_state (\<lambda>x k. k\<lparr>kr_state := x\<rparr>) m"

definition on_trace :: "(trace_core, 'a) py \<Rightarrow> ('w kernel, 'a) py" where
  "on_trace m = py_on kr_trace (\<lambda>x k. k\<lparr>kr_trace := x\<rparr>) m"

text \<open>A call on the guard, with the assertions before it; nothing without a guard.\<close>

definition on_identity :: "(string \<Rightarrow> (identity_guard, 'a) py) \<Rightarrow> ('w kernel, 'a option) py" where
  "on_identity f = (\<lambda>k.
     case kr_identity k of
       None \<Rightarrow> (Inr None, k)
     | Some g \<Rightarrow>
         (case kr_run_id k of
            None \<Rightarrow> (Inl (OtherError ''AssertionError''), k)
          | Some run_id \<Rightarrow>
              (case f run_id g of
                 (Inl x, g') \<Rightarrow> (Inl x, k\<lparr>kr_identity := Some g'\<rparr>)
               | (Inr y, g') \<Rightarrow> (Inr (Some y), k\<lparr>kr_identity := Some g'\<rparr>))))"

section \<open>Construction\<close>

text \<open>
  \<^verbatim>\<open>__init__\<close>. The guard is the caller's object, so its state after a failed
  construction is returned beside the outcome.
\<close>

definition new_runtime ::
    "digest \<Rightarrow> pytime \<Rightarrow> governance \<Rightarrow> 'w effects \<Rightarrow> state_core \<Rightarrow> trace_core \<Rightarrow> checkpoints option
       \<Rightarrow> identity_guard option \<Rightarrow> string option \<Rightarrow> string option \<Rightarrow> string option \<Rightarrow> string option
       \<Rightarrow> bool \<Rightarrow> context_item list \<Rightarrow> 'w kernel res \<times> identity_guard option" where
  "new_runtime H now governance effects state trace recovery guard run_id active_ocs host
       session_context sanitizer_given items =
     (let k = \<lparr> kr_governance = governance, kr_effects = effects, kr_state = state,
                kr_trace = trace, kr_recovery = recovery, kr_seq = 1, kr_completed = [],
                kr_identity = guard, kr_run_id = run_id, kr_active_ocs = active_ocs,
                kr_host = host, kr_session_context = session_context,
                kr_context_items = items \<rparr>;
          given = [guard \<noteq> None, run_id \<noteq> None, active_ocs \<noteq> None, host \<noteq> None,
                   session_context \<noteq> None]
      in if True \<in> set given \<and> False \<in> set given then
           (Inl (ValueError ''complete_identity_runtime_configuration_required''), guard)
         else if sanitizer_given \<and> guard = None then
           (Inl (ValueError ''context_sanitizer_requires_identity_binding''), guard)
         else
           (case (guard, run_id, active_ocs, host, session_context) of
              (Some g, Some r, Some ocs, Some h, Some ctx) \<Rightarrow>
                (case py_bind (if binding_for g r = None
                               then py_bind (bind_active_identity H now r ocs h ctx) (\<lambda>_. py_return ())
                               else py_return ())
                        (\<lambda>_. require_valid H r ocs COLD_START (Some h)) g of
                   (Inl x, g') \<Rightarrow> (Inl x, Some g')
                 | (Inr _, g') \<Rightarrow> (Inr (k\<lparr>kr_identity := Some g'\<rparr>), Some g'))
            | _ \<Rightarrow> (Inr k, guard)))"

definition replace_context :: "context_item list \<Rightarrow> ('w kernel, unit) py" where
  "replace_context items =
     py_bind (py_gets kr_identity) (\<lambda>guard.
     if guard = None then py_raise (ValueError ''institutional_identity_binding_required'')
     else py_modify (\<lambda>k. k\<lparr>kr_context_items := items\<rparr>))"

section \<open>Identity before an action\<close>

definition require_identity :: "digest \<Rightarrow> string \<Rightarrow> recheck_trigger \<Rightarrow> ('w kernel, unit) py" where
  "require_identity H expected_ocs trigger =
     py_bind (py_gets (\<lambda>k. (kr_identity k, kr_host k))) (\<lambda>(guard, host).
     if guard \<noteq> None \<and> host = None then py_raise (OtherError ''AssertionError'')
     else py_bind (on_identity (\<lambda>run_id. require_valid H run_id expected_ocs trigger host))
            (\<lambda>_. py_return ()))"

definition sanitize_guard ::
    "digest \<Rightarrow> string \<Rightarrow> string option \<Rightarrow> context_item list \<Rightarrow> string \<Rightarrow> (identity_guard, unit) py"
  where
  "sanitize_guard H active_ocs host items run_id =
     py_bind (require_valid H run_id active_ocs CAUSAL_ATTRIBUTION host) (\<lambda>binding.
     let a = assess_context active_ocs items
     in py_bind (guard_log H ''CONTEXT_SANITATION'' binding
            (PyDict [(''accepted_refs'', py_strs (ca_accepted_refs a)),
                     (''rejected_refs'', py_strs (ca_rejected_refs a)),
                     (''identity_conflict'', PyBool (ca_identity_conflict a)),
                     (''reasons'', py_strs (ca_reasons a))])) (\<lambda>_.
        if ca_identity_conflict a then
          (let reason = (if ca_reasons a = [] then ''identity_context_conflict''
                         else hd (ca_reasons a))
           in py_bind (hold_identity H run_id reason) (\<lambda>_. py_raise (ValueError reason)))
        else py_return ()))"

definition sanitize_context :: "digest \<Rightarrow> string \<Rightarrow> ('w kernel, unit) py" where
  "sanitize_context H active_ocs =
     py_bind (py_gets (\<lambda>k. (kr_host k, kr_context_items k))) (\<lambda>(host, items).
     py_bind (on_identity (sanitize_guard H active_ocs host items)) (\<lambda>_. py_return ()))"

definition exec_result ::
    "bool \<Rightarrow> bool \<Rightarrow> bool \<Rightarrow> string \<Rightarrow> authorization_decision \<Rightarrow> string option \<Rightarrow> execution_result" where
  "exec_result authorized effected proven reason decision trace_id =
     \<lparr> er_authorized = authorized, er_effected = effected, er_proven = proven, er_reason = reason,
       er_readback = None, er_decision = Some decision, er_trace_id = trace_id,
       er_recovery_receipt = None, er_residual_effect = False \<rparr>"

definition identity_pre_action ::
    "digest \<Rightarrow> action_proposal \<Rightarrow> ('w kernel, execution_result option) py" where
  "identity_pre_action H p =
     py_try (py_bind (require_identity H (ap_ocs p) PRE_ACTION)
               (\<lambda>_. sanitize_context H (ap_ocs p)))
       (\<lambda>x. if is_value_error x then
              py_return (Some (exec_result False False True (exn_str x) Decision_DENY (ap_trace_id p)))
            else py_raise x)
       (\<lambda>_. py_return None)"

section \<open>The trace of an action\<close>

definition next_seq :: "('w kernel, int) py" where
  "next_seq = (\<lambda>k. (Inr (kr_seq k), k\<lparr>kr_seq := kr_seq k + 1\<rparr>))"

definition event_id_of :: "string \<Rightarrow> string \<Rightarrow> int \<Rightarrow> string" where
  "event_id_of action_id stage n = ''trace:'' @ action_id @ '':'' @ stage @ '':'' @ show_int n"

definition trace_stage ::
    "string \<Rightarrow> string \<Rightarrow> string \<Rightarrow> pyval \<Rightarrow> ('w kernel, unit) py" where
  "trace_stage action_id tag stage details =
     py_bind next_seq (\<lambda>n.
     py_bind (on_trace (append_stage (event_id_of action_id tag n) action_id stage details)) (\<lambda>_.
     py_return ()))"

definition str_or_empty :: "string option \<Rightarrow> string" where
  "str_or_empty v = (case v of None \<Rightarrow> [] | Some s \<Rightarrow> s)"

definition trace_governance ::
    "action_proposal \<Rightarrow> governance_result \<Rightarrow> ('w kernel, bool) py" where
  "trace_governance p g =
     py_try
       (py_bind (trace_stage (ap_action_id p) ''proposal'' ''ACTION_PROPOSAL''
                   (PyDict [(''trace_id'', PyStr (str_or_empty (ap_trace_id p)))])) (\<lambda>_.
        py_bind (trace_stage (ap_action_id p) ''evidence'' ''EVIDENCE_ASSESSMENT''
                   (PyDict [(''sufficiency'', case gr_assessment g of
                                None \<Rightarrow> PyNone | Some a \<Rightarrow> PyBool (ea_sufficiency a)),
                            (''deficits'', case gr_assessment g of
                                None \<Rightarrow> PyTuple [] | Some a \<Rightarrow> py_strs (ea_deficits a))])) (\<lambda>_.
        trace_stage (ap_action_id p) ''governance'' ''GOVERNANCE_DECISION''
          (PyDict [(''decision'', PyStr (decision_value (gr_decision g))),
                   (''reason'', PyStr (gr_reason g)),
                   (''trace_id'', PyStr (str_or_empty (ap_trace_id p)))]))))
       (\<lambda>x. if is_runtime_error x then py_return False else py_raise x)
       (\<lambda>_. py_return True)"

section \<open>The action\<close>

text \<open>The handlers of the \<^verbatim>\<open>try\<close> statement.\<close>

definition handle_failure ::
    "digest \<Rightarrow> action_envelope \<Rightarrow> bool \<Rightarrow> material_readback option \<Rightarrow> exn
       \<Rightarrow> ('w kernel, execution_result) py" where
  "handle_failure H e effected readback x =
     (case x of
        ValueError m \<Rightarrow>
          py_return ((exec_result effected effected (\<not> effected) m
             (if effected then Decision_ALLOW else Decision_DENY) (Some (ae_trace_id e)))
               \<lparr>er_readback := readback, er_residual_effect := effected\<rparr>)
      | MaterialEffectFailure m mutation_id \<Rightarrow>
          py_bind (py_gets kr_recovery) (\<lambda>recovery.
          py_bind (case recovery of
                     None \<Rightarrow> py_return None
                   | Some cps \<Rightarrow>
                       py_bind (py_on (\<lambda>k. (kr_effects k, kr_state k))
                                  (\<lambda>(f, c) k. k\<lparr>kr_effects := f, kr_state := c\<rparr>)
                                  (recover_post_effect H cps e mutation_id))
                         (\<lambda>r. py_return (Some r))) (\<lambda>receipt.
          py_return ((exec_result True True False m Decision_ALLOW (Some (ae_trace_id e)))
            \<lparr>er_recovery_receipt := receipt,
             er_residual_effect := (case receipt of None \<Rightarrow> True | Some r \<Rightarrow> rr_residual_effect r)\<rparr>)))
      | _ \<Rightarrow>
          if is_runtime_error x then
            py_return ((exec_result True effected False (exn_str x) Decision_ALLOW
               (Some (ae_trace_id e)))\<lparr>er_readback := readback, er_residual_effect := effected\<rparr>)
          else py_raise x)"

definition envelope_details :: "action_envelope \<Rightarrow> pyval" where
  "envelope_details e = PyDict
     [(''trace_id'', PyStr (ae_trace_id e)),
      (''lease_id'', PyStr (ae_lease_id e)),
      (''lease_use_index'', case ae_lease_use_index e of None \<Rightarrow> PyNone | Some n \<Rightarrow> PyInt n),
      (''idempotency_key'', PyStr (ae_idempotency_key e))]"

text \<open>Up to \<^verbatim>\<open>effected = True\<close>.\<close>

definition act ::
    "digest \<Rightarrow> kernel_clock \<Rightarrow> action_proposal \<Rightarrow> action_envelope
       \<Rightarrow> ('w kernel, material_readback) py" where
  "act H ck p e =
     py_bind (trace_stage (ap_action_id p) ''authorized'' ''AUTHORIZED_ACTION_ENVELOPE''
                (envelope_details e)) (\<lambda>_.
     py_bind next_seq (\<lambda>n.
     py_bind (on_trace (preflight (event_id_of (ap_action_id p) ''preflight'' n) (ap_action_id p)
                (ae_trace_id e) (ae_authority_ref e) (ae_lease_id e))) (\<lambda>_.
     py_bind (require_identity H (ap_ocs p) PRE_ACTION) (\<lambda>_.
     py_bind (\<lambda>k. (governance_effect_guard (fst (ck_guard ck)) (snd (ck_guard ck)) e
                    (kr_governance k), k)) (\<lambda>_.
     on_fx (effector_execute e))))))"

definition next_state ::
    "string \<Rightarrow> material_readback \<Rightarrow> int \<Rightarrow> state_record option \<Rightarrow> state_record" where
  "next_state ocs readback n current =
     \<lparr> sr_state_id = ''state:'' @ ocs @ '':'' @ show_int n,
       sr_ocs = ocs,
       sr_version = (case current of None \<Rightarrow> 1 | Some c \<Rightarrow> sr_version c + 1),
       sr_predecessor = map_option sr_state_id current,
       sr_payload = mr_state readback,
       sr_verified = True \<rparr>"

text \<open>After it: the state, the lease and the end of the trace.\<close>

definition persist ::
    "digest \<Rightarrow> action_proposal \<Rightarrow> action_envelope \<Rightarrow> material_readback \<Rightarrow> ('w kernel, unit) py"
  where
  "persist H p e readback =
     py_bind (\<lambda>k. (sc_current_record (ap_ocs p) (kr_state k), k)) (\<lambda>current.
     py_bind next_seq (\<lambda>n.
     let state = next_state (ap_ocs p) readback n current
     in py_bind (on_state (sc_write H state (\<lambda>stored. state_eq stored state) (Some (ap_ocs p))
                   (Some (''state://'' @ ap_ocs p @ ''/runtime'')) (Some (sr_state_id state))
                   (Some (ae_authority_ref e)))) (\<lambda>_.
        py_bind (trace_stage (ap_action_id p) ''state'' ''STATE_MANAGER_COMMIT''
                   (PyDict [(''state_id'', PyStr (sr_state_id state)),
                            (''version'', PyInt (sr_version state))])) (\<lambda>_.
        py_bind (on_governance (finalize_authority e)) (\<lambda>lease_state.
        py_bind (trace_stage (ap_action_id p) ''lease-finalize'' ''LEASE_FINALIZE_OR_RELEASE''
                   (PyDict [(''lease_id'', PyStr (ae_lease_id e)),
                            (''lease_state'', PyStr (lease_state_value lease_state))])) (\<lambda>_.
        trace_stage (ap_action_id p) ''close'' ''TRACE_CLOSE''
                   (PyDict [(''trace_id'', PyStr (ae_trace_id e))])))))))"

text \<open>The second part of the \<^verbatim>\<open>try\<close>: an early return, or nothing when the action is closed.\<close>

definition commit ::
    "digest \<Rightarrow> action_proposal \<Rightarrow> action_envelope \<Rightarrow> material_readback
       \<Rightarrow> ('w kernel, execution_result option) py" where
  "commit H p e readback =
     py_bind (trace_stage (ap_action_id p) ''readback'' ''MATERIAL_EFFECT_READBACK''
                (PyDict [(''mutation_id'', PyStr (mr_mutation_id readback))])) (\<lambda>_.
     py_try (require_identity H (ap_ocs p) PRE_PERSIST)
       (\<lambda>x. if is_value_error x then
              py_return (Some ((exec_result True True False (exn_str x) Decision_ALLOW
                (Some (ae_trace_id e)))\<lparr>er_readback := Some readback, er_residual_effect := True\<rparr>))
            else py_raise x)
       (\<lambda>_. py_bind (persist H p e readback) (\<lambda>_. py_return None)))"

definition effect_proven :: "action_envelope \<Rightarrow> material_readback \<Rightarrow> execution_result" where
  "effect_proven e readback =
     (exec_result True True True ''effect_proven'' Decision_ALLOW (Some (ae_trace_id e)))
       \<lparr>er_readback := Some readback\<rparr>"

definition run_envelope ::
    "digest \<Rightarrow> kernel_clock \<Rightarrow> action_proposal \<Rightarrow> action_envelope \<Rightarrow> ('w kernel, execution_result) py"
  where
  "run_envelope H ck p e =
     py_try (act H ck p e) (handle_failure H e False None) (\<lambda>readback.
     py_try (commit H p e readback) (handle_failure H e True (Some readback)) (\<lambda>early.
     case early of
       Some r \<Rightarrow> py_return r
     | None \<Rightarrow>
         py_bind (py_modify (\<lambda>k. k\<lparr>kr_completed := dset (ae_idempotency_key e)
             (ae_action_id e, effect_proven e readback) (kr_completed k)\<rparr>)) (\<lambda>_.
         py_return (effect_proven e readback))))"

definition run_allowed ::
    "digest \<Rightarrow> kernel_clock \<Rightarrow> action_proposal \<Rightarrow> governance_result \<Rightarrow> action_envelope
       \<Rightarrow> ('w kernel, execution_result) py" where
  "run_allowed H ck p g e0 =
     py_try (on_trace preflight_gate)
       (\<lambda>x. if is_runtime_error x then
              py_return (exec_result True False False (exn_str x) (gr_decision g) (ap_trace_id p))
            else py_raise x)
       (\<lambda>_.
     py_bind (on_governance (reserve_authority (fst (ck_reserve ck)) (snd (ck_reserve ck)) e0))
       (\<lambda>reservation.
     case gr_envelope reservation of
       None \<Rightarrow>
         py_return (exec_result False False True (gr_reason reservation) Decision_DENY (ap_trace_id p))
     | Some e \<Rightarrow>
         if gr_decision reservation = Decision_DENY then
           py_return (exec_result False False True (gr_reason reservation) Decision_DENY (ap_trace_id p))
         else
           py_bind (trace_governance p g) (\<lambda>trace_ok.
           if \<not> trace_ok then
             py_return (exec_result True False False ''trace_append_failed'' (gr_decision g)
                          (ap_trace_id p))
           else run_envelope H ck p e)))"

definition execute ::
    "digest \<Rightarrow> mac \<Rightarrow> kernel_clock \<Rightarrow> action_proposal \<Rightarrow> ('w kernel, execution_result) py" where
  "execute H M ck p =
     py_bind (identity_pre_action H p) (\<lambda>failure.
     case failure of
       Some r \<Rightarrow> py_return r
     | None \<Rightarrow>
         py_bind (py_gets (\<lambda>k. Option.bind (ap_idempotency_key p) (map_of (kr_completed k)))) (\<lambda>done.
         case done of
           Some (completed_action, completed_result) \<Rightarrow>
             if completed_action \<noteq> ap_action_id p then
               py_return (exec_result False False True ''idempotency_conflict'' Decision_DENY
                            (ap_trace_id p))
             else py_return completed_result
         | None \<Rightarrow>
             py_bind (\<lambda>k. (authorize M (ck_authorize ck) p (kr_governance k), k)) (\<lambda>g.
             if gr_decision g \<noteq> Decision_ALLOW then
               py_bind (trace_governance p g) (\<lambda>trace_ok.
               py_return (exec_result False False trace_ok (gr_reason g) (gr_decision g) (ap_trace_id p)))
             else
               (case gr_envelope g of
                  None \<Rightarrow>
                    py_return (exec_result False False False ''authorized_envelope_missing''
                                 (gr_decision g) (ap_trace_id p))
                | Some e0 \<Rightarrow> run_allowed H ck p g e0))))"

section \<open>The invariant of the kernel\<close>

definition kernel_ok :: "digest \<Rightarrow> 'w kernel \<Rightarrow> bool" where
  "kernel_ok H k \<longleftrightarrow> lm_wf (ge_leases (kr_governance k)) \<and> quiet (kr_effects k) \<and>
     (sc_port (kr_state k) \<noteq> None \<longrightarrow> durable_ok H (kr_state k)) \<and> trace_valid (kr_trace k) \<and>
     (\<forall>g. kr_identity k = Some g \<longrightarrow> guard_inv H g)"

lemma reserve_use_wf: "keeps lm_wf (reserve_use t1 t2 e)"
  by (rule stepsI) (use reserve_change lease_change_wf in blast)

lemma finalize_wf: "keeps lm_wf (finalize i)"
  by (rule stepsI) (use finalize_change lease_change_wf in blast)

abbreviation gov_ok :: "governance \<Rightarrow> bool" where
  "gov_ok g \<equiv> lm_wf (ge_leases g)"

lemma on_leases_ok: "keeps lm_wf m \<Longrightarrow> keeps gov_ok (on_leases m)"
  by (simp add: on_leases_run steps_def)

lemma reserve_authority_ok: "keeps gov_ok (reserve_authority t1 t2 e)"
  unfolding reserve_authority_def
  by (intro keep.steps_bind on_leases_ok reserve_use_wf)
    (auto split: option.split bool.split intro: keep.steps_basic)

lemma finalize_authority_ok: "keeps gov_ok (finalize_authority e)"
  unfolding finalize_authority_def by (intro on_leases_ok finalize_wf)

definition core_ok :: "digest \<Rightarrow> state_core \<Rightarrow> bool" where
  "core_ok H c \<longleftrightarrow> (sc_port c \<noteq> None \<longrightarrow> durable_ok H c)"

lemma durable_ok_port: "durable_ok H c \<Longrightarrow> sc_port c \<noteq> None"
  by (auto simp: durable_ok_def)

lemma memory_write_port: "sc_port c = None \<Longrightarrow> sc_port (snd (sc_write H r check a n f x c)) = None"
  by (simp add: sc_write_def split: sum.split)

lemma sc_write_core_ok: "keeps (core_ok H) (sc_write H r check a n f x)"
proof (rule stepsI, rule impI)
  fix c assume "core_ok H c"
  then show "core_ok H (snd (sc_write H r check a n f x c))"
    using sc_write_durable_ok [of H r check a n f x, THEN keepsD, of c] memory_write_port [of c]
    by (cases "sc_port c") (auto simp: core_ok_def)
qed

lemma restore_core_ok: "keeps (core_ok H) (restore_verified H cp)"
proof (rule stepsI, rule impI)
  fix c assume "core_ok H c"
  then show "core_ok H (snd (restore_verified H cp c))"
    using sc_write_core_ok [THEN keepsD, of H c]
    by (auto simp: restore_verified_def Let_def split: option.split sum.split)
qed

lemma kernel_ok_parts:
  "kernel_ok H k \<longleftrightarrow> gov_ok (kr_governance k) \<and> quiet (kr_effects k) \<and> core_ok H (kr_state k) \<and>
     trace_valid (kr_trace k) \<and> (\<forall>g. kr_identity k = Some g \<longrightarrow> guard_inv H g)"
  by (simp add: kernel_ok_def core_ok_def)

lemma on_governance_ok: "keeps gov_ok m \<Longrightarrow> keeps (kernel_ok H) (on_governance m)"
  unfolding on_governance_def by (erule keep.steps_on) (simp add: kernel_ok_parts)

lemma on_fx_ok: "keeps quiet m \<Longrightarrow> keeps (kernel_ok H) (on_fx m)"
  unfolding on_fx_def by (erule keep.steps_on) (simp add: kernel_ok_parts)

lemma on_state_ok: "keeps (core_ok H) m \<Longrightarrow> keeps (kernel_ok H) (on_state m)"
  unfolding on_state_def by (erule keep.steps_on) (simp add: kernel_ok_parts)

lemma on_trace_ok: "keeps trace_valid m \<Longrightarrow> keeps (kernel_ok H) (on_trace m)"
  unfolding on_trace_def by (erule keep.steps_on) (simp add: kernel_ok_parts)

lemma on_identity_ok:
  assumes "\<And>r. keeps (guard_inv H) (f r)"
  shows "keeps (kernel_ok H) (on_identity f)"
proof (rule stepsI, rule impI)
  fix k assume "kernel_ok H k"
  moreover have "guard_inv H (snd (f r g))" if "guard_inv H g" for r g
    using assms that by (rule keepsD)
  ultimately show "kernel_ok H (snd (on_identity f k))"
    by (auto simp: on_identity_def kernel_ok_parts split: option.split sum.split prod.split)
      (metis snd_conv)+
qed

lemma require_identity_ok: "keeps (kernel_ok H) (require_identity H ocs tr)"
  unfolding require_identity_def
  by (intro keep.steps_bind keep.steps_basic)
    (auto split: prod.split intro!: keep.steps_bind keep.steps_basic on_identity_ok require_valid_inv)

lemma require_valid_binding:
  "require_valid H r ocs tr h g = (Inr b, g') \<Longrightarrow> binding_for g' r = Some b"
  using require_valid_Inr [of H r ocs tr h g b]
  by (auto simp: require_valid_def revalidate_def py_simps guard_log_def binding_for_def)

lemma sanitize_guard_inv: "keeps (guard_inv H) (sanitize_guard H ocs h items r)"
proof (rule stepsI, rule impI)
  fix g assume inv: "guard_inv H g"
  obtain x g' where run: "require_valid H r ocs CAUSAL_ATTRIBUTION h g = (x, g')" by fastforce
  have inv': "guard_inv H g'" using require_valid_inv [THEN keepsD, OF inv] run by (metis snd_conv)
  show "guard_inv H (snd (sanitize_guard H ocs h items r g))"
  proof (cases x)
    case (Inl e)
    then show ?thesis using run inv' by (simp add: sanitize_guard_def py_simps)
  next
    case (Inr b)
    have "guard_inv H (g'\<lparr>ig_log := audit_append H t b d (ig_log g')\<rparr>)" for t d
      using require_valid_binding run Inr inv' by (blast intro: guard_inv_log)
    moreover have "guard_inv H (snd (hold_identity H r reason g2))" if "guard_inv H g2" for reason g2
      using hold_inv [THEN keepsD, OF that] .
    ultimately show ?thesis using run Inr
      by (auto simp: sanitize_guard_def py_simps guard_log_def Let_def split: prod.split sum.split)
        (metis snd_conv)+
  qed
qed

lemma sanitize_context_ok: "keeps (kernel_ok H) (sanitize_context H ocs)"
  unfolding sanitize_context_def
  by (intro keep.steps_bind keep.steps_basic)
    (auto split: prod.split intro!: keep.steps_bind keep.steps_basic on_identity_ok sanitize_guard_inv)

lemma identity_pre_action_ok: "keeps (kernel_ok H) (identity_pre_action H p)"
  unfolding identity_pre_action_def
  by (intro keep.steps_try keep.steps_bind require_identity_ok sanitize_context_ok keep.steps_basic)
    (auto intro: keep.steps_basic)

lemma next_seq_ok: "keeps (kernel_ok H) next_seq"
  by (rule stepsI) (simp add: next_seq_def kernel_ok_parts)

lemma trace_stage_ok: "keeps (kernel_ok H) (trace_stage a t s d)"
  unfolding trace_stage_def
  by (intro keep.steps_bind next_seq_ok on_trace_ok append_stage_valid keep.steps_basic)

lemma trace_governance_ok: "keeps (kernel_ok H) (trace_governance p g)"
  unfolding trace_governance_def
  by (intro keep.steps_try keep.steps_bind trace_stage_ok keep.steps_basic)
    (auto intro: keep.steps_basic)

lemma peek_ok: "keeps (kernel_ok H) (\<lambda>k. (f k, k))"
  by (rule stepsI) simp

lemma recover_ok:
  "keeps (\<lambda>(f, c). quiet f \<and> core_ok H c) (recover_post_effect H cps e i)"
proof -
  have fx: "keeps (\<lambda>(f, c). quiet f \<and> core_ok H c) (on_effects (compensate_for e i))"
    unfolding on_effects_def by (rule keep.steps_on [OF compensate_for_quiet]) (auto split: prod.splits)
  have core: "keeps (\<lambda>(f, c). quiet f \<and> core_ok H c) (on_core (restore_verified H cp))" for cp
    unfolding on_core_def by (rule keep.steps_on [OF restore_core_ok]) (auto split: prod.splits)
  have peek: "keeps (\<lambda>(f, c). quiet f \<and> core_ok H c) (\<lambda>s. (h s, s))" for h
    by (rule stepsI) simp
  show ?thesis
    unfolding recover_post_effect_def Let_def
    by (auto split: option.split intro!: keep.steps_try keep.steps_bind fx core peek keep.steps_basic)
qed

lemma handle_failure_ok: "keeps (kernel_ok H) (handle_failure H e eff rb x)"
proof -
  have "keeps (kernel_ok H) (py_on (\<lambda>k. (kr_effects k, kr_state k))
      (\<lambda>(f, c) k. k\<lparr>kr_effects := f, kr_state := c\<rparr>) (recover_post_effect H cps e i))" for cps i
    by (rule keep.steps_on [OF recover_ok]) (auto simp: kernel_ok_parts)
  then show ?thesis
    unfolding handle_failure_def
    by (auto split: exn.split option.split intro!: keep.steps_bind keep.steps_basic)
qed

lemma act_ok: "keeps (kernel_ok H) (act H ck p e)"
  unfolding act_def
  by (intro keep.steps_bind trace_stage_ok next_seq_ok on_trace_ok preflight_valid
      require_identity_ok peek_ok on_fx_ok effector_execute_quiet)

lemma commit_ok: "keeps (kernel_ok H) (commit H p e rb)"
  unfolding commit_def persist_def Let_def
  by (intro keep.steps_bind keep.steps_try trace_stage_ok require_identity_ok peek_ok next_seq_ok
      on_state_ok sc_write_core_ok on_governance_ok finalize_authority_ok keep.steps_basic)
    (auto intro: keep.steps_basic)

lemma record_completed_ok: "keeps (kernel_ok H) (py_modify (\<lambda>k. k\<lparr>kr_completed := f k\<rparr>))"
  by (rule stepsI) (simp add: py_simps kernel_ok_parts)

lemma run_envelope_ok: "keeps (kernel_ok H) (run_envelope H ck p e)"
  unfolding run_envelope_def
  by (auto split: option.split intro!: keep.steps_try keep.steps_bind act_ok handle_failure_ok
      commit_ok record_completed_ok keep.steps_basic)

lemma run_allowed_ok: "keeps (kernel_ok H) (run_allowed H ck p g e0)"
  unfolding run_allowed_def
  by (auto split: option.split intro!: keep.steps_try keep.steps_bind on_trace_ok
      preflight_gate_valid on_governance_ok reserve_authority_ok trace_governance_ok run_envelope_ok
      keep.steps_basic)

lemma execute_ok: "keeps (kernel_ok H) (execute H M ck p)"
  unfolding execute_def
  by (auto split: option.split intro!: keep.steps_bind identity_pre_action_ok peek_ok
      trace_governance_ok run_allowed_ok keep.steps_basic)

section \<open>What happens before and after the effect\<close>

text \<open>Three orders on kernels: the effects untouched; only the identity guard touched; the
  trace extended and the reservations kept.\<close>

definition calm :: "'w kernel \<Rightarrow> 'w kernel \<Rightarrow> bool" where
  "calm k k' \<longleftrightarrow> kr_effects k' = kr_effects k"

definition guard_only :: "'w kernel \<Rightarrow> 'w kernel \<Rightarrow> bool" where
  "guard_only k k' \<longleftrightarrow> (\<exists>i. k' = k\<lparr>kr_identity := i\<rparr>)"

definition trace_only :: "'w kernel \<Rightarrow> 'w kernel \<Rightarrow> bool" where
  "trace_only k k' \<longleftrightarrow> (\<exists>t n es. k' = k\<lparr>kr_trace := t, kr_seq := n\<rparr> \<and>
     tc_events t = tc_events (kr_trace k) @ es)"

definition ledger :: "'w kernel \<Rightarrow> 'w kernel \<Rightarrow> bool" where
  "ledger k k' \<longleftrightarrow> (\<exists>es. tc_events (kr_trace k') = tc_events (kr_trace k) @ es) \<and>
     (gov_ok (kr_governance k) \<longrightarrow> gov_ok (kr_governance k') \<and>
        (\<forall>i key r. reservation_of (ge_leases (kr_governance k)) i key = Some r \<longrightarrow>
                   reservation_of (ge_leases (kr_governance k')) i key = Some r))"

interpretation calm: step_order calm
  by unfold_locales (simp_all add: calm_def)

interpretation guard_only: step_order guard_only
proof unfold_locales
  fix k :: "'a kernel"
  have "k = k\<lparr>kr_identity := kr_identity k\<rparr>" by simp
  then show "guard_only k k" unfolding guard_only_def by blast
next
  fix k l m :: "'a kernel"
  assume "guard_only k l" "guard_only l m"
  then obtain i j where "l = k\<lparr>kr_identity := i\<rparr>" "m = l\<lparr>kr_identity := j\<rparr>"
    by (auto simp: guard_only_def)
  then have "m = k\<lparr>kr_identity := j\<rparr>" by simp
  then show "guard_only k m" unfolding guard_only_def by blast
qed

interpretation trace_only: step_order trace_only
proof unfold_locales
  fix k :: "'a kernel"
  have "k = k\<lparr>kr_trace := kr_trace k, kr_seq := kr_seq k\<rparr>" by simp
  then show "trace_only k k" unfolding trace_only_def by (metis append_Nil2)
next
  fix k l m :: "'a kernel"
  assume "trace_only k l" "trace_only l m"
  then obtain t n es t' n' es' where l: "l = k\<lparr>kr_trace := t, kr_seq := n\<rparr>"
      "tc_events t = tc_events (kr_trace k) @ es"
    and m: "m = l\<lparr>kr_trace := t', kr_seq := n'\<rparr>" "tc_events t' = tc_events (kr_trace l) @ es'"
    by (auto simp: trace_only_def)
  then have "m = k\<lparr>kr_trace := t', kr_seq := n'\<rparr> \<and> tc_events t' = tc_events (kr_trace k) @ es @ es'"
    by simp
  then show "trace_only k m" unfolding trace_only_def by blast
qed

interpretation ledger: step_order ledger
proof unfold_locales
  fix k l m :: "'a kernel"
  assume "ledger k l" "ledger l m"
  then show "ledger k m" by (auto simp: ledger_def)
qed (simp add: ledger_def)

lemma steps_mono: "steps R m \<Longrightarrow> (\<And>s t. R s t \<Longrightarrow> Q s t) \<Longrightarrow> steps Q m"
  by (auto simp: steps_def)

lemma guard_only_calm: "guard_only k k' \<Longrightarrow> calm k k'"
  by (auto simp: guard_only_def calm_def)

lemma guard_only_ledger: "guard_only k k' \<Longrightarrow> ledger k k'"
  by (auto simp: guard_only_def ledger_def)

lemma trace_only_calm: "trace_only k k' \<Longrightarrow> calm k k'"
  by (auto simp: trace_only_def calm_def)

lemma trace_only_ledger: "trace_only k k' \<Longrightarrow> ledger k k'"
  by (auto simp: trace_only_def ledger_def)

lemma on_identity_guard_only: "steps guard_only (on_identity f :: ('w kernel, 'a option) py)"
proof (rule stepsI)
  fix k :: "'w kernel"
  have "guard_only k k" by (rule guard_only.step_refl)
  then show "guard_only k (snd (on_identity f k))"
    by (auto simp: on_identity_def guard_only_def split: option.split prod.split sum.split)
qed

lemma require_identity_guard_only: "steps guard_only (require_identity H ocs tr)"
  unfolding require_identity_def
  by (intro guard_only.steps_bind guard_only.steps_basic)
    (auto split: prod.split intro!: guard_only.steps_bind guard_only.steps_basic
      on_identity_guard_only)

lemma identity_pre_action_guard_only: "steps guard_only (identity_pre_action H p)"
  unfolding identity_pre_action_def sanitize_context_def
  by (intro guard_only.steps_try guard_only.steps_bind require_identity_guard_only
      guard_only.steps_basic)
    (auto split: prod.split intro!: guard_only.steps_bind guard_only.steps_basic
      on_identity_guard_only)

lemma append_stage_grows:
  "\<exists>es. tc_events (snd (append_stage i a s d c)) = tc_events c @ es"
  by (auto simp: append_stage_def trace_append_def py_simps Let_def)

lemma append_stage_Inr:
  assumes "append_stage i a s d c = (Inr e, c')"
  shows "tc_events c' = tc_events c @ [e] \<and> te_stage e = s \<and> te_action_id e = a"
  using assms
  by (auto simp: append_stage_def trace_append_def py_simps Let_def stage_event_def split: if_splits)

lemma on_trace_trace_only:
  assumes "\<And>c. \<exists>es. tc_events (snd (m c)) = tc_events c @ es"
  shows "steps trace_only (on_trace m :: ('w kernel, 'a) py)"
proof (rule stepsI)
  fix k :: "'w kernel"
  obtain es where "tc_events (snd (m (kr_trace k))) = tc_events (kr_trace k) @ es"
    using assms by blast
  moreover have "snd (on_trace m k) = k\<lparr>kr_trace := snd (m (kr_trace k)), kr_seq := kr_seq k\<rparr>"
    by (simp add: on_trace_def py_simps)
  ultimately show "trace_only k (snd (on_trace m k))" unfolding trace_only_def by blast
qed

lemma next_seq_trace_only: "steps trace_only (next_seq :: ('w kernel, int) py)"
proof (rule stepsI)
  fix k :: "'w kernel"
  have "snd (next_seq k) = k\<lparr>kr_trace := kr_trace k, kr_seq := kr_seq k + 1\<rparr>"
    by (simp add: next_seq_def)
  then show "trace_only k (snd (next_seq k))" unfolding trace_only_def by (metis append_Nil2)
qed

lemma trace_stage_trace_only: "steps trace_only (trace_stage a t s d)"
  unfolding trace_stage_def
  by (intro trace_only.steps_bind trace_only.steps_basic next_seq_trace_only on_trace_trace_only
      append_stage_grows)

lemma preflight_gate_events: "\<exists>es. tc_events (snd (preflight_gate c)) = tc_events c @ es"
  by (simp add: preflight_gate_def)

lemma preflight_grows: "\<exists>es. tc_events (snd (preflight i a t r l c)) = tc_events c @ es"
proof -
  obtain x c' where g: "preflight_gate c = (x, c')" by fastforce
  then have "tc_events c' = tc_events c"
    by (auto simp: preflight_gate_def split: if_splits)
  then show ?thesis
    using g append_stage_grows [of i a "''TRACE_PREFLIGHT''" _ c']
    by (cases x) (auto simp: preflight_def py_simps)
qed

lemma trace_governance_trace_only: "steps trace_only (trace_governance p g)"
  unfolding trace_governance_def
  by (intro trace_only.steps_try trace_only.steps_bind trace_stage_trace_only)
    (auto intro: trace_only.steps_basic)

lemma on_governance_ledger:
  assumes "\<And>m. lm_wf m \<Longrightarrow> lease_change m (snd (f m))"
  shows "steps ledger (on_governance (on_leases f) :: ('w kernel, 'a) py)"
proof (rule stepsI)
  fix k :: "'w kernel"
  show "ledger k (snd (on_governance (on_leases f) k))"
    using assms [of "ge_leases (kr_governance k)"] lease_change_wf change_reservation
    by (auto simp: ledger_def on_governance_def on_leases_run py_simps)
qed

lemma finalize_authority_ledger: "steps ledger (on_governance (finalize_authority e))"
  unfolding finalize_authority_def by (intro on_governance_ledger finalize_change)

lemma other_parts_ledger: "steps ledger (on_fx m)" "steps ledger (on_state m')"
  "steps ledger (py_modify (\<lambda>k. k\<lparr>kr_completed := f k\<rparr>))" "steps ledger (\<lambda>k. (h k, k))"
  by (rule stepsI, simp add: on_fx_def on_state_def py_simps ledger_def)+

lemmas to_ledger = steps_mono [OF _ guard_only_ledger] steps_mono [OF _ trace_only_ledger]

lemma commit_ledger: "steps ledger (commit H p e rb)"
  unfolding commit_def persist_def Let_def
  by (intro ledger.steps_bind ledger.steps_try to_ledger(2) [OF trace_stage_trace_only]
      to_ledger(1) [OF require_identity_guard_only] other_parts_ledger
      to_ledger(2) [OF next_seq_trace_only] finalize_authority_ledger ledger.steps_basic)
    (auto intro: ledger.steps_basic)

lemma handle_failure_ledger: "steps ledger (handle_failure H e eff rb x)"
proof -
  have "steps ledger (py_on (\<lambda>k. (kr_effects k, kr_state k))
      (\<lambda>(f, c) k. k\<lparr>kr_effects := f, kr_state := c\<rparr>) m)" for m
    by (rule stepsI) (simp add: py_simps ledger_def split: prod.split)
  then show ?thesis
    unfolding handle_failure_def
    by (auto split: exn.split option.split intro!: ledger.steps_bind ledger.steps_basic)
qed

end
