(* ===== verification/Mediation.thy ===== *)
theory Mediation
  imports Kernel_Runtime
begin

text \<open>
  What \<^verbatim>\<open>execute\<close> guarantees as a whole: the way from a proposal to the material
  effect and back to the committed state, on the definitions of \<^verbatim>\<open>Kernel_Runtime\<close>.
\<close>
 

section \<open>The way to the effect\<close>

fun is_effect_failure :: "exn \<Rightarrow> bool" where
  "is_effect_failure (MaterialEffectFailure _ _) = True"
| "is_effect_failure _ = False"

text \<open>A step before the effect: it leaves the effects alone and raises no effect failure.\<close>

definition tame :: "('w kernel, 'a) py \<Rightarrow> bool" where
  "tame m \<longleftrightarrow> (\<forall>k. calm k (snd (m k)) \<and> (\<forall>x. fst (m k) = Inl x \<longrightarrow> \<not> is_effect_failure x))"

lemma tame_bind:
  assumes "tame m" and "\<And>x. tame (f x)"
  shows "tame (py_bind m f)"
  unfolding tame_def
proof (rule allI)
  fix k
  obtain r u where m: "m k = (r, u)" by fastforce
  with assms(1) have u: "calm k u" "\<And>x. r = Inl x \<Longrightarrow> \<not> is_effect_failure x"
    unfolding tame_def by (metis fst_conv snd_conv)+
  show "calm k (snd (py_bind m f k)) \<and> (\<forall>x. fst (py_bind m f k) = Inl x \<longrightarrow> \<not> is_effect_failure x)"
  proof (cases r)
    case (Inl x)
    then show ?thesis using m u by (simp add: py_bind_run)
  next
    case (Inr y)
    then show ?thesis using m u assms(2) [of y, unfolded tame_def]
      by (auto simp: py_bind_run intro: calm.step_trans)
  qed
qed

lemma tame_basic: "tame (py_return x)" "tame (py_gets f)" "\<not> is_effect_failure e \<Longrightarrow> tame (py_raise e)"
  by (simp_all add: tame_def py_simps calm.step_refl)

text \<open>A sequence is either stopped by its first step or goes on after it.\<close>

lemma tame_cases:
  assumes "py_bind m f k = (r, k')" and "tame m"
  obtains x where "r = Inl x" "\<not> is_effect_failure x" "calm k k'"
  | y u where "m k = (Inr y, u)" "f y u = (r, k')" "calm k u"
proof -
  obtain x u where m: "m k = (x, u)" by fastforce
  with assms(2) have u: "calm k u" "\<And>e. x = Inl e \<Longrightarrow> \<not> is_effect_failure e"
    unfolding tame_def by (metis fst_conv snd_conv)+
  show thesis
  proof (cases x)
    case (Inl e)
    then show thesis using m u assms(1) by (intro that(1)) (simp_all add: py_bind_run)
  next
    case (Inr y)
    then show thesis using m u assms(1) by (intro that(2)) (simp_all add: py_bind_run)
  qed
qed

lemma trace_stage_Inr:
  assumes "trace_stage a tag s d k = (Inr y, k')"
  shows "\<exists>t n ev. k' = k\<lparr>kr_trace := t, kr_seq := n\<rparr> \<and>
    tc_events t = tc_events (kr_trace k) @ [ev] \<and> te_stage ev = s \<and> te_action_id ev = a"
proof -
  obtain ev t where t: "append_stage (event_id_of a tag (kr_seq k)) a s d (kr_trace k) = (Inr ev, t)"
    "k' = k\<lparr>kr_trace := t, kr_seq := kr_seq k + 1\<rparr>"
    using assms
    by (cases "append_stage (event_id_of a tag (kr_seq k)) a s d (kr_trace k)")
      (auto simp: trace_stage_def next_seq_def on_trace_def py_simps split: sum.splits)
  then show ?thesis using append_stage_Inr [OF t(1)] by blast
qed

lemma preflight_Inr:
  assumes "preflight i a tr au l c = (Inr ev, c')"
  shows "tc_events c' = tc_events c @ [ev] \<and> te_stage ev = ''TRACE_PREFLIGHT'' \<and> te_action_id ev = a"
proof -
  have "append_stage i a ''TRACE_PREFLIGHT'' (PyDict [(''trace_id'', PyStr tr),
      (''authority_ref'', PyStr au), (''lease_id'', PyStr l)]) c = (Inr ev, c')"
    using assms by (auto simp: preflight_def preflight_gate_def py_simps split: if_splits)
  then show ?thesis by (rule append_stage_Inr)
qed

lemma trace_append_no_failure: "fst (trace_append e c) = Inl x \<Longrightarrow> \<not> is_effect_failure x"
  by (auto simp: trace_append_def split: if_splits)

lemma append_stage_no_failure: "fst (append_stage i a s d c) = Inl x \<Longrightarrow> \<not> is_effect_failure x"
  by (auto simp: append_stage_def py_simps Let_def trace_append_def split: if_splits)

lemma preflight_no_failure: "fst (preflight i a t u l c) = Inl x \<Longrightarrow> \<not> is_effect_failure x"
  by (auto simp: preflight_def py_simps preflight_gate_def append_stage_no_failure split: if_splits)

lemma on_trace_tame:
  "(\<And>c x. fst (m c) = Inl x \<Longrightarrow> \<not> is_effect_failure x) \<Longrightarrow> tame (on_trace m)"
  by (auto simp: tame_def on_trace_def py_simps calm_def)

lemma next_seq_tame: "tame next_seq"
  by (simp add: tame_def next_seq_def calm_def)

lemma trace_stage_tame: "tame (trace_stage a t s d)"
  unfolding trace_stage_def
  by (intro tame_bind next_seq_tame on_trace_tame tame_basic append_stage_no_failure)

lemma require_valid_no_failure: "fst (require_valid H r ocs tr h g) = Inl x \<Longrightarrow> \<not> is_effect_failure x"
  by (auto simp: require_valid_def revalidate_def hold_and_reject_def hold_identity_def py_simps
      guard_log_def set_binding_def Let_def
      split: option.splits sum.splits if_splits prod.splits bool.splits)

lemma require_identity_tame: "tame (require_identity H ocs tr)"
proof -
  have "tame (on_identity (\<lambda>r. require_valid H r ocs tr h))" for h
    using require_valid_no_failure
    by (auto simp: tame_def on_identity_def calm_def split: option.split sum.split prod.split)
      (metis fst_conv)
  then show ?thesis
    unfolding require_identity_def
    by (intro tame_bind tame_basic) (auto split: prod.split intro!: tame_bind tame_basic)
qed

lemma guard_check_tame: "tame (\<lambda>k. (governance_effect_guard t1 t2 e (kr_governance k), k))"
  by (auto simp: tame_def calm_def governance_effect_guard_def material_effect_guard_def
      validate_reserved_use_def split: sum.splits prod.splits bool.splits option.splits if_splits)

lemma on_trace_preflight_tame: "tame (on_trace (preflight i a t u l))"
  by (intro on_trace_tame preflight_no_failure)

text \<open>
  The first part of an action either stops before the effect, or reaches the effector: then
  the envelope and the preflight are traced and the material guard has opened.
\<close>

lemma act_cases:
  assumes "act H ck p e k = (r, k')"
  obtains x where "r = Inl x" "\<not> is_effect_failure x" "calm k k'"
  | k1 ev1 ev2 where "on_fx (effector_execute e) k1 = (r, k')" "calm k k1"
    "kr_governance k1 = kr_governance k" "kr_state k1 = kr_state k"
    "tc_events (kr_trace k1) = tc_events (kr_trace k) @ [ev1, ev2]"
    "map te_stage [ev1, ev2] = [''AUTHORIZED_ACTION_ENVELOPE'', ''TRACE_PREFLIGHT'']"
    "map te_action_id [ev1, ev2] = [ap_action_id p, ap_action_id p]"
    "governance_effect_guard (fst (ck_guard ck)) (snd (ck_guard ck)) e (kr_governance k) = Inr ()"
  using assms unfolding act_def
proof (elim tame_cases, goal_cases)
  case (11 y1 u1 n u2 ev2 u3 y4 u4 y5 u5)
  obtain t1 n1 ev1 where u1: "u1 = k\<lparr>kr_trace := t1, kr_seq := n1\<rparr>"
    "tc_events t1 = tc_events (kr_trace k) @ [ev1]" "te_stage ev1 = ''AUTHORIZED_ACTION_ENVELOPE''"
    "te_action_id ev1 = ap_action_id p"
    using trace_stage_Inr [OF 11(3)] by blast
  obtain n2 where u2: "u2 = u1\<lparr>kr_seq := n2\<rparr>" using 11(5) by (auto simp: next_seq_def)
  obtain t3 where u3: "u3 = u2\<lparr>kr_trace := t3\<rparr>" "tc_events t3 = tc_events (kr_trace u2) @ [ev2]"
    "te_stage ev2 = ''TRACE_PREFLIGHT''" "te_action_id ev2 = ap_action_id p"
  proof -
    obtain r3 t3 where p: "preflight (event_id_of (ap_action_id p) ''preflight'' n) (ap_action_id p)
        (ae_trace_id e) (ae_authority_ref e) (ae_lease_id e) (kr_trace u2) = (r3, t3)" by fastforce
    then show thesis using 11(7) preflight_Inr
      by (intro that [of t3]) (auto simp: on_trace_def py_simps)
  qed
  obtain i where u4: "u4 = u3\<lparr>kr_identity := i\<rparr>"
    using stepsD [OF require_identity_guard_only 11(9)] by (auto simp: guard_only_def)
  have u5: "u5 = u4" "governance_effect_guard (fst (ck_guard ck)) (snd (ck_guard ck)) e
      (kr_governance u4) = Inr ()" using 11(11) by auto
  have "calm k u5" using 11(4,6,8,10) u5(1) by (blast intro: calm.step_trans)
  then show ?case
    using 11(12) u1 u2 u3 u4 u5 by (intro 11(2) [of u5 ev1 ev2]) simp_all
qed (auto intro: trace_stage_tame next_seq_tame on_trace_preflight_tame require_identity_tame
    guard_check_tame simp: calm_def)

lemma handle_failure_calm:
  assumes "\<And>m i. x \<noteq> MaterialEffectFailure m i"
  shows "steps calm (handle_failure H e eff rb x)"
  using assms unfolding handle_failure_def
  by (cases x) (auto intro!: calm.steps_basic)

lemma on_fx_ledger_from: "on_fx (effector_execute e) k = (r, k') \<Longrightarrow> ledger k k'"
  using stepsD [OF other_parts_ledger(1)] by blast

lemma run_envelope_ledger:
  assumes "on_fx (effector_execute e) k1 = (r1, k2)" "act H ck p e k = (r1, k2)"
    "run_envelope H ck p e k = (r, k')"
  shows "ledger k1 k'"
proof -
  have "ledger k1 k2" using assms(1) by (rule on_fx_ledger_from)
  moreover have "steps ledger (\<lambda>k. (case r1 of
      Inl x \<Rightarrow> handle_failure H e False None x
    | Inr readback \<Rightarrow> py_try (commit H p e readback) (handle_failure H e True (Some readback))
        (\<lambda>early. case early of Some r \<Rightarrow> py_return r
         | None \<Rightarrow> py_bind (py_modify (\<lambda>k. k\<lparr>kr_completed := dset (ae_idempotency_key e)
             (ae_action_id e, effect_proven e readback) (kr_completed k)\<rparr>)) (\<lambda>_.
             py_return (effect_proven e readback)))) k)"
    by (cases r1)
      (auto split: option.split intro!: handle_failure_ledger ledger.steps_try commit_ledger
        ledger.steps_bind other_parts_ledger ledger.steps_basic)
  then have "ledger k2 k'"
    using assms(2,3) by (cases r1) (auto simp: run_envelope_def py_try_run dest: stepsD)
  ultimately show ?thesis by (rule ledger.step_trans)
qed

lemma run_envelope_effect:
  assumes "run_envelope H ck p e k = (r, k')" and "\<not> calm k k'"
  obtains k1 ev1 ev2 where "ledger k1 k'" "calm k k1" "kr_governance k1 = kr_governance k"
    "tc_events (kr_trace k1) = tc_events (kr_trace k) @ [ev1, ev2]"
    "map te_stage [ev1, ev2] = [''AUTHORIZED_ACTION_ENVELOPE'', ''TRACE_PREFLIGHT'']"
    "map te_action_id [ev1, ev2] = [ap_action_id p, ap_action_id p]"
    "governance_effect_guard (fst (ck_guard ck)) (snd (ck_guard ck)) e (kr_governance k) = Inr ()"
proof -
  obtain r1 k2 where act: "act H ck p e k = (r1, k2)" by fastforce
  then show thesis
  proof (cases rule: act_cases)
    case (1 x)
    then have "handle_failure H e False None x k2 = (r, k')"
      using act assms(1) by (simp add: run_envelope_def py_try_run)
    moreover have "steps calm (handle_failure H e False None x)"
      using 1(2) by (intro handle_failure_calm) auto
    ultimately have "calm k2 k'" by (blast dest: stepsD)
    then show thesis using 1(3) assms(2) calm.step_trans by blast
  next
    case (2 k1 ev1 ev2)
    then show thesis using run_envelope_ledger [OF 2(1) act assms(1)] by (intro that) simp_all
  qed
qed

lemma trace_governance_True:
  assumes "trace_governance p g k = (Inr True, k')"
  shows "\<exists>t n evs. k' = k\<lparr>kr_trace := t, kr_seq := n\<rparr> \<and>
    tc_events t = tc_events (kr_trace k) @ evs \<and>
    map te_stage evs = [''ACTION_PROPOSAL'', ''EVIDENCE_ASSESSMENT'', ''GOVERNANCE_DECISION''] \<and>
    map te_action_id evs = [ap_action_id p, ap_action_id p, ap_action_id p]"
proof -
  obtain d1 d2 d3 k1 k2 where s:
    "trace_stage (ap_action_id p) ''proposal'' ''ACTION_PROPOSAL'' d1 k = (Inr (), k1)"
    "trace_stage (ap_action_id p) ''evidence'' ''EVIDENCE_ASSESSMENT'' d2 k1 = (Inr (), k2)"
    "trace_stage (ap_action_id p) ''governance'' ''GOVERNANCE_DECISION'' d3 k2 = (Inr (), k')"
    using assms
    by (auto simp: trace_governance_def py_simps split: prod.splits sum.splits if_splits)
  obtain t1 n1 v1 where 1: "k1 = k\<lparr>kr_trace := t1, kr_seq := n1\<rparr>"
    "tc_events t1 = tc_events (kr_trace k) @ [v1]" "te_stage v1 = ''ACTION_PROPOSAL''"
    "te_action_id v1 = ap_action_id p"
    using trace_stage_Inr [OF s(1)] by blast
  obtain t2 n2 v2 where 2: "k2 = k1\<lparr>kr_trace := t2, kr_seq := n2\<rparr>"
    "tc_events t2 = tc_events (kr_trace k1) @ [v2]" "te_stage v2 = ''EVIDENCE_ASSESSMENT''"
    "te_action_id v2 = ap_action_id p"
    using trace_stage_Inr [OF s(2)] by blast
  obtain t3 n3 v3 where 3: "k' = k2\<lparr>kr_trace := t3, kr_seq := n3\<rparr>"
    "tc_events t3 = tc_events (kr_trace k2) @ [v3]" "te_stage v3 = ''GOVERNANCE_DECISION''"
    "te_action_id v3 = ap_action_id p"
    using trace_stage_Inr [OF s(3)] by blast
  show ?thesis
    by (rule exI [of _ t3], rule exI [of _ n3], rule exI [of _ "[v1, v2, v3]"]) (simp add: 1 2 3)
qed

lemma reserve_authority_allow:
  assumes "reserve_authority t1 t2 e0 g = (Inr res, g')" and "gr_envelope res = Some e" "lm_wf (ge_leases g)"
  shows "\<exists>n. e = e0\<lparr>ae_lease_use_index := Some n\<rparr> \<and>
    reservation_of (ge_leases g') (ae_lease_id e0) (ae_idempotency_key e0) = Some (ae_action_id e0, n)"
proof -
  obtain ok reason n where r: "fst (reserve_use t1 t2 e0 (ge_leases g)) = Inr (ok, reason, n)"
    "res = (case (ok, n) of (True, Some i) \<Rightarrow>
        decide Decision_ALLOW reason (Some (e0\<lparr>ae_lease_use_index := Some i\<rparr>)) None
      | _ \<Rightarrow> decide Decision_DENY reason None None)"
    "ge_leases g' = snd (reserve_use t1 t2 e0 (ge_leases g))"
    using assms(1)
    by (cases "fst (reserve_use t1 t2 e0 (ge_leases g))")
      (auto simp: reserve_authority_def on_leases_run py_simps split: bool.splits option.splits)
  then obtain i where "ok = True" "n = Some i"
    using assms(2) by (cases ok; cases n) (auto simp: decide_def)
  then show ?thesis
    using r assms(2) reserve_grant [OF assms(3), of t1 t2 e0 reason i] by (auto simp: decide_def)
qed

lemma calm_parts: "kr_effects k' = kr_effects k \<Longrightarrow> calm k k'"
  by (simp add: calm_def)

lemma on_governance_calm: "on_governance m k = (r, k') \<Longrightarrow> calm k k'"
  by (auto simp: on_governance_def py_simps calm_def)

text \<open>
  An effect in \<^verbatim>\<open>run_allowed\<close>: the use was reserved, and the five stages that lead to
  the effect were traced before it.
\<close>

lemma run_allowed_effect:
  assumes run: "run_allowed H ck p g e0 k = (r, k')" and eff: "\<not> calm k k'"
    and ok: "gov_ok (kr_governance k)"
  obtains n es where
    "reservation_of (ge_leases (kr_governance k')) (ae_lease_id e0) (ae_idempotency_key e0)
       = Some (ae_action_id e0, n)"
    "tc_events (kr_trace k') = tc_events (kr_trace k) @ es"
    "take 5 (map te_stage es) = [''ACTION_PROPOSAL'', ''EVIDENCE_ASSESSMENT'', ''GOVERNANCE_DECISION'',
       ''AUTHORIZED_ACTION_ENVELOPE'', ''TRACE_PREFLIGHT'']"
    "set (take 5 (map te_action_id es)) = {ap_action_id p}"
    "governance_effect_guard (fst (ck_guard ck)) (snd (ck_guard ck))
       (e0\<lparr>ae_lease_use_index := Some n\<rparr>)
       (snd (reserve_authority (fst (ck_reserve ck)) (snd (ck_reserve ck)) e0 (kr_governance k))) = Inr ()"
proof -
  have gate: "\<not> tc_fail_next_preflight (kr_trace k)"
    using run eff by (auto simp: run_allowed_def on_trace_def py_simps preflight_gate_def calm_def)
  obtain rv k1 where rv: "on_governance (reserve_authority (fst (ck_reserve ck)) (snd (ck_reserve ck)) e0) k
      = (rv, k1)" by fastforce
  have k1: "calm k k1" "kr_trace k1 = kr_trace k" "kr_governance k1 =
      snd (reserve_authority (fst (ck_reserve ck)) (snd (ck_reserve ck)) e0 (kr_governance k))"
    "rv = fst (reserve_authority (fst (ck_reserve ck)) (snd (ck_reserve ck)) e0 (kr_governance k))"
    using rv by (auto simp: on_governance_def py_simps calm_def)
  have step: "py_bind (on_governance (reserve_authority (fst (ck_reserve ck)) (snd (ck_reserve ck)) e0))
      f k = (r, k') \<Longrightarrow> \<exists>y. rv = Inr y \<and> f y k1 = (r, k')" for f
    using rv k1(1) eff by (cases rv) (auto simp: py_bind_run)
  have kk: "on_trace preflight_gate k = (Inr (), k)"
    using gate by (simp add: on_trace_def py_simps preflight_gate_def)
  obtain res where res: "rv = Inr res" and next1: "(case gr_envelope res of
       None \<Rightarrow>
         py_return (exec_result False False True (gr_reason res) Decision_DENY (ap_trace_id p))
     | Some e \<Rightarrow>
         if gr_decision res = Decision_DENY then
           py_return (exec_result False False True (gr_reason res) Decision_DENY (ap_trace_id p))
         else
           py_bind (trace_governance p g) (\<lambda>trace_ok.
           if \<not> trace_ok then
             py_return (exec_result True False False ''trace_append_failed'' (gr_decision g)
                          (ap_trace_id p))
           else run_envelope H ck p e)) k1 = (r, k')"
    using run kk by (auto simp: run_allowed_def py_try_run dest!: step)
  obtain e where e: "gr_envelope res = Some e"
    using next1 k1(1) eff by (cases "gr_envelope res") (auto simp: py_simps)
  have next2: "py_bind (trace_governance p g) (\<lambda>trace_ok.
       if \<not> trace_ok then
         py_return (exec_result True False False ''trace_append_failed'' (gr_decision g) (ap_trace_id p))
       else run_envelope H ck p e) k1 = (r, k')"
    using next1 e k1(1) eff by (auto simp: py_simps split: if_splits)
  obtain tr k2 where tr: "trace_governance p g k1 = (tr, k2)" by fastforce
  have k2: "trace_only k1 k2" using stepsD [OF trace_governance_trace_only tr] .
  then have calm2: "calm k k2" using k1(1) trace_only_calm calm.step_trans by blast
  have trT: "tr = Inr True" and next3: "run_envelope H ck p e k2 = (r, k')"
    using next2 tr calm2 eff by (cases tr; auto simp: py_bind_run py_return_run split: if_splits)+
  have eff2: "\<not> calm k2 k'" using calm2 eff calm.step_trans by blast
  obtain t n2 evs where t: "k2 = k1\<lparr>kr_trace := t, kr_seq := n2\<rparr>"
    "tc_events t = tc_events (kr_trace k1) @ evs"
    "map te_stage evs = [''ACTION_PROPOSAL'', ''EVIDENCE_ASSESSMENT'', ''GOVERNANCE_DECISION'']"
    "map te_action_id evs = [ap_action_id p, ap_action_id p, ap_action_id p]"
    using trace_governance_True [OF tr [unfolded trT]] that by (elim exE conjE)
  obtain k3 ev1 ev2 where k3: "ledger k3 k'" "kr_governance k3 = kr_governance k2"
    "tc_events (kr_trace k3) = tc_events (kr_trace k2) @ [ev1, ev2]"
    "map te_stage [ev1, ev2] = [''AUTHORIZED_ACTION_ENVELOPE'', ''TRACE_PREFLIGHT'']"
    "map te_action_id [ev1, ev2] = [ap_action_id p, ap_action_id p]"
    "governance_effect_guard (fst (ck_guard ck)) (snd (ck_guard ck)) e (kr_governance k2) = Inr ()"
    using run_envelope_effect [OF next3 eff2] by metis
  have "reserve_authority (fst (ck_reserve ck)) (snd (ck_reserve ck)) e0 (kr_governance k)
      = (Inr res, kr_governance k1)" using k1(3,4) res by (metis prod.collapse)
  then obtain n where n: "reservation_of (ge_leases (kr_governance k1)) (ae_lease_id e0)
      (ae_idempotency_key e0) = Some (ae_action_id e0, n)"
    and index: "e = e0\<lparr>ae_lease_use_index := Some n\<rparr>" and ok1: "gov_ok (kr_governance k1)"
    using reserve_authority_allow [OF _ e ok] reserve_authority_ok [THEN keepsD, OF ok] by (metis snd_conv)
  have g3: "kr_governance k3 = kr_governance k1" using k3(2) t(1) by simp
  obtain es where es: "tc_events (kr_trace k') = tc_events (kr_trace k3) @ es"
    and res': "reservation_of (ge_leases (kr_governance k')) (ae_lease_id e0) (ae_idempotency_key e0)
      = Some (ae_action_id e0, n)"
    using k3(1) n ok1 by (auto simp: ledger_def g3)
  have all: "tc_events (kr_trace k') = tc_events (kr_trace k) @ (evs @ [ev1, ev2] @ es)"
    using es k3(3) t(1,2) k1(2) by simp
  have len: "length evs = 3" using t(3) by (metis length_map length_Cons list.size(3) numeral_3_eq_3)
  have "take 5 (map te_stage (evs @ [ev1, ev2] @ es)) = map te_stage (evs @ [ev1, ev2])"
    "take 5 (map te_action_id (evs @ [ev1, ev2] @ es)) = map te_action_id (evs @ [ev1, ev2])"
    using len by simp_all
  moreover have "governance_effect_guard (fst (ck_guard ck)) (snd (ck_guard ck))
       (e0\<lparr>ae_lease_use_index := Some n\<rparr>) (kr_governance k1) = Inr ()"
    using k3(6) t(1) index by simp
  ultimately show thesis using t(3,4) k3(4,5) k1(3) by (intro that [OF res' all]) simp_all
qed

section \<open>The whole of execute\<close>

text \<open>
  An execution that passes the identity check and finds no stored result is an
  \<^verbatim>\<open>authorize\<close> followed by what its verdict says; the identity check touches the guard only.
\<close>

lemma identity_only: "guard_only k k1 \<Longrightarrow> kr_effects k1 = kr_effects k \<and> kr_governance k1 = kr_governance k \<and>
  kr_trace k1 = kr_trace k \<and> kr_state k1 = kr_state k \<and> kr_completed k1 = kr_completed k \<and>
  kr_seq k1 = kr_seq k"
  by (auto simp: guard_only_def)

lemma execute_cases:
  assumes "execute H M ck p k = (r, k')"
  obtains x where "r = Inl x" "identity_pre_action H p k = (Inl x, k')"
  | f where "r = Inr f" "identity_pre_action H p k = (Inr (Some f), k')"
  | k1 a res where "identity_pre_action H p k = (Inr None, k1)" "k' = k1"
    "Option.bind (ap_idempotency_key p) (map_of (kr_completed k)) = Some (a, res)"
    "r = Inr (if a = ap_action_id p then res else
       exec_result False False True ''idempotency_conflict'' Decision_DENY (ap_trace_id p))"
  | k1 x where "identity_pre_action H p k = (Inr None, k1)" "k' = k1"
    "Option.bind (ap_idempotency_key p) (map_of (kr_completed k)) = None"
    "authorize M (ck_authorize ck) p (kr_governance k) = Inl x" "r = Inl x"
  | k1 g where "identity_pre_action H p k = (Inr None, k1)"
    "Option.bind (ap_idempotency_key p) (map_of (kr_completed k)) = None"
    "authorize M (ck_authorize ck) p (kr_governance k) = Inr g" "gr_decision g \<noteq> Decision_ALLOW"
    "py_bind (trace_governance p g) (\<lambda>trace_ok. py_return
       (exec_result False False trace_ok (gr_reason g) (gr_decision g) (ap_trace_id p))) k1 = (r, k')"
  | k1 g e0 where "identity_pre_action H p k = (Inr None, k1)"
    "Option.bind (ap_idempotency_key p) (map_of (kr_completed k)) = None"
    "authorize M (ck_authorize ck) p (kr_governance k) = Inr g" "gr_decision g = Decision_ALLOW"
    "gr_envelope g = Some e0" "run_allowed H ck p g e0 k1 = (r, k')"
proof -
  obtain f k1 where pre: "identity_pre_action H p k = (f, k1)" by fastforce
  have same: "kr_governance k1 = kr_governance k" "kr_completed k1 = kr_completed k"
    using identity_only [OF stepsD [OF identity_pre_action_guard_only pre]] by simp_all
  consider (raised) x where "f = Inl x" | (stopped) y where "f = Inr (Some y)" | (on) "f = Inr None"
    by (metis option.exhaust sum.exhaust)
  then show thesis
  proof cases
    case raised
    then show thesis using assms pre by (intro that(1)) (auto simp: execute_def py_simps)
  next
    case stopped
    then show thesis using assms pre by (intro that(2)) (auto simp: execute_def py_simps)
  next
    case on
    note pre = pre [unfolded on]
    show thesis
    proof (cases "Option.bind (ap_idempotency_key p) (map_of (kr_completed k))")
      case (Some ar)
      obtain a res where ar: "ar = (a, res)" by fastforce
      show thesis using assms pre Some ar
        by (intro that(3) [of k1 a res]) (auto simp: execute_def py_simps same split: if_splits)
    next
      case None
      show thesis
      proof (cases "authorize M (ck_authorize ck) p (kr_governance k)")
        case (Inl x)
        then show thesis using assms pre None
          by (intro that(4)) (auto simp: execute_def py_simps same)
      next
        case (Inr g)
        have run: "(if gr_decision g \<noteq> Decision_ALLOW then
               py_bind (trace_governance p g) (\<lambda>trace_ok.
               py_return (exec_result False False trace_ok (gr_reason g) (gr_decision g) (ap_trace_id p)))
             else
               (case gr_envelope g of
                  None \<Rightarrow>
                    py_return (exec_result False False False ''authorized_envelope_missing''
                                 (gr_decision g) (ap_trace_id p))
                | Some e0 \<Rightarrow> run_allowed H ck p g e0)) k1 = (r, k')"
          using assms pre None Inr by (simp add: execute_def py_bind_run py_gets_run same)
        show thesis
        proof (cases "gr_decision g = Decision_ALLOW")
          case True
          obtain t0 t1 t2 where "ck_authorize ck = (t0, t1, t2)" by (metis prod.collapse)
          then obtain e0 where "gr_envelope g = Some e0"
            using authorize_allow [of M t0 t1 t2 p "kr_governance k" g] Inr True
            by (auto simp: decide_def)
          then show thesis using run True pre None Inr by (intro that(6)) simp_all
        next
          case False
          then show thesis using run pre None Inr by (intro that(5)) simp_all
        qed
      qed
    qed
  qed
qed

text \<open>Everything that can be said before the effect is tame.\<close>

lemma denied_calm:
  assumes "py_bind (trace_governance p g) (\<lambda>b. py_return (f b)) k1 = (r, k')"
  shows "trace_only k1 k'"
proof -
  have "steps trace_only (py_bind (trace_governance p g) (\<lambda>b. py_return (f b)))"
    by (intro trace_only.steps_bind trace_governance_trace_only trace_only.steps_basic)
  then show ?thesis using assms by (rule stepsD)
qed

lemmas pre_only = identity_only [OF stepsD [OF identity_pre_action_guard_only]]

lemma execute_effect:
  assumes "execute H M ck p k = (r, k')" and "kr_effects k' \<noteq> kr_effects k"
  obtains k1 g e0 where "identity_pre_action H p k = (Inr None, k1)"
    "Option.bind (ap_idempotency_key p) (map_of (kr_completed k)) = None"
    "authorize M (ck_authorize ck) p (kr_governance k) = Inr g" "gr_decision g = Decision_ALLOW"
    "gr_envelope g = Some e0" "run_allowed H ck p g e0 k1 = (r, k')"
  using assms(1)
proof (cases rule: execute_cases)
  case (1 x)
  then show ?thesis using pre_only [OF 1(2)] assms(2) by simp
next
  case (2 f)
  then show ?thesis using pre_only [OF 2(2)] assms(2) by simp
next
  case (3 k1 a res)
  then show ?thesis using pre_only [OF 3(1)] assms(2) by simp
next
  case (4 k1 x)
  then show ?thesis using pre_only [OF 4(1)] assms(2) by simp
next
  case (5 k1 g)
  then show ?thesis
    using pre_only [OF 5(1)] trace_only_calm [OF denied_calm [OF 5(5)]] assms(2)
    by (simp add: calm_def)
next
  case (6 k1 g e0)
  then show ?thesis by (rule that)
qed

text \<open>
  C6: complete mediation. Nothing reaches an adapter except through the governed path: if one
  \<^verbatim>\<open>execute\<close> changed the world, the broker or the effector's cache, then the proposal met every
  condition of \<^verbatim>\<open>authorize\<close>, no earlier result was stored for its key, one use of the lease it
  names is now recorded for its key and action, the trace grew by the five stages that come
  before an effect, in order and for this action, and the material guard opened for the envelope
  that carries the reserved index.
\<close>

theorem effect_only_through_governance:
  assumes "execute H M ck p k = (r, k')" and "kernel_ok H k" and "kr_effects k' \<noteq> kr_effects k"
  shows "Option.bind (ap_idempotency_key p) (map_of (kr_completed k)) = None \<and>
    actor_admitted (kr_governance k) p \<and>
    evidence_holds M (ge_assurance (kr_governance k)) p \<and>
    proposal_complete (fst (ck_authorize ck)) p \<and>
    (\<exists>i l key n es. ap_lease_id p = Some i \<and> ap_idempotency_key p = Some key \<and>
       map_of (lm_leases (ge_leases (kr_governance k))) i = Some l \<and>
       lease_live (fst (snd (ck_authorize ck))) (ap_ocs p) (ap_capability p) l \<and>
       proposal_bound (snd (snd (ck_authorize ck))) p l \<and>
       reservation_of (ge_leases (kr_governance k')) i key = Some (ap_action_id p, n) \<and>
       tc_events (kr_trace k') = tc_events (kr_trace k) @ es \<and>
       take 5 (map te_stage es) = [''ACTION_PROPOSAL'', ''EVIDENCE_ASSESSMENT'',
         ''GOVERNANCE_DECISION'', ''AUTHORIZED_ACTION_ENVELOPE'', ''TRACE_PREFLIGHT''] \<and>
       set (take 5 (map te_action_id es)) = {ap_action_id p} \<and>
       governance_effect_guard (fst (ck_guard ck)) (snd (ck_guard ck))
         ((envelope_of p (al_max_uses l))\<lparr>ae_lease_use_index := Some n\<rparr>)
         (snd (reserve_authority (fst (ck_reserve ck)) (snd (ck_reserve ck))
           (envelope_of p (al_max_uses l)) (kr_governance k))) = Inr ())"
proof -
  obtain k1 g e0 where ex: "identity_pre_action H p k = (Inr None, k1)"
    "Option.bind (ap_idempotency_key p) (map_of (kr_completed k)) = None"
    "authorize M (ck_authorize ck) p (kr_governance k) = Inr g" "gr_decision g = Decision_ALLOW"
    "gr_envelope g = Some e0" "run_allowed H ck p g e0 k1 = (r, k')"
    using execute_effect [OF assms(1,3)] .
  have pre: "kr_effects k1 = kr_effects k" "kr_governance k1 = kr_governance k" "kr_trace k1 = kr_trace k"
    using pre_only [OF ex(1)] by simp_all
  obtain t0 t1 t2 where ts: "ck_authorize ck = (t0, t1, t2)" by (metis prod.collapse)
  then obtain i l where allow: "actor_admitted (kr_governance k) p"
    "evidence_holds M (ge_assurance (kr_governance k)) p" "proposal_complete t0 p"
    "ap_lease_id p = Some i" "map_of (lm_leases (ge_leases (kr_governance k))) i = Some l"
    "lease_live t1 (ap_ocs p) (ap_capability p) l" "proposal_bound t2 p l"
    and env: "e0 = envelope_of p (al_max_uses l)"
    using authorize_allow [of M t0 t1 t2 p "kr_governance k" g] ex(3,4,5)
    by (auto simp: decide_def)
  then have e0: "ae_lease_id e0 = i" "ae_idempotency_key e0 = the (ap_idempotency_key p)"
    "ae_action_id e0 = ap_action_id p" by (simp_all add: envelope_of_def)
  obtain key where key: "ap_idempotency_key p = Some key"
    using allow(3) by (auto simp: proposal_complete_def missing_str_def)
  have "\<not> calm k1 k'" using assms(3) pre(1) by (simp add: calm_def)
  moreover have "gov_ok (kr_governance k1)" using assms(2) pre(2) by (simp add: kernel_ok_parts)
  ultimately obtain n es where
    "reservation_of (ge_leases (kr_governance k')) i key = Some (ap_action_id p, n)"
    "tc_events (kr_trace k') = tc_events (kr_trace k) @ es"
    "take 5 (map te_stage es) = [''ACTION_PROPOSAL'', ''EVIDENCE_ASSESSMENT'', ''GOVERNANCE_DECISION'',
       ''AUTHORIZED_ACTION_ENVELOPE'', ''TRACE_PREFLIGHT'']"
    "set (take 5 (map te_action_id es)) = {ap_action_id p}"
    "governance_effect_guard (fst (ck_guard ck)) (snd (ck_guard ck))
       (e0\<lparr>ae_lease_use_index := Some n\<rparr>)
       (snd (reserve_authority (fst (ck_reserve ck)) (snd (ck_reserve ck)) e0 (kr_governance k))) = Inr ()"
    using run_allowed_effect [OF ex(6)] unfolding e0 key option.sel pre(2,3) by blast
  then show ?thesis using allow ex(2) ts key unfolding env by auto
qed

section \<open>A proven effect\<close>

definition proven :: "execution_result \<Rightarrow> bool" where
  "proven r \<longleftrightarrow> er_authorized r \<and> er_effected r \<and> er_proven r"

lemma handle_failure_not_proven:
  "handle_failure H e effected rb x k = (Inr r, k') \<Longrightarrow> \<not> proven r"
  by (auto simp: handle_failure_def proven_def exec_result_def py_simps
      split: exn.splits option.splits if_splits sum.splits prod.splits)

lemma commit_early_not_proven:
  assumes "commit H p e rb k = (Inr (Some r), k')"
  shows "\<not> proven r"
  using assms unfolding commit_def Let_def
  by (auto simp: proven_def exec_result_def py_try_run py_return_run py_raise_run dest!: py_bind_Inr [THEN iffD1]
      split: sum.splits prod.splits if_splits)

lemma run_envelope_proven:
  assumes "run_envelope H ck p e k = (Inr r, k')" and "proven r"
  obtains rb k1 k2 where "act H ck p e k = (Inr rb, k1)" "commit H p e rb k1 = (Inr None, k2)"
    "r = effect_proven e rb"
    "k' = k2\<lparr>kr_completed := dset (ae_idempotency_key e) (ae_action_id e, r) (kr_completed k2)\<rparr>"
proof -
  obtain y k1 where act: "act H ck p e k = (y, k1)" by fastforce
  obtain rb where y: "y = Inr rb"
    using assms act by (cases y) (auto simp: run_envelope_def py_try_run dest: handle_failure_not_proven)
  obtain z k2 where com: "commit H p e rb k1 = (z, k2)" by fastforce
  have "z = Inr None"
  proof (cases z)
    case (Inl x)
    then show ?thesis using assms act y com
      by (auto simp: run_envelope_def py_try_run dest: handle_failure_not_proven)
  next
    case (Inr early)
    then show ?thesis using assms act y com
      by (cases early) (auto simp: run_envelope_def py_try_run py_return_run dest: commit_early_not_proven)
  qed
  then show thesis using assms act y com
    by (intro that) (auto simp: run_envelope_def py_simps)
qed

text \<open>A write that answers makes its record the current one.\<close>

lemma sc_write_current:
  assumes "sc_write H r (\<lambda>s. state_eq s r) a ns ref auth c = (Inr q, c')"
  shows "sc_current_record (sr_ocs r) c' = Inr (Some q) \<and> state_eq q r"
proof (cases "sc_port c")
  case None
  then show ?thesis using assms
    by (auto simp: sc_write_def sc_current_record_def sc_get_def split: sum.splits if_splits)
next
  case (Some t)
  show ?thesis using durable_write_result [OF Some assms] by simp
qed

text \<open>What one stage after another leaves: the trace grown by their events.\<close>

lemma persist_done:
  assumes "persist H p e rb k = (Inr (), k')"
  obtains cur s n es where
    "sc_current_record (ap_ocs p) (kr_state k) = Inr cur"
    "sc_current_record (ap_ocs p) (kr_state k') = Inr (Some s)"
    "state_eq s (next_state (ap_ocs p) rb n cur)"
    "kr_effects k' = kr_effects k"
    "tc_events (kr_trace k') = tc_events (kr_trace k) @ es"
    "map te_stage es = [''STATE_MANAGER_COMMIT'', ''LEASE_FINALIZE_OR_RELEASE'', ''TRACE_CLOSE'']"
    "map te_action_id es = [ap_action_id p, ap_action_id p, ap_action_id p]"
proof -
  obtain cur n u0 q u1 u2 d2 ls u3 u4 d3 d4 where
    cur: "sc_current_record (ap_ocs p) (kr_state k) = Inr cur"
    and n: "next_seq k = (Inr n, u0)"
    and w: "on_state (sc_write H (next_state (ap_ocs p) rb n cur)
        (\<lambda>s. state_eq s (next_state (ap_ocs p) rb n cur)) (Some (ap_ocs p))
        (Some (''state://'' @ ap_ocs p @ ''/runtime''))
        (Some (sr_state_id (next_state (ap_ocs p) rb n cur))) (Some (ae_authority_ref e))) u0
      = (Inr q, u1)"
    and s2: "trace_stage (ap_action_id p) ''state'' ''STATE_MANAGER_COMMIT'' d2 u1 = (Inr (), u2)"
    and f: "on_governance (finalize_authority e) u2 = (Inr ls, u3)"
    and s3: "trace_stage (ap_action_id p) ''lease-finalize'' ''LEASE_FINALIZE_OR_RELEASE'' d3 u3
        = (Inr (), u4)"
    and s4: "trace_stage (ap_action_id p) ''close'' ''TRACE_CLOSE'' d4 u4 = (Inr (), k')"
    using assms by (auto simp: persist_def py_bind_Inr Let_def)
  obtain t2 n2 v2 where 2: "u2 = u1\<lparr>kr_trace := t2, kr_seq := n2\<rparr>"
    "tc_events t2 = tc_events (kr_trace u1) @ [v2]" "te_stage v2 = ''STATE_MANAGER_COMMIT''"
    "te_action_id v2 = ap_action_id p"
    using trace_stage_Inr [OF s2] by blast
  obtain t3 n3 v3 where 3: "u4 = u3\<lparr>kr_trace := t3, kr_seq := n3\<rparr>"
    "tc_events t3 = tc_events (kr_trace u3) @ [v3]" "te_stage v3 = ''LEASE_FINALIZE_OR_RELEASE''"
    "te_action_id v3 = ap_action_id p"
    using trace_stage_Inr [OF s3] by blast
  obtain t4 n4 v4 where 4: "k' = u4\<lparr>kr_trace := t4, kr_seq := n4\<rparr>"
    "tc_events t4 = tc_events (kr_trace u4) @ [v4]" "te_stage v4 = ''TRACE_CLOSE''"
    "te_action_id v4 = ap_action_id p"
    using trace_stage_Inr [OF s4] by blast
  have 0: "u0 = k\<lparr>kr_seq := kr_seq k + 1\<rparr>" using n by (auto simp: next_seq_def)
  obtain c1 where 1: "sc_write H (next_state (ap_ocs p) rb n cur)
        (\<lambda>s. state_eq s (next_state (ap_ocs p) rb n cur)) (Some (ap_ocs p))
        (Some (''state://'' @ ap_ocs p @ ''/runtime''))
        (Some (sr_state_id (next_state (ap_ocs p) rb n cur))) (Some (ae_authority_ref e)) (kr_state u0)
      = (Inr q, c1)" "u1 = u0\<lparr>kr_state := c1\<rparr>"
    using w by (auto simp: on_state_def py_simps prod_eq_iff)
  have c1: "sc_current_record (ap_ocs p) c1 = Inr (Some q) \<and> state_eq q (next_state (ap_ocs p) rb n cur)"
    using sc_write_current [OF 1(1)] by (simp add: next_state_def)
  obtain g where 5: "u3 = u2\<lparr>kr_governance := g\<rparr>"
    using f by (auto simp: on_governance_def py_simps)
  show thesis
    by (rule that [of cur q n "[v2, v3, v4]"])
      (use cur c1 in \<open>simp_all add: 0 1(2) 2 3 4 5\<close>)
qed

lemma commit_done:
  assumes "commit H p e rb k = (Inr None, k')"
  obtains cur s n es where
    "sc_current_record (ap_ocs p) (kr_state k) = Inr cur"
    "sc_current_record (ap_ocs p) (kr_state k') = Inr (Some s)"
    "state_eq s (next_state (ap_ocs p) rb n cur)"
    "kr_effects k' = kr_effects k"
    "tc_events (kr_trace k') = tc_events (kr_trace k) @ es"
    "map te_stage es = [''MATERIAL_EFFECT_READBACK'', ''STATE_MANAGER_COMMIT'',
       ''LEASE_FINALIZE_OR_RELEASE'', ''TRACE_CLOSE'']"
    "map te_action_id es = [ap_action_id p, ap_action_id p, ap_action_id p, ap_action_id p]"
proof -
  obtain u1 y u2 d where s1: "trace_stage (ap_action_id p) ''readback'' ''MATERIAL_EFFECT_READBACK'' d k
      = (Inr (), u1)"
    and id: "require_identity H (ap_ocs p) PRE_PERSIST u1 = (Inr y, u2)"
    and p: "persist H p e rb u2 = (Inr (), k')"
    using assms unfolding commit_def
    by (auto simp: py_bind_Inr py_try_Inr py_return_run py_raise_run split: if_splits)
  obtain t n v where 1: "u1 = k\<lparr>kr_trace := t, kr_seq := n\<rparr>"
    "tc_events t = tc_events (kr_trace k) @ [v]" "te_stage v = ''MATERIAL_EFFECT_READBACK''"
    "te_action_id v = ap_action_id p"
    using trace_stage_Inr [OF s1] by blast
  obtain i where 2: "u2 = u1\<lparr>kr_identity := i\<rparr>"
    using stepsD [OF require_identity_guard_only id] by (auto simp: guard_only_def)
  show thesis
  proof (rule persist_done [OF p])
    fix cur s n es
    assume "sc_current_record (ap_ocs p) (kr_state u2) = Inr cur"
      "sc_current_record (ap_ocs p) (kr_state k') = Inr (Some s)"
      "state_eq s (next_state (ap_ocs p) rb n cur)" "kr_effects k' = kr_effects u2"
      "tc_events (kr_trace k') = tc_events (kr_trace u2) @ es"
      "map te_stage es = [''STATE_MANAGER_COMMIT'', ''LEASE_FINALIZE_OR_RELEASE'', ''TRACE_CLOSE'']"
      "map te_action_id es = [ap_action_id p, ap_action_id p, ap_action_id p]"
    then show thesis using 1 2 by (intro that [of cur s n "v # es"]) simp_all
  qed
qed

lemma act_done:
  assumes "act H ck p e k = (Inr rb, k')"
  obtains es where "kr_state k' = kr_state k"
    "map_of (fx_completed (kr_effects k')) (ae_idempotency_key e) = Some rb"
    "tc_events (kr_trace k') = tc_events (kr_trace k) @ es"
    "map te_stage es = [''AUTHORIZED_ACTION_ENVELOPE'', ''TRACE_PREFLIGHT'']"
    "map te_action_id es = [ap_action_id p, ap_action_id p]"
  using assms
proof (cases rule: act_cases)
  case (2 k1 ev1 ev2)
  then have "effector_execute e (kr_effects k1) = (Inr rb, kr_effects k')"
    "kr_state k' = kr_state k1" "kr_trace k' = kr_trace k1"
    by (auto simp: on_fx_def py_simps prod_eq_iff)
  then show ?thesis
    using effector_execute_stores [of e "kr_effects k1" rb "kr_effects k'"] 2
    by (intro that [of "[ev1, ev2]"]) (simp_all add: cached_at_def)
qed simp

lemma run_envelope_done:
  assumes "run_envelope H ck p e k = (Inr r, k')" and "proven r"
  obtains rb cur s n es where "r = effect_proven e rb"
    "map_of (kr_completed k') (ae_idempotency_key e) = Some (ae_action_id e, r)"
    "map_of (fx_completed (kr_effects k')) (ae_idempotency_key e) = Some rb"
    "sc_current_record (ap_ocs p) (kr_state k) = Inr cur"
    "sc_current_record (ap_ocs p) (kr_state k') = Inr (Some s)"
    "state_eq s (next_state (ap_ocs p) rb n cur)"
    "tc_events (kr_trace k') = tc_events (kr_trace k) @ es"
    "map te_stage es = [''AUTHORIZED_ACTION_ENVELOPE'', ''TRACE_PREFLIGHT'',
       ''MATERIAL_EFFECT_READBACK'', ''STATE_MANAGER_COMMIT'', ''LEASE_FINALIZE_OR_RELEASE'',
       ''TRACE_CLOSE'']"
    "set (map te_action_id es) = {ap_action_id p}"
proof -
  obtain rb k1 k2 where 0: "act H ck p e k = (Inr rb, k1)" "commit H p e rb k1 = (Inr None, k2)"
    "r = effect_proven e rb"
    "k' = k2\<lparr>kr_completed := dset (ae_idempotency_key e) (ae_action_id e, r) (kr_completed k2)\<rparr>"
    using run_envelope_proven [OF assms] .
  obtain es1 where 1: "kr_state k1 = kr_state k"
    "map_of (fx_completed (kr_effects k1)) (ae_idempotency_key e) = Some rb"
    "tc_events (kr_trace k1) = tc_events (kr_trace k) @ es1"
    "map te_stage es1 = [''AUTHORIZED_ACTION_ENVELOPE'', ''TRACE_PREFLIGHT'']"
    "map te_action_id es1 = [ap_action_id p, ap_action_id p]"
    using act_done [OF 0(1)] .
  show thesis
  proof (rule commit_done [OF 0(2)])
    fix cur s n es
    assume "sc_current_record (ap_ocs p) (kr_state k1) = Inr cur"
      "sc_current_record (ap_ocs p) (kr_state k2) = Inr (Some s)"
      "state_eq s (next_state (ap_ocs p) rb n cur)" "kr_effects k2 = kr_effects k1"
      "tc_events (kr_trace k2) = tc_events (kr_trace k1) @ es"
      "map te_stage es = [''MATERIAL_EFFECT_READBACK'', ''STATE_MANAGER_COMMIT'',
       ''LEASE_FINALIZE_OR_RELEASE'', ''TRACE_CLOSE'']"
      "map te_action_id es = [ap_action_id p, ap_action_id p, ap_action_id p, ap_action_id p]"
    moreover from this have "set (map te_action_id (es1 @ es)) = {ap_action_id p}"
      using 1(5) by (simp only: map_append set_append) simp
    ultimately show thesis using 0(3,4) 1 by (intro that [of rb cur s n "es1 @ es"]) simp_all
  qed
qed

lemma run_allowed_done:
  assumes "run_allowed H ck p g e0 k = (Inr r, k')" and "proven r" and "gov_ok (kr_governance k)"
  obtains rb cur s n m es where "r = effect_proven (e0\<lparr>ae_lease_use_index := Some m\<rparr>) rb"
    "map_of (kr_completed k') (ae_idempotency_key e0) = Some (ae_action_id e0, r)"
    "map_of (fx_completed (kr_effects k')) (ae_idempotency_key e0) = Some rb"
    "sc_current_record (ap_ocs p) (kr_state k) = Inr cur"
    "sc_current_record (ap_ocs p) (kr_state k') = Inr (Some s)"
    "state_eq s (next_state (ap_ocs p) rb n cur)"
    "tc_events (kr_trace k') = tc_events (kr_trace k) @ es"
    "map te_stage es = [''ACTION_PROPOSAL'', ''EVIDENCE_ASSESSMENT'', ''GOVERNANCE_DECISION'',
       ''AUTHORIZED_ACTION_ENVELOPE'', ''TRACE_PREFLIGHT'',
       ''MATERIAL_EFFECT_READBACK'', ''STATE_MANAGER_COMMIT'', ''LEASE_FINALIZE_OR_RELEASE'',
       ''TRACE_CLOSE'']"
    "set (map te_action_id es) = {ap_action_id p}"
proof -
  obtain k0 res k1 e k2 where gate: "on_trace preflight_gate k = (Inr (), k0)"
    and rv: "on_governance (reserve_authority (fst (ck_reserve ck)) (snd (ck_reserve ck)) e0) k0
      = (Inr res, k1)"
    and e: "gr_envelope res = Some e"
    and tr: "trace_governance p g k1 = (Inr True, k2)"
    and env: "run_envelope H ck p e k2 = (Inr r, k')"
    using assms(1,2) unfolding run_allowed_def
    by (auto simp: py_bind_Inr py_try_Inr py_return_run py_raise_run proven_def exec_result_def
        split: if_splits option.splits)
  have k0: "k0 = k" using gate by (auto simp: on_trace_def py_simps preflight_gate_def split: if_splits)
  have k1: "kr_trace k1 = kr_trace k" "kr_state k1 = kr_state k"
    using rv by (auto simp: k0 on_governance_def py_simps)
  have "reserve_authority (fst (ck_reserve ck)) (snd (ck_reserve ck)) e0 (kr_governance k)
      = (Inr res, kr_governance k1)"
    using rv by (auto simp: k0 on_governance_def py_simps prod_eq_iff)
  then obtain m where m: "e = e0\<lparr>ae_lease_use_index := Some m\<rparr>"
    using reserve_authority_allow [OF _ e assms(3)] by blast
  obtain t n2 evs where t: "k2 = k1\<lparr>kr_trace := t, kr_seq := n2\<rparr>"
    "tc_events t = tc_events (kr_trace k1) @ evs"
    "map te_stage evs = [''ACTION_PROPOSAL'', ''EVIDENCE_ASSESSMENT'', ''GOVERNANCE_DECISION'']"
    "map te_action_id evs = [ap_action_id p, ap_action_id p, ap_action_id p]"
    using trace_governance_True [OF tr] that by (elim exE conjE)
  show thesis
  proof (rule run_envelope_done [OF env assms(2)])
    fix rb cur s n es
    assume a: "r = effect_proven e rb"
      "map_of (kr_completed k') (ae_idempotency_key e) = Some (ae_action_id e, r)"
      "map_of (fx_completed (kr_effects k')) (ae_idempotency_key e) = Some rb"
      "sc_current_record (ap_ocs p) (kr_state k2) = Inr cur"
      "sc_current_record (ap_ocs p) (kr_state k') = Inr (Some s)"
      "state_eq s (next_state (ap_ocs p) rb n cur)"
      "tc_events (kr_trace k') = tc_events (kr_trace k2) @ es"
      "map te_stage es = [''AUTHORIZED_ACTION_ENVELOPE'', ''TRACE_PREFLIGHT'',
         ''MATERIAL_EFFECT_READBACK'', ''STATE_MANAGER_COMMIT'', ''LEASE_FINALIZE_OR_RELEASE'',
         ''TRACE_CLOSE'']"
      "set (map te_action_id es) = {ap_action_id p}"
    have ids: "set (map te_action_id (evs @ es)) = {ap_action_id p}"
      using a(9) t(4) by (simp only: map_append set_append) simp
    show thesis
      by (rule that [of m rb cur s n "evs @ es"])
        (use a t k1 m ids in \<open>simp_all del: set_map\<close>)
  qed
qed

lemma authorized_key:
  assumes "authorize M ts p g = Inr r" and "gr_decision r = Decision_ALLOW" and "gr_envelope r = Some e0"
  obtains key where "ap_idempotency_key p = Some key" "ae_idempotency_key e0 = key"
    "ae_action_id e0 = ap_action_id p"
proof -
  obtain t0 t1 t2 where ts: "ts = (t0, t1, t2)" by (metis prod.collapse)
  have "authorize M (t0, t1, t2) p g = Inr r \<and> gr_decision r = Decision_ALLOW"
    using assms(1,2) by (simp add: ts)
  from this [unfolded authorize_allow] obtain l :: authority_lease where c: "proposal_complete t0 p"
    and "r = decide Decision_ALLOW ''authorized'' (Some (envelope_of p (al_max_uses l)))
              (Some (assess_evidence M (ge_assurance g) p))"
    by blast
  then have e0: "e0 = envelope_of p (al_max_uses l)" using assms(3) by (simp add: decide_def)
  from c obtain key where "ap_idempotency_key p = Some key"
    by (auto simp: proposal_complete_def missing_str_def)
  then show thesis using that by (simp add: e0 envelope_of_def)
qed

lemma execute_proven:
  assumes "execute H M ck p k = (Inr r, k')" and "kernel_ok H k"
    and "er_authorized r" and "er_effected r" and "er_proven r"
    and "Option.bind (ap_idempotency_key p) (map_of (kr_completed k)) = None"
  shows "\<exists>key rb cur s es. ap_idempotency_key p = Some key \<and> er_readback r = Some rb \<and>
    map_of (kr_completed k') key = Some (ap_action_id p, r) \<and>
    map_of (fx_completed (kr_effects k')) key = Some rb \<and>
    sc_current_record (ap_ocs p) (kr_state k) = Inr cur \<and>
    sc_current_record (ap_ocs p) (kr_state k') = Inr (Some s) \<and>
    sr_version s = (case cur of None \<Rightarrow> 1 | Some c \<Rightarrow> sr_version c + 1) \<and>
    sr_predecessor s = map_option sr_state_id cur \<and> sr_verified s \<and>
    py_eq (sr_payload s) (mr_state rb) \<and>
    tc_events (kr_trace k') = tc_events (kr_trace k) @ es \<and>
    set (map te_action_id es) = {ap_action_id p} \<and>
    map te_stage es = [''ACTION_PROPOSAL'', ''EVIDENCE_ASSESSMENT'', ''GOVERNANCE_DECISION'',
       ''AUTHORIZED_ACTION_ENVELOPE'', ''TRACE_PREFLIGHT'', ''MATERIAL_EFFECT_READBACK'',
       ''STATE_MANAGER_COMMIT'', ''LEASE_FINALIZE_OR_RELEASE'', ''TRACE_CLOSE'']"
proof -
  have pr: "proven r" using assms(3-5) by (simp add: proven_def)
  obtain k1 g e0 where ex: "identity_pre_action H p k = (Inr None, k1)"
    "authorize M (ck_authorize ck) p (kr_governance k) = Inr g" "gr_decision g = Decision_ALLOW"
    "gr_envelope g = Some e0" "run_allowed H ck p g e0 k1 = (Inr r, k')"
    using assms(1)
  proof (cases rule: execute_cases)
    case (2 f)
    then have "\<not> proven f" by (auto simp: identity_pre_action_def py_try_Inr py_return_run py_raise_run
          proven_def exec_result_def split: if_splits)
    then show ?thesis using 2 pr by simp
  next
    case (5 k1 g)
    then show ?thesis using pr by (auto simp: py_bind_Inr py_return_run proven_def exec_result_def)
  next
    case (6 k1 g e0)
    then show ?thesis by (intro that)
  qed (use assms(6) in auto)
  obtain key where key: "ap_idempotency_key p = Some key"
    "ae_idempotency_key e0 = key" "ae_action_id e0 = ap_action_id p"
    using authorized_key [OF ex(2,3,4)] .
  have pre: "kr_governance k1 = kr_governance k" "kr_trace k1 = kr_trace k" "kr_state k1 = kr_state k"
    using pre_only [OF ex(1)] by simp_all
  have ok: "gov_ok (kr_governance k1)" using assms(2) pre(1) by (simp add: kernel_ok_parts)
  show ?thesis
  proof (rule run_allowed_done [OF ex(5) pr ok])
    fix rb cur s n m es
    assume a: "r = effect_proven (e0\<lparr>ae_lease_use_index := Some m\<rparr>) rb"
      "map_of (kr_completed k') (ae_idempotency_key e0) = Some (ae_action_id e0, r)"
      "map_of (fx_completed (kr_effects k')) (ae_idempotency_key e0) = Some rb"
      "sc_current_record (ap_ocs p) (kr_state k1) = Inr cur"
      "sc_current_record (ap_ocs p) (kr_state k') = Inr (Some s)"
      "state_eq s (next_state (ap_ocs p) rb n cur)"
      "tc_events (kr_trace k') = tc_events (kr_trace k1) @ es"
      "set (map te_action_id es) = {ap_action_id p}"
      and st: "map te_stage es = [''ACTION_PROPOSAL'', ''EVIDENCE_ASSESSMENT'', ''GOVERNANCE_DECISION'',
       ''AUTHORIZED_ACTION_ENVELOPE'', ''TRACE_PREFLIGHT'', ''MATERIAL_EFFECT_READBACK'',
       ''STATE_MANAGER_COMMIT'', ''LEASE_FINALIZE_OR_RELEASE'', ''TRACE_CLOSE'']"
    have rb: "er_readback r = Some rb" by (simp add: a(1) effect_proven_def)
    have "sr_version s = (case cur of None \<Rightarrow> 1 | Some c \<Rightarrow> sr_version c + 1)"
      "sr_predecessor s = map_option sr_state_id cur" "sr_verified s"
      "py_eq (sr_payload s) (mr_state rb)"
      using a(6) by (simp_all add: state_eq_def next_state_def)
    then show ?thesis
      using key(1) rb a(2-5,7,8) [unfolded key(2,3) pre] st
      by (intro exI [of _ key] exI [of _ rb] exI [of _ cur] exI [of _ s] exI [of _ es] conjI)
  qed
qed

text \<open>
  C7: what a proven result means. If \<^verbatim>\<open>execute\<close> answers authorized, effected and proven and
  the answer was not a stored one, then the effector holds the readback the result carries for
  the proposal's key, the state core's current record of the OCS is one version after the
  previous one, linked to it, verified, with the readback's state as payload, the nine stages of
  a complete action were traced for it in order, and the result is stored for the key.
\<close>

theorem proven_effect_is_committed:
  assumes "execute H M ck p k = (Inr r, k')" and "kernel_ok H k"
    and "er_authorized r" and "er_effected r" and "er_proven r"
    and "Option.bind (ap_idempotency_key p) (map_of (kr_completed k)) = None"
  shows "\<exists>key rb cur s es. ap_idempotency_key p = Some key \<and> er_readback r = Some rb \<and>
    map_of (kr_completed k') key = Some (ap_action_id p, r) \<and>
    map_of (fx_completed (kr_effects k')) key = Some rb \<and>
    sc_current_record (ap_ocs p) (kr_state k) = Inr cur \<and>
    sc_current_record (ap_ocs p) (kr_state k') = Inr (Some s) \<and>
    sr_version s = (case cur of None \<Rightarrow> 1 | Some c \<Rightarrow> sr_version c + 1) \<and>
    sr_predecessor s = map_option sr_state_id cur \<and> sr_verified s \<and>
    py_eq (sr_payload s) (mr_state rb) \<and>
    tc_events (kr_trace k') = tc_events (kr_trace k) @ es \<and>
    set (map te_action_id es) = {ap_action_id p} \<and>
    map te_stage es = [''ACTION_PROPOSAL'', ''EVIDENCE_ASSESSMENT'', ''GOVERNANCE_DECISION'',
       ''AUTHORIZED_ACTION_ENVELOPE'', ''TRACE_PREFLIGHT'', ''MATERIAL_EFFECT_READBACK'',
       ''STATE_MANAGER_COMMIT'', ''LEASE_FINALIZE_OR_RELEASE'', ''TRACE_CLOSE'']"
  by (rule execute_proven [OF assms])

end
