(* ===== verification/Kernel_Histories.thy ===== *)
theory Kernel_Histories
  imports Mediation
begin

text \<open>
  A runtime over time: the results it stores, the invariant it keeps along any sequence of
  executions, and the identity under which it acts.
\<close>
 

section \<open>Stored results\<close>

text \<open>An operation that may store a result for one key only.\<close>

definition stores_only :: "string \<Rightarrow> 'w kernel \<Rightarrow> 'w kernel \<Rightarrow> bool" where
  "stores_only key k k' \<longleftrightarrow>
     (\<forall>x. x \<noteq> key \<longrightarrow> map_of (kr_completed k') x = map_of (kr_completed k) x)"

interpretation stores: step_order "stores_only key" for key :: string
  by unfold_locales (simp_all add: stores_only_def)

lemma same_completed: "kr_completed k' = kr_completed k \<Longrightarrow> stores_only key k k'"
  by (simp add: stores_only_def)

lemma trace_stage_stores: "steps (stores_only key) (trace_stage a t s d)"
  by (rule steps_mono [OF trace_stage_trace_only]) (auto simp: trace_only_def intro: same_completed)

lemma require_identity_stores: "steps (stores_only key) (require_identity H ocs tr)"
  by (rule steps_mono [OF require_identity_guard_only]) (auto simp: guard_only_def intro: same_completed)

lemma parts_store: "steps (stores_only key) (on_fx m)" "steps (stores_only key) (on_state m2)"
  "steps (stores_only key) (on_trace m3)" "steps (stores_only key) (on_governance m4)"
  "steps (stores_only key) next_seq" "steps (stores_only key) (\<lambda>k. (h k, k))"
  by (rule stepsI, rule same_completed,
      simp add: on_fx_def on_state_def on_trace_def on_governance_def next_seq_def py_simps)+

lemma trace_governance_stores: "steps (stores_only key) (trace_governance p g)"
  by (rule steps_mono [OF trace_governance_trace_only]) (auto simp: trace_only_def intro: same_completed)

lemma handle_failure_stores: "steps (stores_only key) (handle_failure H e eff rb x)"
proof -
  have "steps (stores_only key) (py_on (\<lambda>k. (kr_effects k, kr_state k))
      (\<lambda>(f, c) k. k\<lparr>kr_effects := f, kr_state := c\<rparr>) m)" for m
    by (rule stepsI, rule same_completed) (simp add: py_simps split: prod.split)
  then show ?thesis
    unfolding handle_failure_def
    by (auto split: exn.split option.split intro!: stores.steps_bind stores.steps_basic)
qed

lemma act_stores: "steps (stores_only key) (act H ck p e)"
  unfolding act_def
  by (intro stores.steps_bind trace_stage_stores parts_store require_identity_stores)

lemma commit_stores: "steps (stores_only key) (commit H p e rb)"
  unfolding commit_def persist_def Let_def
  by (intro stores.steps_bind stores.steps_try trace_stage_stores parts_store
      require_identity_stores stores.steps_basic)
    (auto intro: stores.steps_basic)

lemma run_envelope_stores: "steps (stores_only (ae_idempotency_key e)) (run_envelope H ck p e)"
proof -
  have "steps (stores_only (ae_idempotency_key e)) (py_modify (\<lambda>k. k\<lparr>kr_completed :=
      dset (ae_idempotency_key e) v (kr_completed k)\<rparr>))" for v
    by (rule stepsI) (simp add: py_simps stores_only_def)
  then show ?thesis
    unfolding run_envelope_def
    by (auto split: option.split intro!: stores.steps_try stores.steps_bind act_stores commit_stores
        handle_failure_stores stores.steps_basic)
qed

lemma reserved_key:
  assumes "reserve_authority t1 t2 e0 g = (Inr res, g')" and "gr_envelope res = Some e"
  shows "ae_idempotency_key e = ae_idempotency_key e0"
  using assms
  by (auto simp: reserve_authority_def py_bind_Inr py_return_run decide_def
      split: bool.splits option.splits)

lemma run_allowed_stores:
  fixes k :: "'w kernel"
  shows "stores_only (ae_idempotency_key e0) k (snd (run_allowed H ck p g e0 k))"
proof -
  let ?R = "stores_only (ae_idempotency_key e0)"
  obtain rv k1 where rv: "on_governance (reserve_authority (fst (ck_reserve ck)) (snd (ck_reserve ck)) e0) k
      = (rv, k1)" by fastforce
  have k1: "?R k k1" using stepsD [OF parts_store(4) rv] .
  show ?thesis
  proof (cases "tc_fail_next_preflight (kr_trace k)")
    case True
    then show ?thesis
      by (simp add: run_allowed_def on_trace_def py_simps preflight_gate_def same_completed)
  next
    case False
    then have gate: "on_trace preflight_gate k = (Inr (), k)"
      by (simp add: on_trace_def py_simps preflight_gate_def)
    show ?thesis
    proof (cases rv)
      case (Inl x)
      then show ?thesis using gate rv k1 by (simp add: run_allowed_def py_try_run py_bind_run)
    next
      case (Inr res)
      show ?thesis
      proof (cases "gr_envelope res")
        case None
        then show ?thesis using gate rv k1 Inr
          by (simp add: run_allowed_def py_try_run py_bind_run py_return_run)
      next
        case (Some e)
        have "reserve_authority (fst (ck_reserve ck)) (snd (ck_reserve ck)) e0 (kr_governance k)
            = (Inr res, kr_governance k1)"
          using rv Inr by (auto simp: on_governance_def py_simps prod_eq_iff)
        then have key: "ae_idempotency_key e = ae_idempotency_key e0"
          using Some by (rule reserved_key)
        let ?m = "if gr_decision res = Decision_DENY then
           py_return (exec_result False False True (gr_reason res) Decision_DENY (ap_trace_id p))
         else
           py_bind (trace_governance p g) (\<lambda>trace_ok.
           if \<not> trace_ok then
             py_return (exec_result True False False ''trace_append_failed'' (gr_decision g)
                          (ap_trace_id p))
           else run_envelope H ck p e)"
        have "steps ?R (?m :: ('w kernel, execution_result) py)"
          using run_envelope_stores [of e H ck p] unfolding key
          by (auto intro!: stores.steps_bind trace_governance_stores stores.steps_basic)
        moreover have "run_allowed H ck p g e0 k = ?m k1"
          using gate rv Inr Some
          by (simp add: run_allowed_def py_try_run py_bind_run [of "on_governance m" for m])
        ultimately have "?R k1 (snd (run_allowed H ck p g e0 k))"
          by (simp only: steps_def)
        then show ?thesis using k1 stores.step_trans by blast
      qed
    qed
  qed
qed

lemma execute_keeps_stored:
  assumes "map_of (kr_completed k) key = Some v"
  shows "map_of (kr_completed (snd (execute H M ck p k))) key = Some v"
proof -
  obtain r k' where run: "execute H M ck p k = (r, k')" by fastforce
  then have "map_of (kr_completed k') key = map_of (kr_completed k) key"
  proof (cases rule: execute_cases)
    case (1 x)
    then show ?thesis using pre_only [OF 1(2)] by simp
  next
    case (2 f)
    then show ?thesis using pre_only [OF 2(2)] by simp
  next
    case (3 k1 a res)
    then show ?thesis using pre_only [OF 3(1)] by simp
  next
    case (4 k1 x)
    then show ?thesis using pre_only [OF 4(1)] by simp
  next
    case (5 k1 g)
    then show ?thesis using pre_only [OF 5(1)] denied_calm [OF 5(5)] by (auto simp: trace_only_def)
  next
    case (6 k1 g e0)
    obtain key' where "ap_idempotency_key p = Some key'" "ae_idempotency_key e0 = key'"
      using authorized_key [OF 6(3,4,5)] by blast
    then have "ae_idempotency_key e0 \<noteq> key" using 6(2) assms by auto
    then show ?thesis
      using run_allowed_stores [of e0 k1 H ck p g] 6(6) pre_only [OF 6(1)]
      by (simp add: stores_only_def)
  qed
  then show ?thesis using run assms by simp
qed

section \<open>Histories of a runtime\<close>

datatype kernel_call = Execute kernel_clock action_proposal | Replace_context "context_item list"

fun kernel_step :: "digest \<Rightarrow> mac \<Rightarrow> kernel_call \<Rightarrow> 'w kernel \<Rightarrow> 'w kernel" where
  "kernel_step H M (Execute ck p) k = snd (execute H M ck p k)"
| "kernel_step H M (Replace_context items) k = snd (replace_context items k)"

definition kernel_run :: "digest \<Rightarrow> mac \<Rightarrow> kernel_call list \<Rightarrow> 'w kernel \<Rightarrow> 'w kernel" where
  "kernel_run H M calls k = fold (kernel_step H M) calls k"

lemma replace_context_same:
  "kr_completed (snd (replace_context items k)) = kr_completed k"
  "kernel_ok H k \<Longrightarrow> kernel_ok H (snd (replace_context items k))"
  by (simp_all add: replace_context_def py_simps kernel_ok_parts)

lemma kernel_run_ok: "kernel_ok H k \<Longrightarrow> kernel_ok H (kernel_run H M calls k)"
  unfolding kernel_run_def
proof (induction calls arbitrary: k)
  case (Cons c calls)
  then show ?case by (cases c) (simp_all add: execute_ok [THEN keepsD] replace_context_same)
qed simp

lemma kernel_run_stored:
  "map_of (kr_completed k) key = Some v \<Longrightarrow>
     map_of (kr_completed (kernel_run H M calls k)) key = Some v"
  unfolding kernel_run_def
proof (induction calls arbitrary: k)
  case (Cons c calls)
  then show ?case by (cases c) (simp_all add: execute_keeps_stored replace_context_same)
qed simp


lemma new_runtime_ok:
  assumes run: "new_runtime H now gov fx st tr rec guard r ocs h ctx given items = (Inr k, g')"
    and parts: "gov_ok gov" "quiet fx" "core_ok H st" "trace_valid tr"
    and guard: "\<And>g. guard = Some g \<Longrightarrow> guard_inv H g"
  shows "kernel_ok H k"
proof -
  let ?m = "\<lambda>g r ocs h ctx. py_bind (if binding_for g r = None
      then py_bind (bind_active_identity H now r ocs h ctx) (\<lambda>_. py_return ()) else py_return ())
    (\<lambda>_. require_valid H r ocs COLD_START (Some h))"
  have keep: "keeps (guard_inv H) (?m g r ocs h ctx)" for g r ocs h ctx
    by (auto intro!: keep.steps_bind bind_inv require_valid_inv keep.steps_basic)
  have "kr_governance k = gov \<and> kr_effects k = fx \<and> kr_state k = st \<and> kr_trace k = tr \<and>
      (\<forall>g. kr_identity k = Some g \<longrightarrow> guard_inv H g)"
  proof (cases "guard = None \<or> r = None \<or> ocs = None \<or> h = None \<or> ctx = None")
    case True
    then show ?thesis
      using run guard by (auto simp: new_runtime_def Let_def split: if_splits option.splits)
  next
    case False
    then obtain g r' ocs' h' ctx' where given: "guard = Some g" "r = Some r'" "ocs = Some ocs'"
      "h = Some h'" "ctx = Some ctx'" by auto
    obtain x g2 where m: "?m g r' ocs' h' ctx' g = (x, g2)" by fastforce
    have "guard_inv H g2" using keepsD [OF keep guard [OF given(1)], of g r' ocs' h' ctx'] m by simp
    then show ?thesis
      using run m by (cases x) (auto simp: new_runtime_def Let_def given)
  qed
  then show ?thesis using parts by (simp add: kernel_ok_parts)
qed

text \<open>
  C9: the invariant of a runtime. Whatever sequence of proposals and contexts a runtime gets,
  executions that raise included, the lease table stays well formed, the broker's resolution
  flag is down, a durable state core agrees with its database and its lineage, the trace is a
  valid chain, and the identity guard's log and bindings agree.
\<close>

theorem runtime_invariant:
  assumes "new_runtime H now gov fx st tr rec guard run ocs h ctx given items = (Inr k, g')"
    and "lm_wf (ge_leases gov)" and "quiet fx" and "sc_port st = None \<or> durable_ok H st"
    and "trace_valid tr" and "guard = None \<or> guard_inv H (the guard)"
  shows "lm_wf (ge_leases (kr_governance (kernel_run H M calls k))) \<and>
    quiet (kr_effects (kernel_run H M calls k)) \<and>
    (sc_port (kr_state (kernel_run H M calls k)) = None \<or>
       durable_ok H (kr_state (kernel_run H M calls k))) \<and>
    trace_chain_is_valid (tc_events (kr_trace (kernel_run H M calls k))) \<and>
    (kr_identity (kernel_run H M calls k) = None \<or>
       guard_inv H (the (kr_identity (kernel_run H M calls k))))"
proof -
  have "kernel_ok H k"
    using assms(4,6) by (intro new_runtime_ok [OF assms(1-3) _ assms(5)]) (auto simp: core_ok_def)
  then have "kernel_ok H (kernel_run H M calls k)" by (rule kernel_run_ok)
  then show ?thesis
    by (cases "kr_identity (kernel_run H M calls k)") (auto simp: kernel_ok_parts core_ok_def trace_valid_def)
qed

text \<open>Without an identity guard the check before an action passes and leaves the kernel alone.\<close>

lemma pre_action_unguarded:
  "kr_identity k = None \<Longrightarrow> identity_pre_action H p k = (Inr None, k)"
  by (simp add: identity_pre_action_def require_identity_def sanitize_context_def on_identity_def py_simps)

text \<open>
  C8: replay. Once an action was answered proven, any later proposal with its idempotency key is
  decided by the identity check alone, whatever happened in between. If the check raises or
  denies, that is the answer; otherwise it is the stored result, or a conflict when another
  action is named. Nothing but the identity guard changes (its log, and a run it puts on hold);
  a runtime without a guard is left exactly as it was and gives the stored result or the conflict.
\<close>

theorem replay_answers_stored_result:
  assumes "execute H M ck p k = (Inr r, k1)" and "kernel_ok H k"
    and "er_authorized r" and "er_effected r" and "er_proven r"
    and "Option.bind (ap_idempotency_key p) (map_of (kr_completed k)) = None"
    and "ap_idempotency_key p' = ap_idempotency_key p"
    and "execute H M ck' p' (kernel_run H M calls k1) = (r', k')"
  shows "(\<exists>check. identity_pre_action H p' (kernel_run H M calls k1) = (check, k') \<and>
      r' = (case check of Inl x \<Rightarrow> Inl x | Inr (Some denial) \<Rightarrow> Inr denial
            | Inr None \<Rightarrow> Inr (if ap_action_id p' = ap_action_id p then r
                 else exec_result False False True ''idempotency_conflict'' Decision_DENY
                        (ap_trace_id p')))) \<and>
    (\<exists>g. k' = (kernel_run H M calls k1)\<lparr>kr_identity := g\<rparr>) \<and>
    (kr_identity (kernel_run H M calls k1) = None \<longrightarrow>
       k' = kernel_run H M calls k1 \<and>
       r' = Inr (if ap_action_id p' = ap_action_id p then r
                 else exec_result False False True ''idempotency_conflict'' Decision_DENY
                        (ap_trace_id p')))"
proof -
  let ?K = "kernel_run H M calls k1"
  let ?stored = "if ap_action_id p' = ap_action_id p then r
     else exec_result False False True ''idempotency_conflict'' Decision_DENY (ap_trace_id p')"
  obtain key where key: "ap_idempotency_key p = Some key"
    "map_of (kr_completed k1) key = Some (ap_action_id p, r)"
    using execute_proven [OF assms(1-6)] by blast
  have stored: "Option.bind (ap_idempotency_key p') (map_of (kr_completed ?K)) = Some (ap_action_id p, r)"
    using kernel_run_stored [OF key(2)] assms(7) key(1) by simp
  have check: "\<exists>check. identity_pre_action H p' ?K = (check, k') \<and>
      r' = (case check of Inl x \<Rightarrow> Inl x | Inr (Some denial) \<Rightarrow> Inr denial | Inr None \<Rightarrow> Inr ?stored)"
    using assms(8)
  proof (cases rule: execute_cases)
    case (1 x)
    then show ?thesis by simp
  next
    case (2 f)
    then show ?thesis by simp
  next
    case (3 k2 a res)
    then show ?thesis using stored by auto
  qed (use stored in simp_all)
  then obtain c where c: "identity_pre_action H p' ?K = (c, k')" by blast
  have "\<exists>g. k' = ?K\<lparr>kr_identity := g\<rparr>"
    using identity_pre_action_guard_only [THEN stepsD, OF c] by (auto simp: guard_only_def)
  then show ?thesis using check pre_action_unguarded [of ?K H p'] by auto
qed


lemma on_identity_Inr:
  assumes "on_identity f k = (Inr y, k')" and "kr_identity k = Some g"
  obtains run x g' where "kr_run_id k = Some run" "f run g = (Inr x, g')"
    "k' = k\<lparr>kr_identity := Some g'\<rparr>"
  using assms by (auto simp: on_identity_def split: option.splits prod.splits sum.splits)

lemma sanitize_guard_clean:
  assumes "sanitize_guard H ocs h items r g = (Inr x, g')"
  shows "\<not> ca_identity_conflict (assess_context ocs items)"
  using assms
  by (auto simp: sanitize_guard_def Let_def py_bind_Inr py_raise_run split: if_splits)

text \<open>
  C10: an institutional runtime acts only as the OCS it is bound to. If an execution under an
  identity guard changed the world, then the guard held, before it, a valid binding of this run
  that agrees with the institutional profile, names the proposal's OCS and, when the runtime has
  a host, that host; and the typed context held nothing that conflicts with that identity.
\<close>

theorem institutional_effect_needs_identity:
  assumes "execute H M ck p k = (r, k')" and "kr_effects k' \<noteq> kr_effects k"
    and "kr_identity k = Some g"
  shows "\<exists>run b. kr_run_id k = Some run \<and> binding_for g run = Some b \<and>
    ab_status b = Id_VALID \<and> ab_ocs_id b = ap_ocs p \<and> kr_host k = Some (ab_host b) \<and>
    validate_profile_binding (ig_profiles g) b = Inr () \<and>
    \<not> ca_identity_conflict (assess_context (ap_ocs p) (kr_context_items k))"
proof -
  obtain k1 where pre: "identity_pre_action H p k = (Inr None, k1)"
    using execute_effect [OF assms(1,2)] by metis
  then obtain u k2 where req: "require_identity H (ap_ocs p) PRE_ACTION k = (Inr u, k2)"
    and san: "sanitize_context H (ap_ocs p) k2 = (Inr (), k1)"
    by (auto simp: identity_pre_action_def py_try_Inr py_bind_Inr py_return_run py_raise_run
        split: if_splits)
  obtain h y where h: "kr_host k = Some h"
    and on: "on_identity (\<lambda>run_id. require_valid H run_id (ap_ocs p) PRE_ACTION (Some h)) k = (Inr y, k2)"
    using req assms(3)
    by (auto simp: require_identity_def py_bind_Inr py_gets_run py_return_run py_raise_run
        split: if_splits)
  obtain run b g2 where run: "kr_run_id k = Some run"
    and v: "require_valid H run (ap_ocs p) PRE_ACTION (Some h) g = (Inr b, g2)"
    and k2: "k2 = k\<lparr>kr_identity := Some g2\<rparr>"
    using on_identity_Inr [OF on assms(3)] .
  have b: "binding_for g run = Some b \<and> ab_status b = Id_VALID \<and>
     validate_profile_binding (ig_profiles g) b = Inr () \<and>
     ab_ocs_id b = ap_ocs p \<and> Some h \<in> {None, Some (ab_host b)}"
    using require_valid_Inr [of H run "ap_ocs p" PRE_ACTION "Some h" g b] v by simp
  obtain z where on2: "on_identity (sanitize_guard H (ap_ocs p) (kr_host k2) (kr_context_items k2)) k2
      = (Inr z, k1)"
    using san by (auto simp: sanitize_context_def py_bind_Inr py_gets_run py_return_run)
  have "kr_identity k2 = Some g2" by (simp add: k2)
  then obtain run2 x2 g3 where
    "sanitize_guard H (ap_ocs p) (kr_host k2) (kr_context_items k2) run2 g2 = (Inr x2, g3)"
    using on_identity_Inr [OF on2] by metis
  then have "\<not> ca_identity_conflict (assess_context (ap_ocs p) (kr_context_items k2))"
    by (rule sanitize_guard_clean)
  then show ?thesis using b run h by (auto simp: k2)
qed

end
