(* ===== verification/Kernel_Samples.thy ===== *)
theory Kernel_Samples
  imports Kernel_Histories
begin

text \<open>
  Concrete executions: the properties of the runtime applied to a runtime bound to an identity,
  and two executions that show where the code does not do what it means to.
\<close>
 

definition kernel_lease :: authority_lease where
  "kernel_lease = sample_lease\<lparr>al_scope := [''c'']\<rparr>"

definition kernel_proposal :: action_proposal where
  "kernel_proposal = sample_proposal\<lparr>ap_scope := [''c'']\<rparr>"

definition kernel_governance :: governance where
  "kernel_governance = sample_governance
     \<lparr>ge_leases := lease_run [Call_issue 2 kernel_lease] new_lease_manager\<rparr>"

definition memory_core :: state_core where
  "memory_core = \<lparr> sc_records = [], sc_current = [], sc_port = None \<rparr>"

definition kernel_sample :: "int effects \<Rightarrow> state_core \<Rightarrow> identity_guard option \<Rightarrow> int kernel" where
  "kernel_sample fx core guard = \<lparr> kr_governance = kernel_governance,
     kr_effects = fx, kr_state = core,
     kr_trace = new_trace_core, kr_recovery = None, kr_seq = 1, kr_completed = [],
     kr_identity = guard, kr_run_id = Some ''r'', kr_active_ocs = Some ''A'',
     kr_host = Some ''h'', kr_session_context = Some ''c'', kr_context_items = [] \<rparr>"

definition kernel_times :: kernel_clock where
  "kernel_times = \<lparr> ck_authorize = (3, 3, 3), ck_reserve = (4, 4), ck_guard = (5, 5) \<rparr>"

definition institutional_sample :: "int kernel" where
  "institutional_sample = kernel_sample (counting_effects 0) memory_core (Some sample_guard)"

lemma institutional_ok: "kernel_ok sample_digest institutional_sample"
proof -
  have "guard_inv sample_digest sample_guard"
    unfolding sample_guard_def by (intro guard_run_inv guard_inv_new) (simp_all add: log_consistent_empty chain_is_valid_def)
  moreover have "lm_wf (lease_run [Call_issue 2 kernel_lease] new_lease_manager)"
    by (rule lease_run_wf [OF lm_wf_new])
  ultimately show ?thesis
    by (simp add: kernel_ok_def institutional_sample_def kernel_sample_def kernel_governance_def
        memory_core_def new_trace_core_def trace_valid_def trace_chain_is_valid_def quiet_def
        counting_effects_eval)
qed

lemma institutional_execution:
  "case execute sample_digest sample_mac kernel_times kernel_proposal institutional_sample of
     (Inr r, k') \<Rightarrow> er_authorized r \<and> er_effected r \<and> er_proven r \<and> fx_world (kr_effects k') = 1
   | _ \<Rightarrow> False"
  by code_simp

lemma institutional_run:
  obtains r k' where
    "execute sample_digest sample_mac kernel_times kernel_proposal institutional_sample = (Inr r, k')"
    "er_authorized r" "er_effected r" "er_proven r"
    "kr_effects k' \<noteq> kr_effects institutional_sample"
proof -
  obtain y k' where run: "execute sample_digest sample_mac kernel_times kernel_proposal
      institutional_sample = (y, k')" by fastforce
  have "fx_world (kr_effects institutional_sample) = 0"
    by (simp add: institutional_sample_def kernel_sample_def counting_effects_eval)
  then show thesis
    using institutional_execution run by (cases y) (auto intro: that)
qed

lemma institutional_fields: "ap_idempotency_key kernel_proposal = Some ''k''"
  "kr_completed institutional_sample = []" "kr_identity institutional_sample = Some sample_guard"
  by (simp_all add: kernel_proposal_def sample_proposal_def institutional_sample_def kernel_sample_def)

theorem effect_only_through_governance_witness:
  "\<exists>i key n k'. snd (execute sample_digest sample_mac kernel_times kernel_proposal institutional_sample) = k' \<and>
     reservation_of (ge_leases (kr_governance k')) i key = Some (ap_action_id kernel_proposal, n)"
proof (rule institutional_run)
  fix r k'
  assume run: "execute sample_digest sample_mac kernel_times kernel_proposal institutional_sample = (Inr r, k')"
    and "kr_effects k' \<noteq> kr_effects institutional_sample"
  from effect_only_through_governance [OF this(1) institutional_ok this(2)] show ?thesis
    by (auto simp: run)
qed

theorem proven_effect_is_committed_witness:
  "\<exists>s. sc_current_record ''A'' (kr_state (snd (execute sample_digest sample_mac kernel_times
       kernel_proposal institutional_sample))) = Inr (Some s) \<and> sr_verified s"
proof (rule institutional_run)
  fix r k'
  assume run: "execute sample_digest sample_mac kernel_times kernel_proposal institutional_sample = (Inr r, k')"
    and r: "er_authorized r" "er_effected r" "er_proven r"
  have "ap_ocs kernel_proposal = ''A''" by (simp add: kernel_proposal_def sample_proposal_def)
  then show ?thesis
    using proven_effect_is_committed [OF run institutional_ok r]
    by (auto simp: run institutional_fields)
qed

lemma kernel_effects_of_guard: "kr_effects (k\<lparr>kr_identity := g\<rparr>) = kr_effects k"
  by simp

theorem replay_answers_stored_result_witness:
  "\<exists>k1. k1 = snd (execute sample_digest sample_mac kernel_times kernel_proposal institutional_sample) \<and>
     kr_effects (snd (execute sample_digest sample_mac kernel_times
       (kernel_proposal\<lparr>ap_action_id := ''b''\<rparr>)
       (kernel_run sample_digest sample_mac [Replace_context []] k1)))
     = kr_effects (kernel_run sample_digest sample_mac [Replace_context []] k1)"
proof (rule institutional_run)
  fix r k'
  assume run: "execute sample_digest sample_mac kernel_times kernel_proposal institutional_sample = (Inr r, k')"
    and r: "er_authorized r" "er_effected r" "er_proven r"
  have "Option.bind (ap_idempotency_key kernel_proposal) (map_of (kr_completed institutional_sample)) = None"
    by (simp add: institutional_fields)
  from replay_answers_stored_result [OF run institutional_ok r this, of "kernel_proposal\<lparr>ap_action_id := ''b''\<rparr>"
      kernel_times "[Replace_context []]"]
  show ?thesis by (simp add: run) (metis prod.collapse kernel_effects_of_guard)
qed

theorem institutional_effect_needs_identity_witness:
  "\<exists>run b. binding_for sample_guard run = Some b \<and> ab_ocs_id b = ap_ocs kernel_proposal"
proof (rule institutional_run)
  fix r k'
  assume run: "execute sample_digest sample_mac kernel_times kernel_proposal institutional_sample = (Inr r, k')"
    and eff: "kr_effects k' \<noteq> kr_effects institutional_sample"
  show ?thesis
    using institutional_effect_needs_identity [OF run eff institutional_fields(3)] by blast
qed

theorem runtime_invariant_witness:
  "\<exists>k g. new_runtime sample_digest 1 kernel_governance (counting_effects 0) memory_core new_trace_core
      None None None None None None False [] = (Inr k, g) \<and>
     trace_chain_is_valid (tc_events (kr_trace (kernel_run sample_digest sample_mac
       [Execute kernel_times kernel_proposal, Execute kernel_times kernel_proposal] k)))"
proof -
  obtain k where new: "new_runtime sample_digest 1 kernel_governance (counting_effects 0) memory_core
      new_trace_core None None None None None None False [] = (Inr k, None)"
    by (simp add: new_runtime_def)
  have "lm_wf (ge_leases kernel_governance)"
    by (simp add: kernel_governance_def lease_run_wf [OF lm_wf_new])
  then show ?thesis
    using runtime_invariant [OF new, of sample_mac
        "[Execute kernel_times kernel_proposal, Execute kernel_times kernel_proposal]"] new
    by (simp add: quiet_def counting_effects_eval memory_core_def new_trace_core_def trace_valid_def
        trace_chain_is_valid_def)
qed

text \<open>An adapter whose readback raises a \<^verbatim>\<open>ValueError\<close> after its mutation.\<close>

definition misread_adapter :: "int adapter" where
  "misread_adapter = sample_adapter\<lparr>ad_id := 3, ad_readback := (\<lambda>i w. (Inl (ValueError ''bad''), w))\<rparr>"

definition misread_effects :: "int effects" where
  "misread_effects = effect_run [Fx_register ''c'' misread_adapter None]
     \<lparr> fx_broker = new_broker, fx_completed = [], fx_world = 0 \<rparr>"

text \<open>
  An effect that is reported as not having happened. The effector turns only a
  \<^verbatim>\<open>RuntimeError\<close> of the readback into an effect failure; a \<^verbatim>\<open>ValueError\<close> leaves it as
  it is, and \<^verbatim>\<open>execute\<close> takes it for a refusal: the world was changed, the result says denied,
  not effected, nothing residual, and proven.
\<close>

lemma readback_value_error_hides_effect:
  "case execute sample_digest sample_mac kernel_times kernel_proposal
      (kernel_sample misread_effects memory_core None) of
     (Inr r, k') \<Rightarrow> fx_world (kr_effects k') = 1 \<and> \<not> er_effected r \<and> er_proven r \<and>
       \<not> er_residual_effect r \<and> er_decision r = Some Decision_DENY
   | _ \<Rightarrow> False"
  by code_simp

definition second_proposal :: action_proposal where
  "second_proposal = kernel_proposal\<lparr>ap_action_id := ''b'', ap_idempotency_key := Some ''k2''\<rparr>"

text \<open>
  A restart loses the counter that names the states. A second runtime over the same durable
  state core starts its counter at 1 again and gives its first state the identifier that the
  first runtime's first state has: the database refuses the row, the
  \<^verbatim>\<open>sqlite3.IntegrityError\<close> leaves \<^verbatim>\<open>execute\<close>, and the effect has happened.
\<close>

lemma second_runtime_reuses_state_id:
  "case execute sample_digest sample_mac kernel_times kernel_proposal
      (kernel_sample (counting_effects 0) empty_durable_core None) of
     (first, k1) \<Rightarrow>
       (case new_runtime sample_digest 4 (kr_governance k1) (kr_effects k1) (kr_state k1)
          (kr_trace k1) None None None None None None False [] of
          (Inr k2, _) \<Rightarrow>
            (case execute sample_digest sample_mac kernel_times second_proposal k2 of
               (Inl (IntegrityError m), k3) \<Rightarrow>
                 (case first of Inr r \<Rightarrow> er_proven r | _ \<Rightarrow> False) \<and>
                 fx_world (kr_effects k3) = 2 \<and> kr_state k3 = kr_state k1
             | _ \<Rightarrow> False)
        | _ \<Rightarrow> False)"
  by code_simp

end
