(* ===== verification/Handoff.thy ===== *)
theory Handoff
  imports Identity Kernel_Contracts
begin

text \<open>
  \<^verbatim>\<open>app/universal_kernel/handoff.py\<close> and \<^verbatim>\<open>app/universal_kernel/ports.py\<close>: the identity
  handoff between two guards, the handoff router, the registry of activations and the checks on
  an update of the local practice.
\<close>


section \<open>Receipts\<close>

record handoff_identity_receipt =
  hi_handoff_id :: string
  hi_sender_run_id :: string
  hi_sender_ocs_canonical_name :: string
  hi_sender_ocs_id :: string
  hi_sender_host :: string
  hi_receiver_ocs_canonical_name :: string
  hi_receiver_ocs_id :: string
  hi_receiver_host_if_known :: "string option"
  hi_object_ref :: string
  hi_authorized_next_scope :: "string list"
  hi_authority_ref :: string
  hi_sender_identity_binding_hash :: string
  hi_identity_transfer :: bool
  hi_authority_transfer :: bool
  hi_cross_ocs_memory_import :: bool

text \<open>\<^verbatim>\<open>executable_authority_ref\<close> has the type \<^verbatim>\<open>None\<close>.\<close>

record handoff_identity_acceptance =
  hx_handoff_id :: string
  hx_receiver_binding :: active_binding
  hx_authorized_next_scope :: "string list"
  hx_source_authority_ref :: string
  hx_executable_authority_ref :: unit

section \<open>The gate\<close>

text \<open>The receipt \<^verbatim>\<open>issue\<close> builds from the sender's binding.\<close>

definition identity_receipt_of ::
    "digest \<Rightarrow> active_binding \<Rightarrow> string \<Rightarrow> string \<Rightarrow> string \<Rightarrow> string option \<Rightarrow> string \<Rightarrow> string list
       \<Rightarrow> string \<Rightarrow> handoff_identity_receipt" where
  "identity_receipt_of H b run_id handoff_id receiver_ocs receiver_host_if_known object_ref
       authorized_next_scope authority_ref =
     \<lparr> hi_handoff_id = handoff_id, hi_sender_run_id = run_id,
       hi_sender_ocs_canonical_name = ab_ocs_canonical_name b,
       hi_sender_ocs_id = ab_ocs_id b, hi_sender_host = ab_host b,
       hi_receiver_ocs_canonical_name = receiver_ocs, hi_receiver_ocs_id = receiver_ocs,
       hi_receiver_host_if_known = receiver_host_if_known, hi_object_ref = object_ref,
       hi_authorized_next_scope = authorized_next_scope, hi_authority_ref = authority_ref,
       hi_sender_identity_binding_hash = binding_hash H b,
       hi_identity_transfer = False, hi_authority_transfer = False,
       hi_cross_ocs_memory_import = False \<rparr>"

definition issue_identity_handoff ::
    "digest \<Rightarrow> string \<Rightarrow> string \<Rightarrow> string \<Rightarrow> string \<Rightarrow> string \<Rightarrow> string option \<Rightarrow> string \<Rightarrow> string list
       \<Rightarrow> string \<Rightarrow> (identity_guard, handoff_identity_receipt) py" where
  "issue_identity_handoff H run_id handoff_id sender_ocs sender_host receiver_ocs
       receiver_host_if_known object_ref authorized_next_scope authority_ref =
     (if handoff_id = [] \<or> object_ref = [] \<or> authorized_next_scope = [] then
        py_raise (ValueError ''handoff_identity_fields_required'')
      else
        py_bind (require_valid H run_id sender_ocs PRE_HANDOFF (Some sender_host)) (\<lambda>binding.
        let receipt = identity_receipt_of H binding run_id handoff_id receiver_ocs
              receiver_host_if_known object_ref authorized_next_scope authority_ref
        in py_bind (guard_log H ''HANDOFF_IDENTITY_RECEIPT'' binding
             (PyDict [(''handoff_id'', PyStr handoff_id),
                      (''receiver_ocs'', PyStr receiver_ocs),
                      (''object_ref'', PyStr object_ref),
                      (''authorized_next_scope'', py_strs authorized_next_scope),
                      (''identity_transfer'', PyBool False),
                      (''authority_transfer'', PyBool False),
                      (''cross_ocs_memory_import'', PyBool False)])) (\<lambda>_.
           py_return receipt)))"

text \<open>What \<^verbatim>\<open>accept\<close> checks before it binds the receiver, in the code's order.\<close>

definition check_receipt ::
    "handoff_identity_receipt \<Rightarrow> string \<Rightarrow> string \<Rightarrow> unit res" where
  "check_receipt r receiver_ocs receiver_host =
     (if hi_identity_transfer r then Inl (ValueError ''handoff_identity_transfer_prohibited'')
      else if hi_authority_transfer r then
        Inl (ValueError ''handoff_authority_transfer_prohibited'')
      else if hi_cross_ocs_memory_import r then
        Inl (ValueError ''cross_ocs_memory_import_prohibited'')
      else if receiver_ocs \<noteq> hi_receiver_ocs_id r then
        Inl (ValueError ''handoff_receiver_mismatch'')
      else if hi_receiver_host_if_known r \<noteq> None \<and>
              Some receiver_host \<noteq> hi_receiver_host_if_known r then
        Inl (ValueError ''handoff_receiver_host_mismatch'')
      else Inr ())"

definition check_sender :: "digest \<Rightarrow> handoff_identity_receipt \<Rightarrow> identity_log \<Rightarrow> unit res" where
  "check_sender H r sender_log =
     (case recover_current_binding H sender_log (hi_sender_run_id r) of
        Inl x \<Rightarrow> Inl x
      | Inr None \<Rightarrow> Inl (ValueError ''handoff_sender_identity_binding_required'')
      | Inr (Some b) \<Rightarrow>
          if ab_ocs_id b \<noteq> hi_sender_ocs_id r then
            Inl (ValueError ''handoff_sender_identity_mismatch'')
          else if ab_ocs_canonical_name b \<noteq> hi_sender_ocs_canonical_name r then
            Inl (ValueError ''handoff_sender_canonical_name_mismatch'')
          else if ab_host b \<noteq> hi_sender_host r then
            Inl (ValueError ''handoff_sender_host_mismatch'')
          else if binding_hash H b \<noteq> hi_sender_identity_binding_hash r then
            Inl (ValueError ''handoff_sender_identity_provenance_mismatch'')
          else Inr ())"

text \<open>The state is the receiver's guard; the sender's log is only read.\<close>

definition accept_identity_handoff ::
    "digest \<Rightarrow> pytime \<Rightarrow> handoff_identity_receipt \<Rightarrow> identity_log \<Rightarrow> string \<Rightarrow> string \<Rightarrow> string
       \<Rightarrow> string \<Rightarrow> (identity_guard, handoff_identity_acceptance) py" where
  "accept_identity_handoff H now r sender_log receiver_run_id receiver_ocs receiver_host
       session_context =
     py_bind (py_lift (check_receipt r receiver_ocs receiver_host)) (\<lambda>_.
     py_bind (py_lift (check_sender H r sender_log)) (\<lambda>_.
     py_bind (bind_active_identity H now receiver_run_id receiver_ocs receiver_host session_context)
       (\<lambda>b.
     py_bind (guard_log H ''HANDOFF_ACCEPTED_WITH_NEW_IDENTITY_BINDING'' b
                (PyDict [(''handoff_id'', PyStr (hi_handoff_id r)),
                         (''sender_ocs'', PyStr (hi_sender_ocs_id r)),
                         (''object_ref'', PyStr (hi_object_ref r)),
                         (''source_authority_ref'', PyStr (hi_authority_ref r)),
                         (''executable_authority_ref'', PyNone)])) (\<lambda>_.
     py_return \<lparr> hx_handoff_id = hi_handoff_id r, hx_receiver_binding = b,
                 hx_authorized_next_scope = hi_authorized_next_scope r,
                 hx_source_authority_ref = hi_authority_ref r,
                 hx_executable_authority_ref = () \<rparr>))))"

section \<open>Ports\<close>

record pi_activation =
  pa_pi_id :: string
  pa_ocs :: string
  pa_active :: bool

type_synonym pi_registry = "(string \<times> pi_activation) list"

definition set_activation :: "pi_activation \<Rightarrow> pi_registry \<Rightarrow> pi_registry" where
  "set_activation a = dset (pa_pi_id a) a"

definition pi_is_active :: "pi_registry \<Rightarrow> string \<Rightarrow> string \<Rightarrow> bool" where
  "pi_is_active items pi_id ocs =
     (case map_of items pi_id of None \<Rightarrow> False | Some a \<Rightarrow> pa_ocs a = ocs \<and> pa_active a)"

definition router_close ::
    "string \<Rightarrow> string \<Rightarrow> string \<Rightarrow> string \<Rightarrow> string list \<Rightarrow> string list \<Rightarrow> string \<Rightarrow> handoff_receipt" where
  "router_close receipt_id source_ocs target_ocs state_ref context_refs evidence_refs
       source_authority_ref =
     \<lparr> hr_receipt_id = receipt_id, hr_source_ocs = source_ocs, hr_target_ocs = target_ocs,
       hr_state_ref = state_ref, hr_authority_transferred = False,
       hr_context_refs = context_refs, hr_evidence_refs = evidence_refs,
       hr_source_authority_ref = '''' \<rparr>"

definition router_accept :: "handoff_receipt \<Rightarrow> string \<Rightarrow> handoff_acceptance res" where
  "router_accept r receiver_ocs =
     (if receiver_ocs \<noteq> hr_target_ocs r then Inl (ValueError ''handoff_receiver_mismatch'')
      else if hr_authority_transferred r \<or> hr_source_authority_ref r \<noteq> [] then
        Inl (ValueError ''handoff_authority_material_detected'')
      else
        Inr \<lparr> ha_handoff_id = hr_handoff_id r, ha_receiver_ocs = receiver_ocs,
              ha_context_refs = hr_context_refs r, ha_evidence_refs = hr_evidence_refs r,
              ha_executable_authority_ref = None \<rparr>)"

definition validate_lpe_update :: "lpe_update \<Rightarrow> unit res" where
  "validate_lpe_update u =
     (if lu_changes_authority u then Inl (ValueError ''lpe_authority_expansion_prohibited'')
      else if lu_changes_constitution u then
        Inl (ValueError ''lpe_constitution_mutation_prohibited'')
      else if lu_imports_autobiography_from_ocs u \<noteq> None \<and>
              lu_imports_autobiography_from_ocs u \<noteq> Some (lu_ocs u) then
        Inl (ValueError ''cross_ocs_autobiography_import_prohibited'')
      else Inr ())"

section \<open>What crosses a handoff\<close>

lemma check_receipt_Inr:
  "check_receipt r ocs h = Inr () \<longleftrightarrow>
     \<not> hi_identity_transfer r \<and> \<not> hi_authority_transfer r \<and> \<not> hi_cross_ocs_memory_import r \<and>
     ocs = hi_receiver_ocs_id r \<and> hi_receiver_host_if_known r \<in> {None, Some h}"
  by (auto simp: check_receipt_def)

lemma recover_current_binding_Some:
  "recover_current_binding H l run = Inr (Some b) \<longleftrightarrow>
     chain_is_valid H l \<and> last_logged run l = Some b \<and> ab_status b \<noteq> Id_HOLD"
  by (auto simp: recover_current_binding_def last_logged_def binding_from_event_def Let_def
      split: option.splits)

lemma check_sender_Inr:
  "check_sender H r l = Inr () \<longleftrightarrow>
     (\<exists>b. chain_is_valid H l \<and> last_logged (hi_sender_run_id r) l = Some b \<and>
        ab_status b \<noteq> Id_HOLD \<and> ab_ocs_id b = hi_sender_ocs_id r \<and>
        ab_ocs_canonical_name b = hi_sender_ocs_canonical_name r \<and>
        ab_host b = hi_sender_host r \<and>
        binding_hash H b = hi_sender_identity_binding_hash r)"
proof -
  have "check_sender H r l = Inr () \<longleftrightarrow>
     (\<exists>b. recover_current_binding H l (hi_sender_run_id r) = Inr (Some b) \<and>
        ab_ocs_id b = hi_sender_ocs_id r \<and>
        ab_ocs_canonical_name b = hi_sender_ocs_canonical_name r \<and>
        ab_host b = hi_sender_host r \<and>
        binding_hash H b = hi_sender_identity_binding_hash r)"
    by (auto simp: check_sender_def split: sum.splits option.splits)
  then show ?thesis by (simp add: recover_current_binding_Some)
qed

lemma bind_active_identity_Inr:
  "bind_active_identity H now run ocs h ctx g = (Inr b, g') \<longleftrightarrow>
     run \<noteq> [] \<and> h \<noteq> [] \<and> ctx \<noteq> [] \<and>
     (\<exists>p. map_of (ig_profiles g) ocs = Some p \<and> b = binding_of_profile p run h ctx now \<and>
        g' = g\<lparr>ig_bindings := dset run b (ig_bindings g),
               ig_log := audit_append H ''BIND_ACTIVE_IDENTITY'' b (PyDict []) (ig_log g)\<rparr>)"
  by (auto simp: bind_active_identity_def guard_simps Let_def split: option.splits)


lemma accept_identity_handoff_Inr:
  "accept_identity_handoff H now r sl run ocs host ctx g = (Inr a, g') \<longleftrightarrow>
     check_receipt r ocs host = Inr () \<and> check_sender H r sl = Inr () \<and>
     (\<exists>b g1. bind_active_identity H now run ocs host ctx g = (Inr b, g1) \<and>
        a = \<lparr> hx_handoff_id = hi_handoff_id r, hx_receiver_binding = b,
              hx_authorized_next_scope = hi_authorized_next_scope r,
              hx_source_authority_ref = hi_authority_ref r, hx_executable_authority_ref = () \<rparr> \<and>
        g' = snd (guard_log H ''HANDOFF_ACCEPTED_WITH_NEW_IDENTITY_BINDING'' b
                (PyDict [(''handoff_id'', PyStr (hi_handoff_id r)),
                         (''sender_ocs'', PyStr (hi_sender_ocs_id r)),
                         (''object_ref'', PyStr (hi_object_ref r)),
                         (''source_authority_ref'', PyStr (hi_authority_ref r)),
                         (''executable_authority_ref'', PyNone)]) g1))"
  by (auto simp: accept_identity_handoff_def py_bind_Inr py_lift_run py_return_run guard_log_def
      py_modify_run)

lemma handoff_blind:
  "fst (accept_identity_handoff H now (r\<lparr>hi_handoff_id := i, hi_object_ref := object_ref,
       hi_authorized_next_scope := scope, hi_authority_ref := authority\<rparr>) sl run ocs host ctx g) =
     map_sum id (\<lambda>x. x\<lparr>hx_handoff_id := i, hx_authorized_next_scope := scope,
         hx_source_authority_ref := authority\<rparr>)
       (fst (accept_identity_handoff H now r sl run ocs host ctx g))"
proof -
  let ?r = "r\<lparr>hi_handoff_id := i, hi_object_ref := object_ref,
       hi_authorized_next_scope := scope, hi_authority_ref := authority\<rparr>"
  have "check_receipt ?r ocs host = check_receipt r ocs host" "check_sender H ?r sl = check_sender H r sl"
    by (simp_all add: check_receipt_def check_sender_def split: sum.split option.split)
  then show ?thesis
    by (cases "check_receipt r ocs host"; cases "check_sender H r sl";
        cases "bind_active_identity H now run ocs host ctx g"; cases "fst (bind_active_identity H now run ocs host ctx g)")
      (simp_all add: accept_identity_handoff_def py_simps guard_log_def)
qed

text \<open>
  C12: what crosses an identity handoff, and what is not checked. It is accepted exactly when the
  receipt transfers neither identity, authority nor memory, is addressed to this OCS (and host,
  when it names one), and the sender's log checks and shows, as the sender's last unheld binding,
  the one whose digest the receipt carries; and then the receiver works under a fresh binding made
  from its own profile, the scope is whatever the receipt says, and there is no executable
  authority. The receipt's own identifier, object, scope and authority are bound to nothing: a
  receipt altered in these four is accepted whenever the original is, and hands over the altered
  identifier, scope and authority reference.
\<close>

theorem handoff_accept_iff:
  "(fst (accept_identity_handoff H now r sl run ocs host ctx g) = Inr a \<longleftrightarrow>
     \<not> hi_identity_transfer r \<and> \<not> hi_authority_transfer r \<and> \<not> hi_cross_ocs_memory_import r \<and>
     ocs = hi_receiver_ocs_id r \<and> hi_receiver_host_if_known r \<in> {None, Some host} \<and>
     (\<exists>b. chain_is_valid H sl \<and> last_logged (hi_sender_run_id r) sl = Some b \<and>
        ab_status b \<noteq> Id_HOLD \<and> ab_ocs_id b = hi_sender_ocs_id r \<and>
        ab_ocs_canonical_name b = hi_sender_ocs_canonical_name r \<and>
        ab_host b = hi_sender_host r \<and>
        binding_hash H b = hi_sender_identity_binding_hash r) \<and>
     run \<noteq> [] \<and> host \<noteq> [] \<and> ctx \<noteq> [] \<and>
     (\<exists>p. map_of (ig_profiles g) ocs = Some p \<and>
        a = \<lparr> hx_handoff_id = hi_handoff_id r,
              hx_receiver_binding = binding_of_profile p run host ctx now,
              hx_authorized_next_scope = hi_authorized_next_scope r,
              hx_source_authority_ref = hi_authority_ref r, hx_executable_authority_ref = () \<rparr>)) \<and>
   fst (accept_identity_handoff H now (r\<lparr>hi_handoff_id := i, hi_object_ref := object_ref,
       hi_authorized_next_scope := scope, hi_authority_ref := authority\<rparr>) sl run ocs host ctx g) =
     map_sum id (\<lambda>x. x\<lparr>hx_handoff_id := i, hx_authorized_next_scope := scope,
         hx_source_authority_ref := authority\<rparr>)
       (fst (accept_identity_handoff H now r sl run ocs host ctx g))"
proof (rule conjI [OF _ handoff_blind])
  have "fst (accept_identity_handoff H now r sl run ocs host ctx g) = Inr a \<longleftrightarrow>
      (\<exists>g'. accept_identity_handoff H now r sl run ocs host ctx g = (Inr a, g'))"
    by (metis fst_conv prod.collapse)
  then show "fst (accept_identity_handoff H now r sl run ocs host ctx g) = Inr a \<longleftrightarrow>
     \<not> hi_identity_transfer r \<and> \<not> hi_authority_transfer r \<and> \<not> hi_cross_ocs_memory_import r \<and>
     ocs = hi_receiver_ocs_id r \<and> hi_receiver_host_if_known r \<in> {None, Some host} \<and>
     (\<exists>b. chain_is_valid H sl \<and> last_logged (hi_sender_run_id r) sl = Some b \<and>
        ab_status b \<noteq> Id_HOLD \<and> ab_ocs_id b = hi_sender_ocs_id r \<and>
        ab_ocs_canonical_name b = hi_sender_ocs_canonical_name r \<and>
        ab_host b = hi_sender_host r \<and>
        binding_hash H b = hi_sender_identity_binding_hash r) \<and>
     run \<noteq> [] \<and> host \<noteq> [] \<and> ctx \<noteq> [] \<and>
     (\<exists>p. map_of (ig_profiles g) ocs = Some p \<and>
        a = \<lparr> hx_handoff_id = hi_handoff_id r,
              hx_receiver_binding = binding_of_profile p run host ctx now,
              hx_authorized_next_scope = hi_authorized_next_scope r,
              hx_source_authority_ref = hi_authority_ref r, hx_executable_authority_ref = () \<rparr>)"
    unfolding accept_identity_handoff_Inr check_receipt_Inr check_sender_Inr
      bind_active_identity_Inr by blast
qed

lemma issue_identity_handoff_Inr:
  assumes "issue_identity_handoff H run i ocs h rocs rh obj scope au g = (Inr r, g')"
  obtains b where "binding_for g run = Some b" "ab_status b = Id_VALID" "binding_for g' run = Some b"
    "r = identity_receipt_of H b run i rocs rh obj scope au"
    "guard_inv H g \<Longrightarrow> guard_inv H g'"
proof -
  obtain b g1 where v: "require_valid H run ocs PRE_HANDOFF (Some h) g = (Inr b, g1)"
    and r: "r = identity_receipt_of H b run i rocs rh obj scope au"
    and g': "g' = snd (guard_log H ''HANDOFF_IDENTITY_RECEIPT'' b
             (PyDict [(''handoff_id'', PyStr i), (''receiver_ocs'', PyStr rocs),
                      (''object_ref'', PyStr obj), (''authorized_next_scope'', py_strs scope),
                      (''identity_transfer'', PyBool False), (''authority_transfer'', PyBool False),
                      (''cross_ocs_memory_import'', PyBool False)]) g1)"
    using assms
    by (auto simp: issue_identity_handoff_def py_bind_Inr py_raise_run py_return_run Let_def
        guard_log_def py_modify_run split: if_splits)
  have b: "binding_for g run = Some b" "ab_status b = Id_VALID"
    using require_valid_Inr [of H run ocs PRE_HANDOFF "Some h" g b] v by simp_all
  have b1: "binding_for g1 run = Some b"
    using v b(1)
    by (auto simp: require_valid_def revalidate_def guard_simps hold_and_reject_def hold_identity_def
        Let_def split: option.splits sum.splits if_splits bool.splits prod.splits)
  have "guard_inv H g'" if "guard_inv H g"
    using keepsD [OF require_valid_inv that, of run ocs PRE_HANDOFF "Some h"] v b1
    by (auto simp: g' guard_simps intro!: guard_inv_log)
  then show thesis
    using b b1 r by (intro that) (auto simp: g' guard_log_def py_modify_run binding_for_def)
qed


lemma issued_receipt_fields [simp]:
  "hi_sender_run_id (identity_receipt_of H b run i rocs rh obj scope au) = run"
  "hi_sender_ocs_id (identity_receipt_of H b run i rocs rh obj scope au) = ab_ocs_id b"
  "hi_sender_ocs_canonical_name (identity_receipt_of H b run i rocs rh obj scope au)
     = ab_ocs_canonical_name b"
  "hi_sender_host (identity_receipt_of H b run i rocs rh obj scope au) = ab_host b"
  "hi_sender_identity_binding_hash (identity_receipt_of H b run i rocs rh obj scope au)
     = binding_hash H b"
  "hi_receiver_ocs_id (identity_receipt_of H b run i rocs rh obj scope au) = rocs"
  "hi_receiver_host_if_known (identity_receipt_of H b run i rocs rh obj scope au) = rh"
  "hi_authorized_next_scope (identity_receipt_of H b run i rocs rh obj scope au) = scope"
  "\<not> hi_identity_transfer (identity_receipt_of H b run i rocs rh obj scope au)"
  "\<not> hi_authority_transfer (identity_receipt_of H b run i rocs rh obj scope au)"
  "\<not> hi_cross_ocs_memory_import (identity_receipt_of H b run i rocs rh obj scope au)"
  by (simp_all add: identity_receipt_of_def)

lemma logged_binding:
  "guard_inv H g \<Longrightarrow> binding_for g run = Some b \<Longrightarrow>
     chain_is_valid H (ig_log g) \<and> last_logged run (ig_log g) = Some b"
  by (auto simp: guard_inv_def)

text \<open>
  An issued receipt is accepted by whom it names, at any later time, as long as the sender's
  own binding is the one it was issued under: the receiver gets a binding of its own profile,
  the scope that was authorised, and its other runs keep their bindings.
\<close>

lemma handoff_round_trip:
  assumes "guard_inv H g"
    and "issue_identity_handoff H run i ocs h rocs rh obj scope au g = (Inr r, g1)"
    and "binding_for (guard_run H calls g1) run = binding_for g run"
    and "map_of (ig_profiles gr) rocs = Some p"
    and "rrun \<noteq> []" and "rhost \<noteq> []" and "ctx \<noteq> []" and "rh \<in> {None, Some rhost}"
  shows "\<exists>a g'. accept_identity_handoff H now r (ig_log (guard_run H calls g1)) rrun rocs rhost ctx gr
      = (Inr a, g') \<and>
    hx_receiver_binding a = binding_of_profile p rrun rhost ctx now \<and>
    hx_authorized_next_scope a = scope \<and>
    ig_bindings g' = dset rrun (hx_receiver_binding a) (ig_bindings gr)"
proof (rule issue_identity_handoff_Inr [OF assms(2)])
  fix b
  assume b: "binding_for g run = Some b" "ab_status b = Id_VALID"
    and r: "r = identity_receipt_of H b run i rocs rh obj scope au"
    and inv: "guard_inv H g \<Longrightarrow> guard_inv H g1"
  have "guard_inv H (guard_run H calls g1)" using inv assms(1) by (intro guard_run_inv) blast
  moreover have "binding_for (guard_run H calls g1) run = Some b" using assms(3) b(1) by simp
  ultimately have "check_sender H r (ig_log (guard_run H calls g1)) = Inr ()"
    using logged_binding b(2) by (auto simp: check_sender_Inr r)
  moreover have "check_receipt r rocs rhost = Inr ()"
    using assms(8) by (auto simp: check_receipt_Inr r)
  ultimately show ?thesis
    using assms(4-7) by (auto simp: accept_identity_handoff_Inr bind_active_identity_Inr
        guard_log_def py_modify_run r)
qed

text \<open>
  A receipt goes stale with the binding it was issued under: once the sender's run is bound
  otherwise, held or rebound by any later calls, a receiver that still accepts has found two
  bindings with one digest.
\<close>

lemma stale_handoff_refused:
  assumes "guard_inv H g"
    and "issue_identity_handoff H run i ocs h rocs rh obj scope au g = (Inr r, g1)"
    and "binding_for g run = Some b" and "binding_for (guard_run H calls g1) run = Some c" and "c \<noteq> b"
    and "accept_identity_handoff H now r (ig_log (guard_run H calls g1)) rrun rocs' rhost ctx gr
      = (Inr a, g')"
  shows "collision H (json_tree (binding_data c)) (json_tree (binding_data b))"
proof (rule issue_identity_handoff_Inr [OF assms(2)])
  fix b'
  assume "binding_for g run = Some b'" and r: "r = identity_receipt_of H b' run i rocs rh obj scope au"
    and inv: "guard_inv H g \<Longrightarrow> guard_inv H g1"
  then have b': "b' = b" using assms(3) by simp
  have "guard_inv H (guard_run H calls g1)" using inv assms(1) by (intro guard_run_inv) blast
  then have "last_logged run (ig_log (guard_run H calls g1)) = Some c"
    using assms(4) logged_binding by blast
  moreover have "check_sender H r (ig_log (guard_run H calls g1)) = Inr ()"
    using assms(6) by (simp add: accept_identity_handoff_Inr)
  ultimately have "binding_hash H c = binding_hash H b" by (auto simp: check_sender_Inr r b')
  then show ?thesis
    using binding_data_tree_inject [of c b] assms(5) by (auto simp: collision_def binding_hash_def)
qed

text \<open>
  The router strips authority. Whatever authority a source names, the receipt that
  \<^verbatim>\<open>close\<close> makes carries none and its target can always accept it, getting the context and
  evidence references and nothing executable; and no receipt with authority in it, however it
  was made, is accepted by anybody.
\<close>

lemma router_strips_authority:
  "router_accept (router_close i src tgt st cs es au) tgt =
      Inr \<lparr> ha_handoff_id = i, ha_receiver_ocs = tgt, ha_context_refs = cs, ha_evidence_refs = es,
            ha_executable_authority_ref = None \<rparr> \<and>
   (router_accept r ocs = Inr a \<longleftrightarrow>
      ocs = hr_target_ocs r \<and> \<not> hr_authority_transferred r \<and> hr_source_authority_ref r = [] \<and>
      a = \<lparr> ha_handoff_id = hr_receipt_id r, ha_receiver_ocs = ocs,
            ha_context_refs = hr_context_refs r, ha_evidence_refs = hr_evidence_refs r,
            ha_executable_authority_ref = None \<rparr>)"
  by (auto simp: router_accept_def router_close_def hr_handoff_id_def)

section \<open>A handoff\<close>

lemma sample_guard_inv: "guard_inv sample_digest sample_guard"
  unfolding sample_guard_def
  by (intro guard_run_inv guard_inv_new) (simp_all add: log_consistent_empty chain_is_valid_def)

lemma sample_issue:
  "\<exists>g1. issue_identity_handoff sample_digest ''r'' ''i'' ''A'' ''h'' ''B'' None ''obj'' [''s''] ''au'' sample_guard
     = (Inr (identity_receipt_of sample_digest
          (binding_of_profile (mk_profile ''A'' ''s'' [] [] []) ''r'' ''h'' ''c'' 1)
          ''r'' ''i'' ''B'' None ''obj'' [''s''] ''au''), g1) \<and>
       binding_for g1 ''r'' = binding_for sample_guard ''r'' \<and> ig_profiles g1 = sample_profiles"
proof -
  let ?b = "binding_of_profile (mk_profile ''A'' ''s'' [] [] []) ''r'' ''h'' ''c'' 1"
  have "validate_profile_binding sample_profiles ?b = Inr ()"
    by (rule validate_own_profile) (simp add: sample_profiles_def)
  then show ?thesis
    by (simp add: issue_identity_handoff_def require_valid_def revalidate_def guard_simps
        sample_guard_eval Let_def)
qed

lemma sample_binding: "binding_for sample_guard ''r''
   = Some (binding_of_profile (mk_profile ''A'' ''s'' [] [] []) ''r'' ''h'' ''c'' 1)"
  by (simp add: sample_guard_eval binding_for_def)

lemma handoff_round_trip_witness:
  "\<exists>r g1 a g'. issue_identity_handoff sample_digest ''r'' ''i'' ''A'' ''h'' ''B'' None ''obj'' [''s''] ''au'' sample_guard
       = (Inr r, g1) \<and>
     accept_identity_handoff sample_digest 2 r (ig_log g1) ''q'' ''B'' ''h2'' ''c'' (new_guard sample_profiles [])
       = (Inr a, g') \<and> hx_authorized_next_scope a = [''s'']"
proof -
  obtain r g1 where i: "issue_identity_handoff sample_digest ''r'' ''i'' ''A'' ''h'' ''B'' None ''obj'' [''s''] ''au'' sample_guard
       = (Inr r, g1)" "binding_for g1 ''r'' = binding_for sample_guard ''r''"
    using sample_issue by blast
  have "binding_for (guard_run sample_digest [] g1) ''r'' = binding_for sample_guard ''r''"
    using i(2) by (simp add: guard_run_def)
  from handoff_round_trip [OF sample_guard_inv i(1) this, of "new_guard sample_profiles []"
      "mk_profile ''B'' ''s'' [] [] []" "''q''" "''h2''" "''c''" 2]
  have "\<exists>a g'. accept_identity_handoff sample_digest 2 r (ig_log g1) ''q'' ''B'' ''h2'' ''c''
      (new_guard sample_profiles []) = (Inr a, g') \<and> hx_authorized_next_scope a = [''s'']"
    by (auto simp: new_guard_def sample_profiles_def guard_run_def)
  with i(1) show ?thesis by blast
qed


lemma sample_digest_binding: "binding_hash sample_digest b = ''h''"
  by (simp add: binding_hash_def sample_digest_def binding_tree_get) (simp add: binding_data_def)

lemma stale_handoff_refused_witness:
  "\<exists>b c. b \<noteq> c \<and> collision sample_digest (json_tree (binding_data c)) (json_tree (binding_data b))"
proof -
  let ?b = "binding_of_profile (mk_profile ''A'' ''s'' [] [] []) ''r'' ''h'' ''c'' 1"
  let ?c = "binding_of_profile (mk_profile ''A'' ''s'' [] [] []) ''r'' ''h'' ''d'' 5"
  let ?calls = "[Call_bind 5 ''r'' ''A'' ''h'' ''d'']"
  obtain r g1 where i: "issue_identity_handoff sample_digest ''r'' ''i'' ''A'' ''h'' ''B'' None ''obj'' [''s''] ''au'' sample_guard
       = (Inr r, g1)" and r: "r = identity_receipt_of sample_digest ?b ''r'' ''i'' ''B'' None ''obj'' [''s''] ''au''"
    and g1: "ig_profiles g1 = sample_profiles"
    using sample_issue by blast
  have inv: "guard_inv sample_digest g1"
    by (rule issue_identity_handoff_Inr [OF i]) (use sample_guard_inv in simp)
  let ?l = "ig_log (guard_run sample_digest ?calls g1)"
  have c: "binding_for (guard_run sample_digest ?calls g1) ''r'' = Some ?c"
    by (simp add: guard_run_def bind_active_identity_def guard_simps g1 sample_profiles_def Let_def)
  have ne: "?c \<noteq> ?b" by (simp add: binding_of_profile_def)
  have "chain_is_valid sample_digest ?l \<and> last_logged ''r'' ?l = Some ?c"
    using logged_binding [OF guard_run_inv [OF inv] c] .
  then have "check_sender sample_digest r ?l = Inr ()"
    by (auto simp: check_sender_Inr r sample_digest_binding) (simp_all add: binding_of_profile_def)
  moreover have "check_receipt r ''B'' ''h2'' = Inr ()" by (simp add: check_receipt_Inr r)
  moreover obtain b g2 where "bind_active_identity sample_digest 7 ''q'' ''B'' ''h2'' ''c'' (new_guard sample_profiles []) = (Inr b, g2)"
    by (simp add: bind_active_identity_def guard_simps new_guard_def sample_profiles_def Let_def)
  ultimately obtain a g' where "accept_identity_handoff sample_digest 7 r ?l ''q'' ''B'' ''h2'' ''c'' (new_guard sample_profiles [])
      = (Inr a, g')"
    by (auto simp: accept_identity_handoff_Inr)
  from stale_handoff_refused [OF sample_guard_inv i sample_binding c ne this] ne [symmetric]
  show ?thesis by (intro exI [of _ ?b] exI [of _ ?c] conjI)
qed

end
