(* ===== verification/Hazel.thy ===== *)
theory Hazel
  imports Identity
begin

text \<open>
  \<^verbatim>\<open>app/universal_kernel/hazel_continuity.py\<close>: the continuity service as a transport over an
  outside world, and the two operations of the kernel on it.
\<close>
 

section \<open>The transport\<close>

text \<open>
  A transport turns a request (a JSON dictionary) into a response, over a world \<open>'w\<close>. The
  HTTP transport is built on \<open>post\<close>, what \<^verbatim>\<open>urlopen\<close> answers to a signed body; the
  network itself is a parameter.
\<close>

type_synonym json_dict = "(string \<times> pyval) list"

record 'w hazel_transport =
  ht_persist :: "json_dict \<Rightarrow> ('w, json_dict) py"
  ht_recover :: "json_dict \<Rightarrow> ('w, json_dict) py"

datatype http_outcome =
    Http_payload pyval
  | Http_undecodable
  | Http_status int string
  | Http_unreachable

record http_transport =
  hh_base_url :: string
  hh_shared_secret :: string

text \<open>\<^verbatim>\<open>s.rstrip('/')\<close>.\<close>

definition rstrip_slash :: "string \<Rightarrow> string" where
  "rstrip_slash s = rev (dropWhile (\<lambda>c. c = CHR ''/'') (rev s))"

definition new_http_transport :: "string \<Rightarrow> string \<Rightarrow> http_transport res" where
  "new_http_transport base_url shared_secret =
     (if base_url = [] \<or> shared_secret = [] then
        Inl (ValueError ''hazel_transport_configuration_required'')
      else Inr \<lparr> hh_base_url = rstrip_slash base_url, hh_shared_secret = shared_secret \<rparr>)"

text \<open>\<^verbatim>\<open>_post\<close>: the arguments of \<open>post\<close> are the URL, the body's tree and its MAC.\<close>

definition http_post ::
    "mac \<Rightarrow> (string \<Rightarrow> pyval \<Rightarrow> string \<Rightarrow> 'w \<Rightarrow> http_outcome \<times> 'w) \<Rightarrow> http_transport \<Rightarrow> string
       \<Rightarrow> json_dict \<Rightarrow> ('w, json_dict) py" where
  "http_post M post t path body = (\<lambda>w.
     if \<not> serializable (PyDict body) then (Inl (OtherError ''TypeError''), w)
     else
       (let encoded = json_tree (PyDict body)
        in case post (hh_base_url t @ path) encoded (M (hh_shared_secret t) encoded) w of
             (Http_payload (PyDict kvs), w') \<Rightarrow> (Inr kvs, w')
           | (Http_payload _, w') \<Rightarrow> (Inl (HazelIntegrationError ''hazel_invalid_response''), w')
           | (Http_undecodable, w') \<Rightarrow> (Inl (ValueError ''json''), w')
           | (Http_status code detail, w') \<Rightarrow>
               (Inl (HazelIntegrationError (''hazel_http_'' @ show_int code @ '':'' @ detail)), w')
           | (Http_unreachable, w') \<Rightarrow> (Inl (HazelIntegrationError ''hazel_unavailable''), w')))"

definition http_hazel_transport ::
    "mac \<Rightarrow> (string \<Rightarrow> pyval \<Rightarrow> string \<Rightarrow> 'w \<Rightarrow> http_outcome \<times> 'w) \<Rightarrow> http_transport
       \<Rightarrow> 'w hazel_transport" where
  "http_hazel_transport M post t =
     \<lparr> ht_persist = http_post M post t ''/v1/continuity/persist'',
       ht_recover = http_post M post t ''/v1/continuity/recover'' \<rparr>"

section \<open>Continuity\<close>

text \<open>The guard and the world behind the transport.\<close>

type_synonym 'w continuity = "identity_guard \<times> 'w"

definition on_guard :: "(identity_guard, 'a) py \<Rightarrow> ('w continuity, 'a) py" where
  "on_guard m = py_on fst (\<lambda>g s. (g, snd s)) m"

definition on_transport :: "('w, 'a) py \<Rightarrow> ('w continuity, 'a) py" where
  "on_transport m = py_on snd (\<lambda>w s. (fst s, w)) m"

text \<open>Python's truth value of a JSON value.\<close>

fun truthy :: "pyval \<Rightarrow> bool" where
  "truthy PyNone = False"
| "truthy (PyBool b) = b"
| "truthy (PyInt n) = (n \<noteq> 0)"
| "truthy (PyFloat x) = (x \<noteq> 0)"
| "truthy (PyStr s) = (s \<noteq> [])"
| "truthy (PyList xs) = (xs \<noteq> [])"
| "truthy (PyTuple xs) = (xs \<noteq> [])"
| "truthy (PyDict kvs) = (kvs \<noteq> [])"
| "truthy (PyObject _) = True"

definition dict_get :: "json_dict \<Rightarrow> string \<Rightarrow> pyval" where
  "dict_get d k = (case map_of d k of None \<Rightarrow> PyNone | Some v \<Rightarrow> v)"

definition persist_envelope ::
    "digest \<Rightarrow> active_binding \<Rightarrow> string option \<Rightarrow> string \<Rightarrow> int \<Rightarrow> pyval \<Rightarrow> string \<Rightarrow> json_dict" where
  "persist_envelope H b predecessor_hash authority_ref state_version state trace_id =
     [(''run_id'', PyStr (ab_run_id b)),
      (''ocs_id'', PyStr (ab_ocs_id b)),
      (''state_namespace'', PyStr (ab_state_namespace b)),
      (''memory_namespace'', PyStr (ab_memory_namespace b)),
      (''profile_version'', PyStr (ab_profile_version b)),
      (''binding_hash'', PyStr (binding_hash H b)),
      (''predecessor_hash'', py_opt_str predecessor_hash),
      (''authority_ref'', PyStr authority_ref),
      (''state_version'', PyInt state_version),
      (''payload'', state),
      (''trace_id'', PyStr trace_id)]"

definition check_persist_receipt :: "active_binding \<Rightarrow> json_dict \<Rightarrow> unit res" where
  "check_persist_receipt b receipt =
     (if \<not> truthy (dict_get receipt ''accepted'') then
        Inl (HazelIntegrationError ''hazel_persist_not_accepted'')
      else if dict_get receipt ''ocs_id'' \<noteq> PyStr (ab_ocs_id b) \<or>
              dict_get receipt ''state_namespace'' \<noteq> PyStr (ab_state_namespace b) then
        Inl (HazelIntegrationError ''hazel_receipt_namespace_mismatch'')
      else Inr ())"

definition hazel_persist_state ::
    "digest \<Rightarrow> 'w hazel_transport \<Rightarrow> string \<Rightarrow> string \<Rightarrow> string \<Rightarrow> string \<Rightarrow> int \<Rightarrow> string option
       \<Rightarrow> json_dict \<Rightarrow> string \<Rightarrow> ('w continuity, json_dict \<times> active_binding) py" where
  "hazel_persist_state H t run_id expected_ocs host authority_ref state_version predecessor_hash
       state trace_id =
     py_bind (on_guard (require_valid H run_id expected_ocs PRE_PERSIST (Some host))) (\<lambda>b.
     if authority_ref \<noteq> ab_authority_envelope_ref b then
       py_raise (HazelIntegrationError ''authority_ref_mismatch'')
     else
       py_bind (on_transport (ht_persist t (persist_envelope H b predecessor_hash authority_ref
         state_version (PyDict state) trace_id))) (\<lambda>receipt.
       py_bind (py_lift (check_persist_receipt b receipt)) (\<lambda>_.
       py_bind (on_guard (guard_log H ''HAZEL_PERSIST_RECEIPT'' b
         (PyDict [(''trace_id'', PyStr trace_id),
                  (''event_hash'', dict_get receipt ''event_hash''),
                  (''payload_hash'', dict_get receipt ''payload_hash''),
                  (''state_version'', PyInt state_version)]))) (\<lambda>_.
       py_return (receipt, b)))))"

definition recover_request :: "digest \<Rightarrow> active_binding \<Rightarrow> string \<Rightarrow> json_dict" where
  "recover_request H b authority_ref =
     [(''run_id'', PyStr (ab_run_id b)),
      (''ocs_id'', PyStr (ab_ocs_id b)),
      (''state_namespace'', PyStr (ab_state_namespace b)),
      (''memory_namespace'', PyStr (ab_memory_namespace b)),
      (''authority_ref'', PyStr authority_ref),
      (''binding_hash'', PyStr (binding_hash H b))]"

text \<open>
  The checks on what came back. \<open>U\<close> is \<^verbatim>\<open>sha256\<close> of the text that
  \<^verbatim>\<open>dumps(..., ensure_ascii=False)\<close> writes.
\<close>

definition check_recovered ::
    "digest \<Rightarrow> digest \<Rightarrow> active_binding \<Rightarrow> json_dict \<Rightarrow> unit res" where
  "check_recovered H U b d =
     (if dict_get d ''ocs_id'' \<noteq> PyStr (ab_ocs_id b) then
        Inl (HazelIntegrationError ''recovery_ocs_mismatch'')
      else if dict_get d ''state_namespace'' \<noteq> PyStr (ab_state_namespace b) then
        Inl (HazelIntegrationError ''recovery_namespace_mismatch'')
      else if dict_get d ''memory_namespace'' \<noteq> PyStr (ab_memory_namespace b) then
        Inl (HazelIntegrationError ''recovery_memory_namespace_mismatch'')
      else if dict_get d ''authority_ref'' \<noteq> PyStr (ab_authority_envelope_ref b) then
        Inl (HazelIntegrationError ''recovery_authority_mismatch'')
      else if dict_get d ''binding_hash'' \<noteq> PyStr (binding_hash H b) then
        Inl (HazelIntegrationError ''recovery_binding_mismatch'')
      else
        (case dict_get d ''payload'' of
           PyDict kvs \<Rightarrow>
             if \<not> serializable (PyDict kvs) then Inl (OtherError ''TypeError'')
             else if PyStr (U (json_tree (PyDict kvs))) \<noteq> dict_get d ''payload_hash'' then
               Inl (HazelIntegrationError ''recovery_payload_integrity_failure'')
             else Inr ()
         | _ \<Rightarrow> Inl (HazelIntegrationError ''recovery_payload_invalid'')))"

definition hazel_recover_state ::
    "digest \<Rightarrow> digest \<Rightarrow> 'w hazel_transport \<Rightarrow> string \<Rightarrow> string \<Rightarrow> string \<Rightarrow> string
       \<Rightarrow> ('w continuity, json_dict) py" where
  "hazel_recover_state H U t run_id expected_ocs host authority_ref =
     py_bind (on_guard (py_gets (\<lambda>g. binding_for g run_id))) (\<lambda>bound.
     py_bind (if bound = None then py_bind (on_guard (recover_state H run_id)) (\<lambda>_. py_return ())
              else py_return ()) (\<lambda>_.
     py_bind (on_guard (require_valid H run_id expected_ocs COLD_START (Some host))) (\<lambda>b.
     if authority_ref \<noteq> ab_authority_envelope_ref b then
       py_raise (HazelIntegrationError ''authority_ref_mismatch'')
     else
       py_bind (on_transport (ht_recover t (recover_request H b authority_ref))) (\<lambda>recovered.
       py_bind (py_lift (check_recovered H U b recovered)) (\<lambda>_.
       py_bind (on_guard (guard_log H ''HAZEL_RECOVERY_ACCEPTED'' b
         (PyDict [(''trace_id'', dict_get recovered ''trace_id''),
                  (''event_hash'', dict_get recovered ''event_hash''),
                  (''state_version'', dict_get recovered ''state_version'')]))) (\<lambda>_.
       py_return recovered))))))"


section \<open>What passes the boundary\<close>

lemma on_guard_Inr: "on_guard m s = (Inr x, s') \<longleftrightarrow> m (fst s) = (Inr x, fst s') \<and> snd s' = snd s"
  by (cases s; cases s') (auto simp: on_guard_def py_simps prod_eq_iff)

lemma on_transport_Inr: "on_transport m s = (Inr x, s') \<longleftrightarrow> m (snd s) = (Inr x, snd s') \<and> fst s' = fst s"
  by (cases s; cases s') (auto simp: on_transport_def py_simps prod_eq_iff)

text \<open>What is raised or returned before the transport is called leaves the world alone.\<close>

definition offline :: "('w continuity, 'a) py \<Rightarrow> bool" where
  "offline m \<longleftrightarrow> (\<forall>s. snd (snd (m s)) = snd s)"

lemma offline_guard: "offline (on_guard m)"
  by (simp add: offline_def on_guard_def py_simps)

lemma offline_bind: "offline m \<Longrightarrow> (\<And>x. offline (f x)) \<Longrightarrow> offline (py_bind m f)"
  by (auto simp: offline_def py_bind_run split: prod.split sum.split) (metis snd_conv)+

lemma offline_basic: "offline (py_return x)" "offline (py_raise e)" "offline (py_lift r)"
  by (simp_all add: offline_def py_simps)

lemma offline_run: "offline m \<Longrightarrow> m s = (r, s') \<Longrightarrow> snd s' = snd s"
  by (metis offline_def snd_conv)

lemma online_bind:
  assumes "py_bind m f s = (r, s')" and "offline m" and "snd s' \<noteq> snd s"
  obtains x u where "m s = (Inr x, u)" "f x u = (r, s')" "snd u = snd s"
  using assms by (cases "m s"; cases "fst (m s)") (auto simp: py_bind_run dest: offline_run)

lemma transport_bind:
  assumes "py_bind (on_transport m) f s = (r, s')" and "\<And>x. offline (f x)"
  shows "snd s' = snd (m (snd s))"
proof -
  obtain y w where m: "m (snd s) = (y, w)" by fastforce
  then have on: "on_transport m s = (y, (fst s, w))" by (simp add: on_transport_def py_on_run)
  show ?thesis
  proof (cases y)
    case (Inl e)
    then show ?thesis using assms(1) m on by (auto simp: py_bind_run)
  next
    case (Inr x)
    then have "f x (fst s, w) = (r, s')" using assms(1) on by (simp add: py_bind_run)
    then show ?thesis using offline_run [OF assms(2)] m by fastforce
  qed
qed

text \<open>What the guard has to hold for a call of the transport to be made.\<close>

definition admitted :: "identity_guard \<Rightarrow> string \<Rightarrow> string \<Rightarrow> string \<Rightarrow> string \<Rightarrow> active_binding \<Rightarrow> bool" where
  "admitted g run ocs host authority b \<longleftrightarrow>
     binding_for g run = Some b \<and> ab_status b = Id_VALID \<and>
     validate_profile_binding (ig_profiles g) b = Inr () \<and> ab_ocs_id b = ocs \<and> ab_host b = host \<and>
     ab_authority_envelope_ref b = authority"

lemma persist_online:
  assumes "hazel_persist_state H t run ocs host au v pred st tr (g, w) = (r, (g', w'))" and "w' \<noteq> w"
  shows "\<exists>b. admitted g run ocs host au b \<and>
    w' = snd (ht_persist t (persist_envelope H b pred au v (PyDict st) tr) w)"
proof -
  obtain b s where v: "on_guard (require_valid H run ocs PRE_PERSIST (Some host)) (g, w) = (Inr b, s)"
    and rest: "(if au \<noteq> ab_authority_envelope_ref b then
       py_raise (HazelIntegrationError ''authority_ref_mismatch'')
     else
       py_bind (on_transport (ht_persist t (persist_envelope H b pred au v (PyDict st) tr))) (\<lambda>receipt.
       py_bind (py_lift (check_persist_receipt b receipt)) (\<lambda>_.
       py_bind (on_guard (guard_log H ''HAZEL_PERSIST_RECEIPT'' b
         (PyDict [(''trace_id'', PyStr tr),
                  (''event_hash'', dict_get receipt ''event_hash''),
                  (''payload_hash'', dict_get receipt ''payload_hash''),
                  (''state_version'', PyInt v)]))) (\<lambda>_.
       py_return (receipt, b))))) s = (r, (g', w'))" and s: "snd s = w"
    using online_bind [OF assms(1) [unfolded hazel_persist_state_def] offline_guard] assms(2) by auto
  have b: "admitted g run ocs host (ab_authority_envelope_ref b) b"
    using v require_valid_Inr [of H run ocs PRE_PERSIST "Some host" g b]
    by (simp add: on_guard_Inr admitted_def)
  have au: "au = ab_authority_envelope_ref b"
    using rest s assms(2) by (auto simp: py_raise_run split: if_splits)
  have "py_bind (on_transport (ht_persist t (persist_envelope H b pred au v (PyDict st) tr))) (\<lambda>receipt.
       py_bind (py_lift (check_persist_receipt b receipt)) (\<lambda>_.
       py_bind (on_guard (guard_log H ''HAZEL_PERSIST_RECEIPT'' b
         (PyDict [(''trace_id'', PyStr tr),
                  (''event_hash'', dict_get receipt ''event_hash''),
                  (''payload_hash'', dict_get receipt ''payload_hash''),
                  (''state_version'', PyInt v)]))) (\<lambda>_.
       py_return (receipt, b)))) s = (r, (g', w'))" using rest au by simp
  from transport_bind [OF this] s
  have "w' = snd (ht_persist t (persist_envelope H b pred au v (PyDict st) tr) w)"
    by (simp add: offline_bind offline_guard offline_basic)
  then show ?thesis using b au by auto
qed

lemma recover_online:
  assumes "hazel_recover_state H U t run ocs host au (g, w) = (r, (g', w'))" and "w' \<noteq> w"
  shows "\<exists>b g1. (g1 = g \<or> (binding_for g run = None \<and> g1 = snd (recover_state H run g))) \<and>
    admitted g1 run ocs host au b \<and> w' = snd (ht_recover t (recover_request H b au) w)"
proof -
  let ?local = "\<lambda>bound. if bound = None then py_bind (on_guard (recover_state H run)) (\<lambda>_. py_return ())
      else py_return ()"
  obtain bound s0 where b0: "on_guard (py_gets (\<lambda>g. binding_for g run)) (g, w) = (Inr bound, s0)"
    and 1: "py_bind (?local bound) (\<lambda>_.
     py_bind (on_guard (require_valid H run ocs COLD_START (Some host))) (\<lambda>b.
     if au \<noteq> ab_authority_envelope_ref b then
       py_raise (HazelIntegrationError ''authority_ref_mismatch'')
     else
       py_bind (on_transport (ht_recover t (recover_request H b au))) (\<lambda>recovered.
       py_bind (py_lift (check_recovered H U b recovered)) (\<lambda>_.
       py_bind (on_guard (guard_log H ''HAZEL_RECOVERY_ACCEPTED'' b
         (PyDict [(''trace_id'', dict_get recovered ''trace_id''),
                  (''event_hash'', dict_get recovered ''event_hash''),
                  (''state_version'', dict_get recovered ''state_version'')]))) (\<lambda>_.
       py_return recovered))))) s0 = (r, (g', w'))" and s0: "snd s0 = w"
    using online_bind [OF assms(1) [unfolded hazel_recover_state_def] offline_guard] assms(2) by auto
  have g0: "bound = binding_for g run" "fst s0 = g"
    using b0 by (auto simp: on_guard_Inr py_gets_run)
  have off: "offline (?local bound)" by (simp add: offline_bind offline_guard offline_basic)
  obtain s1 where loc: "?local bound s0 = (Inr (), s1)"
    and 2: "py_bind (on_guard (require_valid H run ocs COLD_START (Some host))) (\<lambda>b.
     if au \<noteq> ab_authority_envelope_ref b then
       py_raise (HazelIntegrationError ''authority_ref_mismatch'')
     else
       py_bind (on_transport (ht_recover t (recover_request H b au))) (\<lambda>recovered.
       py_bind (py_lift (check_recovered H U b recovered)) (\<lambda>_.
       py_bind (on_guard (guard_log H ''HAZEL_RECOVERY_ACCEPTED'' b
         (PyDict [(''trace_id'', dict_get recovered ''trace_id''),
                  (''event_hash'', dict_get recovered ''event_hash''),
                  (''state_version'', dict_get recovered ''state_version'')]))) (\<lambda>_.
       py_return recovered)))) s1 = (r, (g', w'))" and s1: "snd s1 = w"
    using online_bind [OF 1 off] assms(2) s0 by auto
  have g1: "fst s1 = g \<or> (binding_for g run = None \<and> fst s1 = snd (recover_state H run g))"
    using loc g0 by (auto simp: py_bind_Inr on_guard_Inr py_return_run split: if_splits)
  obtain b s2 where v: "on_guard (require_valid H run ocs COLD_START (Some host)) s1 = (Inr b, s2)"
    and 3: "(if au \<noteq> ab_authority_envelope_ref b then
       py_raise (HazelIntegrationError ''authority_ref_mismatch'')
     else
       py_bind (on_transport (ht_recover t (recover_request H b au))) (\<lambda>recovered.
       py_bind (py_lift (check_recovered H U b recovered)) (\<lambda>_.
       py_bind (on_guard (guard_log H ''HAZEL_RECOVERY_ACCEPTED'' b
         (PyDict [(''trace_id'', dict_get recovered ''trace_id''),
                  (''event_hash'', dict_get recovered ''event_hash''),
                  (''state_version'', dict_get recovered ''state_version'')]))) (\<lambda>_.
       py_return recovered)))) s2 = (r, (g', w'))" and s2: "snd s2 = w"
    using online_bind [OF 2 offline_guard] assms(2) s1 by auto
  have au: "au = ab_authority_envelope_ref b"
    using 3 s2 assms(2) by (auto simp: py_raise_run split: if_splits)
  have b: "admitted (fst s1) run ocs host au b"
    using v require_valid_Inr [of H run ocs COLD_START "Some host" "fst s1" b] au
    by (simp add: on_guard_Inr admitted_def)
  from 3 au have "py_bind (on_transport (ht_recover t (recover_request H b au))) (\<lambda>recovered.
       py_bind (py_lift (check_recovered H U b recovered)) (\<lambda>_.
       py_bind (on_guard (guard_log H ''HAZEL_RECOVERY_ACCEPTED'' b
         (PyDict [(''trace_id'', dict_get recovered ''trace_id''),
                  (''event_hash'', dict_get recovered ''event_hash''),
                  (''state_version'', dict_get recovered ''state_version'')]))) (\<lambda>_.
       py_return recovered))) s2 = (r, (g', w'))" by simp
  from transport_bind [OF this] s2 have "w' = snd (ht_recover t (recover_request H b au) w)"
    by (simp add: offline_bind offline_guard offline_basic)
  then show ?thesis using b g1 by blast
qed


text \<open>
  Nothing is sent to the continuity service without a valid identity. If persisting or
  recovering changed the service's side, the guard held (for a recovery, possibly after
  recovering it from its own log) a valid binding of the run that agrees with the profile, the
  OCS and the host asked for, whose authority is exactly the one named; and the change is the one
  call of the transport with the envelope made from that binding.
\<close>

lemma hazel_call_needs_identity:
  assumes "w' \<noteq> w"
  shows "(hazel_persist_state H t run ocs host au v pred st tr (g, w) = (r, (g', w')) \<longrightarrow>
      (\<exists>b. admitted g run ocs host au b \<and>
         w' = snd (ht_persist t (persist_envelope H b pred au v (PyDict st) tr) w))) \<and>
    (hazel_recover_state H U t run ocs host au (g, w) = (r', (g', w')) \<longrightarrow>
      (\<exists>b g1. (g1 = g \<or> (binding_for g run = None \<and> g1 = snd (recover_state H run g))) \<and>
         admitted g1 run ocs host au b \<and> w' = snd (ht_recover t (recover_request H b au) w)))"
  using persist_online recover_online assms by (intro conjI impI)

lemma check_recovered_Inr:
  "check_recovered H U b d = Inr () \<longleftrightarrow>
     dict_get d ''ocs_id'' = PyStr (ab_ocs_id b) \<and>
     dict_get d ''state_namespace'' = PyStr (ab_state_namespace b) \<and>
     dict_get d ''memory_namespace'' = PyStr (ab_memory_namespace b) \<and>
     dict_get d ''authority_ref'' = PyStr (ab_authority_envelope_ref b) \<and>
     dict_get d ''binding_hash'' = PyStr (binding_hash H b) \<and>
     (\<exists>kvs. dict_get d ''payload'' = PyDict kvs \<and> serializable (PyDict kvs) \<and>
        dict_get d ''payload_hash'' = PyStr (U (json_tree (PyDict kvs))))"
  by (auto simp: check_recovered_def split: pyval.splits)

lemma recover_state_Inr:
  "hazel_recover_state H U t run ocs host au s = (Inr d, s') \<longleftrightarrow>
     (\<exists>b g1 g2 w2. (if binding_for (fst s) run = None
          then \<exists>c. recover_state H run (fst s) = (Inr c, g1) else g1 = fst s) \<and>
        require_valid H run ocs COLD_START (Some host) g1 = (Inr b, g2) \<and>
        au = ab_authority_envelope_ref b \<and>
        ht_recover t (recover_request H b au) (snd s) = (Inr d, w2) \<and>
        check_recovered H U b d = Inr () \<and>
        s' = (snd (guard_log H ''HAZEL_RECOVERY_ACCEPTED'' b
         (PyDict [(''trace_id'', dict_get d ''trace_id''),
                  (''event_hash'', dict_get d ''event_hash''),
                  (''state_version'', dict_get d ''state_version'')]) g2), w2))"
  (is "?L \<longleftrightarrow> ?R")
proof -
  obtain g w where s: "s = (g, w)" by fastforce
  show ?thesis
  proof (cases "binding_for g run")
    case None
    then show ?thesis
      by (cases s') (auto simp: hazel_recover_state_def py_bind_Inr on_guard_Inr on_transport_Inr
        py_gets_run py_lift_run py_return_run py_raise_run guard_log_def py_modify_run s split: if_splits)
  next
    case (Some c)
    then show ?thesis
      by (cases s') (auto simp: hazel_recover_state_def py_bind_Inr on_guard_Inr on_transport_Inr
        py_gets_run py_lift_run py_return_run py_raise_run guard_log_def py_modify_run s split: if_splits)
  qed
qed

lemma persist_state_Inr:
  "hazel_persist_state H t run ocs host au v pred st tr s = (Inr (receipt, b), s') \<longleftrightarrow>
     (\<exists>g1 w1. require_valid H run ocs PRE_PERSIST (Some host) (fst s) = (Inr b, g1) \<and>
        au = ab_authority_envelope_ref b \<and>
        ht_persist t (persist_envelope H b pred au v (PyDict st) tr) (snd s) = (Inr receipt, w1) \<and>
        check_persist_receipt b receipt = Inr () \<and>
        s' = (snd (guard_log H ''HAZEL_PERSIST_RECEIPT'' b
         (PyDict [(''trace_id'', PyStr tr),
                  (''event_hash'', dict_get receipt ''event_hash''),
                  (''payload_hash'', dict_get receipt ''payload_hash''),
                  (''state_version'', PyInt v)]) g1), w1))"
  by (cases s; cases s') (auto simp: hazel_persist_state_def py_bind_Inr on_guard_Inr on_transport_Inr
        py_gets_run py_lift_run py_return_run py_raise_run guard_log_def py_modify_run split: if_splits)

lemma recover_state_binds:
  "recover_state H run g = (Inr c, g') \<Longrightarrow> binding_for g' run = Some c"
  by (auto simp: recover_state_def guard_simps split: option.splits sum.splits)

text \<open>
  C13: what recovery admits. A recovered state is the service's one answer to a request made from
  the run's own binding: the one the guard holds for this run, or, when it holds none, the one its
  log restores for it. That binding is valid, agrees with its profile, and has the OCS, the host
  and exactly the authority asked for; the state names its OCS, namespaces, authority and digest,
  and its payload has the digest it declares. Two payloads admitted under one digest are the same,
  or a collision.
\<close>

theorem hazel_recovery_sound:
  fixes t :: "'w hazel_transport"
  assumes "hazel_recover_state H U t run ocs host au s = (Inr d, s')"
  shows "\<exists>g1 b kvs. (if binding_for (fst s) run = None then recover_state H run (fst s) = (Inr b, g1) else g1 = fst s) \<and>
    admitted g1 run ocs host au b \<and>
    ht_recover t (recover_request H b au) (snd s) = (Inr d, snd s') \<and>
    dict_get d ''ocs_id'' = PyStr ocs \<and>
    dict_get d ''state_namespace'' = PyStr (ab_state_namespace b) \<and>
    dict_get d ''memory_namespace'' = PyStr (ab_memory_namespace b) \<and>
    dict_get d ''authority_ref'' = PyStr au \<and>
    dict_get d ''binding_hash'' = PyStr (binding_hash H b) \<and>
    dict_get d ''payload'' = PyDict kvs \<and>
    dict_get d ''payload_hash'' = PyStr (U (json_tree (PyDict kvs))) \<and>
    (\<forall>(t' :: 'w hazel_transport) run' ocs' host' au' s2 d2 s2' kvs2.
       hazel_recover_state H U t' run' ocs' host' au' s2 = (Inr d2, s2') \<and>
       dict_get d2 ''payload_hash'' = dict_get d ''payload_hash'' \<and> dict_get d2 ''payload'' = PyDict kvs2 \<longrightarrow>
       json_tree (PyDict kvs2) = json_tree (PyDict kvs) \<or>
       collision U (json_tree (PyDict kvs2)) (json_tree (PyDict kvs)))"
proof -
  obtain b g1 g2 w2 where g1: "if binding_for (fst s) run = None
       then \<exists>c. recover_state H run (fst s) = (Inr c, g1) else g1 = fst s"
    and v: "require_valid H run ocs COLD_START (Some host) g1 = (Inr b, g2)"
    and au: "au = ab_authority_envelope_ref b"
    and w: "ht_recover t (recover_request H b au) (snd s) = (Inr d, w2)" "snd s' = w2"
    and d: "check_recovered H U b d = Inr ()"
    using assms unfolding recover_state_Inr by auto
  have b: "binding_for g1 run = Some b \<and> ab_status b = Id_VALID \<and>
      validate_profile_binding (ig_profiles g1) b = Inr () \<and> ab_ocs_id b = ocs \<and> ab_host b = host"
    using require_valid_Inr [of H run ocs COLD_START "Some host" g1 b] v by simp
  have own: "if binding_for (fst s) run = None then recover_state H run (fst s) = (Inr b, g1) else g1 = fst s"
    using g1 b recover_state_binds by (auto split: if_splits)
  obtain kvs where kvs: "dict_get d ''payload'' = PyDict kvs"
    "dict_get d ''payload_hash'' = PyStr (U (json_tree (PyDict kvs)))"
    using d unfolding check_recovered_Inr by blast
  have other: "json_tree (PyDict kvs2) = json_tree (PyDict kvs) \<or>
      collision U (json_tree (PyDict kvs2)) (json_tree (PyDict kvs))"
    if "hazel_recover_state H U t' run' ocs' host' au' s2 = (Inr d2, s2')"
      "dict_get d2 ''payload_hash'' = dict_get d ''payload_hash''" "dict_get d2 ''payload'' = PyDict kvs2"
    for t' :: "'w hazel_transport" and run' ocs' host' au' s2 d2 s2' kvs2
  proof -
    note reply = that(1)
    obtain b2 :: active_binding where "check_recovered H U b2 d2 = Inr ()"
      using reply unfolding recover_state_Inr by blast
    then have "U (json_tree (PyDict kvs2)) = U (json_tree (PyDict kvs))"
      using that(2,3) kvs(2) unfolding check_recovered_Inr by auto
    then show ?thesis by (rule digest_eq_or_collision)
  qed
  have adm: "admitted g1 run ocs host au b" using b au by (simp add: admitted_def)
  have fields: "ht_recover t (recover_request H b au) (snd s) = (Inr d, snd s')"
    "dict_get d ''ocs_id'' = PyStr ocs" "dict_get d ''state_namespace'' = PyStr (ab_state_namespace b)"
    "dict_get d ''memory_namespace'' = PyStr (ab_memory_namespace b)"
    "dict_get d ''authority_ref'' = PyStr au" "dict_get d ''binding_hash'' = PyStr (binding_hash H b)"
    using w d [unfolded check_recovered_Inr] b au by auto
  show ?thesis
    by (rule exI [of _ g1], rule exI [of _ b], rule exI [of _ kvs], intro conjI allI impI)
      ((rule own adm fields kvs)+, elim conjE, rule other)
qed

definition honest_reply ::
    "digest \<Rightarrow> digest \<Rightarrow> active_binding \<Rightarrow> json_dict \<Rightarrow> json_dict \<Rightarrow> bool" where
  "honest_reply H U b st d \<longleftrightarrow>
     dict_get d ''ocs_id'' = PyStr (ab_ocs_id b) \<and>
     dict_get d ''state_namespace'' = PyStr (ab_state_namespace b) \<and>
     dict_get d ''memory_namespace'' = PyStr (ab_memory_namespace b) \<and>
     dict_get d ''authority_ref'' = PyStr (ab_authority_envelope_ref b) \<and>
     dict_get d ''binding_hash'' = PyStr (binding_hash H b) \<and>
     dict_get d ''payload'' = PyDict st \<and>
     dict_get d ''payload_hash'' = PyStr (U (json_tree (PyDict st)))"

text \<open>
  Continuity across a restart. What a run persisted, a new process recovers: with a new guard
  on the identity log the old one left, and a service that answers the request with the fields
  and the payload of the envelope it was sent, recovery succeeds and returns that payload.
\<close>

lemma hazel_round_trip:
  assumes "guard_inv H g"
    and "hazel_persist_state H t run ocs host au v pred st tr (g, w) = (Inr (receipt, b), (g1, w1))"
    and "serializable (PyDict st)"
    and "ht_recover t (recover_request H b au) w1 = (Inr d, w2)" and "honest_reply H U b st d"
  shows "\<exists>g2. hazel_recover_state H U t run ocs host au (new_guard (ig_profiles g) (ig_log g1), w1)
      = (Inr d, (g2, w2)) \<and> dict_get d ''payload'' = PyDict st"
proof -
  obtain gv where v: "require_valid H run ocs PRE_PERSIST (Some host) g = (Inr b, gv)"
    and au: "au = ab_authority_envelope_ref b"
    and g1: "g1 = snd (guard_log H ''HAZEL_PERSIST_RECEIPT'' b
         (PyDict [(''trace_id'', PyStr tr),
                  (''event_hash'', dict_get receipt ''event_hash''),
                  (''payload_hash'', dict_get receipt ''payload_hash''),
                  (''state_version'', PyInt v)]) gv)"
    using assms(2) unfolding persist_state_Inr by auto
  have b: "binding_for g run = Some b" "ab_status b = Id_VALID"
    "validate_profile_binding (ig_profiles g) b = Inr ()" "ab_ocs_id b = ocs" "ab_host b = host"
    using require_valid_Inr [of H run ocs PRE_PERSIST "Some host" g b] v by simp_all
  have "ab_run_id b = run" using b(1) assms(1) by (simp add: guard_inv_def)
  moreover have "guard_inv H gv" using keepsD [OF require_valid_inv assms(1)] v by (metis snd_conv)
  ultimately have log: "chain_is_valid H (ig_log g1)" "last_logged run (ig_log g1) = Some b"
    by (auto simp: g1 guard_log_def py_modify_run last_logged_append chain_append guard_inv_def)
  let ?n = "new_guard (ig_profiles g) (ig_log g1)"
  have rec: "recover_current_binding H (ig_log g1) run = Inr (Some b)"
    using log b(2) by (simp add: recover_current_binding_def last_logged_def binding_from_event_def
        Let_def split: option.splits) auto
  obtain gr where gr: "recover_state H run ?n = (Inr b, gr)" "binding_for gr run = Some b"
    "ig_profiles gr = ig_profiles g"
    by (simp add: recover_state_def guard_simps rec b(3) new_guard_def)
  have "fst (require_valid H run ocs COLD_START (Some host) gr) = Inr b"
    using gr b by (simp add: require_valid_Inr)
  then obtain gq where q: "require_valid H run ocs COLD_START (Some host) gr = (Inr b, gq)"
    by (metis prod.collapse)
  have "check_recovered H U b d = Inr ()"
    using assms(3,5) by (simp add: check_recovered_Inr honest_reply_def)
  moreover have "binding_for ?n run = None" by (simp add: new_guard_def binding_for_def)
  ultimately have "hazel_recover_state H U t run ocs host au (?n, w1)
      = (Inr d, (snd (guard_log H ''HAZEL_RECOVERY_ACCEPTED'' b
         (PyDict [(''trace_id'', dict_get d ''trace_id''),
                  (''event_hash'', dict_get d ''event_hash''),
                  (''state_version'', dict_get d ''state_version'')]) gq), w2))"
    unfolding recover_state_Inr using gr(1) q au assms(4)
    by (intro exI [of _ b] exI [of _ gr] exI [of _ gq] exI [of _ w2]) auto
  then show ?thesis using assms(5) by (auto simp: honest_reply_def)
qed


section \<open>A service that keeps the last envelope\<close>

definition echo_hazel :: "json_dict hazel_transport" where
  "echo_hazel = \<lparr>
     ht_persist = (\<lambda>e w. (Inr [(''accepted'', PyBool True), (''ocs_id'', dict_get e ''ocs_id''),
       (''state_namespace'', dict_get e ''state_namespace'')], e)),
     ht_recover = (\<lambda>q w. (Inr (w @ [(''payload_hash'', PyStr ''u'')]), w)) \<rparr>"

abbreviation sample_binding_A :: active_binding where
  "sample_binding_A \<equiv> binding_of_profile (mk_profile ''A'' ''s'' [] [] []) ''r'' ''h'' ''c'' 1"

lemma sample_valid: "fst (require_valid sample_digest ''r'' ''A'' tr (Some ''h'') sample_guard) = Inr sample_binding_A"
proof -
  have "validate_profile_binding sample_profiles sample_binding_A = Inr ()"
    by (rule validate_own_profile) (simp add: sample_profiles_def)
  moreover have "ab_ocs_id sample_binding_A = ''A''" "ab_host sample_binding_A = ''h''"
    "ab_status sample_binding_A = Id_VALID"
    by (simp_all add: binding_of_profile_def mk_profile_def Let_def)
  ultimately show ?thesis
    unfolding require_valid_Inr by (simp add: sample_guard_eval binding_for_def)
qed

abbreviation sample_envelope :: json_dict where
  "sample_envelope \<equiv> persist_envelope sample_digest sample_binding_A None
     (ab_authority_envelope_ref sample_binding_A) 1 (PyDict [(''x'', PyInt 1)]) ''t''"

lemma sample_persist:
  "\<exists>receipt g1. hazel_persist_state sample_digest echo_hazel ''r'' ''A'' ''h''
      (ab_authority_envelope_ref sample_binding_A) 1 None [(''x'', PyInt 1)] ''t'' (sample_guard, [])
    = (Inr (receipt, sample_binding_A), (g1, sample_envelope))"
proof -
  obtain g1 where "require_valid sample_digest ''r'' ''A'' PRE_PERSIST (Some ''h'') sample_guard
      = (Inr sample_binding_A, g1)" using sample_valid by (metis prod.collapse)
  then show ?thesis
    unfolding persist_state_Inr
    by (auto simp: echo_hazel_def check_persist_receipt_def dict_get_def persist_envelope_def)
qed

lemma sample_reply:
  "honest_reply sample_digest (\<lambda>v. ''u'') sample_binding_A [(''x'', PyInt 1)]
     (sample_envelope @ [(''payload_hash'', PyStr ''u'')])"
  by (simp add: honest_reply_def dict_get_def persist_envelope_def)

lemma sample_recover:
  "\<exists>g1. hazel_recover_state sample_digest (\<lambda>v. ''u'') echo_hazel ''r'' ''A'' ''h''
      (ab_authority_envelope_ref sample_binding_A) (sample_guard, sample_envelope)
    = (Inr (sample_envelope @ [(''payload_hash'', PyStr ''u'')]), (g1, sample_envelope))"
proof -
  obtain g1 where "require_valid sample_digest ''r'' ''A'' COLD_START (Some ''h'') sample_guard
      = (Inr sample_binding_A, g1)" using sample_valid by (metis prod.collapse)
  moreover have "binding_for sample_guard ''r'' = Some sample_binding_A"
    by (simp add: sample_guard_eval binding_for_def)
  moreover have "check_recovered sample_digest (\<lambda>v. ''u'') sample_binding_A
      (sample_envelope @ [(''payload_hash'', PyStr ''u'')]) = Inr ()"
    using sample_reply by (simp add: check_recovered_Inr honest_reply_def)
  ultimately show ?thesis
    unfolding recover_state_Inr by (auto simp: echo_hazel_def)
qed

lemma hazel_call_needs_identity_witness:
  "\<exists>b. admitted sample_guard ''r'' ''A'' ''h'' (ab_authority_envelope_ref sample_binding_A) b"
proof -
  obtain receipt g1 where p: "hazel_persist_state sample_digest echo_hazel ''r'' ''A'' ''h''
      (ab_authority_envelope_ref sample_binding_A) 1 None [(''x'', PyInt 1)] ''t'' (sample_guard, [])
    = (Inr (receipt, sample_binding_A), (g1, sample_envelope))" using sample_persist by blast
  have "sample_envelope \<noteq> []" by (simp add: persist_envelope_def)
  from hazel_call_needs_identity [THEN conjunct1, rule_format, OF this p] show ?thesis by blast
qed

theorem hazel_recovery_sound_witness:
  "\<exists>b d kvs. binding_for sample_guard ''r'' = Some b \<and> ab_ocs_id b = ''A'' \<and> ab_host b = ''h'' \<and>
     ab_status b = Id_VALID \<and> dict_get d ''binding_hash'' = PyStr (binding_hash sample_digest b) \<and>
     dict_get d ''payload'' = PyDict kvs"
proof -
  obtain g1 where r: "hazel_recover_state sample_digest (\<lambda>v. ''u'') echo_hazel ''r'' ''A'' ''h''
      (ab_authority_envelope_ref sample_binding_A) (sample_guard, sample_envelope)
    = (Inr (sample_envelope @ [(''payload_hash'', PyStr ''u'')]), (g1, sample_envelope))"
    using sample_recover by blast
  have "binding_for sample_guard ''r'' = Some sample_binding_A"
    by (simp add: sample_guard_eval binding_for_def)
  then show ?thesis
    using hazel_recovery_sound [OF r] by (auto simp: admitted_def)
qed

lemma hazel_round_trip_witness:
  "\<exists>(g1 :: identity_guard) g2 d. hazel_recover_state sample_digest (\<lambda>v. ''u'') echo_hazel ''r'' ''A'' ''h''
      (ab_authority_envelope_ref sample_binding_A)
      (new_guard (ig_profiles sample_guard) (ig_log g1), sample_envelope) = (Inr d, (g2, sample_envelope)) \<and>
    dict_get d ''payload'' = PyDict [(''x'', PyInt 1)]"
proof -
  obtain receipt g1 where p: "hazel_persist_state sample_digest echo_hazel ''r'' ''A'' ''h''
      (ab_authority_envelope_ref sample_binding_A) 1 None [(''x'', PyInt 1)] ''t'' (sample_guard, [])
    = (Inr (receipt, sample_binding_A), (g1, sample_envelope))" using sample_persist by blast
  have inv: "guard_inv sample_digest sample_guard"
    unfolding sample_guard_def
    by (intro guard_run_inv guard_inv_new) (simp_all add: log_consistent_empty chain_is_valid_def)
  have "ht_recover echo_hazel q sample_envelope
      = (Inr (sample_envelope @ [(''payload_hash'', PyStr ''u'')]), sample_envelope)" for q
    by (simp add: echo_hazel_def)
  from hazel_round_trip [OF inv p _ this sample_reply] show ?thesis by auto
qed

end
