(* ===== verification/Instance_Contracts.thy ===== *)
theory Instance_Contracts
  imports Profiles
begin

text \<open>
  \<^verbatim>\<open>app/ocs_instances/contracts.py\<close>: the life cycle of an instance, its records, and the
  digests that name them. \<^verbatim>\<open>canonical_hash\<close> is a digest of the tree that \<^verbatim>\<open>dumps\<close>
  writes without escaping (see \<open>Py_Prelude\<close>).
\<close>

section \<open>The life cycle\<close>

datatype binding_maturity = PREPARED_UNVERIFIED | OPERATIONALLY_BOUND_L1

datatype instance_status =
    In_PREPARED | In_PERSISTED | In_BOUND | In_ACTIVE | In_CHECKPOINTED | In_REPLACED | In_CLOSED
  | In_REVOKED | In_HOLD

fun maturity_value :: "binding_maturity \<Rightarrow> string" where
  "maturity_value PREPARED_UNVERIFIED = ''prepared_unverified''"
| "maturity_value OPERATIONALLY_BOUND_L1 = ''operationally_bound_l1''"

fun status_value :: "instance_status \<Rightarrow> string" where
  "status_value In_PREPARED = ''prepared''"
| "status_value In_PERSISTED = ''persisted''"
| "status_value In_BOUND = ''bound''"
| "status_value In_ACTIVE = ''active''"
| "status_value In_CHECKPOINTED = ''checkpointed''"
| "status_value In_REPLACED = ''replaced''"
| "status_value In_CLOSED = ''closed''"
| "status_value In_REVOKED = ''revoked''"
| "status_value In_HOLD = ''hold''"

fun ALLOWED_TRANSITIONS :: "instance_status \<Rightarrow> instance_status list" where
  "ALLOWED_TRANSITIONS In_PREPARED = [In_PERSISTED, In_REVOKED, In_HOLD]"
| "ALLOWED_TRANSITIONS In_PERSISTED = [In_BOUND, In_REVOKED, In_HOLD]"
| "ALLOWED_TRANSITIONS In_BOUND = [In_ACTIVE, In_REVOKED, In_HOLD]"
| "ALLOWED_TRANSITIONS In_ACTIVE =
     [In_CHECKPOINTED, In_REPLACED, In_CLOSED, In_REVOKED, In_HOLD]"
| "ALLOWED_TRANSITIONS In_CHECKPOINTED =
     [In_ACTIVE, In_CHECKPOINTED, In_REPLACED, In_CLOSED, In_REVOKED, In_HOLD]"
| "ALLOWED_TRANSITIONS In_REPLACED = []"
| "ALLOWED_TRANSITIONS In_CLOSED = []"
| "ALLOWED_TRANSITIONS In_REVOKED = []"
| "ALLOWED_TRANSITIONS In_HOLD = []"

definition require_transition :: "instance_status \<Rightarrow> instance_status \<Rightarrow> unit res" where
  "require_transition current target =
     (if target \<notin> set (ALLOWED_TRANSITIONS current) then
        Inl (InstanceBindingError (''instance_transition_forbidden:'' @ status_value current @ ''->''
               @ status_value target))
      else Inr ())"

lemma status_value_inject [simp]: "status_value s = status_value t \<longleftrightarrow> s = t"
  by (cases s; cases t) simp_all

lemma maturity_value_inject [simp]: "maturity_value s = maturity_value t \<longleftrightarrow> s = t"
  by (cases s; cases t) simp_all

lemma require_transition_Inr [simp]:
  "require_transition s t = Inr () \<longleftrightarrow> t \<in> set (ALLOWED_TRANSITIONS s)"
  by (simp add: require_transition_def)

section \<open>Digests\<close>

definition canonical_hash :: "digest \<Rightarrow> pyval \<Rightarrow> string" where
  "canonical_hash U v = U (json_tree v)"

definition stable_run_id :: "digest \<Rightarrow> string \<Rightarrow> string \<Rightarrow> string \<Rightarrow> string \<Rightarrow> string res" where
  "stable_run_id U institution_id organization_id mission_id ocs_id =
     (if [] \<in> set [institution_id, organization_id, mission_id, ocs_id] then
        Inl (ValueError ''institution_organization_mission_and_ocs_required'')
      else
        Inr (''run:'' @ canonical_hash U (PyDict
          [(''institution_id'', PyStr institution_id),
           (''organization_id'', PyStr organization_id),
           (''mission_id'', PyStr mission_id),
           (''ocs_id'', PyStr ocs_id)])))"

section \<open>Records\<close>

record prepare_request =
  pq_mission_id :: string
  pq_organization_id :: string
  pq_ocs_id :: string
  pq_capability :: string
  pq_lease_id :: string
  pq_host :: string
  pq_scope :: "string list"
  pq_idempotency_key :: string
  pq_correlation_id :: string
  pq_actor :: string
  pq_context_ref :: string
  pq_policy_snapshot :: string
  pq_trace_ref :: string
  pq_causation_id :: "string option"

record instance_binding =
  ib_binding_id :: string
  ib_mission_id :: string
  ib_run_id :: string
  ib_organization_id :: string
  ib_ocs_id :: string
  ib_profile_version :: string
  ib_profile_hash :: string
  ib_identity_binding_hash :: string
  ib_request_hash :: string
  ib_maturity :: binding_maturity
  ib_host :: string
  ib_capability :: string
  ib_lease_id :: string
  ib_authority_ref :: string
  ib_scope :: "string list"
  ib_state_namespace :: string
  ib_memory_namespace :: string
  ib_generation :: int
  ib_platform_instance_id :: "string option"
  ib_challenge_hash :: string
  ib_bootstrap_hash :: string
  ib_status :: instance_status
  ib_version :: int
  ib_predecessor_binding_id :: "string option"
  ib_checkpoint_version :: int
  ib_checkpoint_hash :: "string option"
  ib_hazel_event_hash :: "string option"
  ib_idempotency_key :: string
  ib_correlation_id :: string
  ib_causation_id :: "string option"
  ib_created_at :: pytime
  ib_updated_at :: pytime

record bootstrap_envelope =
  be_schema_version :: string
  be_binding_id :: string
  be_mission_id :: string
  be_run_id :: string
  be_ocs_id :: string
  be_canonical_name :: string
  be_identity_ref :: string
  be_ancestry_ref :: string
  be_constitution_ref :: string
  be_csp_ref :: string
  be_profile_version :: string
  be_profile_hash :: string
  be_identity_binding_hash :: string
  be_maturity :: binding_maturity
  be_host :: string
  be_capability :: string
  be_lease_id :: string
  be_authority_ref :: string
  be_scope :: "string list"
  be_allowed_action_classes :: "string list"
  be_denied_action_classes :: "string list"
  be_tool_permissions :: "string list"
  be_state_namespace :: string
  be_memory_namespace :: string
  be_stop_policy :: string
  be_handoff_policy :: string
  be_recovery_policy :: string
  be_generation :: int
  be_predecessor_binding_id :: "string option"
  be_checkpoint_version :: int
  be_checkpoint_hash :: "string option"
  be_challenge_nonce :: string
  be_issued_at :: pytime
  be_expires_at :: pytime
  be_binding_lease_consumed :: bool
  be_execution_authority_granted :: bool
  be_per_action_lease_required :: bool

record bootstrap_ack =
  ba_binding_id :: string
  ba_platform_instance_id :: string
  ba_generation :: int
  ba_bootstrap_hash :: string
  ba_identity_binding_hash :: string
  ba_challenge_nonce :: string
  ba_idempotency_key :: string

text \<open>\<^verbatim>\<open>asdict(request)\<close>.\<close>

definition request_data :: "prepare_request \<Rightarrow> (string \<times> pyval) list" where
  "request_data r =
     [(''mission_id'', PyStr (pq_mission_id r)),
      (''organization_id'', PyStr (pq_organization_id r)),
      (''ocs_id'', PyStr (pq_ocs_id r)),
      (''capability'', PyStr (pq_capability r)),
      (''lease_id'', PyStr (pq_lease_id r)),
      (''host'', PyStr (pq_host r)),
      (''scope'', py_strs (pq_scope r)),
      (''idempotency_key'', PyStr (pq_idempotency_key r)),
      (''correlation_id'', PyStr (pq_correlation_id r)),
      (''actor'', PyStr (pq_actor r)),
      (''context_ref'', PyStr (pq_context_ref r)),
      (''policy_snapshot'', PyStr (pq_policy_snapshot r)),
      (''trace_ref'', PyStr (pq_trace_ref r)),
      (''causation_id'', py_opt_str (pq_causation_id r))]"

text \<open>\<^verbatim>\<open>unsigned_payload\<close>: \<^verbatim>\<open>asdict(self)\<close>.\<close>

definition unsigned_payload :: "bootstrap_envelope \<Rightarrow> pyval" where
  "unsigned_payload e = PyDict
     [(''schema_version'', PyStr (be_schema_version e)),
      (''binding_id'', PyStr (be_binding_id e)),
      (''mission_id'', PyStr (be_mission_id e)),
      (''run_id'', PyStr (be_run_id e)),
      (''ocs_id'', PyStr (be_ocs_id e)),
      (''canonical_name'', PyStr (be_canonical_name e)),
      (''identity_ref'', PyStr (be_identity_ref e)),
      (''ancestry_ref'', PyStr (be_ancestry_ref e)),
      (''constitution_ref'', PyStr (be_constitution_ref e)),
      (''csp_ref'', PyStr (be_csp_ref e)),
      (''profile_version'', PyStr (be_profile_version e)),
      (''profile_hash'', PyStr (be_profile_hash e)),
      (''identity_binding_hash'', PyStr (be_identity_binding_hash e)),
      (''maturity'', PyStr (maturity_value (be_maturity e))),
      (''host'', PyStr (be_host e)),
      (''capability'', PyStr (be_capability e)),
      (''lease_id'', PyStr (be_lease_id e)),
      (''authority_ref'', PyStr (be_authority_ref e)),
      (''scope'', py_strs (be_scope e)),
      (''allowed_action_classes'', py_strs (be_allowed_action_classes e)),
      (''denied_action_classes'', py_strs (be_denied_action_classes e)),
      (''tool_permissions'', py_strs (be_tool_permissions e)),
      (''state_namespace'', PyStr (be_state_namespace e)),
      (''memory_namespace'', PyStr (be_memory_namespace e)),
      (''stop_policy'', PyStr (be_stop_policy e)),
      (''handoff_policy'', PyStr (be_handoff_policy e)),
      (''recovery_policy'', PyStr (be_recovery_policy e)),
      (''generation'', PyInt (be_generation e)),
      (''predecessor_binding_id'', py_opt_str (be_predecessor_binding_id e)),
      (''checkpoint_version'', PyInt (be_checkpoint_version e)),
      (''checkpoint_hash'', py_opt_str (be_checkpoint_hash e)),
      (''challenge_nonce'', PyStr (be_challenge_nonce e)),
      (''issued_at'', PyFloat (be_issued_at e)),
      (''expires_at'', PyFloat (be_expires_at e)),
      (''binding_lease_consumed'', PyBool (be_binding_lease_consumed e)),
      (''execution_authority_granted'', PyBool (be_execution_authority_granted e)),
      (''per_action_lease_required'', PyBool (be_per_action_lease_required e))]"

definition envelope_digest :: "digest \<Rightarrow> bootstrap_envelope \<Rightarrow> string" where
  "envelope_digest U e = canonical_hash U (unsigned_payload e)"

end
