(* ===== verification/Instance_Store.thy ===== *)
theory Instance_Store
  imports Instance_Contracts
begin

text \<open>
  \<^verbatim>\<open>app/ocs_instances/store.py\<close>: the registry of instances in SQLite, as three tables with
  their uniqueness and reference constraints. A connection's block is a \<open>transaction\<close>: what
  raises leaves the database as it was. \<^verbatim>\<open>time()\<close> is the argument \<open>now\<close> of what writes.
\<close>
 

section \<open>The database\<close>

record journal_row =
  jr_event_id :: string
  jr_binding_id :: string
  jr_event_type :: string
  jr_from_status :: "instance_status option"
  jr_to_status :: instance_status
  jr_binding_version :: int
  jr_idempotency_key :: string
  jr_payload_json :: pyval
  jr_occurred_at :: pytime

record saga_row =
  sg_idempotency_key :: string
  sg_binding_id :: string
  sg_operation :: string
  sg_request_fingerprint :: string
  sg_state :: string
  sg_payload_json :: pyval
  sg_updated_at :: pytime

record instance_db =
  db_bindings :: "instance_binding list"
  db_journal :: "journal_row list"
  db_sagas :: "saga_row list"

definition empty_db :: instance_db where
  "empty_db = \<lparr> db_bindings = [], db_journal = [], db_sagas = [] \<rparr>"

section \<open>Statements\<close>

definition binding_at :: "instance_db \<Rightarrow> string \<Rightarrow> instance_binding option" where
  "binding_at db binding_id = find (\<lambda>b. ib_binding_id b = binding_id) (db_bindings db)"

definition binding_for_key :: "instance_db \<Rightarrow> string \<Rightarrow> instance_binding option" where
  "binding_for_key db key = find (\<lambda>b. ib_idempotency_key b = key) (db_bindings db)"

definition journal_for_key :: "instance_db \<Rightarrow> string \<Rightarrow> journal_row option" where
  "journal_for_key db key = find (\<lambda>j. jr_idempotency_key j = key) (db_journal db)"

definition saga_at :: "instance_db \<Rightarrow> string \<Rightarrow> saga_row option" where
  "saga_at db key = find (\<lambda>s. sg_idempotency_key s = key) (db_sagas db)"

text \<open>\<^verbatim>\<open>UNIQUE(organization_id, mission_id, ocs_id, generation)\<close>.\<close>

definition generation_key :: "instance_binding \<Rightarrow> string \<times> string \<times> string \<times> int" where
  "generation_key b = (ib_organization_id b, ib_mission_id b, ib_ocs_id b, ib_generation b)"

text \<open>\<^verbatim>\<open>UNIQUE(platform_instance_id)\<close>; two \<^verbatim>\<open>NULL\<close>s are distinct.\<close>

definition platform_taken :: "string option \<Rightarrow> instance_binding list \<Rightarrow> bool" where
  "platform_taken p bs \<longleftrightarrow> p \<noteq> None \<and> p \<in> ib_platform_instance_id ` set bs"

definition unique_failed :: exn where
  "unique_failed = IntegrityError ''UNIQUE constraint failed''"

definition insert_binding :: "instance_binding \<Rightarrow> (instance_db, unit) py" where
  "insert_binding b = (\<lambda>db.
     if ib_binding_id b \<in> ib_binding_id ` set (db_bindings db)
        \<or> ib_idempotency_key b \<in> ib_idempotency_key ` set (db_bindings db)
        \<or> generation_key b \<in> generation_key ` set (db_bindings db)
        \<or> platform_taken (ib_platform_instance_id b) (db_bindings db)
     then (Inl unique_failed, db)
     else (Inr (), db\<lparr>db_bindings := db_bindings db @ [b]\<rparr>))"

text \<open>
  \<^verbatim>\<open>UPDATE ... WHERE binding_id = ? AND version = ?\<close>: the number of rows changed. The
  columns that a statement leaves out are the ones \<open>f\<close> leaves alone.
\<close>

definition update_binding ::
    "string \<Rightarrow> int \<Rightarrow> (instance_binding \<Rightarrow> instance_binding) \<Rightarrow> (instance_db, nat) py" where
  "update_binding binding_id version f = (\<lambda>db.
     let hit = (\<lambda>b. ib_binding_id b = binding_id \<and> ib_version b = version);
         hits = filter hit (db_bindings db);
         others = filter (\<lambda>b. \<not> hit b) (db_bindings db)
     in if list_ex (\<lambda>b. platform_taken (ib_platform_instance_id (f b)) others) hits
        then (Inl unique_failed, db)
        else (Inr (length hits),
              db\<lparr>db_bindings := map (\<lambda>b. if hit b then f b else b) (db_bindings db)\<rparr>))"

definition json_dumps :: "pyval \<Rightarrow> pyval res" where
  "json_dumps v = (if serializable v then Inr (json_tree v) else Inl (OtherError ''TypeError''))"

text \<open>\<^verbatim>\<open>_append_event\<close>, with the constraints of the journal's table.\<close>

definition append_event ::
    "instance_binding \<Rightarrow> string \<Rightarrow> instance_status option \<Rightarrow> string \<Rightarrow> pyval \<Rightarrow> (instance_db, unit) py"
  where
  "append_event b event_type from_status idempotency_key payload =
     py_bind (py_lift (json_dumps payload)) (\<lambda>payload_json. \<lambda>db.
     let row = \<lparr> jr_event_id = ib_binding_id b @ '':'' @ show_int (ib_version b) @ '':'' @ event_type,
                 jr_binding_id = ib_binding_id b, jr_event_type = event_type,
                 jr_from_status = from_status, jr_to_status = ib_status b,
                 jr_binding_version = ib_version b, jr_idempotency_key = idempotency_key,
                 jr_payload_json = payload_json, jr_occurred_at = ib_updated_at b \<rparr>
     in if jr_event_id row \<in> jr_event_id ` set (db_journal db)
           \<or> idempotency_key \<in> jr_idempotency_key ` set (db_journal db) then (Inl unique_failed, db)
        else if binding_at db (ib_binding_id b) = None then
          (Inl (IntegrityError ''FOREIGN KEY constraint failed''), db)
        else (Inr (), db\<lparr>db_journal := db_journal db @ [row]\<rparr>))"

section \<open>Bindings\<close>

definition live_statuses :: "instance_status list" where
  "live_statuses = [In_PREPARED, In_PERSISTED, In_BOUND, In_ACTIVE, In_CHECKPOINTED]"

definition live_binding_exists :: "instance_db \<Rightarrow> string \<Rightarrow> string \<Rightarrow> string \<Rightarrow> bool" where
  "live_binding_exists db organization_id mission_id ocs_id =
     list_ex (\<lambda>b. ib_organization_id b = organization_id \<and> ib_mission_id b = mission_id \<and>
        ib_ocs_id b = ocs_id \<and> ib_status b \<in> set live_statuses) (db_bindings db)"

text \<open>The fields a successor shares with its predecessor.\<close>

definition same_lineage :: "instance_binding \<Rightarrow> instance_binding \<Rightarrow> bool" where
  "same_lineage b p \<longleftrightarrow>
     ib_organization_id b = ib_organization_id p \<and> ib_mission_id b = ib_mission_id p \<and>
     ib_ocs_id b = ib_ocs_id p \<and> ib_run_id b = ib_run_id p \<and>
     ib_profile_version b = ib_profile_version p \<and> ib_profile_hash b = ib_profile_hash p \<and>
     ib_authority_ref b = ib_authority_ref p \<and> ib_state_namespace b = ib_state_namespace p \<and>
     ib_memory_namespace b = ib_memory_namespace p \<and> ib_generation b = ib_generation p + 1"

definition check_predecessor :: "instance_db \<Rightarrow> instance_binding \<Rightarrow> unit res" where
  "check_predecessor db b =
     (case ib_predecessor_binding_id b of
        None \<Rightarrow> Inr ()
      | Some i \<Rightarrow>
         (case binding_at db i of
            None \<Rightarrow> Inl (InstanceBindingError ''replacement_predecessor_not_found'')
          | Some p \<Rightarrow>
              if ib_status p \<noteq> In_CHECKPOINTED \<or> \<not> same_lineage b p then
                Inl (InstanceBindingError ''replacement_lineage_mismatch'')
              else Inr ()))"

definition create_binding :: "instance_binding \<Rightarrow> (instance_db, instance_binding) py" where
  "create_binding b =
     (if ib_status b \<noteq> In_PREPARED \<or> ib_version b \<noteq> 1 then
        py_raise (InstanceBindingError ''instance_initial_state_invalid'')
      else transaction
       (py_bind (py_gets (\<lambda>db. binding_for_key db (ib_idempotency_key b))) (\<lambda>existing.
        case existing of
          Some recovered \<Rightarrow>
            if ib_request_hash recovered \<noteq> ib_request_hash b then
              py_raise (InstanceBindingError ''instance_idempotency_conflict'')
            else py_return recovered
        | None \<Rightarrow>
            py_bind (py_gets (\<lambda>db. live_binding_exists db (ib_organization_id b) (ib_mission_id b)
                                      (ib_ocs_id b))) (\<lambda>live.
            if live \<and> ib_predecessor_binding_id b = None then
              py_raise (InstanceBindingError ''active_mission_ocs_binding_exists'')
            else
              py_bind (\<lambda>db. (check_predecessor db b, db)) (\<lambda>_.
              py_bind (insert_binding b) (\<lambda>_.
              py_bind (append_event b ''OCS_INSTANCE_PREPARED'' None
                         (ib_idempotency_key b @ '':prepared'')
                         (PyDict [(''profile_hash'', PyStr (ib_profile_hash b))])) (\<lambda>_.
              py_return b)))))))"

definition by_idempotency :: "string \<Rightarrow> (instance_db, instance_binding option) py" where
  "by_idempotency key = py_gets (\<lambda>db. binding_for_key db key)"

definition get_binding :: "string \<Rightarrow> (instance_db, instance_binding) py" where
  "get_binding binding_id = (\<lambda>db.
     case binding_at db binding_id of
       None \<Rightarrow> (Inl (InstanceBindingError ''instance_binding_not_found''), db)
     | Some b \<Rightarrow> (Inr b, db))"

definition latest_generation :: "string \<Rightarrow> string \<Rightarrow> string \<Rightarrow> (instance_db, int) py" where
  "latest_generation organization_id mission_id ocs_id =
     py_gets (\<lambda>db.
       let gs = map ib_generation (filter (\<lambda>b. ib_organization_id b = organization_id \<and>
                  ib_mission_id b = mission_id \<and> ib_ocs_id b = ocs_id) (db_bindings db))
       in if gs = [] then 0 else Max (set gs))"

section \<open>Transitions\<close>

record transition_args =
  ta_platform_instance_id :: "string option"
  ta_checkpoint_version :: "int option"
  ta_checkpoint_hash :: "string option"
  ta_hazel_event_hash :: "string option"
  ta_maturity :: "binding_maturity option"
  ta_payload :: "(string \<times> pyval) list"

text \<open>\<^verbatim>\<open>{**payload, 'platform_instance_id': ..., ...}\<close>.\<close>

definition requested_payload :: "transition_args \<Rightarrow> pyval" where
  "requested_payload a = PyDict
     (dset ''maturity'' (case ta_maturity a of None \<Rightarrow> PyNone | Some m \<Rightarrow> PyStr (maturity_value m))
     (dset ''hazel_event_hash'' (py_opt_str (ta_hazel_event_hash a))
     (dset ''checkpoint_hash'' (py_opt_str (ta_checkpoint_hash a))
     (dset ''checkpoint_version''
        (case ta_checkpoint_version a of None \<Rightarrow> PyNone | Some n \<Rightarrow> PyInt n)
     (dset ''platform_instance_id'' (py_opt_str (ta_platform_instance_id a)) (ta_payload a))))))"

definition or_else :: "'a option \<Rightarrow> 'a \<Rightarrow> 'a" where
  "or_else x d = (case x of None \<Rightarrow> d | Some y \<Rightarrow> y)"

definition or_keep :: "'a option \<Rightarrow> 'a option \<Rightarrow> 'a option" where
  "or_keep x d = (case x of None \<Rightarrow> d | Some y \<Rightarrow> Some y)"

definition apply_transition ::
    "pytime \<Rightarrow> instance_status \<Rightarrow> transition_args \<Rightarrow> instance_binding \<Rightarrow> instance_binding" where
  "apply_transition now target a b = b\<lparr>
     ib_status := target,
     ib_version := ib_version b + 1,
     ib_platform_instance_id := or_keep (ta_platform_instance_id a) (ib_platform_instance_id b),
     ib_checkpoint_version := or_else (ta_checkpoint_version a) (ib_checkpoint_version b),
     ib_checkpoint_hash := or_keep (ta_checkpoint_hash a) (ib_checkpoint_hash b),
     ib_maturity := or_else (ta_maturity a) (ib_maturity b),
     ib_hazel_event_hash := or_keep (ta_hazel_event_hash a) (ib_hazel_event_hash b),
     ib_updated_at := now\<rparr>"

definition replay_matches :: "journal_row \<Rightarrow> string \<Rightarrow> string \<Rightarrow> instance_status \<Rightarrow> pyval \<Rightarrow> bool" where
  "replay_matches j binding_id event_type target requested \<longleftrightarrow>
     jr_binding_id j = binding_id \<and> jr_event_type j = event_type \<and> jr_to_status j = target \<and>
     jr_payload_json j = requested"

definition transition ::
    "string \<Rightarrow> int \<Rightarrow> instance_status \<Rightarrow> string \<Rightarrow> string \<Rightarrow> transition_args \<Rightarrow> pytime
       \<Rightarrow> (instance_db, instance_binding) py" where
  "transition binding_id expected_version target idempotency_key event_type a now = transaction
     (py_bind (py_gets (\<lambda>db. journal_for_key db idempotency_key)) (\<lambda>replay.
      py_bind (py_lift (json_dumps (requested_payload a))) (\<lambda>requested.
      case replay of
        Some j \<Rightarrow>
          if \<not> replay_matches j binding_id event_type target requested then
            py_raise (InstanceBindingError ''instance_idempotency_conflict'')
          else get_binding binding_id
      | None \<Rightarrow>
          py_bind (get_binding binding_id) (\<lambda>current.
          if ib_version current \<noteq> expected_version then
            py_raise (InstanceBindingError ''instance_version_conflict'')
          else
            py_bind (py_lift (require_transition (ib_status current) target)) (\<lambda>_.
            let updated = apply_transition now target a current
            in py_bind (update_binding binding_id expected_version (\<lambda>_. updated)) (\<lambda>rowcount.
               if rowcount \<noteq> 1 then
                 py_raise (InstanceBindingError ''instance_version_conflict'')
               else
                 py_bind (append_event updated event_type (Some (ib_status current))
                            idempotency_key (requested_payload a)) (\<lambda>_.
                 py_return updated)))))))"

definition transition_replay ::
    "string \<Rightarrow> instance_status \<Rightarrow> string \<Rightarrow> string \<Rightarrow> transition_args
       \<Rightarrow> (instance_db, instance_binding option) py" where
  "transition_replay binding_id target idempotency_key event_type a =
     py_bind (py_lift (json_dumps (requested_payload a))) (\<lambda>requested.
     py_bind (py_gets (\<lambda>db. journal_for_key db idempotency_key)) (\<lambda>replay.
     case replay of
       None \<Rightarrow> py_return None
     | Some j \<Rightarrow>
         if \<not> replay_matches j binding_id event_type target requested then
           py_raise (InstanceBindingError ''instance_idempotency_conflict'')
         else py_bind (get_binding binding_id) (\<lambda>b. py_return (Some b))))"

definition checkpoint_replay ::
    "string \<Rightarrow> string \<Rightarrow> string \<Rightarrow> (instance_db, instance_binding option) py" where
  "checkpoint_replay binding_id idempotency_key request_fingerprint =
     py_bind (py_gets (\<lambda>db. journal_for_key db idempotency_key)) (\<lambda>replay.
     case replay of
       None \<Rightarrow> py_return None
     | Some j \<Rightarrow>
         if jr_binding_id j \<noteq> binding_id \<or> jr_event_type j \<noteq> ''OCS_INSTANCE_CHECKPOINTED''
            \<or> jr_to_status j \<noteq> In_CHECKPOINTED
            \<or> py_get (jr_payload_json j) ''request_fingerprint'' \<noteq> Some (PyStr request_fingerprint)
         then py_raise (InstanceBindingError ''instance_idempotency_conflict'')
         else py_bind (get_binding binding_id) (\<lambda>b. py_return (Some b)))"

definition journal_of :: "string \<Rightarrow> instance_db \<Rightarrow> journal_row list" where
  "journal_of binding_id db = filter (\<lambda>j. jr_binding_id j = binding_id) (db_journal db)"

section \<open>Replacement\<close>

definition replacement_payload :: "string \<Rightarrow> int \<Rightarrow> int \<Rightarrow> int \<Rightarrow> string \<Rightarrow> string \<Rightarrow> pyval" where
  "replacement_payload successor_id predecessor_version successor_version checkpoint_version
       checkpoint_hash hazel_event_hash = PyDict
     [(''successor_binding_id'', PyStr successor_id),
      (''predecessor_expected_version'', PyInt predecessor_version),
      (''successor_expected_version'', PyInt successor_version),
      (''checkpoint_version'', PyInt checkpoint_version),
      (''checkpoint_hash'', PyStr checkpoint_hash),
      (''hazel_event_hash'', PyStr hazel_event_hash)]"

definition check_replacement ::
    "instance_binding \<Rightarrow> instance_binding \<Rightarrow> int \<Rightarrow> int \<Rightarrow> unit res" where
  "check_replacement p s predecessor_version successor_version =
     (if ib_predecessor_binding_id s \<noteq> Some (ib_binding_id p) \<or> \<not> same_lineage s p then
        Inl (InstanceBindingError ''replacement_lineage_mismatch'')
      else if ib_version p \<noteq> predecessor_version \<or> ib_version s \<noteq> successor_version then
        Inl (InstanceBindingError ''instance_version_conflict'')
      else if ib_status p \<noteq> In_CHECKPOINTED then
        Inl (InstanceBindingError ''verified_checkpoint_required_for_replacement'')
      else if ib_status s \<noteq> In_PREPARED then
        Inl (InstanceBindingError ''replacement_successor_not_prepared'')
      else Inr ())"

definition replaced_binding :: "pytime \<Rightarrow> instance_binding \<Rightarrow> instance_binding" where
  "replaced_binding now p = p\<lparr>ib_status := In_REPLACED, ib_version := ib_version p + 1,
     ib_updated_at := now\<rparr>"

definition persisted_successor ::
    "pytime \<Rightarrow> int \<Rightarrow> string \<Rightarrow> string \<Rightarrow> instance_binding \<Rightarrow> instance_binding" where
  "persisted_successor now checkpoint_version checkpoint_hash hazel_event_hash s =
     s\<lparr>ib_status := In_PERSISTED, ib_version := ib_version s + 1,
       ib_checkpoint_version := checkpoint_version, ib_checkpoint_hash := Some checkpoint_hash,
       ib_hazel_event_hash := Some hazel_event_hash, ib_updated_at := now\<rparr>"

definition commit_replacement ::
    "string \<Rightarrow> int \<Rightarrow> string \<Rightarrow> int \<Rightarrow> string \<Rightarrow> int \<Rightarrow> string \<Rightarrow> string \<Rightarrow> pytime
       \<Rightarrow> (instance_db, instance_binding \<times> instance_binding) py" where
  "commit_replacement predecessor_id predecessor_version successor_id successor_version
       idempotency_key checkpoint_version checkpoint_hash hazel_event_hash now =
     (let payload = replacement_payload successor_id predecessor_version successor_version
            checkpoint_version checkpoint_hash hazel_event_hash
      in transaction
       (py_bind (py_gets (\<lambda>db. journal_for_key db idempotency_key)) (\<lambda>replay.
        case replay of
          Some j \<Rightarrow>
            if \<not> replay_matches j predecessor_id ''OCS_INSTANCE_REPLACED'' In_REPLACED
                   (json_tree payload) then
              py_raise (InstanceBindingError ''instance_idempotency_conflict'')
            else
              py_bind (get_binding predecessor_id) (\<lambda>p.
              py_bind (get_binding successor_id) (\<lambda>s. py_return (p, s)))
        | None \<Rightarrow>
            py_bind (py_gets (\<lambda>db. (binding_at db predecessor_id, binding_at db successor_id)))
              (\<lambda>rows.
            case rows of
              (Some p, Some s) \<Rightarrow>
                py_bind (py_lift (check_replacement p s predecessor_version successor_version)) (\<lambda>_.
                let replaced = replaced_binding now p;
                    persisted = persisted_successor now checkpoint_version checkpoint_hash
                      hazel_event_hash s
                in py_bind (update_binding predecessor_id predecessor_version (\<lambda>_. replaced)) (\<lambda>n1.
                   py_bind (update_binding successor_id successor_version (\<lambda>_. persisted)) (\<lambda>n2.
                   if n1 \<noteq> 1 \<or> n2 \<noteq> 1 then
                     py_raise (InstanceBindingError ''instance_version_conflict'')
                   else
                     py_bind (append_event replaced ''OCS_INSTANCE_REPLACED'' (Some (ib_status p))
                                idempotency_key payload) (\<lambda>_.
                     py_bind (append_event persisted ''OCS_REPLACEMENT_PERSISTED''
                                (Some (ib_status s)) (idempotency_key @ '':successor'')
                                (PyDict [(''predecessor_binding_id'', PyStr predecessor_id),
                                         (''state_version'', PyInt checkpoint_version)])) (\<lambda>_.
                     py_return (replaced, persisted))))))
            | _ \<Rightarrow> py_raise (InstanceBindingError ''replacement_binding_not_found'')))))"

section \<open>Sagas\<close>

definition action_saga :: "string \<Rightarrow> (instance_db, saga_row) py" where
  "action_saga key = (\<lambda>db.
     case saga_at db key of
       None \<Rightarrow> (Inl (InstanceBindingError ''action_saga_not_found''), db)
     | Some s \<Rightarrow> (Inr s, db))"

definition begin_action_saga ::
    "string \<Rightarrow> string \<Rightarrow> string \<Rightarrow> string \<Rightarrow> pyval \<Rightarrow> pytime \<Rightarrow> (instance_db, saga_row) py" where
  "begin_action_saga key binding_id operation request_fingerprint payload now =
     py_bind (py_lift (json_dumps payload)) (\<lambda>payload_json.
     py_bind (transaction
       (py_bind (py_gets (\<lambda>db. saga_at db key)) (\<lambda>row.
        case row of
          Some s \<Rightarrow>
            if sg_binding_id s \<noteq> binding_id \<or> sg_operation s \<noteq> operation
               \<or> sg_request_fingerprint s \<noteq> request_fingerprint \<or> sg_payload_json s \<noteq> payload_json
            then py_raise (InstanceBindingError ''instance_idempotency_conflict'')
            else py_return (Some s)
        | None \<Rightarrow> (\<lambda>db.
            if binding_at db binding_id = None then
              (Inl (IntegrityError ''FOREIGN KEY constraint failed''), db)
            else (Inr None, db\<lparr>db_sagas := db_sagas db @
              [\<lparr> sg_idempotency_key = key, sg_binding_id = binding_id, sg_operation = operation,
                 sg_request_fingerprint = request_fingerprint, sg_state = ''LEASE_RESERVED'',
                 sg_payload_json = payload_json, sg_updated_at = now \<rparr>]\<rparr>)))))
       (\<lambda>found. case found of Some s \<Rightarrow> py_return s | None \<Rightarrow> action_saga key))"

definition advance_action_saga ::
    "string \<Rightarrow> string \<Rightarrow> string \<Rightarrow> pytime \<Rightarrow> (instance_db, saga_row) py" where
  "advance_action_saga key expected_state target_state now =
     py_bind (transaction (\<lambda>db.
       let hit = (\<lambda>s. sg_idempotency_key s = key \<and> sg_state s = expected_state);
           db' = db\<lparr>db_sagas := map (\<lambda>s. if hit s
                   then s\<lparr>sg_state := target_state, sg_updated_at := now\<rparr> else s) (db_sagas db)\<rparr>
       in if length (filter hit (db_sagas db)) \<noteq> 1 then
            (case saga_at db' key of
               None \<Rightarrow> (Inl (InstanceBindingError ''action_saga_state_conflict''), db')
             | Some s \<Rightarrow>
                 if sg_state s \<noteq> target_state then
                   (Inl (InstanceBindingError ''action_saga_state_conflict''), db')
                 else (Inr (), db'))
          else (Inr (), db')))
       (\<lambda>_. action_saga key)"

end
