(* ===== verification/Instance_Service.thy ===== *)
theory Instance_Service
  imports Instance_Store Leases Hazel
begin

text \<open>
  \<^verbatim>\<open>app/ocs_instances/service.py\<close> and \<^verbatim>\<open>work_bridge.py\<close>: the service that binds instances over the
  registry, the identity guard, the authority leases and the continuity service, and the
  bridge that registers what the platform did.
\<close>

section \<open>What the service holds\<close>

text \<open>
  \<open>bs_clock\<close> are the readings of the clock that are still to come. A retry that needs no
  reading may take one all the same: nothing depends on how many were taken.
\<close>

record 'w service_state =
  bs_db :: instance_db
  bs_guard :: identity_guard
  bs_leases :: lease_manager
  bs_world :: 'w
  bs_clock :: "nat \<Rightarrow> pytime"

text \<open>
  The parts that do not change, and the calls of C code: the two digests (of the text with and
  without escapes), the keyed digest of a text, and \<^verbatim>\<open>str\<close> of a value that is no string.
\<close>

record 'w service =
  bd_secret :: string
  bd_transport :: "'w hazel_transport"
  bd_identity_digest :: digest
  bd_digest :: digest
  bd_hmac :: "string \<Rightarrow> string \<Rightarrow> string"
  bd_str :: "pyval \<Rightarrow> string"

definition INSTITUTION_ID :: string where
  "INSTITUTION_ID = ''REIS OS''"

definition new_service :: "'w service \<Rightarrow> 'w service res" where
  "new_service d = (if bd_secret d = [] then Inl (ValueError ''instance_binding_secret_required'')
                   else Inr d)"

definition on_db :: "(instance_db, 'a) py \<Rightarrow> ('w service_state, 'a) py" where
  "on_db m = py_on bs_db (\<lambda>x s. s\<lparr>bs_db := x\<rparr>) m"

definition on_identity_guard :: "(identity_guard, 'a) py \<Rightarrow> ('w service_state, 'a) py" where
  "on_identity_guard m = py_on bs_guard (\<lambda>x s. s\<lparr>bs_guard := x\<rparr>) m"

definition on_lease_manager :: "(lease_manager, 'a) py \<Rightarrow> ('w service_state, 'a) py" where
  "on_lease_manager m = py_on bs_leases (\<lambda>x s. s\<lparr>bs_leases := x\<rparr>) m"

definition on_continuity :: "('w continuity, 'a) py \<Rightarrow> ('w service_state, 'a) py" where
  "on_continuity m =
     py_on (\<lambda>s. (bs_guard s, bs_world s)) (\<lambda>(g, w) s. s\<lparr>bs_guard := g, bs_world := w\<rparr>) m"

definition read_clock :: "('w service_state, pytime) py" where
  "read_clock = (\<lambda>s. (Inr (bs_clock s 0), s\<lparr>bs_clock := (\<lambda>n. bs_clock s (Suc n))\<rparr>))"

section \<open>Values\<close>

text \<open>\<^verbatim>\<open>str(v)\<close>.\<close>

fun str_of :: "(pyval \<Rightarrow> string) \<Rightarrow> pyval \<Rightarrow> string" where
  "str_of f (PyStr s) = s"
| "str_of f v = f v"

text \<open>\<^verbatim>\<open>v == n\<close> for an integer \<open>n\<close>.\<close>

fun equals_int :: "pyval \<Rightarrow> int \<Rightarrow> bool" where
  "equals_int (PyInt m) n = (m = n)"
| "equals_int (PyBool b) n = ((if b then 1 else 0) = n)"
| "equals_int (PyFloat x) n = (x = of_int n)"
| "equals_int _ n = False"

text \<open>\<^verbatim>\<open>d[k]\<close>.\<close>

definition subscript :: "json_dict \<Rightarrow> string \<Rightarrow> pyval res" where
  "subscript d k = (case map_of d k of None \<Rightarrow> Inl (KeyError k) | Some v \<Rightarrow> Inr v)"

text \<open>\<^verbatim>\<open>asdict(profile)\<close>.\<close>

definition profile_data :: "ocs_profile \<Rightarrow> pyval" where
  "profile_data p = PyDict
     [(''ocs_id'', PyStr (op_ocs_id p)),
      (''identity'', PyStr (op_identity p)),
      (''ancestry'', PyStr (op_ancestry p)),
      (''constitution_ref'', PyStr (op_constitution_ref p)),
      (''csp_ref'', PyStr (op_csp_ref p)),
      (''specialty'', PyStr (op_specialty p)),
      (''support_capabilities'', py_strs (op_support_capabilities p)),
      (''authority_envelope_ref'', PyStr (op_authority_envelope_ref p)),
      (''allowed_action_classes'', py_strs (op_allowed_action_classes p)),
      (''denied_action_classes'', py_strs (op_denied_action_classes p)),
      (''evidence_profile'', PyStr (op_evidence_profile p)),
      (''pi_activation_policy'', PyStr (op_pi_activation_policy p)),
      (''capability_adapters'', py_strs (op_capability_adapters p)),
      (''tool_permissions'', py_strs (op_tool_permissions p)),
      (''state_namespace'', PyStr (op_state_namespace p)),
      (''memory_namespace'', PyStr (op_memory_namespace p)),
      (''risk_model'', PyStr (op_risk_model p)),
      (''stop_policy'', PyStr (op_stop_policy p)),
      (''handoff_policy'', PyStr (op_handoff_policy p)),
      (''recovery_policy'', PyStr (op_recovery_policy p)),
      (''version'', PyStr (op_version p)),
      (''predecessor'', PyStr (op_predecessor p)),
      (''rollback_pointer'', PyStr (op_rollback_pointer p)),
      (''kernel_interface_ref'', PyStr (op_kernel_interface_ref p))]"

definition profile_hash :: "digest \<Rightarrow> ocs_profile \<Rightarrow> string" where
  "profile_hash U p = canonical_hash U (profile_data p)"

definition request_hash_of :: "digest \<Rightarrow> prepare_request \<Rightarrow> string" where
  "request_hash_of U r =
     canonical_hash U (PyDict ((''institution_id'', PyStr INSTITUTION_ID) # request_data r))"

definition nonce_of :: "'w service \<Rightarrow> string \<Rightarrow> string" where
  "nonce_of d request_hash = bd_hmac d (bd_secret d) request_hash"

definition challenge_of :: "digest \<Rightarrow> string \<Rightarrow> string" where
  "challenge_of U nonce = canonical_hash U (PyDict [(''nonce'', PyStr nonce)])"

definition validate_request :: "prepare_request \<Rightarrow> unit res" where
  "validate_request r =
     (if [] \<in> set [pq_mission_id r, pq_organization_id r, pq_ocs_id r, pq_capability r,
           pq_lease_id r, pq_host r, pq_idempotency_key r, pq_correlation_id r, pq_actor r,
           pq_context_ref r, pq_policy_snapshot r, pq_trace_ref r] \<or> pq_scope r = []
      then Inl (ValueError ''instance_prepare_fields_required'') else Inr ())"

section \<open>The bootstrap envelope\<close>

definition envelope_with ::
    "instance_binding \<Rightarrow> ocs_profile \<Rightarrow> authority_lease \<Rightarrow> string \<Rightarrow> int \<Rightarrow> string option
       \<Rightarrow> bootstrap_envelope" where
  "envelope_with b p l nonce checkpoint_version checkpoint_hash =
     \<lparr> be_schema_version = ''ocs-instance-bootstrap-v1'',
       be_binding_id = ib_binding_id b,
       be_mission_id = ib_mission_id b,
       be_run_id = ib_run_id b,
       be_ocs_id = ib_ocs_id b,
       be_canonical_name = op_ocs_id p,
       be_identity_ref = op_identity p,
       be_ancestry_ref = op_ancestry p,
       be_constitution_ref = op_constitution_ref p,
       be_csp_ref = op_csp_ref p,
       be_profile_version = ib_profile_version b,
       be_profile_hash = ib_profile_hash b,
       be_identity_binding_hash = ib_identity_binding_hash b,
       be_maturity = ib_maturity b,
       be_host = ib_host b,
       be_capability = ib_capability b,
       be_lease_id = ib_lease_id b,
       be_authority_ref = ib_authority_ref b,
       be_scope = ib_scope b,
       be_allowed_action_classes = op_allowed_action_classes p,
       be_denied_action_classes = op_denied_action_classes p,
       be_tool_permissions = op_tool_permissions p,
       be_state_namespace = ib_state_namespace b,
       be_memory_namespace = ib_memory_namespace b,
       be_stop_policy = op_stop_policy p,
       be_handoff_policy = op_handoff_policy p,
       be_recovery_policy = op_recovery_policy p,
       be_generation = ib_generation b,
       be_predecessor_binding_id = ib_predecessor_binding_id b,
       be_checkpoint_version = checkpoint_version,
       be_checkpoint_hash = checkpoint_hash,
       be_challenge_nonce = nonce,
       be_issued_at = ib_created_at b,
       be_expires_at = al_expires_at l,
       be_binding_lease_consumed = True,
       be_execution_authority_granted = False,
       be_per_action_lease_required = True \<rparr>"

definition envelope_for ::
    "instance_binding \<Rightarrow> ocs_profile \<Rightarrow> authority_lease \<Rightarrow> string
       \<Rightarrow> (instance_db, bootstrap_envelope) py" where
  "envelope_for b p l nonce =
     (if ib_status b = In_PREPARED then
        py_return (envelope_with b p l nonce (ib_checkpoint_version b) (ib_checkpoint_hash b))
      else
        (case ib_predecessor_binding_id b of
           None \<Rightarrow> py_return (envelope_with b p l nonce 0 None)
         | Some i \<Rightarrow>
             py_bind (get_binding i) (\<lambda>pred.
             py_return (envelope_with b p l nonce (ib_checkpoint_version pred)
                          (ib_checkpoint_hash pred)))))"

section \<open>Leases\<close>

definition lease_checks ::
    "prepare_request \<Rightarrow> ocs_profile \<Rightarrow> string \<Rightarrow> authority_lease \<Rightarrow> unit res" where
  "lease_checks r p action_binding l =
     (if al_actor l \<noteq> pq_actor r then Inl (ValueError ''lease_actor_mismatch'')
      else if al_context_ref l \<noteq> pq_context_ref r then Inl (ValueError ''lease_context_mismatch'')
      else if al_policy_snapshot l \<noteq> pq_policy_snapshot r then
        Inl (ValueError ''lease_policy_snapshot_mismatch'')
      else if al_trace_ref l \<noteq> pq_trace_ref r then Inl (ValueError ''lease_trace_binding_mismatch'')
      else if al_tenant l \<noteq> pq_organization_id r then Inl (ValueError ''lease_tenant_mismatch'')
      else if al_object_ref_or_selector l \<noteq> pq_mission_id r then
        Inl (ValueError ''mission_specific_lease_required'')
      else if al_action_binding l \<noteq> action_binding then
        Inl (ValueError (action_binding @ ''_action_lease_required''))
      else if \<not> set (pq_scope r) \<subseteq> set (al_scope l) then Inl (ValueError ''lease_scope_mismatch'')
      else if al_authority_ref l \<noteq> op_authority_envelope_ref p then
        Inl (ValueError ''profile_authority_ref_mismatch'')
      else if pq_host r \<noteq> ''ChatGPT Work'' then Inl (ValueError ''work_host_required'')
      else Inr ())"

definition validated_lease ::
    "prepare_request \<Rightarrow> ocs_profile \<Rightarrow> string \<Rightarrow> ('w service_state, authority_lease) py" where
  "validated_lease r p action_binding =
     py_bind read_clock (\<lambda>now.
     py_bind (on_lease_manager (py_gets (validate_basic now (Some (pq_lease_id r)) (pq_ocs_id r)
                                    (pq_capability r)))) (\<lambda>(valid, reason).
     if \<not> valid then py_raise (ValueError reason)
     else
       py_bind (on_lease_manager (lease_for (pq_lease_id r))) (\<lambda>lease.
       py_bind (py_lift (lease_checks r p action_binding lease)) (\<lambda>_.
       py_return lease))))"

definition action_envelope_for ::
    "prepare_request \<Rightarrow> ocs_profile \<Rightarrow> authority_lease \<Rightarrow> instance_binding \<Rightarrow> string \<Rightarrow> string
       \<Rightarrow> string \<Rightarrow> action_envelope" where
  "action_envelope_for r p l b action_type action_id idempotency_key =
     \<lparr> ae_action_id = action_id,
       ae_actor = pq_actor r,
       ae_ocs = pq_ocs_id r,
       ae_capability = pq_capability r,
       ae_operation = action_type,
       ae_action_type = action_type,
       ae_issued_at = ib_created_at b,
       ae_payload = PyDict [(''binding_id'', PyStr (ib_binding_id b))],
       ae_lease_id = al_lease_id l,
       ae_evidence_refs = [],
       ae_csp_ref = op_csp_ref p,
       ae_object_ref = pq_mission_id r,
       ae_tenant = pq_organization_id r,
       ae_context_ref = pq_context_ref r,
       ae_scope = pq_scope r,
       ae_valid_scope = True,
       ae_authority_ref = al_authority_ref l,
       ae_policy_snapshot = pq_policy_snapshot r,
       ae_idempotency_key = idempotency_key,
       ae_expected_effect = action_type,
       ae_side_effect_class = Effect_BOUNDED,
       ae_reversibility_class = Rev_REVERSIBLE,
       ae_recovery_ref = op_recovery_policy p,
       ae_expires_at = al_expires_at l,
       ae_evidence_assessment_ref = ''assessment:'' @ ib_binding_id b,
       ae_max_uses = al_max_uses l,
       ae_trace_id = pq_trace_ref r,
       ae_lease_use_index = None \<rparr>"

definition reserve_action_lease ::
    "prepare_request \<Rightarrow> authority_lease \<Rightarrow> instance_binding \<Rightarrow> string \<Rightarrow> string \<Rightarrow> string
       \<Rightarrow> ('w service_state, unit) py" where
  "reserve_action_lease r l b action_type action_id idempotency_key =
     py_bind (py_lift (get_profile (pq_ocs_id r))) (\<lambda>p.
     py_bind read_clock (\<lambda>t1.
     py_bind read_clock (\<lambda>t2.
     py_bind (on_lease_manager (reserve_use t1 t2
                (action_envelope_for r p l b action_type action_id idempotency_key)))
       (\<lambda>(ok, reason, use_index).
     if \<not> ok \<or> use_index = None then py_raise (InstanceBindingError reason) else py_return ()))))"

definition reserve_binding_lease ::
    "prepare_request \<Rightarrow> authority_lease \<Rightarrow> instance_binding \<Rightarrow> ('w service_state, unit) py" where
  "reserve_binding_lease r l b =
     reserve_action_lease r l b ''ocs_instance_binding'' (''bind:'' @ ib_binding_id b)
       (pq_idempotency_key r)"

definition finalize_lease :: "string \<Rightarrow> ('w service_state, unit) py" where
  "finalize_lease lease_id = py_bind (on_lease_manager (finalize lease_id)) (\<lambda>_. py_return ())"

definition reconcile_binding_lease ::
    "prepare_request \<Rightarrow> authority_lease \<Rightarrow> instance_binding \<Rightarrow> ('w service_state, unit) py" where
  "reconcile_binding_lease r l b =
     py_bind (on_lease_manager (lease_for (al_lease_id l))) (\<lambda>current.
     if al_state current = Lease_RELEASED then py_return ()
     else
       py_bind (reserve_binding_lease r current b) (\<lambda>_.
       finalize_lease (al_lease_id current)))"

section \<open>Continuity of a binding\<close>

definition recover_binding_state ::
    "'w service \<Rightarrow> instance_binding \<Rightarrow> ('w service_state, json_dict) py" where
  "recover_binding_state d b =
     on_continuity (hazel_recover_state (bd_identity_digest d) (bd_digest d) (bd_transport d)
       (ib_run_id b) (ib_ocs_id b) (ib_host b) (ib_authority_ref b))"

definition persist_binding_state ::
    "'w service \<Rightarrow> instance_binding \<Rightarrow> string \<Rightarrow> int \<Rightarrow> string option \<Rightarrow> json_dict \<Rightarrow> string
       \<Rightarrow> ('w service_state, json_dict) py" where
  "persist_binding_state d b authority_ref state_version predecessor_hash state trace_id =
     py_bind (on_continuity (hazel_persist_state (bd_identity_digest d) (bd_transport d)
       (ib_run_id b) (ib_ocs_id b) (ib_host b) authority_ref state_version predecessor_hash
       state trace_id)) (\<lambda>(receipt, _). py_return receipt)"

definition transition_now ::
    "string \<Rightarrow> int \<Rightarrow> instance_status \<Rightarrow> string \<Rightarrow> string \<Rightarrow> transition_args
       \<Rightarrow> ('w service_state, instance_binding) py" where
  "transition_now i v target key event_type a =
     py_bind read_clock (\<lambda>now. on_db (transition i v target key event_type a now))"

definition prepared_state :: "instance_binding \<Rightarrow> json_dict" where
  "prepared_state b =
     [(''binding_id'', PyStr (ib_binding_id b)),
      (''mission_id'', PyStr (ib_mission_id b)),
      (''organization_id'', PyStr (ib_organization_id b)),
      (''generation'', PyInt (ib_generation b)),
      (''profile_hash'', PyStr (ib_profile_hash b)),
      (''identity_binding_hash'', PyStr (ib_identity_binding_hash b)),
      (''bootstrap_hash'', PyStr (ib_bootstrap_hash b)),
      (''maturity'', PyStr (maturity_value (ib_maturity b))),
      (''status'', PyStr (status_value In_PERSISTED))]"

text \<open>What \<^verbatim>\<open>except (KeyError, HazelIntegrationError)\<close> catches.\<close>

fun is_continuity_error :: "exn \<Rightarrow> bool" where
  "is_continuity_error (KeyError _) = True"
| "is_continuity_error (HazelIntegrationError _) = True"
| "is_continuity_error _ = False"

definition persist_and_read_back ::
    "'w service \<Rightarrow> instance_binding \<Rightarrow> ('w service_state, json_dict) py" where
  "persist_and_read_back d b =
     py_bind (persist_binding_state d b (ib_authority_ref b) 1 None (prepared_state b)
       (''trace:'' @ ib_binding_id b @ '':prepare'')) (\<lambda>receipt.
     py_bind (recover_binding_state d b) (\<lambda>recovered.
     if \<not> py_eq (dict_get recovered ''event_hash'') (dict_get receipt ''event_hash'') then
       py_raise (InstanceBindingError ''hazel_prepare_readback_mismatch'')
     else py_return recovered))"

definition transition_to_persisted ::
    "'w service \<Rightarrow> instance_binding \<Rightarrow> string \<Rightarrow> json_dict
       \<Rightarrow> ('w service_state, instance_binding) py" where
  "transition_to_persisted d b key recovered =
     py_bind (py_lift (subscript recovered ''payload_hash'')) (\<lambda>payload_hash.
     py_bind (py_lift (subscript recovered ''event_hash'')) (\<lambda>event_hash.
     transition_now (ib_binding_id b) (ib_version b) In_PERSISTED (key @ '':hazel'')
       ''OCS_INSTANCE_PERSISTED''
       \<lparr> ta_platform_instance_id = None,
         ta_checkpoint_version = Some 1,
         ta_checkpoint_hash = Some (str_of (bd_str d) payload_hash),
         ta_hazel_event_hash = Some (str_of (bd_str d) event_hash),
         ta_maturity = None,
         ta_payload = [(''event_hash'', event_hash), (''payload_hash'', payload_hash)] \<rparr>))"

definition ensure_hazel ::
    "'w service \<Rightarrow> instance_binding \<Rightarrow> prepare_request \<Rightarrow> ('w service_state, instance_binding) py" where
  "ensure_hazel d b r =
     py_bind
       (py_try (py_bind (recover_binding_state d b) (\<lambda>recovered.
                if \<not> py_eq (dict_get recovered ''payload'') (PyDict (prepared_state b)) then
                  py_raise (InstanceBindingError ''hazel_prepare_recovery_conflict'')
                else py_return recovered))
         (\<lambda>e. if is_continuity_error e then persist_and_read_back d b else py_raise e)
         py_return)
       (\<lambda>recovered.
        if \<not> py_eq (dict_get recovered ''payload'') (PyDict (prepared_state b)) then
          py_raise (InstanceBindingError ''hazel_prepare_readback_mismatch'')
        else transition_to_persisted d b (pq_idempotency_key r) recovered)"

section \<open>Preparing an instance\<close>

definition session_context_of :: "digest \<Rightarrow> prepare_request \<Rightarrow> string" where
  "session_context_of U r = ''context:'' @ canonical_hash U (PyDict
     [(''institution_id'', PyStr INSTITUTION_ID),
      (''organization_id'', PyStr (pq_organization_id r)),
      (''mission_id'', PyStr (pq_mission_id r)),
      (''ocs_id'', PyStr (pq_ocs_id r)),
      (''context_ref'', PyStr (pq_context_ref r)),
      (''policy_snapshot'', PyStr (pq_policy_snapshot r)),
      (''trace_ref'', PyStr (pq_trace_ref r))])"

definition bound_identity ::
    "'w service \<Rightarrow> prepare_request \<Rightarrow> string \<Rightarrow> ('w service_state, active_binding) py" where
  "bound_identity d r run_id =
     py_bind (on_identity_guard (py_gets (\<lambda>g. binding_for g run_id))) (\<lambda>active.
     py_bind
       (if active = None then
          py_bind read_clock (\<lambda>now.
          py_bind (on_identity_guard (bind_active_identity (bd_identity_digest d) now run_id (pq_ocs_id r)
            (pq_host r) (session_context_of (bd_digest d) r))) (\<lambda>_. py_return ()))
        else py_return ()) (\<lambda>_.
     on_identity_guard (require_valid (bd_identity_digest d) run_id (pq_ocs_id r) COLD_START
       (Some (pq_host r)))))"

definition provisional_binding ::
    "'w service \<Rightarrow> prepare_request \<Rightarrow> ocs_profile \<Rightarrow> authority_lease \<Rightarrow> string \<Rightarrow> active_binding
       \<Rightarrow> int \<Rightarrow> pytime \<Rightarrow> instance_binding" where
  "provisional_binding d r p l run_id a generation now =
     (let request_hash = request_hash_of (bd_digest d) r
      in \<lparr> ib_binding_id = ''binding:'' @ take 32 request_hash,
           ib_mission_id = pq_mission_id r,
           ib_run_id = run_id,
           ib_organization_id = pq_organization_id r,
           ib_ocs_id = pq_ocs_id r,
           ib_profile_version = op_version p,
           ib_profile_hash = profile_hash (bd_digest d) p,
           ib_identity_binding_hash = binding_hash (bd_identity_digest d) a,
           ib_request_hash = request_hash,
           ib_maturity = PREPARED_UNVERIFIED,
           ib_host = pq_host r,
           ib_capability = pq_capability r,
           ib_lease_id = pq_lease_id r,
           ib_authority_ref = al_authority_ref l,
           ib_scope = pq_scope r,
           ib_state_namespace = ab_state_namespace a,
           ib_memory_namespace = ab_memory_namespace a,
           ib_generation = generation,
           ib_platform_instance_id = None,
           ib_challenge_hash = challenge_of (bd_digest d) (nonce_of d request_hash),
           ib_bootstrap_hash = [],
           ib_status = In_PREPARED,
           ib_version = 1,
           ib_predecessor_binding_id = None,
           ib_checkpoint_version = 0,
           ib_checkpoint_hash = None,
           ib_hazel_event_hash = None,
           ib_idempotency_key = pq_idempotency_key r,
           ib_correlation_id = pq_correlation_id r,
           ib_causation_id = pq_causation_id r,
           ib_created_at = now,
           ib_updated_at = now \<rparr>)"

text \<open>\<^verbatim>\<open>prepare\<close> under a key that has a binding.\<close>

definition prepare_again ::
    "'w service \<Rightarrow> prepare_request \<Rightarrow> ocs_profile \<Rightarrow> instance_binding
       \<Rightarrow> ('w service_state, instance_binding \<times> bootstrap_envelope) py" where
  "prepare_again d r p recovered =
     (let request_hash = request_hash_of (bd_digest d) r
      in py_bind (on_lease_manager (lease_for (ib_lease_id recovered))) (\<lambda>lease.
         if ib_request_hash recovered \<noteq> request_hash then
           py_raise (InstanceBindingError ''instance_idempotency_conflict'')
         else
           py_bind (on_db (envelope_for recovered p lease (nonce_of d request_hash))) (\<lambda>envelope.
           if envelope_digest (bd_digest d) envelope \<noteq> ib_bootstrap_hash recovered then
             py_raise (InstanceBindingError ''bootstrap_recovery_hash_mismatch'')
           else
             py_bind (reconcile_binding_lease r lease recovered) (\<lambda>_.
             if ib_status recovered = In_PREPARED then
               py_bind (ensure_hazel d recovered r) (\<lambda>b. py_return (b, envelope))
             else py_return (recovered, envelope)))))"

text \<open>From the provisional binding on: envelope, lease, registry, continuity.\<close>

definition register_binding ::
    "'w service \<Rightarrow> prepare_request \<Rightarrow> ocs_profile \<Rightarrow> authority_lease \<Rightarrow> instance_binding
       \<Rightarrow> ('w service_state, instance_binding \<times> bootstrap_envelope) py" where
  "register_binding d r p lease provisional =
     (let nonce = nonce_of d (ib_request_hash provisional)
      in py_bind (on_db (envelope_for provisional p lease nonce)) (\<lambda>unsigned.
         let binding = provisional\<lparr>ib_bootstrap_hash := envelope_digest (bd_digest d) unsigned\<rparr>
         in py_bind (on_db (envelope_for binding p lease nonce)) (\<lambda>envelope.
            py_bind (reserve_binding_lease r lease binding) (\<lambda>_.
            py_bind (on_db (create_binding binding)) (\<lambda>stored.
            py_bind (finalize_lease (al_lease_id lease)) (\<lambda>_.
            py_bind (ensure_hazel d stored r) (\<lambda>durable.
            py_return (durable, envelope))))))))"

definition prepare_new ::
    "'w service \<Rightarrow> prepare_request \<Rightarrow> ocs_profile
       \<Rightarrow> ('w service_state, instance_binding \<times> bootstrap_envelope) py" where
  "prepare_new d r p =
     py_bind (validated_lease r p ''ocs_instance_binding'') (\<lambda>lease.
     py_bind (py_lift (stable_run_id (bd_digest d) INSTITUTION_ID (pq_organization_id r)
                (pq_mission_id r) (pq_ocs_id r))) (\<lambda>run_id.
     py_bind (bound_identity d r run_id) (\<lambda>active.
     py_bind (on_db (latest_generation (pq_organization_id r) (pq_mission_id r) (pq_ocs_id r)))
       (\<lambda>latest.
     py_bind read_clock (\<lambda>now.
     register_binding d r p lease
       (provisional_binding d r p lease run_id active (latest + 1) now))))))"

definition prepare ::
    "'w service \<Rightarrow> prepare_request
       \<Rightarrow> ('w service_state, instance_binding \<times> bootstrap_envelope) py" where
  "prepare d r =
     py_bind (py_lift (validate_request r)) (\<lambda>_.
     case map_of PROFILES (pq_ocs_id r) of
       None \<Rightarrow> py_raise (ValueError ''unknown_ocs_identity'')
     | Some p \<Rightarrow>
         py_bind (on_db (by_idempotency (pq_idempotency_key r))) (\<lambda>recovered.
         case recovered of
           Some b \<Rightarrow> prepare_again d r p b
         | None \<Rightarrow> prepare_new d r p))"

section \<open>Sagas\<close>

definition advance_now ::
    "string \<Rightarrow> string \<Rightarrow> string \<Rightarrow> ('w service_state, saga_row) py" where
  "advance_now key expected target =
     py_bind read_clock (\<lambda>now. on_db (advance_action_saga key expected target now))"

text \<open>\<^verbatim>\<open>if saga["state"] == expected: saga = self._store.advance_action_saga(...)\<close>.\<close>

definition advance_if ::
    "saga_row \<Rightarrow> string \<Rightarrow> string \<Rightarrow> string \<Rightarrow> ('w service_state, saga_row) py" where
  "advance_if saga key expected target =
     (if sg_state saga = expected then advance_now key expected target else py_return saga)"

definition begin_saga_now ::
    "string \<Rightarrow> string \<Rightarrow> string \<Rightarrow> string \<Rightarrow> pyval \<Rightarrow> ('w service_state, saga_row) py" where
  "begin_saga_now key binding_id operation fingerprint payload =
     py_bind read_clock (\<lambda>now.
     on_db (begin_action_saga key binding_id operation fingerprint payload now))"

text \<open>The last step of a saga: its lease is finalized unless \<open>lease\<close> was released already.\<close>

definition finish_saga ::
    "saga_row \<Rightarrow> string \<Rightarrow> authority_lease \<Rightarrow> ('w service_state, unit) py" where
  "finish_saga saga key lease =
     (if sg_state saga = ''LOCAL_COMMITTED'' then
        py_bind (if al_state lease \<noteq> Lease_RELEASED then finalize_lease (al_lease_id lease)
                 else py_return ()) (\<lambda>_.
        py_bind (advance_now key ''LOCAL_COMMITTED'' ''LEASE_FINALIZED'') (\<lambda>_. py_return ()))
      else py_return ())"

definition require_physical_worker ::
    "instance_binding \<Rightarrow> string \<Rightarrow> int \<Rightarrow> unit res" where
  "require_physical_worker b platform_instance_id generation =
     (if ib_platform_instance_id b \<noteq> Some platform_instance_id then
        Inl (InstanceBindingError ''platform_instance_fenced'')
      else if ib_generation b \<noteq> generation then
        Inl (InstanceBindingError ''instance_generation_fenced'')
      else Inr ())"

section \<open>Checkpoints\<close>

definition canonical_hash_of :: "digest \<Rightarrow> pyval \<Rightarrow> string res" where
  "canonical_hash_of U v =
     (if serializable v then Inr (canonical_hash U v) else Inl (OtherError ''TypeError''))"

definition checkpoint_payload :: "instance_binding \<Rightarrow> json_dict \<Rightarrow> json_dict" where
  "checkpoint_payload b state =
     [(''binding_id'', PyStr (ib_binding_id b)),
      (''mission_id'', PyStr (ib_mission_id b)),
      (''generation'', PyInt (ib_generation b)),
      (''state'', PyDict state)]"

definition checkpoint_fingerprint ::
    "digest \<Rightarrow> json_dict \<Rightarrow> prepare_request \<Rightarrow> string res" where
  "checkpoint_fingerprint U payload authority =
     canonical_hash_of U (PyDict [(''checkpoint'', PyDict payload),
                                  (''authority'', PyDict (request_data authority))])"

definition checkpoint_retry ::
    "string \<Rightarrow> prepare_request \<Rightarrow> instance_binding \<Rightarrow> ('w service_state, instance_binding) py" where
  "checkpoint_retry key authority replay =
     py_bind (on_db (action_saga key)) (\<lambda>saga.
     py_bind (advance_if saga key ''EFFECT_APPLIED'' ''READBACK_VERIFIED'') (\<lambda>saga.
     py_bind (advance_if saga key ''READBACK_VERIFIED'' ''LOCAL_COMMITTED'') (\<lambda>saga.
     py_bind
       (if sg_state saga = ''LOCAL_COMMITTED'' then
          py_bind (on_lease_manager (lease_for (pq_lease_id authority))) (finish_saga saga key)
        else py_return ()) (\<lambda>_.
     py_return replay))))"

fun is_instance_error :: "exn \<Rightarrow> bool" where
  "is_instance_error (InstanceBindingError _) = True"
| "is_instance_error _ = False"

definition checkpoint_saga ::
    "instance_binding \<Rightarrow> prepare_request \<Rightarrow> ocs_profile \<Rightarrow> string \<Rightarrow> string
       \<Rightarrow> ('w service_state, saga_row \<times> authority_lease) py" where
  "checkpoint_saga b authority p key fingerprint =
     py_try (on_db (action_saga key))
       (\<lambda>e. if \<not> is_instance_error e then py_raise e
         else
           py_bind (validated_lease authority p ''ocs_instance_checkpoint'') (\<lambda>lease.
           py_bind (reserve_action_lease authority lease b ''ocs_instance_checkpoint''
             (''checkpoint:'' @ ib_binding_id b @ '':'' @ show_int (ib_checkpoint_version b + 1)) key)
             (\<lambda>_.
           py_bind (begin_saga_now key (ib_binding_id b) ''ocs_instance_checkpoint'' fingerprint
             (PyDict [(''lease_id'', PyStr (al_lease_id lease))])) (\<lambda>saga.
           py_return (saga, lease)))))
       (\<lambda>saga. if sg_binding_id saga \<noteq> ib_binding_id b \<or> sg_request_fingerprint saga \<noteq> fingerprint
         then py_raise (InstanceBindingError ''instance_idempotency_conflict'')
         else py_bind (on_lease_manager (lease_for (pq_lease_id authority))) (\<lambda>lease.
              py_return (saga, lease)))"

text \<open>The event that holds the checkpoint in the continuity service, written if it is missing.\<close>

definition checkpoint_effect ::
    "'w service \<Rightarrow> instance_binding \<Rightarrow> json_dict \<Rightarrow> ('w service_state, pyval) py" where
  "checkpoint_effect d b payload =
     (let next_version = ib_checkpoint_version b + 1
      in py_bind (recover_binding_state d b) (\<lambda>recovered.
         if equals_int (dict_get recovered ''state_version'') next_version then
           if \<not> py_eq (dict_get recovered ''payload'') (PyDict payload) then
             py_raise (InstanceBindingError ''checkpoint_recovery_conflict'')
           else py_return (dict_get recovered ''event_hash'')
         else if equals_int (dict_get recovered ''state_version'') (ib_checkpoint_version b) then
           py_bind (persist_binding_state d b (ib_authority_ref b) next_version
             (ib_hazel_event_hash b) payload
             (''trace:'' @ ib_binding_id b @ '':checkpoint:'' @ show_int next_version)) (\<lambda>receipt.
           py_return (dict_get receipt ''event_hash''))
         else py_raise (InstanceBindingError ''checkpoint_state_version_conflict'')))"

definition commit_checkpoint ::
    "'w service \<Rightarrow> instance_binding \<Rightarrow> int \<Rightarrow> string \<Rightarrow> string \<Rightarrow> json_dict
       \<Rightarrow> ('w service_state, instance_binding) py" where
  "commit_checkpoint d b expected_version key fingerprint recovered =
     (let next_version = ib_checkpoint_version b + 1
      in py_bind (py_lift (subscript recovered ''payload_hash'')) (\<lambda>payload_hash.
         py_bind (py_lift (subscript recovered ''event_hash'')) (\<lambda>event_hash.
         transition_now (ib_binding_id b) expected_version In_CHECKPOINTED key
           ''OCS_INSTANCE_CHECKPOINTED''
           \<lparr> ta_platform_instance_id = None,
             ta_checkpoint_version = Some next_version,
             ta_checkpoint_hash = Some (str_of (bd_str d) payload_hash),
             ta_hazel_event_hash = Some (str_of (bd_str d) event_hash),
             ta_maturity = None,
             ta_payload = [(''state_version'', PyInt next_version),
                           (''event_hash'', event_hash),
                           (''request_fingerprint'', PyStr fingerprint)] \<rparr>)))"

definition checkpoint_new ::
    "'w service \<Rightarrow> instance_binding \<Rightarrow> prepare_request \<Rightarrow> int \<Rightarrow> json_dict \<Rightarrow> string \<Rightarrow> string
       \<Rightarrow> ('w service_state, instance_binding) py" where
  "checkpoint_new d b authority expected_version payload key fingerprint =
     py_bind (py_lift (get_profile (ib_ocs_id b))) (\<lambda>p.
     if pq_organization_id authority \<noteq> ib_organization_id b \<or>
        pq_mission_id authority \<noteq> ib_mission_id b \<or> pq_ocs_id authority \<noteq> ib_ocs_id b then
       py_raise (InstanceBindingError ''checkpoint_authority_scope_mismatch'')
     else
       py_bind (checkpoint_saga b authority p key fingerprint) (\<lambda>(saga, lease).
       py_bind (checkpoint_effect d b payload) (\<lambda>persisted.
       py_bind (advance_if saga key ''LEASE_RESERVED'' ''EFFECT_APPLIED'') (\<lambda>saga.
       py_bind (recover_binding_state d b) (\<lambda>recovered.
       if \<not> py_eq (dict_get recovered ''event_hash'') persisted then
         py_raise (InstanceBindingError ''checkpoint_readback_mismatch'')
       else
         py_bind (advance_if saga key ''EFFECT_APPLIED'' ''READBACK_VERIFIED'') (\<lambda>saga.
         py_bind (commit_checkpoint d b expected_version key fingerprint recovered) (\<lambda>committed.
         py_bind (advance_if saga key ''READBACK_VERIFIED'' ''LOCAL_COMMITTED'') (\<lambda>saga.
         py_bind (finish_saga saga key lease) (\<lambda>_.
         py_return committed)))))))))"

definition checkpoint ::
    "'w service \<Rightarrow> string \<Rightarrow> prepare_request \<Rightarrow> string \<Rightarrow> int \<Rightarrow> int \<Rightarrow> json_dict \<Rightarrow> string
       \<Rightarrow> ('w service_state, instance_binding) py" where
  "checkpoint d binding_id authority platform_instance_id generation expected_version state key =
     py_bind (on_db (get_binding binding_id)) (\<lambda>b.
     if ib_status b \<notin> {In_ACTIVE, In_CHECKPOINTED} then
       py_raise (InstanceBindingError ''active_instance_required_for_checkpoint'')
     else
       py_bind (py_lift (require_physical_worker b platform_instance_id generation)) (\<lambda>_.
       let payload = checkpoint_payload b state
       in py_bind (py_lift (checkpoint_fingerprint (bd_digest d) payload authority)) (\<lambda>fingerprint.
          py_bind (on_db (checkpoint_replay (ib_binding_id b) key fingerprint)) (\<lambda>replay.
          case replay of
            Some c \<Rightarrow> checkpoint_retry key authority c
          | None \<Rightarrow> checkpoint_new d b authority expected_version payload key fingerprint))))"

section \<open>Replacing an instance\<close>

definition replacement_retry ::
    "'w service \<Rightarrow> prepare_request \<Rightarrow> instance_binding \<Rightarrow> instance_binding option \<Rightarrow> string
       \<Rightarrow> ('w service_state, instance_binding \<times> bootstrap_envelope) py" where
  "replacement_retry d r previous replayed key =
     (case replayed of
        None \<Rightarrow> py_raise (InstanceBindingError ''replacement_idempotency_conflict'')
      | Some b \<Rightarrow>
          if ib_predecessor_binding_id b \<noteq> Some (ib_binding_id previous)
             \<or> ib_request_hash b \<noteq> request_hash_of (bd_digest d) r then
            py_raise (InstanceBindingError ''replacement_idempotency_conflict'')
          else
            py_bind (py_lift (get_profile (ib_ocs_id b))) (\<lambda>p.
            py_bind (on_lease_manager (lease_for (ib_lease_id b))) (\<lambda>lease.
            py_bind (on_db (envelope_for b p lease (nonce_of d (ib_request_hash b)))) (\<lambda>envelope.
            if envelope_digest (bd_digest d) envelope \<noteq> ib_bootstrap_hash b then
              py_raise (InstanceBindingError ''bootstrap_recovery_hash_mismatch'')
            else
              py_bind (reconcile_binding_lease r lease b) (\<lambda>_.
              py_bind
                (py_try (on_db (action_saga key))
                  (\<lambda>e. if is_instance_error e then py_return () else py_raise e)
                  (\<lambda>saga. py_bind (advance_if saga key ''LOCAL_COMMITTED'' ''LEASE_FINALIZED'')
                    (\<lambda>_. py_return ()))) (\<lambda>_.
              py_return (b, envelope)))))))"

definition check_replacement_request ::
    "instance_binding \<Rightarrow> prepare_request \<Rightarrow> string \<Rightarrow> int \<Rightarrow> unit res" where
  "check_replacement_request previous r platform_instance_id generation =
     (if ib_status previous \<noteq> In_CHECKPOINTED then
        Inl (InstanceBindingError ''verified_checkpoint_required_for_replacement'')
      else case require_physical_worker previous platform_instance_id generation of
        Inl e \<Rightarrow> Inl e
      | Inr _ \<Rightarrow>
          if pq_organization_id r \<noteq> ib_organization_id previous
             \<or> pq_mission_id r \<noteq> ib_mission_id previous \<or> pq_ocs_id r \<noteq> ib_ocs_id previous then
            Inl (InstanceBindingError ''replacement_identity_scope_mismatch'')
          else if pq_causation_id r \<noteq> ib_hazel_event_hash previous then
            Inl (InstanceBindingError ''replacement_causation_mismatch'')
          else Inr ())"

definition check_replacement_profile ::
    "digest \<Rightarrow> instance_binding \<Rightarrow> ocs_profile \<Rightarrow> unit res" where
  "check_replacement_profile U previous p =
     (if ib_profile_version previous \<noteq> op_version p \<or> ib_profile_hash previous \<noteq> profile_hash U p then
        Inl (InstanceBindingError ''replacement_profile_drift'')
      else Inr ())"

definition check_replacement_context :: "authority_lease \<Rightarrow> prepare_request \<Rightarrow> unit res" where
  "check_replacement_context l r =
     (if pq_context_ref r \<noteq> al_context_ref l \<or> pq_policy_snapshot r \<noteq> al_policy_snapshot l
         \<or> pq_trace_ref r \<noteq> al_trace_ref l then
        Inl (InstanceBindingError ''replacement_authority_context_drift'')
      else Inr ())"

definition replacement_fingerprint :: "digest \<Rightarrow> prepare_request \<Rightarrow> instance_binding \<Rightarrow> string" where
  "replacement_fingerprint U r previous = canonical_hash U (PyDict
     [(''request_hash'', PyStr (request_hash_of U r)),
      (''predecessor'', PyStr (ib_binding_id previous)),
      (''checkpoint_hash'', py_opt_str (ib_checkpoint_hash previous)),
      (''checkpoint_version'', PyInt (ib_checkpoint_version previous))])"

definition replacement_lease ::
    "prepare_request \<Rightarrow> ocs_profile \<Rightarrow> instance_binding \<Rightarrow> string \<Rightarrow> string
       \<Rightarrow> ('w service_state, saga_row option \<times> authority_lease) py" where
  "replacement_lease r p previous key fingerprint =
     py_try (on_db (action_saga key))
       (\<lambda>e. if \<not> is_instance_error e then py_raise e
         else py_bind (validated_lease r p ''ocs_instance_binding'') (\<lambda>lease.
              py_return (None, lease)))
       (\<lambda>saga. if sg_binding_id saga \<noteq> ib_binding_id previous
            \<or> sg_request_fingerprint saga \<noteq> fingerprint then
           py_raise (InstanceBindingError ''replacement_idempotency_conflict'')
         else py_bind (on_lease_manager (lease_for (pq_lease_id r))) (\<lambda>lease.
              py_return (Some saga, lease)))"

definition successor_binding ::
    "'w service \<Rightarrow> prepare_request \<Rightarrow> authority_lease \<Rightarrow> pytime \<Rightarrow> instance_binding
       \<Rightarrow> instance_binding" where
  "successor_binding d r l now previous =
     (let request_hash = request_hash_of (bd_digest d) r
      in previous\<lparr>
        ib_binding_id := ''binding:'' @ take 32 request_hash,
        ib_capability := pq_capability r,
        ib_lease_id := pq_lease_id r,
        ib_authority_ref := al_authority_ref l,
        ib_scope := pq_scope r,
        ib_generation := ib_generation previous + 1,
        ib_platform_instance_id := None,
        ib_challenge_hash := challenge_of (bd_digest d) (nonce_of d request_hash),
        ib_bootstrap_hash := [],
        ib_status := In_PREPARED,
        ib_version := 1,
        ib_predecessor_binding_id := Some (ib_binding_id previous),
        ib_request_hash := request_hash,
        ib_idempotency_key := pq_idempotency_key r,
        ib_correlation_id := pq_correlation_id r,
        ib_causation_id := pq_causation_id r,
        ib_created_at := now,
        ib_updated_at := now\<rparr>)"

definition replacement_state ::
    "instance_binding \<Rightarrow> instance_binding \<Rightarrow> pyval \<Rightarrow> json_dict" where
  "replacement_state b previous recovered_payload =
     [(''binding_id'', PyStr (ib_binding_id b)),
      (''mission_id'', PyStr (ib_mission_id b)),
      (''generation'', PyInt (ib_generation b)),
      (''recovered_from'', PyStr (ib_binding_id previous)),
      (''recovered_payload'', recovered_payload),
      (''bootstrap_hash'', PyStr (ib_bootstrap_hash b))]"

text \<open>What the predecessor left, also when the replacement was persisted before.\<close>

definition left_payload :: "json_dict \<Rightarrow> int \<Rightarrow> string \<Rightarrow> pyval res" where
  "left_payload prior_state next_version successor_id =
     (case subscript prior_state ''payload'' of
        Inl e \<Rightarrow> Inl e
      | Inr payload \<Rightarrow>
          if equals_int (dict_get prior_state ''state_version'') next_version then
            (case payload of
               PyDict kvs \<Rightarrow>
                 if dict_get kvs ''binding_id'' = PyStr successor_id
                 then subscript kvs ''recovered_payload'' else Inr payload
             | _ \<Rightarrow> Inr payload)
          else Inr payload)"

definition replacement_effect ::
    "'w service \<Rightarrow> instance_binding \<Rightarrow> instance_binding \<Rightarrow> authority_lease \<Rightarrow> json_dict
       \<Rightarrow> ('w service_state, pyval) py" where
  "replacement_effect d b previous lease state =
     (let next_version = ib_checkpoint_version previous + 1
      in py_bind (recover_binding_state d b) (\<lambda>recovered.
         if equals_int (dict_get recovered ''state_version'') next_version then
           if \<not> py_eq (dict_get recovered ''payload'') (PyDict state) then
             py_raise (InstanceBindingError ''replacement_recovery_conflict'')
           else py_return (dict_get recovered ''event_hash'')
         else if equals_int (dict_get recovered ''state_version'') (ib_checkpoint_version previous) then
           py_bind (persist_binding_state d previous (al_authority_ref lease) next_version
             (ib_hazel_event_hash previous) state
             (''trace:'' @ ib_binding_id b @ '':replacement'')) (\<lambda>receipt.
           py_return (dict_get receipt ''event_hash''))
         else py_raise (InstanceBindingError ''replacement_state_version_conflict'')))"

definition commit_replacement_now ::
    "'w service \<Rightarrow> instance_binding \<Rightarrow> int \<Rightarrow> instance_binding \<Rightarrow> string \<Rightarrow> json_dict
       \<Rightarrow> ('w service_state, instance_binding) py" where
  "commit_replacement_now d previous expected_version b key recovered =
     py_bind (py_lift (subscript recovered ''payload_hash'')) (\<lambda>payload_hash.
     py_bind (py_lift (subscript recovered ''event_hash'')) (\<lambda>event_hash.
     py_bind read_clock (\<lambda>now.
     py_bind (on_db (commit_replacement (ib_binding_id previous) expected_version (ib_binding_id b) 1
       key (ib_checkpoint_version previous + 1) (str_of (bd_str d) payload_hash)
       (str_of (bd_str d) event_hash) now)) (\<lambda>(_, durable).
     py_return durable))))"

definition replacement_body ::
    "'w service \<Rightarrow> instance_binding \<Rightarrow> instance_binding \<Rightarrow> authority_lease \<Rightarrow> int \<Rightarrow> string
       \<Rightarrow> json_dict \<Rightarrow> saga_row \<Rightarrow> ('w service_state, instance_binding) py" where
  "replacement_body d b previous lease expected_version key prior_state saga =
     py_bind (py_lift (left_payload prior_state (ib_checkpoint_version previous + 1)
                (ib_binding_id b))) (\<lambda>recovered_payload.
     py_bind (replacement_effect d b previous lease
                (replacement_state b previous recovered_payload)) (\<lambda>persisted.
     py_bind (advance_if saga key ''LEASE_RESERVED'' ''EFFECT_APPLIED'') (\<lambda>saga.
     py_bind (recover_binding_state d b) (\<lambda>recovered.
     if \<not> py_eq (dict_get recovered ''event_hash'') persisted then
       py_raise (InstanceBindingError ''replacement_readback_mismatch'')
     else
       py_bind (advance_if saga key ''EFFECT_APPLIED'' ''READBACK_VERIFIED'') (\<lambda>saga.
       py_bind (commit_replacement_now d previous expected_version b key recovered) (\<lambda>durable.
       py_bind (advance_if saga key ''READBACK_VERIFIED'' ''LOCAL_COMMITTED'') (\<lambda>saga.
       py_bind (finish_saga saga key lease) (\<lambda>_.
       py_return durable))))))))"

definition replacement_new ::
    "'w service \<Rightarrow> prepare_request \<Rightarrow> ocs_profile \<Rightarrow> instance_binding \<Rightarrow> int \<Rightarrow> string
       \<Rightarrow> ('w service_state, instance_binding \<times> bootstrap_envelope) py" where
  "replacement_new d r p previous expected_version key =
     (let fingerprint = replacement_fingerprint (bd_digest d) r previous
      in py_bind (replacement_lease r p previous key fingerprint) (\<lambda>(found, lease).
         py_bind (recover_binding_state d previous) (\<lambda>prior_state.
         py_bind read_clock (\<lambda>now.
         let provisional = successor_binding d r lease now previous;
             nonce = nonce_of d (ib_request_hash provisional)
         in py_bind (on_db (envelope_for provisional p lease nonce)) (\<lambda>unsigned.
            let next_binding =
              provisional\<lparr>ib_bootstrap_hash := envelope_digest (bd_digest d) unsigned\<rparr>
            in py_bind (on_db (envelope_for next_binding p lease nonce)) (\<lambda>envelope.
               py_bind
                 (case found of
                    Some saga \<Rightarrow> py_return saga
                  | None \<Rightarrow>
                      py_bind (reserve_binding_lease r lease next_binding) (\<lambda>_.
                      begin_saga_now key (ib_binding_id previous) ''ocs_instance_replacement''
                        fingerprint (PyDict [(''lease_id'', PyStr (al_lease_id lease))]))) (\<lambda>saga.
               py_bind (on_db (create_binding next_binding)) (\<lambda>b.
               py_bind (replacement_body d b previous lease expected_version key prior_state saga)
                 (\<lambda>durable.
               py_return (durable, envelope))))))))))"

definition replace_instance ::
    "'w service \<Rightarrow> string \<Rightarrow> prepare_request \<Rightarrow> string \<Rightarrow> int \<Rightarrow> int \<Rightarrow> string
       \<Rightarrow> ('w service_state, instance_binding \<times> bootstrap_envelope) py" where
  "replace_instance d binding_id r platform_instance_id generation expected_version key =
     py_bind (py_lift (validate_request r)) (\<lambda>_.
     py_bind (on_db (get_binding binding_id)) (\<lambda>previous.
     py_bind (on_db (by_idempotency (pq_idempotency_key r))) (\<lambda>replayed.
     if ib_status previous = In_REPLACED then replacement_retry d r previous replayed key
     else
       py_bind (py_lift (check_replacement_request previous r platform_instance_id generation)) (\<lambda>_.
       py_bind (py_lift (get_profile (pq_ocs_id r))) (\<lambda>p.
       py_bind (py_lift (check_replacement_profile (bd_digest d) previous p)) (\<lambda>_.
       py_bind (on_lease_manager (lease_for (ib_lease_id previous))) (\<lambda>previous_lease.
       py_bind (py_lift (check_replacement_context previous_lease r)) (\<lambda>_.
       replacement_new d r p previous expected_version key))))))))"

section \<open>The bridge to the platform\<close>

record work_spawn_receipt =
  ws_platform_instance_id :: string
  ws_task_name :: string

text \<open>
  \<^verbatim>\<open>''.join(c for c in normalize('NFKD', ocs_id.casefold()) if c.isascii())\<close>: the slug of
  the folded name, whose code points have no upper case left to lower.
\<close>

definition expected_prefix :: "string \<Rightarrow> string" where
  "expected_prefix ocs_id = slugify_ocs_id (casefold ocs_id)"

definition task_name_matches :: "string \<Rightarrow> string \<Rightarrow> bool" where
  "task_name_matches ocs_id task_name \<longleftrightarrow>
     casefold task_name = expected_prefix ocs_id \<or>
     starts_with (expected_prefix ocs_id @ ''__'') (casefold task_name)"

definition attach ::
    "string \<Rightarrow> work_spawn_receipt \<Rightarrow> int \<Rightarrow> string \<Rightarrow> pytime \<Rightarrow> (instance_db, instance_binding) py" where
  "attach binding_id receipt expected_version key now =
     (if ws_platform_instance_id receipt = [] \<or> ws_task_name receipt = [] then
        py_raise (InstanceBindingError ''work_spawn_receipt_incomplete'')
      else
        py_bind (get_binding binding_id) (\<lambda>b.
        if \<not> task_name_matches (ib_ocs_id b) (ws_task_name receipt) then
          py_raise (InstanceBindingError ''work_task_name_ocs_mismatch'')
        else
          transition binding_id expected_version In_BOUND key ''OCS_PLATFORM_INSTANCE_ATTACHED''
            \<lparr> ta_platform_instance_id = Some (ws_platform_instance_id receipt),
              ta_checkpoint_version = None, ta_checkpoint_hash = None,
              ta_hazel_event_hash = None, ta_maturity = None,
              ta_payload = [(''task_name'', PyStr (ws_task_name receipt))] \<rparr> now))"

definition check_ack :: "digest \<Rightarrow> instance_binding \<Rightarrow> bootstrap_ack \<Rightarrow> unit res" where
  "check_ack U b a =
     (if ib_status b \<noteq> In_BOUND then
        Inl (InstanceBindingError ''instance_must_be_bound_before_ack'')
      else if ib_platform_instance_id b \<noteq> Some (ba_platform_instance_id a) then
        Inl (InstanceBindingError ''platform_instance_binding_mismatch'')
      else if ib_generation b \<noteq> ba_generation a then
        Inl (InstanceBindingError ''instance_generation_mismatch'')
      else if ib_bootstrap_hash b \<noteq> ba_bootstrap_hash a then
        Inl (InstanceBindingError ''bootstrap_hash_mismatch'')
      else if ib_identity_binding_hash b \<noteq> ba_identity_binding_hash a then
        Inl (InstanceBindingError ''identity_binding_hash_mismatch'')
      else if ib_challenge_hash b \<noteq>
              canonical_hash U (PyDict [(''nonce'', PyStr (ba_challenge_nonce a))]) then
        Inl (InstanceBindingError ''bootstrap_challenge_failed'')
      else Inr ())"

definition acknowledge ::
    "digest \<Rightarrow> bootstrap_ack \<Rightarrow> int \<Rightarrow> pytime \<Rightarrow> (instance_db, instance_binding) py" where
  "acknowledge U a expected_version now =
     py_bind (get_binding (ba_binding_id a)) (\<lambda>b.
     py_bind (py_lift (check_ack U b a)) (\<lambda>_.
     transition (ba_binding_id a) expected_version In_ACTIVE (ba_idempotency_key a)
       ''OCS_BOOTSTRAP_ACKNOWLEDGED''
       \<lparr> ta_platform_instance_id = None, ta_checkpoint_version = None,
         ta_checkpoint_hash = None, ta_hazel_event_hash = None,
         ta_maturity = Some OPERATIONALLY_BOUND_L1,
         ta_payload = [(''generation'', PyInt (ba_generation a)),
                       (''bootstrap_hash'', PyStr (ba_bootstrap_hash a))] \<rparr> now))"

end
