(* ===== verification/Instance_Recovery.thy ===== *)
theory Instance_Recovery
  imports Instance_Service
begin

text \<open>
  \<^verbatim>\<open>app/ocs_instances/recovery.py\<close>: cold start of one lineage of instances. The latest binding is
  checked against its profile and its lease, an interrupted replacement is carried to its end,
  and the continuity service must hold what the binding says. It works on the objects of the
  service: the same registry, lease manager and continuity.
\<close>

section \<open>Integers\<close>

text \<open>
  \<^verbatim>\<open>int(v)\<close> of a JSON value. A text is stripped, may carry a sign, and is made of digits that
  single underscores may separate; of more than 4300 digits the interpreter refuses to make a
  number.
\<close>

definition decimal_digit :: "char \<Rightarrow> int option" where
  "decimal_digit c = (let n = (of_char c :: nat) in if 48 \<le> n \<and> n \<le> 57 then Some (int n - 48) else None)"

text \<open>The digits that follow one: \<open>k\<close> counts them, \<open>n\<close> is the number read so far.\<close>

fun more_digits :: "nat \<Rightarrow> int \<Rightarrow> string \<Rightarrow> (nat \<times> int) option" where
  "more_digits k n [] = Some (k, n)"
| "more_digits k n (c # cs) =
     (case decimal_digit c of
        Some x \<Rightarrow> more_digits (k + 1) (10 * n + x) cs
      | None \<Rightarrow>
         (if c = CHR ''_'' then
            (case cs of
               [] \<Rightarrow> None
             | e # ds \<Rightarrow>
                (case decimal_digit e of
                   None \<Rightarrow> None
                 | Some y \<Rightarrow> more_digits (k + 1) (10 * n + y) ds))
          else None))"

definition first_digit :: "string \<Rightarrow> (nat \<times> int) option" where
  "first_digit s =
     (case s of [] \<Rightarrow> None
      | c # cs \<Rightarrow> (case decimal_digit c of None \<Rightarrow> None | Some x \<Rightarrow> more_digits 1 x cs))"

definition int_of_str :: "string \<Rightarrow> int option" where
  "int_of_str s =
     (let t = strip_spaces s;
          number = (\<lambda>u. case first_digit u of
            None \<Rightarrow> None | Some (k, n) \<Rightarrow> if k > 4300 then None else Some n)
      in case t of
           [] \<Rightarrow> None
         | c # cs \<Rightarrow>
             if c = CHR ''-'' then map_option uminus (number cs)
             else if c = CHR ''+'' then number cs
             else number t)"

fun int_of :: "pyval \<Rightarrow> int res" where
  "int_of (PyInt n) = Inr n"
| "int_of (PyBool b) = Inr (if b then 1 else 0)"
| "int_of (PyFloat x) = Inr (if x \<ge> 0 then \<lfloor>x\<rfloor> else \<lceil>x\<rceil>)"
| "int_of (PyStr s) =
     (case int_of_str s of None \<Rightarrow> Inl (OtherError ''ValueError'') | Some n \<Rightarrow> Inr n)"
| "int_of _ = Inl (OtherError ''TypeError'')"

text \<open>\<^verbatim>\<open>int(recovered["state_version"])\<close>.\<close>

definition recovered_version :: "json_dict \<Rightarrow> int res" where
  "recovered_version d = (case subscript d ''state_version'' of Inl e \<Rightarrow> Inl e | Inr v \<Rightarrow> int_of v)"

section \<open>Queries\<close>

definition latest_binding :: "string \<Rightarrow> string \<Rightarrow> string \<Rightarrow> (instance_db, instance_binding) py" where
  "latest_binding organization_id mission_id ocs_id = (\<lambda>db.
     let rows = filter (\<lambda>b. ib_organization_id b = organization_id \<and> ib_mission_id b = mission_id \<and>
                  ib_ocs_id b = ocs_id) (db_bindings db)
     in case sort_key (\<lambda>b. - ib_generation b) rows of
          [] \<Rightarrow> (Inl (InstanceBindingError ''recovery_binding_not_found''), db)
        | b # _ \<Rightarrow> (Inr b, db))"

text \<open>Of two sagas with the same time, which SQLite may return in any order, the older row.\<close>

definition replacement_saga_or_none :: "string \<Rightarrow> (instance_db, saga_row option) py" where
  "replacement_saga_or_none predecessor_id = py_gets (\<lambda>db.
     case sort_key (\<lambda>g. - sg_updated_at g)
       (filter (\<lambda>g. sg_binding_id g = predecessor_id \<and> sg_operation g = ''ocs_instance_replacement'')
         (db_sagas db)) of
       [] \<Rightarrow> None
     | g # _ \<Rightarrow> Some g)"

definition replacement_saga :: "string \<Rightarrow> (instance_db, saga_row) py" where
  "replacement_saga predecessor_id =
     py_bind (replacement_saga_or_none predecessor_id) (\<lambda>saga.
     case saga of
       None \<Rightarrow> py_raise (InstanceBindingError ''replacement_recovery_saga_missing'')
     | Some g \<Rightarrow> py_return g)"

definition require_single_active :: "string \<Rightarrow> string \<Rightarrow> string \<Rightarrow> (instance_db, unit) py" where
  "require_single_active organization_id mission_id ocs_id = (\<lambda>db.
     if length (filter (\<lambda>b. ib_organization_id b = organization_id \<and> ib_mission_id b = mission_id \<and>
          ib_ocs_id b = ocs_id \<and> ib_status b = In_ACTIVE) (db_bindings db)) > 1
     then (Inl (InstanceBindingError ''multiple_active_generations_detected''), db)
     else (Inr (), db))"

section \<open>Checks\<close>

definition check_local_identity :: "digest \<Rightarrow> instance_binding \<Rightarrow> ocs_profile \<Rightarrow> unit res" where
  "check_local_identity U b p =
     (if ib_profile_version b \<noteq> op_version p then
        Inl (InstanceBindingError ''recovery_profile_version_drift'')
      else if ib_profile_hash b \<noteq> profile_hash U p then
        Inl (InstanceBindingError ''recovery_profile_hash_drift'')
      else if ib_authority_ref b \<noteq> op_authority_envelope_ref p then
        Inl (InstanceBindingError ''recovery_authority_ref_drift'')
      else if ib_state_namespace b \<noteq> op_state_namespace p then
        Inl (InstanceBindingError ''recovery_state_namespace_drift'')
      else if ib_memory_namespace b \<noteq> op_memory_namespace p then
        Inl (InstanceBindingError ''recovery_memory_namespace_drift'')
      else Inr ())"

definition validate_local_identity ::
    "'w service \<Rightarrow> instance_binding \<Rightarrow> ('w service_state, unit) py" where
  "validate_local_identity d b =
     (case map_of PROFILES (ib_ocs_id b) of
        None \<Rightarrow> py_raise (InstanceBindingError ''recovery_unknown_ocs_identity'')
      | Some p \<Rightarrow>
          py_bind (py_lift (check_local_identity (bd_digest d) b p)) (\<lambda>_.
          py_bind (on_lease_manager (lease_for (ib_lease_id b))) (\<lambda>lease.
          if al_authority_ref lease \<noteq> ib_authority_ref b then
            py_raise (InstanceBindingError ''recovery_lease_authority_drift'')
          else py_return ())))"

definition validate_replacement_hazel ::
    "instance_binding \<Rightarrow> instance_binding \<Rightarrow> json_dict \<Rightarrow> int \<Rightarrow> unit res" where
  "validate_replacement_hazel predecessor successor recovered expected_version =
     (case recovered_version recovered of
        Inl e \<Rightarrow> Inl e
      | Inr n \<Rightarrow>
         if n \<noteq> expected_version then
           Inl (InstanceBindingError ''replacement_recovery_version_mismatch'')
         else if dict_get recovered ''predecessor_hash'' \<noteq> py_opt_str (ib_hazel_event_hash predecessor) then
           Inl (InstanceBindingError ''replacement_predecessor_hash_mismatch'')
         else
           (case dict_get recovered ''payload'' of
              PyDict kvs \<Rightarrow>
                if dict_get kvs ''binding_id'' \<noteq> PyStr (ib_binding_id successor) then
                  Inl (InstanceBindingError ''replacement_recovery_binding_mismatch'')
                else if dict_get kvs ''recovered_from'' \<noteq> PyStr (ib_binding_id predecessor) then
                  Inl (InstanceBindingError ''replacement_recovered_from_mismatch'')
                else if \<not> equals_int (dict_get kvs ''generation'') (ib_generation predecessor + 1) then
                  Inl (InstanceBindingError ''replacement_generation_mismatch'')
                else Inr ()
            | _ \<Rightarrow> Inl (InstanceBindingError ''replacement_recovery_payload_invalid'')))"

text \<open>The part of \<^verbatim>\<open>_validate_hazel_fidelity\<close> that looks at the binding and the state alone.\<close>

definition check_fidelity ::
    "'w service \<Rightarrow> instance_binding \<Rightarrow> json_dict \<Rightarrow> unit res" where
  "check_fidelity d b recovered =
     (case recovered_version recovered of
        Inl e \<Rightarrow> Inl e
      | Inr n \<Rightarrow>
         if n \<noteq> ib_checkpoint_version b then
           Inl (InstanceBindingError ''recovery_state_version_mismatch'')
         else
         (case subscript recovered ''event_hash'' of
            Inl e \<Rightarrow> Inl e
          | Inr event_hash \<Rightarrow>
             if Some (str_of (bd_str d) event_hash) \<noteq> ib_hazel_event_hash b then
               Inl (InstanceBindingError ''recovery_event_hash_mismatch'')
             else
             (case subscript recovered ''payload_hash'' of
                Inl e \<Rightarrow> Inl e
              | Inr payload_hash \<Rightarrow>
                 if Some (str_of (bd_str d) payload_hash) \<noteq> ib_checkpoint_hash b then
                   Inl (InstanceBindingError ''recovery_payload_hash_mismatch'')
                 else
                 (case dict_get recovered ''payload'' of
                    PyDict kvs \<Rightarrow>
                      if dict_get kvs ''binding_id'' \<noteq> PyStr (ib_binding_id b) then
                        Inl (InstanceBindingError ''recovery_binding_lineage_mismatch'')
                      else if \<not> equals_int (dict_get kvs ''generation'') (ib_generation b) then
                        Inl (InstanceBindingError ''recovery_generation_mismatch'')
                      else Inr ()
                  | _ \<Rightarrow> Inl (InstanceBindingError ''recovery_payload_invalid'')))))"

definition validate_hazel_fidelity ::
    "'w service \<Rightarrow> instance_binding \<Rightarrow> json_dict \<Rightarrow> ('w service_state, unit) py" where
  "validate_hazel_fidelity d b recovered =
     py_bind (py_lift (check_fidelity d b recovered)) (\<lambda>_.
     case ib_predecessor_binding_id b of
       None \<Rightarrow> py_return ()
     | Some i \<Rightarrow>
         py_bind (on_db (get_binding i)) (\<lambda>predecessor.
         py_lift (validate_replacement_hazel predecessor b recovered (ib_checkpoint_version b))))"

section \<open>A replacement that was interrupted\<close>

text \<open>\<^verbatim>\<open>str(saga_payload.get("lease_id", ""))\<close>.\<close>

definition saga_lease :: "'w service \<Rightarrow> saga_row \<Rightarrow> string res" where
  "saga_lease d saga =
     (case sg_payload_json saga of
        PyDict kvs \<Rightarrow>
          Inr (case map_of kvs ''lease_id'' of None \<Rightarrow> [] | Some v \<Rightarrow> str_of (bd_str d) v)
      | _ \<Rightarrow> Inl (OtherError ''AttributeError''))"

text \<open>The continuity state of the replacement, written if it is missing.\<close>

definition recovery_effect ::
    "'w service \<Rightarrow> instance_binding \<Rightarrow> instance_binding \<Rightarrow> ('w service_state, pyval) py" where
  "recovery_effect d predecessor successor =
     py_bind (recover_binding_state d successor) (\<lambda>recovered.
     py_bind (py_lift (recovered_version recovered)) (\<lambda>n.
     if n = ib_checkpoint_version predecessor then
       if ib_status successor \<noteq> In_PREPARED then
         py_raise (InstanceBindingError ''replacement_hazel_effect_missing'')
       else
         py_bind (py_lift (subscript recovered ''payload'')) (\<lambda>payload.
         py_bind (persist_binding_state d successor (ib_authority_ref successor)
           (ib_checkpoint_version predecessor + 1) (ib_hazel_event_hash predecessor)
           (replacement_state successor predecessor payload)
           (''trace:'' @ ib_binding_id successor @ '':cold-recovery'')) (\<lambda>receipt.
         py_return (dict_get receipt ''event_hash'')))
     else if n = ib_checkpoint_version predecessor + 1 then
       py_return (dict_get recovered ''event_hash'')
     else py_raise (InstanceBindingError ''replacement_state_version_conflict'')))"

definition recovery_commit ::
    "'w service \<Rightarrow> instance_binding \<Rightarrow> instance_binding \<Rightarrow> string \<Rightarrow> int \<Rightarrow> json_dict
       \<Rightarrow> ('w service_state, unit) py" where
  "recovery_commit d predecessor successor saga_id next_version recovered =
     (if ib_status predecessor = In_CHECKPOINTED \<and> ib_status successor = In_PREPARED then
        py_bind (py_lift (subscript recovered ''payload_hash'')) (\<lambda>payload_hash.
        py_bind (py_lift (subscript recovered ''event_hash'')) (\<lambda>event_hash.
        py_bind read_clock (\<lambda>now.
        py_bind (on_db (commit_replacement (ib_binding_id predecessor) (ib_version predecessor)
          (ib_binding_id successor) (ib_version successor) saga_id
          next_version (str_of (bd_str d) payload_hash) (str_of (bd_str d) event_hash) now)) (\<lambda>_.
        py_return ()))))
      else py_return ())"

definition taken_over :: "instance_status set" where
  "taken_over = {In_PERSISTED, In_BOUND, In_ACTIVE, In_CHECKPOINTED}"

definition finish_recovery :: "instance_binding \<Rightarrow> string \<Rightarrow> ('w service_state, string) py" where
  "finish_recovery successor saga_id =
     py_bind (on_db (action_saga saga_id)) (\<lambda>saga.
     py_bind (advance_if saga saga_id ''READBACK_VERIFIED'' ''LOCAL_COMMITTED'') (\<lambda>saga.
     py_bind
       (if sg_state saga = ''LOCAL_COMMITTED'' then
          py_bind (on_lease_manager (lease_for (ib_lease_id successor))) (\<lambda>lease.
          py_bind (if al_state lease \<noteq> Lease_RELEASED then finalize_lease (al_lease_id lease)
                   else py_return ()) (\<lambda>_.
          advance_now saga_id ''LOCAL_COMMITTED'' ''LEASE_FINALIZED''))
        else py_return saga) (\<lambda>saga.
     if sg_state saga \<noteq> ''LEASE_FINALIZED'' then
       py_raise (InstanceBindingError ''replacement_recovery_saga_incomplete'')
     else py_return (sg_state saga))))"

text \<open>The local commit of both rows, read back, and the end of the saga.\<close>

definition reconcile_commit ::
    "'w service \<Rightarrow> instance_binding \<Rightarrow> instance_binding \<Rightarrow> string \<Rightarrow> int \<Rightarrow> json_dict
       \<Rightarrow> ('w service_state, instance_binding \<times> string) py" where
  "reconcile_commit d predecessor successor saga_id next_version recovered =
     py_bind (on_db (get_binding (ib_binding_id predecessor))) (\<lambda>p1.
     py_bind (on_db (get_binding (ib_binding_id successor))) (\<lambda>s1.
     py_bind (recovery_commit d p1 s1 saga_id next_version recovered) (\<lambda>_.
     py_bind (on_db (get_binding (ib_binding_id p1))) (\<lambda>p2.
     py_bind (on_db (get_binding (ib_binding_id s1))) (\<lambda>s2.
     if ib_status p2 \<noteq> In_REPLACED \<or> ib_status s2 \<notin> taken_over then
       py_raise (InstanceBindingError ''replacement_local_commit_incomplete'')
     else
     py_bind (finish_recovery s2 saga_id) (\<lambda>saga_state.
     py_return (s2, saga_state)))))))"

text \<open>From the effect on.\<close>

definition reconcile_after ::
    "'w service \<Rightarrow> instance_binding \<Rightarrow> instance_binding \<Rightarrow> saga_row
       \<Rightarrow> ('w service_state, instance_binding \<times> string) py" where
  "reconcile_after d predecessor successor saga =
     (let saga_id = sg_idempotency_key saga; next_version = ib_checkpoint_version predecessor + 1
      in
     py_bind (recovery_effect d predecessor successor) (\<lambda>persisted_hash.
     py_bind (advance_if saga saga_id ''LEASE_RESERVED'' ''EFFECT_APPLIED'') (\<lambda>saga.
     py_bind (recover_binding_state d successor) (\<lambda>recovered.
     py_bind (py_lift (validate_replacement_hazel predecessor successor recovered next_version)) (\<lambda>_.
     if \<not> py_eq (dict_get recovered ''event_hash'') persisted_hash then
       py_raise (InstanceBindingError ''replacement_readback_mismatch'')
     else
     py_bind (advance_if saga saga_id ''EFFECT_APPLIED'' ''READBACK_VERIFIED'') (\<lambda>_.
     reconcile_commit d predecessor successor saga_id next_version recovered))))))"

definition reconcile_replacement ::
    "'w service \<Rightarrow> instance_binding \<Rightarrow> ('w service_state, instance_binding \<times> string) py" where
  "reconcile_replacement d successor =
     (case ib_predecessor_binding_id successor of
        None \<Rightarrow> py_raise (InstanceBindingError ''replacement_predecessor_required'')
      | Some i \<Rightarrow>
          py_bind (on_db (get_binding i)) (\<lambda>predecessor.
          py_bind (on_db (replacement_saga (ib_binding_id predecessor))) (\<lambda>saga.
          py_bind (py_lift (saga_lease d saga)) (\<lambda>lease_id.
          if lease_id \<noteq> ib_lease_id successor then
            py_raise (InstanceBindingError ''replacement_recovery_lease_mismatch'')
          else
            py_bind (on_lease_manager (lease_for lease_id)) (\<lambda>lease.
            if al_authority_ref lease \<noteq> ib_authority_ref successor then
              py_raise (InstanceBindingError ''replacement_recovery_authority_mismatch'')
            else reconcile_after d predecessor successor saga)))))"

section \<open>Recovering an instance\<close>

record recovery_result =
  rr_binding :: instance_binding
  rr_hazel_state_version :: int
  rr_hazel_event_hash :: string
  rr_saga_state :: "string option"

definition check_stranded :: "instance_binding \<Rightarrow> (instance_db, unit) py" where
  "check_stranded b =
     (if ib_predecessor_binding_id b = None then
        py_bind (replacement_saga_or_none (ib_binding_id b)) (\<lambda>stranded.
        case stranded of
          None \<Rightarrow> py_return ()
        | Some g \<Rightarrow>
            if sg_state g \<noteq> ''LEASE_FINALIZED'' then
              py_raise (InstanceBindingError ''replacement_successor_missing'')
            else py_return ())
      else py_return ())"

definition recover_instance ::
    "'w service \<Rightarrow> string \<Rightarrow> string \<Rightarrow> string \<Rightarrow> ('w service_state, recovery_result) py" where
  "recover_instance d organization_id mission_id ocs_id =
     py_bind (on_db (latest_binding organization_id mission_id ocs_id)) (\<lambda>b.
     py_bind (validate_local_identity d b) (\<lambda>_.
     py_bind (on_db (require_single_active organization_id mission_id ocs_id)) (\<lambda>_.
     py_bind (on_db (check_stranded b)) (\<lambda>_.
     py_bind (if ib_predecessor_binding_id b \<noteq> None then
                py_bind (reconcile_replacement d b) (\<lambda>(b', state). py_return (b', Some state))
              else py_return (b, None)) (\<lambda>(binding, saga_state).
     py_bind (recover_binding_state d binding) (\<lambda>recovered.
     py_bind (validate_hazel_fidelity d binding recovered) (\<lambda>_.
     py_bind (py_lift (recovered_version recovered)) (\<lambda>version.
     py_bind (py_lift (subscript recovered ''event_hash'')) (\<lambda>event_hash.
     py_return \<lparr> rr_binding = binding, rr_hazel_state_version = version,
       rr_hazel_event_hash = str_of (bd_str d) event_hash, rr_saga_state = saga_state \<rparr>)))))))))"

end
