(* ===== verification/Instance_Registry.thy ===== *)
theory Instance_Registry
  imports Instance_Store
begin

text \<open>
  What the registry of instances promises: the steps its operations take, the invariant
  those steps keep, and the contract of each operation.
\<close>
 

section \<open>The steps of the registry\<close>

text \<open>What no operation changes of a binding.\<close>

definition same_identity :: "instance_binding \<Rightarrow> instance_binding \<Rightarrow> bool" where
  "same_identity b c \<longleftrightarrow> c = b\<lparr>
     ib_status := ib_status c, ib_version := ib_version c,
     ib_platform_instance_id := ib_platform_instance_id c,
     ib_checkpoint_version := ib_checkpoint_version c,
     ib_checkpoint_hash := ib_checkpoint_hash c, ib_maturity := ib_maturity c,
     ib_hazel_event_hash := ib_hazel_event_hash c, ib_updated_at := ib_updated_at c\<rparr>"

definition put_binding :: "instance_binding \<Rightarrow> instance_binding list \<Rightarrow> instance_binding list" where
  "put_binding b bs = map (\<lambda>c. if ib_binding_id c = ib_binding_id b then b else c) bs"

definition event_of :: "instance_binding \<Rightarrow> instance_status option \<Rightarrow> journal_row \<Rightarrow> bool" where
  "event_of b from_status j \<longleftrightarrow>
     jr_binding_id j = ib_binding_id b \<and> jr_from_status j = from_status \<and>
     jr_to_status j = ib_status b \<and> jr_binding_version j = ib_version b"

inductive db_step :: "instance_db \<Rightarrow> instance_db \<Rightarrow> bool" where
  db_create:
    "db_step db db'" if "insert_binding b db = (Inr (), db\<lparr>db_bindings := db_bindings db @ [b]\<rparr>)"
      "check_predecessor db b = Inr ()"
      "ib_predecessor_binding_id b = None \<longrightarrow> \<not> live_binding_exists db (ib_organization_id b)
         (ib_mission_id b) (ib_ocs_id b)"
      "ib_status b = In_PREPARED" "ib_version b = 1"
      "event_of b None j" "db_bindings db' = db_bindings db @ [b]"
      "db_journal db' = db_journal db @ [j]"
| db_move:
    "db_step db db'" if "binding_at db (ib_binding_id c) = Some b" "same_identity b c"
      "ib_status c \<in> set (ALLOWED_TRANSITIONS (ib_status b))" "ib_version c = ib_version b + 1"
      "\<not> platform_taken (ib_platform_instance_id c)
          (filter (\<lambda>x. ib_binding_id x \<noteq> ib_binding_id c) (db_bindings db))"
      "event_of c (Some (ib_status b)) j" "db_bindings db' = put_binding c (db_bindings db)"
      "db_journal db' = db_journal db @ [j]"
| db_saga:
    "db_step db db'" if "db_bindings db' = db_bindings db" "db_journal db' = db_journal db"

section \<open>The invariant\<close>

text \<open>A journal of one binding tells a run of the life cycle, from nothing to where it ends.\<close>

fun follows :: "(instance_status \<times> int) option \<Rightarrow> journal_row list \<Rightarrow> bool" where
  "follows p [] = True"
| "follows p (j # js) =
     ((case p of
         None \<Rightarrow> jr_from_status j = None \<and> jr_to_status j = In_PREPARED \<and> jr_binding_version j = 1
       | Some (s, v) \<Rightarrow> jr_from_status j = Some s \<and> jr_to_status j \<in> set (ALLOWED_TRANSITIONS s) \<and>
           jr_binding_version j = v + 1) \<and>
      follows (Some (jr_to_status j, jr_binding_version j)) js)"

definition endpoint :: "journal_row list \<Rightarrow> (instance_status \<times> int) option" where
  "endpoint js = (if js = [] then None else Some (jr_to_status (last js), jr_binding_version (last js)))"

lemma follows_snoc: "follows p (js @ [j]) \<longleftrightarrow>
    follows p js \<and> follows (if js = [] then p else endpoint js) [j]"
  by (induction p js rule: follows.induct) (auto simp: endpoint_def)

definition journaled :: "instance_db \<Rightarrow> instance_binding \<Rightarrow> bool" where
  "journaled db b \<longleftrightarrow> follows None (journal_of (ib_binding_id b) db) \<and>
     endpoint (journal_of (ib_binding_id b) db) = Some (ib_status b, ib_version b)"

text \<open>No physical instance serves two bindings.\<close>

definition platforms_apart :: "instance_binding list \<Rightarrow> bool" where
  "platforms_apart bs \<longleftrightarrow>
     (\<forall>b \<in> set bs. \<forall>c \<in> set bs. ib_platform_instance_id b \<noteq> None \<longrightarrow>
        ib_platform_instance_id b = ib_platform_instance_id c \<longrightarrow>
        ib_binding_id b = ib_binding_id c)"

lemma platforms_apartD:
  assumes "platforms_apart bs" and "b \<in> set bs" and "c \<in> set bs"
    and "ib_platform_instance_id b \<noteq> None"
    and "ib_platform_instance_id b = ib_platform_instance_id c"
  shows "ib_binding_id b = ib_binding_id c"
proof -
  have "ib_platform_instance_id b \<noteq> None \<longrightarrow>
        ib_platform_instance_id b = ib_platform_instance_id c \<longrightarrow> ib_binding_id b = ib_binding_id c"
    using assms(1-3) unfolding platforms_apart_def by (meson bspec)
  with assms(4,5) show ?thesis by simp
qed

definition unique_rows :: "instance_binding list \<Rightarrow> bool" where
  "unique_rows bs \<longleftrightarrow>
     distinct (map ib_binding_id bs) \<and> inj_on ib_idempotency_key (set bs) \<and>
     inj_on generation_key (set bs) \<and> platforms_apart bs"

definition journal_ok :: "instance_db \<Rightarrow> bool" where
  "journal_ok db \<longleftrightarrow>
     (\<forall>b \<in> set (db_bindings db). journaled db b) \<and>
     (\<forall>j \<in> set (db_journal db). jr_binding_id j \<in> ib_binding_id ` set (db_bindings db))"

text \<open>A successor points at the binding it took over from.\<close>

definition lineage_ok :: "instance_binding list \<Rightarrow> bool" where
  "lineage_ok bs \<longleftrightarrow>
     (\<forall>b \<in> set bs. \<forall>i. ib_predecessor_binding_id b = Some i \<longrightarrow>
        (\<exists>p \<in> set bs. ib_binding_id p = i \<and> same_lineage b p))"

text \<open>At most one generation of a mission's OCS is live without having taken over from another.\<close>

definition live_root :: "instance_binding \<Rightarrow> bool" where
  "live_root b \<longleftrightarrow> ib_status b \<in> set live_statuses \<and> ib_predecessor_binding_id b = None"

definition same_post :: "instance_binding \<Rightarrow> instance_binding \<Rightarrow> bool" where
  "same_post b c \<longleftrightarrow> ib_organization_id b = ib_organization_id c \<and>
     ib_mission_id b = ib_mission_id c \<and> ib_ocs_id b = ib_ocs_id c"

definition one_root :: "instance_binding list \<Rightarrow> bool" where
  "one_root bs \<longleftrightarrow>
     (\<forall>b \<in> set bs. \<forall>c \<in> set bs. live_root b \<longrightarrow> live_root c \<longrightarrow> same_post b c \<longrightarrow>
        ib_binding_id b = ib_binding_id c)"

lemma one_rootD:
  assumes "one_root bs" and "b \<in> set bs" and "c \<in> set bs"
    and "live_root b" and "live_root c" and "same_post b c"
  shows "ib_binding_id b = ib_binding_id c"
proof -
  have "live_root b \<longrightarrow> live_root c \<longrightarrow> same_post b c \<longrightarrow> ib_binding_id b = ib_binding_id c"
    using assms(1-3) unfolding one_root_def by (meson bspec)
  with assms(4-6) show ?thesis by simp
qed

lemma live_before: "t \<in> set (ALLOWED_TRANSITIONS s) \<Longrightarrow> s \<in> set live_statuses"
  by (cases s) (simp_all add: live_statuses_def)

definition store_ok :: "instance_db \<Rightarrow> bool" where
  "store_ok db \<longleftrightarrow>
     unique_rows (db_bindings db) \<and> journal_ok db \<and> lineage_ok (db_bindings db) \<and>
     one_root (db_bindings db)"

lemma unique_ids:
  assumes "unique_rows bs" and "b \<in> set bs" and "c \<in> set bs" and "ib_binding_id b = ib_binding_id c"
  shows "b = c"
proof -
  have "inj_on ib_binding_id (set bs)" using assms(1) by (simp add: unique_rows_def distinct_map)
  then show ?thesis by (rule inj_onD [OF _ assms(4,2,3)])
qed

lemma store_ok_empty: "store_ok empty_db"
  by (simp add: store_ok_def empty_db_def unique_rows_def platforms_apart_def journal_ok_def
      lineage_ok_def one_root_def)

lemma binding_at_Some: "binding_at db i = Some b \<Longrightarrow> b \<in> set (db_bindings db) \<and> ib_binding_id b = i"
  by (auto simp: binding_at_def find_Some_iff)

lemma binding_at_None: "binding_at db i = None \<longleftrightarrow> i \<notin> ib_binding_id ` set (db_bindings db)"
  by (auto simp: binding_at_def find_None_iff)

lemma binding_at_mem:
  assumes "distinct (map ib_binding_id (db_bindings db))" and "b \<in> set (db_bindings db)"
  shows "binding_at db (ib_binding_id b) = Some b"
proof (cases "binding_at db (ib_binding_id b)")
  case None
  then show ?thesis using assms(2) by (simp add: binding_at_None)
next
  case (Some c)
  then have "c \<in> set (db_bindings db)" "ib_binding_id c = ib_binding_id b"
    by (simp_all add: binding_at_Some)
  then show ?thesis using assms Some by (auto simp: distinct_map dest: inj_onD)
qed

lemma same_identityD:
  assumes "same_identity b c"
  shows "ib_binding_id c = ib_binding_id b" "ib_idempotency_key c = ib_idempotency_key b"
    "generation_key c = generation_key b" "ib_predecessor_binding_id c = ib_predecessor_binding_id b"
    "same_lineage c x = same_lineage b x" "same_lineage x c = same_lineage x b"
    "ib_request_hash c = ib_request_hash b" "ib_bootstrap_hash c = ib_bootstrap_hash b"
    "same_post c x = same_post b x" "same_post x c = same_post x b"
proof -
  obtain s v p cv ch m h u where c: "c = b\<lparr>ib_status := s, ib_version := v,
     ib_platform_instance_id := p, ib_checkpoint_version := cv, ib_checkpoint_hash := ch,
     ib_maturity := m, ib_hazel_event_hash := h, ib_updated_at := u\<rparr>"
    using assms unfolding same_identity_def by blast
  show "ib_binding_id c = ib_binding_id b" "ib_idempotency_key c = ib_idempotency_key b"
    "generation_key c = generation_key b" "ib_predecessor_binding_id c = ib_predecessor_binding_id b"
    "same_lineage c x = same_lineage b x" "same_lineage x c = same_lineage x b"
    "ib_request_hash c = ib_request_hash b" "ib_bootstrap_hash c = ib_bootstrap_hash b"
    "same_post c x = same_post b x" "same_post x c = same_post x b"
    by (simp_all add: c generation_key_def same_lineage_def same_post_def)
qed

lemma set_put_binding:
  "set (put_binding c bs) = (if ib_binding_id c \<in> ib_binding_id ` set bs
     then insert c {x \<in> set bs. ib_binding_id x \<noteq> ib_binding_id c} else set bs)"
  by (induction bs) (auto simp: put_binding_def)

lemma ids_put_binding: "map ib_binding_id (put_binding c bs) = map ib_binding_id bs"
  by (induction bs) (auto simp: put_binding_def)


lemma put_binding_fresh:
  "ib_binding_id c \<notin> ib_binding_id ` set bs \<Longrightarrow> put_binding c bs = bs"
  by (induction bs) (auto simp: put_binding_def)

lemma journal_of_snoc:
  "db_journal db' = db_journal db @ [j] \<Longrightarrow> journal_of i db' =
     journal_of i db @ (if jr_binding_id j = i then [j] else [])"
  by (simp add: journal_of_def)

lemma journal_of_none:
  "journal_ok db \<Longrightarrow> i \<notin> ib_binding_id ` set (db_bindings db) \<Longrightarrow> journal_of i db = []"
  by (auto simp: journal_of_def journal_ok_def filter_empty_conv)

section \<open>The steps keep the invariant\<close>

text \<open>\<open>c\<close> is a new version of the row \<open>b\<close>.\<close>

definition new_version :: "instance_binding \<Rightarrow> instance_binding \<Rightarrow> instance_binding list \<Rightarrow> bool" where
  "new_version b c bs \<longleftrightarrow> unique_rows bs \<and> b \<in> set bs \<and> same_identity b c"

lemma new_version_fields:
  assumes "new_version b c bs"
  shows "unique_rows bs" "b \<in> set bs" "ib_binding_id c = ib_binding_id b"
    "ib_idempotency_key c = ib_idempotency_key b" "generation_key c = generation_key b"
    "ib_predecessor_binding_id c = ib_predecessor_binding_id b"
    "same_lineage c x = same_lineage b x" "same_lineage x c = same_lineage x b"
    "same_post c x = same_post b x" "same_post x c = same_post x b"
  using assms same_identityD [of b c] by (simp_all add: new_version_def)

lemma new_rows:
  assumes "new_version b c bs"
  shows "set (put_binding c bs) = insert c {x \<in> set bs. ib_binding_id x \<noteq> ib_binding_id b}"
  using new_version_fields(2,3) [OF assms] by (simp add: set_put_binding)

lemma new_rowsE:
  assumes "new_version b c bs" and "x \<in> set (put_binding c bs)"
  obtains (new) "x = c" | (old) "x \<in> set bs" "ib_binding_id x \<noteq> ib_binding_id b"
  using assms by (auto simp: new_rows)

lemma same_ids: "ib_binding_id ` set (put_binding c bs) = ib_binding_id ` set bs"
  using arg_cong [OF ids_put_binding [of c bs], of set] by simp

lemma inj_on_put:
  assumes r: "new_version b c bs" and f: "f c = f b" and inj: "inj_on f (set bs)"
  shows "inj_on f (set (put_binding c bs))"
proof (rule inj_onI)
  fix x y
  assume x: "x \<in> set (put_binding c bs)" and y: "y \<in> set (put_binding c bs)" and eq: "f x = f y"
  have other: "f z \<noteq> f c" if "z \<in> set bs" "ib_binding_id z \<noteq> ib_binding_id b" for z
    using inj_onD [OF inj _ that(1) new_version_fields(2) [OF r]] that(2) f by metis
  from r x show "x = y"
  proof (cases rule: new_rowsE)
    case new
    from r y show ?thesis
    proof (cases rule: new_rowsE)
      case new': new
      then show ?thesis using new by simp
    next
      case old
      then show ?thesis using other [OF old] eq new by simp
    qed
  next
    case old
    from r y show ?thesis
    proof (cases rule: new_rowsE)
      case new
      then show ?thesis using other [OF old] eq by simp
    next
      case old': old
      then show ?thesis using inj_onD [OF inj eq] old by simp
    qed
  qed
qed

lemma unique_rows_put:
  assumes r: "new_version b c bs"
    and free: "\<not> platform_taken (ib_platform_instance_id c)
             (filter (\<lambda>x. ib_binding_id x \<noteq> ib_binding_id c) bs)"
  shows "unique_rows (put_binding c bs)"
proof -
  have apart: "platforms_apart bs" using new_version_fields(1) [OF r] by (simp add: unique_rows_def)
  have other: "ib_platform_instance_id c \<noteq> ib_platform_instance_id x"
    if "x \<in> set bs" "ib_binding_id x \<noteq> ib_binding_id b" "ib_platform_instance_id x \<noteq> None" for x
    using free that new_version_fields(3) [OF r] by (auto simp: platform_taken_def)
  have "platforms_apart (put_binding c bs)"
    unfolding platforms_apart_def
  proof (intro ballI impI)
    fix x y
    assume x: "x \<in> set (put_binding c bs)" and y: "y \<in> set (put_binding c bs)"
      and some: "ib_platform_instance_id x \<noteq> None"
      and eq: "ib_platform_instance_id x = ib_platform_instance_id y"
    from r x show "ib_binding_id x = ib_binding_id y"
    proof (cases rule: new_rowsE)
      case new
      from r y show ?thesis by (cases rule: new_rowsE) (use new eq some other [of y] in simp_all)
    next
      case old
      from r y show ?thesis
      proof (cases rule: new_rowsE)
        case new
        then show ?thesis using other [OF old] some eq by simp
      next
        case old': old
        then show ?thesis using platforms_apartD [OF apart old(1) _ some eq] by simp
      qed
    qed
  qed
  then show ?thesis
    using new_version_fields [OF r] by (simp add: unique_rows_def ids_put_binding inj_on_put [OF r])
qed

lemma lineage_put:
  assumes r: "new_version b c bs" and "lineage_ok bs"
  shows "lineage_ok (put_binding c bs)"
  unfolding lineage_ok_def
proof (intro ballI allI impI)
  note fields = new_version_fields [OF r]
  fix x i
  assume x: "x \<in> set (put_binding c bs)" and i: "ib_predecessor_binding_id x = Some i"
  obtain y :: instance_binding where y: "y \<in> set bs" "ib_predecessor_binding_id y = Some i"
    "same_lineage x = same_lineage y"
    using r x
  proof (cases rule: new_rowsE)
    case new
    then show ?thesis using that [of b] i fields(2,6,7) by (simp add: fun_eq_iff)
  next
    case old
    then show ?thesis using that [of x] i by simp
  qed
  with assms(2) obtain p :: instance_binding
    where p: "p \<in> set bs" "ib_binding_id p = i" "same_lineage y p"
    unfolding lineage_ok_def by meson
  show "\<exists>p \<in> set (put_binding c bs). ib_binding_id p = i \<and> same_lineage x p"
  proof (cases "ib_binding_id p = ib_binding_id b")
    case True
    then have "p = b" using unique_ids [OF fields(1) p(1) fields(2)] by simp
    then show ?thesis using p y(3) by (intro bexI [of _ c]) (simp_all add: new_rows [OF r] fields(3,8))
  next
    case False
    then show ?thesis using p y(3) by (intro bexI [of _ p]) (simp_all add: new_rows [OF r])
  qed
qed

lemma one_root_put:
  assumes r: "new_version b c bs" and ok: "one_root bs"
    and status: "ib_status c \<in> set (ALLOWED_TRANSITIONS (ib_status b))"
  shows "one_root (put_binding c bs)"
  unfolding one_root_def
proof (intro ballI impI)
  note fields = new_version_fields [OF r]
  have live: "live_root b" if "live_root c"
    using that live_before [OF status] by (simp add: live_root_def fields(6))
  fix x y
  assume x: "x \<in> set (put_binding c bs)" and y: "y \<in> set (put_binding c bs)"
    and roots: "live_root x" "live_root y" and post: "same_post x y"
  from r x show "ib_binding_id x = ib_binding_id y"
  proof (cases rule: new_rowsE)
    case x: new
    from r y show ?thesis
    proof (cases rule: new_rowsE)
      case old
      then show ?thesis
        using one_rootD [OF ok fields(2) old(1) live roots(2)] roots(1) post
        by (simp add: x fields(3,9))
    qed (simp add: x)
  next
    case x: old
    from r y show ?thesis
    proof (cases rule: new_rowsE)
      case new
      then show ?thesis
        using one_rootD [OF ok x(1) fields(2) roots(1) live] roots(2) post
        by (simp add: fields(3,10))
    next
      case old
      then show ?thesis using one_rootD [OF ok x(1) old(1) roots post] by simp
    qed
  qed
qed

lemma journal_put:
  assumes r: "new_version b c (db_bindings db)" and ok: "journal_ok db"
    and "ib_status c \<in> set (ALLOWED_TRANSITIONS (ib_status b))"
    and "ib_version c = ib_version b + 1"
    and j: "event_of c (Some (ib_status b)) j"
    and new: "db_bindings db' = put_binding c (db_bindings db)"
    and js: "db_journal db' = db_journal db @ [j]"
  shows "journal_ok db'"
proof -
  note fields = new_version_fields [OF r]
  have jb: "jr_binding_id j = ib_binding_id b" using j fields(3) by (simp add: event_of_def)
  have "journaled db b" using ok fields(2) by (simp add: journal_ok_def)
  with assms(3,4) j have c: "journaled db' c"
    by (auto simp: journaled_def journal_of_snoc [OF js] jb fields(3) follows_snoc event_of_def
        endpoint_def split: if_splits)
  have "journaled db' x" if "x \<in> set (db_bindings db')" for x
    using r that [unfolded new]
  proof (cases rule: new_rowsE)
    case new
    with c show ?thesis by simp
  next
    case old
    then show ?thesis using ok by (simp add: journal_ok_def journaled_def journal_of_snoc [OF js] jb)
  qed
  moreover have "\<forall>x \<in> set (db_journal db'). jr_binding_id x \<in> ib_binding_id ` set (db_bindings db')"
    using ok fields(2) by (simp add: new same_ids js jb journal_ok_def)
  ultimately show ?thesis by (simp add: journal_ok_def)
qed

lemma store_ok_move:
  assumes ok: "store_ok db" and b: "binding_at db (ib_binding_id c) = Some b"
    and same: "same_identity b c"
    and next_status: "ib_status c \<in> set (ALLOWED_TRANSITIONS (ib_status b))"
    and version: "ib_version c = ib_version b + 1"
    and free: "\<not> platform_taken (ib_platform_instance_id c)
          (filter (\<lambda>x. ib_binding_id x \<noteq> ib_binding_id c) (db_bindings db))"
    and j: "event_of c (Some (ib_status b)) j"
    and bs: "db_bindings db' = put_binding c (db_bindings db)"
    and js: "db_journal db' = db_journal db @ [j]"
  shows "store_ok db'"
proof -
  have row: "new_version b c (db_bindings db)"
    using ok same binding_at_Some [OF b] by (simp add: new_version_def store_ok_def)
  show ?thesis
    using ok unique_rows_put [OF row free] lineage_put [OF row]
      one_root_put [OF row _ next_status]
      journal_put [OF row _ next_status version j bs js]
    by (simp add: store_ok_def bs)
qed

lemma store_ok_create:
  assumes ok: "store_ok db"
    and ins: "insert_binding b db = (Inr (), db\<lparr>db_bindings := db_bindings db @ [b]\<rparr>)"
    and pred: "check_predecessor db b = Inr ()"
    and first: "ib_predecessor_binding_id b = None \<longrightarrow>
      \<not> live_binding_exists db (ib_organization_id b) (ib_mission_id b) (ib_ocs_id b)"
    and status: "ib_status b = In_PREPARED" "ib_version b = 1"
    and j: "event_of b None j"
    and bs: "db_bindings db' = db_bindings db @ [b]"
    and js: "db_journal db' = db_journal db @ [j]"
  shows "store_ok db'"
proof -
  have fresh: "ib_binding_id b \<notin> ib_binding_id ` set (db_bindings db)"
      "ib_idempotency_key b \<notin> ib_idempotency_key ` set (db_bindings db)"
      "generation_key b \<notin> generation_key ` set (db_bindings db)"
      "\<not> platform_taken (ib_platform_instance_id b) (db_bindings db)"
    using ins by (auto simp: insert_binding_def split: if_splits)
  have jb: "jr_binding_id j = ib_binding_id b" using j by (simp add: event_of_def)
  have apart: "platforms_apart (db_bindings db)" using ok by (simp add: store_ok_def unique_rows_def)
  have other: "ib_platform_instance_id b \<noteq> ib_platform_instance_id x"
    if "x \<in> set (db_bindings db)" "ib_platform_instance_id x \<noteq> None" for x
    using fresh(4) that by (auto simp: platform_taken_def)
  have "platforms_apart (db_bindings db @ [b])"
    unfolding platforms_apart_def
  proof (intro ballI impI)
    fix x y
    assume x: "x \<in> set (db_bindings db @ [b])" and y: "y \<in> set (db_bindings db @ [b])"
      and some: "ib_platform_instance_id x \<noteq> None"
      and eq: "ib_platform_instance_id x = ib_platform_instance_id y"
    consider "x = b" "y = b" | "x = b" "y \<in> set (db_bindings db)" | "x \<in> set (db_bindings db)" "y = b"
      | "x \<in> set (db_bindings db)" "y \<in> set (db_bindings db)"
      using x y by fastforce
    then show "ib_binding_id x = ib_binding_id y"
    proof cases
      case 2
      then show ?thesis using other [of y] some eq by simp
    next
      case 3
      then show ?thesis using other [of x] some eq by simp
    next
      case 4
      then show ?thesis by (rule platforms_apartD [OF apart _ _ some eq])
    qed simp
  qed
  then have rows: "unique_rows (db_bindings db')"
    using ok fresh(1-3) by (auto simp: store_ok_def bs unique_rows_def)
  have "journal_of (ib_binding_id b) db = []"
    using ok fresh(1) by (intro journal_of_none) (simp_all add: store_ok_def)
  then have "journaled db' b"
    using j status by (simp add: journaled_def journal_of_snoc [OF js] jb event_of_def endpoint_def)
  moreover have "journaled db' x" if "x \<in> set (db_bindings db)" for x
    using ok that fresh(1)
    by (auto simp: store_ok_def journal_ok_def journaled_def journal_of_snoc [OF js] jb)
  ultimately have journals: "journal_ok db'"
    using ok by (auto simp: journal_ok_def store_ok_def bs js jb)
  have "\<exists>p \<in> set (db_bindings db). ib_binding_id p = i \<and> same_lineage b p"
    if "ib_predecessor_binding_id b = Some i" for i
    using pred that binding_at_Some [of db i]
    by (auto simp: check_predecessor_def split: option.splits if_splits)
  with ok have "lineage_ok (db_bindings db')"
    by (fastforce simp: store_ok_def lineage_ok_def bs)
  moreover have "one_root (db_bindings db')"
  proof -
    have ok1: "one_root (db_bindings db)" using ok by (simp add: store_ok_def)
    have other: "\<not> live_root x" if "live_root b" "x \<in> set (db_bindings db)" "same_post b x" for x
      using first that by (auto simp: live_root_def live_binding_exists_def list_ex_iff same_post_def)
    show ?thesis
      unfolding one_root_def
    proof (intro ballI impI)
      fix x y
      assume "x \<in> set (db_bindings db')" and "y \<in> set (db_bindings db')"
        and roots: "live_root x" "live_root y" and post: "same_post x y"
      then consider "x = b" "y = b" | "x = b" "y \<in> set (db_bindings db)"
        | "x \<in> set (db_bindings db)" "y = b"
        | "x \<in> set (db_bindings db)" "y \<in> set (db_bindings db)"
        by (fastforce simp: bs)
      then show "ib_binding_id x = ib_binding_id y"
      proof cases
        case 2
        then show ?thesis using other [of y] roots post by simp
      next
        case 3
        then have "same_post b x" using post by (simp add: same_post_def)
        then show ?thesis using 3 other [of x] roots by simp
      next
        case 4
        then show ?thesis by (rule one_rootD [OF ok1 _ _ roots post])
      qed simp
    qed
  qed
  ultimately show ?thesis using rows journals by (simp add: store_ok_def)
qed

lemma db_step_ok: "db_step db db' \<Longrightarrow> store_ok db \<Longrightarrow> store_ok db'"
proof (induction rule: db_step.induct)
  case (db_create b db j db')
  then show ?case by (auto intro: store_ok_create)
next
  case (db_move db c b j db')
  then show ?case by (auto intro: store_ok_move)
next
  case (db_saga db' db)
  then show ?case by (simp add: store_ok_def journal_ok_def journaled_def journal_of_def)
qed

lemma db_steps_ok: "db_step\<^sup>*\<^sup>* db db' \<Longrightarrow> store_ok db \<Longrightarrow> store_ok db'"
  by (induction rule: rtranclp_induct) (auto intro: db_step_ok)

definition db_order :: "instance_db \<Rightarrow> instance_db \<Rightarrow> bool" where
  "db_order db db' \<longleftrightarrow> (store_ok db \<longrightarrow> db_step\<^sup>*\<^sup>* db db')"

interpretation dbo: step_order db_order
  by unfold_locales (auto simp: db_order_def dest: db_steps_ok)

section \<open>What the operations do\<close>

lemma append_event_Inr:
  assumes "append_event b event_type from_status key payload db = (Inr (), db')"
  obtains j :: journal_row where "db' = db\<lparr>db_journal := db_journal db @ [j]\<rparr>"
    "event_of b from_status j" "jr_idempotency_key j = key" "jr_event_type j = event_type"
    "jr_payload_json j = json_tree payload" "serializable payload"
    "journal_for_key db key = None"
proof -
  have fresh: "key \<notin> jr_idempotency_key ` set (db_journal db)" "serializable payload"
    using assms
    by (auto simp: append_event_def json_dumps_def py_simps py_lift_def Let_def split: if_splits)
  then have "journal_for_key db key = None"
    by (auto simp: journal_for_key_def find_None_iff)
  with assms fresh(2) that show ?thesis
    by (auto simp: append_event_def json_dumps_def py_simps py_lift_def Let_def event_of_def
        split: if_splits)
qed

lemma filter_key:
  "distinct (map f xs) \<Longrightarrow> x \<in> set xs \<Longrightarrow>
     filter (\<lambda>y. f y = f x \<and> P y) xs = (if P x then [x] else [])"
proof (induction xs)
  case (Cons y ys)
  show ?case
  proof (cases "f y = f x")
    case True
    then have "x = y" using Cons.prems by (auto simp: image_iff)
    moreover have "filter (\<lambda>z. f z = f x \<and> P z) ys = []"
      using Cons.prems True by (auto simp: filter_empty_conv image_iff)
    ultimately show ?thesis by simp
  next
    case False
    then show ?thesis using Cons by auto
  qed
qed simp

lemma update_one_row:
  assumes ids: "distinct (map ib_binding_id (db_bindings db))"
    and b: "binding_at db i = Some b" and c: "ib_binding_id c = i"
  shows "update_binding i v (\<lambda>_. c) db =
    (if ib_version b \<noteq> v then (Inr 0, db)
     else if platform_taken (ib_platform_instance_id c)
          (filter (\<lambda>x. ib_binding_id x \<noteq> i) (db_bindings db)) then (Inl unique_failed, db)
     else (Inr 1, db\<lparr>db_bindings := put_binding c (db_bindings db)\<rparr>))"
proof -
  have mem: "b \<in> set (db_bindings db)" "ib_binding_id b = i" using binding_at_Some [OF b] by auto
  have hits: "filter (\<lambda>x. ib_binding_id x = i \<and> ib_version x = v) (db_bindings db) =
      (if ib_version b = v then [b] else [])"
    using filter_key [OF ids mem(1), of "\<lambda>x. ib_version x = v"] mem(2) by simp
  have only: "x = b" if "x \<in> set (db_bindings db)" "ib_binding_id x = i" for x
    using ids that mem by (auto simp: distinct_map dest: inj_onD)
  show ?thesis
  proof (cases "ib_version b = v")
    case True
    have "filter (\<lambda>x. \<not> (ib_binding_id x = i \<and> ib_version x = v)) (db_bindings db) =
        filter (\<lambda>x. ib_binding_id x \<noteq> i) (db_bindings db)"
      using only True by (intro filter_cong) auto
    moreover have "map (\<lambda>x. if ib_binding_id x = i \<and> ib_version x = v then c else x) (db_bindings db)
        = put_binding c (db_bindings db)"
      unfolding put_binding_def c using only True by (intro map_cong) auto
    ultimately show ?thesis
      unfolding update_binding_def Let_def hits using True by simp
  next
    case False
    have "map (\<lambda>x. if ib_binding_id x = i \<and> ib_version x = v then c else x) (db_bindings db)
        = map (\<lambda>x. x) (db_bindings db)"
      using only False by (intro map_cong) auto
    then show ?thesis
      unfolding update_binding_def Let_def hits using False by simp
  qed
qed

lemma same_identity_transition: "same_identity b (apply_transition now target a b)"
  by (simp add: same_identity_def apply_transition_def)

text \<open>A transition that answers either repeats an answer or takes the one step it asks for.\<close>

lemma transition_Inr:
  assumes ok: "store_ok db"
    and run: "transition i expected target key event_type a now db = (Inr c, db')"
  obtains (replay) j :: journal_row where "journal_for_key db key = Some j"
      "replay_matches j i event_type target (json_tree (requested_payload a))"
      "binding_at db i = Some c" "db' = db"
  | (step) b :: instance_binding and j :: journal_row where "journal_for_key db key = None"
      "binding_at db i = Some b" "ib_version b = expected"
      "target \<in> set (ALLOWED_TRANSITIONS (ib_status b))" "c = apply_transition now target a b"
      "\<not> platform_taken (ib_platform_instance_id c)
          (filter (\<lambda>x. ib_binding_id x \<noteq> i) (db_bindings db))"
      "event_of c (Some (ib_status b)) j" "jr_idempotency_key j = key"
      "jr_event_type j = event_type" "jr_payload_json j = json_tree (requested_payload a)"
      "db' = db\<lparr>db_bindings := put_binding c (db_bindings db), db_journal := db_journal db @ [j]\<rparr>"
proof (cases "journal_for_key db key")
  case (Some j)
  then show thesis
    using run replay(1) [of j]
    by (auto simp: transition_def transaction_Inr py_bind_Inr py_gets_run py_lift_def json_dumps_def
        py_raise_run get_binding_def split: if_splits option.splits)
next
  case None
  from run None obtain b :: instance_binding where b: "binding_at db i = Some b"
    "ib_version b = expected" "target \<in> set (ALLOWED_TRANSITIONS (ib_status b))"
    and rest: "\<exists>n db1. update_binding i expected (\<lambda>_. apply_transition now target a b) db = (Inr n, db1)
      \<and> n = 1 \<and> c = apply_transition now target a b \<and>
      append_event c event_type (Some (ib_status b)) key (requested_payload a) db1 = (Inr (), db')"
    by (auto simp: transition_def transaction_Inr py_bind_Inr py_gets_run py_lift_def json_dumps_def
        py_raise_run py_return_run get_binding_def Let_def split: if_splits option.splits)
  then obtain n db1 where upd: "update_binding i expected (\<lambda>_. c) db = (Inr n, db1)"
    and n: "n = 1" and c: "c = apply_transition now target a b"
    and app: "append_event c event_type (Some (ib_status b)) key (requested_payload a) db1 = (Inr (), db')"
    by auto
  have ids: "distinct (map ib_binding_id (db_bindings db))"
    using ok by (simp add: store_ok_def unique_rows_def)
  have ci: "ib_binding_id c = i"
    using binding_at_Some [OF b(1)] by (simp add: c apply_transition_def)
  have db1: "db1 = db\<lparr>db_bindings := put_binding c (db_bindings db)\<rparr>"
    and free: "\<not> platform_taken (ib_platform_instance_id c)
        (filter (\<lambda>x. ib_binding_id x \<noteq> i) (db_bindings db))"
    using upd n b(2) unfolding update_one_row [OF ids b(1) ci] by (auto split: if_splits)
  from app obtain j :: journal_row where j: "db' = db1\<lparr>db_journal := db_journal db1 @ [j]\<rparr>"
    "event_of c (Some (ib_status b)) j" "jr_idempotency_key j = key" "jr_event_type j = event_type"
    "jr_payload_json j = json_tree (requested_payload a)"
    by (rule append_event_Inr)
  show thesis
    by (rule step [OF None b(1-3) c free j(2-5)]) (simp add: j(1) db1)
qed

lemma store_ok_ids: "store_ok db \<Longrightarrow> distinct (map ib_binding_id (db_bindings db))"
  by (simp add: store_ok_def unique_rows_def)

lemma transition_step:
  assumes ok: "store_ok db"
    and run: "transition i expected target key event_type a now db = (Inr c, db')"
  shows "db' = db \<or> db_step db db'"
  using ok run
proof (cases rule: transition_Inr)
  case (step b j)
  have "ib_binding_id c = i"
    using binding_at_Some [OF step(2)] by (simp add: step(5) apply_transition_def)
  then have "db_step db db'"
    using step same_identity_transition [of b now target a]
    by (intro db_move [of db c b j]) (simp_all add: step(5) apply_transition_def)
  then show ?thesis ..
qed simp

lemma create_Inr:
  assumes run: "create_binding b db = (Inr c, db')"
  obtains (replay) "binding_for_key db (ib_idempotency_key b) = Some c"
      "ib_request_hash c = ib_request_hash b" "db' = db"
  | (new) j :: journal_row where "binding_for_key db (ib_idempotency_key b) = None"
      "ib_status b = In_PREPARED" "ib_version b = 1" "c = b"
      "check_predecessor db b = Inr ()"
      "ib_predecessor_binding_id b = None \<longrightarrow> \<not> live_binding_exists db (ib_organization_id b)
         (ib_mission_id b) (ib_ocs_id b)"
      "insert_binding b db = (Inr (), db\<lparr>db_bindings := db_bindings db @ [b]\<rparr>)"
      "event_of b None j" "jr_idempotency_key j = ib_idempotency_key b @ '':prepared''"
      "db' = db\<lparr>db_bindings := db_bindings db @ [b], db_journal := db_journal db @ [j]\<rparr>"
proof -
  have start: "ib_status b = In_PREPARED" "ib_version b = 1"
    using run by (auto simp: create_binding_def py_raise_run split: if_splits)
  show thesis
  proof (cases "binding_for_key db (ib_idempotency_key b)")
    case (Some r)
    then have "c = r" "ib_request_hash r = ib_request_hash b" "db' = db"
      using run start
      by (auto simp: create_binding_def transaction_Inr py_bind_Inr py_gets_run py_raise_run
          py_return_run split: if_splits)
    with Some show thesis by (intro replay) simp_all
  next
    case None
    with run start obtain db1 where c: "c = b" and pred: "check_predecessor db b = Inr ()"
      and first: "ib_predecessor_binding_id b = None \<longrightarrow>
         \<not> live_binding_exists db (ib_organization_id b) (ib_mission_id b) (ib_ocs_id b)"
      and ins: "insert_binding b db = (Inr (), db1)"
      and app: "append_event b ''OCS_INSTANCE_PREPARED'' None (ib_idempotency_key b @ '':prepared'')
         (PyDict [(''profile_hash'', PyStr (ib_profile_hash b))]) db1 = (Inr (), db')"
      by (auto simp: create_binding_def transaction_Inr py_bind_Inr py_gets_run py_raise_run
          py_return_run split: if_splits)
    have db1: "db1 = db\<lparr>db_bindings := db_bindings db @ [b]\<rparr>"
      using ins by (auto simp: insert_binding_def split: if_splits)
    from app obtain j :: journal_row where j: "db' = db1\<lparr>db_journal := db_journal db1 @ [j]\<rparr>"
      "event_of b None j" "jr_idempotency_key j = ib_idempotency_key b @ '':prepared''"
      by (rule append_event_Inr)
    show thesis
      by (rule new [OF None start c pred first _ j(2,3)]) (use ins db1 j(1) in simp_all)
  qed
qed

lemma create_step: "create_binding b db = (Inr c, db') \<Longrightarrow> db' = db \<or> db_step db db'"
proof (elim create_Inr)
  fix j :: journal_row
  assume "ib_status b = In_PREPARED" "ib_version b = 1" "check_predecessor db b = Inr ()"
    "ib_predecessor_binding_id b = None \<longrightarrow> \<not> live_binding_exists db (ib_organization_id b)
         (ib_mission_id b) (ib_ocs_id b)"
    "insert_binding b db = (Inr (), db\<lparr>db_bindings := db_bindings db @ [b]\<rparr>)"
    "event_of b None j"
    "db' = db\<lparr>db_bindings := db_bindings db @ [b], db_journal := db_journal db @ [j]\<rparr>"
  then have "db_step db db'" by (intro db_create [of b db j]) simp_all
  then show "db' = db \<or> db_step db db'" ..
qed simp

text \<open>A replacement that answers either repeats an answer or moves both bindings.\<close>

lemma commit_replacement_Inr:
  assumes ok: "store_ok db"
    and run: "commit_replacement pid pv sid sv key cv ch hh now db = (Inr (p', s'), db')"
  obtains (replay) j :: journal_row where "journal_for_key db key = Some j"
      "binding_at db pid = Some p'" "binding_at db sid = Some s'" "db' = db"
  | (step) p s :: instance_binding and j k :: journal_row where "journal_for_key db key = None"
      "binding_at db pid = Some p" "binding_at db sid = Some s"
      "check_replacement p s pv sv = Inr ()" "p' = replaced_binding now p"
      "s' = persisted_successor now cv ch hh s"
      "event_of p' (Some (ib_status p)) j" "event_of s' (Some (ib_status s)) k"
      "jr_idempotency_key j = key" "jr_idempotency_key k = key @ '':successor''"
      "db' = db\<lparr>db_bindings := put_binding s' (put_binding p' (db_bindings db)),
               db_journal := db_journal db @ [j, k]\<rparr>"
proof (cases "journal_for_key db key")
  case (Some j)
  then show thesis
    using run replay(1) [of j]
    by (auto simp: commit_replacement_def Let_def transaction_Inr py_bind_Inr py_gets_run
        py_raise_run py_return_run get_binding_def split: if_splits option.splits)
next
  case None
  from run None obtain p s :: instance_binding
    where ps: "binding_at db pid = Some p" "binding_at db sid = Some s"
      "check_replacement p s pv sv = Inr ()"
      and rest: "\<exists>n1 db1 n2 db2 db3.
        update_binding pid pv (\<lambda>_. replaced_binding now p) db = (Inr n1, db1) \<and>
        update_binding sid sv (\<lambda>_. persisted_successor now cv ch hh s) db1 = (Inr n2, db2) \<and>
        n1 = 1 \<and> n2 = 1 \<and> p' = replaced_binding now p \<and> s' = persisted_successor now cv ch hh s \<and>
        append_event p' ''OCS_INSTANCE_REPLACED'' (Some (ib_status p)) key
          (replacement_payload sid pv sv cv ch hh) db2 = (Inr (), db3) \<and>
        append_event s' ''OCS_REPLACEMENT_PERSISTED'' (Some (ib_status s)) (key @ '':successor'')
          (PyDict [(''predecessor_binding_id'', PyStr pid), (''state_version'', PyInt cv)]) db3
          = (Inr (), db')"
    by (auto simp: commit_replacement_def Let_def transaction_Inr py_bind_Inr py_gets_run py_lift_def
        py_raise_run py_return_run split: if_splits option.splits)
  then obtain n1 db1 n2 db2 db3 where upd:
        "update_binding pid pv (\<lambda>_. p') db = (Inr n1, db1)" "n1 = 1"
        "update_binding sid sv (\<lambda>_. s') db1 = (Inr n2, db2)" "n2 = 1"
      and new: "p' = replaced_binding now p" "s' = persisted_successor now cv ch hh s"
      and app: "append_event p' ''OCS_INSTANCE_REPLACED'' (Some (ib_status p)) key
          (replacement_payload sid pv sv cv ch hh) db2 = (Inr (), db3)"
        "append_event s' ''OCS_REPLACEMENT_PERSISTED'' (Some (ib_status s)) (key @ '':successor'')
          (PyDict [(''predecessor_binding_id'', PyStr pid), (''state_version'', PyInt cv)]) db3
          = (Inr (), db')"
    by auto
  have apart: "sid \<noteq> pid"
  proof
    assume "sid = pid"
    with ps have "p = s" by simp
    with ps(3) show False by (auto simp: check_replacement_def same_lineage_def split: if_splits)
  qed
  have p1: "ib_binding_id p' = pid" and s1: "ib_binding_id s' = sid"
    using binding_at_Some [OF ps(1)] binding_at_Some [OF ps(2)]
    by (simp_all add: new replaced_binding_def persisted_successor_def)
  have db1: "db1 = db\<lparr>db_bindings := put_binding p' (db_bindings db)\<rparr>"
    using upd(1,2) unfolding update_one_row [OF store_ok_ids [OF ok] ps(1) p1]
    by (auto split: if_splits)
  have ids1: "distinct (map ib_binding_id (db_bindings db1))"
    using store_ok_ids [OF ok] by (simp add: db1 ids_put_binding)
  have s_mem: "s \<in> set (db_bindings db)" "ib_binding_id s = sid" using binding_at_Some [OF ps(2)] by auto
  have "s \<in> set (db_bindings db1)"
    using s_mem apart p1 by (auto simp: db1 set_put_binding)
  then have at1: "binding_at db1 sid = Some s"
    using binding_at_mem [OF ids1, of s] s_mem(2) by simp
  have db2: "db2 = db1\<lparr>db_bindings := put_binding s' (db_bindings db1)\<rparr>"
    using upd(3,4) unfolding update_one_row [OF ids1 at1 s1] by (auto split: if_splits)
  from app(1) obtain j :: journal_row where j: "db3 = db2\<lparr>db_journal := db_journal db2 @ [j]\<rparr>"
    "event_of p' (Some (ib_status p)) j" "jr_idempotency_key j = key"
    by (rule append_event_Inr)
  from app(2) obtain k :: journal_row where k: "db' = db3\<lparr>db_journal := db_journal db3 @ [k]\<rparr>"
    "event_of s' (Some (ib_status s)) k" "jr_idempotency_key k = key @ '':successor''"
    by (rule append_event_Inr)
  show thesis
    by (rule step [OF None ps new j(2) k(2) j(3) k(3)]) (simp add: k(1) j(1) db2 db1)
qed

lemma platform_kept:
  assumes u: "unique_rows bs" and b: "b \<in> set bs" and id: "ib_binding_id c = ib_binding_id b"
    and p: "ib_platform_instance_id c = ib_platform_instance_id b"
  shows "\<not> platform_taken (ib_platform_instance_id c)
            (filter (\<lambda>x. ib_binding_id x \<noteq> ib_binding_id c) bs)"
proof -
  have "platforms_apart bs" using u by (simp add: unique_rows_def)
  then have "ib_platform_instance_id b \<noteq> ib_platform_instance_id x"
    if "x \<in> set bs" "ib_binding_id x \<noteq> ib_binding_id b" "ib_platform_instance_id b \<noteq> None" for x
    using platforms_apartD [OF _ b that(1,3)] that(2) by metis
  then show ?thesis by (auto simp: platform_taken_def id p)
qed

lemma put_binding_other:
  "x \<in> set bs \<Longrightarrow> ib_binding_id x \<noteq> ib_binding_id c \<Longrightarrow> x \<in> set (put_binding c bs)"
  by (simp add: set_put_binding)

lemma commit_replacement_steps:
  assumes ok: "store_ok db"
    and run: "commit_replacement pid pv sid sv key cv ch hh now db = (Inr r, db')"
  shows "db_step\<^sup>*\<^sup>* db db'"
proof -
  obtain p' s' :: instance_binding where r: "r = (p', s')" by (cases r)
  show ?thesis
    using ok run [unfolded r]
  proof (cases rule: commit_replacement_Inr)
    case (step p s j k)
    define db1 where "db1 = db\<lparr>db_bindings := put_binding p' (db_bindings db),
        db_journal := db_journal db @ [j]\<rparr>"
    have p: "p \<in> set (db_bindings db)" "ib_binding_id p = pid" using binding_at_Some [OF step(2)] by auto
    have s: "s \<in> set (db_bindings db)" "ib_binding_id s = sid" using binding_at_Some [OF step(3)] by auto
    have status: "ib_status p = In_CHECKPOINTED" "ib_status s = In_PREPARED"
      and lin: "ib_generation s = ib_generation p + 1"
      using step(4) by (auto simp: check_replacement_def same_lineage_def split: if_splits)
    have rows: "unique_rows (db_bindings db)" using ok by (simp add: store_ok_def)
    have one: "db_step db db1"
    proof (rule db_move)
      show "same_identity p p'" by (simp add: step(5) replaced_binding_def same_identity_def)
      show "\<not> platform_taken (ib_platform_instance_id p')
          (filter (\<lambda>x. ib_binding_id x \<noteq> ib_binding_id p') (db_bindings db))"
        by (rule platform_kept [OF rows p(1)]) (simp_all add: step(5) replaced_binding_def)
    qed (use step p status in \<open>simp_all add: replaced_binding_def db1_def\<close>)
    have ok1: "store_ok db1" using db_step_ok [OF one ok] .
    then have rows1: "unique_rows (db_bindings db1)" by (simp add: store_ok_def)
    have "sid \<noteq> pid"
    proof
      assume "sid = pid"
      then have "p = s" using unique_ids [OF rows p(1) s(1)] p(2) s(2) by simp
      with lin show False by simp
    qed
    then have s1: "s \<in> set (db_bindings db1)"
      unfolding db1_def using s p
      by (simp add: put_binding_other step(5) replaced_binding_def)
    have "db_step db1 db'"
    proof (rule db_move)
      show "binding_at db1 (ib_binding_id s') = Some s"
        using binding_at_mem [OF store_ok_ids [OF ok1] s1]
        by (simp add: step(6) persisted_successor_def)
      show "same_identity s s'" by (simp add: step(6) persisted_successor_def same_identity_def)
      show "\<not> platform_taken (ib_platform_instance_id s')
          (filter (\<lambda>x. ib_binding_id x \<noteq> ib_binding_id s') (db_bindings db1))"
        by (rule platform_kept [OF rows1 s1]) (simp_all add: step(6) persisted_successor_def)
    qed (use step status in \<open>simp_all add: persisted_successor_def db1_def\<close>)
    with one show ?thesis by (meson converse_rtranclp_into_rtranclp r_into_rtranclp)
  qed simp
qed

section \<open>Histories of the registry\<close>

datatype store_call =
    Create instance_binding
  | Transit string int instance_status string string transition_args pytime
  | Replace string int string int string int string string pytime
  | Begin_Saga string string string string pyval pytime
  | Advance_Saga string string string pytime

fun store_step :: "store_call \<Rightarrow> instance_db \<Rightarrow> instance_db" where
  "store_step (Create b) db = snd (create_binding b db)"
| "store_step (Transit i v target key event a now) db = snd (transition i v target key event a now db)"
| "store_step (Replace pid pv sid sv key cv ch hh now) db =
     snd (commit_replacement pid pv sid sv key cv ch hh now db)"
| "store_step (Begin_Saga key i operation fingerprint payload now) db =
     snd (begin_action_saga key i operation fingerprint payload now db)"
| "store_step (Advance_Saga key expected target now) db =
     snd (advance_action_saga key expected target now db)"

definition store_run :: "store_call list \<Rightarrow> instance_db \<Rightarrow> instance_db" where
  "store_run calls db = fold store_step calls db"

lemma transition_Inl:
  "transition i v target key event a now db = (Inl e, db') \<Longrightarrow> db' = db"
  unfolding transition_def by (rule transaction_Inl)

lemma create_Inl: "create_binding b db = (Inl e, db') \<Longrightarrow> db' = db"
  by (auto simp: create_binding_def py_raise_run split: if_splits dest: transaction_Inl)

lemma commit_replacement_Inl:
  "commit_replacement pid pv sid sv key cv ch hh now db = (Inl e, db') \<Longrightarrow> db' = db"
  unfolding commit_replacement_def Let_def by (rule transaction_Inl)

lemma action_saga_state: "snd (action_saga key db) = db"
  by (simp add: action_saga_def split: option.splits)

text \<open>The sagas live in a table of their own.\<close>

definition same_rows :: "instance_db \<Rightarrow> instance_db \<Rightarrow> bool" where
  "same_rows db db' \<longleftrightarrow> db_bindings db' = db_bindings db \<and> db_journal db' = db_journal db"

interpretation rows: step_order same_rows
  by unfold_locales (simp_all add: same_rows_def)

lemma begin_action_saga_rows: "steps same_rows (begin_action_saga key i operation fingerprint payload now)"
proof -
  have insert: "steps same_rows (\<lambda>db. if binding_at db i = None then (Inl e, db)
      else (Inr None, db\<lparr>db_sagas := f db\<rparr>))" for e and f :: "instance_db \<Rightarrow> saga_row list"
    by (simp add: steps_def same_rows_def)
  have read: "steps same_rows (action_saga k)" for k
    by (simp add: steps_def same_rows_def action_saga_state)
  show ?thesis
    unfolding begin_action_saga_def
    by (intro rows.steps_bind rows.steps_basic steps_transaction rows.step_refl)
      (auto intro: insert read rows.steps_basic split: option.split)
qed

lemma advance_action_saga_rows: "steps same_rows (advance_action_saga key expected target now)"
proof -
  have read: "steps same_rows (action_saga k)" for k
    by (simp add: steps_def same_rows_def action_saga_state)
  show ?thesis
    unfolding advance_action_saga_def
    by (intro rows.steps_bind read steps_transaction rows.step_refl stepsI)
      (simp add: Let_def same_rows_def split: option.split)
qed

lemma rows_order: "same_rows db db' \<Longrightarrow> db_order db db'"
  by (auto simp: same_rows_def db_order_def intro: db_saga)

lemma create_order: "steps db_order (create_binding b)"
proof (rule stepsI)
  fix db
  show "db_order db (snd (create_binding b db))"
    by (cases "create_binding b db"; cases "fst (create_binding b db)")
      (auto simp: db_order_def dest: create_Inl create_step)
qed

lemma transition_order: "steps db_order (transition i v target key event a now)"
proof (rule stepsI)
  fix db
  show "db_order db (snd (transition i v target key event a now db))"
    by (cases "transition i v target key event a now db";
        cases "fst (transition i v target key event a now db)")
      (auto simp: db_order_def dest: transition_Inl transition_step)
qed

lemma replacement_order: "steps db_order (commit_replacement pid pv sid sv key cv ch hh now)"
proof (rule stepsI)
  fix db
  show "db_order db (snd (commit_replacement pid pv sid sv key cv ch hh now db))"
    by (cases "commit_replacement pid pv sid sv key cv ch hh now db";
        cases "fst (commit_replacement pid pv sid sv key cv ch hh now db)")
      (auto simp: db_order_def dest: commit_replacement_Inl commit_replacement_steps)
qed

lemma begin_saga_order: "steps db_order (begin_action_saga key i operation fingerprint payload now)"
  using begin_action_saga_rows by (auto simp: steps_def intro: rows_order)

lemma advance_saga_order: "steps db_order (advance_action_saga key expected target now)"
  using advance_action_saga_rows by (auto simp: steps_def intro: rows_order)

lemma store_step_order: "db_order db (store_step c db)"
  using create_order transition_order replacement_order begin_saga_order advance_saga_order
  by (cases c) (simp_all add: steps_def)

lemma store_run_order: "db_order db (store_run calls db)"
  unfolding store_run_def
  by (induction calls arbitrary: db)
    (auto intro: dbo.step_refl dbo.step_trans [OF store_step_order])

lemma store_run_ok: "store_ok db \<Longrightarrow> store_ok (store_run calls db)"
  using store_run_order [of db calls] by (simp add: db_order_def db_steps_ok)

end
