(* ===== verification/Instance_Histories.thy ===== *)
theory Instance_Histories
  imports Instance_Registry
begin

text \<open>
  Histories of the registry of instances: its refinement of the abstract life cycle, what may
  become of an instance, retries and stale writers, and the replacement of a generation.
\<close>

section \<open>The abstract life cycle\<close>

text \<open>What the registry promises of an instance: where it is in its life, and how many steps it took.\<close>

type_synonym life = "string \<Rightarrow> (instance_status \<times> int) option"

inductive life_step :: "life \<Rightarrow> life \<Rightarrow> bool" where
  life_birth: "m i = None \<Longrightarrow> life_step m (m(i \<mapsto> (In_PREPARED, 1)))"
| life_move: "m i = Some (s, v) \<Longrightarrow> t \<in> set (ALLOWED_TRANSITIONS s) \<Longrightarrow>
    life_step m (m(i \<mapsto> (t, v + 1)))"

definition life_of :: "instance_db \<Rightarrow> life" where
  "life_of db i = map_option (\<lambda>b. (ib_status b, ib_version b)) (binding_at db i)"

lemma find_snoc:
  "find P (xs @ [x]) = (case find P xs of None \<Rightarrow> if P x then Some x else None | Some y \<Rightarrow> Some y)"
  by (induction xs) auto

lemma binding_at_snoc:
  assumes "db_bindings db' = db_bindings db @ [b]"
    and "ib_binding_id b \<notin> ib_binding_id ` set (db_bindings db)"
  shows "binding_at db' i = (if i = ib_binding_id b then Some b else binding_at db i)"
proof (cases "i = ib_binding_id b")
  case True
  then have "find (\<lambda>x. ib_binding_id x = i) (db_bindings db) = None"
    using assms(2) binding_at_None [of db i] by (simp add: binding_at_def)
  then show ?thesis
    using True by (simp add: binding_at_def assms(1) find_snoc)
next
  case False
  then show ?thesis
    by (simp add: binding_at_def assms(1) find_snoc split: option.splits)
qed

lemma find_put_binding:
  "find (\<lambda>x. ib_binding_id x = i) (put_binding c bs) =
     (if i = ib_binding_id c then map_option (\<lambda>_. c) (find (\<lambda>x. ib_binding_id x = i) bs)
      else find (\<lambda>x. ib_binding_id x = i) bs)"
  by (induction bs) (auto simp: put_binding_def)

lemma binding_at_put:
  assumes "db_bindings db' = put_binding c (db_bindings db)"
    and "binding_at db (ib_binding_id c) = Some b"
  shows "binding_at db' i = (if i = ib_binding_id c then Some c else binding_at db i)"
  using assms by (simp add: binding_at_def find_put_binding)

lemma db_step_life:
  assumes "db_step db db'"
  shows "life_of db' = life_of db \<or> life_step (life_of db) (life_of db')"
  using assms
proof cases
  case (db_create b j)
  then have fresh: "ib_binding_id b \<notin> ib_binding_id ` set (db_bindings db)"
    by (auto simp: insert_binding_def split: if_splits)
  then have none: "life_of db (ib_binding_id b) = None"
    by (simp add: life_of_def binding_at_None)
  have "life_of db' = (life_of db)(ib_binding_id b \<mapsto> (In_PREPARED, 1))"
    using db_create(4,5) by (simp add: fun_eq_iff life_of_def binding_at_snoc [OF db_create(7) fresh])
  then show ?thesis using life_birth [of "life_of db", OF none] by simp
next
  case (db_move c b j)
  have some: "life_of db (ib_binding_id c) = Some (ib_status b, ib_version b)"
    using db_move(1) by (simp add: life_of_def)
  have "life_of db' = (life_of db)(ib_binding_id c \<mapsto> (ib_status c, ib_version b + 1))"
    using db_move(4) by (simp add: fun_eq_iff life_of_def binding_at_put [OF db_move(7,1)])
  then show ?thesis using life_move [of "life_of db", OF some db_move(3)] by simp
next
  case db_saga
  then show ?thesis by (simp add: fun_eq_iff life_of_def binding_at_def)
qed

lemma db_steps_life: "db_step\<^sup>*\<^sup>* db db' \<Longrightarrow> life_step\<^sup>*\<^sup>* (life_of db) (life_of db')"
  by (induction rule: rtranclp_induct)
    (auto dest!: db_step_life intro: rtranclp.rtrancl_into_rtrancl)

section \<open>What happens to one instance\<close>

definition terminal :: "instance_status \<Rightarrow> bool" where
  "terminal s \<longleftrightarrow> ALLOWED_TRANSITIONS s = []"

lemma terminal_iff: "terminal s \<longleftrightarrow> s \<in> {In_REPLACED, In_CLOSED, In_REVOKED, In_HOLD}"
  by (cases s) (simp_all add: terminal_def)

text \<open>\<open>c\<close> is what became of \<open>b\<close>.\<close>

definition became :: "instance_binding \<Rightarrow> instance_binding \<Rightarrow> bool" where
  "became b c \<longleftrightarrow> same_identity b c \<and> ib_version b \<le> ib_version c \<and>
     (ib_version c = ib_version b \<longrightarrow> c = b) \<and> (terminal (ib_status b) \<longrightarrow> c = b)"

lemma same_identity_refl: "same_identity b b"
  by (simp add: same_identity_def)

lemma same_identity_trans: "same_identity b c \<Longrightarrow> same_identity c d \<Longrightarrow> same_identity b d"
proof -
  assume "same_identity b c" and "same_identity c d"
  then obtain s v p cv ch m h u s' v' p' cv' ch' m' h' u'
    where c: "c = b\<lparr>ib_status := s, ib_version := v,
     ib_platform_instance_id := p, ib_checkpoint_version := cv, ib_checkpoint_hash := ch,
     ib_maturity := m, ib_hazel_event_hash := h, ib_updated_at := u\<rparr>"
    and d: "d = c\<lparr>ib_status := s', ib_version := v',
     ib_platform_instance_id := p', ib_checkpoint_version := cv', ib_checkpoint_hash := ch',
     ib_maturity := m', ib_hazel_event_hash := h', ib_updated_at := u'\<rparr>"
    unfolding same_identity_def by blast
  show "same_identity b d" by (simp add: same_identity_def c d)
qed

lemma became_refl: "became b b"
  by (simp add: became_def same_identity_refl)

lemma became_trans:
  assumes "became b c" and "became c d"
  shows "became b d"
  using assms same_identity_trans [of b c d] by (auto simp: became_def)

lemma db_step_became:
  assumes "db_step db db'" and b: "binding_at db i = Some b"
  shows "\<exists>(c :: instance_binding). binding_at db' i = Some c \<and> became b c"
  using assms(1)
proof cases
  case (db_create x j)
  then have "ib_binding_id x \<notin> ib_binding_id ` set (db_bindings db)"
    by (auto simp: insert_binding_def split: if_splits)
  moreover have "i \<noteq> ib_binding_id x"
  proof
    assume "i = ib_binding_id x"
    with calculation have "binding_at db i = None" by (simp only: binding_at_None) simp
    with b show False by simp
  qed
  ultimately show ?thesis
    using b by (simp add: binding_at_snoc [OF db_create(7)] became_refl)
next
  case (db_move c x j)
  show ?thesis
  proof (cases "i = ib_binding_id c")
    case True
    then have "x = b" using db_move(1) b by simp
    then have "became b c"
      using db_move(2-4) by (auto simp: became_def terminal_def)
    then show ?thesis using True by (simp add: binding_at_put [OF db_move(7,1)])
  next
    case False
    then show ?thesis using b by (simp add: binding_at_put [OF db_move(7,1)] became_refl)
  qed
next
  case db_saga
  then show ?thesis using b by (simp add: binding_at_def became_refl)
qed

lemma db_steps_became:
  assumes "db_step\<^sup>*\<^sup>* db db'" and "binding_at db i = Some b"
  shows "\<exists>(c :: instance_binding). binding_at db' i = Some c \<and> became b c"
  using assms
proof (induction rule: rtranclp_induct)
  case base
  then show ?case by (simp add: became_refl)
next
  case (step y z)
  then obtain c d :: instance_binding where "binding_at y i = Some c" "became b c"
    "binding_at z i = Some d" "became c d"
    using db_step_became by fast
  then show ?case using became_trans by fast
qed

lemma db_step_journal: "db_step db db' \<Longrightarrow> \<exists>js. db_journal db' = db_journal db @ js"
  by (induction rule: db_step.induct) auto

lemma db_steps_journal: "db_step\<^sup>*\<^sup>* db db' \<Longrightarrow> \<exists>js. db_journal db' = db_journal db @ js"
  by (induction rule: rtranclp_induct) (auto dest!: db_step_journal)

text \<open>The version of a binding counts its journal.\<close>

lemma follows_endpoint:
  "follows p js \<Longrightarrow> js \<noteq> [] \<Longrightarrow>
     snd (the (endpoint js)) = (case p of None \<Rightarrow> 0 | Some (s, v) \<Rightarrow> v) + int (length js)"
proof (induction p js rule: follows.induct)
  case (2 p j js)
  then show ?case
    by (cases "js = []") (auto simp: endpoint_def split: option.splits)
qed simp

lemma journaled_version:
  assumes "journaled db b"
  shows "ib_version b = int (length (journal_of (ib_binding_id b) db))"
proof -
  have "journal_of (ib_binding_id b) db \<noteq> []"
    using assms by (auto simp: journaled_def endpoint_def)
  with assms show ?thesis
    using follows_endpoint [of None "journal_of (ib_binding_id b) db"] by (auto simp: journaled_def)
qed

lemma reachable_ok: "store_ok (store_run calls empty_db)"
  by (rule store_run_ok [OF store_ok_empty])

lemma reachable_steps: "db_step\<^sup>*\<^sup>* (store_run calls empty_db) (store_run later_calls (store_run calls empty_db))"
  using store_run_order [of "store_run calls empty_db" later_calls] reachable_ok
  by (simp add: db_order_def)

section \<open>Retries and stale writers\<close>

lemma transition_serializable:
  assumes "transition i v target key event a now db = (Inr c, db')"
  shows "serializable (requested_payload a)"
  using assms
  by (auto simp: transition_def transaction_Inr py_bind_Inr py_gets_run py_lift_def json_dumps_def
      split: if_splits)

lemma journal_for_key_snoc:
  assumes "journal_for_key db key = None" and "db_journal db' = db_journal db @ [j]"
    and "jr_idempotency_key j = key"
  shows "journal_for_key db' key = Some j"
  using assms by (simp add: journal_for_key_def find_snoc)

lemma transition_at:
  assumes ok: "store_ok db"
    and run: "transition i v target key event a now db = (Inr c, db')"
  shows "binding_at db' i = Some c"
  using ok run
proof (cases rule: transition_Inr)
  case (step b j)
  have "ib_binding_id c = i"
    using binding_at_Some [OF step(2)] by (simp add: step(5) apply_transition_def)
  then show ?thesis
    using step(2) by (simp add: binding_at_def step(11) find_put_binding)
qed simp

lemma transition_again:
  assumes ok: "store_ok db"
    and run: "transition i v target key event a now db = (Inr c, db')"
  shows "transition i w target key event a then_now db' = (Inr c, db')"
proof -
  have json: "json_dumps (requested_payload a) = Inr (json_tree (requested_payload a))"
    using transition_serializable [OF run] by (simp add: json_dumps_def)
  have "\<exists>(j :: journal_row). journal_for_key db' key = Some j \<and>
      replay_matches j i event target (json_tree (requested_payload a))"
    using ok run
  proof (cases rule: transition_Inr)
    case (replay j)
    then show ?thesis by (intro exI [of _ j] conjI) simp_all
  next
    case (step b j)
    have "journal_for_key db' key = Some j"
      by (rule journal_for_key_snoc [OF step(1) _ step(8)]) (simp add: step(11))
    moreover have "ib_binding_id c = i" "ib_status c = target"
      using binding_at_Some [OF step(2)] by (simp_all add: step(5) apply_transition_def)
    ultimately show ?thesis
      using step(7,9,10) by (intro exI [of _ j] conjI) (simp_all add: replay_matches_def event_of_def)
  qed
  then obtain j :: journal_row where "journal_for_key db' key = Some j"
    "replay_matches j i event target (json_tree (requested_payload a))" by blast
  then show ?thesis
    using transition_at [OF ok run] json
    by (simp add: transition_def transaction_def py_simps py_lift_def get_binding_def)
qed

lemma transition_version_conflict:
  assumes "journal_for_key db key = None" and "serializable (requested_payload a)"
    and "binding_at db i = Some b" and "ib_version b \<noteq> v"
  shows "transition i v target key event a now db =
    (Inl (InstanceBindingError ''instance_version_conflict''), db)"
  using assms
  by (simp add: transition_def transaction_def py_simps py_lift_def json_dumps_def get_binding_def)

section \<open>Replacement\<close>

lemma commit_replacement_result:
  assumes ok: "store_ok db"
    and run: "commit_replacement pid pv sid sv key cv ch hh now db = (Inr (p', s'), db')"
  shows "binding_at db' pid = Some p' \<and> binding_at db' sid = Some s' \<and>
    (db' = db \<and> journal_for_key db key \<noteq> None \<or>
     journal_for_key db key = None \<and> ib_status p' = In_REPLACED \<and> ib_status s' = In_PERSISTED \<and>
     ib_predecessor_binding_id s' = Some pid \<and> same_lineage s' p' \<and>
     (\<exists>(p :: instance_binding) (s :: instance_binding). binding_at db pid = Some p \<and>
       binding_at db sid = Some s \<and> ib_status p = In_CHECKPOINTED \<and> ib_status s = In_PREPARED \<and>
       became p p' \<and> became s s'))"
  using ok run
proof (cases rule: commit_replacement_Inr)
  case (step p s j k)
  have ids: "ib_binding_id p = pid" "ib_binding_id s = sid"
    using binding_at_Some [OF step(2)] binding_at_Some [OF step(3)] by auto
  have checks: "ib_status p = In_CHECKPOINTED" "ib_status s = In_PREPARED"
    "ib_predecessor_binding_id s = Some pid" "same_lineage s p"
    using step(4) ids by (auto simp: check_replacement_def split: if_splits)
  have apart: "sid \<noteq> pid"
  proof
    assume "sid = pid"
    with step(2,3) have "p = s" by simp
    with checks(4) show False by (simp add: same_lineage_def)
  qed
  have ids': "ib_binding_id p' = pid" "ib_binding_id s' = sid"
    using ids by (simp_all add: step(5,6) replaced_binding_def persisted_successor_def)
  have "binding_at db' pid = Some p'" "binding_at db' sid = Some s'"
    using step(2,3) apart ids' by (simp_all add: binding_at_def step(11) find_put_binding)
  moreover have "same_lineage s' p'"
    using checks(4) by (simp add: step(5,6) same_lineage_def replaced_binding_def persisted_successor_def)
  moreover have "became p p'" "became s s'"
    using checks(1,2)
    by (simp_all add: step(5,6) became_def same_identity_def replaced_binding_def
        persisted_successor_def terminal_def)
  ultimately show ?thesis
    using step(1-3) checks
    by (simp add: step(5,6) replaced_binding_def persisted_successor_def)
qed simp

section \<open>Properties\<close>

text \<open>
  C14: Whatever calls are made on a fresh registry, its invariant holds: identifiers,
  idempotency keys, generations and physical instances are unique, every binding's journal is a
  run of the life cycle that ends at its status and version, a successor carries the lineage of
  the binding it took over from, and a mission's OCS has at most one live generation without
  predecessor.
\<close>

theorem registry_invariant: "store_ok (store_run calls empty_db)"
  by (rule reachable_ok)

text \<open>
  C15: The registry refines the abstract life cycle: every continuation of every history is, for
  the status and version of each instance, a sequence of births and allowed moves.
\<close>

theorem registry_refines_life_cycle:
  "life_step\<^sup>*\<^sup>* (life_of (store_run calls empty_db))
     (life_of (store_run later_calls (store_run calls empty_db)))"
  by (rule db_steps_life [OF reachable_steps])

text \<open>
  An instance never disappears, never changes its identity and never leaves a terminal
  status; its version never falls, and counts the rows of its journal, which only grows.
\<close>

lemma instance_history:
  assumes "binding_at (store_run calls empty_db) i = Some b"
  shows "\<exists>c. binding_at (store_run later_calls (store_run calls empty_db)) i = Some c \<and> became b c \<and>
    ib_version c = int (length (journal_of i (store_run later_calls (store_run calls empty_db)))) \<and>
    (\<exists>js. db_journal (store_run later_calls (store_run calls empty_db)) =
            db_journal (store_run calls empty_db) @ js)"
proof -
  obtain c :: instance_binding
    where c: "binding_at (store_run later_calls (store_run calls empty_db)) i = Some c" "became b c"
    using db_steps_became [OF reachable_steps assms] by blast
  have "journal_ok (store_run later_calls (store_run calls empty_db))"
    using store_run_ok [OF reachable_ok] by (simp add: store_ok_def)
  then have "ib_version c = int (length (journal_of i (store_run later_calls (store_run calls empty_db))))"
    using journaled_version [of _ c] binding_at_Some [OF c(1)] by (auto simp: journal_ok_def)
  then show ?thesis
    using c db_steps_journal [OF reachable_steps] by (intro exI [of _ c] conjI)
qed

text \<open> At most one binding takes over from a given one.\<close>

lemma single_successor:
  assumes "binding_at (store_run calls empty_db) i = Some b"
    and "binding_at (store_run calls empty_db) j = Some c"
    and "ib_predecessor_binding_id b = Some p" and "ib_predecessor_binding_id c = Some p"
  shows "i = j"
proof -
  let ?bs = "db_bindings (store_run calls empty_db)"
  have rows: "unique_rows ?bs" and lineage: "lineage_ok ?bs"
    using reachable_ok [of calls] by (simp_all add: store_ok_def)
  have b: "b \<in> set ?bs" "ib_binding_id b = i" and c: "c \<in> set ?bs" "ib_binding_id c = j"
    using binding_at_Some [OF assms(1)] binding_at_Some [OF assms(2)] by auto
  obtain q r :: instance_binding where q: "q \<in> set ?bs" "ib_binding_id q = p" "same_lineage b q"
    and r: "r \<in> set ?bs" "ib_binding_id r = p" "same_lineage c r"
    using lineage b(1) c(1) assms(3,4) unfolding lineage_ok_def by meson
  have "q = r" using unique_ids [OF rows q(1) r(1)] q(2) r(2) by simp
  with q(3) r(3) have "generation_key b = generation_key c"
    by (simp add: same_lineage_def generation_key_def)
  moreover have "inj_on generation_key (set ?bs)" using rows by (simp add: unique_rows_def)
  ultimately have "b = c" using b(1) c(1) by (auto dest: inj_onD)
  with b(2) c(2) show ?thesis by simp
qed

text \<open>
  A transition may be retried: the same request under the same key, with any expected
  version and at any time, answers what the first answered and changes nothing.
\<close>

lemma transition_retry:
  assumes "transition i v target key event a now (store_run calls empty_db) = (Inr c, db)"
  shows "transition i w target key event a later db = (Inr c, db)"
  by (rule transition_again [OF reachable_ok assms])

text \<open>
  C16: A stale writer is refused: once a transition took an instance past version
  \<open>v\<close>, no request under a new key that expects \<open>v\<close> or less ever
  succeeds, and it changes nothing.
\<close>

theorem stale_writer_refused:
  assumes "transition i v target key event a now (store_run calls empty_db) = (Inr c, db)"
    and "journal_for_key (store_run calls empty_db) key = None"
    and "w \<le> v" and "journal_for_key (store_run later_calls db) key' = None"
    and "serializable (requested_payload a')"
  shows "transition i w target' key' event' a' now' (store_run later_calls db) =
    (Inl (InstanceBindingError ''instance_version_conflict''), store_run later_calls db)"
proof -
  have c: "binding_at db i = Some c" by (rule transition_at [OF reachable_ok assms(1)])
  have "ib_version c = v + 1"
  proof (cases rule: transition_Inr [OF reachable_ok assms(1)])
    case (2 b j)
    then show ?thesis by (simp add: apply_transition_def)
  qed (use assms(2) in simp)
  moreover have "store_ok db"
    using transition_step [OF reachable_ok assms(1)] reachable_ok by (auto dest: db_step_ok)
  then have "db_step\<^sup>*\<^sup>* db (store_run later_calls db)"
    using store_run_order [of db later_calls] by (simp add: db_order_def)
  then obtain d :: instance_binding where "binding_at (store_run later_calls db) i = Some d" "became c d"
    using db_steps_became [OF _ c] by blast
  ultimately show ?thesis
    using assms(3) by (intro transition_version_conflict [OF assms(4,5)]) (auto simp: became_def)
qed

text \<open>
  C17: A replacement is atomic: it fails and changes nothing, or it leaves the checkpointed
  predecessor replaced and its prepared successor persisted, of the same lineage and the next
  generation (or it repeats the answer of a replacement that did).
\<close>

theorem replacement_atomic:
  assumes "commit_replacement pid pv sid sv key cv ch hh now (store_run calls empty_db) = (r, db)"
  shows "case r of Inl e \<Rightarrow> db = store_run calls empty_db
    | Inr (p', s') \<Rightarrow> binding_at db pid = Some p' \<and> binding_at db sid = Some s' \<and>
        (db = store_run calls empty_db \<and> journal_for_key (store_run calls empty_db) key \<noteq> None \<or>
         journal_for_key (store_run calls empty_db) key = None \<and>
         ib_status p' = In_REPLACED \<and> ib_status s' = In_PERSISTED \<and>
         ib_predecessor_binding_id s' = Some pid \<and> same_lineage s' p' \<and>
         (\<exists>p s. binding_at (store_run calls empty_db) pid = Some p \<and>
            binding_at (store_run calls empty_db) sid = Some s \<and> ib_status p = In_CHECKPOINTED \<and>
            ib_status s = In_PREPARED \<and> became p p' \<and> became s s'))"
proof (cases r)
  case (Inl e)
  then show ?thesis using commit_replacement_Inl [of pid pv sid sv key cv ch hh now] assms by simp
next
  case (Inr ps)
  then obtain p' s' where "r = Inr (p', s')" by (cases ps) simp
  then show ?thesis
    using commit_replacement_result [OF reachable_ok] assms by simp
qed

section \<open>Samples\<close>

definition sample_root :: instance_binding where
  "sample_root = \<lparr> ib_binding_id = ''b1'', ib_mission_id = ''m'', ib_run_id = ''r'',
     ib_organization_id = ''org'', ib_ocs_id = ''Maia'', ib_profile_version = ''1'',
     ib_profile_hash = ''ph'', ib_identity_binding_hash = ''ih'', ib_request_hash = ''q1'',
     ib_maturity = PREPARED_UNVERIFIED, ib_host = ''ChatGPT Work'', ib_capability = ''cap'',
     ib_lease_id = ''l1'', ib_authority_ref = ''a'', ib_scope = [''s''],
     ib_state_namespace = ''sn'', ib_memory_namespace = ''mn'', ib_generation = 1,
     ib_platform_instance_id = None, ib_challenge_hash = ''ch'', ib_bootstrap_hash = ''bh'',
     ib_status = In_PREPARED, ib_version = 1, ib_predecessor_binding_id = None,
     ib_checkpoint_version = 0, ib_checkpoint_hash = None, ib_hazel_event_hash = None,
     ib_idempotency_key = ''k1'', ib_correlation_id = ''c'', ib_causation_id = None,
     ib_created_at = 0, ib_updated_at = 0 \<rparr>"

definition sample_successor :: instance_binding where
  "sample_successor = sample_root\<lparr>ib_binding_id := ''b2'', ib_request_hash := ''q2'',
     ib_lease_id := ''l2'', ib_generation := 2, ib_predecessor_binding_id := Some ''b1'',
     ib_checkpoint_version := 1, ib_idempotency_key := ''k2''\<rparr>"

definition no_args :: transition_args where
  "no_args = \<lparr> ta_platform_instance_id = None, ta_checkpoint_version = None,
     ta_checkpoint_hash = None, ta_hazel_event_hash = None, ta_maturity = None, ta_payload = [] \<rparr>"

definition sample_move :: "int \<Rightarrow> instance_status \<Rightarrow> string \<Rightarrow> store_call" where
  "sample_move v target key = Transit ''b1'' v target key (''E'' @ key) no_args 1"

definition sample_history :: "store_call list" where
  "sample_history =
     [Create sample_root, sample_move 1 In_PERSISTED ''t1'', sample_move 2 In_BOUND ''t2'',
      sample_move 3 In_ACTIVE ''t3'', sample_move 4 In_CHECKPOINTED ''t4'', Create sample_successor]"

definition sample_replace :: store_call where
  "sample_replace = Replace ''b1'' 5 ''b2'' 1 ''rep'' 2 ''h'' ''e'' 2"

definition sample_persisted :: instance_binding where
  "sample_persisted = sample_root\<lparr>ib_status := In_PERSISTED, ib_version := 2, ib_updated_at := 1\<rparr>"

definition sample_checkpointed :: instance_binding where
  "sample_checkpointed =
     sample_root\<lparr>ib_status := In_CHECKPOINTED, ib_version := 5, ib_updated_at := 1\<rparr>"

lemma split_run: "fst p = Inr x \<Longrightarrow> p = (Inr x, snd p)"
  by (metis prod.collapse)

lemma sample_checkpointed_at:
  "binding_at (store_run sample_history empty_db) ''b1'' = Some sample_checkpointed"
  by code_simp

lemma sample_transition:
  "fst (transition ''b1'' 1 In_PERSISTED ''t1'' ''Et1'' no_args 1
          (store_run [Create sample_root] empty_db)) = Inr sample_persisted"
  by code_simp

text \<open>The state after the first two calls of the sample.\<close>

definition sample_db :: instance_db where
  "sample_db = snd (transition ''b1'' 1 In_PERSISTED ''t1'' ''Et1'' no_args 1
          (store_run [Create sample_root] empty_db))"

lemmas sample_transition_run =
  split_run [OF sample_transition, folded sample_db_def]

lemma instance_history_witness:
  "\<exists>c. binding_at (store_run [sample_replace] (store_run sample_history empty_db)) ''b1'' = Some c \<and>
    became sample_checkpointed c \<and>
    ib_version c = int (length (journal_of ''b1''
       (store_run [sample_replace] (store_run sample_history empty_db)))) \<and>
    (\<exists>js. db_journal (store_run [sample_replace] (store_run sample_history empty_db)) =
            db_journal (store_run sample_history empty_db) @ js)"
  by (rule instance_history [OF sample_checkpointed_at])

lemma single_successor_witness:
  "binding_at (store_run sample_history empty_db) ''b2'' = Some sample_successor \<and> ''b2'' = ''b2''"
proof -
  have at2: "binding_at (store_run sample_history empty_db) ''b2'' = Some sample_successor"
    by code_simp
  have pred: "ib_predecessor_binding_id sample_successor = Some ''b1''"
    by (simp add: sample_successor_def)
  show ?thesis using at2 single_successor [OF at2 at2 pred pred] by simp
qed

lemma transition_retry_witness:
  "transition ''b1'' 7 In_PERSISTED ''t1'' ''Et1'' no_args 9 sample_db = (Inr sample_persisted, sample_db)"
  by (rule transition_retry [OF sample_transition_run])

theorem stale_writer_refused_witness:
  "transition ''b1'' 1 In_REVOKED ''other'' ''X'' no_args 9 (store_run [sample_move 2 In_BOUND ''t2''] sample_db)
     = (Inl (InstanceBindingError ''instance_version_conflict''),
        store_run [sample_move 2 In_BOUND ''t2''] sample_db)"
proof (rule stale_writer_refused [OF sample_transition_run])
  show "journal_for_key (store_run [Create sample_root] empty_db) ''t1'' = None" by code_simp
  show "journal_for_key (store_run [sample_move 2 In_BOUND ''t2''] sample_db) ''other'' = None"
    by code_simp
  show "serializable (requested_payload no_args)" by code_simp
qed simp

theorem replacement_atomic_witness:
  "\<exists>(p' :: instance_binding) (s' :: instance_binding) db. commit_replacement ''b1'' 5 ''b2'' 1 ''rep'' 2 ''h'' ''e'' 2
       (store_run sample_history empty_db) = (Inr (p', s'), db) \<and>
     ib_status p' = In_REPLACED \<and> ib_status s' = In_PERSISTED \<and> binding_at db ''b1'' = Some p'"
proof -
  obtain r db where run: "commit_replacement ''b1'' 5 ''b2'' 1 ''rep'' 2 ''h'' ''e'' 2
       (store_run sample_history empty_db) = (r, db)"
    by (cases "commit_replacement ''b1'' 5 ''b2'' 1 ''rep'' 2 ''h'' ''e'' 2
       (store_run sample_history empty_db)")
  have "\<not> isl (fst (commit_replacement ''b1'' 5 ''b2'' 1 ''rep'' 2 ''h'' ''e'' 2
       (store_run sample_history empty_db)))"
    by code_simp
  then obtain p' s' :: instance_binding where r: "r = Inr (p', s')" using run by (cases r) auto
  have "journal_for_key (store_run sample_history empty_db) ''rep'' = None" by code_simp
  then have "ib_status p' = In_REPLACED \<and> ib_status s' = In_PERSISTED \<and> binding_at db ''b1'' = Some p'"
    using replacement_atomic [OF run [unfolded r]] by simp
  then show ?thesis using run r
    by (intro exI [of _ p'] exI [of _ s'] exI [of _ db] conjI) simp_all
qed

end
