(* ===== verification/Instance_Safety.thy ===== *)
theory Instance_Safety
  imports Instance_Recovery Instance_Histories
begin

text \<open>
  What the service that binds instances promises: every call refines the registry's histories,
  grants no authority and keeps the identity log valid; a binding is prepared under a valid
  lease and becomes active by answering its challenge.
\<close>

section \<open>What a call of the service may do\<close>

text \<open>The service grants nothing: of a lease only the consumption and the state move.\<close>

definition same_grant :: "authority_lease \<Rightarrow> authority_lease \<Rightarrow> bool" where
  "same_grant l k \<longleftrightarrow>
     k = l\<lparr>al_uses_consumed := al_uses_consumed k, al_state := al_state k\<rparr> \<and>
     al_uses_consumed l \<le> al_uses_consumed k \<and>
     (al_state l = Lease_RELEASED \<longrightarrow> k = l)"

definition grants_kept :: "lease_manager \<Rightarrow> lease_manager \<Rightarrow> bool" where
  "grants_kept m m' \<longleftrightarrow> (lm_wf m \<longrightarrow> lm_wf m') \<and>
     (\<forall>i. rel_option same_grant (map_of (lm_leases m) i) (map_of (lm_leases m') i))"

lemma same_grant_refl: "same_grant l l"
  by (simp add: same_grant_def)

lemma same_grant_trans: "same_grant l k \<Longrightarrow> same_grant k j \<Longrightarrow> same_grant l j"
proof -
  assume lk: "same_grant l k" and kj: "same_grant k j"
  obtain n s where k: "k = l\<lparr>al_uses_consumed := n, al_state := s\<rparr>"
    using lk unfolding same_grant_def by blast
  obtain n' s' where j: "j = k\<lparr>al_uses_consumed := n', al_state := s'\<rparr>"
    using kj unfolding same_grant_def by blast
  have "al_state l = Lease_RELEASED \<Longrightarrow> j = l"
    using lk kj by (simp add: same_grant_def)
  then show "same_grant l j"
    using lk kj unfolding same_grant_def by (simp add: k j)
qed

lemma grants_kept_refl: "grants_kept m m"
  by (simp add: grants_kept_def option.rel_refl same_grant_refl)

lemma rel_option_trans:
  "rel_option same_grant x y \<Longrightarrow> rel_option same_grant y z \<Longrightarrow> rel_option same_grant x z"
  by (cases x; cases y; cases z) (auto intro: same_grant_trans)

lemma grants_kept_trans: "grants_kept m n \<Longrightarrow> grants_kept n k \<Longrightarrow> grants_kept m k"
  unfolding grants_kept_def by (meson rel_option_trans)

lemma grants_kept_update:
  assumes "map_of (lm_leases m) i = Some l" and "same_grant l k"
    and "lm_wf m \<Longrightarrow> lm_wf (m\<lparr>lm_leases := dset i k (lm_leases m), lm_usage := u\<rparr>)"
  shows "grants_kept m (m\<lparr>lm_leases := dset i k (lm_leases m), lm_usage := u\<rparr>)"
  using assms by (simp add: grants_kept_def option.rel_refl same_grant_refl)

lemma finalize_kept: "grants_kept m (snd (finalize i m))"
proof -
  have wf: "lm_wf m \<Longrightarrow> lm_wf (snd (finalize i m))"
    using finalize_change lease_change_wf by blast
  have "rel_option same_grant (map_of (lm_leases m) j) (map_of (lm_leases (snd (finalize i m))) j)" for j
    by (auto simp: finalize_def lease_simps option.rel_refl same_grant_refl same_grant_def
        split: option.splits)
  with wf show ?thesis by (simp add: grants_kept_def)
qed

lemma reserve_kept: "grants_kept m (snd (reserve_use t1 t2 e m))"
proof -
  have wf: "lm_wf m \<Longrightarrow> lm_wf (snd (reserve_use t1 t2 e m))"
    using reserve_change lease_change_wf by blast
  have "rel_option same_grant (map_of (lm_leases m) j) (map_of (lm_leases (snd (reserve_use t1 t2 e m))) j)"
    for j
    by (rule reserve_cases [of t1 t2 e m])
      (auto simp: option.rel_refl same_grant_refl same_grant_def)
  with wf show ?thesis by (simp add: grants_kept_def)
qed

text \<open>The chain of the identity log stays valid.\<close>

abbreviation log_valid :: "digest \<Rightarrow> identity_guard \<Rightarrow> bool" where
  "log_valid H g \<equiv> chain_is_valid H (ig_log g)"

lemma guard_log_valid: "keeps (log_valid H) (guard_log H t b d)"
  by (simp add: steps_def guard_log_def py_simps chain_append)

lemma set_binding_valid: "keeps (log_valid H) (set_binding r b)"
  by (simp add: steps_def set_binding_def py_simps)

lemma read_guard_valid: "keeps (log_valid H) (\<lambda>g. py_lift (f g) g)"
  by (simp add: steps_def py_lift_def)

lemmas log_valid_basic = guard_log_valid set_binding_valid read_guard_valid keep.steps_basic

lemma bind_valid: "keeps (log_valid H) (bind_active_identity H now r ocs h c)"
  unfolding bind_active_identity_def
  by (auto simp: Let_def split: option.split intro!: keep.steps_bind log_valid_basic)

lemma revalidate_valid: "keeps (log_valid H) (revalidate H r ocs tr h)"
  unfolding revalidate_def hold_and_reject_def hold_identity_def
  by (auto simp: Let_def split: option.split sum.split prod.split intro!: keep.steps_bind log_valid_basic)

lemma require_valid_valid: "keeps (log_valid H) (require_valid H r ocs tr h)"
  unfolding require_valid_def
  by (auto split: option.split bool.split intro!: keep.steps_bind log_valid_basic revalidate_valid)

lemma recover_state_valid: "keeps (log_valid H) (recover_state H r)"
  unfolding recover_state_def
  by (auto split: option.split intro!: keep.steps_bind log_valid_basic)


lemma on_guard_valid: "keeps (log_valid H) m \<Longrightarrow> keeps (\<lambda>s. log_valid H (fst s)) (on_guard m)"
  by (simp add: on_guard_def steps_def py_on_run)

lemma on_transport_valid: "keeps (\<lambda>s. log_valid H (fst s)) (on_transport m)"
  by (simp add: on_transport_def steps_def py_on_run split: prod.splits)

lemma persist_valid:
  "keeps (\<lambda>s. log_valid H (fst s)) (hazel_persist_state H t r ocs h au v p st tr)"
  unfolding hazel_persist_state_def
  by (auto intro!: keep.steps_bind keep.steps_basic on_guard_valid on_transport_valid
      require_valid_valid guard_log_valid)

lemma recover_valid:
  "keeps (\<lambda>s. log_valid H (fst s)) (hazel_recover_state H U t r ocs h au)"
  unfolding hazel_recover_state_def
  by (auto intro!: keep.steps_bind keep.steps_basic on_guard_valid on_transport_valid
      require_valid_valid guard_log_valid recover_state_valid)

definition service_order :: "digest \<Rightarrow> 'w service_state \<Rightarrow> 'w service_state \<Rightarrow> bool" where
  "service_order H s t \<longleftrightarrow> db_order (bs_db s) (bs_db t) \<and> grants_kept (bs_leases s) (bs_leases t) \<and>
     (log_valid H (bs_guard s) \<longrightarrow> log_valid H (bs_guard t))"

interpretation svc: step_order "service_order H" for H :: digest
  by unfold_locales
    (auto simp: service_order_def dbo.step_refl grants_kept_refl
      intro: dbo.step_trans grants_kept_trans)

lemma on_db_order: "steps db_order m \<Longrightarrow> steps (service_order H) (on_db m)"
  by (simp add: on_db_def steps_def py_on_run service_order_def grants_kept_refl)

lemma on_leases_order:
  "steps grants_kept m \<Longrightarrow> steps (service_order H) (on_lease_manager m)"
  by (simp add: on_lease_manager_def steps_def py_on_run service_order_def dbo.step_refl)

lemma on_identity_order:
  "keeps (log_valid H) m \<Longrightarrow> steps (service_order H) (on_identity_guard m)"
  by (simp add: on_identity_guard_def steps_def py_on_run service_order_def dbo.step_refl
      grants_kept_refl)

lemma on_continuity_order:
  "keeps (\<lambda>s. log_valid H (fst s)) m \<Longrightarrow> steps (service_order H) (on_continuity m)"
  by (simp add: on_continuity_def steps_def py_on_run service_order_def dbo.step_refl
      grants_kept_refl split: prod.splits) (metis fst_conv)

lemma read_clock_order: "steps (service_order H) read_clock"
  by (simp add: read_clock_def steps_def service_order_def dbo.step_refl grants_kept_refl)

lemma reserve_steps: "steps grants_kept (reserve_use t1 t2 e)"
  by (simp add: steps_def reserve_kept)

lemma finalize_steps: "steps grants_kept (finalize i)"
  by (simp add: steps_def finalize_kept)

text \<open>Reads.\<close>

lemma lease_for_steps: "steps grants_kept (lease_for i)"
  by (simp add: steps_def lease_for_run grants_kept_refl split: option.split)

lemma gets_leases: "steps grants_kept (py_gets f)"
  by (simp add: steps_def py_gets_run grants_kept_refl)

lemma get_binding_order: "steps db_order (get_binding i)"
  by (simp add: steps_def get_binding_def dbo.step_refl split: option.split)

lemma action_saga_order: "steps db_order (action_saga key)"
  by (simp add: steps_def action_saga_state dbo.step_refl)

lemma by_idempotency_order: "steps db_order (by_idempotency key)"
  unfolding by_idempotency_def by (rule dbo.steps_gets)

lemma latest_generation_order: "steps db_order (latest_generation g m i)"
  unfolding latest_generation_def by (rule dbo.steps_gets)

lemma envelope_order: "steps db_order (envelope_for b p l n)"
  unfolding envelope_for_def
  by (auto intro!: dbo.steps_bind dbo.steps_basic get_binding_order split: option.split)

lemma checkpoint_replay_order: "steps db_order (checkpoint_replay i key f)"
  unfolding checkpoint_replay_def
  by (auto intro!: dbo.steps_bind dbo.steps_basic get_binding_order split: option.split)

lemmas parts_order = read_clock_order on_db_order on_leases_order on_identity_order
  on_continuity_order reserve_steps finalize_steps lease_for_steps gets_leases get_binding_order
  action_saga_order by_idempotency_order latest_generation_order envelope_order
  checkpoint_replay_order create_order transition_order replacement_order begin_saga_order
  advance_saga_order persist_valid recover_valid require_valid_valid bind_valid keep.steps_gets

lemma validated_lease_order: "steps (service_order H) (validated_lease r p a)"
  unfolding validated_lease_def
  by (auto intro!: svc.steps_bind svc.steps_basic parts_order split: prod.split)

lemma reserve_action_order: "steps (service_order H) (reserve_action_lease r l b a i k)"
  unfolding reserve_action_lease_def
  by (auto intro!: svc.steps_bind svc.steps_basic parts_order split: prod.split)

lemma reserve_binding_order: "steps (service_order H) (reserve_binding_lease r l b)"
  unfolding reserve_binding_lease_def by (rule reserve_action_order)

lemma finalize_lease_order: "steps (service_order H) (finalize_lease i)"
  unfolding finalize_lease_def by (auto intro!: svc.steps_bind svc.steps_basic parts_order)

lemma reconcile_order: "steps (service_order H) (reconcile_binding_lease r l b)"
  unfolding reconcile_binding_lease_def
  by (auto intro!: svc.steps_bind svc.steps_basic parts_order reserve_binding_order finalize_lease_order)

lemma recover_binding_order:
  "bd_identity_digest d = H \<Longrightarrow> steps (service_order H) (recover_binding_state d b)"
  unfolding recover_binding_state_def by (auto intro!: parts_order)

lemma persist_binding_order:
  "bd_identity_digest d = H \<Longrightarrow> steps (service_order H) (persist_binding_state d b au v p st tr)"
  unfolding persist_binding_state_def
  by (auto intro!: svc.steps_bind svc.steps_basic parts_order split: prod.split)

lemma transition_now_order: "steps (service_order H) (transition_now i v t k e a)"
  unfolding transition_now_def by (auto intro!: svc.steps_bind parts_order)

lemma ensure_hazel_order:
  "bd_identity_digest d = H \<Longrightarrow> steps (service_order H) (ensure_hazel d b r)"
  unfolding ensure_hazel_def persist_and_read_back_def transition_to_persisted_def
  by (auto intro!: svc.steps_bind svc.steps_try svc.steps_basic recover_binding_order
      persist_binding_order transition_now_order)

lemma bound_identity_order:
  "bd_identity_digest d = H \<Longrightarrow> steps (service_order H) (bound_identity d r run)"
  unfolding bound_identity_def by (auto intro!: svc.steps_bind svc.steps_basic parts_order)

lemma prepare_order: "steps (service_order (bd_identity_digest d)) (prepare d r)"
proof -
  have again: "steps (service_order (bd_identity_digest d)) (prepare_again d r p b)" for p b
    unfolding prepare_again_def Let_def
    by (auto intro!: svc.steps_bind svc.steps_basic parts_order reconcile_order ensure_hazel_order)
  have new: "steps (service_order (bd_identity_digest d)) (prepare_new d r p)" for p
    unfolding prepare_new_def register_binding_def Let_def
    by (auto intro!: svc.steps_bind svc.steps_basic parts_order validated_lease_order
        reserve_binding_order finalize_lease_order ensure_hazel_order bound_identity_order)
  show ?thesis
    unfolding prepare_def
    by (auto intro!: svc.steps_bind svc.steps_basic parts_order again new split: option.split)
qed


lemma advance_now_order: "steps (service_order H) (advance_now k e t)"
  unfolding advance_now_def by (auto intro!: svc.steps_bind parts_order)

lemma advance_if_order: "steps (service_order H) (advance_if saga k e t)"
  unfolding advance_if_def by (auto intro: advance_now_order svc.steps_basic)

lemma begin_saga_now_order: "steps (service_order H) (begin_saga_now k i p f x)"
  unfolding begin_saga_now_def by (auto intro!: svc.steps_bind parts_order)

lemma finish_saga_order: "steps (service_order H) (finish_saga saga k l)"
  unfolding finish_saga_def
  by (auto intro!: svc.steps_bind svc.steps_basic advance_now_order finalize_lease_order)

lemmas saga_order = advance_now_order advance_if_order begin_saga_now_order finish_saga_order

lemma checkpoint_order: "steps (service_order (bd_identity_digest d)) (checkpoint d i au pid g v st k)"
proof -
  have retry: "steps (service_order H) (checkpoint_retry k au b)" for H b
    unfolding checkpoint_retry_def
    by (auto intro!: svc.steps_bind svc.steps_basic parts_order saga_order)
  have saga: "steps (service_order H) (checkpoint_saga b au p k f)" for H b p f
    unfolding checkpoint_saga_def
    by (auto intro!: svc.steps_bind svc.steps_try svc.steps_basic parts_order saga_order
        validated_lease_order reserve_action_order)
  have effect: "steps (service_order (bd_identity_digest d)) (checkpoint_effect d b x)" for b x
    unfolding checkpoint_effect_def Let_def
    by (auto intro!: svc.steps_bind svc.steps_basic recover_binding_order persist_binding_order)
  have commit: "steps (service_order H) (commit_checkpoint d b v k f x)" for H b f x
    unfolding commit_checkpoint_def Let_def
    by (auto intro!: svc.steps_bind svc.steps_basic transition_now_order)
  have new: "steps (service_order (bd_identity_digest d)) (checkpoint_new d b au v x k f)" for b x f
    unfolding checkpoint_new_def
    by (auto intro!: svc.steps_bind svc.steps_basic recover_binding_order saga effect commit
        saga_order split: prod.split)
  show ?thesis
    unfolding checkpoint_def Let_def
    by (auto intro!: svc.steps_bind svc.steps_basic parts_order retry new split: option.split)
qed

lemma replace_order:
  "steps (service_order (bd_identity_digest d)) (replace_instance d i r pid g v k)"
proof -
  let ?R = "service_order (bd_identity_digest d)"
  have retry: "steps ?R (replacement_retry d r p b k)" for p b
    unfolding replacement_retry_def
    by (auto intro!: svc.steps_bind svc.steps_try svc.steps_basic parts_order reconcile_order
        saga_order split: option.split)
  have lease: "steps ?R (replacement_lease r p b k f)" for p b f
    unfolding replacement_lease_def
    by (auto intro!: svc.steps_bind svc.steps_try svc.steps_basic parts_order validated_lease_order)
  have effect: "steps ?R (replacement_effect d b p l x)" for b p l x
    unfolding replacement_effect_def Let_def
    by (auto intro!: svc.steps_bind svc.steps_basic recover_binding_order persist_binding_order)
  have commit: "steps ?R (commit_replacement_now d p v b k x)" for p b x
    unfolding commit_replacement_now_def
    by (auto intro!: svc.steps_bind svc.steps_basic parts_order split: prod.split)
  have body: "steps ?R (replacement_body d b p l v k x saga)" for b p l x saga
    unfolding replacement_body_def
    by (auto intro!: svc.steps_bind svc.steps_basic recover_binding_order effect commit saga_order)
  have new: "steps ?R (replacement_new d r q p v k)" for p q
    unfolding replacement_new_def Let_def
    by (auto intro!: svc.steps_bind svc.steps_basic parts_order lease recover_binding_order body
        reserve_binding_order saga_order split: prod.split option.split)
  show ?thesis
    unfolding replace_instance_def
    by (auto intro!: svc.steps_bind svc.steps_basic parts_order retry new)
qed

lemma attach_order: "steps db_order (attach i w v k now)"
  unfolding attach_def by (auto intro!: dbo.steps_bind dbo.steps_basic parts_order)

lemma acknowledge_order: "steps db_order (acknowledge U a v now)"
  unfolding acknowledge_def by (auto intro!: dbo.steps_bind dbo.steps_basic parts_order)

text \<open>The cold start of an instance.\<close>

lemma query_order: "steps db_order (latest_binding g m i)" "steps db_order (require_single_active g m i)"
  by (simp_all add: steps_def latest_binding_def require_single_active_def dbo.step_refl split: list.split)

lemma saga_query_order: "steps db_order (replacement_saga_or_none i)" "steps db_order (replacement_saga i)"
  "steps db_order (check_stranded b)"
  by (auto simp: replacement_saga_or_none_def replacement_saga_def check_stranded_def
      intro!: dbo.steps_bind dbo.steps_basic dbo.steps_gets split: option.split)

lemma recover_order:
  "steps (service_order (bd_identity_digest d)) (recover_instance d g m i)"
proof -
  let ?R = "service_order (bd_identity_digest d)"
  have identity: "steps ?R (validate_local_identity d b)" for b
    unfolding validate_local_identity_def
    by (auto intro!: svc.steps_bind svc.steps_basic parts_order split: option.split)
  have fidelity: "steps ?R (validate_hazel_fidelity d b x)" for b x
    unfolding validate_hazel_fidelity_def
    by (auto intro!: svc.steps_bind svc.steps_basic parts_order split: option.split)
  have effect: "steps ?R (recovery_effect d p b)" for p b
    unfolding recovery_effect_def
    by (auto intro!: svc.steps_bind svc.steps_basic recover_binding_order persist_binding_order)
  have commit: "steps ?R (recovery_commit d p b k n x)" for p b k n x
    unfolding recovery_commit_def
    by (auto intro!: svc.steps_bind svc.steps_basic parts_order split: prod.split)
  have finish: "steps ?R (finish_recovery b k)" for b k
    unfolding finish_recovery_def
    by (auto intro!: svc.steps_bind svc.steps_basic parts_order saga_order finalize_lease_order)
  have local_commit: "steps ?R (reconcile_commit d p b k n x)" for p b k n x
    unfolding reconcile_commit_def
    by (auto intro!: svc.steps_bind svc.steps_basic parts_order commit finish)
  have after: "steps ?R (reconcile_after d p b saga)" for p b saga
    unfolding reconcile_after_def Let_def
    by (auto intro!: svc.steps_bind svc.steps_basic parts_order saga_order effect local_commit
        recover_binding_order)
  have reconcile: "steps ?R (reconcile_replacement d b)" for b
    unfolding reconcile_replacement_def
    by (auto intro!: svc.steps_bind svc.steps_basic parts_order saga_query_order after split: option.split)
  show ?thesis
    unfolding recover_instance_def
    by (auto intro!: svc.steps_bind svc.steps_basic parts_order query_order saga_query_order identity
        fidelity reconcile recover_binding_order split: prod.split)
qed

section \<open>Histories of the service\<close>

text \<open>The calls of the service, of its cold start and of the bridge, which share the registry.\<close>

datatype service_call =
    Prepare prepare_request
  | Attach string work_spawn_receipt int string pytime
  | Acknowledge bootstrap_ack int pytime
  | Checkpoint string prepare_request string int int json_dict string
  | Replace_Instance string prepare_request string int int string
  | Recover_Instance string string string

fun service_step :: "'w service \<Rightarrow> service_call \<Rightarrow> 'w service_state \<Rightarrow> 'w service_state" where
  "service_step d (Prepare r) s = snd (prepare d r s)"
| "service_step d (Attach i w v k now) s = snd (on_db (attach i w v k now) s)"
| "service_step d (Acknowledge a v now) s = snd (on_db (acknowledge (bd_digest d) a v now) s)"
| "service_step d (Checkpoint i au pid g v st k) s = snd (checkpoint d i au pid g v st k s)"
| "service_step d (Replace_Instance i r pid g v k) s = snd (replace_instance d i r pid g v k s)"
| "service_step d (Recover_Instance g m i) s = snd (recover_instance d g m i s)"

definition service_run :: "'w service \<Rightarrow> service_call list \<Rightarrow> 'w service_state \<Rightarrow> 'w service_state" where
  "service_run d calls s = fold (service_step d) calls s"

lemma steps_snd: "steps R m \<Longrightarrow> R s (snd (m s))"
  by (simp add: steps_def)

lemma service_step_order: "service_order (bd_identity_digest d) s (service_step d c s)"
  by (cases c) (simp_all add: steps_snd prepare_order checkpoint_order replace_order recover_order
      on_db_order attach_order acknowledge_order)

lemma service_run_order: "service_order (bd_identity_digest d) s (service_run d calls s)"
  unfolding service_run_def
  by (induction calls arbitrary: s)
    (auto intro: svc.step_refl svc.step_trans [OF service_step_order])

section \<open>What a preparation leaves alone\<close>

definition same_part :: "('s \<Rightarrow> 'a) \<Rightarrow> 's \<Rightarrow> 's \<Rightarrow> bool" where
  "same_part f s t \<longleftrightarrow> f t = f s"

interpretation part: step_order "same_part f" for f :: "'s \<Rightarrow> 'a"
  by unfold_locales (simp_all add: same_part_def)

lemma frame_db: "steps (same_part bs_leases) (on_db m)"
  by (simp add: on_db_def steps_def py_on_run same_part_def)

lemma frame_identity: "steps (same_part bs_leases) (on_identity_guard m)"
    "steps (same_part bs_db) (on_identity_guard m)"
  by (simp_all add: on_identity_guard_def steps_def py_on_run same_part_def)

lemma frame_continuity: "steps (same_part bs_leases) (on_continuity m)"
    "steps (same_part bs_db) (on_continuity m)"
  by (simp_all add: on_continuity_def steps_def py_on_run same_part_def split: prod.splits)

lemma frame_leases: "steps (same_part bs_db) (on_lease_manager m)"
  by (simp add: on_lease_manager_def steps_def py_on_run same_part_def)

lemma frame_clock: "steps (same_part bs_leases) read_clock" "steps (same_part bs_db) read_clock"
  by (simp_all add: read_clock_def steps_def same_part_def)

lemmas frame_parts = frame_db frame_identity frame_continuity frame_leases frame_clock

lemma bound_identity_frame:
  "steps (same_part bs_leases) (bound_identity d r run)" "steps (same_part bs_db) (bound_identity d r run)"
  unfolding bound_identity_def
  by (auto intro!: part.steps_bind part.steps_basic frame_parts)

lemma recover_frame:
  "steps (same_part bs_leases) (recover_binding_state d b)" "steps (same_part bs_db) (recover_binding_state d b)"
  unfolding recover_binding_state_def by (rule frame_parts)+

lemma persist_frame:
  "steps (same_part bs_leases) (persist_binding_state d b au v p st tr)"
  "steps (same_part bs_db) (persist_binding_state d b au v p st tr)"
  unfolding persist_binding_state_def
  by (auto intro!: part.steps_bind part.steps_basic frame_parts split: prod.split)

lemma read_back_frame:
  "steps (same_part bs_leases) (persist_and_read_back d b)" "steps (same_part bs_db) (persist_and_read_back d b)"
  unfolding persist_and_read_back_def
  by (auto intro!: part.steps_bind part.steps_basic recover_frame persist_frame)

lemma part_same: "steps (same_part f) m \<Longrightarrow> m s = (x, t) \<Longrightarrow> f t = f s"
  using stepsD [of "same_part f" m s x t] by (simp add: same_part_def)

lemma on_db_Inr: "on_db m s = (Inr x, t) \<longleftrightarrow> (\<exists>db. m (bs_db s) = (Inr x, db) \<and> t = s\<lparr>bs_db := db\<rparr>)"
  by (cases "m (bs_db s)") (auto simp: on_db_def py_on_run)

lemma on_lease_manager_Inr:
  "on_lease_manager m s = (Inr x, t) \<longleftrightarrow>
     (\<exists>l. m (bs_leases s) = (Inr x, l) \<and> t = s\<lparr>bs_leases := l\<rparr>)"
  by (cases "m (bs_leases s)") (auto simp: on_lease_manager_def py_on_run)

lemma read_clock_run: "read_clock s = (Inr (bs_clock s 0), s\<lparr>bs_clock := (\<lambda>n. bs_clock s (Suc n))\<rparr>)"
  by (simp add: read_clock_def)

lemma transition_now_Inr:
  "transition_now i v target key event a s = (Inr c, t) \<longleftrightarrow>
     (\<exists>db. transition i v target key event a (bs_clock s 0) (bs_db s) = (Inr c, db) \<and>
        t = s\<lparr>bs_clock := (\<lambda>n. bs_clock s (Suc n)), bs_db := db\<rparr>)"
  by (auto simp: transition_now_def py_bind_Inr read_clock_run on_db_Inr)

lemma transition_to_persisted_Inr:
  assumes "transition_to_persisted d b key x s = (Inr c, t)"
  obtains a :: transition_args and db where
    "transition (ib_binding_id b) (ib_version b) In_PERSISTED
      (key @ '':hazel'') ''OCS_INSTANCE_PERSISTED'' a (bs_clock s 0) (bs_db s) = (Inr c, db)"
    "ta_maturity a = None" "ta_platform_instance_id a = None" "bs_db t = db"
    "bs_leases t = bs_leases s"
proof -
  obtain ph eh where "transition_now (ib_binding_id b) (ib_version b) In_PERSISTED (key @ '':hazel'')
       ''OCS_INSTANCE_PERSISTED''
       \<lparr> ta_platform_instance_id = None,
         ta_checkpoint_version = Some 1,
         ta_checkpoint_hash = Some (str_of (bd_str d) ph),
         ta_hazel_event_hash = Some (str_of (bd_str d) eh),
         ta_maturity = None,
         ta_payload = [(''event_hash'', eh), (''payload_hash'', ph)] \<rparr> s = (Inr c, t)"
    using assms by (auto simp: transition_to_persisted_def py_bind_Inr py_lift_def)
  then show thesis
    unfolding transition_now_Inr by (elim exE conjE) (rule that, assumption, simp_all)
qed

text \<open>The last step of a preparation.\<close>

lemma ensure_hazel_Inr:
  assumes ok: "store_ok (bs_db s)" and b: "binding_at (bs_db s) (ib_binding_id b) = Some b"
    and run: "ensure_hazel d b r s = (Inr c, t)"
  shows "binding_at (bs_db t) (ib_binding_id b) = Some c \<and> bs_leases t = bs_leases s \<and>
    became b c \<and> ib_maturity c = ib_maturity b \<and>
    ib_platform_instance_id c = ib_platform_instance_id b"
proof -
  let ?read = "py_try (py_bind (recover_binding_state d b) (\<lambda>recovered.
                if \<not> py_eq (dict_get recovered ''payload'') (PyDict (prepared_state b)) then
                  py_raise (InstanceBindingError ''hazel_prepare_recovery_conflict'')
                else py_return recovered))
         (\<lambda>e. if is_continuity_error e then persist_and_read_back d b else py_raise e)
         py_return"
  have frame: "steps (same_part bs_leases) ?read" "steps (same_part bs_db) ?read"
    by (auto intro!: part.steps_bind part.steps_try part.steps_basic recover_frame read_back_frame)
  from run obtain x u where read: "?read s = (Inr x, u)"
    and rest: "transition_to_persisted d b (pq_idempotency_key r) x u = (Inr c, t)"
    by (auto simp: ensure_hazel_def py_bind_Inr [of ?read] py_raise_run split: if_splits)
  have u: "bs_leases u = bs_leases s" "bs_db u = bs_db s"
    using part_same [OF frame(1) read] part_same [OF frame(2) read] by simp_all
  obtain a :: transition_args and db where
    tr: "transition (ib_binding_id b) (ib_version b) In_PERSISTED (pq_idempotency_key r @ '':hazel'')
       ''OCS_INSTANCE_PERSISTED'' a (bs_clock u 0) (bs_db u) = (Inr c, db)"
    and a: "ta_maturity a = None" "ta_platform_instance_id a = None"
    and t: "bs_db t = db" "bs_leases t = bs_leases u"
    by (rule transition_to_persisted_Inr [OF rest])
  have ok': "store_ok (bs_db u)" using ok u by simp
  have "became b c \<and> ib_maturity c = ib_maturity b \<and>
    ib_platform_instance_id c = ib_platform_instance_id b"
    using ok' tr
  proof (cases rule: transition_Inr)
    case (replay j)
    then show ?thesis using b u by (simp add: became_refl)
  next
    case (step b' j)
    have b': "b' = b" using step(2) b u by simp
    have c: "c = apply_transition (bs_clock u 0) In_PERSISTED a b" using step(5) b' by simp
    have "same_identity b c" unfolding c by (rule same_identity_transition)
    moreover have "ib_version c = ib_version b + 1" "\<not> terminal (ib_status b)"
      using step(4) by (auto simp: c b' apply_transition_def terminal_def)
    moreover have "ib_maturity c = ib_maturity b" "ib_platform_instance_id c = ib_platform_instance_id b"
      using a by (simp_all add: c apply_transition_def or_else_def or_keep_def)
    ultimately show ?thesis by (simp add: became_def)
  qed
  then show ?thesis using transition_at [OF ok' tr] t u by simp
qed

section \<open>A new preparation\<close>

text \<open>A lease that covers a request of its mission at a time.\<close>

definition covers :: "prepare_request \<Rightarrow> ocs_profile \<Rightarrow> string \<Rightarrow> pytime \<Rightarrow> authority_lease \<Rightarrow> bool" where
  "covers r p action now l \<longleftrightarrow>
     \<not> al_revoked l \<and> al_state l \<noteq> Lease_RELEASED \<and>
     al_not_before l \<le> now \<and> now < al_expires_at l \<and>
     al_ocs l = pq_ocs_id r \<and> al_capability l = pq_capability r \<and> al_actor l = pq_actor r \<and>
     al_context_ref l = pq_context_ref r \<and> al_policy_snapshot l = pq_policy_snapshot r \<and>
     al_trace_ref l = pq_trace_ref r \<and> al_tenant l = pq_organization_id r \<and>
     al_object_ref_or_selector l = pq_mission_id r \<and> al_action_binding l = action \<and>
     set (pq_scope r) \<subseteq> set (al_scope l) \<and>
     al_authority_ref l = op_authority_envelope_ref p \<and> pq_host r = ''ChatGPT Work''"

lemma lease_checks_Inr:
  "lease_checks r p action l = Inr () \<longleftrightarrow>
     al_actor l = pq_actor r \<and> al_context_ref l = pq_context_ref r \<and>
     al_policy_snapshot l = pq_policy_snapshot r \<and> al_trace_ref l = pq_trace_ref r \<and>
     al_tenant l = pq_organization_id r \<and> al_object_ref_or_selector l = pq_mission_id r \<and>
     al_action_binding l = action \<and> set (pq_scope r) \<subseteq> set (al_scope l) \<and>
     al_authority_ref l = op_authority_envelope_ref p \<and> pq_host r = ''ChatGPT Work''"
  by (simp add: lease_checks_def)

lemma validated_lease_Inr:
  "validated_lease r p action s = (Inr l, t) \<longleftrightarrow>
     map_of (lm_leases (bs_leases s)) (pq_lease_id r) = Some l \<and>
     covers r p action (bs_clock s 0) l \<and> t = s\<lparr>bs_clock := (\<lambda>n. bs_clock s (Suc n))\<rparr>"
proof -
  obtain valid reason where v: "validate_basic (bs_clock s 0) (Some (pq_lease_id r)) (pq_ocs_id r)
      (pq_capability r) (bs_leases s) = (valid, reason)"
    by fastforce
  show ?thesis
  proof (cases valid)
    case True
    from v obtain k :: authority_lease
      where k: "map_of (lm_leases (bs_leases s)) (pq_lease_id r) = Some k" "\<not> al_revoked k"
        "al_state k \<noteq> Lease_RELEASED" "al_not_before k \<le> bs_clock s 0"
        "bs_clock s 0 < al_expires_at k" "al_ocs k = pq_ocs_id r" "al_capability k = pq_capability r"
      using validate_basic_True [of "bs_clock s 0" "pq_lease_id r" "pq_ocs_id r" "pq_capability r"
          "bs_leases s" reason] True by auto
    show ?thesis
      using True v k
      by (auto simp: validated_lease_def py_bind_Inr read_clock_run on_lease_manager_Inr py_gets_run
          lease_for_run py_lift_def py_return_run lease_checks_Inr covers_def)
  next
    case False
    then have "\<not> covers r p action (bs_clock s 0) l"
      if "map_of (lm_leases (bs_leases s)) (pq_lease_id r) = Some l"
      using v that validate_basic_True [of "bs_clock s 0" "pq_lease_id r" "pq_ocs_id r"
          "pq_capability r" "bs_leases s" "''lease_valid''"]
      by (auto simp: covers_def)
    then show ?thesis
      using False v
      by (auto simp: validated_lease_def py_bind_Inr read_clock_run on_lease_manager_Inr py_gets_run
          py_raise_run)
  qed
qed

lemma reserve_use_recorded:
  assumes "reserve_use t1 t2 e m = (Inr (True, reason, n), m')"
  shows "\<exists>u k. n = Some k \<and> map_of (lm_usage m') (ae_lease_id e) = Some u \<and>
    map_of u (ae_idempotency_key e) = Some (ae_action_id e, k)"
  using assms by (cases rule: reserve_cases [of t1 t2 e m]) auto

lemma reserve_action_lease_Inr:
  assumes "reserve_action_lease r l b action i key s = (Inr (), t)"
  shows "bs_db t = bs_db s \<and> (\<exists>u n. map_of (lm_usage (bs_leases t)) (al_lease_id l) = Some u \<and>
    map_of u key = Some (i, n))"
proof -
  from assms obtain p reason n m where
    m: "reserve_use (bs_clock s 0) (bs_clock s 1) (action_envelope_for r p l b action i key)
      (bs_leases s) = (Inr (True, reason, n), m)"
    and t: "bs_leases t = m" "bs_db t = bs_db s"
    by (auto simp: reserve_action_lease_def py_bind_Inr py_lift_def read_clock_run
        on_lease_manager_Inr py_raise_run py_return_run split: if_splits prod.splits)
  from reserve_use_recorded [OF m] t show ?thesis
    by (auto simp: action_envelope_for_def)
qed

lemma finalize_usage: "finalize i m = (x, m') \<Longrightarrow> lm_usage m' = lm_usage m"
  by (auto simp: finalize_def lease_simps split: if_splits option.splits)

lemma finalize_lease_Inr:
  "finalize_lease i s = (Inr (), t) \<Longrightarrow>
     bs_db t = bs_db s \<and> lm_usage (bs_leases t) = lm_usage (bs_leases s)"
  using finalize_usage by (auto simp: finalize_lease_def py_bind_Inr on_lease_manager_Inr py_return_run)

lemma envelope_for_prepared:
  "ib_status b = In_PREPARED \<Longrightarrow> on_db (envelope_for b p l n) s =
     (Inr (envelope_with b p l n (ib_checkpoint_version b) (ib_checkpoint_hash b)), s)"
  by (simp add: on_db_def py_on_run envelope_for_def py_return_run)

lemma envelope_bootstrap:
  "envelope_with (b\<lparr>ib_bootstrap_hash := h\<rparr>) p l n v c = envelope_with b p l n v c"
  by (simp add: envelope_with_def)

text \<open>What a preparation of a new key leaves behind.\<close>

definition prepared_under ::
    "digest \<Rightarrow> prepare_request \<Rightarrow> ocs_profile \<Rightarrow> authority_lease \<Rightarrow> instance_binding
       \<Rightarrow> bootstrap_envelope \<Rightarrow> bool" where
  "prepared_under U r p l b e \<longleftrightarrow>
     ib_idempotency_key b = pq_idempotency_key r \<and> ib_request_hash b = request_hash_of U r \<and>
     ib_lease_id b = pq_lease_id r \<and> ib_scope b = pq_scope r \<and>
     ib_authority_ref b = op_authority_envelope_ref p \<and> ib_profile_hash b = profile_hash U p \<and>
     ib_maturity b = PREPARED_UNVERIFIED \<and> ib_platform_instance_id b = None \<and>
     ib_predecessor_binding_id b = None \<and>
     ib_bootstrap_hash b = envelope_digest U e \<and>
     ib_challenge_hash b = challenge_of U (be_challenge_nonce e) \<and>
     be_binding_id e = ib_binding_id b \<and> be_authority_ref e = ib_authority_ref b \<and>
     be_expires_at e = al_expires_at l \<and>
     \<not> be_execution_authority_granted e \<and> be_per_action_lease_required e"

lemma prepared_under_became:
  assumes "prepared_under U r p l b e" and "became b c"
    and "ib_maturity c = ib_maturity b" and "ib_platform_instance_id c = ib_platform_instance_id b"
  shows "prepared_under U r p l c e \<and> ib_binding_id c = ib_binding_id b"
proof -
  obtain s v q cv ch m h u where "c = b\<lparr>ib_status := s, ib_version := v,
     ib_platform_instance_id := q, ib_checkpoint_version := cv, ib_checkpoint_hash := ch,
     ib_maturity := m, ib_hazel_event_hash := h, ib_updated_at := u\<rparr>"
    using assms(2) unfolding became_def same_identity_def by blast
  then show ?thesis using assms(1,3,4) by (simp add: prepared_under_def)
qed


lemma register_binding_result:
  assumes ok: "store_ok (bs_db s)" and run: "register_binding d r p l b0 s = (Inr (c, e), t)"
    and prep: "ib_status b0 = In_PREPARED"
    and new: "binding_for_key (bs_db s) (ib_idempotency_key b0) = None"
  shows "e = envelope_with b0 p l (nonce_of d (ib_request_hash b0)) (ib_checkpoint_version b0)
           (ib_checkpoint_hash b0) \<and>
    became (b0\<lparr>ib_bootstrap_hash := envelope_digest (bd_digest d) e\<rparr>) c \<and>
    ib_maturity c = ib_maturity b0 \<and> ib_platform_instance_id c = ib_platform_instance_id b0 \<and>
    binding_at (bs_db t) (ib_binding_id b0) = Some c \<and>
    (\<exists>u n. map_of (lm_usage (bs_leases t)) (al_lease_id l) = Some u \<and>
       map_of u (pq_idempotency_key r) = Some (''bind:'' @ ib_binding_id b0, n))"
proof -
  let ?e = "envelope_with b0 p l (nonce_of d (ib_request_hash b0)) (ib_checkpoint_version b0)
           (ib_checkpoint_hash b0)"
  let ?b = "b0\<lparr>ib_bootstrap_hash := envelope_digest (bd_digest d) ?e\<rparr>"
  have prep': "ib_status ?b = In_PREPARED" using prep by simp
  have env: "on_db (envelope_for b0 p l (nonce_of d (ib_request_hash b0))) s = (Inr ?e, s)"
      "on_db (envelope_for ?b p l (nonce_of d (ib_request_hash b0))) s = (Inr ?e, s)"
    using envelope_for_prepared [OF prep] envelope_for_prepared [OF prep']
    by (simp_all add: envelope_bootstrap)
  from run obtain s1 c0 s2 s3 where e: "e = ?e"
    and res: "reserve_binding_lease r l ?b s = (Inr (), s1)"
    and cre: "on_db (create_binding ?b) s1 = (Inr c0, s2)"
    and fin: "finalize_lease (al_lease_id l) s2 = (Inr (), s3)"
    and ens: "ensure_hazel d c0 r s3 = (Inr c, t)"
    unfolding register_binding_def Let_def
    by (auto simp: py_bind_Inr env py_return_run)
  note res' = reserve_action_lease_Inr [OF res [unfolded reserve_binding_lease_def]]
  from cre obtain db where cre': "create_binding ?b (bs_db s1) = (Inr c0, db)"
    and s2: "s2 = s1\<lparr>bs_db := db\<rparr>"
    unfolding on_db_Inr by blast
  have ok1: "store_ok (bs_db s1)" using ok res' by simp
  have ok2: "store_ok db"
    using create_step [OF cre'] ok1 by (auto dest: db_step_ok)
  have c0: "c0 = ?b \<and> binding_at db (ib_binding_id ?b) = Some ?b"
    using cre'
  proof (cases rule: create_Inr)
    case replay
    then show ?thesis using new res' by simp
  next
    case (new j)
    have "?b \<in> set (db_bindings db)" using new(10) by simp
    moreover have "distinct (map ib_binding_id (db_bindings db))" using store_ok_ids [OF ok2] .
    ultimately show ?thesis using new(4) binding_at_mem by blast
  qed
  note fin' = finalize_lease_Inr [OF fin]
  have at3: "binding_at (bs_db s3) (ib_binding_id c0) = Some c0"
    using c0 fin' s2 by simp
  have ok3: "store_ok (bs_db s3)" using ok2 fin' s2 by simp
  note last = ensure_hazel_Inr [OF ok3 at3 ens]
  show ?thesis
    using e last c0 res' fin' s2 by auto
qed

lemma prepare_new_result:
  assumes wf: "lm_wf (bs_leases s)" and ok: "store_ok (bs_db s)"
    and new: "binding_for_key (bs_db s) (pq_idempotency_key r) = None"
    and run: "prepare_new d r p s = (Inr (b, e), t)"
  shows "\<exists>(l :: authority_lease) u n. map_of (lm_leases (bs_leases s)) (pq_lease_id r) = Some l \<and>
    covers r p ''ocs_instance_binding'' (bs_clock s 0) l \<and>
    prepared_under (bd_digest d) r p l b e \<and>
    binding_at (bs_db t) (ib_binding_id b) = Some b \<and>
    map_of (lm_usage (bs_leases t)) (pq_lease_id r) = Some u \<and>
    map_of u (pq_idempotency_key r) = Some (''bind:'' @ ib_binding_id b, n)"
proof -
  from run obtain l s1 run_id active s2 latest s3 now s4
    where lease: "validated_lease r p ''ocs_instance_binding'' s = (Inr l, s1)"
    and ident: "bound_identity d r run_id s1 = (Inr active, s2)"
    and lat: "on_db (latest_generation (pq_organization_id r) (pq_mission_id r) (pq_ocs_id r)) s2
       = (Inr latest, s3)"
    and now: "read_clock s3 = (Inr now, s4)"
    and reg: "register_binding d r p l
       (provisional_binding d r p l run_id active (latest + 1) now) s4 = (Inr (b, e), t)"
    unfolding prepare_new_def by (auto simp: py_bind_Inr py_lift_def)
  note l = lease [unfolded validated_lease_Inr]
  have id: "al_lease_id l = pq_lease_id r" using wf l by (auto simp: lm_wf_def)
  have db: "bs_db s4 = bs_db s"
    using part_same [OF bound_identity_frame(2) ident] l lat now
    by (auto simp: on_db_Inr read_clock_run latest_generation_def py_gets_run)
  let ?b0 = "provisional_binding d r p l run_id active (latest + 1) now"
  have prep: "ib_status ?b0 = In_PREPARED" by (simp add: provisional_binding_def Let_def)
  have new': "binding_for_key (bs_db s4) (ib_idempotency_key ?b0) = None"
    using new db by (simp add: provisional_binding_def Let_def)
  have ok4: "store_ok (bs_db s4)" using ok db by simp
  note res = register_binding_result [OF ok4 reg prep new']
  have auth: "al_authority_ref l = op_authority_envelope_ref p" using l by (simp add: covers_def)
  let ?b1 = "?b0\<lparr>ib_bootstrap_hash := envelope_digest (bd_digest d) e\<rparr>"
  have under: "prepared_under (bd_digest d) r p l ?b1 e"
    using res auth by (simp add: prepared_under_def provisional_binding_def envelope_with_def Let_def)
  have "became ?b1 b" using res by blast
  moreover have "ib_maturity b = ib_maturity ?b1"
      "ib_platform_instance_id b = ib_platform_instance_id ?b1"
    using res by simp_all
  ultimately have "prepared_under (bd_digest d) r p l b e \<and> ib_binding_id b = ib_binding_id ?b1"
    by (rule prepared_under_became [OF under])
  moreover have "ib_binding_id ?b1 = ib_binding_id ?b0" by simp
  ultimately have b: "prepared_under (bd_digest d) r p l b e" "ib_binding_id b = ib_binding_id ?b0"
    by simp_all
  obtain u n where u: "map_of (lm_usage (bs_leases t)) (al_lease_id l) = Some u"
    "map_of u (pq_idempotency_key r) = Some (''bind:'' @ ib_binding_id ?b0, n)"
    using res by blast
  have "binding_at (bs_db t) (ib_binding_id ?b0) = Some b" using res by blast
  then show ?thesis
    using l u b by (intro exI [of _ l] exI [of _ u] exI [of _ n] conjI) (simp_all add: id)
qed

section \<open>The bridge\<close>

lemma acknowledge_result:
  assumes ok: "store_ok db" and run: "acknowledge U a v now db = (Inr b, db')"
  shows "\<exists>(b0 :: instance_binding). binding_at db (ba_binding_id a) = Some b0 \<and> check_ack U b0 a = Inr () \<and>
    binding_at db' (ba_binding_id a) = Some b \<and>
    (journal_for_key db (ba_idempotency_key a) = None \<longrightarrow>
      ib_status b = In_ACTIVE \<and> ib_maturity b = OPERATIONALLY_BOUND_L1)"
proof -
  let ?args = "\<lparr> ta_platform_instance_id = None, ta_checkpoint_version = None,
         ta_checkpoint_hash = None, ta_hazel_event_hash = None,
         ta_maturity = Some OPERATIONALLY_BOUND_L1,
         ta_payload = [(''generation'', PyInt (ba_generation a)),
                       (''bootstrap_hash'', PyStr (ba_bootstrap_hash a))] \<rparr>"
  from run obtain b0 where b0: "binding_at db (ba_binding_id a) = Some b0" "check_ack U b0 a = Inr ()"
    and tr: "transition (ba_binding_id a) v In_ACTIVE (ba_idempotency_key a)
       ''OCS_BOOTSTRAP_ACKNOWLEDGED'' ?args now db = (Inr b, db')"
    by (auto simp: acknowledge_def py_bind_Inr py_lift_def get_binding_def split: option.splits)
  have "journal_for_key db (ba_idempotency_key a) = None \<longrightarrow>
      ib_status b = In_ACTIVE \<and> ib_maturity b = OPERATIONALLY_BOUND_L1"
    using ok tr
  proof (cases rule: transition_Inr)
    case (step b1 j)
    then show ?thesis by (simp add: apply_transition_def or_else_def)
  qed simp
  then show ?thesis using b0 transition_at [OF ok tr] by (intro exI [of _ b0] conjI) simp_all
qed

lemma py_bind_Inl:
  "py_bind m k s = (Inl e, t) \<longleftrightarrow> m s = (Inl e, t) \<or> (\<exists>x u. m s = (Inr x, u) \<and> k x u = (Inl e, t))"
  by (auto simp: py_bind_run split: prod.splits sum.splits)

lemma get_binding_state: "get_binding i db = (x, db') \<Longrightarrow> db' = db"
  by (auto simp: get_binding_def split: option.splits)

lemma attach_Inl:
  assumes "attach i w v k now db = (Inl e, db')"
  shows "db' = db"
proof (cases "get_binding i db")
  case (Pair x db1)
  then show ?thesis
    using assms get_binding_state [OF Pair] transition_Inl
    by (cases x) (auto simp: attach_def py_bind_run py_raise_run split: if_splits)
qed

lemma acknowledge_Inl:
  assumes "acknowledge U a v now db = (Inl e, db')"
  shows "db' = db"
proof (cases "get_binding (ba_binding_id a) db")
  case (Pair x db1)
  show ?thesis
  proof (cases x)
    case (Inl e')
    then show ?thesis using assms Pair get_binding_state [OF Pair] by (simp add: acknowledge_def py_bind_run)
  next
    case (Inr b)
    then show ?thesis
      using assms Pair get_binding_state [OF Pair] transition_Inl
      by (cases "check_ack U b a") (auto simp: acknowledge_def py_bind_run py_lift_def)
  qed
qed

text \<open>
  A second acknowledgement is refused: the registry would replay it, but the bridge insists on
  the status the first one left.
\<close>

lemma acknowledge_not_replayed:
  assumes "binding_at db (ba_binding_id a) = Some b" and "ib_status b \<noteq> In_BOUND"
  shows "acknowledge U a v now db =
    (Inl (InstanceBindingError ''instance_must_be_bound_before_ack''), db)"
  using assms by (simp add: acknowledge_def get_binding_def py_simps py_lift_def check_ack_def)

section \<open>Fencing\<close>

lemma checkpoint_guard:
  assumes "binding_at (bs_db s) i = Some b"
    and "ib_status b \<notin> {In_ACTIVE, In_CHECKPOINTED} \<or>
      ib_platform_instance_id b \<noteq> Some pid \<or> ib_generation b \<noteq> g"
  shows "\<exists>m. checkpoint d i au pid g v st key s = (Inl (InstanceBindingError m), s)"
  using assms
  by (auto simp: checkpoint_def on_db_def py_on_run get_binding_def py_simps py_lift_def
      require_physical_worker_def)

lemma replace_guard:
  assumes "binding_at (bs_db s) i = Some b" and "ib_status b \<noteq> In_REPLACED"
    and "ib_status b \<noteq> In_CHECKPOINTED \<or>
      ib_platform_instance_id b \<noteq> Some pid \<or> ib_generation b \<noteq> g"
  shows "\<exists>e. replace_instance d i r pid g v key s = (Inl e, s)"
  using assms
  by (cases "validate_request r")
    (auto simp: replace_instance_def on_db_def py_on_run get_binding_def by_idempotency_def py_simps
      py_lift_def require_physical_worker_def check_replacement_request_def)

section \<open>Maturity\<close>

text \<open>
  A successor starts with the maturity of its predecessor: it declares itself operationally
  bound before it answered a challenge of its own.
\<close>

lemma successor_inherits_maturity:
  "ib_maturity (successor_binding d r l now previous) = ib_maturity previous"
  "ib_status (successor_binding d r l now previous) = In_PREPARED"
  by (simp_all add: successor_binding_def Let_def)

text \<open>
  The envelope states the maturity, so the digest of an acknowledged first generation is no
  longer the one its bootstrap was given: repeating the request that prepared it fails, or
  exhibits a collision.
\<close>

lemma unsigned_payload_maturity:
  "json_tree (unsigned_payload e) = json_tree (unsigned_payload e') \<Longrightarrow> be_maturity e = be_maturity e'"
proof -
  assume eq: "json_tree (unsigned_payload e) = json_tree (unsigned_payload e')"
  have "py_get (json_tree (unsigned_payload x)) ''maturity'' = Some (PyStr (maturity_value (be_maturity x)))"
    for x
    unfolding unsigned_payload_def by (subst py_get_json_tree) simp_all
  with eq have "PyStr (maturity_value (be_maturity e)) = PyStr (maturity_value (be_maturity e'))"
    by (metis option.inject)
  then show ?thesis by simp
qed

lemma acknowledged_envelope_differs:
  assumes "be_maturity e \<noteq> be_maturity e'" and "envelope_digest U e = envelope_digest U e'"
  shows "collision U (json_tree (unsigned_payload e)) (json_tree (unsigned_payload e'))"
  using assms unsigned_payload_maturity [of e e']
  by (auto simp: envelope_digest_def canonical_hash_def collision_def)

section \<open>Properties\<close>

text \<open>
  Whatever calls reach the service, its recovery and the bridge, the registry's invariant, the lease
  manager's and the chain of the identity log stay intact, and what happens to the instances is
  a run of the abstract life cycle.
\<close>

lemma service_histories_sound:
  assumes "store_ok (bs_db s)" and "lm_wf (bs_leases s)"
    and "chain_is_valid (bd_identity_digest d) (ig_log (bs_guard s))"
  shows "store_ok (bs_db (service_run d calls s)) \<and> lm_wf (bs_leases (service_run d calls s)) \<and>
    chain_is_valid (bd_identity_digest d) (ig_log (bs_guard (service_run d calls s))) \<and>
    life_step\<^sup>*\<^sup>* (life_of (bs_db s)) (life_of (bs_db (service_run d calls s)))"
proof -
  have steps: "db_step\<^sup>*\<^sup>* (bs_db s) (bs_db (service_run d calls s))"
    using service_run_order [of d s calls] assms(1) by (simp add: service_order_def db_order_def)
  then show ?thesis
    using service_run_order [of d s calls] assms db_steps_ok [OF steps] db_steps_life [OF steps]
    by (simp add: service_order_def grants_kept_def)
qed

text \<open>
  The service grants nothing: along any calls no lease appears, disappears or changes its
  terms; only its consumption rises and its state moves, and a released lease stays as it is.
\<close>

lemma service_grants_nothing:
  "rel_option same_grant (map_of (lm_leases (bs_leases s)) i)
     (map_of (lm_leases (bs_leases (service_run d calls s))) i)"
  using service_run_order [of d s calls] by (simp add: service_order_def grants_kept_def)

text \<open>
  A new instance is prepared only under a valid lease of its mission that names the
  profile's authority; the lease's use is recorded for the request, the binding is stored
  unverified with the digest of the envelope handed out, and the envelope grants no authority to
  act.
\<close>

lemma prepared_under_lease:
  assumes "lm_wf (bs_leases s)" and "store_ok (bs_db s)"
    and "binding_for_key (bs_db s) (pq_idempotency_key r) = None"
    and "prepare d r s = (Inr (b, e), t)"
  shows "\<exists>p l u n. map_of PROFILES (pq_ocs_id r) = Some p \<and>
    map_of (lm_leases (bs_leases s)) (pq_lease_id r) = Some l \<and>
    covers r p ''ocs_instance_binding'' (bs_clock s 0) l \<and>
    prepared_under (bd_digest d) r p l b e \<and>
    binding_at (bs_db t) (ib_binding_id b) = Some b \<and>
    map_of (lm_usage (bs_leases t)) (pq_lease_id r) = Some u \<and>
    map_of u (pq_idempotency_key r) = Some (''bind:'' @ ib_binding_id b, n)"
proof -
  from assms(3,4) obtain p where p: "map_of PROFILES (pq_ocs_id r) = Some p"
    and new: "prepare_new d r p s = (Inr (b, e), t)"
    by (auto simp: prepare_def py_bind_Inr py_lift_def py_raise_run on_db_Inr by_idempotency_def
        py_gets_run split: option.splits)
  show ?thesis
    using p prepare_new_result [OF assms(1,2,3) new] by blast
qed

text \<open>
  An acknowledgement makes an instance active only when the bound instance, its generation
  and its hashes are the ones it names and it answers the challenge: a nonce the challenge was
  built from, or a collision. What is refused changes nothing.
\<close>

lemma challenge_gates_activity:
  assumes "acknowledge U a v now db0 = (r, db)" and "store_ok db0"
    and "journal_for_key db0 (ba_idempotency_key a) = None"
  shows "case r of Inl e \<Rightarrow> db = db0
    | Inr b \<Rightarrow> ib_status b = In_ACTIVE \<and> ib_maturity b = OPERATIONALLY_BOUND_L1 \<and>
        binding_at db (ba_binding_id a) = Some b \<and>
        (\<exists>b0. binding_at db0 (ba_binding_id a) = Some b0 \<and>
           ib_status b0 = In_BOUND \<and>
           ib_platform_instance_id b0 = Some (ba_platform_instance_id a) \<and>
           ib_generation b0 = ba_generation a \<and> ib_bootstrap_hash b0 = ba_bootstrap_hash a \<and>
           ib_identity_binding_hash b0 = ba_identity_binding_hash a \<and>
           (\<forall>n. ib_challenge_hash b0 = challenge_of U n \<longrightarrow> ba_challenge_nonce a = n \<or>
              collision U (PyDict [(''nonce'', PyStr (ba_challenge_nonce a))])
                (PyDict [(''nonce'', PyStr n)])))"
proof (cases r)
  case (Inl e)
  then show ?thesis using acknowledge_Inl assms(1) by simp
next
  case (Inr b)
  then obtain b0 :: instance_binding
    where b0: "binding_at db0 (ba_binding_id a) = Some b0"
    "check_ack U b0 a = Inr ()" and b: "binding_at db (ba_binding_id a) = Some b"
    "ib_status b = In_ACTIVE" "ib_maturity b = OPERATIONALLY_BOUND_L1"
    using acknowledge_result [OF assms(2), of U a v now b db] assms by auto
  have checks: "ib_status b0 = In_BOUND"
    "ib_platform_instance_id b0 = Some (ba_platform_instance_id a)"
    "ib_generation b0 = ba_generation a" "ib_bootstrap_hash b0 = ba_bootstrap_hash a"
    "ib_identity_binding_hash b0 = ba_identity_binding_hash a"
    "ib_challenge_hash b0 = canonical_hash U (PyDict [(''nonce'', PyStr (ba_challenge_nonce a))])"
    using b0(2) by (auto simp: check_ack_def split: if_splits)
  have "ba_challenge_nonce a = n \<or> collision U (PyDict [(''nonce'', PyStr (ba_challenge_nonce a))])
                (PyDict [(''nonce'', PyStr n)])" if "ib_challenge_hash b0 = challenge_of U n" for n
    using that checks(6)
      digest_eq_or_collision [of U "PyDict [(''nonce'', PyStr (ba_challenge_nonce a))]"
        "PyDict [(''nonce'', PyStr n)]"]
    by (simp add: challenge_of_def canonical_hash_def)
  then show ?thesis using Inr b b0(1) checks by auto
qed

text \<open>
  Fencing: a checkpoint asked for by another physical instance or another generation, or of
  an instance that is not at work, and a replacement asked for by either or without a
  checkpoint, is an error that changes nothing at all.
\<close>

lemma outdated_worker_fenced:
  assumes "binding_at (bs_db s) i = Some b"
    and "ib_platform_instance_id b \<noteq> Some pid \<or> ib_generation b \<noteq> g \<or>
      ib_status b \<in> {In_PREPARED, In_PERSISTED, In_BOUND, In_CLOSED, In_REVOKED, In_HOLD}"
    and "ib_status b \<noteq> In_REPLACED"
  shows "(\<exists>e. checkpoint d i au pid g v st key s = (Inl e, s)) \<and>
    (\<exists>e. replace_instance d i r pid g v key s = (Inl e, s))"
  using checkpoint_guard [OF assms(1), of pid g d au v st key] assms(2)
    replace_guard [OF assms(1,3), of pid g d r v key] by auto


end
