(* ===== verification/Recovery_Safety.thy ===== *)
theory Recovery_Safety
  imports Instance_Safety
begin

text \<open>
  What the cold start of an instance promises, and the one lineage it refuses: a successor that
  has been checkpointed.
\<close>

lemma py_bind_InrE:
  assumes "py_bind m f s = (Inr y, t)"
  obtains x u where "m s = (Inr x, u)" "f x u = (Inr y, t)"
  using assms by (auto simp: py_bind_Inr)

section \<open>What a recovery reports\<close>

text \<open>Recovering reads the registry and the leases only through the identity guard and the transport.\<close>

lemma latest_binding_Inr:
  assumes "latest_binding g m i db = (Inr b, db')" and "store_ok db"
  shows "db' = db \<and> binding_at db (ib_binding_id b) = Some b \<and> ib_organization_id b = g \<and>
    ib_mission_id b = m \<and> ib_ocs_id b = i"
proof -
  let ?rows = "filter (\<lambda>b. ib_organization_id b = g \<and> ib_mission_id b = m \<and> ib_ocs_id b = i) (db_bindings db)"
  obtain rest where s: "sort_key (\<lambda>b. - ib_generation b) ?rows = b # rest" and db: "db' = db"
    using assms(1) by (auto simp: latest_binding_def Let_def split: list.splits)
  have "b \<in> set (sort_key (\<lambda>b. - ib_generation b) ?rows)" unfolding s by simp
  then have "b \<in> set ?rows" by simp
  then have "b \<in> set (db_bindings db)" "ib_organization_id b = g" "ib_mission_id b = m" "ib_ocs_id b = i"
    by simp_all
  then show ?thesis using db binding_at_mem assms(2) store_ok_ids by simp
qed

text \<open>Of the generations of a lineage the latest is answered, and no other row has it.\<close>

lemma latest_binding_newest:
  assumes "latest_binding g m i db = (Inr b, db')" and "store_ok db"
    and "x \<in> set (db_bindings db)" and "ib_organization_id x = g" "ib_mission_id x = m" "ib_ocs_id x = i"
  shows "x = b \<or> ib_generation x < ib_generation b"
proof -
  let ?rows = "filter (\<lambda>b. ib_organization_id b = g \<and> ib_mission_id b = m \<and> ib_ocs_id b = i) (db_bindings db)"
  obtain rest where s: "sort_key (\<lambda>b. - ib_generation b) ?rows = b # rest"
    using assms(1) by (auto simp: latest_binding_def Let_def split: list.splits)
  have "sorted (map (\<lambda>b. - ib_generation b) (b # rest))" unfolding s [symmetric] by simp
  moreover have "set (b # rest) = set ?rows" unfolding s [symmetric] by simp
  ultimately have le: "ib_generation x \<le> ib_generation b" and b: "b \<in> set ?rows"
    using assms(3-6) by auto
  have "inj_on generation_key (set (db_bindings db))"
    using assms(2) by (simp add: store_ok_def unique_rows_def)
  then have "x = b" if "ib_generation x = ib_generation b"
    using that b assms(3-6) by (intro inj_onD [of generation_key]) (auto simp: generation_key_def)
  with le show ?thesis by fastforce
qed

lemma get_binding_Inr: "get_binding i db = (Inr b, db') \<longleftrightarrow> db' = db \<and> binding_at db i = Some b"
  by (auto simp: get_binding_def split: option.splits)

abbreviation rows :: "'w service_state \<Rightarrow> instance_binding list" where
  "rows s \<equiv> db_bindings (bs_db s)"

lemma same_part_mono: "steps (same_part bs_db) m \<Longrightarrow> steps (same_part rows) m"
  by (simp add: steps_def same_part_def)

lemma advance_now_rows: "steps (same_part rows) (advance_now k e t)"
proof -
  have "db_bindings (snd (advance_action_saga k e t now db)) = db_bindings db" for now db
    using stepsD [OF advance_action_saga_rows] by (metis same_rows_def surjective_pairing)
  then have "steps (same_part rows) (on_db (advance_action_saga k e t now))" for now
    by (simp add: on_db_def steps_def py_on_run same_part_def)
  then show ?thesis
    unfolding advance_now_def by (auto intro!: part.steps_bind same_part_mono [OF frame_clock(2)])
qed

lemma recovery_frame:
  "steps (same_part rows) (advance_if saga k e t)"
  "steps (same_part rows) (finalize_lease i)"
  "steps (same_part rows) (on_db (action_saga k))"
  "steps (same_part rows) (on_lease_manager m)"
  "steps (same_part rows) (recover_binding_state d b)"
  unfolding advance_if_def finalize_lease_def
  by (auto intro!: part.steps_bind part.steps_basic advance_now_rows same_part_mono frame_parts recover_frame)
    (simp add: on_db_def steps_def py_on_run same_part_def action_saga_state)

lemma finish_recovery_Inr:
  assumes "finish_recovery b k s = (Inr x, t)"
  shows "x = ''LEASE_FINALIZED'' \<and> rows t = rows s"
proof -
  have "steps (same_part rows) (finish_recovery b k)"
    unfolding finish_recovery_def
    by (auto intro!: part.steps_bind part.steps_basic recovery_frame advance_now_rows)
  from part_same [OF this assms] have "rows t = rows s" .
  moreover have "x = ''LEASE_FINALIZED''"
    using assms by (auto simp: finish_recovery_def py_bind_Inr py_return_run py_raise_run split: if_splits)
  ultimately show ?thesis by simp
qed

lemma reconcile_commit_Inr:
  assumes "reconcile_commit d p b k n y s = (Inr (c, x), t)"
  shows "x = ''LEASE_FINALIZED'' \<and> binding_at (bs_db t) (ib_binding_id b) = Some c \<and>
    ib_status c \<in> taken_over \<and>
    (\<exists>q. binding_at (bs_db t) (ib_binding_id p) = Some q \<and> ib_status q = In_REPLACED)"
proof -
  obtain p1 s1 p2 s0 where c: "binding_at (bs_db s) (ib_binding_id p) = Some p1"
    "binding_at (bs_db s) (ib_binding_id b) = Some s1"
    "binding_at (bs_db s0) (ib_binding_id p1) = Some p2"
    "binding_at (bs_db s0) (ib_binding_id s1) = Some c" "ib_status p2 = In_REPLACED"
    "ib_status c \<in> taken_over" "finish_recovery c k s0 = (Inr x, t)"
    using assms unfolding reconcile_commit_def
    by (simp add: py_bind_Inr on_db_Inr get_binding_Inr py_return_run py_raise_run split: if_splits)
  have "rows t = rows s0" "x = ''LEASE_FINALIZED''" using finish_recovery_Inr [OF c(7)] by simp_all
  then show ?thesis using c binding_at_Some [OF c(1)] binding_at_Some [OF c(2)]
    by (simp add: binding_at_def)
qed

lemma reconcile_after_Inr:
  assumes "reconcile_after d p b saga s = (Inr (c, x), t)"
  shows "\<exists>s0 y. reconcile_commit d p b (sg_idempotency_key saga) (ib_checkpoint_version p + 1) y s0 = (Inr (c, x), t)"
  using assms unfolding reconcile_after_def Let_def
  by (simp add: py_bind_Inr py_raise_run split: if_splits) (elim exE conjE, blast)

text \<open>A binding whose continuity state is the one it names.\<close>

definition faithful :: "'w service \<Rightarrow> instance_binding \<Rightarrow> json_dict \<Rightarrow> bool" where
  "faithful d b x \<longleftrightarrow> recovered_version x = Inr (ib_checkpoint_version b) \<and>
     (\<exists>eh ph kvs. map_of x ''event_hash'' = Some eh \<and> map_of x ''payload_hash'' = Some ph \<and>
        ib_hazel_event_hash b = Some (str_of (bd_str d) eh) \<and>
        ib_checkpoint_hash b = Some (str_of (bd_str d) ph) \<and>
        map_of x ''payload'' = Some (PyDict kvs) \<and> map_of kvs ''binding_id'' = Some (PyStr (ib_binding_id b)))"

lemma check_fidelity_Inr: "check_fidelity d b x = Inr () \<Longrightarrow> faithful d b x"
  by (auto simp: check_fidelity_def faithful_def subscript_def dict_get_def
      split: sum.splits if_splits option.splits pyval.splits)

lemma validate_local_identity_Inr:
  assumes "validate_local_identity d b s = (Inr (), t)"
  obtains p l where "t = s" "map_of PROFILES (ib_ocs_id b) = Some p"
    "check_local_identity (bd_digest d) b p = Inr ()"
    "map_of (lm_leases (bs_leases s)) (ib_lease_id b) = Some l" "al_authority_ref l = ib_authority_ref b"
  using assms
  by (auto simp: validate_local_identity_def py_bind_Inr py_return_run py_raise_run py_lift_def
      on_lease_manager_Inr lease_for_run split: option.splits if_splits)

lemma validate_hazel_fidelity_Inr:
  assumes "validate_hazel_fidelity d b x s = (Inr (), t)"
  shows "faithful d b x \<and> t = s"
proof -
  obtain u where 1: "check_fidelity d b x = Inr ()" "u = s"
    and 2: "(case ib_predecessor_binding_id b of None \<Rightarrow> py_return ()
     | Some i \<Rightarrow> py_bind (on_db (get_binding i)) (\<lambda>predecessor.
         py_lift (validate_replacement_hazel predecessor b x (ib_checkpoint_version b)))) u = (Inr (), t)"
    using assms by (auto simp: validate_hazel_fidelity_def py_bind_Inr py_lift_def)
  have "t = u" using 2
    by (auto simp: py_bind_Inr py_return_run py_lift_def on_db_Inr get_binding_Inr split: option.splits)
  then show ?thesis using 1 check_fidelity_Inr by simp
qed

lemma require_single_active_Inr: "require_single_active g m i db = (Inr u, db') \<Longrightarrow> db' = db"
  by (simp add: require_single_active_def split: if_splits)

lemma check_stranded_Inr: "check_stranded b db = (Inr u, db') \<Longrightarrow> db' = db"
  by (auto simp: check_stranded_def replacement_saga_or_none_def py_bind_Inr py_gets_run py_return_run
      py_raise_run split: if_splits option.splits)

lemma recover_instance_Inr:
  assumes "recover_instance d g m i s = (Inr r, t)"
  obtains b s1 x s2 where "latest_binding g m i (bs_db s) = (Inr b, bs_db s)"
    "validate_local_identity d b s = (Inr (), s)"
    "(if ib_predecessor_binding_id b \<noteq> None then
        py_bind (reconcile_replacement d b) (\<lambda>(b', state). py_return (b', Some state))
      else py_return (b, None)) s = (Inr (rr_binding r, rr_saga_state r), s1)"
    "recover_binding_state d (rr_binding r) s1 = (Inr x, s2)" "bs_db t = bs_db s1"
    "faithful d (rr_binding r) x" "recovered_version x = Inr (rr_hazel_state_version r)"
    "\<exists>eh. map_of x ''event_hash'' = Some eh \<and> rr_hazel_event_hash r = str_of (bd_str d) eh"
proof -
  obtain b u1 y2 u2 y3 u3 y4 u4 cs s1 where
    1: "on_db (latest_binding g m i) s = (Inr b, u1)" and
    2: "validate_local_identity d b u1 = (Inr y2, u2)" and
    3: "on_db (require_single_active g m i) u2 = (Inr y3, u3)" and
    4: "on_db (check_stranded b) u3 = (Inr y4, u4)" and
    5: "(if ib_predecessor_binding_id b \<noteq> None then
        py_bind (reconcile_replacement d b) (\<lambda>(b', state). py_return (b', Some state))
      else py_return (b, None)) u4 = (Inr cs, s1)" and
    r: "(case cs of (binding, saga_state) \<Rightarrow>
     py_bind (recover_binding_state d binding) (\<lambda>recovered.
     py_bind (validate_hazel_fidelity d binding recovered) (\<lambda>_.
     py_bind (py_lift (recovered_version recovered)) (\<lambda>version.
     py_bind (py_lift (subscript recovered ''event_hash'')) (\<lambda>event_hash.
     py_return \<lparr> rr_binding = binding, rr_hazel_state_version = version,
       rr_hazel_event_hash = str_of (bd_str d) event_hash, rr_saga_state = saga_state \<rparr>))))) s1
       = (Inr r, t)"
    using assms unfolding recover_instance_def
    by (elim py_bind_InrE) (rule that)
  obtain c ss where cs: "cs = (c, ss)" by fastforce
  obtain x s2 y7 u7 v u8 eh u9 where
    6: "recover_binding_state d c s1 = (Inr x, s2)" and
    7: "validate_hazel_fidelity d c x s2 = (Inr y7, u7)" and
    8: "py_lift (recovered_version x) u7 = (Inr v, u8)" and
    9: "py_lift (subscript x ''event_hash'') u8 = (Inr eh, u9)" and
    10: "r = \<lparr> rr_binding = c, rr_hazel_state_version = v, rr_hazel_event_hash = str_of (bd_str d) eh,
      rr_saga_state = ss \<rparr>" "t = u9"
    using r unfolding cs prod.case
    by (elim py_bind_InrE) (rule that, assumption+, simp_all add: py_return_run)
  have at: "latest_binding g m i (bs_db s) = (Inr b, bs_db s)" "u1 = s"
    using 1 by (auto simp: on_db_Inr latest_binding_def Let_def split: list.splits)
  have same: "u2 = s" "u3 = s" "u4 = s"
    using 2 3 4 at by (auto elim!: validate_local_identity_Inr simp: on_db_Inr
        dest!: require_single_active_Inr check_stranded_Inr)
  have f: "faithful d c x" "u7 = s2" using validate_hazel_fidelity_Inr [of d c x s2 u7] 7 by simp_all
  have v: "recovered_version x = Inr v" "u8 = s2" using 8 f(2) by (auto simp: py_lift_def)
  have e: "map_of x ''event_hash'' = Some eh" "u9 = s2"
    using 9 v(2) by (auto simp: py_lift_def subscript_def split: option.splits)
  have "bs_db s2 = bs_db s1" using part_same [OF recover_frame(2) 6] .
  then show thesis
    using that [of b s1 x s2] at 2 5 6 f v e same 10 cs by simp
qed

lemma saga_query_state:
  "replacement_saga_or_none i db = (y, db') \<Longrightarrow> db' = db"
  by (simp add: replacement_saga_or_none_def py_gets_run)

lemma replacement_saga_state: "snd (replacement_saga i db) = db"
  by (simp add: replacement_saga_def replacement_saga_or_none_def py_simps split: option.split)

lemma reconcile_replacement_Inr:
  assumes "reconcile_replacement d b s = (Inr (c, x), t)"
  shows "\<exists>j q. ib_predecessor_binding_id b = Some j \<and> x = ''LEASE_FINALIZED'' \<and>
    binding_at (bs_db t) (ib_binding_id b) = Some c \<and> ib_status c \<in> taken_over \<and>
    binding_at (bs_db t) j = Some q \<and> ib_status q = In_REPLACED"
proof -
  obtain j where j: "ib_predecessor_binding_id b = Some j"
    using assms by (cases "ib_predecessor_binding_id b") (auto simp: reconcile_replacement_def py_raise_run)
  obtain p saga u where p: "binding_at (bs_db s) j = Some p"
    and after: "reconcile_after d p b saga u = (Inr (c, x), t)"
    using assms unfolding reconcile_replacement_def j option.case
    by (simp add: py_bind_Inr on_db_Inr get_binding_Inr py_raise_run split: if_splits)
      (elim exE conjE, rule that)
  obtain y s0 where "reconcile_commit d p b (sg_idempotency_key saga) (ib_checkpoint_version p + 1) y s0 = (Inr (c, x), t)"
    using reconcile_after_Inr [OF after] by blast
  from reconcile_commit_Inr [OF this] show ?thesis
    using j binding_at_Some [OF p] by simp
qed

lemma recovery_reports:
  assumes "recover_instance d g m i s = (Inr r, t)" and "store_ok (bs_db s)"
  shows "binding_at (bs_db t) (ib_binding_id (rr_binding r)) = Some (rr_binding r) \<and>
    ib_organization_id (rr_binding r) = g \<and> ib_mission_id (rr_binding r) = m \<and>
    ib_ocs_id (rr_binding r) = i \<and>
    rr_hazel_state_version r = ib_checkpoint_version (rr_binding r) \<and>
    ib_hazel_event_hash (rr_binding r) = Some (rr_hazel_event_hash r) \<and>
    (case ib_predecessor_binding_id (rr_binding r) of
       None \<Rightarrow> rr_saga_state r = None \<and> bs_db t = bs_db s
     | Some j \<Rightarrow> rr_saga_state r = Some ''LEASE_FINALIZED'' \<and>
         ib_status (rr_binding r) \<in> taken_over \<and>
         (\<exists>q. binding_at (bs_db t) j = Some q \<and> ib_status q = In_REPLACED))"
proof -
  obtain b s1 x s2 where l: "latest_binding g m i (bs_db s) = (Inr b, bs_db s)"
    and step: "(if ib_predecessor_binding_id b \<noteq> None then
        py_bind (reconcile_replacement d b) (\<lambda>(b', state). py_return (b', Some state))
      else py_return (b, None)) s = (Inr (rr_binding r, rr_saga_state r), s1)"
    and db: "bs_db t = bs_db s1"
    and f: "faithful d (rr_binding r) x" "recovered_version x = Inr (rr_hazel_state_version r)"
      "\<exists>eh. map_of x ''event_hash'' = Some eh \<and> rr_hazel_event_hash r = str_of (bd_str d) eh"
    by (rule recover_instance_Inr [OF assms(1)], rule that, assumption+)
  have b: "binding_at (bs_db s) (ib_binding_id b) = Some b" "ib_organization_id b = g"
    "ib_mission_id b = m" "ib_ocs_id b = i"
    using latest_binding_Inr [OF l assms(2)] by simp_all
  have same: "rr_hazel_state_version r = ib_checkpoint_version (rr_binding r)"
    "ib_hazel_event_hash (rr_binding r) = Some (rr_hazel_event_hash r)"
    using f by (auto simp: faithful_def)
  show ?thesis
  proof (cases "ib_predecessor_binding_id b")
    case None
    then have "rr_binding r = b" "rr_saga_state r = None" "s1 = s" using step by (auto simp: py_return_run)
    then show ?thesis using b same None db by simp
  next
    case (Some j)
    obtain y where y: "reconcile_replacement d b s = (Inr (rr_binding r, y), s1)" "rr_saga_state r = Some y"
      using step Some by (auto simp: py_bind_Inr py_return_run split: prod.splits)
    obtain q where q: "y = ''LEASE_FINALIZED''" "binding_at (bs_db s1) (ib_binding_id b) = Some (rr_binding r)"
      "ib_status (rr_binding r) \<in> taken_over" "binding_at (bs_db s1) j = Some q" "ib_status q = In_REPLACED"
      using reconcile_replacement_Inr [OF y(1)] Some by auto
    have "service_order (bd_identity_digest d) s t" using stepsD [OF recover_order assms(1)] .
    then have "db_step\<^sup>*\<^sup>* (bs_db s) (bs_db t)" using assms(2) by (simp add: service_order_def db_order_def)
    from db_steps_became [OF this b(1)] have same_id: "same_identity b (rr_binding r)"
      using q(2) db by (simp add: became_def)
    show ?thesis
      using same_identityD(1,3,4) [OF same_id] b(2-4) q same y(2) Some db binding_at_Some [OF q(2)]
      by (auto simp: generation_key_def)
  qed
qed


text \<open>The reads that precede the effect of a replacement leave the state alone.\<close>

lemma reconcile_replacement_after:
  assumes "reconcile_replacement d b s = (Inr cx, t)"
  obtains j p saga where "ib_predecessor_binding_id b = Some j" "binding_at (bs_db s) j = Some p"
    "reconcile_after d p b saga s = (Inr cx, t)"
proof -
  obtain j where j: "ib_predecessor_binding_id b = Some j"
    using assms by (cases "ib_predecessor_binding_id b") (auto simp: reconcile_replacement_def py_raise_run)
  obtain p u1 saga u2 i u3 where p: "on_db (get_binding j) s = (Inr p, u1)"
    and saga: "on_db (replacement_saga (ib_binding_id p)) u1 = (Inr saga, u2)"
    and lift: "py_lift (saga_lease d saga) u2 = (Inr i, u3)"
    and rest: "(if i \<noteq> ib_lease_id b then
            py_raise (InstanceBindingError ''replacement_recovery_lease_mismatch'')
          else
            py_bind (on_lease_manager (lease_for i)) (\<lambda>lease.
            if al_authority_ref lease \<noteq> ib_authority_ref b then
              py_raise (InstanceBindingError ''replacement_recovery_authority_mismatch'')
            else reconcile_after d p b saga)) u3 = (Inr cx, t)"
    using assms unfolding reconcile_replacement_def j option.case
    by (elim py_bind_InrE) (rule that)
  have u: "binding_at (bs_db s) j = Some p" "u1 = s" "u2 = u1" "u3 = u2"
    using p saga lift replacement_saga_state [of "ib_binding_id p" "bs_db u1"]
    by (auto simp: on_db_Inr get_binding_Inr py_lift_def) 
  obtain l u4 where l: "on_lease_manager (lease_for i) s = (Inr l, u4)"
    and after: "reconcile_after d p b saga u4 = (Inr cx, t)"
    using rest u by (auto simp: py_raise_run py_bind_Inr split: if_splits)
  have "u4 = s" using l by (auto simp: on_lease_manager_Inr lease_for_run split: option.splits)
  then show thesis using that j u after by simp
qed

text \<open>
  An instance that took over from another and has been checkpointed since cannot be started
  from cold. Its continuity state is the one its row names, two or more beyond the checkpoint of
  its predecessor, and the recovery accepts only that checkpoint and the one after it.
\<close>

lemma checkpointed_successor_refused:
  assumes "latest_binding g m i (bs_db s) = (Inr b, bs_db s)"
    and "ib_predecessor_binding_id b = Some j" and "binding_at (bs_db s) j = Some p"
    and "recover_binding_state d b s = (Inr x, s1)"
    and "recovered_version x = Inr (ib_checkpoint_version b)"
    and "ib_checkpoint_version p + 1 < ib_checkpoint_version b"
  shows "\<exists>e. fst (recover_instance d g m i s) = Inl e"
proof (cases "fst (recover_instance d g m i s)")
  case (Inr r)
  then obtain t where run: "recover_instance d g m i s = (Inr r, t)" by (metis prod.collapse)
  obtain b' s' where l: "latest_binding g m i (bs_db s) = (Inr b', bs_db s)"
    and step: "(if ib_predecessor_binding_id b' \<noteq> None then
        py_bind (reconcile_replacement d b') (\<lambda>(b', state). py_return (b', Some state))
      else py_return (b', None)) s = (Inr (rr_binding r, rr_saga_state r), s')"
    by (rule recover_instance_Inr [OF run], rule that, assumption+)
  have "b' = b" using l assms(1) by simp
  then obtain cx t' where "reconcile_replacement d b s = (Inr cx, t')"
    using step assms(2) by (auto simp: py_bind_Inr)
  then obtain q saga where q: "binding_at (bs_db s) j = Some q"
    and after: "reconcile_after d q b saga s = (Inr cx, t')"
    using assms(2) by (elim reconcile_replacement_after) simp
  obtain y u where "recovery_effect d p b s = (Inr y, u)"
    using after q assms(3) unfolding reconcile_after_def Let_def by (elim py_bind_InrE) simp
  then have False
    using assms(4-6) by (simp add: recovery_effect_def py_bind_run py_lift_def py_raise_run)
  then show ?thesis by simp
qed simp

end
