(* ===== verification/Service_Samples.thy ===== *)
theory Service_Samples
  imports Recovery_Safety
begin

text \<open>
  A concrete service, request and lease, and the witnesses of the properties of the service.
\<close>

section \<open>A sample service\<close>

text \<open>A continuity service that keeps the last envelope it was sent.\<close>

definition ledger :: "json_dict hazel_transport" where
  "ledger = \<lparr>
     ht_persist = (\<lambda>e w. (Inr [(''accepted'', PyBool True), (''ocs_id'', dict_get e ''ocs_id''),
         (''state_namespace'', dict_get e ''state_namespace''), (''event_hash'', PyStr ''ev'')],
       e @ [(''event_hash'', PyStr ''ev''), (''payload_hash'', PyStr ''u'')])),
     ht_recover = (\<lambda>q w. (if w = [] then Inl (KeyError ''run'') else Inr w, w)) \<rparr>"

definition sample_service :: "json_dict service" where
  "sample_service = \<lparr> bd_secret = ''secret'', bd_transport = ledger,
     bd_identity_digest = sample_digest, bd_digest = (\<lambda>v. ''u''), bd_hmac = (\<lambda>k m. k @ m),
     bd_str = (\<lambda>v. ''v'') \<rparr>"

definition sofia_lease :: authority_lease where
  "sofia_lease = \<lparr> al_lease_id = ''l'', al_ocs = ''SOFIA'', al_capability = ''work'',
     al_expires_at = 100, al_actor = ''NOESIS'', al_issued_at = 1, al_not_before = 1,
     al_scope = [''s''], al_tenant = ''org'', al_context_ref = ''x'',
     al_authority_ref = ''authority://sofia/current'', al_policy_snapshot = ''p'',
     al_action_binding = ''ocs_instance_binding'', al_object_ref_or_selector = ''m'',
     al_trace_ref = ''tr'', al_max_uses = 1, al_uses_consumed = 0, al_revocable = True,
     al_single_use = True, al_state = Lease_ACTIVE, al_revoked = False \<rparr>"

definition sofia_request :: prepare_request where
  "sofia_request = \<lparr> pq_mission_id = ''m'', pq_organization_id = ''org'', pq_ocs_id = ''SOFIA'',
     pq_capability = ''work'', pq_lease_id = ''l'', pq_host = ''ChatGPT Work'', pq_scope = [''s''],
     pq_idempotency_key = ''k'', pq_correlation_id = ''c'', pq_actor = ''NOESIS'',
     pq_context_ref = ''x'', pq_policy_snapshot = ''p'', pq_trace_ref = ''tr'',
     pq_causation_id = None \<rparr>"

lemma not_isl_run: "\<not> isl (fst q) \<Longrightarrow> \<exists>x. q = (Inr x, snd q)"
  by (cases q; cases "fst q") auto

definition sofia_profile :: ocs_profile where
  "sofia_profile = mk_profile ''SOFIA''
     ''software_implementation_code_incremental_integration''
     [''software_implementation_via_valid_envelope_lease_effector'']
     [''architecture_rewrite_without_authority'', ''self_assurance'', ''lateral_effect_route'']
     [''code'', ''integration'', ''implementation'']"

definition sofia_identity :: active_binding where
  "sofia_identity = binding_of_profile (mk_profile ''SOFIA'' ''s'' [] [] []) ''run:u''
     ''ChatGPT Work'' ''context:u'' 3"

definition sofia_binding :: instance_binding where
  "sofia_binding = (provisional_binding sample_service sofia_request sofia_profile sofia_lease ''run:u''
     sofia_identity 1 3)\<lparr>ib_bootstrap_hash := ''u''\<rparr>"

text \<open>
  A state in which the continuity service already holds the prepared state (an earlier attempt
  persisted it, but the registry was lost).
\<close>

definition held_state :: json_dict where
  "held_state = persist_envelope sample_digest sofia_identity None ''authority://sofia/current'' 1
     (PyDict (prepared_state sofia_binding)) ''t'' @
     [(''event_hash'', PyStr ''ev''), (''payload_hash'', PyStr ''u'')]"

definition sofia_guard :: identity_guard where
  "sofia_guard = new_guard [(''SOFIA'', mk_profile ''SOFIA'' ''s'' [] [] [])] []"

definition sofia_leases :: lease_manager where
  "sofia_leases = snd (issue 2 sofia_lease new_lease_manager)"

definition sample_state :: "json_dict service_state" where
  "sample_state = \<lparr> bs_db = empty_db, bs_guard = sofia_guard, bs_leases = sofia_leases,
     bs_world = held_state, bs_clock = (\<lambda>n. 3) \<rparr>"

definition guard1 :: identity_guard where
  "guard1 = snd (require_valid sample_digest ''run:u'' ''SOFIA'' COLD_START (Some ''ChatGPT Work'')
     (snd (bind_active_identity sample_digest 3 ''run:u'' ''SOFIA'' ''ChatGPT Work'' ''context:u''
        sofia_guard)))"

definition leases1 :: lease_manager where
  "leases1 = snd (reserve_use 3 3 (action_envelope_for sofia_request sofia_profile sofia_lease
     sofia_binding ''ocs_instance_binding'' ''bind:binding:u'' ''k'') sofia_leases)"

definition db1 :: instance_db where
  "db1 = snd (create_binding sofia_binding empty_db)"

lemma sofia_profile_found: "map_of PROFILES ''SOFIA'' = Some sofia_profile"
  by code_simp

lemma sofia_lease_found: "map_of (lm_leases sofia_leases) ''l'' = Some sofia_lease"
  by code_simp

lemma sofia_covered: "covers sofia_request sofia_profile ''ocs_instance_binding'' 3 sofia_lease"
  by code_simp

lemma sofia_bound:
  "binding_for sofia_guard ''run:u'' = None"
  "\<not> isl (fst (bind_active_identity sample_digest 3 ''run:u'' ''SOFIA'' ''ChatGPT Work'' ''context:u''
        sofia_guard))"
  "fst (require_valid sample_digest ''run:u'' ''SOFIA'' COLD_START (Some ''ChatGPT Work'')
     (snd (bind_active_identity sample_digest 3 ''run:u'' ''SOFIA'' ''ChatGPT Work'' ''context:u''
        sofia_guard))) = Inr sofia_identity"
  by code_simp+

lemma sofia_reserved:
  "fst (reserve_use 3 3 (action_envelope_for sofia_request
     sofia_profile sofia_lease sofia_binding ''ocs_instance_binding'' ''bind:binding:u'' ''k'')
     sofia_leases) = Inr (True, ''lease_use_reserved'', Some 1)"
  by code_simp

lemma sofia_finalized: "fst (finalize ''l'' leases1) = Inr Lease_RELEASED"
  by code_simp

lemma sofia_created: "fst (create_binding sofia_binding empty_db) = Inr sofia_binding"
  by code_simp

lemma sofia_recovered:
  "fst (hazel_recover_state sample_digest (\<lambda>v. ''u'') ledger ''run:u'' ''SOFIA''
     ''ChatGPT Work'' ''authority://sofia/current'' (guard1, held_state)) = Inr held_state"
  by code_simp

lemma sofia_persisted:
  "\<not> isl (fst (transition ''binding:u'' 1 In_PERSISTED ''k:hazel'' ''OCS_INSTANCE_PERSISTED''
     \<lparr> ta_platform_instance_id = None, ta_checkpoint_version = Some 1,
       ta_checkpoint_hash = Some ''u'', ta_hazel_event_hash = Some ''ev'', ta_maturity = None,
       ta_payload = [(''event_hash'', PyStr ''ev''), (''payload_hash'', PyStr ''u'')] \<rparr> 3 db1))"
  by code_simp


section \<open>Witnesses\<close>

lemma sofia_request_known:
  "pq_ocs_id sofia_request = ''SOFIA''" "pq_idempotency_key sofia_request = ''k''"
  "pq_lease_id sofia_request = ''l''" "validate_request sofia_request = Inr ()"
  by (simp_all add: sofia_request_def validate_request_def)

lemma sample_state_parts:
  "bs_db sample_state = empty_db" "bs_leases sample_state = sofia_leases"
  "bs_guard sample_state = sofia_guard" "bs_world sample_state = held_state"
  "bs_clock sample_state = (\<lambda>n. 3)"
  by (simp_all add: sample_state_def)

lemma sofia_leases_wf: "lm_wf sofia_leases"
  unfolding sofia_leases_def by (rule lease_change_wf [OF issue_change lm_wf_new])

lemma service_histories_sound_witness:
  "store_ok (bs_db (service_run sample_service [Prepare sofia_request] sample_state)) \<and>
   life_step\<^sup>*\<^sup>* (life_of empty_db)
     (life_of (bs_db (service_run sample_service [Prepare sofia_request] sample_state)))"
  using service_histories_sound [of sample_state sample_service "[Prepare sofia_request]"]
    store_ok_empty sofia_leases_wf
  by (simp add: sample_state_parts sofia_guard_def new_guard_def chain_is_valid_def)

lemma outdated_worker_fenced_witness:
  "\<exists>e. checkpoint sample_service ''b1'' sofia_request ''other'' 1 5 [] ''k9''
     (sample_state\<lparr>bs_db := store_run sample_history empty_db\<rparr>) =
     (Inl e, sample_state\<lparr>bs_db := store_run sample_history empty_db\<rparr>)"
proof -
  let ?s = "sample_state\<lparr>bs_db := store_run sample_history empty_db\<rparr>"
  have "binding_at (bs_db ?s) ''b1'' = Some sample_checkpointed"
    using sample_checkpointed_at by simp
  moreover have "ib_platform_instance_id sample_checkpointed \<noteq> Some ''other''"
    "ib_status sample_checkpointed \<noteq> In_REPLACED"
    by (simp_all add: sample_checkpointed_def sample_root_def)
  ultimately show ?thesis
    using outdated_worker_fenced [of ?s "''b1''" sample_checkpointed "''other''" 1 sample_service
        sofia_request 5 "[]" "''k9''" sofia_request] by simp
qed

definition sample_bound :: "store_call list" where
  "sample_bound = [Create sample_root, sample_move 1 In_PERSISTED ''t1'',
     Transit ''b1'' 2 In_BOUND ''t2'' ''E'' (no_args\<lparr>ta_platform_instance_id := Some ''w''\<rparr>) 1]"

definition sample_ack :: bootstrap_ack where
  "sample_ack = \<lparr> ba_binding_id = ''b1'', ba_platform_instance_id = ''w'', ba_generation = 1,
     ba_bootstrap_hash = ''bh'', ba_identity_binding_hash = ''ih'', ba_challenge_nonce = ''n'',
     ba_idempotency_key = ''ack'' \<rparr>"

lemma challenge_gates_activity_witness:
  "\<exists>(b :: instance_binding) db. acknowledge (\<lambda>v. ''ch'') sample_ack 3 9 (store_run sample_bound empty_db) = (Inr b, db) \<and>
     ib_status b = In_ACTIVE \<and> ib_maturity b = OPERATIONALLY_BOUND_L1"
proof -
  let ?run = "acknowledge (\<lambda>v. ''ch'') sample_ack 3 9 (store_run sample_bound empty_db)"
  have "\<not> isl (fst ?run)" by code_simp
  then obtain b where run: "?run = (Inr b, snd ?run)" using not_isl_run by blast
  have "journal_for_key (store_run sample_bound empty_db) (ba_idempotency_key sample_ack) = None"
    by code_simp
  from challenge_gates_activity [OF run reachable_ok this]
  show ?thesis using run by (intro exI [of _ b] exI [of _ "snd ?run"] conjI) simp_all
qed

lemma sofia_validated:
  "validated_lease sofia_request sofia_profile ''ocs_instance_binding'' sample_state =
     (Inr sofia_lease, sample_state)"
  using sofia_lease_found sofia_covered
  by (simp add: validated_lease_Inr sofia_request_known sample_state_def)

lemma sofia_identity_bound:
  "bound_identity sample_service sofia_request ''run:u'' sample_state =
     (Inr sofia_identity, sample_state\<lparr>bs_guard := guard1\<rparr>)"
proof -
  let ?bind = "bind_active_identity sample_digest 3 ''run:u'' ''SOFIA'' ''ChatGPT Work'' ''context:u''
      sofia_guard"
  obtain x g where bind: "?bind = (Inr x, g)" using not_isl_run [OF sofia_bound(2)] by blast
  have valid: "require_valid sample_digest ''run:u'' ''SOFIA'' COLD_START (Some ''ChatGPT Work'') g
      = (Inr sofia_identity, guard1)"
    using sofia_bound(3) bind by (simp add: guard1_def prod_eq_iff)
  have host: "pq_host sofia_request = ''ChatGPT Work''" by (simp add: sofia_request_def)
  have ctx: "session_context_of (\<lambda>v. ''u'') sofia_request = ''context:u''"
    by (simp add: session_context_of_def canonical_hash_def)
  have svc: "bd_identity_digest sample_service = sample_digest" "bd_digest sample_service = (\<lambda>v. ''u'')"
    by (simp_all add: sample_service_def)
  show ?thesis
    using bind valid sofia_bound(1)
    by (simp add: bound_identity_def py_bind_run on_identity_guard_def py_on_run py_gets_run
        read_clock_run py_return_run sample_state_def sofia_request_known host ctx svc)
qed

lemma sofia_registered:
  "\<exists>c e t. register_binding sample_service sofia_request sofia_profile sofia_lease
     (provisional_binding sample_service sofia_request sofia_profile sofia_lease ''run:u''
        sofia_identity 1 3) (sample_state\<lparr>bs_guard := guard1\<rparr>) = (Inr (c, e), t)"
proof -
  let ?b0 = "provisional_binding sample_service sofia_request sofia_profile sofia_lease ''run:u''
        sofia_identity 1 3"
  let ?s = "sample_state\<lparr>bs_guard := guard1\<rparr>"
  have prep: "ib_status ?b0 = In_PREPARED" "ib_status sofia_binding = In_PREPARED"
    by (simp_all add: sofia_binding_def provisional_binding_def Let_def)
  have hash: "envelope_digest (bd_digest sample_service) e = ''u''" for e
    by (simp add: sample_service_def envelope_digest_def canonical_hash_def)
  have ids: "ib_binding_id sofia_binding = ''binding:u''" "ib_version sofia_binding = 1"
    "al_lease_id sofia_lease = ''l''" "pq_ocs_id sofia_request = ''SOFIA''"
    by code_simp+
  have reserve: "reserve_binding_lease sofia_request sofia_lease sofia_binding ?s =
      (Inr (), ?s\<lparr>bs_leases := leases1\<rparr>)"
    using sofia_reserved
    by (simp add: reserve_binding_lease_def reserve_action_lease_def get_profile_def ids
        sofia_profile_found py_bind_run py_lift_def read_clock_run on_lease_manager_def py_on_run
        py_return_run sofia_request_known sample_state_def leases1_def)
  have create: "create_binding sofia_binding empty_db = (Inr sofia_binding, db1)"
    using sofia_created by (simp add: db1_def prod_eq_iff)
  obtain c where hazel: "hazel_recover_state sample_digest (\<lambda>v. ''u'') ledger ''run:u'' ''SOFIA''
     ''ChatGPT Work'' ''authority://sofia/current'' (guard1, held_state) = (Inr held_state, c)"
    using sofia_recovered by (metis prod.collapse)
  have payload: "dict_get held_state ''payload'' = PyDict (prepared_state sofia_binding)"
    "subscript held_state ''payload_hash'' = Inr (PyStr ''u'')"
    "subscript held_state ''event_hash'' = Inr (PyStr ''ev'')"
    by (simp_all add: held_state_def persist_envelope_def dict_get_def subscript_def)
  have svc: "bd_identity_digest sample_service = sample_digest" "bd_digest sample_service = (\<lambda>v. ''u'')"
    "bd_transport sample_service = ledger"
    by (simp_all add: sample_service_def)
  have binding: "ib_run_id sofia_binding = ''run:u''" "ib_ocs_id sofia_binding = ''SOFIA''"
    "ib_host sofia_binding = ''ChatGPT Work''"
    "ib_authority_ref sofia_binding = ''authority://sofia/current''"
    by (simp_all add: sofia_binding_def provisional_binding_def Let_def sofia_request_def
        sofia_lease_def)
  obtain f db2 where persisted: "transition ''binding:u'' 1 In_PERSISTED ''k:hazel''
     ''OCS_INSTANCE_PERSISTED''
     \<lparr> ta_platform_instance_id = None, ta_checkpoint_version = Some 1,
       ta_checkpoint_hash = Some ''u'', ta_hazel_event_hash = Some ''ev'', ta_maturity = None,
       ta_payload = [(''event_hash'', PyStr ''ev''), (''payload_hash'', PyStr ''u'')] \<rparr> 3 db1 = (Inr f, db2)"
    using not_isl_run [OF sofia_persisted] by blast
  let ?t = "sample_state\<lparr>bs_guard := guard1, bs_leases := snd (finalize ''l'' leases1), bs_db := db1\<rparr>"
  have "\<exists>t. ensure_hazel sample_service sofia_binding sofia_request ?t = (Inr f, t)"
    using hazel persisted
    by (cases c) (simp add: ensure_hazel_def py_bind_run py_try_run recover_binding_state_def svc binding
        on_continuity_def py_on_run sample_state_def payload py_return_run transition_to_persisted_def
        py_lift_def transition_now_def read_clock_run on_db_def sofia_request_known ids)
  then obtain t where ensure: "ensure_hazel sample_service sofia_binding sofia_request ?t = (Inr f, t)"
    by blast
  have b0: "?b0\<lparr>ib_bootstrap_hash := ''u''\<rparr> = sofia_binding" by (simp add: sofia_binding_def)
  have env: "envelope_for b p l n db =
      (Inr (envelope_with b p l n (ib_checkpoint_version b) (ib_checkpoint_hash b)), db)"
    if "ib_status b = In_PREPARED" for b p l n db
    using that by (simp add: envelope_for_def py_return_run)
  show ?thesis
    using reserve create ensure
    by (simp add: sofia_finalized register_binding_def Let_def py_bind_run hash b0 env prep on_db_def py_on_run
        sample_state_def finalize_lease_def on_lease_manager_def py_return_run ids)
qed

lemma sofia_prepared:
  "\<exists>b e t. prepare sample_service sofia_request sample_state = (Inr (b, e), t) \<and>
     binding_for_key (bs_db sample_state) (pq_idempotency_key sofia_request) = None"
proof -
  have profile: "map_of PROFILES (pq_ocs_id sofia_request) = Some sofia_profile"
    by (simp add: sofia_request_known sofia_profile_found)
  have run_id: "stable_run_id (\<lambda>v. ''u'') INSTITUTION_ID (pq_organization_id sofia_request)
      (pq_mission_id sofia_request) ''SOFIA'' = Inr ''run:u''"
    by code_simp
  have latest: "on_db (latest_generation (pq_organization_id sofia_request)
      (pq_mission_id sofia_request) ''SOFIA'') (sample_state\<lparr>bs_guard := guard1\<rparr>) =
      (Inr 0, sample_state\<lparr>bs_guard := guard1\<rparr>)"
    by (simp add: on_db_def py_on_run latest_generation_def py_gets_run sample_state_def empty_db_def)
  obtain c e t where reg: "register_binding sample_service sofia_request sofia_profile sofia_lease
     (provisional_binding sample_service sofia_request sofia_profile sofia_lease ''run:u''
        sofia_identity 1 3) (sample_state\<lparr>bs_guard := guard1\<rparr>) = (Inr (c, e), t)"
    using sofia_registered by blast
  have clock: "read_clock (sample_state\<lparr>bs_guard := guard1\<rparr>) =
      (Inr 3, sample_state\<lparr>bs_guard := guard1\<rparr>)"
    by (simp add: read_clock_run sample_state_def)
  have svc: "bd_digest sample_service = (\<lambda>v. ''u'')" by (simp add: sample_service_def)
  have none: "binding_for_key (bs_db sample_state) (pq_idempotency_key sofia_request) = None"
    by (simp add: sample_state_def empty_db_def binding_for_key_def)
  have "prepare_new sample_service sofia_request sofia_profile sample_state = (Inr (c, e), t)"
    using reg
    by (simp add: prepare_new_def py_bind_run sofia_validated py_lift_def svc sofia_request_known run_id
        sofia_identity_bound latest clock)
  then have run: "prepare sample_service sofia_request sample_state = (Inr (c, e), t)"
    using none
    by (simp add: prepare_def py_bind_run py_lift_def sofia_request_known sofia_profile_found on_db_def
        py_on_run by_idempotency_def py_gets_run)
  with none show ?thesis by blast
qed

lemma prepared_under_lease_witness:
  "\<exists>b e t. prepare sample_service sofia_request sample_state = (Inr (b, e), t) \<and>
     prepared_under (bd_digest sample_service) sofia_request sofia_profile sofia_lease b e"
proof -
  have profile: "map_of PROFILES (pq_ocs_id sofia_request) = Some sofia_profile"
    by (simp add: sofia_request_known sofia_profile_found)
  obtain c e t where run: "prepare sample_service sofia_request sample_state = (Inr (c, e), t)"
    and none: "binding_for_key (bs_db sample_state) (pq_idempotency_key sofia_request) = None"
    using sofia_prepared by blast
  have "lm_wf (bs_leases sample_state)" "store_ok (bs_db sample_state)"
    using sofia_leases_wf store_ok_empty by (simp_all add: sample_state_parts)
  from prepared_under_lease [OF this none run] profile sofia_lease_found run show ?thesis
    by (auto simp: sofia_request_known sample_state_parts)
qed


section \<open>Cold starts\<close>

definition sofia_persisted_row :: instance_binding where
  "sofia_persisted_row = sofia_binding\<lparr>ib_status := In_PERSISTED, ib_version := 2,
     ib_checkpoint_version := 1, ib_checkpoint_hash := Some ''u'', ib_hazel_event_hash := Some ''ev''\<rparr>"

definition cold_state :: "json_dict service_state" where
  "cold_state = sample_state\<lparr>bs_guard := guard1, bs_db :=
     \<lparr> db_bindings = [sofia_persisted_row],
       db_journal = [\<lparr> jr_event_id = ''e1'', jr_binding_id = ''binding:u'', jr_event_type = ''a'',
           jr_from_status = None, jr_to_status = In_PREPARED, jr_binding_version = 1,
           jr_idempotency_key = ''j1'', jr_payload_json = PyNone, jr_occurred_at = 1 \<rparr>,
         \<lparr> jr_event_id = ''e2'', jr_binding_id = ''binding:u'', jr_event_type = ''b'',
           jr_from_status = Some In_PREPARED, jr_to_status = In_PERSISTED, jr_binding_version = 2,
           jr_idempotency_key = ''j2'', jr_payload_json = PyNone, jr_occurred_at = 1 \<rparr>],
       db_sagas = [] \<rparr>\<rparr>"

definition successor_row :: instance_binding where
  "successor_row = sofia_persisted_row\<lparr>ib_binding_id := ''b2'', ib_generation := 2,
     ib_predecessor_binding_id := Some ''binding:u'', ib_checkpoint_version := 3,
     ib_status := In_CHECKPOINTED\<rparr>"

definition cold_successor_state :: "json_dict service_state" where
  "cold_successor_state = sample_state\<lparr>bs_guard := guard1,
     bs_db := \<lparr> db_bindings = [sofia_persisted_row\<lparr>ib_status := In_REPLACED\<rparr>, successor_row],
       db_journal = [], db_sagas = [] \<rparr>,
     bs_world := persist_envelope sample_digest sofia_identity None ''authority://sofia/current'' 3
       (PyDict (checkpoint_payload successor_row [])) ''t'' @
       [(''event_hash'', PyStr ''ev''), (''payload_hash'', PyStr ''u'')]\<rparr>"

lemma cold_parts:
  "bs_leases cold_state = sofia_leases" "bs_guard cold_state = guard1" "bs_world cold_state = held_state"
  "bs_leases cold_successor_state = sofia_leases" "bs_guard cold_successor_state = guard1"
  by (simp_all add: cold_state_def cold_successor_state_def sample_state_def)

lemma sofia_fields:
  "ib_run_id sofia_binding = ''run:u''" "ib_ocs_id sofia_binding = ''SOFIA''"
  "ib_host sofia_binding = ''ChatGPT Work''"
  "ib_authority_ref sofia_binding = ''authority://sofia/current''"
  "ib_lease_id sofia_binding = ''l''" "ib_predecessor_binding_id sofia_binding = None"
  "ib_binding_id sofia_binding = ''binding:u''" "ib_organization_id sofia_binding = ''org''"
  "ib_mission_id sofia_binding = ''m''" "ib_generation sofia_binding = 1"
  by (code_simp+)

lemma sofia_row:
  "ib_run_id sofia_persisted_row = ''run:u''" "ib_ocs_id sofia_persisted_row = ''SOFIA''"
  "ib_host sofia_persisted_row = ''ChatGPT Work''"
  "ib_authority_ref sofia_persisted_row = ''authority://sofia/current''"
  "ib_lease_id sofia_persisted_row = ''l''" "ib_predecessor_binding_id sofia_persisted_row = None"
  "ib_binding_id sofia_persisted_row = ''binding:u''" "ib_organization_id sofia_persisted_row = ''org''"
  "ib_mission_id sofia_persisted_row = ''m''" "ib_generation sofia_persisted_row = 1"
  "ib_status sofia_persisted_row = In_PERSISTED" "ib_checkpoint_version sofia_persisted_row = 1"
  "ib_version sofia_persisted_row = 2"
  "ib_hazel_event_hash sofia_persisted_row = Some ''ev''" "ib_checkpoint_hash sofia_persisted_row = Some ''u''"
  by (simp_all add: sofia_persisted_row_def sofia_fields)

lemma sofia_row_identity: "check_local_identity (bd_digest sample_service) sofia_persisted_row sofia_profile = Inr ()"
  by code_simp

lemma sofia_row_fidelity: "check_fidelity sample_service sofia_persisted_row held_state = Inr ()"
  "recovered_version held_state = Inr 1" "subscript held_state ''event_hash'' = Inr (PyStr ''ev'')"
  by (simp_all add: held_state_def persist_envelope_def recovered_version_def subscript_def check_fidelity_def
      dict_get_def prepared_state_def sofia_row sofia_fields)

lemma cold_rows_ok: "store_ok (bs_db cold_state)"
proof -
  have "live_root sofia_persisted_row" by (simp add: live_root_def live_statuses_def sofia_row)
  then show ?thesis
    by (simp add: cold_state_def store_ok_def unique_rows_def platforms_apart_def journal_ok_def
      journaled_def lineage_ok_def one_root_def journal_of_def endpoint_def sofia_row)
qed

lemma successor_fields:
  "ib_run_id successor_row = ''run:u''" "ib_ocs_id successor_row = ''SOFIA''"
  "ib_host successor_row = ''ChatGPT Work''" "ib_authority_ref successor_row = ''authority://sofia/current''"
  "ib_organization_id successor_row = ''org''" "ib_mission_id successor_row = ''m''"
  "ib_generation successor_row = 2" "ib_checkpoint_version successor_row = 3"
  "ib_predecessor_binding_id successor_row = Some ''binding:u''" "ib_binding_id successor_row = ''b2''"
  by (simp_all add: successor_row_def sofia_row)

lemma cold_successor_rows:
  "latest_binding ''org'' ''m'' ''SOFIA'' (bs_db cold_successor_state) = (Inr successor_row, bs_db cold_successor_state)"
  "binding_at (bs_db cold_successor_state) ''binding:u'' = Some (sofia_persisted_row\<lparr>ib_status := In_REPLACED\<rparr>)"
  by (simp_all add: cold_successor_state_def latest_binding_def binding_at_def sofia_row successor_fields)

lemma cold_successor_world:
  "recovered_version (bs_world cold_successor_state) = Inr 3"
  by (simp add: cold_successor_state_def persist_envelope_def recovered_version_def subscript_def)

lemma cold_successor_recovered:
  "fst (hazel_recover_state sample_digest (\<lambda>v. ''u'') ledger ''run:u'' ''SOFIA''
     ''ChatGPT Work'' ''authority://sofia/current'' (guard1,
     persist_envelope sample_digest sofia_identity None ''authority://sofia/current'' 3
       (PyDict (checkpoint_payload successor_row [])) ''t'' @
       [(''event_hash'', PyStr ''ev''), (''payload_hash'', PyStr ''u'')])) =
   Inr (persist_envelope sample_digest sofia_identity None ''authority://sofia/current'' 3
       (PyDict (checkpoint_payload successor_row [])) ''t'' @
       [(''event_hash'', PyStr ''ev''), (''payload_hash'', PyStr ''u'')])"
  by code_simp

lemma sample_service_parts:
  "bd_identity_digest sample_service = sample_digest" "bd_digest sample_service = (\<lambda>v. ''u'')"
  "bd_transport sample_service = ledger"
  by (simp_all add: sample_service_def)

lemma cold_start: "\<exists>r t. recover_instance sample_service ''org'' ''m'' ''SOFIA'' cold_state = (Inr r, t)"
proof -
  have latest: "latest_binding ''org'' ''m'' ''SOFIA'' (bs_db cold_state) = (Inr sofia_persisted_row, bs_db cold_state)"
    and active: "require_single_active ''org'' ''m'' ''SOFIA'' (bs_db cold_state) = (Inr (), bs_db cold_state)"
    and stranded: "check_stranded sofia_persisted_row (bs_db cold_state) = (Inr (), bs_db cold_state)"
    by (simp_all add: cold_state_def latest_binding_def require_single_active_def check_stranded_def
        replacement_saga_or_none_def py_simps sofia_row)
  have lease: "al_authority_ref sofia_lease = ''authority://sofia/current''" by (simp add: sofia_lease_def)
  have local: "validate_local_identity sample_service sofia_persisted_row cold_state = (Inr (), cold_state)"
    using sofia_row_identity sofia_lease_found lease
    by (simp add: validate_local_identity_def sofia_row sofia_profile_found py_bind_run py_lift_def
        py_return_run on_lease_manager_def py_on_run lease_for_run cold_parts sofia_row)
  obtain gw where hazel: "hazel_recover_state sample_digest (\<lambda>v. ''u'') ledger ''run:u'' ''SOFIA''
     ''ChatGPT Work'' ''authority://sofia/current'' (guard1, held_state) = (Inr held_state, gw)"
    using sofia_recovered by (metis prod.collapse)
  then obtain u where rec: "recover_binding_state sample_service sofia_persisted_row cold_state
      = (Inr held_state, u)"
    by (simp add: recover_binding_state_def on_continuity_def py_on_run cold_parts sofia_row
        sample_service_parts)
  show ?thesis
    using latest active stranded local rec sofia_row_fidelity
    by (simp add: recover_instance_def py_bind_run on_db_def py_on_run sofia_row py_return_run py_lift_def
        validate_hazel_fidelity_def)
qed


theorem checkpointed_successor_refused_witness:
  "\<exists>e. fst (recover_instance sample_service ''org'' ''m'' ''SOFIA'' cold_successor_state) = Inl e"
proof -
  obtain gw where hazel: "hazel_recover_state sample_digest (\<lambda>v. ''u'') ledger ''run:u'' ''SOFIA''
     ''ChatGPT Work'' ''authority://sofia/current'' (guard1, bs_world cold_successor_state) =
     (Inr (bs_world cold_successor_state), gw)"
    using cold_successor_recovered
    by (simp add: cold_successor_state_def prod_eq_iff)
  then obtain u where rec: "recover_binding_state sample_service successor_row cold_successor_state
      = (Inr (bs_world cold_successor_state), u)"
    by (simp add: recover_binding_state_def on_continuity_def py_on_run cold_parts successor_fields
        sample_service_parts)
  show ?thesis
    using checkpointed_successor_refused [OF cold_successor_rows(1) successor_fields(9)
        cold_successor_rows(2) rec] cold_successor_world
    by (simp add: successor_fields sofia_row)
qed

end
