(* ===== verification/Cognition.thy ===== *)
theory Cognition
  imports Instance_Contracts Profiles "HOL-Library.Product_Lexorder"
begin

text \<open>
  \<^verbatim>\<open>app/cognitive_physiology\<close>: the contracts, the runtime that reserves cycles and commits
  effects and transitions under a generation, the engine that lets candidates compete, compares
  what was expected with what was observed and remembers the episode, and the binding of a
  runtime to an instance.
\<close>

section \<open>Contracts\<close>

datatype epistemic_grade = FACT | HYPOTHESIS | PREDICTION | ACTION_PROPOSAL

datatype memory_level = M0 | M1 | M2 | M3

record budget_envelope =
  bu_max_cycles :: int
  bu_max_candidates_per_cycle :: int
  bu_max_model_calls :: int
  bu_max_tool_calls :: int
  bu_max_tokens :: int
  bu_max_active_populations :: int
  bu_max_recursive_depth :: int
  bu_max_retrievals :: int
  bu_max_simulations :: int
  bu_max_wall_ms :: int

definition default_budget :: budget_envelope where
  "default_budget = \<lparr> bu_max_cycles = 32, bu_max_candidates_per_cycle = 32, bu_max_model_calls = 8,
     bu_max_tool_calls = 8, bu_max_tokens = 32000, bu_max_active_populations = 8,
     bu_max_recursive_depth = 4, bu_max_retrievals = 16, bu_max_simulations = 8,
     bu_max_wall_ms = 30000 \<rparr>"

definition budget_fields :: "budget_envelope \<Rightarrow> (string \<times> int) list" where
  "budget_fields u =
     [(''max_cycles'', bu_max_cycles u), (''max_candidates_per_cycle'', bu_max_candidates_per_cycle u),
      (''max_model_calls'', bu_max_model_calls u), (''max_tool_calls'', bu_max_tool_calls u),
      (''max_tokens'', bu_max_tokens u), (''max_active_populations'', bu_max_active_populations u),
      (''max_recursive_depth'', bu_max_recursive_depth u), (''max_retrievals'', bu_max_retrievals u),
      (''max_simulations'', bu_max_simulations u), (''max_wall_ms'', bu_max_wall_ms u)]"

definition validate_budget :: "budget_envelope \<Rightarrow> unit res" where
  "validate_budget u =
     (case find (\<lambda>(name, v). v \<le> 0) (budget_fields u) of
        Some (name, _) \<Rightarrow> Inl (ValueError (''budget_must_be_positive:'' @ name))
      | None \<Rightarrow> Inr ())"

record candidate =
  ca_candidate_id :: string
  ca_source_ocs :: string
  ca_content :: string
  ca_epistemic_grade :: epistemic_grade
  ca_confidence :: rat
  ca_uncertainty :: rat
  ca_salience :: rat
  ca_novelty :: rat
  ca_risk :: rat
  ca_evidence_refs :: "string list"
  ca_ttl_cycles :: int

text \<open>The first field outside the unit interval.\<close>

definition out_of_range :: "(string \<times> rat) list \<Rightarrow> string option" where
  "out_of_range named = map_option fst (find (\<lambda>(name, v). \<not> (0 \<le> v \<and> v \<le> 1)) named)"

definition validate_candidate :: "candidate \<Rightarrow> unit res" where
  "validate_candidate c =
     (if ca_candidate_id c = [] \<or> ca_source_ocs c = [] then
        Inl (ValueError ''candidate_identity_required'')
      else if ca_ttl_cycles c \<le> 0 then Inl (ValueError ''candidate_ttl_required'')
      else
        (case out_of_range [(''confidence'', ca_confidence c), (''uncertainty'', ca_uncertainty c),
             (''salience'', ca_salience c), (''novelty'', ca_novelty c), (''risk'', ca_risk c)] of
           Some name \<Rightarrow> Inl (ValueError (''candidate_field_out_of_range:'' @ name))
         | None \<Rightarrow> Inr ()))"

record prediction_residual =
  pr_semantic :: rat
  pr_goal :: rat
  pr_causal :: rat
  pr_temporal :: rat
  pr_calibration :: rat
  pr_risk :: rat
  pr_tool_behavior :: rat
  pr_environment :: rat

definition residual_mapping :: "prediction_residual \<Rightarrow> (string \<times> rat) list" where
  "residual_mapping r =
     [(''semantic'', pr_semantic r), (''goal'', pr_goal r), (''causal'', pr_causal r),
      (''temporal'', pr_temporal r), (''calibration'', pr_calibration r), (''risk'', pr_risk r),
      (''tool_behavior'', pr_tool_behavior r), (''environment'', pr_environment r)]"

record nm_state =
  nm_salience :: rat
  nm_novelty :: rat
  nm_uncertainty :: rat
  nm_confidence :: rat
  nm_risk :: rat
  nm_prediction_error :: rat
  nm_cognitive_load :: rat
  nm_exploration_drive :: rat
  nm_exploitation_drive :: rat
  nm_urgency :: rat
  nm_resource_pressure :: rat

definition nm_fields :: "nm_state \<Rightarrow> (string \<times> rat) list" where
  "nm_fields n =
     [(''salience'', nm_salience n), (''novelty'', nm_novelty n), (''uncertainty'', nm_uncertainty n),
      (''confidence'', nm_confidence n), (''risk'', nm_risk n),
      (''prediction_error'', nm_prediction_error n), (''cognitive_load'', nm_cognitive_load n),
      (''exploration_drive'', nm_exploration_drive n),
      (''exploitation_drive'', nm_exploitation_drive n), (''urgency'', nm_urgency n),
      (''resource_pressure'', nm_resource_pressure n)]"

definition validate_nm :: "nm_state \<Rightarrow> unit res" where
  "validate_nm n =
     (case out_of_range (nm_fields n) of
        Some name \<Rightarrow> Inl (ValueError (''nm_field_out_of_range:'' @ name))
      | None \<Rightarrow> Inr ())"

record commit_context =
  cc_r6_clear :: bool
  cc_authority_bound :: bool
  cc_capability_bound :: bool
  cc_execution_budget_available :: bool
  cc_state_generation_current :: bool

definition commit_allowed :: "commit_context \<Rightarrow> bool" where
  "commit_allowed c \<longleftrightarrow> list_all (\<lambda>x. x) [cc_r6_clear c, cc_authority_bound c, cc_capability_bound c,
     cc_execution_budget_available c, cc_state_generation_current c]"

record memory_record =
  me_record_id :: string
  me_ocs_id :: string
  me_level :: memory_level
  me_generation :: int
  me_provenance_ref :: string
  me_mission_id :: string
  me_payload :: "(string \<times> pyval) list"

definition validate_memory :: "memory_record \<Rightarrow> unit res" where
  "validate_memory m =
     (if [] \<in> set [me_record_id m, me_ocs_id m, me_provenance_ref m, me_mission_id m] then
        Inl (ValueError ''memory_record_identity_and_provenance_required'')
      else if me_generation m < 0 then
        Inl (ValueError ''memory_generation_must_be_non_negative'')
      else Inr ())"

definition validate_memory_promotion :: "memory_level \<Rightarrow> memory_level \<Rightarrow> bool \<Rightarrow> unit res" where
  "validate_memory_promotion source target qualified =
     (if source = M2 \<and> target = M3 \<and> \<not> qualified then
        Inl (PermissionError ''m2_to_m3_direct_forbidden'')
      else Inr ())"

text \<open>
  A \<^verbatim>\<open>datetime\<close> with a time zone is the instant it names; one without is \<open>None\<close>. The
  argument \<open>now\<close> has one.
\<close>

record cognitive_handoff =
  he_handoff_id :: string
  he_contract_version :: string
  he_mission_id :: string
  he_source_ocs :: string
  he_target_ocs :: string
  he_source_identity_ref :: string
  he_target_identity_ref :: string
  he_source_generation :: int
  he_target_expected_generation :: int
  he_authority_ref :: string
  he_authority_resolution_status :: string
  he_capability_ref :: string
  he_capability_resolution_status :: string
  he_current_gate :: string
  he_requested_action :: string
  he_allowed_actions :: "string list"
  he_forbidden_actions :: "string list"
  he_assurance_context :: string
  he_expected_output :: string
  he_acceptance_contract :: string
  he_state_hash :: string
  he_expires_at :: "rat option"
  he_ttl_seconds :: int
  he_artifact_refs :: "string list"
  he_evidence_refs :: "string list"
  he_unresolved_findings :: "string list"
  he_rollback_ref :: string

definition validate_for_target :: "cognitive_handoff \<Rightarrow> int \<Rightarrow> rat \<Rightarrow> unit res" where
  "validate_for_target h target_generation now =
     (if he_source_generation h < 0 \<or> he_target_expected_generation h < 0 then
        Inl (ValueError ''generation_must_be_non_negative'')
      else if he_target_expected_generation h \<noteq> target_generation then
        Inl (PermissionError ''generation_mismatch'')
      else if he_authority_resolution_status h \<noteq> ''RESOLVED'' then
        Inl (PermissionError ''authority_unresolved'')
      else if he_capability_resolution_status h \<noteq> ''RESOLVED'' then
        Inl (PermissionError ''capability_unresolved'')
      else if he_ttl_seconds h \<le> 0 then Inl (PermissionError ''invalid_handoff_ttl'')
      else
        (case he_expires_at h of
           None \<Rightarrow> Inl (ValueError ''handoff_expiry_must_be_timezone_aware'')
         | Some t \<Rightarrow>
            if now \<ge> t then Inl (PermissionError ''stale_handoff'')
            else if he_authority_ref h = [] \<or> he_capability_ref h = [] then
              Inl (PermissionError ''authority_or_capability_reference_missing'')
            else Inr ()))"

section \<open>The runtime\<close>

record workspace_state =
  ws_generation :: int
  ws_candidates :: "(string \<times> candidate) list"
  ws_broadcast_ids :: "string list"

definition new_workspace :: "int \<Rightarrow> workspace_state" where
  "new_workspace generation = \<lparr> ws_generation = generation, ws_candidates = [], ws_broadcast_ids = [] \<rparr>"

definition add_candidate :: "candidate \<Rightarrow> (workspace_state, unit) py" where
  "add_candidate c =
     py_bind (py_lift (validate_candidate c)) (\<lambda>_.
     py_modify (\<lambda>w. w\<lparr>ws_candidates := dset (ca_candidate_id c) c (ws_candidates w)\<rparr>))"

definition broadcast :: "string \<Rightarrow> (workspace_state, candidate) py" where
  "broadcast candidate_id =
     py_bind (py_gets (\<lambda>w. map_of (ws_candidates w) candidate_id)) (\<lambda>found.
     case found of
       None \<Rightarrow> py_raise (KeyError candidate_id)
     | Some c \<Rightarrow>
         py_bind (py_modify (\<lambda>w.
           if candidate_id \<in> set (ws_broadcast_ids w) then w
           else w\<lparr>ws_broadcast_ids := ws_broadcast_ids w @ [candidate_id]\<rparr>)) (\<lambda>_.
         py_return c))"

record institutional_state =
  in_generation :: int
  in_values :: "(string \<times> pyval) list"
  in_committed_transition_ids :: "string set"

definition update_values :: "(string \<times> pyval) list \<Rightarrow> (string \<times> pyval) list \<Rightarrow> (string \<times> pyval) list" where
  "update_values changes old = fold (\<lambda>(k, v). dset k v) changes old"

definition commit_world ::
    "string \<Rightarrow> int \<Rightarrow> (string \<times> pyval) list \<Rightarrow> bool \<Rightarrow> bool \<Rightarrow> (institutional_state, int) py" where
  "commit_world transition_id expected_generation changes authority_validated r6_validated =
     (if \<not> authority_validated then
        py_raise (PermissionError ''institutional_commit_authority_required'')
      else if \<not> r6_validated then
        py_raise (PermissionError ''institutional_commit_r6_validation_required'')
      else (\<lambda>w.
        if transition_id \<in> in_committed_transition_ids w then (Inr (in_generation w), w)
        else if expected_generation \<noteq> in_generation w then
          (Inl (PermissionError ''institutional_generation_mismatch''), w)
        else (Inr (in_generation w + 1),
          w\<lparr>in_values := update_values changes (in_values w),
            in_committed_transition_ids := insert transition_id (in_committed_transition_ids w),
            in_generation := in_generation w + 1\<rparr>)))"

record cognitive_runtime =
  ct_ocs_id :: string
  ct_identity_ref :: string
  ct_state_namespace :: string
  ct_memory_namespace :: string
  ct_generation :: int
  ct_budget :: budget_envelope
  ct_workspace :: workspace_state
  ct_world :: institutional_state
  ct_cycles :: int
  ct_executed_effect_ids :: "string set"

definition new_cognitive_runtime ::
    "string \<Rightarrow> string \<Rightarrow> string \<Rightarrow> string \<Rightarrow> int \<Rightarrow> budget_envelope option \<Rightarrow> cognitive_runtime res" where
  "new_cognitive_runtime ocs_id identity_ref state_namespace memory_namespace generation budget =
     (let b = (case budget of None \<Rightarrow> default_budget | Some u \<Rightarrow> u)
      in case validate_budget b of
           Inl e \<Rightarrow> Inl e
         | Inr _ \<Rightarrow> Inr \<lparr> ct_ocs_id = ocs_id, ct_identity_ref = identity_ref,
             ct_state_namespace = state_namespace, ct_memory_namespace = memory_namespace,
             ct_generation = generation, ct_budget = b, ct_workspace = new_workspace generation,
             ct_world = \<lparr> in_generation = generation, in_values = [], in_committed_transition_ids = {} \<rparr>,
             ct_cycles = 0, ct_executed_effect_ids = {} \<rparr>)"

definition on_workspace :: "(workspace_state, 'a) py \<Rightarrow> (cognitive_runtime, 'a) py" where
  "on_workspace m = py_on ct_workspace (\<lambda>w s. s\<lparr>ct_workspace := w\<rparr>) m"

definition on_institution :: "(institutional_state, 'a) py \<Rightarrow> (cognitive_runtime, 'a) py" where
  "on_institution m = py_on ct_world (\<lambda>w s. s\<lparr>ct_world := w\<rparr>) m"

definition assert_generation :: "int \<Rightarrow> (cognitive_runtime, unit) py" where
  "assert_generation generation = (\<lambda>s.
     if generation \<noteq> ct_generation s then (Inl (PermissionError ''stale_generation_writer''), s)
     else (Inr (), s))"

definition reserve_cycle :: "int \<Rightarrow> int \<Rightarrow> (cognitive_runtime, unit) py" where
  "reserve_cycle generation candidate_count =
     py_bind (assert_generation generation) (\<lambda>_. \<lambda>s.
     if candidate_count \<le> 0 then (Inl (ValueError ''cognitive_cycle_requires_candidates''), s)
     else if candidate_count > bu_max_candidates_per_cycle (ct_budget s) then
       (Inl (RuntimeError ''candidate_budget_exhausted''), s)
     else if ct_cycles s \<ge> bu_max_cycles (ct_budget s) then
       (Inl (RuntimeError ''cognitive_cycle_budget_exhausted''), s)
     else (Inr (), s\<lparr>ct_cycles := ct_cycles s + 1\<rparr>))"

definition ingest_candidate :: "candidate \<Rightarrow> int \<Rightarrow> (cognitive_runtime, unit) py" where
  "ingest_candidate c generation =
     py_bind (assert_generation generation) (\<lambda>_.
     py_bind (py_gets ct_ocs_id) (\<lambda>ocs_id.
     if ca_source_ocs c \<noteq> ocs_id then
       py_raise (PermissionError ''foreign_candidate_requires_explicit_handoff'')
     else on_workspace (add_candidate c)))"

definition cognitive_ignition :: "string \<Rightarrow> int \<Rightarrow> (cognitive_runtime, candidate) py" where
  "cognitive_ignition candidate_id generation =
     py_bind (assert_generation generation) (\<lambda>_. on_workspace (broadcast candidate_id))"

text \<open>
  The effect of \<^verbatim>\<open>operational_commit\<close> is a callable of the caller: an operation on an outside
  world. It does not call the runtime back.
\<close>

definition operational_commit ::
    "string \<Rightarrow> commit_context \<Rightarrow> int \<Rightarrow> ('w, 'a) py \<Rightarrow> (cognitive_runtime \<times> 'w, 'a) py" where
  "operational_commit effect_id context generation eff =
     py_bind (py_on fst (\<lambda>s (_, w). (s, w)) (assert_generation generation)) (\<lambda>_.
     if \<not> commit_allowed context then
       py_raise (PermissionError ''operational_commit_denied'')
     else
       py_bind (py_gets (\<lambda>(s, w). effect_id \<in> ct_executed_effect_ids s)) (\<lambda>used.
       if used then py_raise (PermissionError ''duplicate_effect_denied'')
       else
         py_bind (py_on snd (\<lambda>w (s, _). (s, w)) eff) (\<lambda>result.
         py_bind (py_modify (\<lambda>(s, w).
           (s\<lparr>ct_executed_effect_ids := insert effect_id (ct_executed_effect_ids s)\<rparr>, w))) (\<lambda>_.
         py_return result))))"

definition advance_generation :: "int \<Rightarrow> (cognitive_runtime, unit) py" where
  "advance_generation new_generation = (\<lambda>s.
     if new_generation \<le> ct_generation s then (Inl (ValueError ''generation_must_advance''), s)
     else (Inr (), s\<lparr>ct_generation := new_generation,
       ct_workspace := (ct_workspace s)\<lparr>ws_generation := new_generation\<rparr>\<rparr>))"

definition institutional_commit ::
    "string \<Rightarrow> int \<Rightarrow> (string \<times> pyval) list \<Rightarrow> bool \<Rightarrow> bool \<Rightarrow> (cognitive_runtime, int) py" where
  "institutional_commit transition_id expected_generation changes authority_validated r6_validated =
     py_bind (py_gets (\<lambda>s. in_generation (ct_world s))) (\<lambda>previous_generation.
     py_bind (on_institution (commit_world transition_id expected_generation changes
       authority_validated r6_validated)) (\<lambda>new_generation.
     py_bind (if new_generation > previous_generation then advance_generation new_generation
              else py_return ()) (\<lambda>_.
     py_return new_generation)))"

definition recover_to_generation :: "int \<Rightarrow> (cognitive_runtime, unit) py" where
  "recover_to_generation restored_generation =
     (if restored_generation < 0 then py_raise (ValueError ''invalid_recovery_generation'')
      else py_modify (\<lambda>s.
        let next_generation = max (ct_generation s) restored_generation + 1
        in s\<lparr>ct_generation := next_generation, ct_workspace := new_workspace next_generation,
             ct_world := (ct_world s)\<lparr>in_generation := next_generation\<rparr>, ct_cycles := 0\<rparr>))"

section \<open>The engine\<close>

text \<open>
  Floating-point arithmetic: the exact result of an operation is rounded by \<open>fl\<close>, and
  \<open>fsum\<close> is what the built-in \<^verbatim>\<open>sum\<close> answers to a list of floats, which depends on the
  interpreter's version. Comparisons, \<^verbatim>\<open>min\<close>, \<^verbatim>\<open>max\<close> and the sign are exact.
\<close>

record float_arith =
  fl :: "rat \<Rightarrow> rat"
  fsum :: "rat list \<Rightarrow> rat"

text \<open>
  Python's equality of values: numbers of different types are equal when their values are, and
  dictionaries do not regard the order of their keys.
\<close>

fun plain_numbers :: "pyval \<Rightarrow> pyval" where
  "plain_numbers (PyInt n) = PyFloat (of_int n)"
| "plain_numbers (PyBool b) = PyFloat (if b then 1 else 0)"
| "plain_numbers (PyList xs) = PyList (map plain_numbers xs)"
| "plain_numbers (PyTuple xs) = PyTuple (map plain_numbers xs)"
| "plain_numbers (PyDict kvs) = PyDict (map (\<lambda>(k, v). (k, plain_numbers v)) kvs)"
| "plain_numbers v = v"

definition values_equal :: "pyval \<Rightarrow> pyval \<Rightarrow> bool" where
  "values_equal a b \<longleftrightarrow> py_eq (plain_numbers a) (plain_numbers b)"

record expected_outcome =
  eo_expected_observation :: "(string \<times> pyval) list"
  eo_expected_effect :: "(string \<times> pyval) list"
  eo_expected_state_delta :: "(string \<times> pyval) list"
  eo_expected_latency_ms :: "int option"
  eo_expected_failure_modes :: "string list"

record observed_outcome =
  oo_observation :: "(string \<times> pyval) list"
  oo_effect :: "(string \<times> pyval) list"
  oo_state_delta :: "(string \<times> pyval) list"
  oo_latency_ms :: "int option"
  oo_failure_mode :: "string option"

record competition_result =
  cr_winner_id :: string
  cr_ranked_ids :: "string list"
  cr_scores :: "(string \<times> rat) list"

definition score_value :: "float_arith \<Rightarrow> candidate \<Rightarrow> rat" where
  "score_value F c =
     (let f = fl F;
          mul = (\<lambda>k x. f (f k * x));
          bonus = f (of_nat (min (length (ca_evidence_refs c)) 3) * f (5 / 100));
          a = f (mul (25 / 100) (ca_salience c) + mul (20 / 100) (ca_novelty c));
          b = f (a + mul (20 / 100) (ca_confidence c));
          e = f (b + mul (15 / 100) (f (1 - ca_uncertainty c)))
      in f (f (e + bonus) - mul (25 / 100) (ca_risk c)))"

definition score :: "float_arith \<Rightarrow> candidate \<Rightarrow> rat res" where
  "score F c = (case validate_candidate c of Inl e \<Rightarrow> Inl e | Inr _ \<Rightarrow> Inr (score_value F c))"

text \<open>The dictionary of scores; of two candidates with one id the later score counts.\<close>

fun score_all :: "float_arith \<Rightarrow> candidate list \<Rightarrow> (string \<times> rat) list \<Rightarrow> (string \<times> rat) list res" where
  "score_all F [] scores = Inr scores"
| "score_all F (c # cs) scores =
     (case score F c of
        Inl e \<Rightarrow> Inl e
      | Inr x \<Rightarrow> score_all F cs (dset (ca_candidate_id c) x scores))"

definition ranking :: "(string \<times> rat) list \<Rightarrow> string list" where
  "ranking scores = sort_key (\<lambda>i. (- the (map_of scores i), i)) (map fst scores)"

definition compete :: "float_arith \<Rightarrow> candidate list \<Rightarrow> competition_result res" where
  "compete F candidates =
     (if candidates = [] then Inl (ValueError ''competition_requires_candidates'')
      else
        (case score_all F candidates [] of
           Inl e \<Rightarrow> Inl e
         | Inr scores \<Rightarrow>
             (let ranked = ranking scores
              in Inr \<lparr> cr_winner_id = hd ranked, cr_ranked_ids = ranked, cr_scores = scores \<rparr>)))"

definition value_or_none :: "(string \<times> pyval) list \<Rightarrow> string \<Rightarrow> pyval" where
  "value_or_none d k = (case map_of d k of None \<Rightarrow> PyNone | Some v \<Rightarrow> v)"

definition mismatch :: "float_arith \<Rightarrow> (string \<times> pyval) list \<Rightarrow> (string \<times> pyval) list \<Rightarrow> rat" where
  "mismatch F left right =
     (let keys = remdups (map fst left @ map fst right)
      in if keys = [] then 0
         else fl F (of_nat (length (filter (\<lambda>k.
                 \<not> values_equal (value_or_none left k) (value_or_none right k)) keys))
               / of_nat (length keys)))"

definition temporal_residual :: "float_arith \<Rightarrow> int option \<Rightarrow> int option \<Rightarrow> rat" where
  "temporal_residual F expected observed =
     (case (expected, observed) of
        (Some e, Some n) \<Rightarrow> min (fl F (of_int \<bar>n - e\<bar> / of_int (max e 1))) 1
      | _ \<Rightarrow> 0)"

definition compare_outcomes :: "float_arith \<Rightarrow> expected_outcome \<Rightarrow> observed_outcome \<Rightarrow> prediction_residual" where
  "compare_outcomes F e n =
     \<lparr> pr_semantic = mismatch F (eo_expected_observation e) (oo_observation n),
       pr_goal = mismatch F (eo_expected_effect e) (oo_effect n),
       pr_causal = mismatch F (eo_expected_state_delta e) (oo_state_delta n),
       pr_temporal = temporal_residual F (eo_expected_latency_ms e) (oo_latency_ms n),
       pr_calibration = 0,
       pr_risk = (case oo_failure_mode n of
          None \<Rightarrow> 0
        | Some m \<Rightarrow> if m \<in> set (eo_expected_failure_modes e) then 0 else 1),
       pr_tool_behavior = mismatch F (eo_expected_effect e) (oo_effect n),
       pr_environment = mismatch F (eo_expected_observation e) (oo_observation n) \<rparr>"

definition modulated :: "float_arith \<Rightarrow> candidate \<Rightarrow> prediction_residual \<Rightarrow> nm_state" where
  "modulated F winner residual =
     (let values = map snd (residual_mapping residual);
          residual_mean = fl F (fsum F values / of_nat (length (residual_mapping residual)))
      in \<lparr> nm_salience = ca_salience winner, nm_novelty = ca_novelty winner,
           nm_uncertainty = ca_uncertainty winner, nm_confidence = ca_confidence winner,
           nm_risk = max (ca_risk winner) (pr_risk residual),
           nm_prediction_error = min (max residual_mean 0) 1,
           nm_cognitive_load = min (fl F (1 / 2 + fl F (ca_uncertainty winner * (1 / 2)))) 1,
           nm_exploration_drive = ca_novelty winner, nm_exploitation_drive = ca_confidence winner,
           nm_urgency = max (ca_salience winner) (ca_risk winner), nm_resource_pressure = 0 \<rparr>)"

definition modulate :: "float_arith \<Rightarrow> candidate \<Rightarrow> prediction_residual \<Rightarrow> nm_state res" where
  "modulate F winner residual =
     (let n = modulated F winner residual
      in case validate_nm n of Inl e \<Rightarrow> Inl e | Inr _ \<Rightarrow> Inr n)"

section \<open>Local memory\<close>

record local_memory =
  lo_ocs_id :: string
  lo_records :: "(memory_level \<times> string) \<Rightarrow> memory_record option"

definition new_memory :: "string \<Rightarrow> local_memory" where
  "new_memory ocs_id = \<lparr> lo_ocs_id = ocs_id, lo_records = (\<lambda>_. None) \<rparr>"

definition put_memory :: "memory_record \<Rightarrow> (local_memory, unit) py" where
  "put_memory r =
     py_bind (py_lift (validate_memory r)) (\<lambda>_.
     py_bind (py_gets lo_ocs_id) (\<lambda>ocs_id.
     if me_ocs_id r \<noteq> ocs_id then py_raise (PermissionError ''cross_ocs_memory_write_denied'')
     else py_modify (\<lambda>m. m\<lparr>lo_records := (lo_records m)((me_level r, me_record_id r) \<mapsto> r)\<rparr>)))"

definition get_memory :: "memory_level \<Rightarrow> string \<Rightarrow> (local_memory, memory_record) py" where
  "get_memory level record_id =
     py_bind (py_gets (\<lambda>m. lo_records m (level, record_id))) (\<lambda>found.
     case found of None \<Rightarrow> py_raise (KeyError record_id) | Some r \<Rightarrow> py_return r)"

definition consolidate ::
    "string \<Rightarrow> string \<Rightarrow> bool \<Rightarrow> bool \<Rightarrow> int \<Rightarrow> (local_memory, memory_record) py" where
  "consolidate source_record_id target_record_id qualified persistence_authorized generation =
     py_bind (py_lift (validate_memory_promotion M2 M3 qualified)) (\<lambda>_.
     if \<not> persistence_authorized then
       py_raise (PermissionError ''m3_persistence_authority_required'')
     else
       py_bind (get_memory M2 source_record_id) (\<lambda>source.
       py_bind (py_gets lo_ocs_id) (\<lambda>ocs_id.
       let target = \<lparr> me_record_id = target_record_id, me_ocs_id = ocs_id, me_level = M3,
             me_generation = generation, me_provenance_ref = me_provenance_ref source,
             me_mission_id = me_mission_id source,
             me_payload = [(''derived_from'', PyStr (me_record_id source)),
                           (''qualified_payload'', PyDict (me_payload source))] \<rparr>
       in py_bind (put_memory target) (\<lambda>_. py_return target))))"

section \<open>A cognitive cycle\<close>

record 'w engine =
  en_runtime :: cognitive_runtime
  en_memory :: local_memory
  en_outside :: 'w

record cycle_result =
  cy_winner :: candidate
  cy_competition :: competition_result
  cy_effect_result :: "pyval option"
  cy_residual :: prediction_residual
  cy_nm_state :: nm_state
  cy_episodic_record :: memory_record

definition new_engine :: "cognitive_runtime \<Rightarrow> 'w \<Rightarrow> 'w engine" where
  "new_engine r w = \<lparr> en_runtime = r, en_memory = new_memory (ct_ocs_id r), en_outside = w \<rparr>"

definition on_runtime :: "(cognitive_runtime, 'a) py \<Rightarrow> ('w engine, 'a) py" where
  "on_runtime m = py_on en_runtime (\<lambda>r s. s\<lparr>en_runtime := r\<rparr>) m"

definition on_memory :: "(local_memory, 'a) py \<Rightarrow> ('w engine, 'a) py" where
  "on_memory m = py_on en_memory (\<lambda>r s. s\<lparr>en_memory := r\<rparr>) m"

definition on_outside :: "('w, 'a) py \<Rightarrow> ('w engine, 'a) py" where
  "on_outside m = py_on en_outside (\<lambda>r s. s\<lparr>en_outside := r\<rparr>) m"

definition on_commit :: "(cognitive_runtime \<times> 'w, 'a) py \<Rightarrow> ('w engine, 'a) py" where
  "on_commit m = py_on (\<lambda>s. (en_runtime s, en_outside s))
     (\<lambda>(r, w) s. s\<lparr>en_runtime := r, en_outside := w\<rparr>) m"

fun ingest_all :: "candidate list \<Rightarrow> int \<Rightarrow> (cognitive_runtime, unit) py" where
  "ingest_all [] generation = py_return ()"
| "ingest_all (c # cs) generation =
     py_bind (ingest_candidate c generation) (\<lambda>_. ingest_all cs generation)"

record 'w cycle_request =
  cq_mission_id :: string
  cq_candidates :: "candidate list"
  cq_expected :: expected_outcome
  cq_observe :: "('w, observed_outcome) py"
  cq_generation :: int
  cq_action_effect_id :: "string option"
  cq_action :: "('w, pyval) py option"
  cq_commit_context :: "commit_context option"
  cq_provenance_ref :: string

text \<open>\<^verbatim>\<open>by_id[winner_id]\<close>: the last candidate of that id.\<close>

definition winner_of :: "candidate list \<Rightarrow> string \<Rightarrow> candidate option" where
  "winner_of candidates i = find (\<lambda>c. ca_candidate_id c = i) (List.rev candidates)"

definition run_action :: "'w cycle_request \<Rightarrow> ('w engine, pyval option) py" where
  "run_action q =
     (case cq_action q of
        None \<Rightarrow> py_return None
      | Some action \<Rightarrow>
         (case (cq_action_effect_id q, cq_commit_context q) of
            (Some effect_id, Some context) \<Rightarrow>
              py_bind (on_commit (operational_commit effect_id context (cq_generation q) action))
                (\<lambda>result. py_return (Some result))
          | _ \<Rightarrow> py_raise (PermissionError ''material_action_requires_explicit_operational_commit'')))"

definition episode :: "string \<Rightarrow> 'w cycle_request \<Rightarrow> candidate \<Rightarrow> competition_result
    \<Rightarrow> prediction_residual \<Rightarrow> memory_record" where
  "episode ocs_id q winner competition residual =
     \<lparr> me_record_id = ''episode:'' @ cq_mission_id q @ '':'' @ ca_candidate_id winner @ '':'' @
         show_int (cq_generation q),
       me_ocs_id = ocs_id, me_level = M2, me_generation = cq_generation q,
       me_provenance_ref = cq_provenance_ref q, me_mission_id = cq_mission_id q,
       me_payload = [(''winner_id'', PyStr (ca_candidate_id winner)),
         (''ranked_ids'', PyTuple (map PyStr (cr_ranked_ids competition))),
         (''residual'', PyDict (map (\<lambda>(k, x). (k, PyFloat x)) (residual_mapping residual))),
         (''effect_executed'', PyBool (cq_action q \<noteq> None))] \<rparr>"

text \<open>From the action on: effect, observation, comparison, modulation, episode.\<close>

definition conclude_cycle ::
    "float_arith \<Rightarrow> 'w cycle_request \<Rightarrow> competition_result \<Rightarrow> candidate \<Rightarrow> ('w engine, cycle_result) py" where
  "conclude_cycle F q competition winner =
     py_bind (run_action q) (\<lambda>effect_result.
     py_bind (on_outside (cq_observe q)) (\<lambda>observed.
     let residual = compare_outcomes F (cq_expected q) observed
     in py_bind (py_lift (modulate F winner residual)) (\<lambda>nm.
        py_bind (on_runtime (py_gets ct_ocs_id)) (\<lambda>ocs_id.
        let e = episode ocs_id q winner competition residual
        in py_bind (on_memory (put_memory e)) (\<lambda>_.
           py_return \<lparr> cy_winner = winner, cy_competition = competition,
             cy_effect_result = effect_result, cy_residual = residual, cy_nm_state = nm,
             cy_episodic_record = e \<rparr>)))))"

definition run_cycle :: "float_arith \<Rightarrow> 'w cycle_request \<Rightarrow> ('w engine, cycle_result) py" where
  "run_cycle F q =
     py_bind (py_lift (compete F (cq_candidates q))) (\<lambda>competition.
     py_bind (on_runtime (reserve_cycle (cq_generation q) (int (length (cq_candidates q))))) (\<lambda>_.
     case winner_of (cq_candidates q) (cr_winner_id competition) of
       None \<Rightarrow> py_raise (KeyError (cr_winner_id competition))
     | Some winner \<Rightarrow>
         py_bind (on_runtime (ingest_all (cq_candidates q) (cq_generation q))) (\<lambda>_.
         py_bind (on_runtime (cognitive_ignition (ca_candidate_id winner) (cq_generation q))) (\<lambda>_.
         conclude_cycle F q competition winner))))"

section \<open>Binding the runtime to an instance\<close>

record cognitive_binding_context =
  cb_binding_id :: string
  cb_authority_ref :: string
  cb_profile_hash :: string
  cb_generation :: int
  cb_runtime :: cognitive_runtime

definition bind_cognitive_runtime :: "instance_binding \<Rightarrow> cognitive_binding_context res" where
  "bind_cognitive_runtime b =
     (if ib_maturity b \<noteq> OPERATIONALLY_BOUND_L1 then
        Inl (PermissionError ''cognitive_runtime_requires_operational_binding'')
      else if ib_status b \<noteq> In_ACTIVE then
        Inl (PermissionError ''cognitive_runtime_requires_active_instance'')
      else if ib_generation b < 0 then Inl (ValueError ''binding_generation_must_be_non_negative'')
      else if ib_authority_ref b = [] then
        Inl (PermissionError ''binding_authority_reference_required'')
      else
        (case get_profile (ib_ocs_id b) of
           Inl e \<Rightarrow> Inl e
         | Inr p \<Rightarrow>
             if ib_profile_version b \<noteq> op_version p then
               Inl (PermissionError ''binding_profile_version_mismatch'')
             else if ib_state_namespace b \<noteq> op_state_namespace p then
               Inl (PermissionError ''binding_state_namespace_mismatch'')
             else if ib_memory_namespace b \<noteq> op_memory_namespace p then
               Inl (PermissionError ''binding_memory_namespace_mismatch'')
             else
               (case new_cognitive_runtime (ib_ocs_id b) (op_identity p) (ib_state_namespace b)
                   (ib_memory_namespace b) (ib_generation b) None of
                  Inl e \<Rightarrow> Inl e
                | Inr r \<Rightarrow> Inr \<lparr> cb_binding_id = ib_binding_id b, cb_authority_ref = ib_authority_ref b,
                    cb_profile_hash = ib_profile_hash b, cb_generation = ib_generation b,
                    cb_runtime = r \<rparr>)))"

end
