(* ===== verification/Cognition_Safety.thy ===== *)
theory Cognition_Safety
  imports Cognition
begin

text \<open>
  What the cognitive runtime and its engine promise over any history of calls, what a
  competition answers, and the range of what modulation computes.
\<close>

section \<open>Histories of an engine\<close>

definition workspace_ok :: "string \<Rightarrow> workspace_state \<Rightarrow> bool" where
  "workspace_ok ocs_id w \<longleftrightarrow>
     (\<forall>k c. map_of (ws_candidates w) k = Some c \<longrightarrow>
        ca_candidate_id c = k \<and> ca_source_ocs c = ocs_id \<and> validate_candidate c = Inr ()) \<and>
     distinct (ws_broadcast_ids w) \<and>
     (\<forall>i \<in> set (ws_broadcast_ids w). map_of (ws_candidates w) i \<noteq> None)"

definition runtime_ok :: "cognitive_runtime \<Rightarrow> bool" where
  "runtime_ok s \<longleftrightarrow>
     validate_budget (ct_budget s) = Inr () \<and>
     0 \<le> ct_cycles s \<and> ct_cycles s \<le> bu_max_cycles (ct_budget s) \<and>
     ws_generation (ct_workspace s) = ct_generation s \<and>
     in_generation (ct_world s) = ct_generation s \<and> workspace_ok (ct_ocs_id s) (ct_workspace s)"

text \<open>What any later state of a runtime has in common with an earlier one.\<close>

definition runtime_order :: "cognitive_runtime \<Rightarrow> cognitive_runtime \<Rightarrow> bool" where
  "runtime_order s t \<longleftrightarrow> (runtime_ok s \<longrightarrow> runtime_ok t) \<and> ct_ocs_id t = ct_ocs_id s \<and>
     ct_budget t = ct_budget s \<and> (runtime_ok s \<longrightarrow> ct_generation s \<le> ct_generation t) \<and>
     ct_executed_effect_ids s \<subseteq> ct_executed_effect_ids t \<and>
     in_committed_transition_ids (ct_world s) \<subseteq> in_committed_transition_ids (ct_world t)"

interpretation rto: step_order runtime_order
  by unfold_locales (auto simp: runtime_order_def)

lemma out_of_range_None: "out_of_range xs = None \<longleftrightarrow> (\<forall>(n, v) \<in> set xs. 0 \<le> v \<and> v \<le> 1)"
  by (auto simp: out_of_range_def find_None_iff)

lemma validate_candidate_Inr:
  "validate_candidate c = Inr () \<longleftrightarrow>
     ca_candidate_id c \<noteq> [] \<and> ca_source_ocs c \<noteq> [] \<and> 0 < ca_ttl_cycles c \<and>
     (\<forall>v \<in> {ca_confidence c, ca_uncertainty c, ca_salience c, ca_novelty c, ca_risk c}. 0 \<le> v \<and> v \<le> 1)"
proof -
  have "validate_candidate c = Inr () \<longleftrightarrow>
     ca_candidate_id c \<noteq> [] \<and> ca_source_ocs c \<noteq> [] \<and> 0 < ca_ttl_cycles c \<and>
     out_of_range [(''confidence'', ca_confidence c), (''uncertainty'', ca_uncertainty c),
             (''salience'', ca_salience c), (''novelty'', ca_novelty c), (''risk'', ca_risk c)] = None"
    by (auto simp: validate_candidate_def split: option.splits)
  then show ?thesis by (auto simp: out_of_range_None)
qed

lemma default_budget_ok: "validate_budget default_budget = Inr ()"
  by (simp add: validate_budget_def budget_fields_def default_budget_def)

lemma new_cognitive_runtime_ok:
  assumes "new_cognitive_runtime o1 i sn mn g u = Inr s"
  shows "runtime_ok s"
proof -
  obtain b where b: "validate_budget b = Inr ()" and
    s: "s = \<lparr> ct_ocs_id = o1, ct_identity_ref = i, ct_state_namespace = sn, ct_memory_namespace = mn,
       ct_generation = g, ct_budget = b, ct_workspace = new_workspace g,
       ct_world = \<lparr> in_generation = g, in_values = [], in_committed_transition_ids = {} \<rparr>,
       ct_cycles = 0, ct_executed_effect_ids = {} \<rparr>"
    using assms by (auto simp: new_cognitive_runtime_def Let_def split: sum.splits option.splits)
  have "0 < bu_max_cycles b" using b
    by (auto simp: validate_budget_def budget_fields_def split: if_splits)
  then show ?thesis using b by (simp add: s runtime_ok_def workspace_ok_def new_workspace_def)
qed

lemma assert_generation_order: "steps runtime_order (assert_generation g)"
  by (simp add: steps_def assert_generation_def rto.step_refl)

lemma reserve_cycle_order: "steps runtime_order (reserve_cycle g n)"
proof -
  have "runtime_order s (s\<lparr>ct_cycles := ct_cycles s + 1\<rparr>)" if "\<not> ct_cycles s \<ge> bu_max_cycles (ct_budget s)" for s
    using that by (auto simp: runtime_order_def runtime_ok_def)
  then have "steps runtime_order (\<lambda>s.
     if n \<le> 0 then (Inl (ValueError ''cognitive_cycle_requires_candidates''), s)
     else if n > bu_max_candidates_per_cycle (ct_budget s) then
       (Inl (RuntimeError ''candidate_budget_exhausted''), s)
     else if ct_cycles s \<ge> bu_max_cycles (ct_budget s) then
       (Inl (RuntimeError ''cognitive_cycle_budget_exhausted''), s)
     else (Inr (), s\<lparr>ct_cycles := ct_cycles s + 1\<rparr>))"
    by (simp add: steps_def rto.step_refl)
  then show ?thesis
    unfolding reserve_cycle_def by (intro rto.steps_bind assert_generation_order)
qed

lemma add_candidate_ok:
  assumes "add_candidate c w = (r, w')" and "ca_source_ocs c = ocs" and "workspace_ok ocs w"
  shows "workspace_ok ocs w' \<and> ws_generation w' = ws_generation w"
  using assms
  by (auto simp: add_candidate_def py_simps workspace_ok_def map_of_dset split: sum.splits if_splits)

lemma broadcast_ok:
  assumes "broadcast i w = (r, w')" and "workspace_ok ocs w"
  shows "workspace_ok ocs w' \<and> ws_generation w' = ws_generation w"
  using assms by (auto simp: broadcast_def py_simps workspace_ok_def split: option.splits if_splits)

lemma workspace_step:
  assumes "\<And>w r w'. m w = (r, w') \<Longrightarrow> workspace_ok ocs w \<Longrightarrow> workspace_ok ocs w' \<and> ws_generation w' = ws_generation w"
    and "ct_ocs_id s = ocs" and "on_workspace m s = (r, t)"
  shows "runtime_order s t"
proof -
  obtain w' where w: "m (ct_workspace s) = (r, w')" "t = s\<lparr>ct_workspace := w'\<rparr>"
    using assms(3) by (cases "m (ct_workspace s)") (simp add: on_workspace_def py_on_run)
  show ?thesis
    using assms(1) [OF w(1)] assms(2) by (auto simp: w(2) runtime_order_def runtime_ok_def)
qed

lemma ingest_order: "steps runtime_order (ingest_candidate c g)"
proof (rule stepsI)
  fix s :: cognitive_runtime
  show "runtime_order s (snd (ingest_candidate c g s))"
  proof (cases "g = ct_generation s \<and> ca_source_ocs c = ct_ocs_id s")
    case True
    then have "ingest_candidate c g s = on_workspace (add_candidate c) s"
      by (simp add: ingest_candidate_def assert_generation_def py_bind_run py_gets_run)
    then show ?thesis
      using workspace_step [of "add_candidate c" "ct_ocs_id s" s] add_candidate_ok True
      by (metis prod.collapse)
  next
    case False
    then have "snd (ingest_candidate c g s) = s"
      by (auto simp: ingest_candidate_def assert_generation_def py_simps)
    then show ?thesis by (simp add: rto.step_refl)
  qed
qed

lemma ignition_order: "steps runtime_order (cognitive_ignition i g)"
proof -
  have "steps runtime_order (on_workspace (broadcast i))"
    using workspace_step [of "broadcast i"] broadcast_ok by (intro stepsI) (metis prod.collapse)
  then show ?thesis
    unfolding cognitive_ignition_def by (intro rto.steps_bind assert_generation_order)
qed

lemma ingest_all_order: "steps runtime_order (ingest_all cs g)"
  by (induction cs) (auto intro!: rto.steps_bind rto.steps_return ingest_order)

lemma recover_generation_order: "steps runtime_order (recover_to_generation n)"
proof -
  have "runtime_order s (s\<lparr>ct_generation := m, ct_workspace := new_workspace m,
             ct_world := (ct_world s)\<lparr>in_generation := m\<rparr>, ct_cycles := 0\<rparr>)"
    if "m = max (ct_generation s) n + 1" for s m
    using that by (auto simp: runtime_order_def runtime_ok_def workspace_ok_def new_workspace_def)
  then show ?thesis
    by (auto simp: recover_to_generation_def Let_def intro!: rto.steps_raise rto.steps_modify)
qed

text \<open>A transition of the institution never fails half-way: the generation can always advance.\<close>

lemma institutional_commit_cases:
  assumes "runtime_ok s"
  obtains x where "institutional_commit i g ch au r6 s = (Inl x, s)"
  | "i \<in> in_committed_transition_ids (ct_world s)" "institutional_commit i g ch au r6 s = (Inr (ct_generation s), s)"
  | "au" "r6" "i \<notin> in_committed_transition_ids (ct_world s)" "g = ct_generation s"
    "institutional_commit i g ch au r6 s = (Inr (ct_generation s + 1),
       s\<lparr>ct_generation := ct_generation s + 1,
         ct_workspace := (ct_workspace s)\<lparr>ws_generation := ct_generation s + 1\<rparr>,
         ct_world := (ct_world s)\<lparr>in_values := update_values ch (in_values (ct_world s)),
            in_committed_transition_ids := insert i (in_committed_transition_ids (ct_world s)),
            in_generation := ct_generation s + 1\<rparr>\<rparr>)"
proof -
  have g: "in_generation (ct_world s) = ct_generation s" using assms by (simp add: runtime_ok_def)
  consider "\<not> (au \<and> r6)" | "au" "r6" "i \<in> in_committed_transition_ids (ct_world s)"
    | "au" "r6" "i \<notin> in_committed_transition_ids (ct_world s)" "g \<noteq> ct_generation s"
    | "au" "r6" "i \<notin> in_committed_transition_ids (ct_world s)" "g = ct_generation s" by blast
  then show thesis
  proof cases
    case 1
    then have "\<exists>x. commit_world i g ch au r6 = py_raise x"
      by (cases au) (auto simp: commit_world_def)
    then obtain x where "commit_world i g ch au r6 = py_raise x" ..
    then show thesis
      by (intro that(1) [of x]) (simp add: institutional_commit_def on_institution_def py_on_run py_simps)
  next
    case 2
    then show thesis
      by (intro that(2)) (simp_all add: institutional_commit_def commit_world_def on_institution_def
        py_on_run py_simps g)
  next
    case 3
    then show thesis
      by (intro that(1) [of "PermissionError ''institutional_generation_mismatch''"])
        (simp add: institutional_commit_def commit_world_def on_institution_def py_on_run py_simps g)
  next
    case 4
    then show thesis
      by (intro that(3)) (simp_all add: institutional_commit_def commit_world_def on_institution_def
        py_on_run py_simps g advance_generation_def)
  qed
qed

lemma institutional_order: "runtime_ok s \<Longrightarrow> runtime_order s (snd (institutional_commit i g ch au r6 s))"
  by (rule institutional_commit_cases [of s i g ch au r6])
    (auto simp: runtime_order_def runtime_ok_def workspace_ok_def)

definition memory_ok :: "local_memory \<Rightarrow> bool" where
  "memory_ok m \<longleftrightarrow> (\<forall>level i r. lo_records m (level, i) = Some r \<longrightarrow>
     me_level r = level \<and> me_record_id r = i \<and> me_ocs_id r = lo_ocs_id m \<and> validate_memory r = Inr ())"

definition memory_order :: "local_memory \<Rightarrow> local_memory \<Rightarrow> bool" where
  "memory_order m n \<longleftrightarrow> (memory_ok m \<longrightarrow> memory_ok n) \<and> lo_ocs_id n = lo_ocs_id m \<and>
     dom (lo_records m) \<subseteq> dom (lo_records n)"

interpretation mem: step_order memory_order
  by unfold_locales (auto simp: memory_order_def)

lemma put_memory_order: "steps memory_order (put_memory r)"
proof (rule stepsI)
  fix m
  show "memory_order m (snd (put_memory r m))"
    by (cases "validate_memory r")
      (auto simp: put_memory_def py_simps mem.step_refl memory_order_def memory_ok_def)
qed

lemma get_memory_order: "steps memory_order (get_memory l i)"
  unfolding get_memory_def by (auto intro!: mem.steps_bind mem.steps_gets mem.steps_raise mem.steps_return split: option.split)

lemma consolidate_order: "steps memory_order (consolidate a b q p g)"
  unfolding consolidate_def Let_def
  by (auto intro!: mem.steps_bind mem.steps_lift mem.steps_raise mem.steps_gets mem.steps_return
      put_memory_order get_memory_order)

definition engine_ok :: "'w engine \<Rightarrow> bool" where
  "engine_ok e \<longleftrightarrow> runtime_ok (en_runtime e) \<and> memory_ok (en_memory e) \<and>
     lo_ocs_id (en_memory e) = ct_ocs_id (en_runtime e)"

definition engine_order :: "'w engine \<Rightarrow> 'w engine \<Rightarrow> bool" where
  "engine_order s t \<longleftrightarrow> runtime_order (en_runtime s) (en_runtime t) \<and>
     memory_order (en_memory s) (en_memory t)"

interpretation eng: step_order engine_order
  by unfold_locales (auto simp: engine_order_def intro: rto.step_refl rto.step_trans mem.step_refl mem.step_trans)

lemma engine_order_ok: "engine_order s t \<Longrightarrow> engine_ok s \<Longrightarrow> engine_ok t"
  by (simp add: engine_order_def engine_ok_def runtime_order_def memory_order_def)

lemma on_runtime_order: "steps runtime_order m \<Longrightarrow> steps engine_order (on_runtime m)"
  by (simp add: on_runtime_def steps_def py_on_run engine_order_def mem.step_refl)

lemma on_memory_order: "steps memory_order m \<Longrightarrow> steps engine_order (on_memory m)"
  by (simp add: on_memory_def steps_def py_on_run engine_order_def rto.step_refl)

lemma on_outside_order: "steps engine_order (on_outside m)"
  by (simp add: on_outside_def steps_def py_on_run engine_order_def rto.step_refl mem.step_refl)

text \<open>An effect runs under the current generation, an allowed context and an unused id.\<close>

lemma operational_commit_cases:
  obtains x where "operational_commit i c g f (s, w) = (Inl x, (s, w))"
    "g \<noteq> ct_generation s \<or> \<not> commit_allowed c \<or> i \<in> ct_executed_effect_ids s"
  | "g = ct_generation s" "commit_allowed c" "i \<notin> ct_executed_effect_ids s"
    "operational_commit i c g f (s, w) = (case f w of
       (Inl x, w') \<Rightarrow> (Inl x, (s, w'))
     | (Inr y, w') \<Rightarrow> (Inr y, (s\<lparr>ct_executed_effect_ids := insert i (ct_executed_effect_ids s)\<rparr>, w')))"
proof (cases "g = ct_generation s \<and> commit_allowed c \<and> i \<notin> ct_executed_effect_ids s")
  case True
  then show thesis
    by (intro that(2)) (auto simp: operational_commit_def assert_generation_def py_simps py_on_run
        split: prod.splits sum.splits)
next
  case False
  then consider "g \<noteq> ct_generation s" | "g = ct_generation s" "\<not> commit_allowed c"
    | "g = ct_generation s" "commit_allowed c" "i \<in> ct_executed_effect_ids s" by blast
  then show thesis
    by cases (rule that(1), auto simp: operational_commit_def assert_generation_def py_simps py_on_run)+
qed

lemma operational_order: "runtime_order s (fst (snd (operational_commit i c g f (s, w))))"
  by (rule operational_commit_cases [of i c g f s w])
    (auto simp: rto.step_refl runtime_order_def runtime_ok_def split: prod.split sum.split)

lemma on_commit_order: "steps engine_order (on_commit (operational_commit i c g f))"
proof (rule stepsI)
  fix s :: "'a engine"
  obtain r t w where run: "operational_commit i c g f (en_runtime s, en_outside s) = (r, (t, w))"
    by (metis prod.collapse)
  then have "runtime_order (en_runtime s) t"
    using operational_order [of "en_runtime s" i c g f "en_outside s"] by simp
  then show "engine_order s (snd (on_commit (operational_commit i c g f) s))"
    by (simp add: on_commit_def py_on_run run engine_order_def mem.step_refl)
qed

lemma run_cycle_order: "steps engine_order (run_cycle F q)"
proof -
  have act: "steps engine_order (run_action q)"
    unfolding run_action_def
    by (auto intro!: eng.steps_bind eng.steps_return eng.steps_raise on_commit_order split: option.split)
  have conclude: "steps engine_order (conclude_cycle F q k c)" for k c
    unfolding conclude_cycle_def Let_def
    by (auto intro!: eng.steps_bind eng.steps_return eng.steps_lift act on_outside_order on_memory_order
        put_memory_order on_runtime_order rto.steps_gets)
  show ?thesis
    unfolding run_cycle_def
    by (auto intro!: eng.steps_bind eng.steps_lift eng.steps_raise on_runtime_order reserve_cycle_order
        ingest_all_order ignition_order conclude split: option.split)
qed

text \<open>The calls an engine and its parts receive.\<close>

datatype 'w engine_call =
    Cycle float_arith "'w cycle_request"
  | Reserve int int
  | Ingest candidate int
  | Ignite string int
  | Commit_Effect string commit_context int "('w, pyval) py"
  | Commit_Institution string int "(string \<times> pyval) list" bool bool
  | Recover_Generation int
  | Remember memory_record
  | Consolidate string string bool bool int

fun engine_step :: "'w engine_call \<Rightarrow> 'w engine \<Rightarrow> 'w engine" where
  "engine_step (Cycle F q) e = snd (run_cycle F q e)"
| "engine_step (Reserve g n) e = snd (on_runtime (reserve_cycle g n) e)"
| "engine_step (Ingest c g) e = snd (on_runtime (ingest_candidate c g) e)"
| "engine_step (Ignite i g) e = snd (on_runtime (cognitive_ignition i g) e)"
| "engine_step (Commit_Effect i c g f) e = snd (on_commit (operational_commit i c g f) e)"
| "engine_step (Commit_Institution i g ch au r6) e =
     snd (on_runtime (institutional_commit i g ch au r6) e)"
| "engine_step (Recover_Generation n) e = snd (on_runtime (recover_to_generation n) e)"
| "engine_step (Remember r) e = snd (on_memory (put_memory r) e)"
| "engine_step (Consolidate a b q p g) e = snd (on_memory (consolidate a b q p g) e)"

definition engine_run :: "'w engine_call list \<Rightarrow> 'w engine \<Rightarrow> 'w engine" where
  "engine_run calls e = fold engine_step calls e"

lemma snd_steps: "steps R m \<Longrightarrow> R s (snd (m s))"
  by (simp add: steps_def)

lemma engine_step_order: "engine_ok e \<Longrightarrow> engine_order e (engine_step c e)"
proof (cases c)
  case (Commit_Institution i g ch au r6)
  assume "engine_ok e"
  then have "runtime_order (en_runtime e) (snd (institutional_commit i g ch au r6 (en_runtime e)))"
    by (intro institutional_order) (simp add: engine_ok_def)
  then show ?thesis
    by (simp add: Commit_Institution on_runtime_def py_on_run engine_order_def mem.step_refl)
qed (simp_all add: snd_steps run_cycle_order on_runtime_order reserve_cycle_order ingest_order
    ignition_order on_commit_order recover_generation_order on_memory_order put_memory_order
    consolidate_order)

lemma engine_run_order: "engine_ok e \<Longrightarrow> engine_order e (engine_run calls e)"
proof (induction calls arbitrary: e)
  case Nil
  then show ?case by (simp add: engine_run_def eng.step_refl)
next
  case (Cons c calls)
  have step: "engine_order e (engine_step c e)" using Cons.prems by (rule engine_step_order)
  then have "engine_order (engine_step c e) (engine_run calls (engine_step c e))"
    using Cons engine_order_ok by blast
  then show ?case using eng.step_trans [OF step] by (simp add: engine_run_def)
qed

lemma new_engine_ok:
  "new_cognitive_runtime o1 i sn mn g u = Inr r \<Longrightarrow> engine_ok (new_engine r w)"
  using new_cognitive_runtime_ok [of o1 i sn mn g u r]
  by (simp add: engine_ok_def new_engine_def new_memory_def memory_ok_def)

lemma assert_generation_run:
  "assert_generation g s = (if g \<noteq> ct_generation s then Inl (PermissionError ''stale_generation_writer'') else Inr (), s)"
  by (simp add: assert_generation_def)

section \<open>Properties\<close>

text \<open>
  C20: whatever calls reach an engine and its parts, also those that raise, its runtime stays within its
  budget of cycles, its workspace, its institution and itself are of one generation, the
  workspace holds valid candidates of its own OCS and broadcasts each at most once, and the
  memory holds valid records of that OCS under their own level and name.
\<close>

theorem engine_invariant:
  assumes "new_cognitive_runtime ocs i sn mn g u = Inr r"
  shows "runtime_ok (en_runtime (engine_run calls (new_engine r w))) \<and>
    memory_ok (en_memory (engine_run calls (new_engine r w))) \<and>
    lo_ocs_id (en_memory (engine_run calls (new_engine r w))) = ocs"
proof -
  have ok: "engine_ok (new_engine r w)" using assms by (rule new_engine_ok)
  have "ct_ocs_id r = ocs" using assms
    by (auto simp: new_cognitive_runtime_def Let_def split: sum.splits)
  then show ?thesis
    using engine_run_order [OF ok, of calls] engine_order_ok [OF engine_run_order [OF ok, of calls] ok]
    by (simp add: engine_ok_def engine_order_def runtime_order_def memory_order_def new_engine_def new_memory_def)
qed

text \<open>
  C21: an effect is committed at most once. After a commit that returned, whatever calls follow,
  recoveries included, a commit under the same id raises and reaches nothing outside.
\<close>

theorem effect_committed_at_most_once:
  assumes "engine_ok e" and "on_commit (operational_commit i c g f) e = (Inr x, e')"
  shows "\<exists>m. on_commit (operational_commit i c' g' f') (engine_run calls e') =
    (Inl (PermissionError m), engine_run calls e')"
proof -
  let ?t = "engine_run calls e'"
  have "i \<in> ct_executed_effect_ids (en_runtime e')"
  proof (rule operational_commit_cases [of i c g f "en_runtime e" "en_outside e"])
  qed (use assms(2) in \<open>auto simp: on_commit_def py_on_run split: prod.splits sum.splits\<close>)
  moreover have ok: "engine_ok e'"
    using stepsD [OF on_commit_order assms(2)] assms(1) by (rule engine_order_ok)
  ultimately have used: "i \<in> ct_executed_effect_ids (en_runtime ?t)"
    using engine_run_order [OF ok, of calls] by (auto simp: engine_order_def runtime_order_def)
  show ?thesis
  proof (cases "g' = ct_generation (en_runtime ?t)")
    case True
    then show ?thesis
      using used by (cases "commit_allowed c'")
        (auto simp: on_commit_def operational_commit_def assert_generation_def py_on_run py_simps)
  next
    case False
    then show ?thesis
      by (auto simp: on_commit_def operational_commit_def assert_generation_def py_on_run py_simps)
  qed
qed

text \<open>
  A writer of an earlier generation is fenced for good. Once a generation has passed, by a
  transition of the institution or by a recovery, every later operation that names it raises
  and changes nothing.
\<close>

lemma stale_generation_fenced:
  assumes "engine_ok e" and "g < ct_generation (en_runtime e)"
  shows "(\<exists>m. operational_commit i c g f (en_runtime (engine_run calls e), w) =
      (Inl (PermissionError m), (en_runtime (engine_run calls e), w))) \<and>
    (\<exists>m. cognitive_ignition k g (en_runtime (engine_run calls e)) =
      (Inl (PermissionError m), en_runtime (engine_run calls e))) \<and>
    (\<exists>m. ingest_candidate d g (en_runtime (engine_run calls e)) =
      (Inl (PermissionError m), en_runtime (engine_run calls e))) \<and>
    (\<exists>m. reserve_cycle g n (en_runtime (engine_run calls e)) =
      (Inl (PermissionError m), en_runtime (engine_run calls e))) \<and>
    (\<forall>j ch. j \<notin> in_committed_transition_ids (ct_world (en_runtime (engine_run calls e))) \<longrightarrow>
      (\<exists>m. institutional_commit j g ch True True (en_runtime (engine_run calls e)) =
        (Inl (PermissionError m), en_runtime (engine_run calls e))))"
proof -
  let ?s = "en_runtime (engine_run calls e)"
  have ok: "runtime_ok ?s"
    using engine_order_ok [OF engine_run_order [OF assms(1)] assms(1)] by (simp add: engine_ok_def)
  have "ct_generation (en_runtime e) \<le> ct_generation ?s"
    using engine_run_order [OF assms(1), of calls] assms(1)
    by (simp add: engine_order_def runtime_order_def engine_ok_def)
  then have late: "g \<noteq> ct_generation ?s" using assms(2) by simp
  moreover have "g \<noteq> in_generation (ct_world ?s)" using late ok by (simp add: runtime_ok_def)
  ultimately show ?thesis
    by (simp add: operational_commit_def cognitive_ignition_def ingest_candidate_def reserve_cycle_def
      assert_generation_def py_simps py_on_run institutional_commit_def commit_world_def on_institution_def)
qed

section \<open>Competition\<close>

lemma winner_of_Nil: "winner_of [] i = None"
  by (simp add: winner_of_def)

lemma winner_of_Cons:
  "winner_of (c # cs) i = (case winner_of cs i of Some d \<Rightarrow> Some d
     | None \<Rightarrow> if ca_candidate_id c = i then Some c else None)"
proof -
  have "find P (xs @ [c]) = (case find P xs of Some d \<Rightarrow> Some d | None \<Rightarrow> if P c then Some c else None)"
    for P :: "candidate \<Rightarrow> bool" and xs
    by (induction xs) simp_all
  then show ?thesis by (simp add: winner_of_def)
qed

lemma winner_of_Some: "winner_of cs i = Some c \<Longrightarrow> c \<in> set cs \<and> ca_candidate_id c = i"
  by (induction cs) (auto simp: winner_of_Nil winner_of_Cons split: option.splits if_splits)

lemma winner_of_exists: "c \<in> set cs \<Longrightarrow> \<exists>d. winner_of cs (ca_candidate_id c) = Some d"
  by (induction cs) (auto simp: winner_of_Cons split: option.splits)

lemma winner_of_dom: "winner_of cs i \<noteq> None \<longleftrightarrow> i \<in> ca_candidate_id ` set cs"
  by (induction cs) (auto simp: winner_of_Nil winner_of_Cons split: option.split)

lemma score_all_Inr:
  assumes "score_all F cs acc = Inr scores"
  shows "(\<forall>c \<in> set cs. validate_candidate c = Inr ()) \<and>
    (\<forall>i. map_of scores i = (case winner_of cs i of Some c \<Rightarrow> Some (score_value F c) | None \<Rightarrow> map_of acc i)) \<and>
    (distinct (map fst acc) \<longrightarrow> distinct (map fst scores))"
  using assms
proof (induction cs arbitrary: acc)
  case Nil
  then show ?case by (simp add: winner_of_Nil)
next
  case (Cons c cs)
  then have v: "validate_candidate c = Inr ()"
    and rest: "score_all F cs (dset (ca_candidate_id c) (score_value F c) acc) = Inr scores"
    by (auto simp: score_def split: sum.splits)
  show ?case
    using Cons.IH [OF rest] v
    by (auto simp: winner_of_Cons map_of_dset distinct_keys_dset split: option.split)
qed

text \<open>The order of the ranking: higher scores first, of equal scores the smaller id.\<close>

definition ranks_before :: "float_arith \<Rightarrow> candidate \<Rightarrow> candidate \<Rightarrow> bool" where
  "ranks_before F c d \<longleftrightarrow> score_value F d < score_value F c \<or>
     (score_value F d = score_value F c \<and> ca_candidate_id c \<le> ca_candidate_id d)"

lemma competition_result:
  assumes "compete F cs = Inr r"
  shows "(\<forall>c \<in> set cs. validate_candidate c = Inr ()) \<and> distinct (cr_ranked_ids r) \<and>
    set (cr_ranked_ids r) = ca_candidate_id ` set cs \<and>
    (\<exists>w. winner_of cs (cr_winner_id r) = Some w \<and>
       (\<forall>d \<in> set cs. winner_of cs (ca_candidate_id d) = Some d \<longrightarrow> ranks_before F w d))"
proof -
  obtain scores where cs: "cs \<noteq> []" and s: "score_all F cs [] = Inr scores"
    and r: "cr_ranked_ids r = ranking scores" "cr_winner_id r = hd (ranking scores)"
    using assms by (auto simp: compete_def Let_def split: if_splits sum.splits)
  note s = score_all_Inr [OF s]
  have dist: "distinct (map fst scores)" using s by simp
  have keys: "fst ` set scores = ca_candidate_id ` set cs"
  proof (rule set_eqI)
    fix i
    have "i \<in> fst ` set scores \<longleftrightarrow> map_of scores i \<noteq> None" by (simp add: map_of_eq_None_iff)
    also have "\<dots> \<longleftrightarrow> winner_of cs i \<noteq> None" using s by (simp split: option.split)
    also have "\<dots> \<longleftrightarrow> i \<in> ca_candidate_id ` set cs" by (rule winner_of_dom)
    finally show "i \<in> fst ` set scores \<longleftrightarrow> i \<in> ca_candidate_id ` set cs" .
  qed
  let ?key = "\<lambda>i. (- the (map_of scores i), i)"
  have set_r: "set (ranking scores) = ca_candidate_id ` set cs" by (simp add: ranking_def keys)
  have sorted: "sorted (map ?key (ranking scores))" by (simp add: ranking_def)
  obtain i js where ri: "ranking scores = i # js" using set_r cs by (cases "ranking scores") auto
  have "i \<in> ca_candidate_id ` set cs" using set_r ri by (metis list.set_intros(1))
  then obtain w where w: "winner_of cs i = Some w" using winner_of_exists by blast
  have best: "ranks_before F w d" if d: "d \<in> set cs" "winner_of cs (ca_candidate_id d) = Some d" for d
  proof -
    have "ca_candidate_id d \<in> set (i # js)" using set_r ri d(1) by auto
    then have "?key i \<le> ?key (ca_candidate_id d)" using sorted unfolding ri by auto
    moreover have "map_of scores i = Some (score_value F w)" using s w by simp
    moreover have "map_of scores (ca_candidate_id d) = Some (score_value F d)" using s d(2) by simp
    moreover have "ca_candidate_id w = i" using winner_of_Some [OF w] by simp
    ultimately show ?thesis by (auto simp: ranks_before_def)
  qed
  have "distinct (ranking scores)" using dist by (simp add: ranking_def)
  then show ?thesis using s set_r w best r ri by auto
qed

section \<open>Ranges\<close>

definition rounding_ok :: "float_arith \<Rightarrow> bool" where
  "rounding_ok F \<longleftrightarrow> (\<forall>x y. x \<le> y \<longrightarrow> fl F x \<le> fl F y) \<and> fl F 0 = 0 \<and> fl F 1 = 1"

definition unit_range :: "rat \<Rightarrow> bool" where
  "unit_range x \<longleftrightarrow> 0 \<le> x \<and> x \<le> 1"

lemma rounded_unit: "rounding_ok F \<Longrightarrow> unit_range x \<Longrightarrow> unit_range (fl F x)"
  by (metis rounding_ok_def unit_range_def)

lemma mismatch_range: "rounding_ok F \<Longrightarrow> unit_range (mismatch F l r)"
proof -
  assume F: "rounding_ok F"
  let ?keys = "remdups (map fst l @ map fst r)"
  have "unit_range (of_nat (length (filter p ?keys)) / of_nat (length ?keys))" if "?keys \<noteq> []" for p
    using that length_filter_le [of p ?keys]
    by (simp add: unit_range_def divide_le_eq_1 del: remdups_append2 remdups_eq_nil_iff length_filter_le)
  then show ?thesis
    using rounded_unit [OF F] by (simp add: mismatch_def Let_def unit_range_def del: remdups_append2)
qed

lemma residual_range:
  assumes "rounding_ok F"
  shows "\<forall>(k, x) \<in> set (residual_mapping (compare_outcomes F e n)). unit_range x"
proof -
  have "unit_range (temporal_residual F a b)" for a b
  proof -
    have "0 \<le> fl F (of_int \<bar>y - x\<bar> / of_int (max x 1))" for x y :: int
      using assms by (metis rounding_ok_def abs_ge_zero max.cobounded2 of_int_0_le_iff divide_nonneg_nonneg order_trans zero_le_one)
    then show ?thesis by (auto simp: temporal_residual_def unit_range_def split: option.split)
  qed
  then show ?thesis
    using mismatch_range [OF assms]
    by (auto simp: residual_mapping_def compare_outcomes_def unit_range_def split: option.split)
qed

section \<open>Properties of a cycle\<close>

text \<open>
  A competition among valid candidates ranks each id once and its winner is the best: no
  candidate that counts for its id scores higher, and of those that score the same the winner
  has the smallest id. The order in which the candidates come does not matter beyond which of
  two with one id counts.
\<close>

lemma competition_picks_best:
  assumes "compete F cs = Inr r"
  shows "(\<forall>c \<in> set cs. validate_candidate c = Inr ()) \<and> distinct (cr_ranked_ids r) \<and>
    set (cr_ranked_ids r) = ca_candidate_id ` set cs \<and>
    (\<exists>w. winner_of cs (cr_winner_id r) = Some w \<and>
       (\<forall>d \<in> set cs. winner_of cs (ca_candidate_id d) = Some d \<longrightarrow> ranks_before F w d))"
  using assms by (rule competition_result)

text \<open>
  The comparison and the modulation stay in the unit interval, and modulation never raises:
  for a valid winner and any expected and observed outcome, whatever the built-in sum answers,
  provided rounding is monotone and exact at 0 and 1.
\<close>

lemma nm_state_in_range:
  assumes "rounding_ok F" and "validate_candidate c = Inr ()"
  shows "(\<forall>(k, x) \<in> set (residual_mapping (compare_outcomes F e n)). unit_range x) \<and>
    (\<exists>m. modulate F c (compare_outcomes F e n) = Inr m \<and> (\<forall>(k, x) \<in> set (nm_fields m). unit_range x))"
proof -
  let ?r = "compare_outcomes F e n" and ?m = "modulated F c (compare_outcomes F e n)"
  have c: "unit_range (ca_confidence c)" "unit_range (ca_uncertainty c)" "unit_range (ca_salience c)"
    "unit_range (ca_novelty c)" "unit_range (ca_risk c)"
    using assms(2) by (simp_all add: validate_candidate_Inr unit_range_def)
  have r: "unit_range (pr_risk ?r)"
    using residual_range [OF assms(1), of e n] by (simp add: residual_mapping_def)
  have "unit_range (fl F (ca_uncertainty c * (1 / 2)))"
    using c(2) by (intro rounded_unit [OF assms(1)]) (simp add: unit_range_def)
  then have "0 \<le> fl F (1 / 2 + fl F (ca_uncertainty c * (1 / 2)))"
    using assms(1) by (metis add_nonneg_nonneg rounding_ok_def unit_range_def zero_le_divide_1_iff zero_le_numeral)
  then have m: "\<forall>(k, x) \<in> set (nm_fields ?m). unit_range x"
    using c r by (simp add: nm_fields_def modulated_def Let_def unit_range_def le_max_iff_disj)
  then have "out_of_range (nm_fields ?m) = None" by (auto simp: out_of_range_None unit_range_def)
  then have "modulate F c ?r = Inr ?m" by (simp add: modulate_def Let_def validate_nm_def)
  then show ?thesis using m residual_range [OF assms(1), of e n] by blast
qed

section \<open>Memory\<close>

text \<open>Consolidation asks for a qualification and an authority and keeps the provenance.\<close>

lemma consolidation_guarded:
  assumes "consolidate a b q p g m = (Inr r, m')"
  shows "q \<and> p \<and> me_level r = M3 \<and> lo_records m' = (lo_records m)((M3, b) \<mapsto> r) \<and>
    (\<exists>source. lo_records m (M2, a) = Some source \<and> me_provenance_ref r = me_provenance_ref source \<and>
       me_mission_id r = me_mission_id source)"
  using assms
  by (cases q; cases p; cases "lo_records m (M2, a)")
    (auto simp: consolidate_def validate_memory_promotion_def get_memory_def put_memory_def Let_def
      py_simps split: sum.splits if_splits)

text \<open>
  The boundary can be passed by: a semantic record may be put directly, with neither.
\<close>

lemma semantic_memory_put_directly:
  assumes "me_level r = M3" and "me_ocs_id r = lo_ocs_id m" and "validate_memory r = Inr ()"
  shows "put_memory r m = (Inr (), m\<lparr>lo_records := (lo_records m)((M3, me_record_id r) \<mapsto> r)\<rparr>)"
  using assms by (simp add: put_memory_def py_simps)

text \<open>
  The name of an episode tells neither its cycle nor its time: a second cycle of the same
  mission and generation with the same winner replaces the first episode.
\<close>

lemma episode_overwritten:
  assumes "cq_mission_id q = cq_mission_id q'" and "cq_generation q = cq_generation q'"
    and "ca_candidate_id c = ca_candidate_id c'"
  shows "me_record_id (episode ocs q c k r) = me_record_id (episode ocs q' c' k' r') \<and>
    me_level (episode ocs q c k r) = me_level (episode ocs q' c' k' r')"
  using assms by (simp add: episode_def)

section \<open>Witnesses\<close>

definition exact_arith :: float_arith where
  "exact_arith = \<lparr> fl = (\<lambda>x. x), fsum = sum_list \<rparr>"

definition sample_candidate :: "string \<Rightarrow> rat \<Rightarrow> candidate" where
  "sample_candidate i x = \<lparr> ca_candidate_id = i, ca_source_ocs = ''SOFIA'', ca_content = ''c'',
     ca_epistemic_grade = HYPOTHESIS, ca_confidence = 1 / 2, ca_uncertainty = 1 / 4, ca_salience = x,
     ca_novelty = 1 / 2, ca_risk = 1 / 4, ca_evidence_refs = [''e''], ca_ttl_cycles = 1 \<rparr>"

definition sample_outcome :: expected_outcome where
  "sample_outcome = \<lparr> eo_expected_observation = [(''k'', PyInt 1)], eo_expected_effect = [],
     eo_expected_state_delta = [], eo_expected_latency_ms = Some 10, eo_expected_failure_modes = [] \<rparr>"

definition sample_observed :: observed_outcome where
  "sample_observed = \<lparr> oo_observation = [(''k'', PyInt 2)], oo_effect = [], oo_state_delta = [],
     oo_latency_ms = Some 30, oo_failure_mode = Some ''timeout'' \<rparr>"

lemma sample_candidate_valid: "validate_candidate (sample_candidate ''a'' (1 / 2)) = Inr ()"
  by (simp add: validate_candidate_Inr sample_candidate_def)

lemma competition_picks_best_witness:
  "\<exists>r w. compete exact_arith [sample_candidate ''a'' (1 / 2), sample_candidate ''b'' 1] = Inr r \<and>
     winner_of [sample_candidate ''a'' (1 / 2), sample_candidate ''b'' 1] (cr_winner_id r) = Some w \<and>
     ranks_before exact_arith w (sample_candidate ''b'' 1)"
proof -
  let ?cs = "[sample_candidate ''a'' (1 / 2), sample_candidate ''b'' 1]"
  have "\<exists>r. compete exact_arith ?cs = Inr r"
    by (simp add: compete_def score_def validate_candidate_Inr sample_candidate_def
        validate_candidate_def out_of_range_def Let_def)
  then obtain r where r: "compete exact_arith ?cs = Inr r" ..
  have "winner_of ?cs ''b'' = Some (sample_candidate ''b'' 1)"
    by (simp add: winner_of_def sample_candidate_def)
  then show ?thesis
    using competition_picks_best [OF r] r by (auto simp: sample_candidate_def)
qed

lemma nm_state_in_range_witness:
  "\<exists>m. modulate exact_arith (sample_candidate ''a'' (1 / 2))
      (compare_outcomes exact_arith sample_outcome sample_observed) = Inr m \<and> unit_range (nm_prediction_error m)"
proof -
  have "rounding_ok exact_arith" by (simp add: rounding_ok_def exact_arith_def)
  from nm_state_in_range [OF this sample_candidate_valid, of sample_outcome sample_observed]
  show ?thesis by (auto simp: nm_fields_def)
qed

definition sample_runtime :: cognitive_runtime where
  "sample_runtime = \<lparr> ct_ocs_id = ''SOFIA'', ct_identity_ref = ''i'', ct_state_namespace = ''s'',
     ct_memory_namespace = ''m'', ct_generation = 0, ct_budget = default_budget,
     ct_workspace = new_workspace 0,
     ct_world = \<lparr> in_generation = 0, in_values = [], in_committed_transition_ids = {} \<rparr>,
     ct_cycles = 0, ct_executed_effect_ids = {} \<rparr>"

lemma sample_runtime_new: "new_cognitive_runtime ''SOFIA'' ''i'' ''s'' ''m'' 0 None = Inr sample_runtime"
  by (simp add: new_cognitive_runtime_def default_budget_ok sample_runtime_def)

definition sample_context :: commit_context where
  "sample_context = \<lparr> cc_r6_clear = True, cc_authority_bound = True, cc_capability_bound = True,
     cc_execution_budget_available = True, cc_state_generation_current = True \<rparr>"

text \<open>An outside world that counts the effects, and a cycle that has one.\<close>

definition sample_cycle :: "int cycle_request" where
  "sample_cycle = \<lparr> cq_mission_id = ''m'',
     cq_candidates = [sample_candidate ''a'' (1 / 2), sample_candidate ''b'' 1],
     cq_expected = sample_outcome, cq_observe = (\<lambda>w. (Inr sample_observed, w)), cq_generation = 0,
     cq_action_effect_id = Some ''x'', cq_action = Some (\<lambda>w. (Inr PyNone, w + 1)),
     cq_commit_context = Some sample_context, cq_provenance_ref = ''p'' \<rparr>"

lemma sample_cycle_runs:
  "case run_cycle exact_arith sample_cycle (new_engine sample_runtime 0) of
     (Inr r, e) \<Rightarrow> ca_candidate_id (cy_winner r) = ''b'' \<and> en_outside e = 1 \<and> ct_cycles (en_runtime e) = 1
   | _ \<Rightarrow> False"
  by code_simp

theorem engine_invariant_witness:
  "runtime_ok (en_runtime (engine_run [Cycle exact_arith sample_cycle, Recover_Generation 3]
     (new_engine sample_runtime 0)))"
  using engine_invariant [OF sample_runtime_new, of "[Cycle exact_arith sample_cycle, Recover_Generation 3]" 0]
  by simp

theorem effect_committed_at_most_once_witness:
  "\<exists>e m. e = snd (on_commit (operational_commit ''x'' sample_context 0 (\<lambda>w. (Inr PyNone, w + 1)))
       (new_engine sample_runtime (0::int))) \<and>
     on_commit (operational_commit ''x'' sample_context 4 (\<lambda>w. (Inr PyNone, w + 1)))
       (engine_run [Recover_Generation 3] e) = (Inl (PermissionError m), engine_run [Recover_Generation 3] e)"
proof -
  let ?run = "on_commit (operational_commit ''x'' sample_context 0 (\<lambda>w. (Inr PyNone, w + 1)))
       (new_engine sample_runtime (0::int))"
  have "fst ?run = Inr PyNone"
    by (simp add: on_commit_def operational_commit_def assert_generation_def py_on_run py_simps
        new_engine_def sample_runtime_def sample_context_def commit_allowed_def)
  then have run: "?run = (Inr PyNone, snd ?run)" by (simp add: prod_eq_iff)
  show ?thesis
    using effect_committed_at_most_once [OF new_engine_ok [OF sample_runtime_new] run] by blast
qed

lemma stale_generation_fenced_witness:
  "\<exists>m. reserve_cycle 0 1 (en_runtime (engine_run [Reserve 0 1]
       (engine_step (Recover_Generation 3) (new_engine sample_runtime (0::int))))) =
     (Inl (PermissionError m), en_runtime (engine_run [Reserve 0 1]
       (engine_step (Recover_Generation 3) (new_engine sample_runtime (0::int)))))"
proof -
  let ?e = "engine_step (Recover_Generation 3) (new_engine sample_runtime (0::int))"
  have ok: "engine_ok ?e"
    by (rule engine_order_ok [OF engine_step_order]) (rule new_engine_ok [OF sample_runtime_new])+
  have "0 < ct_generation (en_runtime ?e)"
    by (simp add: on_runtime_def py_on_run recover_to_generation_def py_simps new_engine_def sample_runtime_def)
  from stale_generation_fenced [OF ok this, where calls = "[Reserve 0 1]" and n = 1
        and i = "''x''" and c = sample_context and f = "\<lambda>w. (Inr (), w)" and w = "()"
        and k = "''a''" and d = "sample_candidate ''a'' 0"]
  show ?thesis by (elim conjE)
qed

end
