(* ===== verification/Py_Datetime.thy ===== *)
theory Py_Datetime
  imports Py_Prelude
begin

text \<open>
  The part of Python's \<^verbatim>\<open>datetime\<close> that the governance candidates and the command
  centre use: a calendar time with an optional offset from UTC, its instant, the text
  \<^verbatim>\<open>isoformat\<close> writes and the reading of it.

  A \<^verbatim>\<open>datetime\<close> is \<open>aware\<close> when it has an offset (\<^verbatim>\<open>tzinfo\<close>). The offset is
  kept in whole minutes, which is what the zones in use have. \<open>fromisoformat\<close> reads the
  texts that \<open>isoformat\<close> writes, with or without a fraction and an offset; the other forms
  of ISO 8601 that the library also accepts are never written by this code.
\<close>

section \<open>Calendar times\<close>

record pydatetime =
  dt_year :: nat
  dt_month :: nat
  dt_day :: nat
  dt_hour :: nat
  dt_minute :: nat
  dt_second :: nat
  dt_micro :: nat
  dt_offset :: "int option"

definition leap_year :: "nat \<Rightarrow> bool" where
  "leap_year y \<longleftrightarrow> y mod 4 = 0 \<and> (y mod 100 = 0 \<longrightarrow> y mod 400 = 0)"

definition days_in_month :: "nat \<Rightarrow> nat \<Rightarrow> nat" where
  "days_in_month y m =
     (if m = 2 then (if leap_year y then 29 else 28) else if m \<in> {4, 6, 9, 11} then 30 else 31)"

definition valid_dt :: "pydatetime \<Rightarrow> bool" where
  "valid_dt d \<longleftrightarrow>
     1 \<le> dt_year d \<and> dt_year d \<le> 9999 \<and> 1 \<le> dt_month d \<and> dt_month d \<le> 12 \<and>
     1 \<le> dt_day d \<and> dt_day d \<le> days_in_month (dt_year d) (dt_month d) \<and>
     dt_hour d \<le> 23 \<and> dt_minute d \<le> 59 \<and> dt_second d \<le> 59 \<and> dt_micro d \<le> 999999 \<and>
     (case dt_offset d of None \<Rightarrow> True | Some z \<Rightarrow> \<bar>z\<bar> < 24 * 60)"

definition aware :: "pydatetime \<Rightarrow> bool" where
  "aware d \<longleftrightarrow> dt_offset d \<noteq> None"

definition days_before_year :: "nat \<Rightarrow> int" where
  "days_before_year y = (let p = y - 1 in int (365 * p + p div 4 + p div 400) - int (p div 100))"

definition days_before_month :: "nat \<Rightarrow> nat \<Rightarrow> nat" where
  "days_before_month y m = sum_list (map (days_in_month y) [1..<m])"

text \<open>Microseconds since the first of January of year 1, in UTC for an aware time.\<close>

definition dt_instant :: "pydatetime \<Rightarrow> int" where
  "dt_instant d =
     (let days = days_before_year (dt_year d) + int (days_before_month (dt_year d) (dt_month d) + dt_day d);
          minutes = (days * 24 + int (dt_hour d)) * 60 + int (dt_minute d) - (case dt_offset d of None \<Rightarrow> 0 | Some z \<Rightarrow> z)
      in (minutes * 60 + int (dt_second d)) * 1000000 + int (dt_micro d))"

text \<open>\<^verbatim>\<open>(a - b).total_seconds()\<close>, and its \<^verbatim>\<open>int\<close>, which rounds towards zero.\<close>

definition dt_seconds :: "pydatetime \<Rightarrow> pydatetime \<Rightarrow> rat" where
  "dt_seconds a b = of_int (dt_instant a - dt_instant b) / 1000000"

definition dt_whole_seconds :: "pydatetime \<Rightarrow> pydatetime \<Rightarrow> int" where
  "dt_whole_seconds a b =
     (let n = dt_instant a - dt_instant b in if n < 0 then - ((- n) div 1000000) else n div 1000000)"

section \<open>Texts\<close>

fun padded :: "nat \<Rightarrow> nat \<Rightarrow> string" where
  "padded 0 n = []"
| "padded (Suc k) n = padded k (n div 10) @ [char_of (48 + n mod 10)]"

definition iso_offset :: "int option \<Rightarrow> string" where
  "iso_offset z = (case z of None \<Rightarrow> []
     | Some m \<Rightarrow> (if m < 0 then ''-'' else ''+'') @ padded 2 (nat \<bar>m\<bar> div 60) @ '':'' @ padded 2 (nat \<bar>m\<bar> mod 60))"

definition isoformat :: "pydatetime \<Rightarrow> string" where
  "isoformat d =
     padded 4 (dt_year d) @ ''-'' @ padded 2 (dt_month d) @ ''-'' @ padded 2 (dt_day d) @ ''T'' @
     padded 2 (dt_hour d) @ '':'' @ padded 2 (dt_minute d) @ '':'' @ padded 2 (dt_second d) @
     (if dt_micro d = 0 then [] else ''.'' @ padded 6 (dt_micro d)) @ iso_offset (dt_offset d)"

definition is_digit :: "char \<Rightarrow> bool" where
  "is_digit c \<longleftrightarrow> (let n = (of_char c :: nat) in 48 \<le> n \<and> n \<le> 57)"

text \<open>A field of fixed width at the head of a text, and a separator.\<close>

definition read_field :: "nat \<Rightarrow> string \<Rightarrow> (nat \<times> string) option" where
  "read_field k s =
     (if k \<le> length s \<and> list_all is_digit (take k s) then Some (read_nat (take k s), drop k s) else None)"

definition read_sep :: "char \<Rightarrow> string \<Rightarrow> string option" where
  "read_sep c s = (case s of [] \<Rightarrow> None | x # xs \<Rightarrow> if x = c then Some xs else None)"

definition read_sep_field :: "char \<Rightarrow> nat \<Rightarrow> string \<Rightarrow> (nat \<times> string) option" where
  "read_sep_field c k s = Option.bind (read_sep c s) (read_field k)"

definition read_fraction :: "string \<Rightarrow> (nat \<times> string) option" where
  "read_fraction s = (case s of [] \<Rightarrow> Some (0, []) | c # cs \<Rightarrow> if c = CHR ''.'' then read_field 6 cs else Some (0, s))"

definition read_offset :: "string \<Rightarrow> int option option" where
  "read_offset s = (case s of [] \<Rightarrow> Some None
     | c # cs \<Rightarrow>
         if c = CHR ''Z'' \<and> cs = [] then Some (Some 0)
         else if c \<in> {CHR ''+'', CHR ''-''} then
           Option.bind (read_field 2 cs) (\<lambda>(h, r). Option.bind (read_sep_field CHR '':'' 2 r) (\<lambda>(m, r').
             if r' = [] \<and> h < 24 \<and> m < 60 then Some (Some (if c = CHR ''-'' then - int (60 * h + m) else int (60 * h + m))) else None))
         else None)"

definition fromisoformat :: "string \<Rightarrow> pydatetime option" where
  "fromisoformat s =
     Option.bind (read_field 4 s) (\<lambda>(y, s1). Option.bind (read_sep_field CHR ''-'' 2 s1) (\<lambda>(mo, s2).
     Option.bind (read_sep_field CHR ''-'' 2 s2) (\<lambda>(da, s3). Option.bind (read_sep_field CHR ''T'' 2 s3) (\<lambda>(h, s4).
     Option.bind (read_sep_field CHR '':'' 2 s4) (\<lambda>(mi, s5). Option.bind (read_sep_field CHR '':'' 2 s5) (\<lambda>(se, s6).
     Option.bind (read_fraction s6) (\<lambda>(us, s7). Option.bind (read_offset s7) (\<lambda>z.
       let d = \<lparr>dt_year = y, dt_month = mo, dt_day = da, dt_hour = h, dt_minute = mi, dt_second = se,
                dt_micro = us, dt_offset = z\<rparr>
       in if valid_dt d then Some d else None))))))))"

section \<open>The text determines the time\<close>

lemma length_padded [simp]: "length (padded k n) = k"
  by (induction k arbitrary: n) auto

lemma is_digit_char_of: "d < (10 :: nat) \<Longrightarrow> is_digit (char_of (48 + d))"
  by (simp add: is_digit_def)

lemma digits_padded [simp]: "list_all is_digit (padded k n)"
  by (induction k arbitrary: n) (auto simp: is_digit_char_of)

lemma read_nat_snoc: "read_nat (s @ [c]) = 10 * read_nat s + digit_value c"
  by (simp add: read_nat_def)

lemma read_nat_padded: "n < 10 ^ k \<Longrightarrow> read_nat (padded k n) = n"
proof (induction k arbitrary: n)
  case 0
  then show ?case by (simp add: read_nat_def)
next
  case (Suc k)
  then have "n div 10 < 10 ^ k" by (simp add: less_mult_imp_div_less mult.commute)
  with Suc.IH show ?case by (simp add: read_nat_snoc digit_value_digit)
qed

lemma read_field_padded [simp]:
  "n < 10 ^ k \<Longrightarrow> read_field k (padded k n @ s) = Some (n, s)"
  by (simp add: read_field_def read_nat_padded)

lemma read_sep_field_padded:
  "n < 10 ^ k \<Longrightarrow> read_sep_field c k (c # padded k n @ s) = Some (n, s)"
  by (simp add: read_sep_field_def read_sep_def)

lemma iso_offset_head: "iso_offset z = [] \<or> (\<exists>c cs. iso_offset z = c # cs \<and> c \<noteq> CHR ''.'')"
  by (auto simp: iso_offset_def split: option.splits)

lemma read_fraction_none: "read_fraction (iso_offset z) = Some (0, iso_offset z)"
  using iso_offset_head [of z] by (auto simp: read_fraction_def)

lemma read_offset_iso:
  assumes "case z of None \<Rightarrow> True | Some m \<Rightarrow> \<bar>m\<bar> < 24 * 60"
  shows "read_offset (iso_offset z) = Some z"
proof (cases z)
  case None
  then show ?thesis by (simp add: iso_offset_def read_offset_def)
next
  case (Some m)
  define a where "a = nat \<bar>m\<bar>"
  have a: "a < 24 * 60" and m: "m = (if m < 0 then - int a else int a)"
    using assms Some by (auto simp: a_def)
  have h: "a div 60 < 24" "a mod 60 < 60" "60 * (a div 60) + a mod 60 = a"
    using a by auto
  have f: "read_field 2 (padded 2 (a div 60) @ s) = Some (a div 60, s)" for s
    using h by (intro read_field_padded) simp
  have g: "read_sep_field CHR '':'' 2 (CHR '':'' # padded 2 (a mod 60)) = Some (a mod 60, [])"
    using h read_sep_field_padded [of "a mod 60" 2 "CHR '':''" "[]"] by simp
  show ?thesis
  proof (cases "m < 0")
    case True
    with m have "m = - int a" by simp
    then show ?thesis
      using h True by (simp add: Some iso_offset_def read_offset_def a_def [symmetric] f g)
  next
    case False
    with m have "m = int a" by simp
    then show ?thesis
      using h False by (simp add: Some iso_offset_def read_offset_def a_def [symmetric] f g)
  qed
qed

lemma days_in_month_le: "days_in_month y m \<le> 31"
  by (simp add: days_in_month_def)

lemma isoformat_round_trip: "valid_dt d \<Longrightarrow> fromisoformat (isoformat d) = Some d"
proof -
  assume v: "valid_dt d"
  then have b: "dt_year d < 10 ^ 4" "dt_month d < 10 ^ 2" "dt_day d < 10 ^ 2" "dt_hour d < 10 ^ 2"
      "dt_minute d < 10 ^ 2" "dt_second d < 10 ^ 2" "dt_micro d < 10 ^ 6"
    using days_in_month_le [of "dt_year d" "dt_month d"] by (auto simp: valid_dt_def)
  have f: "read_fraction ((if dt_micro d = 0 then [] else ''.'' @ padded 6 (dt_micro d)) @ iso_offset (dt_offset d))
      = Some (dt_micro d, iso_offset (dt_offset d))"
    using read_field_padded [OF b(7)] by (simp add: read_fraction_none) (simp add: read_fraction_def)
  have z: "read_offset (iso_offset (dt_offset d)) = Some (dt_offset d)"
    using v by (intro read_offset_iso) (simp add: valid_dt_def)
  have d: "\<lparr>dt_year = dt_year d, dt_month = dt_month d, dt_day = dt_day d, dt_hour = dt_hour d,
      dt_minute = dt_minute d, dt_second = dt_second d, dt_micro = dt_micro d, dt_offset = dt_offset d\<rparr> = d"
    by simp
  show ?thesis
    unfolding isoformat_def fromisoformat_def
    using v by (simp add: d Let_def read_field_padded [OF b(1)] read_sep_field_padded [OF b(2)] read_sep_field_padded [OF b(3)]
      read_sep_field_padded [OF b(4)] read_sep_field_padded [OF b(5)] read_sep_field_padded [OF b(6)] f z)
qed

section \<open>Conversion to UTC\<close>

text \<open>
  \<^verbatim>\<open>d.astimezone(UTC)\<close>: an offset is less than a day, so the date moves by at most one.
  Beyond the years 1 to 9999 Python raises \<^verbatim>\<open>OverflowError\<close>, here \<open>None\<close>.
\<close>

definition next_day :: "pydatetime \<Rightarrow> pydatetime" where
  "next_day d =
     (if dt_day d < days_in_month (dt_year d) (dt_month d) then d\<lparr>dt_day := dt_day d + 1\<rparr>
      else if dt_month d < 12 then d\<lparr>dt_month := dt_month d + 1, dt_day := 1\<rparr>
      else d\<lparr>dt_year := dt_year d + 1, dt_month := 1, dt_day := 1\<rparr>)"

definition prev_day :: "pydatetime \<Rightarrow> pydatetime" where
  "prev_day d =
     (if 1 < dt_day d then d\<lparr>dt_day := dt_day d - 1\<rparr>
      else if 1 < dt_month d then d\<lparr>dt_month := dt_month d - 1, dt_day := days_in_month (dt_year d) (dt_month d - 1)\<rparr>
      else d\<lparr>dt_year := dt_year d - 1, dt_month := 12, dt_day := 31\<rparr>)"

definition to_utc :: "pydatetime \<Rightarrow> pydatetime option" where
  "to_utc d =
     (let m = int (dt_hour d) * 60 + int (dt_minute d) - (case dt_offset d of None \<Rightarrow> 0 | Some z \<Rightarrow> z);
          e = (if m < 0 then prev_day d else if m \<ge> 24 * 60 then next_day d else d);
          n = nat (m mod (24 * 60));
          r = e\<lparr>dt_hour := n div 60, dt_minute := n mod 60, dt_offset := Some 0\<rparr>
      in if 1 \<le> dt_year e \<and> dt_year e \<le> 9999 then Some r else None)"

definition day_number :: "pydatetime \<Rightarrow> int" where
  "day_number d = days_before_year (dt_year d) + int (days_before_month (dt_year d) (dt_month d) + dt_day d)"

lemma div_Suc_if: "0 < k \<Longrightarrow> Suc p div k = p div k + (if Suc p mod k = 0 then 1 else 0)"
  by (auto simp: div_Suc)

lemma leap_arith:
  "(r \<Longrightarrow> q) \<Longrightarrow> (q \<Longrightarrow> p) \<Longrightarrow>
   (x :: int) + 365 + int (if p then 1 else 0) + int (if r then 1 else 0) - int (if q then 1 else 0)
     = x + (if p \<and> (q \<longrightarrow> r) then 366 else 365)"
  by auto

lemma days_before_year_Suc:
  assumes "1 \<le> y"
  shows "days_before_year (y + 1) = days_before_year y + (if leap_year y then 366 else 365)"
proof -
  obtain p where p: "y = Suc p" using assms by (cases y) auto
  let ?c = "\<lambda>k. (if y mod k = 0 then 1 else 0) :: nat"
  have d: "y div 4 = p div 4 + ?c 4" "y div 100 = p div 100 + ?c 100" "y div 400 = p div 400 + ?c 400"
    unfolding p by (simp_all only: div_Suc_if zero_less_numeral)
  have "days_before_year (y + 1) = int (365 * y + y div 4 + y div 400) - int (y div 100)"
    by (simp add: days_before_year_def)
  also have "\<dots> = days_before_year y + 365 + int (?c 4) + int (?c 400) - int (?c 100)"
    unfolding d by (simp only: days_before_year_def p Let_def) simp
  also have "\<dots> = days_before_year y + (if leap_year y then 366 else 365)"
  proof -
    have "y mod 400 = 0 \<Longrightarrow> y mod 100 = 0" and "y mod 100 = 0 \<Longrightarrow> y mod 4 = 0"
      by presburger+
    then show ?thesis unfolding leap_year_def by (rule leap_arith)
  qed
  finally show ?thesis .
qed

lemma days_before_month_Suc:
  "1 \<le> m \<Longrightarrow> days_before_month y (m + 1) = days_before_month y m + days_in_month y m"
  by (simp add: days_before_month_def)

lemma days_before_month_1 [simp]: "days_before_month y 1 = 0"  "days_before_month y (Suc 0) = 0"
  by (simp_all add: days_before_month_def)

lemma days_before_month_12: "days_before_month y 12 = (if leap_year y then 335 else 334)"
  by (simp add: days_before_month_def days_in_month_def upt_rec)

lemma day_number_next:
  assumes "valid_dt d"
  shows "day_number (next_day d) = day_number d + 1"
proof -
  let ?y = "dt_year d" and ?m = "dt_month d"
  have b: "1 \<le> ?y" "1 \<le> ?m" "?m \<le> 12" "dt_day d \<le> days_in_month ?y ?m"
    using assms by (simp_all add: valid_dt_def)
  consider "dt_day d < days_in_month ?y ?m" | "dt_day d = days_in_month ?y ?m" "?m < 12"
    | "dt_day d = days_in_month ?y ?m" "?m = 12"
    using b by linarith
  then show ?thesis
  proof cases
    case 1
    then show ?thesis by (simp add: day_number_def next_day_def)
  next
    case 2
    then show ?thesis
      using days_before_month_Suc [OF b(2)] by (simp add: day_number_def next_day_def)
  next
    case 3
    moreover have "days_in_month ?y 12 = 31" by (simp add: days_in_month_def)
    ultimately show ?thesis
      using days_before_year_Suc [OF b(1)] by (simp add: day_number_def next_day_def days_before_month_12)
  qed
qed

lemma day_number_prev:
  assumes "valid_dt d" and "1 \<le> dt_year (prev_day d)"
  shows "day_number (prev_day d) = day_number d - 1"
proof -
  consider "1 < dt_day d" | "dt_day d = 1" "1 < dt_month d" | "dt_day d = 1" "dt_month d = 1"
    using assms by (fastforce simp: valid_dt_def)
  then show ?thesis
  proof cases
    case 1
    then show ?thesis by (simp add: day_number_def prev_day_def)
  next
    case 2
    then show ?thesis
      using days_before_month_Suc [of "dt_month d - 1" "dt_year d"] by (simp add: day_number_def prev_day_def)
  next
    case 3
    then have "1 \<le> dt_year d - 1" using assms(2) by (simp add: prev_day_def)
    from days_before_year_Suc [OF this] this 3 show ?thesis
      by (simp add: day_number_def prev_day_def days_before_month_12)
  qed
qed

lemma dt_instant_split:
  "dt_instant d = ((day_number d * (24 * 60) + (int (dt_hour d) * 60 + int (dt_minute d)
      - (case dt_offset d of None \<Rightarrow> 0 | Some z \<Rightarrow> z))) * 60 + int (dt_second d)) * 1000000 + int (dt_micro d)"
proof -
  have "(days * 24 + h) * 60 + mi - z = days * (24 * 60) + (h * 60 + mi - z)" for days h mi z :: int
    by simp
  then show ?thesis
    by (simp only: dt_instant_def day_number_def Let_def)
qed

lemma day_fields [simp]:
  "dt_second (next_day d) = dt_second d" "dt_micro (next_day d) = dt_micro d"
  "dt_second (prev_day d) = dt_second d" "dt_micro (prev_day d) = dt_micro d"
  by (simp_all add: next_day_def prev_day_def)

text \<open>The conversion keeps the instant and gives a valid time of offset zero.\<close>

lemma to_utc_instant:
  assumes v: "valid_dt d" and u: "to_utc d = Some r"
  shows "dt_instant r = dt_instant d \<and> dt_offset r = Some 0"
proof -
  define m where "m = int (dt_hour d) * 60 + int (dt_minute d) - (case dt_offset d of None \<Rightarrow> 0 | Some z \<Rightarrow> z)"
  define e where "e = (if m < 0 then prev_day d else if m \<ge> 24 * 60 then next_day d else d)"
  define n where "n = nat (m mod (24 * 60))"
  have r: "r = e\<lparr>dt_hour := n div 60, dt_minute := n mod 60, dt_offset := Some 0\<rparr>" and y: "1 \<le> dt_year e"
    using u by (auto simp: to_utc_def Let_def m_def e_def n_def split: if_splits)
  have b: "- (24 * 60) < m" "m < 2 * (24 * 60)"
    using v by (auto simp: m_def valid_dt_def split: option.splits)
  have day: "day_number e * (24 * 60) + int n = day_number d * (24 * 60) + m"
  proof -
    consider "m < 0" | "0 \<le> m" "m < 24 * 60" | "24 * 60 \<le> m" by linarith
    then show ?thesis
    proof cases
      case 1
      moreover have "m mod (24 * 60) = m + 24 * 60"
        using b 1 mod_pos_pos_trivial [of "m + 24 * 60" "24 * 60"] by simp
      ultimately show ?thesis using day_number_prev [OF v] y b by (simp add: e_def n_def)
    next
      case 2
      then show ?thesis by (simp add: e_def n_def)
    next
      case 3
      moreover have "m mod (24 * 60) = m - 24 * 60"
        using b 3 mod_pos_pos_trivial [of "m - 24 * 60" "24 * 60"] by (simp add: mod_diff_right_eq)
      ultimately show ?thesis using day_number_next [OF v] b by (simp add: e_def n_def)
    qed
  qed
  have s: "dt_second e = dt_second d" "dt_micro e = dt_micro d"
    by (simp_all add: e_def)
  have nn: "int (n div 60) * 60 + int (n mod 60) = int n"
    by (metis div_mult_mod_eq of_nat_add of_nat_mult of_nat_numeral)
  have "day_number r = day_number e"
    by (simp add: r day_number_def)
  then have "dt_instant r = ((day_number e * (24 * 60) + int n) * 60 + int (dt_second d)) * 1000000 + int (dt_micro d)"
    unfolding dt_instant_split using nn by (simp add: r s)
  then show ?thesis
    using day by (simp add: dt_instant_split [of d] m_def r)
qed

lemma days_in_month_pos: "Suc 0 \<le> days_in_month y m"
  by (simp add: days_in_month_def)

lemma days_in_month_12: "days_in_month y 12 = 31"
  by (simp add: days_in_month_def)

lemma valid_next_day: "valid_dt d \<Longrightarrow> dt_year (next_day d) \<le> 9999 \<Longrightarrow> valid_dt (next_day d)"
  unfolding next_day_def by (simp add: valid_dt_def days_in_month_pos split: if_split_asm)

lemma valid_prev_day:
  assumes v: "valid_dt d" and y: "1 \<le> dt_year (prev_day d)"
  shows "valid_dt (prev_day d)"
proof -
  consider "1 < dt_day d" | "dt_day d = 1" "1 < dt_month d" | "dt_day d = 1" "dt_month d = 1"
    using v by (fastforce simp: valid_dt_def)
  then show ?thesis
  proof cases
    case 1
    with v show ?thesis by (simp add: valid_dt_def prev_day_def) linarith
  next
    case 2
    with v show ?thesis by (simp add: valid_dt_def prev_day_def days_in_month_pos) linarith
  next
    case 3
    with v y show ?thesis by (simp add: valid_dt_def prev_day_def days_in_month_12) linarith
  qed
qed

lemma to_utc_valid:
  assumes v: "valid_dt d" and u: "to_utc d = Some r"
  shows "valid_dt r"
proof -
  define n where "n = nat ((int (dt_hour d) * 60 + int (dt_minute d)
      - (case dt_offset d of None \<Rightarrow> 0 | Some z \<Rightarrow> z)) mod (24 * 60))"
  have n: "n < 24 * 60"
    by (simp add: n_def nat_less_iff)
  obtain e where r: "r = e\<lparr>dt_hour := n div 60, dt_minute := n mod 60, dt_offset := Some 0\<rparr>"
      and e: "e = prev_day d \<or> e = next_day d \<or> e = d" and y: "1 \<le> dt_year e" "dt_year e \<le> 9999"
    using u by (auto simp: to_utc_def Let_def n_def split: if_splits)
  have "valid_dt e"
    using e y v valid_next_day valid_prev_day by auto
  then show ?thesis
    using n by (auto simp: r valid_dt_def)
qed

end
