(* ===== verification/Candidate_Contracts.thy ===== *)
theory Candidate_Contracts
  imports Py_Datetime
begin

text \<open>
  \<^verbatim>\<open>app/governance_refactor/contracts.py\<close>: the twelve kinds of governance candidates, the
  checks that every constructor makes (\<^verbatim>\<open>__post_init__\<close>), the identifier of a candidate and
  the payload the stores write, \<^verbatim>\<open>_normalize(asdict(record))\<close>: a dictionary of the fields in
  which times are ISO texts, enumerations their values and tuples lists.

  Every class has a \<^verbatim>\<open>schema_version\<close> field with a default that only an explicit argument
  changes; the record \<open>candidate\<close> carries it beside the body.
\<close>

definition SCHEMA_VERSION :: string where
  "SCHEMA_VERSION = ''governance-candidate-v0.1''"

section \<open>Enumerations\<close>

datatype completeness = CO_UNKNOWN | CO_PARTIAL | CO_COMPLETE

fun completeness_value :: "completeness \<Rightarrow> string" where
  "completeness_value CO_UNKNOWN = ''UNKNOWN''"
| "completeness_value CO_PARTIAL = ''PARTIAL''"
| "completeness_value CO_COMPLETE = ''COMPLETE''"

datatype gate_verdict = GV_UNKNOWN | GV_OPEN | GV_PASS_WITH_RESERVATIONS | GV_FAIL | GV_HOLD

fun gate_verdict_value :: "gate_verdict \<Rightarrow> string" where
  "gate_verdict_value GV_UNKNOWN = ''UNKNOWN''"
| "gate_verdict_value GV_OPEN = ''OPEN''"
| "gate_verdict_value GV_PASS_WITH_RESERVATIONS = ''PASS_WITH_RESERVATIONS''"
| "gate_verdict_value GV_FAIL = ''FAIL''"
| "gate_verdict_value GV_HOLD = ''HOLD''"

datatype quality_verdict = QV_UNKNOWN | QV_SATISFIED | QV_SATISFIED_WITH_RESERVATIONS | QV_BLOCKED | QV_NOT_APPLICABLE

fun quality_verdict_value :: "quality_verdict \<Rightarrow> string" where
  "quality_verdict_value QV_UNKNOWN = ''UNKNOWN''"
| "quality_verdict_value QV_SATISFIED = ''SATISFIED''"
| "quality_verdict_value QV_SATISFIED_WITH_RESERVATIONS = ''SATISFIED_WITH_RESERVATIONS''"
| "quality_verdict_value QV_BLOCKED = ''BLOCKED''"
| "quality_verdict_value QV_NOT_APPLICABLE = ''NOT_APPLICABLE''"

datatype readiness = RD_NOT_READY | RD_READY_FOR_FOUNDER_REVIEW

fun readiness_value :: "readiness \<Rightarrow> string" where
  "readiness_value RD_NOT_READY = ''NOT_READY''"
| "readiness_value RD_READY_FOR_FOUNDER_REVIEW = ''READY_FOR_FOUNDER_REVIEW''"

datatype founder_decision = FD_APPROVE_FOR_RELEASE | FD_APPROVE_WITH_EXPLICIT_RESERVATIONS | FD_RETURN_FOR_REFACTOR | FD_HOLD | FD_REJECT_BASELINE

fun founder_decision_value :: "founder_decision \<Rightarrow> string" where
  "founder_decision_value FD_APPROVE_FOR_RELEASE = ''APPROVE_FOR_RELEASE''"
| "founder_decision_value FD_APPROVE_WITH_EXPLICIT_RESERVATIONS = ''APPROVE_WITH_EXPLICIT_RESERVATIONS''"
| "founder_decision_value FD_RETURN_FOR_REFACTOR = ''RETURN_FOR_REFACTOR''"
| "founder_decision_value FD_HOLD = ''HOLD''"
| "founder_decision_value FD_REJECT_BASELINE = ''REJECT_BASELINE''"

datatype refactor_class = RC_DEFECT_CORRECTION | RC_QUALITY_REFACTOR | RC_ARCHITECTURAL_REFACTOR | RC_PRODUCT_REFINEMENT

fun refactor_class_value :: "refactor_class \<Rightarrow> string" where
  "refactor_class_value RC_DEFECT_CORRECTION = ''DEFECT_CORRECTION''"
| "refactor_class_value RC_QUALITY_REFACTOR = ''QUALITY_REFACTOR''"
| "refactor_class_value RC_ARCHITECTURAL_REFACTOR = ''ARCHITECTURAL_REFACTOR''"
| "refactor_class_value RC_PRODUCT_REFINEMENT = ''PRODUCT_REFINEMENT''"

datatype availability_state = AV_UNKNOWN | AV_NATIVE_HOST_ONLY | AV_OPERATIONALLY_BOUND | AV_RECOVERABLE | AV_UNAVAILABLE

fun availability_state_value :: "availability_state \<Rightarrow> string" where
  "availability_state_value AV_UNKNOWN = ''UNKNOWN''"
| "availability_state_value AV_NATIVE_HOST_ONLY = ''NATIVE_HOST_ONLY''"
| "availability_state_value AV_OPERATIONALLY_BOUND = ''OPERATIONALLY_BOUND''"
| "availability_state_value AV_RECOVERABLE = ''RECOVERABLE''"
| "availability_state_value AV_UNAVAILABLE = ''UNAVAILABLE''"

datatype routing_state = RT_UNKNOWN | RT_ADDRESSABLE | RT_HOLD

fun routing_state_value :: "routing_state \<Rightarrow> string" where
  "routing_state_value RT_UNKNOWN = ''UNKNOWN''"
| "routing_state_value RT_ADDRESSABLE = ''ADDRESSABLE''"
| "routing_state_value RT_HOLD = ''HOLD''"

section \<open>The checks of the constructors\<close>

text \<open>\<^verbatim>\<open>_required\<close>, \<^verbatim>\<open>_non_negative_optional\<close>, \<^verbatim>\<open>_aware\<close>, and the truth of an optional text.\<close>

definition required :: "string list \<Rightarrow> bool \<times> string" where
  "required values = (list_all (\<lambda>v. \<not> blank v) values, ''required_candidate_field_missing'')"

definition non_negative_optional :: "int option list \<Rightarrow> bool \<times> string" where
  "non_negative_optional values =
     (list_all (\<lambda>v. case v of None \<Rightarrow> True | Some n \<Rightarrow> 0 \<le> n) values, ''negative_candidate_measurement'')"

definition all_aware :: "pydatetime option list \<Rightarrow> bool \<times> string" where
  "all_aware values =
     (list_all (\<lambda>v. case v of None \<Rightarrow> True | Some d \<Rightarrow> aware d) values, ''timezone_aware_timestamp_required'')"

definition truthy_ref :: "string option \<Rightarrow> bool" where
  "truthy_ref x \<longleftrightarrow> x \<noteq> None \<and> x \<noteq> Some []"

record source_link =
  sl_source_type :: string
  sl_source_ref :: string
  sl_relation :: string

definition new_source_link :: "source_link \<Rightarrow> source_link res" where
  "new_source_link l = checks [required [sl_source_type l, sl_source_ref l, sl_relation l]] l"

section \<open>The candidates\<close>

record mission_metrics =
  mmr_record_id :: string
  mmr_mission_id :: string
  mmr_ocs_id :: string
  mmr_product_id :: "string option"
  mmr_gate_id :: "string option"
  mmr_started_at :: pydatetime
  mmr_completed_at :: "pydatetime option"
  mmr_active_execution_seconds :: "int option"
  mmr_waiting_seconds :: "int option"
  mmr_founder_wait_seconds :: "int option"
  mmr_external_wait_seconds :: "int option"
  mmr_retries :: "int option"
  mmr_failures :: "int option"
  mmr_refactors :: "int option"
  mmr_founder_interventions :: "int option"
  mmr_autonomous_completion :: "bool option"
  mmr_source_refs :: "string list"
  mmr_source_links :: "source_link list"
  mmr_provenance_refs :: "string list"
  mmr_measurement_method :: string
  mmr_measurement_version :: string
  mmr_observed_at :: pydatetime
  mmr_completeness :: completeness

definition new_mission_metrics :: "mission_metrics \<Rightarrow> mission_metrics res" where
  "new_mission_metrics r =
     checks
       [required [mmr_record_id r, mmr_mission_id r, mmr_ocs_id r, mmr_measurement_method r,
         mmr_measurement_version r],
        non_negative_optional [mmr_active_execution_seconds r, mmr_waiting_seconds r,
         mmr_founder_wait_seconds r, mmr_external_wait_seconds r, mmr_retries r, mmr_failures
         r, mmr_refactors r, mmr_founder_interventions r],
        all_aware [Some (mmr_started_at r), mmr_completed_at r, Some (mmr_observed_at r)]] r"

record gate_performance =
  gpr_gate_id :: string
  gpr_object_ref :: string
  gpr_gate_class :: string
  gpr_opened_at :: pydatetime
  gpr_closed_at :: "pydatetime option"
  gpr_elapsed_seconds :: "int option"
  gpr_blocking_seconds :: "int option"
  gpr_owner_ocs :: string
  gpr_verifier_ocs :: "string option"
  gpr_assurance_required :: bool
  gpr_evidence_refs :: "string list"
  gpr_source_links :: "source_link list"
  gpr_provenance_refs :: "string list"
  gpr_blockers :: "string list"
  gpr_findings :: "string list"
  gpr_verdict :: gate_verdict
  gpr_routing_result :: "string option"
  gpr_version :: string

definition new_gate_performance :: "gate_performance \<Rightarrow> gate_performance res" where
  "new_gate_performance r =
     checks
       [required [gpr_gate_id r, gpr_object_ref r, gpr_gate_class r, gpr_owner_ocs r,
         gpr_version r],
        all_aware [Some (gpr_opened_at r), gpr_closed_at r],
        non_negative_optional [gpr_elapsed_seconds r, gpr_blocking_seconds r]] r"

record quality_matrix =
  qam_matrix_id :: string
  qam_object_ref :: string
  qam_domain :: string
  qam_applicable :: bool
  qam_reason :: string
  qam_required_evidence :: "string list"
  qam_mandatory_for_promotion :: bool
  qam_source_links :: "source_link list"
  qam_provenance_refs :: "string list"
  qam_version :: string

definition new_quality_matrix :: "quality_matrix \<Rightarrow> quality_matrix res" where
  "new_quality_matrix r =
     checks
       [required [qam_matrix_id r, qam_object_ref r, qam_domain r, qam_reason r, qam_version
         r]] r"

record quality_assessment =
  qda_assessment_id :: string
  qda_product_id :: string
  qda_baseline_ref :: string
  qda_domain :: string
  qda_applicable :: bool
  qda_applicability_reason :: string
  qda_assessor_ocs :: string
  qda_evidence_refs :: "string list"
  qda_source_links :: "source_link list"
  qda_provenance_refs :: "string list"
  qda_findings :: "string list"
  qda_verdict :: quality_verdict
  qda_assessed_at :: pydatetime
  qda_assessment_version :: string

definition new_quality_assessment :: "quality_assessment \<Rightarrow> quality_assessment res" where
  "new_quality_assessment r =
     checks
       [required [qda_assessment_id r, qda_product_id r, qda_baseline_ref r, qda_domain r,
         qda_applicability_reason r, qda_assessor_ocs r, qda_assessment_version r],
        all_aware [Some (qda_assessed_at r)],
        (qda_applicable r \<or> qda_verdict r = QV_NOT_APPLICABLE,
                ''non_applicable_domain_requires_not_applicable_verdict'')] r"

record evidence_bundle =
  qeb_bundle_id :: string
  qeb_baseline_ref :: string
  qeb_evidence_refs :: "string list"
  qeb_provenance_refs :: "string list"
  qeb_source_links :: "source_link list"
  qeb_assessment_refs :: "string list"
  qeb_assurance_refs :: "string list"
  qeb_known_limitations :: "string list"
  qeb_evidence_completeness :: completeness
  qeb_created_at :: pydatetime
  qeb_bundle_version :: string

definition new_evidence_bundle :: "evidence_bundle \<Rightarrow> evidence_bundle res" where
  "new_evidence_bundle r =
     checks
       [required [qeb_bundle_id r, qeb_baseline_ref r, qeb_bundle_version r],
        all_aware [Some (qeb_created_at r)]] r"

record promotion_readiness =
  prs_readiness_id :: string
  prs_product_id :: string
  prs_baseline_ref :: string
  prs_required_domains :: "string list"
  prs_completed_assessments :: "string list"
  prs_open_blockers :: "string list"
  prs_assurance_state :: string
  prs_readiness :: readiness
  prs_evidence_bundle_ref :: string
  prs_derived_from :: "string list"
  prs_source_links :: "source_link list"
  prs_provenance_refs :: "string list"
  prs_derivation_version :: string
  prs_derived_at :: pydatetime

definition new_promotion_readiness :: "promotion_readiness \<Rightarrow> promotion_readiness res" where
  "new_promotion_readiness r =
     checks
       [required [prs_readiness_id r, prs_product_id r, prs_baseline_ref r,
         prs_assurance_state r, prs_evidence_bundle_ref r, prs_derivation_version r],
        all_aware [Some (prs_derived_at r)]] r"

record founder_approval =
  fad_decision_id :: string
  fad_product_id :: string
  fad_baseline_ref :: string
  fad_evidence_bundle_ref :: string
  fad_decision :: founder_decision
  fad_reservations :: "string list"
  fad_authority_ref :: string
  fad_decided_at :: pydatetime
  fad_explicit_founder_act_ref :: string
  fad_source_links :: "source_link list"
  fad_provenance_refs :: "string list"

definition new_founder_approval :: "founder_approval \<Rightarrow> founder_approval res" where
  "new_founder_approval r =
     checks
       [required [fad_decision_id r, fad_product_id r, fad_baseline_ref r,
         fad_evidence_bundle_ref r, fad_authority_ref r, fad_explicit_founder_act_ref r],
        all_aware [Some (fad_decided_at r)]] r"

record refactor_event =
  rfe_refactor_id :: string
  rfe_object_ref :: string
  rfe_refactor_class :: refactor_class
  rfe_reason :: string
  rfe_discovered_at_stage :: string
  rfe_affected_contracts :: "string list"
  rfe_started_at :: pydatetime
  rfe_completed_at :: "pydatetime option"
  rfe_elapsed_seconds :: "int option"
  rfe_recurrence_ref :: "string option"
  rfe_evidence_refs :: "string list"
  rfe_source_links :: "source_link list"
  rfe_provenance_refs :: "string list"
  rfe_learning_ref :: "string option"
  rfe_event_version :: string

definition new_refactor_event :: "refactor_event \<Rightarrow> refactor_event res" where
  "new_refactor_event r =
     checks
       [required [rfe_refactor_id r, rfe_object_ref r, rfe_reason r, rfe_discovered_at_stage
         r, rfe_event_version r],
        all_aware [Some (rfe_started_at r), rfe_completed_at r],
        non_negative_optional [rfe_elapsed_seconds r]] r"

record integration_capability =
  icr_integration_id :: string
  icr_provider :: string
  icr_category :: string
  icr_purpose :: string
  icr_connection_status :: string
  icr_validation_status :: string
  icr_read_capabilities :: "string list"
  icr_write_capabilities :: "string list"
  icr_supported_artifacts :: "string list"
  icr_authentication_boundary :: string
  icr_canonical_source_role :: "string option"
  icr_primary_ocs_users :: "string list"
  icr_authorized_use_cases :: "string list"
  icr_prohibited_use_cases :: "string list"
  icr_known_limitations :: "string list"
  icr_security_risks :: "string list"
  icr_data_risks :: "string list"
  icr_reversibility :: string
  icr_evidence_capability :: string
  icr_last_validated_at :: "pydatetime option"
  icr_capability_version :: string
  icr_source_links :: "source_link list"
  icr_provenance_refs :: "string list"

definition new_integration_capability :: "integration_capability \<Rightarrow> integration_capability res" where
  "new_integration_capability r =
     checks
       [required [icr_integration_id r, icr_provider r, icr_category r, icr_purpose r,
         icr_connection_status r, icr_validation_status r, icr_authentication_boundary r,
         icr_reversibility r, icr_evidence_capability r, icr_capability_version r],
        all_aware [icr_last_validated_at r]] r"

record agent_availability =
  aac_contract_id :: string
  aac_ocs_id :: string
  aac_availability_state :: availability_state
  aac_current_instance_id :: "string option"
  aac_generation :: "int option"
  aac_mission_bound :: bool
  aac_lease_status :: string
  aac_recovery_ready :: bool
  aac_recovery_proof_ref :: "string option"
  aac_auxiliary_spawn :: bool
  aac_chat_addressable :: bool
  aac_last_checkpoint_ref :: "string option"
  aac_last_readback_ref :: "string option"
  aac_evidence_state :: completeness
  aac_freshness_at :: "pydatetime option"
  aac_source_links :: "source_link list"
  aac_provenance_refs :: "string list"
  aac_contract_version :: string

definition new_agent_availability :: "agent_availability \<Rightarrow> agent_availability res" where
  "new_agent_availability r =
     checks
       [required [aac_contract_id r, aac_ocs_id r, aac_lease_status r, aac_contract_version r],
        all_aware [aac_freshness_at r],
        non_negative_optional [aac_generation r],
        (aac_availability_state r \<noteq> AV_RECOVERABLE \<or> truthy_ref (aac_recovery_proof_ref r),
                ''recoverable_requires_proof_ref'')] r"

record chat_routing =
  crc_route_id :: string
  crc_addressed_ocs_id :: string
  crc_mission_id :: string
  crc_resolved_instance_id :: "string option"
  crc_generation :: "int option"
  crc_routing_state :: routing_state
  crc_route_receipt_ref :: "string option"
  crc_response_correlation_id :: string
  crc_chat_addressable :: bool
  crc_chat_native_execution :: bool
  crc_source_links :: "source_link list"
  crc_provenance_refs :: "string list"
  crc_contract_version :: string

definition new_chat_routing :: "chat_routing \<Rightarrow> chat_routing res" where
  "new_chat_routing r =
     checks
       [required [crc_route_id r, crc_addressed_ocs_id r, crc_mission_id r,
         crc_response_correlation_id r, crc_contract_version r],
        non_negative_optional [crc_generation r],
        (\<not> crc_chat_native_execution r,
                ''chat_native_execution_unproven'')] r"

record auxiliary_evidence =
  axe_evidence_id :: string
  axe_parent_ocs_id :: string
  axe_auxiliary_id :: string
  axe_mission_id :: string
  axe_requested_scope :: "string list"
  axe_parent_authority_scope :: "string list"
  axe_produced_evidence_refs :: "string list"
  axe_created_new_ocs_identity :: bool
  axe_source_links :: "source_link list"
  axe_provenance_refs :: "string list"
  axe_contract_version :: string

definition new_auxiliary_evidence :: "auxiliary_evidence \<Rightarrow> auxiliary_evidence res" where
  "new_auxiliary_evidence r =
     checks
       [required [axe_evidence_id r, axe_parent_ocs_id r, axe_auxiliary_id r, axe_mission_id
         r, axe_contract_version r],
        (set (axe_requested_scope r) \<subseteq> set (axe_parent_authority_scope r),
                ''auxiliary_authority_escapes_parent''),
        (\<not> axe_created_new_ocs_identity r,
                ''auxiliary_cannot_create_ocs_identity'')] r"

section \<open>A candidate of any kind\<close>

datatype candidate_body =
    MissionMetrics mission_metrics
  | GatePerformance gate_performance
  | QualityMatrix quality_matrix
  | QualityAssessment quality_assessment
  | EvidenceBundle evidence_bundle
  | PromotionReadiness promotion_readiness
  | FounderApproval founder_approval
  | Refactor refactor_event
  | IntegrationCapability integration_capability
  | AgentAvailability agent_availability
  | ChatRouting chat_routing
  | AuxiliaryEvidence auxiliary_evidence

record candidate_record =
  cd_body :: candidate_body
  cd_schema_version :: string

fun construct :: "candidate_body \<Rightarrow> candidate_body res" where
  "construct (MissionMetrics r) = map_sum id MissionMetrics (new_mission_metrics r)"
| "construct (GatePerformance r) = map_sum id GatePerformance (new_gate_performance r)"
| "construct (QualityMatrix r) = map_sum id QualityMatrix (new_quality_matrix r)"
| "construct (QualityAssessment r) = map_sum id QualityAssessment (new_quality_assessment r)"
| "construct (EvidenceBundle r) = map_sum id EvidenceBundle (new_evidence_bundle r)"
| "construct (PromotionReadiness r) = map_sum id PromotionReadiness (new_promotion_readiness r)"
| "construct (FounderApproval r) = map_sum id FounderApproval (new_founder_approval r)"
| "construct (Refactor r) = map_sum id Refactor (new_refactor_event r)"
| "construct (IntegrationCapability r) = map_sum id IntegrationCapability (new_integration_capability r)"
| "construct (AgentAvailability r) = map_sum id AgentAvailability (new_agent_availability r)"
| "construct (ChatRouting r) = map_sum id ChatRouting (new_chat_routing r)"
| "construct (AuxiliaryEvidence r) = map_sum id AuxiliaryEvidence (new_auxiliary_evidence r)"

text \<open>\<^verbatim>\<open>record_id\<close> and \<^verbatim>\<open>type(record).__name__\<close>.\<close>

fun record_id :: "candidate_body \<Rightarrow> string" where
  "record_id (MissionMetrics r) = mmr_record_id r"
| "record_id (GatePerformance r) = gpr_gate_id r"
| "record_id (QualityMatrix r) = qam_matrix_id r"
| "record_id (QualityAssessment r) = qda_assessment_id r"
| "record_id (EvidenceBundle r) = qeb_bundle_id r"
| "record_id (PromotionReadiness r) = prs_readiness_id r"
| "record_id (FounderApproval r) = fad_decision_id r"
| "record_id (Refactor r) = rfe_refactor_id r"
| "record_id (IntegrationCapability r) = icr_integration_id r"
| "record_id (AgentAvailability r) = aac_contract_id r"
| "record_id (ChatRouting r) = crc_route_id r"
| "record_id (AuxiliaryEvidence r) = axe_evidence_id r"

fun record_type :: "candidate_body \<Rightarrow> string" where
  "record_type (MissionMetrics _) = ''MissionMetricsRecord''"
| "record_type (GatePerformance _) = ''GatePerformanceRecord''"
| "record_type (QualityMatrix _) = ''QualityApplicabilityMatrix''"
| "record_type (QualityAssessment _) = ''QualityDomainAssessment''"
| "record_type (EvidenceBundle _) = ''QualityEvidenceBundle''"
| "record_type (PromotionReadiness _) = ''PromotionReadinessState''"
| "record_type (FounderApproval _) = ''FounderApprovalDecision''"
| "record_type (Refactor _) = ''RefactorEvent''"
| "record_type (IntegrationCapability _) = ''IntegrationCapabilityRecord''"
| "record_type (AgentAvailability _) = ''AgentAvailabilityContract''"
| "record_type (ChatRouting _) = ''ChatInstitutionalRoutingContract''"
| "record_type (AuxiliaryEvidence _) = ''AuxiliaryAgentEvidenceContract''"

section \<open>Payloads\<close>

definition pv_refs :: "string list \<Rightarrow> pyval" where
  "pv_refs xs = PyList (map PyStr xs)"

definition pv_time :: "pydatetime \<Rightarrow> pyval" where
  "pv_time d = PyStr (isoformat d)"

definition pv_opt :: "('a \<Rightarrow> pyval) \<Rightarrow> 'a option \<Rightarrow> pyval" where
  "pv_opt f x = (case x of None \<Rightarrow> PyNone | Some y \<Rightarrow> f y)"

definition pv_link :: "source_link \<Rightarrow> pyval" where
  "pv_link l = PyDict [(''source_type'', PyStr (sl_source_type l)),
     (''source_ref'', PyStr (sl_source_ref l)), (''relation'', PyStr (sl_relation l))]"

definition pv_links :: "source_link list \<Rightarrow> pyval" where
  "pv_links ls = PyList (map pv_link ls)"

definition mission_metrics_fields :: "mission_metrics \<Rightarrow> (string \<times> pyval) list" where
  "mission_metrics_fields r =
     [(''record_id'', PyStr (mmr_record_id r)), (''mission_id'', PyStr (mmr_mission_id r)),
      (''ocs_id'', PyStr (mmr_ocs_id r)), (''product_id'', pv_opt PyStr (mmr_product_id r)),
      (''gate_id'', pv_opt PyStr (mmr_gate_id r)),
      (''started_at'', pv_time (mmr_started_at r)),
      (''completed_at'', pv_opt pv_time (mmr_completed_at r)),
      (''active_execution_seconds'', pv_opt PyInt (mmr_active_execution_seconds r)),
      (''waiting_seconds'', pv_opt PyInt (mmr_waiting_seconds r)),
      (''founder_wait_seconds'', pv_opt PyInt (mmr_founder_wait_seconds r)),
      (''external_wait_seconds'', pv_opt PyInt (mmr_external_wait_seconds r)),
      (''retries'', pv_opt PyInt (mmr_retries r)),
      (''failures'', pv_opt PyInt (mmr_failures r)),
      (''refactors'', pv_opt PyInt (mmr_refactors r)),
      (''founder_interventions'', pv_opt PyInt (mmr_founder_interventions r)),
      (''autonomous_completion'', pv_opt PyBool (mmr_autonomous_completion r)),
      (''source_refs'', pv_refs (mmr_source_refs r)),
      (''source_links'', pv_links (mmr_source_links r)),
      (''provenance_refs'', pv_refs (mmr_provenance_refs r)),
      (''measurement_method'', PyStr (mmr_measurement_method r)),
      (''measurement_version'', PyStr (mmr_measurement_version r)),
      (''observed_at'', pv_time (mmr_observed_at r)),
      (''completeness'', PyStr (completeness_value (mmr_completeness r)))]"

definition gate_performance_fields :: "gate_performance \<Rightarrow> (string \<times> pyval) list" where
  "gate_performance_fields r =
     [(''gate_id'', PyStr (gpr_gate_id r)), (''object_ref'', PyStr (gpr_object_ref r)),
      (''gate_class'', PyStr (gpr_gate_class r)), (''opened_at'', pv_time (gpr_opened_at r)),
      (''closed_at'', pv_opt pv_time (gpr_closed_at r)),
      (''elapsed_seconds'', pv_opt PyInt (gpr_elapsed_seconds r)),
      (''blocking_seconds'', pv_opt PyInt (gpr_blocking_seconds r)),
      (''owner_ocs'', PyStr (gpr_owner_ocs r)),
      (''verifier_ocs'', pv_opt PyStr (gpr_verifier_ocs r)),
      (''assurance_required'', PyBool (gpr_assurance_required r)),
      (''evidence_refs'', pv_refs (gpr_evidence_refs r)),
      (''source_links'', pv_links (gpr_source_links r)),
      (''provenance_refs'', pv_refs (gpr_provenance_refs r)),
      (''blockers'', pv_refs (gpr_blockers r)), (''findings'', pv_refs (gpr_findings r)),
      (''verdict'', PyStr (gate_verdict_value (gpr_verdict r))),
      (''routing_result'', pv_opt PyStr (gpr_routing_result r)),
      (''version'', PyStr (gpr_version r))]"

definition quality_matrix_fields :: "quality_matrix \<Rightarrow> (string \<times> pyval) list" where
  "quality_matrix_fields r =
     [(''matrix_id'', PyStr (qam_matrix_id r)), (''object_ref'', PyStr (qam_object_ref r)),
      (''domain'', PyStr (qam_domain r)), (''applicable'', PyBool (qam_applicable r)),
      (''reason'', PyStr (qam_reason r)),
      (''required_evidence'', pv_refs (qam_required_evidence r)),
      (''mandatory_for_promotion'', PyBool (qam_mandatory_for_promotion r)),
      (''source_links'', pv_links (qam_source_links r)),
      (''provenance_refs'', pv_refs (qam_provenance_refs r)),
      (''version'', PyStr (qam_version r))]"

definition quality_assessment_fields :: "quality_assessment \<Rightarrow> (string \<times> pyval) list" where
  "quality_assessment_fields r =
     [(''assessment_id'', PyStr (qda_assessment_id r)),
      (''product_id'', PyStr (qda_product_id r)),
      (''baseline_ref'', PyStr (qda_baseline_ref r)), (''domain'', PyStr (qda_domain r)),
      (''applicable'', PyBool (qda_applicable r)),
      (''applicability_reason'', PyStr (qda_applicability_reason r)),
      (''assessor_ocs'', PyStr (qda_assessor_ocs r)),
      (''evidence_refs'', pv_refs (qda_evidence_refs r)),
      (''source_links'', pv_links (qda_source_links r)),
      (''provenance_refs'', pv_refs (qda_provenance_refs r)),
      (''findings'', pv_refs (qda_findings r)),
      (''verdict'', PyStr (quality_verdict_value (qda_verdict r))),
      (''assessed_at'', pv_time (qda_assessed_at r)),
      (''assessment_version'', PyStr (qda_assessment_version r))]"

definition evidence_bundle_fields :: "evidence_bundle \<Rightarrow> (string \<times> pyval) list" where
  "evidence_bundle_fields r =
     [(''bundle_id'', PyStr (qeb_bundle_id r)), (''baseline_ref'', PyStr (qeb_baseline_ref r)),
      (''evidence_refs'', pv_refs (qeb_evidence_refs r)),
      (''provenance_refs'', pv_refs (qeb_provenance_refs r)),
      (''source_links'', pv_links (qeb_source_links r)),
      (''assessment_refs'', pv_refs (qeb_assessment_refs r)),
      (''assurance_refs'', pv_refs (qeb_assurance_refs r)),
      (''known_limitations'', pv_refs (qeb_known_limitations r)),
      (''evidence_completeness'', PyStr (completeness_value (qeb_evidence_completeness r))),
      (''created_at'', pv_time (qeb_created_at r)),
      (''bundle_version'', PyStr (qeb_bundle_version r))]"

definition promotion_readiness_fields :: "promotion_readiness \<Rightarrow> (string \<times> pyval) list" where
  "promotion_readiness_fields r =
     [(''readiness_id'', PyStr (prs_readiness_id r)),
      (''product_id'', PyStr (prs_product_id r)),
      (''baseline_ref'', PyStr (prs_baseline_ref r)),
      (''required_domains'', pv_refs (prs_required_domains r)),
      (''completed_assessments'', pv_refs (prs_completed_assessments r)),
      (''open_blockers'', pv_refs (prs_open_blockers r)),
      (''assurance_state'', PyStr (prs_assurance_state r)),
      (''readiness'', PyStr (readiness_value (prs_readiness r))),
      (''evidence_bundle_ref'', PyStr (prs_evidence_bundle_ref r)),
      (''derived_from'', pv_refs (prs_derived_from r)),
      (''source_links'', pv_links (prs_source_links r)),
      (''provenance_refs'', pv_refs (prs_provenance_refs r)),
      (''derivation_version'', PyStr (prs_derivation_version r)),
      (''derived_at'', pv_time (prs_derived_at r))]"

definition founder_approval_fields :: "founder_approval \<Rightarrow> (string \<times> pyval) list" where
  "founder_approval_fields r =
     [(''decision_id'', PyStr (fad_decision_id r)), (''product_id'', PyStr (fad_product_id r)),
      (''baseline_ref'', PyStr (fad_baseline_ref r)),
      (''evidence_bundle_ref'', PyStr (fad_evidence_bundle_ref r)),
      (''decision'', PyStr (founder_decision_value (fad_decision r))),
      (''reservations'', pv_refs (fad_reservations r)),
      (''authority_ref'', PyStr (fad_authority_ref r)),
      (''decided_at'', pv_time (fad_decided_at r)),
      (''explicit_founder_act_ref'', PyStr (fad_explicit_founder_act_ref r)),
      (''source_links'', pv_links (fad_source_links r)),
      (''provenance_refs'', pv_refs (fad_provenance_refs r))]"

definition refactor_event_fields :: "refactor_event \<Rightarrow> (string \<times> pyval) list" where
  "refactor_event_fields r =
     [(''refactor_id'', PyStr (rfe_refactor_id r)), (''object_ref'', PyStr (rfe_object_ref r)),
      (''refactor_class'', PyStr (refactor_class_value (rfe_refactor_class r))),
      (''reason'', PyStr (rfe_reason r)),
      (''discovered_at_stage'', PyStr (rfe_discovered_at_stage r)),
      (''affected_contracts'', pv_refs (rfe_affected_contracts r)),
      (''started_at'', pv_time (rfe_started_at r)),
      (''completed_at'', pv_opt pv_time (rfe_completed_at r)),
      (''elapsed_seconds'', pv_opt PyInt (rfe_elapsed_seconds r)),
      (''recurrence_ref'', pv_opt PyStr (rfe_recurrence_ref r)),
      (''evidence_refs'', pv_refs (rfe_evidence_refs r)),
      (''source_links'', pv_links (rfe_source_links r)),
      (''provenance_refs'', pv_refs (rfe_provenance_refs r)),
      (''learning_ref'', pv_opt PyStr (rfe_learning_ref r)),
      (''event_version'', PyStr (rfe_event_version r))]"

definition integration_capability_fields :: "integration_capability \<Rightarrow> (string \<times> pyval) list" where
  "integration_capability_fields r =
     [(''integration_id'', PyStr (icr_integration_id r)),
      (''provider'', PyStr (icr_provider r)), (''category'', PyStr (icr_category r)),
      (''purpose'', PyStr (icr_purpose r)),
      (''connection_status'', PyStr (icr_connection_status r)),
      (''validation_status'', PyStr (icr_validation_status r)),
      (''read_capabilities'', pv_refs (icr_read_capabilities r)),
      (''write_capabilities'', pv_refs (icr_write_capabilities r)),
      (''supported_artifacts'', pv_refs (icr_supported_artifacts r)),
      (''authentication_boundary'', PyStr (icr_authentication_boundary r)),
      (''canonical_source_role'', pv_opt PyStr (icr_canonical_source_role r)),
      (''primary_ocs_users'', pv_refs (icr_primary_ocs_users r)),
      (''authorized_use_cases'', pv_refs (icr_authorized_use_cases r)),
      (''prohibited_use_cases'', pv_refs (icr_prohibited_use_cases r)),
      (''known_limitations'', pv_refs (icr_known_limitations r)),
      (''security_risks'', pv_refs (icr_security_risks r)),
      (''data_risks'', pv_refs (icr_data_risks r)),
      (''reversibility'', PyStr (icr_reversibility r)),
      (''evidence_capability'', PyStr (icr_evidence_capability r)),
      (''last_validated_at'', pv_opt pv_time (icr_last_validated_at r)),
      (''capability_version'', PyStr (icr_capability_version r)),
      (''source_links'', pv_links (icr_source_links r)),
      (''provenance_refs'', pv_refs (icr_provenance_refs r))]"

definition agent_availability_fields :: "agent_availability \<Rightarrow> (string \<times> pyval) list" where
  "agent_availability_fields r =
     [(''contract_id'', PyStr (aac_contract_id r)), (''ocs_id'', PyStr (aac_ocs_id r)),
      (''availability_state'', PyStr (availability_state_value (aac_availability_state r))),
      (''current_instance_id'', pv_opt PyStr (aac_current_instance_id r)),
      (''generation'', pv_opt PyInt (aac_generation r)),
      (''mission_bound'', PyBool (aac_mission_bound r)),
      (''lease_status'', PyStr (aac_lease_status r)),
      (''recovery_ready'', PyBool (aac_recovery_ready r)),
      (''recovery_proof_ref'', pv_opt PyStr (aac_recovery_proof_ref r)),
      (''auxiliary_spawn'', PyBool (aac_auxiliary_spawn r)),
      (''chat_addressable'', PyBool (aac_chat_addressable r)),
      (''last_checkpoint_ref'', pv_opt PyStr (aac_last_checkpoint_ref r)),
      (''last_readback_ref'', pv_opt PyStr (aac_last_readback_ref r)),
      (''evidence_state'', PyStr (completeness_value (aac_evidence_state r))),
      (''freshness_at'', pv_opt pv_time (aac_freshness_at r)),
      (''source_links'', pv_links (aac_source_links r)),
      (''provenance_refs'', pv_refs (aac_provenance_refs r)),
      (''contract_version'', PyStr (aac_contract_version r))]"

definition chat_routing_fields :: "chat_routing \<Rightarrow> (string \<times> pyval) list" where
  "chat_routing_fields r =
     [(''route_id'', PyStr (crc_route_id r)),
      (''addressed_ocs_id'', PyStr (crc_addressed_ocs_id r)),
      (''mission_id'', PyStr (crc_mission_id r)),
      (''resolved_instance_id'', pv_opt PyStr (crc_resolved_instance_id r)),
      (''generation'', pv_opt PyInt (crc_generation r)),
      (''routing_state'', PyStr (routing_state_value (crc_routing_state r))),
      (''route_receipt_ref'', pv_opt PyStr (crc_route_receipt_ref r)),
      (''response_correlation_id'', PyStr (crc_response_correlation_id r)),
      (''chat_addressable'', PyBool (crc_chat_addressable r)),
      (''chat_native_execution'', PyBool (crc_chat_native_execution r)),
      (''source_links'', pv_links (crc_source_links r)),
      (''provenance_refs'', pv_refs (crc_provenance_refs r)),
      (''contract_version'', PyStr (crc_contract_version r))]"

definition auxiliary_evidence_fields :: "auxiliary_evidence \<Rightarrow> (string \<times> pyval) list" where
  "auxiliary_evidence_fields r =
     [(''evidence_id'', PyStr (axe_evidence_id r)),
      (''parent_ocs_id'', PyStr (axe_parent_ocs_id r)),
      (''auxiliary_id'', PyStr (axe_auxiliary_id r)),
      (''mission_id'', PyStr (axe_mission_id r)),
      (''requested_scope'', pv_refs (axe_requested_scope r)),
      (''parent_authority_scope'', pv_refs (axe_parent_authority_scope r)),
      (''produced_evidence_refs'', pv_refs (axe_produced_evidence_refs r)),
      (''created_new_ocs_identity'', PyBool (axe_created_new_ocs_identity r)),
      (''source_links'', pv_links (axe_source_links r)),
      (''provenance_refs'', pv_refs (axe_provenance_refs r)),
      (''contract_version'', PyStr (axe_contract_version r))]"

fun body_fields :: "candidate_body \<Rightarrow> (string \<times> pyval) list" where
  "body_fields (MissionMetrics r) = mission_metrics_fields r"
| "body_fields (GatePerformance r) = gate_performance_fields r"
| "body_fields (QualityMatrix r) = quality_matrix_fields r"
| "body_fields (QualityAssessment r) = quality_assessment_fields r"
| "body_fields (EvidenceBundle r) = evidence_bundle_fields r"
| "body_fields (PromotionReadiness r) = promotion_readiness_fields r"
| "body_fields (FounderApproval r) = founder_approval_fields r"
| "body_fields (Refactor r) = refactor_event_fields r"
| "body_fields (IntegrationCapability r) = integration_capability_fields r"
| "body_fields (AgentAvailability r) = agent_availability_fields r"
| "body_fields (ChatRouting r) = chat_routing_fields r"
| "body_fields (AuxiliaryEvidence r) = auxiliary_evidence_fields r"

definition candidate_payload :: "candidate_record \<Rightarrow> pyval" where
  "candidate_payload c =
     PyDict (body_fields (cd_body c) @ [(''schema_version'', PyStr (cd_schema_version c))])"

text \<open>The computed properties of two of the classes.\<close>

definition releases_product :: "promotion_readiness \<Rightarrow> bool" where
  "releases_product r = False"

definition effective_completeness :: "mission_metrics \<Rightarrow> pydatetime \<Rightarrow> completeness res" where
  "effective_completeness r now =
     checks [all_aware [Some now]]
       (if dt_instant now < dt_instant (mmr_observed_at r) then CO_UNKNOWN else mmr_completeness r)"

definition promotable_measurement :: "mission_metrics \<Rightarrow> pydatetime \<Rightarrow> bool res" where
  "promotable_measurement r now =
     map_sum id (\<lambda>c. mmr_source_refs r \<noteq> [] \<and> c \<noteq> CO_UNKNOWN) (effective_completeness r now)"

section \<open>What every constructed candidate satisfies\<close>

definition option_list :: "'a option \<Rightarrow> 'a list" where
  "option_list x = (case x of None \<Rightarrow> [] | Some y \<Rightarrow> [y])"

text \<open>All the times and all the measured numbers of a candidate.\<close>

fun candidate_times :: "candidate_body \<Rightarrow> pydatetime list" where
  "candidate_times (MissionMetrics r) =
     [mmr_started_at r] @ option_list (mmr_completed_at r) @ [mmr_observed_at r]"
| "candidate_times (GatePerformance r) = [gpr_opened_at r] @ option_list (gpr_closed_at r)"
| "candidate_times (QualityMatrix _) = []"
| "candidate_times (QualityAssessment r) = [qda_assessed_at r]"
| "candidate_times (EvidenceBundle r) = [qeb_created_at r]"
| "candidate_times (PromotionReadiness r) = [prs_derived_at r]"
| "candidate_times (FounderApproval r) = [fad_decided_at r]"
| "candidate_times (Refactor r) = [rfe_started_at r] @ option_list (rfe_completed_at r)"
| "candidate_times (IntegrationCapability r) = option_list (icr_last_validated_at r)"
| "candidate_times (AgentAvailability r) = option_list (aac_freshness_at r)"
| "candidate_times (ChatRouting _) = []"
| "candidate_times (AuxiliaryEvidence _) = []"

fun candidate_numbers :: "candidate_body \<Rightarrow> int list" where
  "candidate_numbers (MissionMetrics r) =
     option_list (mmr_active_execution_seconds r) @ option_list (mmr_waiting_seconds r) @
     option_list (mmr_founder_wait_seconds r) @ option_list (mmr_external_wait_seconds r) @
     option_list (mmr_retries r) @ option_list (mmr_failures r) @ option_list (mmr_refactors r)
     @ option_list (mmr_founder_interventions r)"
| "candidate_numbers (GatePerformance r) =
     option_list (gpr_elapsed_seconds r) @ option_list (gpr_blocking_seconds r)"
| "candidate_numbers (QualityMatrix _) = []"
| "candidate_numbers (QualityAssessment _) = []"
| "candidate_numbers (EvidenceBundle _) = []"
| "candidate_numbers (PromotionReadiness _) = []"
| "candidate_numbers (FounderApproval _) = []"
| "candidate_numbers (Refactor r) = option_list (rfe_elapsed_seconds r)"
| "candidate_numbers (IntegrationCapability _) = []"
| "candidate_numbers (AgentAvailability r) = option_list (aac_generation r)"
| "candidate_numbers (ChatRouting r) = option_list (crc_generation r)"
| "candidate_numbers (AuxiliaryEvidence _) = []"

lemmas constructor_defs = new_mission_metrics_def new_gate_performance_def new_quality_matrix_def
  new_quality_assessment_def new_evidence_bundle_def new_promotion_readiness_def
  new_founder_approval_def new_refactor_event_def new_integration_capability_def
  new_agent_availability_def new_chat_routing_def new_auxiliary_evidence_def

lemmas check_defs = required_def non_negative_optional_def all_aware_def

lemma construct_same: "construct b = Inr c \<Longrightarrow> c = b"
  by (cases b) (auto simp: map_sum_id_Inr constructor_defs checks_Inr del: checks.simps)

lemma list_all_option_list [simp]:
  "list_all P (option_list x) = (case x of None \<Rightarrow> True | Some y \<Rightarrow> P y)"
  by (simp add: option_list_def split: option.split)

lemma construct_id: "construct b = Inr b \<Longrightarrow> \<not> blank (record_id b)"
  by (cases b) (simp_all add: map_sum_id_Inr constructor_defs checks_Inr required_def del: checks.simps)

lemma construct_times: "construct b = Inr b \<Longrightarrow> list_all aware (candidate_times b)"
  by (cases b) (simp_all add: map_sum_id_Inr constructor_defs checks_Inr all_aware_def del: checks.simps)

lemma construct_numbers: "construct b = Inr b \<Longrightarrow> list_all (\<lambda>n. 0 \<le> n) (candidate_numbers b)"
  by (cases b) (simp_all add: map_sum_id_Inr constructor_defs checks_Inr non_negative_optional_def del: checks.simps)

fun candidate_rules :: "candidate_body \<Rightarrow> bool" where
  "candidate_rules (QualityAssessment r) \<longleftrightarrow> (\<not> qda_applicable r \<longrightarrow> qda_verdict r = QV_NOT_APPLICABLE)"
| "candidate_rules (AgentAvailability r) \<longleftrightarrow>
     (aac_availability_state r = AV_RECOVERABLE \<longrightarrow> truthy_ref (aac_recovery_proof_ref r))"
| "candidate_rules (ChatRouting r) \<longleftrightarrow> \<not> crc_chat_native_execution r"
| "candidate_rules (AuxiliaryEvidence r) \<longleftrightarrow>
     set (axe_requested_scope r) \<subseteq> set (axe_parent_authority_scope r) \<and> \<not> axe_created_new_ocs_identity r"
| "candidate_rules _ \<longleftrightarrow> True"

lemma construct_rules: "construct b = Inr b \<Longrightarrow> candidate_rules b"
  by (cases b) (auto simp: map_sum_id_Inr constructor_defs checks_Inr del: checks.simps)

end
