(* ===== verification/Candidate_Policy.thy ===== *)
theory Candidate_Policy
  imports Candidate_Contracts
begin

text \<open>
  The decisions of \<^verbatim>\<open>app/governance_refactor\<close> that have no state: the prerequisites of the
  five governance gates (\<^verbatim>\<open>policy.py\<close>), the use of an external integration and the proof of
  its effect (\<^verbatim>\<open>capability.py\<close>), and the timing of a mission (\<^verbatim>\<open>metrics.py\<close>).
\<close>

section \<open>Gates\<close>

datatype governance_gate =
  G0_EXECUTION | G1_TECHNICAL_QUALITY | G2_INDEPENDENT_ASSURANCE | G3_PROMOTION_READINESS | G4_FOUNDER_APPROVAL

datatype policy_state = PS_OPEN | PS_HOLD | PS_SATISFIED | PS_READY_FOR_EXTERNAL_AUTHORITY_CHECK

record gate_policy_input =
  gi_gate :: governance_gate
  gi_evidence_refs :: "string list"
  gi_technical_checks_passed :: bool
  gi_assurance_required :: bool
  gi_assurance_refs :: "string list"
  gi_open_blockers :: "string list"
  gi_required_domains :: "string list"
  gi_completed_domains :: "string list"
  gi_founder_decision_ref :: "string option"
  gi_external_authority_verified :: bool
  gi_authority_readback_ref :: "string option"

record gate_policy_decision =
  gd_gate :: governance_gate
  gd_state :: policy_state
  gd_reasons :: "string list"
  gd_promotes :: bool
  gd_grants_authority :: bool

text \<open>The constructor of a decision, with the defaults of its last two fields.\<close>

definition gate_decision :: "governance_gate \<Rightarrow> policy_state \<Rightarrow> string list \<Rightarrow> gate_policy_decision" where
  "gate_decision g s reasons = \<lparr>gd_gate = g, gd_state = s, gd_reasons = reasons,
     gd_promotes = False, gd_grants_authority = False\<rparr>"

text \<open>\<^verbatim>\<open>_decision\<close>, and \<^verbatim>\<open>if b: reasons.append(m)\<close>.\<close>

definition decision_of :: "governance_gate \<Rightarrow> string list \<Rightarrow> gate_policy_decision" where
  "decision_of g reasons = gate_decision g (if reasons \<noteq> [] then PS_HOLD else PS_SATISFIED) reasons"

definition reason :: "bool \<Rightarrow> string \<Rightarrow> string list" where
  "reason b m = (if b then [m] else [])"

definition evaluate_gate :: "gate_policy_input \<Rightarrow> gate_policy_decision" where
  "evaluate_gate q =
     (case gi_gate q of
        G0_EXECUTION \<Rightarrow>
          decision_of (gi_gate q) (reason (gi_evidence_refs q = []) ''execution_evidence_required'')
      | G1_TECHNICAL_QUALITY \<Rightarrow>
          decision_of (gi_gate q)
            (reason (gi_evidence_refs q = []) ''technical_evidence_required'' @
             reason (\<not> gi_technical_checks_passed q) ''technical_checks_not_passed'')
      | G2_INDEPENDENT_ASSURANCE \<Rightarrow>
          if \<not> gi_assurance_required q
          then gate_decision (gi_gate q) PS_SATISFIED [''assurance_not_required_by_policy'']
          else decision_of (gi_gate q) (reason (gi_assurance_refs q = []) ''independent_assurance_required'')
      | G3_PROMOTION_READINESS \<Rightarrow>
          decision_of (gi_gate q)
            (reason (gi_open_blockers q \<noteq> []) ''open_blockers_present'' @
             reason (set (gi_required_domains q) - set (gi_completed_domains q) \<noteq> {})
               ''required_quality_domains_incomplete'' @
             reason (gi_assurance_required q \<and> gi_assurance_refs q = []) ''required_assurance_missing'' @
             reason (gi_evidence_refs q = []) ''promotion_evidence_bundle_required'')
      | G4_FOUNDER_APPROVAL \<Rightarrow>
          let reasons =
            reason (\<not> truthy_ref (gi_founder_decision_ref q)) ''founder_decision_record_required'' @
            reason (\<not> gi_external_authority_verified q) ''founder_authority_not_externally_verified'' @
            reason (\<not> truthy_ref (gi_authority_readback_ref q)) ''founder_authority_readback_required''
          in if reasons \<noteq> [] then gate_decision (gi_gate q) PS_HOLD reasons
             else gate_decision (gi_gate q) PS_READY_FOR_EXTERNAL_AUTHORITY_CHECK
               [''external_authority_prerequisites_present''])"

section \<open>Integrations\<close>

datatype capability_decision = ALLOW_ATTEMPT | CD_HOLD

record capability_snapshot =
  cs_connector :: string
  cs_connected :: bool
  cs_actions :: "string set"
  cs_readable_targets :: "string set"
  cs_writable_targets :: "string set"
  cs_canonical_source_roles :: "string set"
  cs_capability_version :: string
  cs_validated_at :: pydatetime
  cs_max_age_seconds :: "int option"
  cs_expires_at :: "pydatetime option"
  cs_drift_detected :: bool
  cs_drifted_actions :: "string set"
  cs_drifted_targets :: "string set"
  cs_drifted_source_roles :: "string set"

record integration_use_request =
  iu_connector :: string
  iu_action :: string
  iu_target :: string
  iu_source_role :: string
  iu_authority_ref :: "string option"
  iu_capability_version :: "string option"
  iu_write :: bool
  iu_promote :: bool

record integration_use_decision =
  id_decision :: capability_decision
  id_reasons :: "string list"
  id_material_effect_performed :: bool
  id_canonical_state_reconciled :: bool
  id_grants_authority :: bool

text \<open>
  The clock, the snapshot's age and its expiry. The instants are compared only between aware
  times. \<open>now\<close> is \<^verbatim>\<open>now or datetime.now(UTC)\<close>.
\<close>

definition age_reasons :: "capability_snapshot \<Rightarrow> pydatetime \<Rightarrow> string list" where
  "age_reasons s now =
     (if \<not> aware (cs_validated_at s) then [''validated_at_not_timezone_aware'']
      else if aware now then
        reason (dt_instant now < dt_instant (cs_validated_at s)) ''validated_at_in_future'' @
        reason (cs_max_age_seconds s = None \<and> cs_expires_at s = None) ''capability_expiry_policy_required'' @
        (case cs_max_age_seconds s of None \<Rightarrow> []
         | Some n \<Rightarrow>
             if n \<le> 0 then [''max_age_seconds_invalid'']
             else reason (dt_instant now - dt_instant (cs_validated_at s) > n * 1000000) ''capability_snapshot_stale'')
      else [])"

definition expiry_reasons :: "capability_snapshot \<Rightarrow> pydatetime \<Rightarrow> string list" where
  "expiry_reasons s now =
     (case cs_expires_at s of None \<Rightarrow> []
      | Some e \<Rightarrow>
          if \<not> aware e then [''expires_at_not_timezone_aware'']
          else reason (aware now \<and> dt_instant e \<le> dt_instant now) ''capability_snapshot_expired'')"

definition version_reasons :: "capability_snapshot \<Rightarrow> integration_use_request \<Rightarrow> string list" where
  "version_reasons s r =
     reason (blank (cs_capability_version s)) ''capability_version_required'' @
     (if \<not> truthy_ref (iu_capability_version r) then [''capability_version_expectation_required'']
      else reason (iu_capability_version r \<noteq> Some (cs_capability_version s)) ''capability_version_mismatch'')"

definition drift_reasons :: "capability_snapshot \<Rightarrow> integration_use_request \<Rightarrow> string list" where
  "drift_reasons s r =
     reason (cs_drift_detected s) ''capability_drift_detected'' @
     reason (iu_action r \<in> cs_drifted_actions s) ''action_drift_detected'' @
     reason (iu_target r \<in> cs_drifted_targets s) ''target_drift_detected'' @
     reason (iu_source_role r \<in> cs_drifted_source_roles s) ''source_role_drift_detected''"

definition use_reasons :: "capability_snapshot \<Rightarrow> integration_use_request \<Rightarrow> string list" where
  "use_reasons s r =
     reason (iu_connector r \<noteq> cs_connector s) ''connector_mismatch'' @
     reason (\<not> cs_connected s) ''connector_not_connected'' @
     reason (iu_action r \<notin> cs_actions s) ''action_not_available'' @
     reason (\<not> truthy_ref (iu_authority_ref r)) ''authority_ref_required'' @
     (if iu_write r then reason (iu_target r \<notin> cs_writable_targets s) ''target_not_writable''
      else reason (iu_target r \<notin> cs_readable_targets s) ''target_not_readable'') @
     reason (iu_source_role r \<notin> cs_canonical_source_roles s) ''source_role_not_confirmed'' @
     reason (iu_promote r) ''capability_cannot_promote''"

definition use_decision :: "capability_decision \<Rightarrow> string list \<Rightarrow> bool \<Rightarrow> bool \<Rightarrow> integration_use_decision" where
  "use_decision d reasons performed reconciled =
     \<lparr>id_decision = d, id_reasons = reasons, id_material_effect_performed = performed,
      id_canonical_state_reconciled = reconciled, id_grants_authority = False\<rparr>"

definition evaluate_integration_use ::
    "capability_snapshot \<Rightarrow> integration_use_request \<Rightarrow> pydatetime \<Rightarrow> integration_use_decision" where
  "evaluate_integration_use s r now =
     (let reasons = reason (\<not> aware now) ''evaluation_time_not_timezone_aware'' @ age_reasons s now @
            expiry_reasons s now @ version_reasons s r @ drift_reasons s r @ use_reasons s r
      in use_decision (if reasons \<noteq> [] then CD_HOLD else ALLOW_ATTEMPT) reasons False False)"

definition reconcile_receipt ::
    "integration_use_decision \<Rightarrow> string option \<Rightarrow> string option \<Rightarrow> string option \<Rightarrow> integration_use_decision" where
  "reconcile_receipt d effect_receipt_ref readback_ref canonical_reconciliation_ref =
     (if id_decision d \<noteq> ALLOW_ATTEMPT then d
      else
        let reasons =
              reason (\<not> truthy_ref effect_receipt_ref) ''effect_receipt_required'' @
              reason (\<not> truthy_ref readback_ref) ''readback_required'' @
              reason (\<not> truthy_ref canonical_reconciliation_ref) ''canonical_reconciliation_required''
        in if reasons \<noteq> [] then use_decision CD_HOLD reasons (truthy_ref effect_receipt_ref) False
           else use_decision ALLOW_ATTEMPT [''receipt_readback_and_reconciliation_present''] True True)"

section \<open>Mission timing\<close>

record mission_timing_input =
  ti_record_id :: string
  ti_mission_id :: string
  ti_ocs_id :: string
  ti_started_at :: pydatetime
  ti_completed_at :: "pydatetime option"
  ti_active_execution_seconds :: "int option"
  ti_waiting_seconds :: "int option"
  ti_founder_wait_seconds :: "int option"
  ti_external_wait_seconds :: "int option"
  ti_retries :: int
  ti_failures :: int
  ti_refactors :: int
  ti_founder_interventions :: int
  ti_autonomous_completion :: "bool option"
  ti_source_refs :: "string list"
  ti_provenance_refs :: "string list"
  ti_observed_at :: pydatetime
  ti_product_id :: "string option"
  ti_gate_id :: "string option"

record mission_timing_snapshot =
  ts_elapsed_seconds :: "int option"
  ts_elapsed_minutes :: "rat option"
  ts_elapsed_hours :: "rat option"
  ts_active_execution_seconds :: "int option"
  ts_waiting_seconds :: "int option"
  ts_founder_wait_seconds :: "int option"
  ts_external_wait_seconds :: "int option"
  ts_retries :: int
  ts_failures :: int
  ts_refactors :: int
  ts_founder_interventions :: int
  ts_autonomous_completion :: "bool option"
  ts_throughput_per_hour :: "rat option"
  ts_founder_local_started_at :: pydatetime
  ts_founder_local_completed_at :: "pydatetime option"

definition mission_record :: "mission_timing_input \<Rightarrow> mission_metrics res" where
  "mission_record t = new_mission_metrics
     \<lparr>mmr_record_id = ti_record_id t, mmr_mission_id = ti_mission_id t, mmr_ocs_id = ti_ocs_id t,
      mmr_product_id = ti_product_id t, mmr_gate_id = ti_gate_id t, mmr_started_at = ti_started_at t,
      mmr_completed_at = ti_completed_at t, mmr_active_execution_seconds = ti_active_execution_seconds t,
      mmr_waiting_seconds = ti_waiting_seconds t, mmr_founder_wait_seconds = ti_founder_wait_seconds t,
      mmr_external_wait_seconds = ti_external_wait_seconds t, mmr_retries = Some (ti_retries t),
      mmr_failures = Some (ti_failures t), mmr_refactors = Some (ti_refactors t),
      mmr_founder_interventions = Some (ti_founder_interventions t),
      mmr_autonomous_completion = ti_autonomous_completion t, mmr_source_refs = ti_source_refs t,
      mmr_source_links = [], mmr_provenance_refs = ti_provenance_refs t,
      mmr_measurement_method = ''actual_clock_timestamps'', mmr_measurement_version = ''r7-v0.1'',
      mmr_observed_at = ti_observed_at t,
      mmr_completeness =
        (if ti_completed_at t \<noteq> None \<and> ti_source_refs t \<noteq> [] then CO_COMPLETE else CO_PARTIAL)\<rparr>"

text \<open>
  \<open>elapsed\<close> is \<^verbatim>\<open>elapsed_seconds\<close>; \<open>fdiv\<close> is the division of two floats, \<open>zone\<close> the
  conversion to the founder's time zone by \<^verbatim>\<open>zoneinfo\<close> and its database.
\<close>

definition timing_snapshot ::
    "(rat \<Rightarrow> rat \<Rightarrow> rat) \<Rightarrow> (pydatetime \<Rightarrow> pydatetime) \<Rightarrow> mission_timing_input \<Rightarrow> int option \<Rightarrow> mission_timing_snapshot" where
  "timing_snapshot fdiv zone t elapsed =
     \<lparr>ts_elapsed_seconds = elapsed,
      ts_elapsed_minutes = map_option (\<lambda>n. fdiv (of_int n) 60) elapsed,
      ts_elapsed_hours = map_option (\<lambda>n. fdiv (of_int n) 3600) elapsed,
      ts_active_execution_seconds = ti_active_execution_seconds t,
      ts_waiting_seconds = ti_waiting_seconds t, ts_founder_wait_seconds = ti_founder_wait_seconds t,
      ts_external_wait_seconds = ti_external_wait_seconds t, ts_retries = ti_retries t,
      ts_failures = ti_failures t, ts_refactors = ti_refactors t,
      ts_founder_interventions = ti_founder_interventions t,
      ts_autonomous_completion = ti_autonomous_completion t,
      ts_throughput_per_hour =
        (case elapsed of None \<Rightarrow> None | Some n \<Rightarrow> if 0 < n then Some (fdiv 3600 (of_int n)) else None),
      ts_founder_local_started_at = zone (ti_started_at t),
      ts_founder_local_completed_at = map_option zone (ti_completed_at t)\<rparr>"

definition elapsed_seconds :: "mission_timing_input \<Rightarrow> int option" where
  "elapsed_seconds t = map_option (\<lambda>c. dt_whole_seconds c (ti_started_at t)) (ti_completed_at t)"

definition timing_checks :: "mission_timing_input \<Rightarrow> (bool \<times> string) list" where
  "timing_checks t =
     [all_aware [Some (ti_started_at t), ti_completed_at t, Some (ti_observed_at t)],
      (list_all (\<lambda>n. 0 \<le> n) [ti_retries t, ti_failures t, ti_refactors t, ti_founder_interventions t],
       ''negative_counter''),
      (list_all (\<lambda>v. case v of None \<Rightarrow> True | Some n \<Rightarrow> 0 \<le> n)
         [ti_active_execution_seconds t, ti_waiting_seconds t, ti_founder_wait_seconds t, ti_external_wait_seconds t],
       ''negative_duration''),
      (case elapsed_seconds t of None \<Rightarrow> True | Some n \<Rightarrow> 0 \<le> n, ''completed_before_started'')]"

definition instrument_mission ::
    "(rat \<Rightarrow> rat \<Rightarrow> rat) \<Rightarrow> (pydatetime \<Rightarrow> pydatetime) \<Rightarrow> mission_timing_input \<Rightarrow>
     (mission_metrics \<times> mission_timing_snapshot) res" where
  "instrument_mission fdiv zone t =
     (case checks (timing_checks t) () of
        Inl e \<Rightarrow> Inl e
      | Inr _ \<Rightarrow> map_sum id (\<lambda>m. (m, timing_snapshot fdiv zone t (elapsed_seconds t))) (mission_record t))"

section \<open>What the decisions mean\<close>

lemma reason_Nil [simp]: "reason b m = [] \<longleftrightarrow> \<not> b"
  by (simp add: reason_def)

text \<open>The prerequisites of a gate, read off the documentation of the policy.\<close>

fun gate_prerequisites :: "gate_policy_input \<Rightarrow> governance_gate \<Rightarrow> bool" where
  "gate_prerequisites q G0_EXECUTION \<longleftrightarrow> gi_evidence_refs q \<noteq> []"
| "gate_prerequisites q G1_TECHNICAL_QUALITY \<longleftrightarrow> gi_evidence_refs q \<noteq> [] \<and> gi_technical_checks_passed q"
| "gate_prerequisites q G2_INDEPENDENT_ASSURANCE \<longleftrightarrow> (gi_assurance_required q \<longrightarrow> gi_assurance_refs q \<noteq> [])"
| "gate_prerequisites q G3_PROMOTION_READINESS \<longleftrightarrow>
     gi_open_blockers q = [] \<and> set (gi_required_domains q) \<subseteq> set (gi_completed_domains q) \<and>
     (gi_assurance_required q \<longrightarrow> gi_assurance_refs q \<noteq> []) \<and> gi_evidence_refs q \<noteq> []"
| "gate_prerequisites q G4_FOUNDER_APPROVAL \<longleftrightarrow>
     truthy_ref (gi_founder_decision_ref q) \<and> gi_external_authority_verified q \<and> truthy_ref (gi_authority_readback_ref q)"

lemma gate_state:
  "gd_state (evaluate_gate q) =
     (if \<not> gate_prerequisites q (gi_gate q) then PS_HOLD
      else if gi_gate q = G4_FOUNDER_APPROVAL then PS_READY_FOR_EXTERNAL_AUTHORITY_CHECK else PS_SATISFIED)"
  by (cases "gi_gate q") (auto simp: evaluate_gate_def decision_of_def gate_decision_def Let_def)

lemma gate_never_promotes:
  "\<not> gd_promotes (evaluate_gate q) \<and> \<not> gd_grants_authority (evaluate_gate q)"
  by (cases "gi_gate q") (auto simp: evaluate_gate_def decision_of_def gate_decision_def Let_def)

text \<open>More evidence, and fewer blockers, never take a satisfied gate back to HOLD.\<close>

definition no_worse :: "gate_policy_input \<Rightarrow> gate_policy_input \<Rightarrow> bool" where
  "no_worse q q' \<longleftrightarrow> gi_gate q' = gi_gate q \<and>
     set (gi_evidence_refs q) \<subseteq> set (gi_evidence_refs q') \<and>
     (gi_technical_checks_passed q \<longrightarrow> gi_technical_checks_passed q') \<and>
     (gi_assurance_required q' \<longrightarrow> gi_assurance_required q) \<and>
     set (gi_assurance_refs q) \<subseteq> set (gi_assurance_refs q') \<and>
     set (gi_open_blockers q') \<subseteq> set (gi_open_blockers q) \<and>
     set (gi_required_domains q') \<subseteq> set (gi_required_domains q) \<and>
     set (gi_completed_domains q) \<subseteq> set (gi_completed_domains q') \<and>
     (truthy_ref (gi_founder_decision_ref q) \<longrightarrow> truthy_ref (gi_founder_decision_ref q')) \<and>
     (gi_external_authority_verified q \<longrightarrow> gi_external_authority_verified q') \<and>
     (truthy_ref (gi_authority_readback_ref q) \<longrightarrow> truthy_ref (gi_authority_readback_ref q'))"

lemma gate_prerequisites_mono: "no_worse q q' \<Longrightarrow> gate_prerequisites q g \<Longrightarrow> gate_prerequisites q' g"
  by (cases g) (auto simp: no_worse_def)

end
