(* ===== verification/Candidate_Store.thy ===== *)
theory Candidate_Store
  imports Candidate_Contracts
begin

text \<open>
  The SQLite store of the governance candidates: its schema (\<^verbatim>\<open>schema.py\<close>), the first,
  unscoped writer (\<^verbatim>\<open>store.py\<close>), the writer that binds every record to one organization
  (\<^verbatim>\<open>scoped_store.py\<close>) and the tenant-scoped read views (\<^verbatim>\<open>projections.py\<close>).

  A table is a list of rows, \<open>None\<close> when it does not exist; a column of JSON text is the tree of
  the text. \<open>gb_columns_ok\<close> says whether the two core tables have the columns that the code
  expects, \<open>gb_readable\<close> whether SQLite can read the file. \<open>H\<close> is the digest of a JSON text,
  \<open>T\<close> that of any other text. The two error classes are subclasses of \<^verbatim>\<open>RuntimeError\<close>.
\<close>

section \<open>Tables\<close>

record cand_row =
  kr_position :: int
  kr_record_type :: string
  kr_record_id :: string
  kr_schema_version :: string
  kr_payload :: pyval
  kr_payload_hash :: string
  kr_source_refs :: pyval
  kr_provenance_refs :: pyval
  kr_written_at :: string

record cand_event =
  ke_position :: int
  ke_event_id :: string
  ke_record_type :: string
  ke_record_id :: string
  ke_schema_version :: string
  ke_event_type :: string
  ke_payload_hash :: string
  ke_payload :: pyval
  ke_source_refs :: pyval
  ke_provenance_refs :: pyval
  ke_occurred_at :: string

record cand_scope =
  ks_organization_id :: string
  ks_record_type :: string
  ks_record_id :: string
  ks_schema_version :: string
  ks_bound_at :: string

record gov_db =
  gb_file :: bool
  gb_readable :: bool
  gb_columns_ok :: bool
  gb_records :: "cand_row list option"
  gb_events :: "cand_event list option"
  gb_scopes :: "cand_scope list option"
  gb_meta :: "int option option"

type_synonym cand_key = "string \<times> string \<times> string"

definition row_key :: "cand_row \<Rightarrow> cand_key" where
  "row_key r = (kr_record_type r, kr_record_id r, kr_schema_version r)"

definition event_key :: "cand_event \<Rightarrow> cand_key" where
  "event_key e = (ke_record_type e, ke_record_id e, ke_schema_version e)"

definition scope_key :: "cand_scope \<Rightarrow> cand_key" where
  "scope_key s = (ks_record_type s, ks_record_id s, ks_schema_version s)"

abbreviation no_table :: exn where
  "no_table \<equiv> OtherError ''no such table''"

definition table :: "(gov_db \<Rightarrow> 'r list option) \<Rightarrow> (gov_db, 'r list) py" where
  "table t = (\<lambda>db. (case t db of None \<Rightarrow> Inl no_table | Some rows \<Rightarrow> Inr rows, db))"

text \<open>\<^verbatim>\<open>SELECT COALESCE(MAX(position), 0) + 1\<close>; SQLite numbers a row without a position alike.\<close>

definition next_position :: "int list \<Rightarrow> int" where
  "next_position ps = (if ps = [] then 0 else Max (set ps)) + 1"

text \<open>The three INSERT statements with the constraints of the tables.\<close>

definition insert_record :: "cand_row \<Rightarrow> (gov_db, unit) py" where
  "insert_record r =
     py_bind (table gb_records) (\<lambda>rows.
     py_bind (py_unless (row_key r \<notin> row_key ` set rows \<and> kr_position r \<notin> kr_position ` set rows)
       (IntegrityError ''UNIQUE constraint failed'')) (\<lambda>_.
     py_modify (gb_records_update (\<lambda>_. Some (rows @ [r])))))"

definition insert_event :: "cand_event \<Rightarrow> (gov_db, unit) py" where
  "insert_event e =
     py_bind (table gb_events) (\<lambda>rows.
     py_bind (py_unless (ke_event_id e \<notin> ke_event_id ` set rows \<and> ke_position e \<notin> ke_position ` set rows)
       (IntegrityError ''UNIQUE constraint failed'')) (\<lambda>_.
     py_modify (gb_events_update (\<lambda>_. Some (rows @ [e])))))"

definition insert_scope :: "cand_scope \<Rightarrow> (gov_db, unit) py" where
  "insert_scope s =
     py_bind (table gb_scopes) (\<lambda>rows.
     py_bind (py_unless (scope_key s \<notin> scope_key ` set rows) (IntegrityError ''UNIQUE constraint failed'')) (\<lambda>_.
     py_modify (gb_scopes_update (\<lambda>_. Some (rows @ [s])))))"

section \<open>Schema\<close>

definition RUNTIME_SCHEMA_VERSION :: int where
  "RUNTIME_SCHEMA_VERSION = 2"

definition check_meta :: "gov_db \<Rightarrow> unit res" where
  "check_meta db =
     (case gb_meta db of None \<Rightarrow> Inr ()
      | Some None \<Rightarrow> Inl (RuntimeError ''governance_candidate_schema_meta_invalid'')
      | Some (Some v) \<Rightarrow>
          if v > RUNTIME_SCHEMA_VERSION then Inl (RuntimeError ''governance_candidate_schema_too_new'') else Inr ())"

definition create_core :: "gov_db \<Rightarrow> gov_db" where
  "create_core db = (if gb_records db = None \<and> gb_events db = None
     then db\<lparr>gb_records := Some [], gb_events := Some [], gb_columns_ok := True\<rparr> else db)"

definition migrate_body :: "(gov_db, unit) py" where
  "migrate_body =
     py_bind (py_gets gb_readable) (\<lambda>readable.
     py_bind (py_unless readable (OtherError ''sqlite3.Error'')) (\<lambda>_.
     py_bind (\<lambda>db. (check_meta db, db)) (\<lambda>_.
     py_bind (py_gets (\<lambda>db. (gb_records db = None) = (gb_events db = None))) (\<lambda>whole.
     py_bind (py_unless whole (RuntimeError ''governance_candidate_schema_partial'')) (\<lambda>_.
     py_bind (py_modify create_core) (\<lambda>_.
     py_bind (py_gets gb_columns_ok) (\<lambda>ok.
     py_bind (py_unless ok (RuntimeError ''governance_candidate_schema_incompatible'')) (\<lambda>_.
     py_modify (\<lambda>db. db\<lparr>gb_scopes := Some (case gb_scopes db of None \<Rightarrow> [] | Some s \<Rightarrow> s),
       gb_meta := Some (Some RUNTIME_SCHEMA_VERSION)\<rparr>)))))))))"

definition migrate_governance_candidate_store :: "(gov_db, unit) py" where
  "migrate_governance_candidate_store =
     py_bind (py_modify (gb_file_update (\<lambda>_. True))) (\<lambda>_. transaction migrate_body)"

text \<open>\<^verbatim>\<open>_health\<close>, the same in the scoped store and in the views.\<close>

definition store_health :: "gov_db \<Rightarrow> string" where
  "store_health db =
     (if \<not> gb_file db then ''unavailable''
      else if \<not> gb_readable db then ''error''
      else if gb_records db \<noteq> None \<and> gb_events db \<noteq> None \<and> gb_scopes db \<noteq> None then ''available''
      else ''incompatible'')"

section \<open>What a row holds\<close>

text \<open>\<^verbatim>\<open>_extract_refs\<close> and \<^verbatim>\<open>_refs\<close>: the strings of a list under a key of the payload.\<close>

fun list_items :: "pyval \<Rightarrow> pyval list" where
  "list_items (PyList xs) = xs"
| "list_items _ = []"

definition extract_refs :: "pyval \<Rightarrow> string \<Rightarrow> pyval" where
  "extract_refs payload k = (case py_get payload k of None \<Rightarrow> PyList [] | Some v \<Rightarrow> PyList (list_items v))"

definition event_text :: "candidate_record \<Rightarrow> string \<Rightarrow> string" where
  "event_text c payload_hash = record_type (cd_body c) @ '':'' @ record_id (cd_body c) @ '':'' @
     cd_schema_version c @ '':'' @ payload_hash"

definition cand_key_of :: "candidate_record \<Rightarrow> cand_key" where
  "cand_key_of c = (record_type (cd_body c), record_id (cd_body c), cd_schema_version c)"

definition payload_tree :: "candidate_record \<Rightarrow> pyval" where
  "payload_tree c = json_tree (candidate_payload c)"

definition row_of :: "digest \<Rightarrow> candidate_record \<Rightarrow> string \<Rightarrow> int \<Rightarrow> cand_row" where
  "row_of H c written_at position =
     \<lparr>kr_position = position, kr_record_type = record_type (cd_body c), kr_record_id = record_id (cd_body c),
      kr_schema_version = cd_schema_version c, kr_payload = payload_tree c,
      kr_payload_hash = H (payload_tree c),
      kr_source_refs = extract_refs (candidate_payload c) ''source_refs'',
      kr_provenance_refs = extract_refs (candidate_payload c) ''provenance_refs'',
      kr_written_at = written_at\<rparr>"

definition event_row_of :: "digest \<Rightarrow> (string \<Rightarrow> string) \<Rightarrow> candidate_record \<Rightarrow> string \<Rightarrow> int \<Rightarrow> cand_event" where
  "event_row_of H T c occurred_at position =
     \<lparr>ke_position = position, ke_event_id = T (event_text c (H (payload_tree c))),
      ke_record_type = record_type (cd_body c), ke_record_id = record_id (cd_body c),
      ke_schema_version = cd_schema_version c, ke_event_type = ''CANDIDATE_RECORD_APPENDED'',
      ke_payload_hash = H (payload_tree c), ke_payload = payload_tree c,
      ke_source_refs = extract_refs (candidate_payload c) ''source_refs'',
      ke_provenance_refs = extract_refs (candidate_payload c) ''provenance_refs'',
      ke_occurred_at = occurred_at\<rparr>"

definition find_record :: "cand_key \<Rightarrow> (gov_db, cand_row option) py" where
  "find_record k = py_bind (table gb_records) (\<lambda>rows. py_return (find (\<lambda>r. row_key r = k) rows))"

section \<open>The unscoped writer\<close>

definition open_legacy_store :: "(gov_db, unit) py" where
  "open_legacy_store =
     py_bind (py_modify (gb_file_update (\<lambda>_. True))) (\<lambda>_.
     py_bind (py_gets (\<lambda>db. gb_records db \<noteq> None)) (\<lambda>r.
     py_bind (py_unless r (RuntimeError ''governance_candidate_migration_0004_required'')) (\<lambda>_.
     py_bind (py_gets gb_columns_ok) (\<lambda>ok.
     py_bind (py_unless ok (RuntimeError ''governance_candidate_schema_incompatible'')) (\<lambda>_.
     py_bind (py_gets (\<lambda>db. gb_events db \<noteq> None)) (\<lambda>e.
     py_unless e (RuntimeError ''governance_candidate_migration_0004_required'')))))))"

text \<open>\<^verbatim>\<open>_record_from_row\<close>: the row after its hash is checked.\<close>

definition record_from_row :: "digest \<Rightarrow> cand_row \<Rightarrow> cand_row res" where
  "record_from_row H r =
     (if H (kr_payload r) \<noteq> kr_payload_hash r then Inl (RuntimeError ''candidate_readback_hash_mismatch'')
      else Inr r)"

definition legacy_read :: "digest \<Rightarrow> cand_key \<Rightarrow> (gov_db, cand_row) py" where
  "legacy_read H k =
     py_bind (find_record k) (\<lambda>row. case row of
        None \<Rightarrow> py_raise (RuntimeError ''candidate_record_not_found'')
      | Some r \<Rightarrow> py_lift (record_from_row H r))"

definition legacy_insert ::
    "digest \<Rightarrow> (string \<Rightarrow> string) \<Rightarrow> candidate_record \<Rightarrow> string \<Rightarrow> (gov_db, unit) py" where
  "legacy_insert H T c written_at =
     py_bind (table gb_records) (\<lambda>rows.
     py_bind (insert_record (row_of H c written_at (next_position (map kr_position rows)))) (\<lambda>_.
     py_bind (table gb_events) (\<lambda>events.
     insert_event (event_row_of H T c written_at (next_position (map ke_position events))))))"

definition legacy_transaction ::
    "digest \<Rightarrow> (string \<Rightarrow> string) \<Rightarrow> candidate_record \<Rightarrow> string \<Rightarrow> (gov_db, cand_row option) py" where
  "legacy_transaction H T c written_at = transaction (
     py_bind (py_gets (\<lambda>db. gb_scopes db = None)) (\<lambda>unscoped.
     py_bind (py_unless unscoped (RuntimeError ''legacy_unscoped_writer_disabled'')) (\<lambda>_.
     py_bind (find_record (cand_key_of c)) (\<lambda>existing. case existing of
        Some r \<Rightarrow>
          if kr_payload_hash r \<noteq> H (payload_tree c) then py_raise (RuntimeError ''candidate_append_conflict'')
          else py_lift (map_sum id Some (record_from_row H r))
      | None \<Rightarrow> py_bind (legacy_insert H T c written_at) (\<lambda>_. py_return None)))))"

definition legacy_append ::
    "digest \<Rightarrow> (string \<Rightarrow> string) \<Rightarrow> candidate_record \<Rightarrow> pydatetime \<Rightarrow> (gov_db, cand_row) py" where
  "legacy_append H T c occurred_at =
     py_bind (py_unless (aware occurred_at) (RuntimeError ''timezone_aware_timestamp_required'')) (\<lambda>_.
     py_bind (py_unless (cd_schema_version c = SCHEMA_VERSION)
       (RuntimeError ''candidate_schema_version_incompatible'')) (\<lambda>_.
     py_bind (legacy_transaction H T c (isoformat occurred_at)) (\<lambda>done_row. case done_row of
        Some r \<Rightarrow> py_return r
      | None \<Rightarrow> legacy_read H (cand_key_of c))))"

text \<open>\<^verbatim>\<open>replay\<close>: the events after a position, each with its hash checked.\<close>

fun verified_events :: "digest \<Rightarrow> cand_event list \<Rightarrow> cand_event list res" where
  "verified_events H [] = Inr []"
| "verified_events H (e # es) =
     (if H (ke_payload e) \<noteq> ke_payload_hash e then Inl (RuntimeError ''candidate_replay_hash_mismatch'')
      else map_sum id (\<lambda>r. e # r) (verified_events H es))"

definition legacy_replay :: "digest \<Rightarrow> int \<Rightarrow> (gov_db, cand_event list) py" where
  "legacy_replay H after_position =
     py_bind (py_unless (0 \<le> after_position) (RuntimeError ''negative_replay_position'')) (\<lambda>_.
     py_bind (table gb_events) (\<lambda>rows.
     py_lift (verified_events H (sort_key ke_position (filter (\<lambda>e. after_position < ke_position e) rows)))))"

definition event_count :: "(gov_db, int) py" where
  "event_count = py_bind (table gb_events) (\<lambda>rows. py_return (int (length rows)))"

section \<open>The scoped writer\<close>

definition ALLOWED_RECORD_TYPES :: "string list" where
  "ALLOWED_RECORD_TYPES =
     [''MissionMetricsRecord'', ''GatePerformanceRecord'', ''QualityApplicabilityMatrix'',
      ''QualityDomainAssessment'', ''QualityEvidenceBundle'', ''PromotionReadinessState'',
      ''FounderApprovalDecision'', ''RefactorEvent'', ''IntegrationCapabilityRecord'',
      ''AgentAvailabilityContract'', ''ChatInstitutionalRoutingContract'',
      ''AuxiliaryAgentEvidenceContract'']"

definition open_scoped_store :: "(gov_db, unit) py" where
  "open_scoped_store =
     py_bind (py_gets store_health) (\<lambda>health.
     py_unless (health = ''available'') (RuntimeError (''governance_candidate_schema_'' @ health)))"

record append_receipt =
  ar_record_type :: string
  ar_record_id :: string
  ar_payload_hash :: string
  ar_organization_id :: string
  ar_replayed :: bool

definition receipt_of :: "digest \<Rightarrow> candidate_record \<Rightarrow> string \<Rightarrow> bool \<Rightarrow> append_receipt" where
  "receipt_of H c organization_id replayed =
     \<lparr>ar_record_type = record_type (cd_body c), ar_record_id = record_id (cd_body c),
      ar_payload_hash = H (payload_tree c), ar_organization_id = organization_id, ar_replayed = replayed\<rparr>"

text \<open>
  \<^verbatim>\<open>_replay\<close>: a record with the key is there; \<open>owner\<close> is its organization by the left
  join with the scopes, of which the key constraint allows at most one.
\<close>

definition replay_existing ::
    "digest \<Rightarrow> candidate_record \<Rightarrow> string \<Rightarrow> cand_row \<Rightarrow> string option \<Rightarrow> append_receipt res" where
  "replay_existing H c organization_id r owner =
     (if owner = None then Inl (RuntimeError ''candidate_unscoped_record_conflict'')
      else if owner \<noteq> Some organization_id then Inl (RuntimeError ''candidate_scope_conflict'')
      else if kr_payload_hash r \<noteq> H (payload_tree c) then Inl (RuntimeError ''candidate_append_conflict'')
      else if kr_source_refs r \<noteq> extract_refs (candidate_payload c) ''source_refs''
        then Inl (RuntimeError ''candidate_evidence_envelope_mismatch'')
      else if kr_provenance_refs r \<noteq> extract_refs (candidate_payload c) ''provenance_refs''
        then Inl (RuntimeError ''candidate_evidence_envelope_mismatch'')
      else Inr (receipt_of H c organization_id True))"

definition owner_of :: "cand_key \<Rightarrow> (gov_db, string option) py" where
  "owner_of k = py_bind (table gb_scopes) (\<lambda>rows.
     py_return (map_option ks_organization_id (find (\<lambda>s. scope_key s = k) rows)))"

definition scope_of :: "candidate_record \<Rightarrow> string \<Rightarrow> string \<Rightarrow> cand_scope" where
  "scope_of c organization_id bound_at =
     \<lparr>ks_organization_id = organization_id, ks_record_type = record_type (cd_body c),
      ks_record_id = record_id (cd_body c), ks_schema_version = cd_schema_version c, ks_bound_at = bound_at\<rparr>"

definition scoped_insert ::
    "digest \<Rightarrow> (string \<Rightarrow> string) \<Rightarrow> candidate_record \<Rightarrow> string \<Rightarrow> string \<Rightarrow> (gov_db, unit) py" where
  "scoped_insert H T c organization_id timestamp =
     py_bind (table gb_records) (\<lambda>rows.
     py_bind (table gb_events) (\<lambda>events.
     py_bind (insert_record (row_of H c timestamp (next_position (map kr_position rows)))) (\<lambda>_.
     py_bind (insert_event (event_row_of H T c timestamp (next_position (map ke_position events)))) (\<lambda>_.
     insert_scope (scope_of c organization_id timestamp)))))"

definition scoped_transaction ::
    "digest \<Rightarrow> (string \<Rightarrow> string) \<Rightarrow> candidate_record \<Rightarrow> string \<Rightarrow> string \<Rightarrow> (gov_db, append_receipt) py" where
  "scoped_transaction H T c organization_id timestamp = transaction (
     py_bind (find_record (cand_key_of c)) (\<lambda>existing.
     py_bind (owner_of (cand_key_of c)) (\<lambda>owner. case existing of
        Some r \<Rightarrow> py_lift (replay_existing H c organization_id r owner)
      | None \<Rightarrow> py_bind (scoped_insert H T c organization_id timestamp) (\<lambda>_.
          py_return (receipt_of H c organization_id False)))))"

definition scoped_append ::
    "digest \<Rightarrow> (string \<Rightarrow> string) \<Rightarrow> candidate_record \<Rightarrow> string \<Rightarrow> pydatetime \<Rightarrow> (gov_db, append_receipt) py" where
  "scoped_append H T c organization_id occurred_at =
     py_bind (py_unless (\<not> blank organization_id) (RuntimeError ''candidate_organization_id_invalid'')) (\<lambda>_.
     py_bind (py_unless (aware occurred_at) (RuntimeError ''timezone_aware_timestamp_required'')) (\<lambda>_.
     py_bind (py_unless (cd_schema_version c = SCHEMA_VERSION)
       (RuntimeError ''candidate_schema_version_incompatible'')) (\<lambda>_.
     py_bind (py_unless (record_type (cd_body c) \<in> set ALLOWED_RECORD_TYPES)
       (RuntimeError ''candidate_record_type_not_allowed'')) (\<lambda>_.
     scoped_transaction H T c organization_id (isoformat occurred_at)))))"

end
