(* ===== verification/Cursor_Pages.thy ===== *)
theory Cursor_Pages
  imports Py_Prelude
begin

text \<open>
  The contract of a paged view: a page answers the items after a cursor and, when more remain,
  the cursor to ask for next. What a client may rely on when it follows the cursors is proved
  here once, for the views of the governance candidates and for the feed of the command centre.
\<close>

text \<open>
  A client that asks for pages until there is no next cursor, \<open>n\<close> pages at most; \<open>None\<close>
  when it has not come to the end by then.
\<close>

fun collect_pages :: "(int \<Rightarrow> 'a list \<times> int option) \<Rightarrow> nat \<Rightarrow> int \<Rightarrow> 'a list option" where
  "collect_pages page 0 cursor = None"
| "collect_pages page (Suc n) cursor =
     (case page cursor of
        (items, None) \<Rightarrow> Some items
      | (items, Some c) \<Rightarrow> map_option (\<lambda>rest. items @ rest) (collect_pages page n c))"

locale cursor_pages =
  fixes page :: "int \<Rightarrow> 'a list \<times> int option"
    and beyond :: "int \<Rightarrow> 'a list"
  assumes last_page: "page c = (items, None) \<Longrightarrow> items = beyond c"
    and next_page: "page c = (items, Some d) \<Longrightarrow> beyond c = items @ beyond d \<and> items \<noteq> []"
begin

lemma next_page_shorter: "page c = (items, Some d) \<Longrightarrow> length (beyond d) < length (beyond c)"
  using next_page by fastforce

lemma collects_all: "length (beyond c) < n \<Longrightarrow> collect_pages page n c = Some (beyond c)"
proof (induction n arbitrary: c)
  case (Suc n)
  obtain items d where p: "page c = (items, d)" by (cases "page c")
  show ?case
  proof (cases d)
    case None
    with p last_page show ?thesis by simp
  next
    case (Some e)
    with p have "page c = (items, Some e)" by simp
    moreover from next_page_shorter [OF this] Suc have "collect_pages page n e = Some (beyond e)" by simp
    ultimately show ?thesis using next_page by simp
  qed
qed simp

end

text \<open>A page of the first items after a cursor, of rows in the order of their positions.\<close>

definition positions_after :: "('a \<Rightarrow> int) \<Rightarrow> 'a list \<Rightarrow> int \<Rightarrow> 'a list" where
  "positions_after pos rows c = filter (\<lambda>r. c < pos r) rows"

definition first_page :: "('a \<Rightarrow> int) \<Rightarrow> nat \<Rightarrow> 'a list \<Rightarrow> int \<Rightarrow> 'a list \<times> int option" where
  "first_page pos n rows c =
     (let found = positions_after pos rows c
      in (take n found, if n < length found then Some (pos (last (take n found))) else None))"

lemma filter_beyond:
  assumes "sorted_wrt (\<lambda>a b. pos a < pos b) (ys @ z # zs)"
  shows "filter (\<lambda>r. (pos z :: int) < pos r) (ys @ z # zs) = zs"
proof -
  have "filter (\<lambda>r. pos z < pos r) ys = []" and "filter (\<lambda>r. pos z < pos r) zs = zs"
    using assms by (force simp: sorted_wrt_append filter_empty_conv filter_id_conv)+
  then show ?thesis by simp
qed

lemma positions_after_last:
  assumes s: "sorted_wrt (<) (map pos rows)" and n: "0 < n"
    and l: "n < length (positions_after pos rows c)"
  shows "positions_after pos rows (pos (last (take n (positions_after pos rows c))))
    = drop n (positions_after pos rows c)"
proof -
  let ?xs = "positions_after pos rows c"
  obtain m where m: "n = Suc m" using n by (cases n) auto
  define z where "z = ?xs ! m"
  have xs: "?xs = take m ?xs @ z # drop n ?xs"
    using l id_take_nth_drop [of m ?xs] by (simp add: m z_def)
  have z: "last (take n ?xs) = z"
    using l by (simp add: m z_def take_Suc_conv_app_nth)
  have "sorted_wrt (\<lambda>a b. pos a < pos b) ?xs"
    using s by (simp add: positions_after_def sorted_wrt_map sorted_wrt_filter)
  then have sx: "sorted_wrt (\<lambda>a b. pos a < pos b) (take m ?xs @ z # drop n ?xs)"
    using xs by simp
  have "z \<in> set ?xs"
    using l by (simp add: m z_def)
  then have "c < pos z"
    by (simp add: positions_after_def)
  then have "positions_after pos rows (pos z) = filter (\<lambda>r. pos z < pos r) ?xs"
    unfolding positions_after_def filter_filter by (intro filter_cong) auto
  also have "\<dots> = filter (\<lambda>r. pos z < pos r) (take m ?xs @ z # drop n ?xs)"
    using xs by simp
  also have "\<dots> = drop n ?xs"
    by (rule filter_beyond [OF sx])
  finally show ?thesis by (simp only: z)
qed

lemma first_page_pages:
  assumes "sorted_wrt (<) (map pos rows)" and "0 < n"
  shows "cursor_pages (first_page pos n rows) (positions_after pos rows)"
proof
  fix c items
  assume "first_page pos n rows c = (items, None)"
  then show "items = positions_after pos rows c"
    by (auto simp: first_page_def Let_def split: if_splits)
next
  fix c items d
  assume p: "first_page pos n rows c = (items, Some d)"
  then have l: "n < length (positions_after pos rows c)" and i: "items = take n (positions_after pos rows c)"
      and d: "d = pos (last items)"
    by (auto simp: first_page_def Let_def split: if_splits)
  have "items \<noteq> []"
    using l i assms(2) by auto
  then show "positions_after pos rows c = items @ positions_after pos rows d \<and> items \<noteq> []"
    using positions_after_last [OF assms l] i d by simp
qed

end
