(* ===== verification/Candidate_Views.thy ===== *)
theory Candidate_Views
  imports Candidate_Store Cursor_Pages
begin

text \<open>
  \<^verbatim>\<open>app/governance_refactor/projections.py\<close>: the read-only views of one organization over the
  candidates and their events. A SELECT is a filter of the rows in the order of their position;
  the join of a row with the scopes has at most one match, because a scope names a record once.
\<close>

section \<open>Requests\<close>

record candidate_filter =
  cf_record_type :: "string option"
  cf_mission_id :: "string option"
  cf_ocs_id :: "string option"

definition no_filter :: candidate_filter where
  "no_filter = \<lparr>cf_record_type = None, cf_mission_id = None, cf_ocs_id = None\<rparr>"

definition filter_checks :: "candidate_filter \<Rightarrow> (bool \<times> string) list" where
  "filter_checks f =
     [(case cf_record_type f of None \<Rightarrow> True | Some t \<Rightarrow> t \<in> set ALLOWED_RECORD_TYPES,
       ''candidate_record_type_not_allowed''),
      (case cf_mission_id f of None \<Rightarrow> True | Some m \<Rightarrow> \<not> blank m, ''candidate_mission_id_invalid''),
      (case cf_ocs_id f of None \<Rightarrow> True | Some i \<Rightarrow> \<not> blank i, ''candidate_ocs_id_invalid'')]"

definition request_checks :: "string \<Rightarrow> candidate_filter \<Rightarrow> int \<Rightarrow> int \<Rightarrow> (bool \<times> string) list" where
  "request_checks organization_id f cursor limit =
     [(\<not> blank organization_id, ''candidate_organization_id_invalid''),
      (0 \<le> cursor, ''candidate_cursor_invalid''),
      (1 \<le> limit \<and> limit \<le> 100, ''candidate_limit_invalid'')] @ filter_checks f"

text \<open>The first failed check raises; the error is a \<^verbatim>\<open>RuntimeError\<close> here.\<close>

definition validate_view_request :: "string \<Rightarrow> candidate_filter \<Rightarrow> int \<Rightarrow> int \<Rightarrow> unit res" where
  "validate_view_request organization_id f cursor limit =
     (case find (\<lambda>c. \<not> fst c) (request_checks organization_id f cursor limit) of
        None \<Rightarrow> Inr () | Some c \<Rightarrow> Inl (RuntimeError (snd c)))"

section \<open>Rows\<close>

definition in_scope :: "string \<Rightarrow> cand_scope list \<Rightarrow> cand_key \<Rightarrow> bool" where
  "in_scope organization_id scopes k \<longleftrightarrow>
     (\<exists>s \<in> set scopes. ks_organization_id s = organization_id \<and> scope_key s = k)"

text \<open>\<^verbatim>\<open>json_extract(payload_json, '$.key') = ?\<close> holds of a text only.\<close>

definition json_field_is :: "cand_row \<Rightarrow> string \<Rightarrow> string option \<Rightarrow> bool" where
  "json_field_is r k v = (case v of None \<Rightarrow> True | Some s \<Rightarrow> py_get (kr_payload r) k = Some (PyStr s))"

definition filter_matches :: "candidate_filter \<Rightarrow> cand_row \<Rightarrow> bool" where
  "filter_matches f r \<longleftrightarrow>
     (case cf_record_type f of None \<Rightarrow> True | Some t \<Rightarrow> kr_record_type r = t) \<and>
     json_field_is r ''mission_id'' (cf_mission_id f) \<and> json_field_is r ''ocs_id'' (cf_ocs_id f)"

definition visible_rows :: "string \<Rightarrow> candidate_filter \<Rightarrow> cand_row list \<Rightarrow> cand_scope list \<Rightarrow> int \<Rightarrow> cand_row list" where
  "visible_rows organization_id f rows scopes cursor =
     sort_key kr_position (filter (\<lambda>r. in_scope organization_id scopes (row_key r) \<and> cursor < kr_position r \<and>
       kr_record_type r \<in> set ALLOWED_RECORD_TYPES \<and> filter_matches f r) rows)"

definition visible_events :: "string \<Rightarrow> cand_event list \<Rightarrow> cand_scope list \<Rightarrow> int \<Rightarrow> cand_event list" where
  "visible_events organization_id events scopes cursor =
     sort_key ke_position (filter (\<lambda>e. in_scope organization_id scopes (event_key e) \<and> cursor < ke_position e \<and>
       ke_record_type e \<in> set ALLOWED_RECORD_TYPES) events)"

section \<open>What a row becomes\<close>

record candidate_item =
  vi_position :: int
  vi_record_type :: string
  vi_record_id :: string
  vi_schema_version :: string
  vi_payload_hash :: string
  vi_payload :: pyval
  vi_source_refs :: pyval
  vi_provenance_refs :: pyval
  vi_written_at :: string
  vi_freshness :: string
  vi_claim_state :: string

record event_item =
  vv_position :: int
  vv_event_id :: string
  vv_record_type :: string
  vv_record_id :: string
  vv_event_type :: string
  vv_payload_hash :: string
  vv_occurred_at :: string

definition verify_hash :: "digest \<Rightarrow> pyval \<Rightarrow> string \<Rightarrow> unit res" where
  "verify_hash H payload expected =
     (if H payload = expected then Inr () else Inl (RuntimeError ''candidate_projection_hash_mismatch''))"

text \<open>\<^verbatim>\<open>payload.get(key, [])\<close>; a payload that is no object has no \<^verbatim>\<open>get\<close>.\<close>

definition embedded_refs :: "pyval \<Rightarrow> string \<Rightarrow> pyval" where
  "embedded_refs payload k = (case py_get payload k of None \<Rightarrow> PyList [] | Some v \<Rightarrow> v)"

fun is_dict :: "pyval \<Rightarrow> bool" where
  "is_dict (PyDict _) = True"
| "is_dict _ = False"

definition verify_evidence_envelope :: "pyval \<Rightarrow> pyval \<Rightarrow> pyval \<Rightarrow> unit res" where
  "verify_evidence_envelope source_refs provenance_refs payload =
     (if \<not> is_dict payload then Inl (OtherError ''AttributeError'')
      else if py_eq source_refs (embedded_refs payload ''source_refs'') \<and>
              py_eq provenance_refs (embedded_refs payload ''provenance_refs'')
      then Inr () else Inl (RuntimeError ''candidate_evidence_envelope_mismatch''))"

text \<open>
  \<^verbatim>\<open>_observed_at\<close>: a value that is not a text reads as no aware time, whatever its
  \<^verbatim>\<open>str\<close>.
\<close>

definition observed_at :: "pyval \<Rightarrow> string \<Rightarrow> pydatetime option" where
  "observed_at payload fallback =
     (let parsed = (case py_get payload ''observed_at'' of
          None \<Rightarrow> fromisoformat fallback | Some (PyStr s) \<Rightarrow> fromisoformat s | Some _ \<Rightarrow> None)
      in case parsed of None \<Rightarrow> None | Some d \<Rightarrow> if aware d then Some d else None)"

definition freshness :: "pydatetime option \<Rightarrow> pydatetime \<Rightarrow> string res" where
  "freshness observed now =
     (case observed of None \<Rightarrow> Inr ''unknown''
      | Some d \<Rightarrow>
          if \<not> aware now then Inl (RuntimeError ''timezone_aware_timestamp_required'')
          else let age = dt_seconds now d
               in Inr (if age < 0 then ''unknown'' else if age \<le> 300 then ''current'' else ''stale''))"

definition item_of :: "cand_row \<Rightarrow> string \<Rightarrow> candidate_item" where
  "item_of r fresh =
     \<lparr>vi_position = kr_position r, vi_record_type = kr_record_type r, vi_record_id = kr_record_id r,
      vi_schema_version = kr_schema_version r, vi_payload_hash = kr_payload_hash r,
      vi_payload = kr_payload r, vi_source_refs = kr_source_refs r,
      vi_provenance_refs = kr_provenance_refs r, vi_written_at = kr_written_at r,
      vi_freshness = fresh, vi_claim_state = ''candidate''\<rparr>"

definition verify_row :: "digest \<Rightarrow> cand_row \<Rightarrow> unit res" where
  "verify_row H r = (case verify_hash H (kr_payload r) (kr_payload_hash r) of
       Inl e \<Rightarrow> Inl e
     | Inr _ \<Rightarrow> verify_evidence_envelope (kr_source_refs r) (kr_provenance_refs r) (kr_payload r))"

definition view_record :: "digest \<Rightarrow> pydatetime \<Rightarrow> cand_row \<Rightarrow> candidate_item res" where
  "view_record H now r = (case verify_row H r of
       Inl e \<Rightarrow> Inl e
     | Inr _ \<Rightarrow> map_sum id (item_of r) (freshness (observed_at (kr_payload r) (kr_written_at r)) now))"

definition view_event :: "digest \<Rightarrow> cand_event \<Rightarrow> event_item res" where
  "view_event H e = (case verify_hash H (ke_payload e) (ke_payload_hash e) of
       Inl x \<Rightarrow> Inl x
     | Inr _ \<Rightarrow> map_sum id (\<lambda>_. \<lparr>vv_position = ke_position e, vv_event_id = ke_event_id e,
          vv_record_type = ke_record_type e, vv_record_id = ke_record_id e, vv_event_type = ke_event_type e,
          vv_payload_hash = ke_payload_hash e, vv_occurred_at = ke_occurred_at e\<rparr>)
        (verify_evidence_envelope (ke_source_refs e) (ke_provenance_refs e) (ke_payload e)))"

section \<open>The views\<close>

record 'a page =
  pg_items :: "'a list"
  pg_count :: int
  pg_next_cursor :: "int option"
  pg_cursor :: "int option"
  pg_health :: string
  pg_schema_version :: "string option"

definition make_page :: "'a list \<Rightarrow> int option \<Rightarrow> int option \<Rightarrow> string \<Rightarrow> 'a page" where
  "make_page items next_cursor cursor health =
     \<lparr>pg_items = items, pg_count = int (length items), pg_next_cursor = next_cursor, pg_cursor = cursor,
      pg_health = health, pg_schema_version = (if health = ''available'' then Some SCHEMA_VERSION else None)\<rparr>"

definition epistemic_boundary :: "(string \<times> bool) list" where
  "epistemic_boundary =
     [(''candidate_is_authority'', False), (''requested_is_executed'', False), (''executed_is_verified'', False),
      (''verified_is_assured'', False), (''unknown_is_zero'', False), (''no_data_is_healthy'', False)]"

definition list_candidates ::
    "digest \<Rightarrow> string \<Rightarrow> candidate_filter \<Rightarrow> int \<Rightarrow> int \<Rightarrow> pydatetime \<Rightarrow> (gov_db, candidate_item page) py" where
  "list_candidates H organization_id f cursor limit now =
     py_bind (py_lift (validate_view_request organization_id f cursor limit)) (\<lambda>_.
     py_bind (py_gets store_health) (\<lambda>health.
     if health \<noteq> ''available'' then py_return (make_page [] None (Some cursor) health)
     else py_bind (table gb_records) (\<lambda>rows. py_bind (table gb_scopes) (\<lambda>scopes.
       let n = nat limit;
           found = take (n + 1) (visible_rows organization_id f rows scopes cursor)
       in py_bind (py_lift (traverse (view_record H now) found)) (\<lambda>items.
          let selected = take n items
          in py_return (make_page selected
               (if n < length items then Some (vi_position (last selected)) else None) None health))))))"

definition get_candidate ::
    "digest \<Rightarrow> string \<Rightarrow> string \<Rightarrow> string \<Rightarrow> pydatetime \<Rightarrow> (gov_db, candidate_item) py" where
  "get_candidate H organization_id rtype rid now =
     py_bind (py_lift (validate_view_request organization_id (no_filter\<lparr>cf_record_type := Some rtype\<rparr>) 0 1)) (\<lambda>_.
     py_bind (py_unless (\<not> blank rid) (RuntimeError ''candidate_record_id_invalid'')) (\<lambda>_.
     py_bind (py_gets store_health) (\<lambda>health.
     py_bind (py_unless (health = ''available'') (RuntimeError ''candidate_projection_unavailable'')) (\<lambda>_.
     py_bind (table gb_records) (\<lambda>rows. py_bind (table gb_scopes) (\<lambda>scopes.
       case filter (\<lambda>r. row_key r = (rtype, rid, SCHEMA_VERSION) \<and>
              in_scope organization_id scopes (row_key r)) rows of
         [] \<Rightarrow> py_raise (RuntimeError ''candidate_record_not_found'')
       | r # _ \<Rightarrow> py_lift (view_record H now r)))))))"

definition candidate_events ::
    "digest \<Rightarrow> string \<Rightarrow> int \<Rightarrow> int \<Rightarrow> (gov_db, event_item page) py" where
  "candidate_events H organization_id cursor limit =
     py_bind (py_lift (validate_view_request organization_id no_filter cursor limit)) (\<lambda>_.
     py_bind (py_gets store_health) (\<lambda>health.
     if health \<noteq> ''available'' then py_return (make_page [] None (Some cursor) health)
     else py_bind (table gb_events) (\<lambda>rows. py_bind (table gb_scopes) (\<lambda>scopes.
       let n = nat limit;
           found = take (n + 1) (visible_events organization_id rows scopes cursor)
       in py_bind (py_lift (traverse (view_event H) (take n found))) (\<lambda>items.
          py_return (make_page items
            (if n < length found then Some (vv_position (last items)) else None) None health))))))"

record candidate_summary =
  su_counts_by_type :: "(string \<times> int) list"
  su_total :: "int option"
  su_health :: string

definition candidate_summary_of :: "string \<Rightarrow> (gov_db, candidate_summary) py" where
  "candidate_summary_of organization_id =
     py_bind (py_lift (validate_view_request organization_id no_filter 0 100)) (\<lambda>_.
     py_bind (py_gets store_health) (\<lambda>health.
     if health \<noteq> ''available'' then
       py_return \<lparr>su_counts_by_type = [], su_total = None, su_health = health\<rparr>
     else py_bind (table gb_records) (\<lambda>rows. py_bind (table gb_scopes) (\<lambda>scopes.
       let types = map kr_record_type (filter (\<lambda>r. in_scope organization_id scopes (row_key r) \<and>
             kr_record_type r \<in> set ALLOWED_RECORD_TYPES) rows);
           counts = map (\<lambda>t. (t, int (count_list types t))) (sort (remdups types))
       in py_return \<lparr>su_counts_by_type = counts, su_total = Some (sum_list (map snd counts)),
            su_health = health\<rparr>))))"

end
