(* ===== verification/Candidate_Safety.thy ===== *)
theory Candidate_Safety
  imports Candidate_Policy Candidate_Views
begin

text \<open>
  What is shown of the governance candidates: what every constructed candidate satisfies, the
  meaning of the policy and of the capability decisions, the invariant of the tables along any
  calls of the migration and of the two writers, the isolation of the organizations, and what a
  client of the views receives.
\<close>

section \<open>Payloads\<close>

lemma body_fields_distinct: "distinct (map fst (body_fields b)) \<and> ''schema_version'' \<notin> fst ` set (body_fields b)"
  by (cases b) (simp_all add: mission_metrics_fields_def gate_performance_fields_def quality_matrix_fields_def
    quality_assessment_fields_def evidence_bundle_fields_def promotion_readiness_fields_def
    founder_approval_fields_def refactor_event_fields_def integration_capability_fields_def
    agent_availability_fields_def chat_routing_fields_def auxiliary_evidence_fields_def)

lemma payload_get:
  "py_get (payload_tree c) k =
     map_option json_tree (map_of (body_fields (cd_body c) @ [(''schema_version'', PyStr (cd_schema_version c))]) k)"
  unfolding payload_tree_def candidate_payload_def
  by (rule py_get_json_tree) (use body_fields_distinct [of "cd_body c"] in simp)

fun body_refs :: "candidate_body \<Rightarrow> string list option \<times> string list" where
  "body_refs (MissionMetrics r) = (Some (mmr_source_refs r), mmr_provenance_refs r)"
| "body_refs (GatePerformance r) = (None, gpr_provenance_refs r)"
| "body_refs (QualityMatrix r) = (None, qam_provenance_refs r)"
| "body_refs (QualityAssessment r) = (None, qda_provenance_refs r)"
| "body_refs (EvidenceBundle r) = (None, qeb_provenance_refs r)"
| "body_refs (PromotionReadiness r) = (None, prs_provenance_refs r)"
| "body_refs (FounderApproval r) = (None, fad_provenance_refs r)"
| "body_refs (Refactor r) = (None, rfe_provenance_refs r)"
| "body_refs (IntegrationCapability r) = (None, icr_provenance_refs r)"
| "body_refs (AgentAvailability r) = (None, aac_provenance_refs r)"
| "body_refs (ChatRouting r) = (None, crc_provenance_refs r)"
| "body_refs (AuxiliaryEvidence r) = (None, axe_provenance_refs r)"

lemma body_fields_refs:
  "map_of (body_fields b) ''source_refs'' = map_option pv_refs (fst (body_refs b)) \<and>
   map_of (body_fields b) ''provenance_refs'' = Some (pv_refs (snd (body_refs b)))"
  by (cases b) (simp_all add: mission_metrics_fields_def gate_performance_fields_def quality_matrix_fields_def
    quality_assessment_fields_def evidence_bundle_fields_def promotion_readiness_fields_def
    founder_approval_fields_def refactor_event_fields_def integration_capability_fields_def
    agent_availability_fields_def chat_routing_fields_def auxiliary_evidence_fields_def)

lemma json_tree_pv_refs [simp]: "json_tree (pv_refs xs) = pv_refs xs"
  by (simp add: pv_refs_def)

lemma pv_refs_items: "PyList (list_items (pv_refs xs)) = pv_refs xs"
  by (simp add: pv_refs_def)

lemma refs_agree:
  assumes "k \<in> {''source_refs'', ''provenance_refs''}"
  shows "extract_refs (candidate_payload c) k = embedded_refs (payload_tree c) k"
proof -
  define F where "F = body_fields (cd_body c) @ [(''schema_version'', PyStr (cd_schema_version c))]"
  have b: "map_of F k = map_of (body_fields (cd_body c)) k"
    using assms by (auto simp: F_def map_of_append map_add_def split: option.splits)
  have "map_of F k = None \<or> (\<exists>xs. map_of F k = Some (pv_refs xs))"
    unfolding b using assms body_fields_refs [of "cd_body c"] by (cases "fst (body_refs (cd_body c))") auto
  moreover have "py_get (candidate_payload c) k = map_of F k"
    by (simp only: candidate_payload_def py_get.simps F_def)
  ultimately show ?thesis
    unfolding extract_refs_def embedded_refs_def payload_get F_def [symmetric] by (auto simp: pv_refs_items)
qed

lemma is_dict_payload: "is_dict (payload_tree c)"
  by (simp add: payload_tree_def candidate_payload_def)

lemma record_type_allowed: "record_type b \<in> set ALLOWED_RECORD_TYPES"
  by (cases b) (simp_all add: ALLOWED_RECORD_TYPES_def)

section \<open>What an append does\<close>

lemma table_run [py_simps]: "table t db = (case t db of None \<Rightarrow> Inl no_table | Some rows \<Rightarrow> Inr rows, db)"
  by (simp add: table_def)

lemma table_Inr: "table t db = (Inr rows, db') \<longleftrightarrow> t db = Some rows \<and> db' = db"
  by (auto simp: table_def split: option.splits)

lemma insert_record_Inr:
  "insert_record r db = (Inr u, db') \<longleftrightarrow> (\<exists>rows. gb_records db = Some rows \<and> row_key r \<notin> row_key ` set rows \<and>
     kr_position r \<notin> kr_position ` set rows \<and> db' = db\<lparr>gb_records := Some (rows @ [r])\<rparr>)"
  by (auto simp: insert_record_def py_bind_Inr table_Inr py_unless_Inr py_modify_run)

lemma insert_event_Inr:
  "insert_event r db = (Inr u, db') \<longleftrightarrow> (\<exists>rows. gb_events db = Some rows \<and> ke_event_id r \<notin> ke_event_id ` set rows \<and>
     ke_position r \<notin> ke_position ` set rows \<and> db' = db\<lparr>gb_events := Some (rows @ [r])\<rparr>)"
  by (auto simp: insert_event_def py_bind_Inr table_Inr py_unless_Inr py_modify_run)

lemma insert_scope_Inr:
  "insert_scope r db = (Inr u, db') \<longleftrightarrow> (\<exists>rows. gb_scopes db = Some rows \<and> scope_key r \<notin> scope_key ` set rows \<and>
     db' = db\<lparr>gb_scopes := Some (rows @ [r])\<rparr>)"
  by (auto simp: insert_scope_def py_bind_Inr table_Inr py_unless_Inr py_modify_run)

definition new_row :: "digest \<Rightarrow> candidate_record \<Rightarrow> string \<Rightarrow> cand_row list \<Rightarrow> cand_row" where
  "new_row H c ts rows = row_of H c ts (next_position (map kr_position rows))"

definition new_event :: "digest \<Rightarrow> (string \<Rightarrow> string) \<Rightarrow> candidate_record \<Rightarrow> string \<Rightarrow> cand_event list \<Rightarrow> cand_event" where
  "new_event H T c ts evs = event_row_of H T c ts (next_position (map ke_position evs))"

definition extended :: "digest \<Rightarrow> (string \<Rightarrow> string) \<Rightarrow> candidate_record \<Rightarrow> string \<Rightarrow> string \<Rightarrow>
    cand_row list \<Rightarrow> cand_event list \<Rightarrow> cand_scope list \<Rightarrow> gov_db \<Rightarrow> gov_db" where
  "extended H T c org ts rows evs scopes db =
     db\<lparr>gb_records := Some (rows @ [new_row H c ts rows]), gb_events := Some (evs @ [new_event H T c ts evs]),
        gb_scopes := Some (scopes @ [scope_of c org ts])\<rparr>"

lemma row_key_new [simp]: "row_key (new_row H c ts rows) = cand_key_of c"
  by (simp add: new_row_def row_of_def row_key_def cand_key_of_def)

lemma event_key_new [simp]: "event_key (new_event H T c ts evs) = cand_key_of c"
  by (simp add: new_event_def event_row_of_def event_key_def cand_key_of_def)

lemma scope_key_new [simp]: "scope_key (scope_of c org ts) = cand_key_of c"
  by (simp add: scope_of_def scope_key_def cand_key_of_def)

lemma scoped_insert_Inr:
  "scoped_insert H T c org ts db = (Inr u, db') \<Longrightarrow>
     \<exists>rows evs scopes. gb_records db = Some rows \<and> gb_events db = Some evs \<and> gb_scopes db = Some scopes \<and>
       cand_key_of c \<notin> row_key ` set rows \<and> cand_key_of c \<notin> scope_key ` set scopes \<and>
       ke_event_id (new_event H T c ts evs) \<notin> ke_event_id ` set evs \<and>
       db' = extended H T c org ts rows evs scopes db"
  by (auto simp: scoped_insert_def py_bind_Inr table_Inr insert_record_Inr insert_event_Inr insert_scope_Inr
    new_row_def [symmetric] new_event_def [symmetric] extended_def)

lemma find_record_Inr:
  "find_record k db = (Inr x, db') \<longleftrightarrow>
     (\<exists>rows. gb_records db = Some rows \<and> x = find (\<lambda>r. row_key r = k) rows \<and> db' = db)"
  by (auto simp: find_record_def py_bind_Inr table_Inr py_return_run)

lemma owner_of_Inr:
  "owner_of k db = (Inr x, db') \<longleftrightarrow>
     (\<exists>scopes. gb_scopes db = Some scopes \<and> db' = db \<and>
        x = map_option ks_organization_id (find (\<lambda>s. scope_key s = k) scopes))"
  by (auto simp: owner_of_def py_bind_Inr table_Inr py_return_run)

lemma scoped_append_gate:
  "scoped_append H T c org t db = (Inr rc, db') \<longleftrightarrow>
     \<not> blank org \<and> aware t \<and> cd_schema_version c = SCHEMA_VERSION \<and>
     scoped_transaction H T c org (isoformat t) db = (Inr rc, db')"
  by (auto simp: scoped_append_def py_bind_Inr py_unless_Inr record_type_allowed)

lemma scoped_append_cases:
  assumes "scoped_append H T c org t db = (Inr rc, db')"
  obtains (replayed) rows r scopes s where "gb_records db = Some rows" and "gb_scopes db = Some scopes"
      and "find (\<lambda>r. row_key r = cand_key_of c) rows = Some r"
      and "find (\<lambda>s. scope_key s = cand_key_of c) scopes = Some s" and "ks_organization_id s = org"
      and "replay_existing H c org r (Some org) = Inr rc" and "db' = db"
  | (fresh) rows evs scopes where "gb_records db = Some rows" and "gb_events db = Some evs"
      and "gb_scopes db = Some scopes" and "cand_key_of c \<notin> row_key ` set rows"
      and "cand_key_of c \<notin> scope_key ` set scopes"
      and "ke_event_id (new_event H T c (isoformat t) evs) \<notin> ke_event_id ` set evs"
      and "db' = extended H T c org (isoformat t) rows evs scopes db" and "rc = receipt_of H c org False"
proof -
  from assms have "scoped_transaction H T c org (isoformat t) db = (Inr rc, db')"
    by (simp add: scoped_append_gate)
  then obtain existing owner where f: "find_record (cand_key_of c) db = (Inr existing, db)"
      and o': "owner_of (cand_key_of c) db = (Inr owner, db)"
      and k: "(case existing of Some r \<Rightarrow> py_lift (replay_existing H c org r owner)
        | None \<Rightarrow> py_bind (scoped_insert H T c org (isoformat t)) (\<lambda>_. py_return (receipt_of H c org False))) db
        = (Inr rc, db')"
    unfolding scoped_transaction_def transaction_Inr py_bind_Inr find_record_Inr owner_of_Inr by blast
  show thesis
  proof (cases existing)
    case None
    with k have "scoped_insert H T c org (isoformat t) db = (Inr (), db')" and "rc = receipt_of H c org False"
      by (auto simp: py_bind_Inr py_return_run)
    then show thesis by (metis scoped_insert_Inr fresh)
  next
    case (Some r)
    with k have e: "replay_existing H c org r owner = Inr rc" "db' = db"
      by (auto simp: py_lift_run)
    then have "owner = Some org"
      by (auto simp: replay_existing_def split: if_splits)
    obtain rows where r: "gb_records db = Some rows" "find (\<lambda>r. row_key r = cand_key_of c) rows = Some r"
      using f Some by (auto simp: find_record_Inr)
    obtain scopes where "gb_scopes db = Some scopes"
        "owner = map_option ks_organization_id (find (\<lambda>s. scope_key s = cand_key_of c) scopes)"
      using o' by (auto simp: owner_of_Inr)
    with \<open>owner = Some org\<close> have t: "gb_scopes db = Some scopes"
        "map_option ks_organization_id (find (\<lambda>s. scope_key s = cand_key_of c) scopes) = Some org"
      by simp_all
    from t(2) obtain s where "find (\<lambda>s. scope_key s = cand_key_of c) scopes = Some s" "ks_organization_id s = org"
      by (cases "find (\<lambda>s. scope_key s = cand_key_of c) scopes") auto
    with r t e \<open>owner = Some org\<close> show thesis by (intro replayed) auto
  qed
qed

lemma scoped_append_Inl: "scoped_append H T c org t db = (Inl e, db') \<Longrightarrow> db' = db"
  by (auto simp: scoped_append_def py_bind_run py_unless_run scoped_transaction_def split: if_splits dest: transaction_Inl)


section \<open>The invariant of the tables\<close>

definition row_sound :: "digest \<Rightarrow> cand_row \<Rightarrow> bool" where
  "row_sound H r \<longleftrightarrow> kr_payload_hash r = H (kr_payload r) \<and> is_dict (kr_payload r) \<and>
     kr_source_refs r = embedded_refs (kr_payload r) ''source_refs'' \<and>
     kr_provenance_refs r = embedded_refs (kr_payload r) ''provenance_refs'' \<and>
     kr_record_type r \<in> set ALLOWED_RECORD_TYPES \<and> kr_schema_version r = SCHEMA_VERSION \<and> 0 < kr_position r"

text \<open>The event that belongs to a record, and the scope that belongs to it.\<close>

definition event_matches :: "cand_row \<Rightarrow> cand_event \<Rightarrow> bool" where
  "event_matches r e \<longleftrightarrow> event_key e = row_key r \<and> ke_payload e = kr_payload r \<and>
     ke_payload_hash e = kr_payload_hash r \<and> ke_source_refs e = kr_source_refs r \<and>
     ke_provenance_refs e = kr_provenance_refs r \<and> ke_position e = kr_position r"

definition tables_ok :: "digest \<Rightarrow> cand_row list \<Rightarrow> cand_event list \<Rightarrow> cand_scope list \<Rightarrow> bool" where
  "tables_ok H rows evs scopes \<longleftrightarrow>
     list_all (row_sound H) rows \<and> list_all2 event_matches rows evs \<and>
     map scope_key scopes = map row_key rows \<and> distinct (map row_key rows) \<and>
     sorted_wrt (<) (map kr_position rows)"

definition gov_ok :: "digest \<Rightarrow> gov_db \<Rightarrow> bool" where
  "gov_ok H db \<longleftrightarrow>
     (gb_records db = None \<and> gb_events db = None \<and> gb_scopes db = None) \<or>
     (\<exists>rows evs scopes. gb_records db = Some rows \<and> gb_events db = Some evs \<and> gb_scopes db = Some scopes \<and>
        tables_ok H rows evs scopes)"

lemma next_position_above: "p \<in> set ps \<Longrightarrow> p < next_position ps"
proof -
  assume p: "p \<in> set ps"
  then have "p \<le> Max (set ps)" by (intro Max_ge) auto
  with p show ?thesis by (auto simp: next_position_def)
qed

lemma next_position_pos:
  assumes "\<And>p. p \<in> set ps \<Longrightarrow> 0 < p"
  shows "0 < next_position ps"
proof (cases ps)
  case (Cons p qs)
  then have "0 < p" and "p < next_position ps"
    using assms next_position_above by auto
  then show ?thesis by simp
qed (simp add: next_position_def)

lemma events_positions: "list_all2 event_matches rows evs \<Longrightarrow> map ke_position evs = map kr_position rows"
  by (induction rule: list_all2_induct) (auto simp: event_matches_def)

lemma events_keys: "list_all2 event_matches rows evs \<Longrightarrow> map event_key evs = map row_key rows"
  by (induction rule: list_all2_induct) (auto simp: event_matches_def)

lemma position_new [simp]: "kr_position (new_row H c ts rows) = next_position (map kr_position rows)"
  by (simp add: new_row_def row_of_def)

lemma row_sound_new:
  assumes "cd_schema_version c = SCHEMA_VERSION" and "0 < next_position (map kr_position rows)"
  shows "row_sound H (new_row H c ts rows)"
  using assms refs_agree [of "''source_refs''" c] refs_agree [of "''provenance_refs''" c]
  by (simp add: row_sound_def new_row_def row_of_def is_dict_payload record_type_allowed)

lemma tables_ok_extended:
  assumes t: "tables_ok H rows evs scopes" and k: "cand_key_of c \<notin> row_key ` set rows"
    and v: "cd_schema_version c = SCHEMA_VERSION"
  shows "tables_ok H (rows @ [new_row H c ts rows]) (evs @ [new_event H T c ts evs]) (scopes @ [scope_of c org ts])"
proof -
  have a: "list_all2 event_matches rows evs" and s: "list_all (row_sound H) rows"
    using t by (simp_all add: tables_ok_def)
  have "0 < next_position (map kr_position rows)"
    using s by (intro next_position_pos) (auto simp: list_all_iff row_sound_def)
  then have "row_sound H (new_row H c ts rows)"
    by (rule row_sound_new [OF v])
  moreover have "event_matches (new_row H c ts rows) (new_event H T c ts evs)"
    using events_positions [OF a]
    by (simp add: event_matches_def new_event_def event_row_of_def new_row_def row_of_def event_key_def row_key_def)
  moreover have "\<forall>p \<in> set (map kr_position rows). p < next_position (map kr_position rows)"
    by (blast intro: next_position_above)
  ultimately show ?thesis
    using t k by (auto simp: tables_ok_def sorted_wrt_append list_all2_appendI)
qed

lemma gov_ok_append:
  assumes "gov_ok H db" shows "gov_ok H (snd (scoped_append H T c org t db))"
proof (cases "scoped_append H T c org t db")
  case (Pair r db')
  show ?thesis
  proof (cases r)
    case (Inl e)
    with Pair assms scoped_append_Inl show ?thesis by fastforce
  next
    case (Inr rc)
    with Pair have s: "scoped_append H T c org t db = (Inr rc, db')" by simp
    then have v: "cd_schema_version c = SCHEMA_VERSION" by (simp add: scoped_append_gate)
    from s show ?thesis
    proof (cases rule: scoped_append_cases)
      case replayed
      with Pair assms show ?thesis by simp
    next
      case (fresh rows evs scopes)
      have "tables_ok H rows evs scopes"
        using assms fresh(1,2,3) by (auto simp: gov_ok_def)
      from tables_ok_extended [OF this fresh(4) v] fresh Pair show ?thesis
        by (auto simp: gov_ok_def extended_def)
    qed
  qed
qed

lemma tables_ok_Nil: "tables_ok H [] [] []"
  by (simp add: tables_ok_def)

lemma gov_ok_migrate:
  assumes "gov_ok H db" shows "gov_ok H (snd (migrate_governance_candidate_store db))"
proof -
  have f: "gov_ok H (db\<lparr>gb_file := True\<rparr>)"
    using assms by (simp add: gov_ok_def)
  have "gov_ok H (snd (migrate_body d))" if "gov_ok H d" for d
    using that tables_ok_Nil
    by (auto simp: migrate_body_def py_bind_run py_gets_run py_unless_run py_modify_run create_core_def gov_ok_def
      split: sum.splits)
  then have "keeps (gov_ok H) migrate_body"
    by (simp add: steps_def)
  then have "keeps (gov_ok H) (transaction migrate_body)"
    by (rule steps_transaction) simp
  with f have "gov_ok H (snd (transaction migrate_body (db\<lparr>gb_file := True\<rparr>)))"
    by (rule keepsD [rotated])
  then show ?thesis
    by (simp add: migrate_governance_candidate_store_def py_bind_run py_modify_run split: prod.splits sum.splits)
qed

text \<open>The unscoped writer does nothing to tables that have scopes, nor to a store without tables.\<close>

lemma legacy_append_refused:
  assumes "gov_ok H db"
  shows "\<exists>e. legacy_append H T c t db = (Inl e, db)"
proof -
  have "\<exists>e. legacy_transaction H T c ts db = (Inl e, db)" for ts
    using assms
    by (auto simp: gov_ok_def legacy_transaction_def transaction_def py_bind_run py_gets_run py_unless_run
      find_record_def table_run)
  then obtain e where "legacy_transaction H T c (isoformat t) db = (Inl e, db)" by blast
  then show ?thesis
    by (simp add: legacy_append_def py_bind_run py_unless_run)
qed


section \<open>Histories\<close>

datatype gov_call =
    Migrate
  | ScopedAppend candidate_record string pydatetime
  | LegacyAppend candidate_record pydatetime

fun gov_step :: "digest \<Rightarrow> (string \<Rightarrow> string) \<Rightarrow> gov_call \<Rightarrow> gov_db \<Rightarrow> gov_db" where
  "gov_step H T Migrate db = snd (migrate_governance_candidate_store db)"
| "gov_step H T (ScopedAppend c org t) db = snd (scoped_append H T c org t db)"
| "gov_step H T (LegacyAppend c t) db = snd (legacy_append H T c t db)"

definition gov_run :: "digest \<Rightarrow> (string \<Rightarrow> string) \<Rightarrow> gov_call list \<Rightarrow> gov_db \<Rightarrow> gov_db" where
  "gov_run H T = fold (gov_step H T)"

definition no_store :: gov_db where
  "no_store = \<lparr>gb_file = False, gb_readable = True, gb_columns_ok = False, gb_records = None, gb_events = None,
     gb_scopes = None, gb_meta = None\<rparr>"

lemma gov_ok_step: "gov_ok H db \<Longrightarrow> gov_ok H (gov_step H T call db)"
proof (cases call)
  case (LegacyAppend c t)
  assume "gov_ok H db"
  then show ?thesis using legacy_append_refused [of H db T c t] LegacyAppend by auto
qed (simp_all add: gov_ok_append gov_ok_migrate)

lemma gov_ok_run: "gov_ok H db \<Longrightarrow> gov_ok H (gov_run H T calls db)"
  unfolding gov_run_def by (induction calls arbitrary: db) (auto intro: gov_ok_step)

lemma gov_ok_no_store: "gov_ok H no_store"
  by (simp add: gov_ok_def no_store_def)

text \<open>Nothing that was written is changed or removed.\<close>

definition table_extends :: "'r list option \<Rightarrow> 'r list option \<Rightarrow> bool" where
  "table_extends t u \<longleftrightarrow> (case t of None \<Rightarrow> True | Some rows \<Rightarrow> \<exists>more_rows. u = Some (rows @ more_rows))"

definition store_extends :: "gov_db \<Rightarrow> gov_db \<Rightarrow> bool" where
  "store_extends db db' \<longleftrightarrow> table_extends (gb_records db) (gb_records db') \<and>
     table_extends (gb_events db) (gb_events db') \<and> table_extends (gb_scopes db) (gb_scopes db')"

lemma table_extends_refl: "table_extends t t"
  by (simp add: table_extends_def split: option.split)

lemma table_extends_trans: "table_extends t u \<Longrightarrow> table_extends u v \<Longrightarrow> table_extends t v"
  by (cases t) (auto simp: table_extends_def)

interpretation ext: step_order store_extends
  by unfold_locales (auto simp: store_extends_def table_extends_refl intro: table_extends_trans)

lemma migrate_extends: "steps store_extends migrate_governance_candidate_store"
proof -
  have body: "steps store_extends migrate_body"
    by (simp add: steps_def migrate_body_def py_bind_run py_gets_run py_unless_run py_modify_run create_core_def
      store_extends_def table_extends_def split: sum.splits option.splits)
  show ?thesis
    unfolding migrate_governance_candidate_store_def
    by (intro ext.steps_bind ext.steps_modify steps_transaction body ext.step_refl)
      (simp add: store_extends_def table_extends_refl)
qed

lemma append_extends: "steps store_extends (scoped_append H T c org t)"
proof (rule stepsI)
  fix db
  show "store_extends db (snd (scoped_append H T c org t db))"
  proof (cases "scoped_append H T c org t db")
    case (Pair r db')
    show ?thesis
    proof (cases r)
      case (Inl e)
      with Pair show ?thesis using scoped_append_Inl [of H T c org t db e db'] by (simp add: ext.step_refl)
    next
      case (Inr rc)
      with Pair have "scoped_append H T c org t db = (Inr rc, db')" by simp
      then show ?thesis
        by (cases rule: scoped_append_cases)
          (simp_all add: Pair ext.step_refl, simp add: store_extends_def table_extends_def extended_def)
    qed
  qed
qed

lemma run_extends: "gov_ok H db \<Longrightarrow> store_extends db (gov_run H T calls db)"
proof (induction calls arbitrary: db)
  case Nil
  then show ?case by (simp add: gov_run_def ext.step_refl)
next
  case (Cons call calls)
  have "store_extends db (gov_step H T call db)"
  proof (cases call)
    case Migrate
    then show ?thesis using migrate_extends by (simp add: steps_def)
  next
    case (ScopedAppend c org t)
    then show ?thesis using append_extends by (simp add: steps_def)
  next
    case (LegacyAppend c t)
    then show ?thesis using legacy_append_refused [OF Cons.prems, of T c t] by (auto simp: ext.step_refl)
  qed
  moreover have "store_extends (gov_step H T call db) (gov_run H T calls (gov_step H T call db))"
    using Cons.IH gov_ok_step [OF Cons.prems] by blast
  ultimately show ?case
    by (simp add: gov_run_def ext.step_trans)
qed

section \<open>Isolation of the organizations\<close>

lemma in_scope_other:
  assumes "ks_organization_id s \<noteq> org"
  shows "in_scope org (scopes @ [s]) k = in_scope org scopes k"
  using assms by (auto simp: in_scope_def)

lemma not_in_scope: "k \<notin> scope_key ` set scopes \<Longrightarrow> \<not> in_scope org scopes k"
  by (auto simp: in_scope_def)

lemma health_tables:
  "store_health db = ''available'' \<Longrightarrow> \<exists>rows evs scopes. gb_records db = Some rows \<and> gb_events db = Some evs \<and> gb_scopes db = Some scopes"
  by (auto simp: store_health_def split: if_splits)

lemma list_candidates_run:
  "fst (list_candidates H org f cursor limit now db) =
     (case validate_view_request org f cursor limit of Inl e \<Rightarrow> Inl e | Inr _ \<Rightarrow>
        if store_health db \<noteq> ''available'' then Inr (make_page [] None (Some cursor) (store_health db))
        else map_sum id (\<lambda>items. make_page (take (nat limit) items)
            (if nat limit < length items then Some (vi_position (last (take (nat limit) items))) else None) None ''available'')
          (traverse (view_record H now)
            (take (nat limit + 1) (visible_rows org f (the (gb_records db)) (the (gb_scopes db)) cursor))))"
  using health_tables [of db]
  by (auto simp: list_candidates_def py_bind_run py_lift_run py_gets_run py_return_run table_run Let_def split: sum.splits)

lemma candidate_events_run:
  "fst (candidate_events H org cursor limit db) =
     (case validate_view_request org no_filter cursor limit of Inl e \<Rightarrow> Inl e | Inr _ \<Rightarrow>
        if store_health db \<noteq> ''available'' then Inr (make_page [] None (Some cursor) (store_health db))
        else let found = take (nat limit + 1) (visible_events org (the (gb_events db)) (the (gb_scopes db)) cursor)
          in map_sum id (\<lambda>items. make_page items
            (if nat limit < length found then Some (vv_position (last items)) else None) None ''available'')
          (traverse (view_event H) (take (nat limit) found)))"
  using health_tables [of db]
  by (auto simp: candidate_events_def py_bind_run py_lift_run py_gets_run py_return_run table_run Let_def split: sum.splits)

definition scoped_rows :: "string \<Rightarrow> cand_row list \<Rightarrow> cand_scope list \<Rightarrow> cand_row list" where
  "scoped_rows org rows scopes = filter (\<lambda>r. in_scope org scopes (row_key r)) rows"

lemma get_candidate_run:
  "fst (get_candidate H org rtype rid now db) =
     (case validate_view_request org (no_filter\<lparr>cf_record_type := Some rtype\<rparr>) 0 1 of Inl e \<Rightarrow> Inl e | Inr _ \<Rightarrow>
        if blank rid then Inl (RuntimeError ''candidate_record_id_invalid'')
        else if store_health db \<noteq> ''available'' then Inl (RuntimeError ''candidate_projection_unavailable'')
        else (case filter (\<lambda>r. row_key r = (rtype, rid, SCHEMA_VERSION)) (scoped_rows org (the (gb_records db)) (the (gb_scopes db))) of
            [] \<Rightarrow> Inl (RuntimeError ''candidate_record_not_found'')
          | r # _ \<Rightarrow> view_record H now r))"
  using health_tables [of db]
  by (auto simp: get_candidate_def py_bind_run py_lift_run py_gets_run py_unless_run py_raise_run table_run scoped_rows_def
    conj_commute split: sum.splits list.splits)

lemma candidate_summary_run:
  "fst (candidate_summary_of org db) =
     (case validate_view_request org no_filter 0 100 of Inl e \<Rightarrow> Inl e | Inr _ \<Rightarrow>
        if store_health db \<noteq> ''available'' then Inr \<lparr>su_counts_by_type = [], su_total = None, su_health = store_health db\<rparr>
        else let types = map kr_record_type (filter (\<lambda>r. kr_record_type r \<in> set ALLOWED_RECORD_TYPES)
               (scoped_rows org (the (gb_records db)) (the (gb_scopes db))));
               counts = map (\<lambda>t. (t, int (count_list types t))) (sort (remdups types))
          in Inr \<lparr>su_counts_by_type = counts, su_total = Some (sum_list (map snd counts)), su_health = ''available''\<rparr>)"
  using health_tables [of db]
  by (auto simp: candidate_summary_of_def py_bind_run py_lift_run py_gets_run py_return_run table_run Let_def scoped_rows_def
    conj_commute split: sum.splits)

lemma append_by_other:
  assumes "scoped_append H T c other t db = (Inr rc, db')" and "other \<noteq> org"
  shows "store_health db' = store_health db \<and>
    visible_rows org f (the (gb_records db')) (the (gb_scopes db')) cursor
       = visible_rows org f (the (gb_records db)) (the (gb_scopes db)) cursor \<and>
    visible_events org (the (gb_events db')) (the (gb_scopes db')) cursor
       = visible_events org (the (gb_events db)) (the (gb_scopes db)) cursor \<and>
    scoped_rows org (the (gb_records db')) (the (gb_scopes db'))
       = scoped_rows org (the (gb_records db)) (the (gb_scopes db))"
  using assms(1)
proof (cases rule: scoped_append_cases)
  case (fresh rows evs scopes)
  let ?s = "scope_of c other (isoformat t)"
  have sc: "in_scope org (scopes @ [?s]) k = in_scope org scopes k" for k
    using assms(2) by (intro in_scope_other) (simp add: scope_of_def)
  have no: "\<not> in_scope org scopes (cand_key_of c)"
    using fresh(5) by (rule not_in_scope)
  show ?thesis
    by (simp add: store_health_def fresh(1-3,7) extended_def visible_rows_def visible_events_def scoped_rows_def sc no)
qed simp

lemma views_isolated:
  assumes "scoped_append H T c other t db = (Inr rc, db')" and "other \<noteq> org"
  shows "fst (list_candidates H org f cursor limit now db') = fst (list_candidates H org f cursor limit now db)"
    and "fst (get_candidate H org rtype rid now db') = fst (get_candidate H org rtype rid now db)"
    and "fst (candidate_events H org cursor limit db') = fst (candidate_events H org cursor limit db)"
    and "fst (candidate_summary_of org db') = fst (candidate_summary_of org db)"
  by (simp_all only: list_candidates_run get_candidate_run candidate_events_run candidate_summary_run
    append_by_other [OF assms, THEN conjunct1]
    append_by_other [OF assms, THEN conjunct2, THEN conjunct1] append_by_other [OF assms, THEN conjunct2, THEN conjunct2])


section \<open>Appending again\<close>

lemma find_unique: "distinct (map f xs) \<Longrightarrow> x \<in> set xs \<Longrightarrow> find (\<lambda>y. f y = f x) xs = Some x"
  by (induction xs) auto

lemma find_absent: "k \<notin> f ` set xs \<Longrightarrow> find (\<lambda>y. f y = k) xs = None"
  by (induction xs) auto

lemma find_snoc_key: "k \<notin> f ` set xs \<Longrightarrow> f z = k \<Longrightarrow> find (\<lambda>y. f y = k) (xs @ [z]) = Some z"
  by (induction xs) auto

text \<open>What the store holds of a record after an append returned, the first or a repeated one.\<close>

lemma after_append:
  assumes "scoped_append H T c org t db = (Inr rc, db')"
  obtains rows r scopes s where "gb_records db' = Some rows" and "gb_scopes db' = Some scopes"
    and "find (\<lambda>r. row_key r = cand_key_of c) rows = Some r"
    and "find (\<lambda>s. scope_key s = cand_key_of c) scopes = Some s" and "ks_organization_id s = org"
    and "replay_existing H c org r (Some org) = Inr (receipt_of H c org True)"
  using assms
proof (cases rule: scoped_append_cases)
  case (replayed rows r scopes s)
  moreover from replayed(6) have "rc = receipt_of H c org True"
    by (auto simp: replay_existing_def split: if_splits)
  ultimately show thesis using that by simp
next
  case (fresh rows evs scopes)
  have "replay_existing H c org (new_row H c (isoformat t) rows) (Some org) = Inr (receipt_of H c org True)"
    by (simp add: replay_existing_def new_row_def row_of_def)
  moreover have "gb_records db' = Some (rows @ [new_row H c (isoformat t) rows])"
      and "gb_scopes db' = Some (scopes @ [scope_of c org (isoformat t)])"
    by (simp_all add: fresh(7) extended_def)
  moreover have "ks_organization_id (scope_of c org (isoformat t)) = org"
    by (simp add: scope_of_def)
  ultimately show thesis
    using that find_snoc_key [OF fresh(4) row_key_new] find_snoc_key [OF fresh(5) scope_key_new] by blast
qed

lemma append_existing:
  assumes "gb_records db = Some rows" and "gb_scopes db = Some scopes"
    and "find (\<lambda>r. row_key r = cand_key_of c) rows = Some r"
    and "find (\<lambda>s. scope_key s = cand_key_of c) scopes = Some s"
    and "\<not> blank org" and "aware t" and "cd_schema_version c = SCHEMA_VERSION"
  shows "scoped_append H T c org t db = (replay_existing H c org r (Some (ks_organization_id s)), db)"
  using assms
  by (simp add: scoped_append_def scoped_transaction_def transaction_def py_bind_run py_unless_run record_type_allowed
    find_record_def owner_of_def table_run py_return_run py_lift_run split: sum.split)

lemma append_again:
  assumes "scoped_append H T c org t db = (Inr rc, db')" and "aware t'"
  shows "scoped_append H T c org t' db' = (Inr (receipt_of H c org True), db')"
proof -
  have g: "\<not> blank org" "cd_schema_version c = SCHEMA_VERSION"
    using assms(1) by (simp_all add: scoped_append_gate)
  from assms(1) obtain rows r scopes s where "gb_records db' = Some rows" "gb_scopes db' = Some scopes"
      "find (\<lambda>r. row_key r = cand_key_of c) rows = Some r"
      "find (\<lambda>s. scope_key s = cand_key_of c) scopes = Some s" "ks_organization_id s = org"
      "replay_existing H c org r (Some org) = Inr (receipt_of H c org True)"
    by (rule after_append)
  then show ?thesis
    using append_existing [of db' rows scopes c r s org t' H T] g assms(2) by simp
qed

lemma append_by_another:
  assumes "scoped_append H T c org t db = (Inr rc, db')" and "aware t'" and "\<not> blank other" and "other \<noteq> org"
    and "cand_key_of d = cand_key_of c"
  shows "scoped_append H T d other t' db' = (Inl (RuntimeError ''candidate_scope_conflict''), db')"
proof -
  have g: "cd_schema_version d = SCHEMA_VERSION"
    using assms(1,5) by (simp add: scoped_append_gate cand_key_of_def)
  from assms(1) obtain rows r scopes s where "gb_records db' = Some rows" "gb_scopes db' = Some scopes"
      "find (\<lambda>r. row_key r = cand_key_of c) rows = Some r"
      "find (\<lambda>s. scope_key s = cand_key_of c) scopes = Some s" "ks_organization_id s = org"
    by (rule after_append) blast
  then show ?thesis
    using append_existing [of db' rows scopes d r s other t' H T] g assms(2-5) by (simp add: replay_existing_def)
qed

lemma append_changed:
  assumes "scoped_append H T c org t db = (Inr rc, db')" and "aware t'"
    and "cand_key_of d = cand_key_of c" and "payload_tree d \<noteq> payload_tree c"
  shows "scoped_append H T d org t' db' = (Inl (RuntimeError ''candidate_append_conflict''), db') \<or>
    collision H (payload_tree d) (payload_tree c)"
proof (cases "H (payload_tree d) = H (payload_tree c)")
  case True
  with assms(4) show ?thesis by (simp add: collision_def)
next
  case False
  have g: "\<not> blank org" "cd_schema_version d = SCHEMA_VERSION"
    using assms(1,3) by (simp_all add: scoped_append_gate cand_key_of_def)
  from assms(1) obtain rows r scopes s where a: "gb_records db' = Some rows" "gb_scopes db' = Some scopes"
      "find (\<lambda>r. row_key r = cand_key_of c) rows = Some r"
      "find (\<lambda>s. scope_key s = cand_key_of c) scopes = Some s" "ks_organization_id s = org"
      "replay_existing H c org r (Some org) = Inr (receipt_of H c org True)"
    by (rule after_append)
  from a(6) have "kr_payload_hash r = H (payload_tree c)"
    by (auto simp: replay_existing_def split: if_splits)
  with a False show ?thesis
    using append_existing [of db' rows scopes d r s org t' H T] g assms(2,3) by (simp add: replay_existing_def)
qed

section \<open>Reading back\<close>

lemma view_sound:
  assumes "row_sound H r" and "aware now"
  obtains fresh where "view_record H now r = Inr (item_of r fresh)"
proof -
  have "verify_row H r = Inr ()"
    using assms(1) by (simp add: row_sound_def verify_row_def verify_hash_def verify_evidence_envelope_def)
  moreover obtain x where "freshness (observed_at (kr_payload r) (kr_written_at r)) now = Inr x"
    using assms(2) by (cases "observed_at (kr_payload r) (kr_written_at r)") (auto simp: freshness_def Let_def)
  ultimately have "view_record H now r = Inr (item_of r x)"
    by (simp add: view_record_def)
  then show thesis by (rule that)
qed

lemma scope_at:
  assumes "gov_ok H db" and "gb_records db = Some rows" and "gb_scopes db = Some scopes"
  shows "map scope_key scopes = map row_key rows \<and> distinct (map row_key rows) \<and> list_all (row_sound H) rows \<and>
    sorted_wrt (<) (map kr_position rows)"
  using assms by (auto simp: gov_ok_def tables_ok_def)

lemma filter_unique: "distinct (map f xs) \<Longrightarrow> x \<in> set xs \<Longrightarrow> filter (\<lambda>y. f y = f x) xs = [x]"
proof (induction xs)
  case (Cons y ys)
  show ?case
  proof (cases "y = x")
    case True
    with Cons.prems(1) have "f x \<notin> f ` set ys" by simp
    then have "\<forall>z \<in> set ys. f z \<noteq> f x" by (metis imageI)
    with True show ?thesis by (simp add: filter_empty_conv)
  next
    case False
    with Cons.prems have "x \<in> set ys" and "f y \<noteq> f x" by auto
    with Cons show ?thesis by simp
  qed
qed simp

lemma find_SomeD: "find P xs = Some x \<Longrightarrow> x \<in> set xs \<and> P x"
  by (induction xs) (auto split: if_splits)

lemma validate_view_request_Inr:
  "validate_view_request org f cursor limit = Inr u \<longleftrightarrow> list_all fst (request_checks org f cursor limit)"
proof (cases "find (\<lambda>c. \<not> fst c) (request_checks org f cursor limit)")
  case None
  then have "\<forall>c \<in> set (request_checks org f cursor limit). fst c"
    unfolding find_None_iff by blast
  with None show ?thesis by (simp add: validate_view_request_def list_all_iff)
next
  case (Some c)
  then show ?thesis using find_SomeD [OF Some] by (auto simp: validate_view_request_def list_all_iff)
qed

lemma health_append: "scoped_append H T c org t db = (Inr rc, db') \<Longrightarrow> store_health db' = store_health db"
  by (cases rule: scoped_append_cases) (auto simp: store_health_def extended_def)

lemma append_then_get:
  assumes ok: "gov_ok H db" and a: "scoped_append H T c org t db = (Inr rc, db')"
    and now: "aware now" and rid: "\<not> blank (record_id (cd_body c))" and av: "store_health db = ''available''"
  shows "\<exists>item. fst (get_candidate H org (record_type (cd_body c)) (record_id (cd_body c)) now db') = Inr item \<and>
    vi_claim_state item = ''candidate'' \<and> vi_payload_hash item = H (payload_tree c) \<and>
    (vi_payload item = payload_tree c \<or> collision H (vi_payload item) (payload_tree c))"
proof -
  have ok': "gov_ok H db'"
    using gov_ok_append [OF ok, of T c org t] a by simp
  have v: "cd_schema_version c = SCHEMA_VERSION" and org: "\<not> blank org"
    using a by (simp_all add: scoped_append_gate)
  from a obtain rows r scopes s where t: "gb_records db' = Some rows" "gb_scopes db' = Some scopes"
      "find (\<lambda>r. row_key r = cand_key_of c) rows = Some r"
      "find (\<lambda>s. scope_key s = cand_key_of c) scopes = Some s" "ks_organization_id s = org"
      "replay_existing H c org r (Some org) = Inr (receipt_of H c org True)"
    by (rule after_append)
  have r: "r \<in> set rows" "row_key r = cand_key_of c" and s: "s \<in> set scopes" "scope_key s = cand_key_of c"
    using find_SomeD [OF t(3)] find_SomeD [OF t(4)] by auto
  have h: "kr_payload_hash r = H (payload_tree c)"
    using t(6) by (auto simp: replay_existing_def split: if_splits)
  have i: "in_scope org scopes (cand_key_of c)"
    using s t(5) by (auto simp: in_scope_def)
  have d: "distinct (map row_key rows)" and sound: "row_sound H r"
    using scope_at [OF ok' t(1,2)] r by (auto simp: list_all_iff)
  have "filter (\<lambda>r. row_key r = cand_key_of c) (scoped_rows org rows scopes) = filter (\<lambda>x. row_key x = row_key r) rows"
    unfolding scoped_rows_def filter_filter by (rule filter_cong) (auto simp: r i)
  also have "\<dots> = [r]"
    using d r(1) by (rule filter_unique)
  finally have f: "filter (\<lambda>r. row_key r = (record_type (cd_body c), record_id (cd_body c), SCHEMA_VERSION))
      (scoped_rows org rows scopes) = [r]"
    by (simp add: cand_key_of_def v)
  have q: "validate_view_request org (no_filter\<lparr>cf_record_type := Some (record_type (cd_body c))\<rparr>) 0 1 = Inr ()"
    by (simp add: validate_view_request_Inr request_checks_def filter_checks_def no_filter_def org record_type_allowed)
  from sound now obtain fresh where "view_record H now r = Inr (item_of r fresh)"
    by (rule view_sound)
  then have "fst (get_candidate H org (record_type (cd_body c)) (record_id (cd_body c)) now db') = Inr (item_of r fresh)"
    using av health_append [OF a] by (simp add: get_candidate_run q rid t(1,2) f)
  moreover have "kr_payload r = payload_tree c \<or> collision H (kr_payload r) (payload_tree c)"
    using sound h by (auto simp: row_sound_def collision_def)
  ultimately show ?thesis
    using h by (auto simp: item_of_def)
qed

section \<open>Following the cursors\<close>

lemma collect_pages_map:
  assumes page: "\<And>c. 0 \<le> c \<Longrightarrow> page' c = map_prod (map g) id (page c)"
    and pos: "\<And>c items d. 0 \<le> c \<Longrightarrow> page c = (items, Some d) \<Longrightarrow> 0 \<le> d"
    and c: "0 \<le> c"
  shows "collect_pages page' n c = map_option (map g) (collect_pages page n c)"
  using c
proof (induction n arbitrary: c)
  case (Suc n)
  obtain items d where p: "page c = (items, d)" by (cases "page c")
  show ?case
  proof (cases d)
    case None
    with p page [OF Suc.prems] show ?thesis by simp
  next
    case (Some e)
    then have "0 \<le> e" using pos [OF Suc.prems] p by simp
    from Suc.IH [OF this] p Some page [OF Suc.prems] show ?thesis
      by (cases "collect_pages page n e") simp_all
  qed
qed simp

text \<open>The item a sound row becomes, and what a client of the view receives.\<close>

definition item_at :: "digest \<Rightarrow> pydatetime \<Rightarrow> cand_row \<Rightarrow> candidate_item" where
  "item_at H now r = (case view_record H now r of Inr i \<Rightarrow> i | Inl _ \<Rightarrow> item_of r ''unknown'')"

definition page_of :: "'a page res \<Rightarrow> 'a list \<times> int option" where
  "page_of r = (case r of Inl _ \<Rightarrow> ([], None) | Inr p \<Rightarrow> (pg_items p, pg_next_cursor p))"

definition owned_rows :: "string \<Rightarrow> candidate_filter \<Rightarrow> cand_row list \<Rightarrow> cand_scope list \<Rightarrow> cand_row list" where
  "owned_rows org f rows scopes = filter (\<lambda>r. in_scope org scopes (row_key r) \<and>
     kr_record_type r \<in> set ALLOWED_RECORD_TYPES \<and> filter_matches f r) rows"

lemma visible_rows_owned:
  assumes "sorted_wrt (<) (map kr_position rows)"
  shows "visible_rows org f rows scopes cursor = positions_after kr_position (owned_rows org f rows scopes) cursor"
proof -
  have e: "filter (\<lambda>r. in_scope org scopes (row_key r) \<and> cursor < kr_position r \<and>
      kr_record_type r \<in> set ALLOWED_RECORD_TYPES \<and> filter_matches f r) rows
    = positions_after kr_position (owned_rows org f rows scopes) cursor"
    unfolding positions_after_def owned_rows_def filter_filter by (rule filter_cong) auto
  have "sorted (map kr_position (positions_after kr_position (owned_rows org f rows scopes) cursor))"
    using assms by (auto simp: positions_after_def owned_rows_def sorted_map sorted_wrt_map
        intro!: sorted_wrt_filter elim: sorted_wrt_mono_rel [rotated])
  then show ?thesis
    unfolding visible_rows_def e by (rule sort_key_id_if_sorted)
qed

lemma list_page:
  assumes ok: "gov_ok H db" and t: "gb_records db = Some rows" "gb_scopes db = Some scopes"
    and av: "store_health db = ''available''" and now: "aware now"
    and q: "validate_view_request org f 0 limit = Inr ()" and c: "0 \<le> cursor"
  shows "page_of (fst (list_candidates H org f cursor limit now db)) =
    map_prod (map (item_at H now)) id (first_page kr_position (nat limit) (owned_rows org f rows scopes) cursor)"
proof -
  let ?vis = "positions_after kr_position (owned_rows org f rows scopes) cursor" and ?n = "nat limit"
  have s: "sorted_wrt (<) (map kr_position rows)" and sound: "list_all (row_sound H) rows"
    using scope_at [OF ok t] by simp_all
  have q': "validate_view_request org f cursor limit = Inr ()" and n: "0 < ?n"
    using q c by (auto simp: validate_view_request_Inr request_checks_def)
  have g: "view_record H now r = Inr (item_at H now r)" if "r \<in> set ?vis" for r
  proof -
    have "row_sound H r"
      using that sound by (auto simp: positions_after_def owned_rows_def list_all_iff)
    then show ?thesis
      using now by (rule view_sound) (simp add: item_at_def)
  qed
  have p: "vi_position (item_at H now r) = kr_position r" for r
    by (simp add: item_at_def view_record_def item_of_def split: sum.splits) (auto simp: map_sum_id_Inr item_of_def)
  have tr: "traverse (view_record H now) (take (?n + 1) ?vis) = Inr (map (item_at H now) (take (?n + 1) ?vis))"
    by (rule traverse_total) (auto dest: in_set_takeD intro: g)
  have l: "?n < length ?vis \<Longrightarrow> vi_position (last (map (item_at H now) (take ?n ?vis))) = kr_position (last (take ?n ?vis))"
    using n by (subst last_map) (auto simp: p)
  show ?thesis
    using l unfolding list_candidates_run q' t option.sel visible_rows_owned [OF s] tr
    by (simp add: av page_of_def make_page_def first_page_def Let_def take_map min_def)
qed

lemma list_collects:
  assumes ok: "gov_ok H db" and t: "gb_records db = Some rows" "gb_scopes db = Some scopes"
    and av: "store_health db = ''available''" and now: "aware now"
    and q: "validate_view_request org f 0 limit = Inr ()" and n: "length rows < n"
  shows "collect_pages (\<lambda>c. page_of (fst (list_candidates H org f c limit now db))) n 0
    = Some (map (item_at H now) (owned_rows org f rows scopes))"
proof -
  let ?rows = "owned_rows org f rows scopes"
  have s: "sorted_wrt (<) (map kr_position ?rows)" and pos: "\<And>r. r \<in> set ?rows \<Longrightarrow> 0 < kr_position r"
    using scope_at [OF ok t] by (auto simp: owned_rows_def sorted_wrt_map sorted_wrt_filter list_all_iff row_sound_def)
  have k: "0 < nat limit"
    using q by (auto simp: validate_view_request_Inr request_checks_def)
  have all: "positions_after kr_position ?rows 0 = ?rows"
    using pos by (auto simp: positions_after_def filter_id_conv)
  have "length ?rows \<le> length rows"
    by (simp add: owned_rows_def)
  then have "collect_pages (first_page kr_position (nat limit) ?rows) n 0 = Some ?rows"
    using cursor_pages.collects_all [OF first_page_pages [OF s k], of 0 n] n all by simp
  moreover have "collect_pages (\<lambda>c. page_of (fst (list_candidates H org f c limit now db))) n 0
      = map_option (map (item_at H now)) (collect_pages (first_page kr_position (nat limit) ?rows) n 0)"
  proof (rule collect_pages_map)
    show "page_of (fst (list_candidates H org f c limit now db))
        = map_prod (map (item_at H now)) id (first_page kr_position (nat limit) ?rows c)" if "0 \<le> c" for c
      using ok t av now q that by (rule list_page)
    show "0 \<le> d" if "0 \<le> c" "first_page kr_position (nat limit) ?rows c = (items, Some d)" for c items d
    proof -
      from that(2) have d: "d = kr_position (last items)"
        and "items = take (nat limit) (positions_after kr_position ?rows c)"
        and "nat limit < length (positions_after kr_position ?rows c)"
        by (auto simp: first_page_def Let_def split: if_splits)
      moreover from this k have "items \<noteq> []" by auto
      then have "last items \<in> set items" by (rule last_in_set)
      ultimately have "last items \<in> set (positions_after kr_position ?rows c)"
        by (auto dest: in_set_takeD)
      then have "last items \<in> set ?rows"
        by (simp add: positions_after_def)
      with pos d show ?thesis by force
    qed
  qed simp
  ultimately show ?thesis by simp
qed


section \<open>A store with one candidate\<close>

definition sample_time :: pydatetime where
  "sample_time = \<lparr>dt_year = 2026, dt_month = 9, dt_day = 5, dt_hour = 12, dt_minute = 0, dt_second = 0,
     dt_micro = 0, dt_offset = Some 0\<rparr>"

definition sample_route :: chat_routing where
  "sample_route = \<lparr>crc_route_id = ''route-1'', crc_addressed_ocs_id = ''atlas'', crc_mission_id = ''mission-1'',
     crc_resolved_instance_id = None, crc_generation = Some 1, crc_routing_state = RT_ADDRESSABLE,
     crc_route_receipt_ref = None, crc_response_correlation_id = ''corr-1'', crc_chat_addressable = True,
     crc_chat_native_execution = False, crc_source_links = [], crc_provenance_refs = [''proof:1''],
     crc_contract_version = ''v1''\<rparr>"

definition sample_route_candidate :: candidate_record where
  "sample_route_candidate = \<lparr>cd_body = ChatRouting sample_route, cd_schema_version = SCHEMA_VERSION\<rparr>"

definition migrated_store :: gov_db where
  "migrated_store = \<lparr>gb_file = True, gb_readable = True, gb_columns_ok = True, gb_records = Some [],
     gb_events = Some [], gb_scopes = Some [], gb_meta = Some (Some 2)\<rparr>"

lemma migrate_no_store: "gov_run H T [Migrate] no_store = migrated_store"
  by (simp add: gov_run_def migrate_governance_candidate_store_def transaction_def migrate_body_def py_bind_run py_gets_run
    py_unless_run py_modify_run create_core_def check_meta_def no_store_def migrated_store_def RUNTIME_SCHEMA_VERSION_def)

lemma aware_sample [simp]: "aware sample_time"
  by (simp add: aware_def sample_time_def)

definition sample_store :: "digest \<Rightarrow> (string \<Rightarrow> string) \<Rightarrow> gov_db" where
  "sample_store H T = extended H T sample_route_candidate ''org-a'' (isoformat sample_time) [] [] [] migrated_store"

lemma append_sample:
  "scoped_append H T sample_route_candidate ''org-a'' sample_time migrated_store =
     (Inr (receipt_of H sample_route_candidate ''org-a'' False), sample_store H T)"
proof -
  have "\<not> blank ''org-a''" by code_simp
  moreover have "cd_schema_version sample_route_candidate = SCHEMA_VERSION" by (simp add: sample_route_candidate_def)
  ultimately show ?thesis
    by (simp add: scoped_append_def scoped_transaction_def transaction_def scoped_insert_def insert_record_def
      insert_event_def insert_scope_def find_record_def owner_of_def table_run py_bind_run py_unless_run py_return_run
      py_modify_run record_type_allowed migrated_store_def sample_store_def extended_def new_row_def new_event_def)
qed

lemma sample_store_run:
  "gov_run H T [Migrate, ScopedAppend sample_route_candidate ''org-a'' sample_time] no_store = sample_store H T"
proof -
  have "gov_run H T [Migrate, ScopedAppend sample_route_candidate ''org-a'' sample_time] no_store
      = gov_step H T (ScopedAppend sample_route_candidate ''org-a'' sample_time) (gov_run H T [Migrate] no_store)"
    by (simp add: gov_run_def)
  then show ?thesis
    by (simp only: migrate_no_store gov_step.simps append_sample snd_conv)
qed


section \<open>Properties\<close>

text \<open>
  C22: A governance candidate of any of the twelve kinds that its constructor returns is the
  record of the arguments, its identifier is not blank, all its times carry a time zone, all its
  measured numbers are non-negative, and the rule of its kind holds: an assessment of a domain
  that does not apply says so, a recoverable agent names its proof, a route is never executed by
  the chat itself, an auxiliary agent asks for no more than its parent has and makes no identity.
\<close>

theorem constructed_candidate_sound:
  assumes "construct b = Inr c"
  shows "c = b \<and> \<not> blank (record_id c) \<and> (\<forall>t \<in> set (candidate_times c). aware t) \<and>
    (\<forall>n \<in> set (candidate_numbers c). 0 \<le> n) \<and> candidate_rules c"
proof -
  have "c = b" using assms by (rule construct_same)
  then show ?thesis
    using assms construct_id [of b] construct_times [of b] construct_numbers [of b] construct_rules [of b]
    by (simp add: list_all_iff)
qed

lemma sample_constructed: "construct (ChatRouting sample_route) = Inr (ChatRouting sample_route)"
  by code_simp

theorem constructed_candidate_sound_witness:
  "\<not> blank (record_id (ChatRouting sample_route)) \<and> candidate_rules (ChatRouting sample_route)"
  using constructed_candidate_sound [OF sample_constructed] by blast

text \<open>
  The decision of a governance gate is the one its prerequisites prescribe: HOLD when one is
  missing, else SATISFIED, and for the founder's gate only readiness for the external check. A
  decision never promotes and never grants authority, and more evidence or fewer blockers never
  take a gate back to HOLD.
\<close>

lemma gate_policy_sound:
  "gd_state (evaluate_gate q) =
     (if \<not> gate_prerequisites q (gi_gate q) then PS_HOLD
      else if gi_gate q = G4_FOUNDER_APPROVAL then PS_READY_FOR_EXTERNAL_AUTHORITY_CHECK else PS_SATISFIED) \<and>
   \<not> gd_promotes (evaluate_gate q) \<and> \<not> gd_grants_authority (evaluate_gate q) \<and>
   (no_worse q q' \<longrightarrow> gd_state (evaluate_gate q) \<noteq> PS_HOLD \<longrightarrow> gd_state (evaluate_gate q') = gd_state (evaluate_gate q))"
proof -
  have "gate_prerequisites q' (gi_gate q')" and "gi_gate q' = gi_gate q"
    if "no_worse q q'" "gate_prerequisites q (gi_gate q)"
    using that gate_prerequisites_mono [OF that(1), of "gi_gate q"] by (simp_all add: no_worse_def)
  then show ?thesis
    by (auto simp: gate_state gate_never_promotes)
qed

definition sample_gate :: gate_policy_input where
  "sample_gate = \<lparr>gi_gate = G1_TECHNICAL_QUALITY, gi_evidence_refs = [''run:1''], gi_technical_checks_passed = True,
     gi_assurance_required = False, gi_assurance_refs = [], gi_open_blockers = [''b1''], gi_required_domains = [],
     gi_completed_domains = [], gi_founder_decision_ref = None, gi_external_authority_verified = False,
     gi_authority_readback_ref = None\<rparr>"

lemma gate_policy_sound_witness:
  "gd_state (evaluate_gate (sample_gate\<lparr>gi_evidence_refs := [''run:1'', ''run:2''], gi_open_blockers := []\<rparr>))
     = gd_state (evaluate_gate sample_gate)"
proof -
  let ?q' = "sample_gate\<lparr>gi_evidence_refs := [''run:1'', ''run:2''], gi_open_blockers := []\<rparr>"
  have "no_worse sample_gate ?q'"
    by (simp add: no_worse_def sample_gate_def)
  moreover have "gd_state (evaluate_gate sample_gate) \<noteq> PS_HOLD"
    by (simp add: sample_gate_def evaluate_gate_def decision_of_def gate_decision_def)
  ultimately show ?thesis
    using gate_policy_sound [of sample_gate ?q'] by blast
qed

definition integration_ready :: "capability_snapshot \<Rightarrow> integration_use_request \<Rightarrow> pydatetime \<Rightarrow> bool" where
  "integration_ready s r now \<longleftrightarrow>
     aware now \<and> aware (cs_validated_at s) \<and> dt_instant (cs_validated_at s) \<le> dt_instant now \<and>
     (cs_max_age_seconds s \<noteq> None \<or> cs_expires_at s \<noteq> None) \<and>
     (\<forall>n. cs_max_age_seconds s = Some n \<longrightarrow> 0 < n \<and> dt_instant now \<le> dt_instant (cs_validated_at s) + n * 1000000) \<and>
     (\<forall>e. cs_expires_at s = Some e \<longrightarrow> aware e \<and> dt_instant now < dt_instant e) \<and>
     \<not> blank (cs_capability_version s) \<and> iu_capability_version r = Some (cs_capability_version s) \<and>
     \<not> cs_drift_detected s \<and> iu_action r \<in> cs_actions s - cs_drifted_actions s \<and>
     iu_target r \<in> (if iu_write r then cs_writable_targets s else cs_readable_targets s) - cs_drifted_targets s \<and>
     iu_source_role r \<in> cs_canonical_source_roles s - cs_drifted_source_roles s \<and>
     iu_connector r = cs_connector s \<and> cs_connected s \<and> truthy_ref (iu_authority_ref r) \<and> \<not> iu_promote r"

lemma blank_Nil: "blank []"
  by (simp add: blank_def strip_spaces_def)

lemma use_allowed_iff: "id_decision (evaluate_integration_use s r now) = ALLOW_ATTEMPT \<longleftrightarrow> integration_ready s r now"
proof -
  have age: "age_reasons s now = [] \<and> aware now \<longleftrightarrow> aware now \<and> aware (cs_validated_at s) \<and>
      dt_instant (cs_validated_at s) \<le> dt_instant now \<and> (cs_max_age_seconds s \<noteq> None \<or> cs_expires_at s \<noteq> None) \<and>
      (\<forall>n. cs_max_age_seconds s = Some n \<longrightarrow> 0 < n \<and> dt_instant now \<le> dt_instant (cs_validated_at s) + n * 1000000)"
    by (auto simp: age_reasons_def split: option.splits)
  have expiry: "expiry_reasons s now = [] \<and> aware now \<longleftrightarrow> aware now \<and>
      (\<forall>e. cs_expires_at s = Some e \<longrightarrow> aware e \<and> dt_instant now < dt_instant e)"
    by (auto simp: expiry_reasons_def split: option.splits)
  have version: "version_reasons s r = [] \<longleftrightarrow>
      \<not> blank (cs_capability_version s) \<and> iu_capability_version r = Some (cs_capability_version s)"
    using blank_Nil by (auto simp: version_reasons_def truthy_ref_def)
  have drift: "drift_reasons s r = [] \<longleftrightarrow> \<not> cs_drift_detected s \<and> iu_action r \<notin> cs_drifted_actions s \<and>
      iu_target r \<notin> cs_drifted_targets s \<and> iu_source_role r \<notin> cs_drifted_source_roles s"
    by (auto simp: drift_reasons_def)
  have use: "use_reasons s r = [] \<longleftrightarrow> iu_connector r = cs_connector s \<and> cs_connected s \<and> iu_action r \<in> cs_actions s \<and>
      truthy_ref (iu_authority_ref r) \<and>
      iu_target r \<in> (if iu_write r then cs_writable_targets s else cs_readable_targets s) \<and>
      iu_source_role r \<in> cs_canonical_source_roles s \<and> \<not> iu_promote r"
    by (auto simp: use_reasons_def)
  have "id_decision (evaluate_integration_use s r now) = ALLOW_ATTEMPT \<longleftrightarrow>
      (age_reasons s now = [] \<and> aware now) \<and> (expiry_reasons s now = [] \<and> aware now) \<and>
      version_reasons s r = [] \<and> drift_reasons s r = [] \<and> use_reasons s r = []"
    by (auto simp: evaluate_integration_use_def use_decision_def Let_def)
  then show ?thesis
    unfolding age expiry version drift use integration_ready_def by auto
qed

text \<open>
  An external integration may be attempted exactly when the snapshot of its capability is
  connected, current, unexpired, without drift and of the version the request expects, names the
  action, the target and the source role, and the request cites an authority and does not
  promote. The canonical state counts as reconciled only after such an attempt with a receipt, a
  read back and a reconciliation, and nothing here grants authority.
\<close>

lemma integration_use_sound:
  "(id_decision (evaluate_integration_use s r now) = ALLOW_ATTEMPT \<longleftrightarrow> integration_ready s r now) \<and>
   (let d = reconcile_receipt (evaluate_integration_use s r now) receipt readback reconciliation
    in (id_canonical_state_reconciled d \<longleftrightarrow>
          integration_ready s r now \<and> truthy_ref receipt \<and> truthy_ref readback \<and> truthy_ref reconciliation) \<and>
       (id_material_effect_performed d \<longleftrightarrow> integration_ready s r now \<and> truthy_ref receipt) \<and>
       (id_decision d = ALLOW_ATTEMPT \<longleftrightarrow> id_canonical_state_reconciled d) \<and> \<not> id_grants_authority d)"
proof -
  have f: "id_canonical_state_reconciled (evaluate_integration_use s r now) = False"
      "id_material_effect_performed (evaluate_integration_use s r now) = False"
      "id_grants_authority (evaluate_integration_use s r now) = False"
    by (simp_all add: evaluate_integration_use_def use_decision_def Let_def)
  show ?thesis
  proof (cases "integration_ready s r now")
    case True
    then have "id_decision (evaluate_integration_use s r now) = ALLOW_ATTEMPT" by (simp add: use_allowed_iff)
    with True show ?thesis
      by (auto simp: use_allowed_iff reconcile_receipt_def use_decision_def Let_def)
  next
    case False
    then have n: "id_decision (evaluate_integration_use s r now) \<noteq> ALLOW_ATTEMPT" by (simp add: use_allowed_iff)
    then have "reconcile_receipt (evaluate_integration_use s r now) receipt readback reconciliation
        = evaluate_integration_use s r now"
      by (simp add: reconcile_receipt_def)
    with False n f show ?thesis by (simp add: use_allowed_iff)
  qed
qed

text \<open>
  C23: From an empty file, after any migrations and any calls of the two writers, every record is
  sound (the hash of its payload, the references of its payload, a known type, the schema
  version, a positive position), has exactly its one event and one organization, records have
  different keys and increasing positions, and whatever further calls do, no row is changed or
  removed.
\<close>

theorem candidate_store_invariant:
  "gov_ok H (gov_run H T calls no_store) \<and>
   store_extends (gov_run H T calls no_store) (gov_run H T (calls @ later) no_store)"
proof -
  have ok: "gov_ok H (gov_run H T calls no_store)"
    by (rule gov_ok_run [OF gov_ok_no_store])
  have "gov_run H T (calls @ later) no_store = gov_run H T later (gov_run H T calls no_store)"
    by (simp add: gov_run_def)
  with ok run_extends [OF ok] show ?thesis by simp
qed

lemma view_record_key:
  "view_record H now r = Inr i \<Longrightarrow> (vi_record_type i, vi_record_id i, vi_schema_version i) = row_key r"
  by (auto simp: view_record_def item_of_def row_key_def map_sum_id_Inr split: sum.splits)

lemma listed_in_scope:
  assumes "fst (list_candidates H org f cursor limit now db) = Inr p" and "i \<in> set (pg_items p)"
  shows "in_scope org (the (gb_scopes db)) (vi_record_type i, vi_record_id i, vi_schema_version i)"
proof -
  let ?vis = "take (nat limit + 1) (visible_rows org f (the (gb_records db)) (the (gb_scopes db)) cursor)"
  from assms obtain items where t: "traverse (view_record H now) ?vis = Inr items"
      and "i \<in> set (take (nat limit) items)"
    by (auto simp: list_candidates_run make_page_def map_sum_id_Inr split: sum.splits if_splits)
  then have "i \<in> set items" by (auto dest: in_set_takeD)
  then obtain r where "r \<in> set ?vis" and v: "view_record H now r = Inr i"
    using traverse_Inr [OF t] by blast
  then have "r \<in> set (visible_rows org f (the (gb_records db)) (the (gb_scopes db)) cursor)"
    by (auto dest: in_set_takeD)
  then show ?thesis
    unfolding view_record_key [OF v] by (simp add: visible_rows_def)
qed

text \<open>
  C24: Tenants are isolated. What one organization appends changes nothing that another
  organization can read: its pages of candidates and of events, each single candidate and its
  summary. And every candidate on a page is bound to the organization that asked.
\<close>

theorem tenant_isolation:
  assumes "scoped_append H T c other t db = (Inr rc, db')" and "other \<noteq> org"
  shows "fst (list_candidates H org f cursor limit now db') = fst (list_candidates H org f cursor limit now db) \<and>
    fst (get_candidate H org rtype rid now db') = fst (get_candidate H org rtype rid now db) \<and>
    fst (candidate_events H org cursor limit db') = fst (candidate_events H org cursor limit db) \<and>
    fst (candidate_summary_of org db') = fst (candidate_summary_of org db) \<and>
    (\<forall>p. fst (list_candidates H org f cursor limit now db') = Inr p \<longrightarrow>
       (\<forall>i \<in> set (pg_items p). in_scope org (the (gb_scopes db')) (vi_record_type i, vi_record_id i, vi_schema_version i)))"
  using views_isolated [OF assms] listed_in_scope by blast

theorem tenant_isolation_witness:
  "fst (candidate_summary_of ''org-b'' (sample_store (\<lambda>_. ''h'') (\<lambda>x. x)))
     = fst (candidate_summary_of ''org-b'' migrated_store)"
  using tenant_isolation [OF append_sample [of "\<lambda>_. ''h''" "\<lambda>x. x"], of "''org-b''"] by simp

text \<open>
  A candidate is recorded once. After an append returned, repeating it answers that it was
  replayed and changes nothing; another organization that appends under the same key is refused;
  and another payload under the same key is refused, unless its hash is the same.
\<close>

lemma candidate_recorded_once:
  assumes "scoped_append H T c org t db = (Inr rc, db')" and "aware t'"
  shows "scoped_append H T c org t' db' = (Inr (receipt_of H c org True), db') \<and>
    (\<forall>d other. cand_key_of d = cand_key_of c \<longrightarrow> other \<noteq> org \<longrightarrow> \<not> blank other \<longrightarrow>
       scoped_append H T d other t' db' = (Inl (RuntimeError ''candidate_scope_conflict''), db')) \<and>
    (\<forall>d. cand_key_of d = cand_key_of c \<longrightarrow> payload_tree d \<noteq> payload_tree c \<longrightarrow>
       scoped_append H T d org t' db' = (Inl (RuntimeError ''candidate_append_conflict''), db') \<or>
       collision H (payload_tree d) (payload_tree c))"
  using append_again [OF assms] append_by_another [OF assms] append_changed [OF assms] by blast

lemma candidate_recorded_once_witness:
  "scoped_append (\<lambda>_. ''h'') (\<lambda>x. x) sample_route_candidate ''org-a'' sample_time (sample_store (\<lambda>_. ''h'') (\<lambda>x. x))
     = (Inr (receipt_of (\<lambda>_. ''h'') sample_route_candidate ''org-a'' True), sample_store (\<lambda>_. ''h'') (\<lambda>x. x))"
  using candidate_recorded_once [OF append_sample aware_sample] by blast

text \<open>
  What was appended is read back. After an append to a store with any history returned, its
  organization finds the candidate under its type and identifier, marked as a candidate, with the
  hash and the payload of the record, short of a collision of the hash.
\<close>

lemma candidate_round_trip:
  assumes "db = gov_run H T calls no_store" and "store_health db = ''available''"
    and "scoped_append H T c org t db = (Inr rc, db')" and "\<not> blank (record_id (cd_body c))" and "aware now"
  shows "\<exists>item. fst (get_candidate H org (record_type (cd_body c)) (record_id (cd_body c)) now db') = Inr item \<and>
    vi_claim_state item = ''candidate'' \<and> vi_payload_hash item = H (payload_tree c) \<and>
    (vi_payload item = payload_tree c \<or> collision H (vi_payload item) (payload_tree c))"
  using assms gov_ok_run [OF gov_ok_no_store] by (intro append_then_get) auto

lemma candidate_round_trip_witness:
  "\<exists>item. fst (get_candidate (\<lambda>_. ''h'') ''org-a'' ''ChatInstitutionalRoutingContract'' ''route-1'' sample_time
      (sample_store (\<lambda>_. ''h'') (\<lambda>x. x))) = Inr item \<and> vi_payload_hash item = ''h''"
proof -
  have b: "\<not> blank (record_id (cd_body sample_route_candidate))" by code_simp
  have h: "store_health migrated_store = ''available''" by (simp add: store_health_def migrated_store_def)
  from candidate_round_trip [OF migrate_no_store [symmetric] h append_sample b aware_sample] show ?thesis
    by (auto simp: sample_route_candidate_def sample_route_def)
qed

text \<open>
  C25: A client that follows the cursors of the candidate view comes to an end, within one request
  more than there are records, and has then received every candidate of its organization that
  its filter matches exactly once, in the order of their positions.
\<close>

theorem candidate_paging_terminates:
  assumes "db = gov_run H T calls no_store" and "store_health db = ''available''"
    and "gb_records db = Some rows" and "gb_scopes db = Some scopes"
    and "validate_view_request org f 0 limit = Inr ()" and "aware now"
  shows "collect_pages (\<lambda>c. page_of (fst (list_candidates H org f c limit now db))) (length rows + 1) 0
    = Some (map (item_at H now) (owned_rows org f rows scopes))"
  using assms gov_ok_run [OF gov_ok_no_store] by (intro list_collects) auto

theorem candidate_paging_terminates_witness:
  "collect_pages (\<lambda>c. page_of (fst (list_candidates (\<lambda>_. ''h'') ''org-a'' no_filter c 1 sample_time
      (sample_store (\<lambda>_. ''h'') (\<lambda>x. x))))) 2 0
    = Some [item_at (\<lambda>_. ''h'') sample_time (new_row (\<lambda>_. ''h'') sample_route_candidate (isoformat sample_time) [])]"
proof -
  let ?H = "\<lambda>_. ''h'' :: string" and ?T = "\<lambda>x :: string. x"
  let ?r = "new_row ?H sample_route_candidate (isoformat sample_time) []"
  let ?s = "scope_of sample_route_candidate ''org-a'' (isoformat sample_time)"
  have t: "gb_records (sample_store ?H ?T) = Some [?r]" "gb_scopes (sample_store ?H ?T) = Some [?s]"
    by (simp_all add: sample_store_def extended_def)
  have h: "store_health (sample_store ?H ?T) = ''available''"
    by (simp add: store_health_def sample_store_def extended_def migrated_store_def)
  have q: "validate_view_request ''org-a'' no_filter 0 1 = Inr ()" by code_simp
  have o': "owned_rows ''org-a'' no_filter [?r] [?s] = [?r]"
  proof -
    have "kr_record_type ?r \<in> set ALLOWED_RECORD_TYPES"
      using record_type_allowed by (simp add: new_row_def row_of_def)
    moreover have "in_scope ''org-a'' [?s] (row_key ?r)"
      by (simp add: in_scope_def) (simp add: scope_of_def)
    ultimately show ?thesis
      by (simp add: owned_rows_def filter_matches_def no_filter_def json_field_is_def)
  qed
  show ?thesis
    using candidate_paging_terminates [OF sample_store_run [symmetric] h t q aware_sample] by (simp add: o' numeral_2_eq_2)
qed

text \<open>
  A mission that ended less than a second before it began passes the check for that, with an
  elapsed time of zero: the difference is rounded towards zero first.
\<close>

lemma subsecond_reversal_accepted:
  assumes c: "ti_completed_at t = Some c" and r: "dt_instant (ti_started_at t) - 1000000 < dt_instant c"
    and less: "dt_instant c < dt_instant (ti_started_at t)"
  shows "elapsed_seconds t = Some 0"
  using assms by (simp add: elapsed_seconds_def dt_whole_seconds_def Let_def)

end
