(* ===== verification/Command_Events.thy ===== *)
theory Command_Events
  imports Py_Datetime Cursor_Pages
begin

text \<open>
  \<^verbatim>\<open>app/command/events.py\<close>, \<^verbatim>\<open>event_store.py\<close> and \<^verbatim>\<open>realtime.py\<close>: the events of the
  command centre and their validation, the SQLite table they are appended to, and the feed that
  reads it by a cursor. A column of JSON text is the tree of the text. \<^verbatim>\<open>EventValidationError\<close> is a \<^verbatim>\<open>ValueError\<close>,
  \<^verbatim>\<open>EventStoreError\<close> a \<^verbatim>\<open>RuntimeError\<close>.
\<close>

section \<open>Events\<close>

datatype event_freshness = LIVE | RECENT | STALE | FRESHNESS_UNKNOWN

fun freshness_value :: "event_freshness \<Rightarrow> string" where
  "freshness_value LIVE = ''live''"
| "freshness_value RECENT = ''recent''"
| "freshness_value STALE = ''stale''"
| "freshness_value FRESHNESS_UNKNOWN = ''unknown''"

record command_event =
  ce_event_id :: string
  ce_event_type :: string
  ce_schema_version :: string
  ce_occurred_at :: pydatetime
  ce_source :: string
  ce_source_version :: string
  ce_institution_id :: string
  ce_ocs_id :: "string option"
  ce_project_id :: "string option"
  ce_run_id :: "string option"
  ce_causation_id :: "string option"
  ce_correlation_id :: "string option"
  ce_sequence :: int
  ce_idempotency_key :: string
  ce_freshness :: event_freshness
  ce_evidence_refs :: "string list"
  ce_payload :: "(string \<times> pyval) list"

text \<open>
  \<^verbatim>\<open>target_ocs is not None and target_ocs != self.ocs_id\<close>: a value that is no text differs
  from every identifier.
\<close>

definition cross_ocs :: "command_event \<Rightarrow> bool" where
  "cross_ocs e = (case map_of (ce_payload e) ''target_ocs_id'' of
     None \<Rightarrow> False | Some PyNone \<Rightarrow> False | Some v \<Rightarrow> v \<noteq> py_opt_str (ce_ocs_id e))"

definition claims_verified :: "command_event \<Rightarrow> bool" where
  "claims_verified e \<longleftrightarrow> map_of (ce_payload e) ''claim_state'' \<in> {Some (PyStr ''verified''), Some (PyStr ''assured'')}"

definition event_checks :: "command_event \<Rightarrow> (bool \<times> string) list" where
  "event_checks e =
     [(list_all (\<lambda>v. \<not> blank v) [ce_event_id e, ce_event_type e, ce_schema_version e, ce_source e,
        ce_source_version e, ce_institution_id e, ce_idempotency_key e], ''command_event_required_field_missing''),
      (1 \<le> ce_sequence e, ''command_event_sequence_invalid''),
      (aware (ce_occurred_at e), ''command_event_occurred_at_must_be_timezone_aware''),
      (casefold (ce_source e) \<notin> {''unknown'', [], ''unspecified''}, ''command_event_source_unknown''),
      (\<not> cross_ocs e, ''command_event_cross_ocs_contamination'')]"

text \<open>
  \<^verbatim>\<open>claim_state in {"verified", "assured"}\<close> hashes the claim, which a list or a dictionary
  refuses.
\<close>

fun hashable :: "pyval \<Rightarrow> bool" where
  "hashable (PyList _) = False"
| "hashable (PyDict _) = False"
| "hashable (PyTuple xs) = list_all hashable xs"
| "hashable _ = True"

definition validate_event :: "command_event \<Rightarrow> unit res" where
  "validate_event e =
     (case checks (event_checks e) () of
        Inl x \<Rightarrow> Inl x
      | Inr _ \<Rightarrow>
          if (case map_of (ce_payload e) ''claim_state'' of None \<Rightarrow> False | Some v \<Rightarrow> \<not> hashable v)
          then Inl (OtherError ''TypeError'')
          else checks [(\<not> (claims_verified e \<and> ce_evidence_refs e = []), ''command_event_claim_requires_evidence'')] ())"

section \<open>The store\<close>

type_synonym stream_key = "string \<times> string \<times> string option \<times> string option"

definition stream_of :: "command_event \<Rightarrow> stream_key" where
  "stream_of e = (ce_source e, ce_institution_id e, ce_ocs_id e, ce_run_id e)"

text \<open>
  A row: the columns are those of the event, with the payload as the tree of its text, except
  for the time, which is the text of the time in UTC. Outside the years 1 to 9999 the conversion
  raises, and so does \<^verbatim>\<open>dumps\<close> of a payload that it cannot write.
\<close>

record command_row =
  cw_event :: command_event
  cw_occurred_at :: string

definition row_of_event :: "command_event \<Rightarrow> command_row res" where
  "row_of_event e = (case to_utc (ce_occurred_at e) of
       None \<Rightarrow> Inl (OtherError ''OverflowError'')
     | Some u \<Rightarrow>
         if serializable (PyDict (ce_payload e))
         then Inr \<lparr>cw_event = e\<lparr>ce_payload := dict_items (json_tree (PyDict (ce_payload e)))\<rparr>,
                    cw_occurred_at = isoformat u\<rparr>
         else Inl (OtherError ''TypeError''))"

definition row_to_event :: "command_row \<Rightarrow> command_event res" where
  "row_to_event r = (case fromisoformat (cw_occurred_at r) of
       None \<Rightarrow> Inl (ValueError ''Invalid isoformat string'')
     | Some d \<Rightarrow> Inr ((cw_event r)\<lparr>ce_occurred_at := d\<rparr>))"

type_synonym event_table = "command_row list"

text \<open>
  The uniqueness of (source, institution, OCS, run, sequence): SQLite takes two NULLs to be
  different, so the constraint does not bind a row without an OCS or a run.
\<close>

definition sequence_taken :: "event_table \<Rightarrow> command_event \<Rightarrow> bool" where
  "sequence_taken rows e \<longleftrightarrow> ce_ocs_id e \<noteq> None \<and> ce_run_id e \<noteq> None \<and>
     (\<exists>r \<in> set rows. stream_of (cw_event r) = stream_of e \<and> ce_sequence (cw_event r) = ce_sequence e)"

definition row_event_id :: "command_row \<Rightarrow> string" where
  "row_event_id r = ce_event_id (cw_event r)"

definition row_idempotency_key :: "command_row \<Rightarrow> string" where
  "row_idempotency_key r = ce_idempotency_key (cw_event r)"

definition insert_event_row :: "command_row \<Rightarrow> (event_table, unit) py" where
  "insert_event_row r = (\<lambda>rows.
     if row_event_id r \<in> row_event_id ` set rows \<or> row_idempotency_key r \<in> row_idempotency_key ` set rows \<or>
        sequence_taken rows (cw_event r)
     then (Inl (RuntimeError ''command_event_integrity_rejected''), rows)
     else (Inr (), rows @ [r]))"

text \<open>\<^verbatim>\<open>SELECT MAX(sequence)\<close> of the stream, where \<^verbatim>\<open>IS\<close> makes NULL equal NULL.\<close>

definition stream_rows :: "event_table \<Rightarrow> stream_key \<Rightarrow> command_row list" where
  "stream_rows rows k = filter (\<lambda>r. stream_of (cw_event r) = k) rows"

definition expected_sequence :: "event_table \<Rightarrow> stream_key \<Rightarrow> int" where
  "expected_sequence rows k =
     (let seqs = map (\<lambda>r. ce_sequence (cw_event r)) (stream_rows rows k)
      in if seqs = [] then 1 else Max (set seqs) + 1)"

definition append_new :: "command_event \<Rightarrow> (event_table, bool) py" where
  "append_new e =
     py_bind (py_gets (\<lambda>rows. expected_sequence rows (stream_of e))) (\<lambda>expected.
     py_bind (py_unless (ce_sequence e = expected) (ValueError ''command_event_sequence_hold'')) (\<lambda>_.
     py_bind (py_lift (row_of_event e)) (\<lambda>row.
     py_bind (insert_event_row row) (\<lambda>_. py_return True))))"

definition append_command_event :: "command_event \<Rightarrow> (event_table, bool) py" where
  "append_command_event e =
     py_bind (py_lift (validate_event e)) (\<lambda>_. transaction (
     py_bind (py_gets (find (\<lambda>r. row_idempotency_key r = ce_idempotency_key e))) (\<lambda>existing. case existing of
        Some r \<Rightarrow>
          if row_event_id r \<noteq> ce_event_id e then py_raise (RuntimeError ''command_event_idempotency_conflict'')
          else py_return False
      | None \<Rightarrow> append_new e)))"

text \<open>\<^verbatim>\<open>read_all\<close> and \<^verbatim>\<open>replay\<close>: the rows in the order they were appended.\<close>

definition read_all_events :: "(event_table, command_event list) py" where
  "read_all_events = (\<lambda>rows. (traverse row_to_event rows, rows))"

section \<open>The feed\<close>

record realtime_batch =
  rb_events :: "command_event list"
  rb_next_cursor :: int
  rb_disconnected :: bool
  rb_freshness :: event_freshness

definition batch_freshness :: "command_event list \<Rightarrow> event_freshness" where
  "batch_freshness es =
     (let vs = set (map ce_freshness es)
      in if es = [] then FRESHNESS_UNKNOWN
         else if STALE \<in> vs then STALE
         else if FRESHNESS_UNKNOWN \<in> vs then FRESHNESS_UNKNOWN
         else if vs = {LIVE} then LIVE else RECENT)"

definition open_feed :: "int \<Rightarrow> int res" where
  "open_feed max_batch = (if max_batch \<le> 0 then Inl (ValueError ''command_realtime_max_batch_invalid'') else Inr max_batch)"

definition read_feed :: "int \<Rightarrow> int \<Rightarrow> (event_table, realtime_batch) py" where
  "read_feed max_batch cursor =
     py_bind (py_unless (0 \<le> cursor) (ValueError ''command_realtime_cursor_invalid'')) (\<lambda>_.
     py_bind read_all_events (\<lambda>events.
     py_bind (py_unless (cursor \<le> int (length events)) (ValueError ''command_realtime_cursor_ahead'')) (\<lambda>_.
     let selected = take (nat max_batch) (drop (nat cursor) events)
     in py_return \<lparr>rb_events = selected, rb_next_cursor = cursor + int (length selected),
          rb_disconnected = False, rb_freshness = batch_freshness selected\<rparr>)))"

text \<open>
  \<^verbatim>\<open>encode_sse\<close>: one message per event and one for the cursor. The texts of the two JSON
  objects are written by \<open>dumps\<close>; \<open>now\<close> is the reading of the clock.
\<close>

definition sse_payload :: "command_event \<Rightarrow> pyval" where
  "sse_payload e = PyDict
     [(''event_id'', PyStr (ce_event_id e)), (''event_type'', PyStr (ce_event_type e)),
      (''sequence'', PyInt (ce_sequence e)), (''source'', PyStr (ce_source e)),
      (''source_version'', PyStr (ce_source_version e)), (''freshness'', PyStr (freshness_value (ce_freshness e))),
      (''causation_id'', py_opt_str (ce_causation_id e)), (''correlation_id'', py_opt_str (ce_correlation_id e)),
      (''evidence_refs'', PyList (map PyStr (ce_evidence_refs e))), (''payload'', PyDict (ce_payload e))]"

abbreviation newline :: string where
  "newline \<equiv> [char_of (10 :: nat)]"

definition encode_sse :: "(pyval \<Rightarrow> string) \<Rightarrow> realtime_batch \<Rightarrow> string \<Rightarrow> string list" where
  "encode_sse dumps batch now =
     map (\<lambda>e. ''id: '' @ show_int (ce_sequence e) @ newline @ ''event: '' @ ce_event_type e @ newline @
            ''data: '' @ dumps (sse_payload e) @ newline @ newline) (rb_events batch) @
     [''event: command.cursor'' @ newline @ ''data: '' @
        dumps (PyDict [(''next_cursor'', PyInt (rb_next_cursor batch)),
          (''freshness'', PyStr (freshness_value (rb_freshness batch))),
          (''disconnected'', PyBool (rb_disconnected batch)), (''observed_at'', PyStr now)]) @ newline @ newline]"

end
