(* ===== verification/Command_Views.thy ===== *)
theory Command_Views
  imports Command_Events Profiles
begin

text \<open>
  \<^verbatim>\<open>app/command/projections.py\<close>, the views that the command centre rebuilds from its events,
  and \<^verbatim>\<open>app/command/security.py\<close>, the guard of the requests made to it with the redaction of
  what it reports.
\<close>

section \<open>Projections\<close>

type_synonym entry = "(string \<times> pyval) list"

record projection_state =
  pj_institution :: entry
  pj_ocs :: "(string \<times> entry) list"
  pj_operations :: "(string \<times> entry) list"
  pj_gates :: "(string \<times> entry) list"
  pj_events :: "entry list"
  pj_evidence :: "(string \<times> entry) list"
  pj_system_health :: entry
  pj_maps :: "(string \<times> entry) list"

definition empty_projection :: projection_state where
  "empty_projection = \<lparr>pj_institution = [], pj_ocs = [], pj_operations = [], pj_gates = [], pj_events = [],
     pj_evidence = [],
     pj_system_health = [(''status'', PyStr ''unknown''), (''freshness'', PyStr ''unknown''), (''evidence_refs'', PyList [])],
     pj_maps = []\<rparr>"

text \<open>\<^verbatim>\<open>{**a, **b}\<close>.\<close>

definition merge :: "entry \<Rightarrow> entry \<Rightarrow> entry" where
  "merge a b = fold (\<lambda>(k, v) d. dset k v d) b a"

text \<open>
  \<^verbatim>\<open>str(v)\<close>; \<open>rp\<close> is the \<^verbatim>\<open>repr\<close> of floats, containers and other objects.
\<close>

definition py_str :: "(pyval \<Rightarrow> string) \<Rightarrow> pyval \<Rightarrow> string" where
  "py_str rp v = (case v of PyStr s \<Rightarrow> s | PyNone \<Rightarrow> ''None'' | PyBool b \<Rightarrow> (if b then ''True'' else ''False'')
     | PyInt n \<Rightarrow> show_int n | _ \<Rightarrow> rp v)"

definition common_fields :: "command_event \<Rightarrow> string \<Rightarrow> entry" where
  "common_fields e occurred_at =
     [(''event_id'', PyStr (ce_event_id e)), (''event_type'', PyStr (ce_event_type e)),
      (''source'', PyStr (ce_source e)), (''source_version'', PyStr (ce_source_version e)),
      (''freshness'', PyStr (freshness_value (ce_freshness e))),
      (''evidence_refs'', PyList (map PyStr (ce_evidence_refs e))), (''occurred_at'', PyStr occurred_at),
      (''correlation_id'', py_opt_str (ce_correlation_id e)), (''causation_id'', py_opt_str (ce_causation_id e))]"

definition event_data :: "command_event \<Rightarrow> entry" where
  "event_data e = (case map_of (ce_payload e) ''data'' of Some (PyDict d) \<Rightarrow> d | _ \<Rightarrow> [])"

definition key_of :: "(pyval \<Rightarrow> string) \<Rightarrow> entry \<Rightarrow> string \<Rightarrow> string \<Rightarrow> string" where
  "key_of rp data k fallback = (case map_of data k of None \<Rightarrow> fallback | Some v \<Rightarrow> py_str rp v)"

text \<open>\<^verbatim>\<open>a or b or c\<close> of optional texts.\<close>

definition first_text :: "string option \<Rightarrow> string option \<Rightarrow> string \<Rightarrow> string" where
  "first_text a b c = (case a of Some (x # xs) \<Rightarrow> x # xs | _ \<Rightarrow> (case b of Some (y # ys) \<Rightarrow> y # ys | _ \<Rightarrow> c))"

definition health_status :: "(pyval \<Rightarrow> string) \<Rightarrow> command_event \<Rightarrow> string" where
  "health_status rp e =
     (let status = key_of rp (event_data e) ''status'' ''unknown''
      in if ce_evidence_refs e = [] \<and> status \<noteq> ''unknown'' then ''unknown'' else status)"

text \<open>\<^verbatim>\<open>payload.get("projection")\<close>.\<close>

definition projection_kind :: "command_event \<Rightarrow> pyval" where
  "projection_kind e = (case map_of (ce_payload e) ''projection'' of None \<Rightarrow> PyNone | Some v \<Rightarrow> v)"

text \<open>
  The dispatch on \<^verbatim>\<open>kind\<close>. The comparisons with a text fail for any other value, but the
  membership test of the set hashes it first.
\<close>

definition project :: "(pyval \<Rightarrow> string) \<Rightarrow> command_event \<Rightarrow> entry \<Rightarrow> (projection_state, unit) py" where
  "project rp e common =
     (let kind = projection_kind e;
          data = event_data e; entry = merge common data
      in if kind = PyStr ''institution'' then py_modify (\<lambda>s. s\<lparr>pj_institution := entry\<rparr>)
         else if kind = PyStr ''ocs'' then
           (case ce_ocs_id e of None \<Rightarrow> py_return ()
            | Some i \<Rightarrow> py_modify (\<lambda>s. s\<lparr>pj_ocs := dset i entry (pj_ocs s)\<rparr>))
         else if kind = PyStr ''operation'' then
           py_modify (\<lambda>s. s\<lparr>pj_operations :=
             dset (first_text (ce_run_id e) (ce_project_id e) (ce_event_id e)) entry (pj_operations s)\<rparr>)
         else if kind = PyStr ''gate'' then
           py_modify (\<lambda>s. s\<lparr>pj_gates := dset (key_of rp data ''gate_id'' (ce_event_id e)) entry (pj_gates s)\<rparr>)
         else if \<not> hashable kind then py_raise (OtherError ''TypeError'')
         else if kind = PyStr ''evidence'' \<or> kind = PyStr ''receipt'' then
           py_modify (\<lambda>s. s\<lparr>pj_evidence := dset (key_of rp data ''evidence_id'' (ce_event_id e)) entry (pj_evidence s)\<rparr>)
         else if kind = PyStr ''system_health'' then
           py_modify (\<lambda>s. s\<lparr>pj_system_health := dset ''status'' (PyStr (health_status rp e)) entry\<rparr>)
         else if kind = PyStr ''map'' then
           py_modify (\<lambda>s. s\<lparr>pj_maps := dset (key_of rp data ''map_id'' (ce_event_id e)) entry (pj_maps s)\<rparr>)
         else py_return ())"

definition apply_event :: "(pyval \<Rightarrow> string) \<Rightarrow> command_event \<Rightarrow> (projection_state, unit) py" where
  "apply_event rp e = (case to_utc (ce_occurred_at e) of
       None \<Rightarrow> py_raise (OtherError ''OverflowError'')
     | Some u \<Rightarrow>
         let common = common_fields e (isoformat u)
         in py_bind (py_modify (\<lambda>s. s\<lparr>pj_events := pj_events s @ [merge common [(''payload'', PyDict (ce_payload e))]]\<rparr>)) (\<lambda>_.
            project rp e common))"

fun apply_events :: "(pyval \<Rightarrow> string) \<Rightarrow> command_event list \<Rightarrow> (projection_state, unit) py" where
  "apply_events rp [] = py_return ()"
| "apply_events rp (e # es) = py_bind (apply_event rp e) (\<lambda>_. apply_events rp es)"

definition rebuild :: "(pyval \<Rightarrow> string) \<Rightarrow> command_event list \<Rightarrow> projection_state res" where
  "rebuild rp es = (case apply_events rp es empty_projection of (Inl x, _) \<Rightarrow> Inl x | (Inr _, s) \<Rightarrow> Inr s)"

definition canonical_projection :: "projection_state \<Rightarrow> pyval" where
  "canonical_projection s =
     (let entries = \<lambda>d. PyDict (map (\<lambda>(k, v). (k, PyDict v)) d)
      in PyDict [(''institution'', PyDict (pj_institution s)), (''ocs'', entries (pj_ocs s)),
           (''operations'', entries (pj_operations s)), (''gates'', entries (pj_gates s)),
           (''events'', PyList (map PyDict (pj_events s))), (''evidence'', entries (pj_evidence s)),
           (''system_health'', PyDict (pj_system_health s)), (''maps'', entries (pj_maps s))])"

section \<open>The guard of requests\<close>

datatype membership_role = OWNER | ADMIN | MEMBER | VIEWER

datatype security_decision = SECURITY_ALLOW | SECURITY_DENY

record security_request =
  sq_request_id :: string
  sq_organization_id :: string
  sq_expected_organization_id :: string
  sq_role :: membership_role
  sq_ocs_id :: string
  sq_namespace :: string
  sq_idempotency_key :: string
  sq_payload :: "(string \<times> pyval) list"
  sq_founder_sensitive :: bool

record security_readback =
  sb_request_id :: string
  sb_decision :: security_decision
  sb_reason :: string
  sb_mutation_count :: int
  sb_idempotent_replay :: bool
  sb_audit :: entry

text \<open>\<^verbatim>\<open>redact\<close>: a key that contains a marker of a secret keeps its place, not its value.\<close>

definition SECRET_MARKERS :: "string list" where
  "SECRET_MARKERS = [''authorization'', ''password'', ''secret'', ''token'', ''api_key'', ''apikey'']"

definition secret_key :: "string \<Rightarrow> bool" where
  "secret_key k \<longleftrightarrow> list_ex (\<lambda>m. contains_str m (casefold k)) SECRET_MARKERS"

fun redact :: "pyval \<Rightarrow> pyval" where
  "redact (PyDict kvs) = PyDict (map (\<lambda>(k, v). (k, if secret_key k then PyStr ''[REDACTED]'' else redact v)) kvs)"
| "redact (PyList xs) = PyList (map redact xs)"
| "redact (PyTuple xs) = PyList (map redact xs)"
| "redact v = v"

fun role_value :: "membership_role \<Rightarrow> string" where
  "role_value OWNER = ''owner''"
| "role_value ADMIN = ''admin''"
| "role_value MEMBER = ''member''"
| "role_value VIEWER = ''viewer''"

fun security_decision_value :: "security_decision \<Rightarrow> string" where
  "security_decision_value SECURITY_ALLOW = ''allow''"
| "security_decision_value SECURITY_DENY = ''deny''"

definition missing_request_fields :: "security_request \<Rightarrow> string list" where
  "missing_request_fields q = sort (map fst (filter (\<lambda>(name, v). v = [])
     [(''request_id'', sq_request_id q), (''organization_id'', sq_organization_id q),
      (''expected_organization_id'', sq_expected_organization_id q), (''ocs_id'', sq_ocs_id q),
      (''namespace'', sq_namespace q), (''idempotency_key'', sq_idempotency_key q)]))"

definition validate_required :: "security_request \<Rightarrow> string option" where
  "validate_required q = (if missing_request_fields q \<noteq> []
     then Some (''command_security_request_incomplete:'' @ join_with '','' (missing_request_fields q)) else None)"

definition security_audit ::
    "(string \<Rightarrow> string) \<Rightarrow> security_request \<Rightarrow> security_decision \<Rightarrow> string option \<Rightarrow> entry" where
  "security_audit T q decision reason =
     [(''request_id'', PyStr (sq_request_id q)), (''organization_id'', PyStr (sq_organization_id q)),
      (''role'', PyStr (role_value (sq_role q))), (''ocs_id'', PyStr (sq_ocs_id q)),
      (''namespace'', PyStr (sq_namespace q)), (''idempotency_key_hash'', PyStr (T (sq_idempotency_key q))),
      (''founder_sensitive'', PyBool (sq_founder_sensitive q)), (''decision'', PyStr (security_decision_value decision)),
      (''reason'', py_opt_str reason), (''payload'', redact (PyDict (sq_payload q)))]"

definition security_allow :: "(string \<Rightarrow> string) \<Rightarrow> security_request \<Rightarrow> bool \<Rightarrow> security_readback" where
  "security_allow T q idempotent_replay =
     \<lparr>sb_request_id = sq_request_id q, sb_decision = SECURITY_ALLOW,
      sb_reason = (if idempotent_replay then ''command_security_idempotent_replay'' else ''command_security_validated''),
      sb_mutation_count = 0, sb_idempotent_replay = idempotent_replay,
      sb_audit = security_audit T q SECURITY_ALLOW None\<rparr>"

definition security_deny :: "(string \<Rightarrow> string) \<Rightarrow> security_request \<Rightarrow> string \<Rightarrow> security_readback" where
  "security_deny T q reason =
     \<lparr>sb_request_id = sq_request_id q, sb_decision = SECURITY_DENY, sb_reason = reason,
      sb_mutation_count = 0, sb_idempotent_replay = False,
      sb_audit = security_audit T q SECURITY_DENY (Some reason)\<rparr>"

text \<open>The text that \<^verbatim>\<open>dumps\<close> writes of the material of a request, as a tree, and its digest.\<close>

definition request_material :: "security_request \<Rightarrow> pyval" where
  "request_material q = json_tree (PyDict
     [(''organization_id'', PyStr (sq_organization_id q)), (''role'', PyStr (role_value (sq_role q))),
      (''ocs_id'', PyStr (sq_ocs_id q)), (''namespace'', PyStr (sq_namespace q)),
      (''payload'', PyDict (sq_payload q)), (''founder_sensitive'', PyBool (sq_founder_sensitive q))])"

definition request_fingerprint :: "digest \<Rightarrow> security_request \<Rightarrow> string res" where
  "request_fingerprint H q =
     (if serializable (PyDict (sq_payload q)) then Inr (H (request_material q)) else Inl (OtherError ''TypeError''))"

text \<open>The refusals that look at the request alone, in their order.\<close>

definition static_denial :: "security_request \<Rightarrow> string option" where
  "static_denial q =
     (case validate_required q of Some m \<Rightarrow> Some m
      | None \<Rightarrow>
          if sq_organization_id q \<noteq> sq_expected_organization_id q then Some ''command_security_organization_mismatch''
          else if sq_role q \<notin> {OWNER, ADMIN} then Some ''command_security_role_forbidden''
          else if sq_founder_sensitive q \<and> sq_role q \<noteq> OWNER then Some ''command_security_founder_role_required''
          else (case map_of PROFILES (sq_ocs_id q) of
              None \<Rightarrow> Some ''command_security_unknown_ocs''
            | Some p \<Rightarrow>
                if sq_namespace q \<notin> {op_state_namespace p, op_memory_namespace p}
                then Some ''command_security_namespace_mismatch'' else None))"

text \<open>The state of the guard is the dictionary from idempotency keys to fingerprints.\<close>

type_synonym security_guard = "(string \<times> string) list"

definition evaluate_request ::
    "digest \<Rightarrow> (string \<Rightarrow> string) \<Rightarrow> security_request \<Rightarrow> (security_guard, security_readback) py" where
  "evaluate_request H T q =
     (case static_denial q of
        Some m \<Rightarrow> py_return (security_deny T q m)
      | None \<Rightarrow>
          py_bind (py_lift (request_fingerprint H q)) (\<lambda>fingerprint.
          py_bind (py_gets (\<lambda>g. map_of g (sq_idempotency_key q))) (\<lambda>previous. case previous of
             Some p \<Rightarrow>
               if p \<noteq> fingerprint then py_return (security_deny T q ''command_security_idempotency_conflict'')
               else py_return (security_allow T q True)
           | None \<Rightarrow>
               py_bind (py_modify (dset (sq_idempotency_key q) fingerprint)) (\<lambda>_.
               py_return (security_allow T q False)))))"

end
