(* ===== verification/Command_Safety.thy ===== *)
theory Command_Safety
  imports Command_Views
begin

text \<open>
  What is shown of the command centre: the order of its event log along any calls, the round trip
  of an event and the feed, retries, what the rebuilt views owe to the events, and the guard of
  the requests with its audit record.
\<close>

section \<open>What an append does\<close>

lemma insert_event_row_Inr:
  "insert_event_row r rows = (Inr u, rows') \<longleftrightarrow> row_event_id r \<notin> row_event_id ` set rows \<and>
     row_idempotency_key r \<notin> row_idempotency_key ` set rows \<and> \<not> sequence_taken rows (cw_event r) \<and> rows' = rows @ [r]"
  by (auto simp: insert_event_row_def)

lemma row_of_event_keys:
  assumes "row_of_event e = Inr r"
  shows "row_event_id r = ce_event_id e \<and> row_idempotency_key r = ce_idempotency_key e \<and>
    stream_of (cw_event r) = stream_of e \<and> ce_sequence (cw_event r) = ce_sequence e"
  using assms
  by (auto simp: row_of_event_def row_event_id_def row_idempotency_key_def stream_of_def split: option.splits if_splits)

lemma append_new_Inr:
  "append_new e rows = (Inr b, rows') \<longleftrightarrow> b \<and> ce_sequence e = expected_sequence rows (stream_of e) \<and>
     (\<exists>r. row_of_event e = Inr r \<and> row_event_id r \<notin> row_event_id ` set rows \<and>
        row_idempotency_key r \<notin> row_idempotency_key ` set rows \<and> \<not> sequence_taken rows (cw_event r) \<and> rows' = rows @ [r])"
  by (auto simp: append_new_def py_bind_Inr py_gets_run py_unless_Inr py_lift_run py_return_run insert_event_row_Inr)

lemma append_command_event_cases:
  assumes "append_command_event e rows = (Inr b, rows')"
  obtains (repeated) r where "find (\<lambda>r. row_idempotency_key r = ce_idempotency_key e) rows = Some r"
      and "row_event_id r = ce_event_id e" and "\<not> b" and "rows' = rows"
  | (appended) r where "b" and "find (\<lambda>r. row_idempotency_key r = ce_idempotency_key e) rows = None"
      and "validate_event e = Inr ()" and "ce_sequence e = expected_sequence rows (stream_of e)"
      and "row_of_event e = Inr r" and "ce_event_id e \<notin> row_event_id ` set rows"
      and "ce_idempotency_key e \<notin> row_idempotency_key ` set rows" and "rows' = rows @ [r]"
proof -
  let ?f = "find (\<lambda>r. row_idempotency_key r = ce_idempotency_key e) rows"
  from assms have v: "validate_event e = Inr ()" and k: "(case ?f of
        Some r \<Rightarrow> if row_event_id r \<noteq> ce_event_id e then py_raise (RuntimeError ''command_event_idempotency_conflict'')
          else py_return False
      | None \<Rightarrow> append_new e) rows = (Inr b, rows')"
    by (auto simp: append_command_event_def py_bind_Inr py_lift_run transaction_Inr py_gets_run)
  show thesis
  proof (cases ?f)
    case None
    with k obtain r where "b" "ce_sequence e = expected_sequence rows (stream_of e)" and r: "row_of_event e = Inr r"
        and "row_event_id r \<notin> row_event_id ` set rows" "row_idempotency_key r \<notin> row_idempotency_key ` set rows"
        and "rows' = rows @ [r]"
      by (auto simp: append_new_Inr)
    with None v row_of_event_keys [OF r] show thesis by (intro appended) simp_all
  next
    case (Some r)
    with k show thesis by (intro repeated) (auto simp: py_raise_run py_return_run split: if_splits)
  qed
qed

lemma append_command_event_Inl: "append_command_event e rows = (Inl x, rows') \<Longrightarrow> rows' = rows"
  by (auto simp: append_command_event_def py_bind_run py_lift_run split: sum.splits prod.splits dest: transaction_Inl)

section \<open>The log\<close>

definition event_run :: "command_event list \<Rightarrow> event_table \<Rightarrow> event_table" where
  "event_run = fold (\<lambda>e rows. snd (append_command_event e rows))"

definition stream_sequences :: "event_table \<Rightarrow> stream_key \<Rightarrow> int list" where
  "stream_sequences rows k = map (\<lambda>r. ce_sequence (cw_event r)) (stream_rows rows k)"

definition log_ok :: "event_table \<Rightarrow> bool" where
  "log_ok rows \<longleftrightarrow> distinct (map row_event_id rows) \<and> distinct (map row_idempotency_key rows) \<and>
     (\<forall>k. stream_sequences rows k = map int [1..<length (stream_rows rows k) + 1])"

lemma expected_in_order:
  assumes "stream_sequences rows k = map int [1..<n + 1]"
  shows "expected_sequence rows k = int n + 1"
proof (cases n)
  case 0
  with assms show ?thesis by (simp add: expected_sequence_def stream_sequences_def)
next
  case (Suc m)
  have "Max (set (map int [1..<n + 1])) = int n"
    by (rule Max_eqI) (auto simp: Suc)
  with assms Suc show ?thesis by (simp add: expected_sequence_def stream_sequences_def [symmetric] Let_def)
qed

lemma log_ok_append:
  assumes "log_ok rows" shows "log_ok (snd (append_command_event e rows))"
proof (cases "append_command_event e rows")
  case (Pair r rows')
  show ?thesis
  proof (cases r)
    case (Inl x)
    with Pair append_command_event_Inl [of e rows x rows'] assms show ?thesis by simp
  next
    case (Inr b)
    with Pair have "append_command_event e rows = (Inr b, rows')" by simp
    then show ?thesis
    proof (cases rule: append_command_event_cases)
      case repeated
      with Pair assms show ?thesis by simp
    next
      case (appended r)
      note keys = row_of_event_keys [OF appended(5)]
      have seq: "stream_sequences rows k = map int [1..<length (stream_rows rows k) + 1]" for k
        using assms unfolding log_ok_def by blast
      have "ce_sequence e = int (length (stream_rows rows (stream_of e))) + 1"
        using appended(4) expected_in_order [OF seq] by simp
      moreover have rows_k: "stream_rows (rows @ [r]) k = stream_rows rows k @ (if stream_of e = k then [r] else [])" for k
        using keys by (simp add: stream_rows_def)
      ultimately have "stream_sequences (rows @ [r]) k = map int [1..<length (stream_rows (rows @ [r]) k) + 1]" for k
        using seq [of k] keys unfolding stream_sequences_def rows_k by (cases "stream_of e = k") simp_all
      with appended(6-8) keys assms Pair show ?thesis
        unfolding log_ok_def by simp
    qed
  qed
qed

lemma log_ok_run: "log_ok rows \<Longrightarrow> log_ok (event_run es rows)"
  unfolding event_run_def by (induction es arbitrary: rows) (auto intro: log_ok_append)

lemma log_ok_Nil: "log_ok []"
  by (simp add: log_ok_def stream_sequences_def stream_rows_def)

lemma event_run_extends: "\<exists>later. event_run es rows = rows @ later"
proof (induction es arbitrary: rows)
  case Nil
  then show ?case by (simp add: event_run_def)
next
  case (Cons e es)
  have "\<exists>l. snd (append_command_event e rows) = rows @ l"
  proof (cases "append_command_event e rows")
    case (Pair r rows')
    show ?thesis
    proof (cases r)
      case (Inl x)
      with Pair append_command_event_Inl [of e rows x rows'] show ?thesis by simp
    next
      case (Inr b)
      with Pair have "append_command_event e rows = (Inr b, rows')" by simp
      then show ?thesis by (cases rule: append_command_event_cases) (simp_all add: Pair)
    qed
  qed
  with Cons.IH [of "snd (append_command_event e rows)"] show ?case
    by (auto simp: event_run_def)
qed

section \<open>Reading back\<close>

text \<open>The event as the log keeps it.\<close>

definition stored_event :: "command_event \<Rightarrow> command_event" where
  "stored_event e = e\<lparr>ce_occurred_at := the (to_utc (ce_occurred_at e)),
     ce_payload := dict_items (json_tree (PyDict (ce_payload e)))\<rparr>"

lemma row_round_trip:
  assumes v: "valid_dt (ce_occurred_at e)" and r: "row_of_event e = Inr r"
  shows "row_to_event r = Inr (stored_event e) \<and> dt_instant (ce_occurred_at (stored_event e)) = dt_instant (ce_occurred_at e)"
proof -
  from r obtain u where u: "to_utc (ce_occurred_at e) = Some u" and
      r': "r = \<lparr>cw_event = e\<lparr>ce_payload := dict_items (json_tree (PyDict (ce_payload e)))\<rparr>, cw_occurred_at = isoformat u\<rparr>"
    by (auto simp: row_of_event_def split: option.splits if_splits)
  have "fromisoformat (isoformat u) = Some u"
    by (rule isoformat_round_trip [OF to_utc_valid [OF v u]])
  then show ?thesis
    using to_utc_instant [OF v u] by (simp add: row_to_event_def r' stored_event_def u)
qed

lemma traverse_snoc:
  "traverse f xs = Inr us \<Longrightarrow> f y = Inr v \<Longrightarrow> traverse f (xs @ [y]) = Inr (us @ [v])"
  by (induction xs arbitrary: us) (auto simp: map_sum_id_Inr split: sum.splits)

lemma readable_run:
  assumes "\<forall>e \<in> set es. valid_dt (ce_occurred_at e)" and "traverse row_to_event rows = Inr xs"
  shows "\<exists>ys. traverse row_to_event (event_run es rows) = Inr ys"
  using assms
proof (induction es arbitrary: rows xs)
  case Nil
  then show ?case by (simp add: event_run_def)
next
  case (Cons e es)
  have "\<exists>ys. traverse row_to_event (snd (append_command_event e rows)) = Inr ys"
  proof (cases "append_command_event e rows")
    case (Pair r rows')
    show ?thesis
    proof (cases r)
      case (Inl x)
      with Pair append_command_event_Inl [of e rows x rows'] Cons.prems show ?thesis by auto
    next
      case (Inr b)
      with Pair have "append_command_event e rows = (Inr b, rows')" by simp
      then show ?thesis
      proof (cases rule: append_command_event_cases)
        case repeated
        with Pair Cons.prems show ?thesis by auto
      next
        case (appended r)
        have "row_to_event r = Inr (stored_event e)"
          using row_round_trip [OF _ appended(5)] Cons.prems(1) by simp
        with traverse_snoc [OF Cons.prems(2)] appended(8) Pair show ?thesis by auto
      qed
    qed
  qed
  with Cons.IH Cons.prems show ?case
    by (auto simp: event_run_def)
qed


lemma append_then_read:
  assumes a: "append_command_event e rows = (Inr True, rows')" and v: "valid_dt (ce_occurred_at e)"
    and r: "traverse row_to_event rows = Inr xs"
  shows "traverse row_to_event rows' = Inr (xs @ [stored_event e])"
  using a
proof (cases rule: append_command_event_cases)
  case (appended r)
  with row_round_trip [OF v appended(5)] traverse_snoc [OF assms(3)] show ?thesis by simp
qed simp

section \<open>Retries\<close>

lemma find_key_snoc:
  "find (\<lambda>r. f r = k) xs = None \<Longrightarrow> f y = k \<Longrightarrow> find (\<lambda>r. f r = k) (xs @ [y]) = Some y"
  by (induction xs) (auto split: if_splits)

lemma after_append_command:
  assumes "append_command_event e rows = (Inr b, rows')"
  obtains r where "find (\<lambda>r. row_idempotency_key r = ce_idempotency_key e) rows' = Some r" and "row_event_id r = ce_event_id e"
  using assms
proof (cases rule: append_command_event_cases)
  case (repeated r)
  then show thesis using that by simp
next
  case (appended r)
  then show thesis
    using that [of r] row_of_event_keys [OF appended(5)] find_key_snoc [OF appended(2), of r] by simp
qed

lemma append_existing_key:
  assumes "find (\<lambda>r. row_idempotency_key r = ce_idempotency_key d) rows = Some r" and "validate_event d = Inr ()"
  shows "append_command_event d rows =
    (if row_event_id r \<noteq> ce_event_id d then Inl (RuntimeError ''command_event_idempotency_conflict'') else Inr False, rows)"
  using assms
  by (simp add: append_command_event_def py_bind_run py_lift_run transaction_def py_gets_run py_raise_run py_return_run)

lemma append_out_of_order:
  assumes "validate_event d = Inr ()" and "find (\<lambda>r. row_idempotency_key r = ce_idempotency_key d) rows = None"
    and "ce_sequence d \<noteq> expected_sequence rows (stream_of d)"
  shows "append_command_event d rows = (Inl (ValueError ''command_event_sequence_hold''), rows)"
  using assms
  by (simp add: append_command_event_def append_new_def py_bind_run py_lift_run transaction_def py_gets_run py_unless_run)

section \<open>The feed\<close>

definition feed_page :: "nat \<Rightarrow> event_table \<Rightarrow> int \<Rightarrow> command_event list \<times> int option" where
  "feed_page m rows cursor = (case fst (read_feed (int (Suc m)) cursor rows) of
     Inl _ \<Rightarrow> ([], None)
   | Inr b \<Rightarrow> (rb_events b, if rb_events b = [] then None else Some (rb_next_cursor b)))"

definition feed_beyond :: "event_table \<Rightarrow> int \<Rightarrow> command_event list" where
  "feed_beyond rows cursor = (case traverse row_to_event rows of
     Inl _ \<Rightarrow> [] | Inr es \<Rightarrow> if 0 \<le> cursor \<and> cursor \<le> int (length es) then drop (nat cursor) es else [])"

lemma read_feed_run:
  "fst (read_feed m cursor rows) =
     (if cursor < 0 then Inl (ValueError ''command_realtime_cursor_invalid'')
      else case traverse row_to_event rows of Inl e \<Rightarrow> Inl e
        | Inr es \<Rightarrow>
            if cursor > int (length es) then Inl (ValueError ''command_realtime_cursor_ahead'')
            else let s = take (nat m) (drop (nat cursor) es)
              in Inr \<lparr>rb_events = s, rb_next_cursor = cursor + int (length s), rb_disconnected = False,
                      rb_freshness = batch_freshness s\<rparr>)"
  by (auto simp: read_feed_def read_all_events_def py_bind_run py_unless_run py_return_run Let_def split: sum.splits)

lemma feed_page_run:
  "feed_page m rows cursor = (case traverse row_to_event rows of
     Inl _ \<Rightarrow> ([], None)
   | Inr es \<Rightarrow>
       if 0 \<le> cursor \<and> cursor \<le> int (length es)
       then let s = take (Suc m) (drop (nat cursor) es) in (s, if s = [] then None else Some (cursor + int (length s)))
       else ([], None))"
  unfolding feed_page_def read_feed_run
  by (cases "traverse row_to_event rows") (simp_all add: Let_def nat_add_distrib)

interpretation feed: cursor_pages "feed_page m rows" "feed_beyond rows" for m rows
proof
  fix c items
  assume "feed_page m rows c = (items, None)"
  then show "items = feed_beyond rows c"
    by (auto simp: feed_page_run feed_beyond_def Let_def split: sum.splits if_splits)
next
  fix c items d
  assume p: "feed_page m rows c = (items, Some d)"
  then obtain es where es: "traverse row_to_event rows = Inr es"
    by (auto simp: feed_page_run split: sum.splits)
  with p have c: "0 \<le> c" "c \<le> int (length es)" and i: "items = take (Suc m) (drop (nat c) es)" "items \<noteq> []"
      and d: "d = c + int (length items)"
    by (auto simp: feed_page_run Let_def split: if_splits)
  have l: "length items \<le> length es - nat c" and "nat d = nat c + length items"
    using c by (simp_all add: i(1) d nat_add_distrib)
  have "drop (nat d) es = drop (length items) (drop (nat c) es)"
    using \<open>nat d = _\<close> by (simp add: add.commute)
  moreover have "take (length items) (drop (nat c) es) = items"
    by (simp add: i(1) min_def)
  ultimately have "drop (nat c) es = items @ drop (nat d) es"
    by (metis append_take_drop_id)
  moreover have "0 \<le> d \<and> d \<le> int (length es)"
    using c l by (simp add: d)
  ultimately show "feed_beyond rows c = items @ feed_beyond rows d \<and> items \<noteq> []"
    using c i(2) by (simp add: feed_beyond_def es)
qed

lemma feed_delivers:
  assumes "traverse row_to_event rows = Inr es"
  shows "collect_pages (feed_page m rows) (length es + 1) 0 = Some es"
proof -
  have "feed_beyond rows 0 = es"
    by (simp add: feed_beyond_def assms)
  then show ?thesis
    using feed.collects_all [of rows 0 "length es + 1" m] by simp
qed


section \<open>Projections\<close>

lemma merge_Nil [simp]: "merge a [] = a"
  by (simp add: merge_def)

lemma map_of_merge_other: "k \<notin> fst ` set b \<Longrightarrow> map_of (merge a b) k = map_of a k"
  unfolding merge_def by (induction b arbitrary: a) auto

definition event_entry :: "command_event \<Rightarrow> entry" where
  "event_entry e = merge (common_fields e (isoformat (the (to_utc (ce_occurred_at e))))) (event_data e)"

lemma project_Inr:
  assumes "project rp e common s = (Inr u, t)"
  shows "pj_events t = pj_events s"
    and "pj_ocs t = pj_ocs s \<or> (\<exists>i. projection_kind e = PyStr ''ocs'' \<and> ce_ocs_id e = Some i \<and>
       pj_ocs t = dset i (merge common (event_data e)) (pj_ocs s))"
    and "pj_system_health t = pj_system_health s \<or> projection_kind e = PyStr ''system_health'' \<and>
       pj_system_health t = dset ''status'' (PyStr (health_status rp e)) (merge common (event_data e))"
  using assms unfolding project_def Let_def
  by (simp_all add: py_modify_run py_return_run py_raise_run split: if_split_asm option.split_asm)
     (safe; simp)+

lemma apply_event_Inr:
  assumes "apply_event rp e s = (Inr u, t)"
  shows "pj_events t = pj_events s @ [merge (common_fields e (isoformat (the (to_utc (ce_occurred_at e)))))
      [(''payload'', PyDict (ce_payload e))]] \<and>
    (pj_ocs t = pj_ocs s \<or> (\<exists>i. projection_kind e = PyStr ''ocs'' \<and> ce_ocs_id e = Some i \<and>
       pj_ocs t = dset i (event_entry e) (pj_ocs s))) \<and>
    (pj_system_health t = pj_system_health s \<or> projection_kind e = PyStr ''system_health'' \<and>
       pj_system_health t = dset ''status'' (PyStr (health_status rp e)) (event_entry e))"
proof -
  from assms obtain z where z: "to_utc (ce_occurred_at e) = Some z"
    by (cases "to_utc (ce_occurred_at e)") (simp_all add: apply_event_def py_raise_run)
  let ?c = "common_fields e (isoformat z)"
  have "project rp e ?c (s\<lparr>pj_events := pj_events s @ [merge ?c [(''payload'', PyDict (ce_payload e))]]\<rparr>) = (Inr u, t)"
    using assms by (simp add: apply_event_def z Let_def py_bind_run py_modify_run)
  from project_Inr [OF this] show ?thesis
    by (simp add: event_entry_def z)
qed

text \<open>What the views owe to the events they were rebuilt from.\<close>

definition views_explained :: "command_event list \<Rightarrow> projection_state \<Rightarrow> bool" where
  "views_explained es s \<longleftrightarrow>
     map (\<lambda>en. map_of en ''event_id'') (pj_events s) = map (\<lambda>e. Some (PyStr (ce_event_id e))) es \<and>
     (\<forall>i en. map_of (pj_ocs s) i = Some en \<longrightarrow>
        (\<exists>e \<in> set es. ce_ocs_id e = Some i \<and> projection_kind e = PyStr ''ocs'' \<and> en = event_entry e)) \<and>
     (map_of (pj_system_health s) ''status'' = Some (PyStr ''unknown'') \<or>
        (\<exists>e \<in> set es. projection_kind e = PyStr ''system_health'' \<and> ce_evidence_refs e \<noteq> []))"

lemma apply_event_id:
  "map_of (merge (common_fields e t) [(''payload'', p)]) ''event_id'' = Some (PyStr (ce_event_id e))"
  by (simp add: map_of_merge_other common_fields_def)

lemma health_without_evidence: "ce_evidence_refs e = [] \<Longrightarrow> health_status rp e = ''unknown''"
  by (simp add: health_status_def Let_def)

lemma views_explained_step:
  assumes v: "views_explained es s" and a: "apply_event rp e s = (Inr u, t)"
  shows "views_explained (es @ [e]) t"
proof -
  note step = apply_event_Inr [OF a]
  have ids: "map (\<lambda>en. map_of en ''event_id'') (pj_events t) = map (\<lambda>e. Some (PyStr (ce_event_id e))) (es @ [e])"
    using v step by (simp add: views_explained_def apply_event_id)
  have ocs: "\<exists>d \<in> set (es @ [e]). ce_ocs_id d = Some i \<and> projection_kind d = PyStr ''ocs'' \<and> en = event_entry d"
    if "map_of (pj_ocs t) i = Some en" for i en
  proof (cases "pj_ocs t = pj_ocs s")
    case True
    with that v show ?thesis by (auto simp: views_explained_def)
  next
    case False
    with step obtain j where j: "projection_kind e = PyStr ''ocs''" "ce_ocs_id e = Some j"
        "pj_ocs t = dset j (event_entry e) (pj_ocs s)" by blast
    show ?thesis
    proof (cases "i = j")
      case True
      with that j show ?thesis by auto
    next
      case False
      with that j have "map_of (pj_ocs s) i = Some en" by simp
      with v show ?thesis by (auto simp: views_explained_def)
    qed
  qed
  have health: "map_of (pj_system_health t) ''status'' = Some (PyStr ''unknown'') \<or>
      (\<exists>d \<in> set (es @ [e]). projection_kind d = PyStr ''system_health'' \<and> ce_evidence_refs d \<noteq> [])"
  proof (cases "pj_system_health t = pj_system_health s")
    case True
    with v show ?thesis by (auto simp: views_explained_def)
  next
    case False
    with step have k: "projection_kind e = PyStr ''system_health''"
      "map_of (pj_system_health t) ''status'' = Some (PyStr (health_status rp e))" by auto
    then show ?thesis
      using health_without_evidence [of e rp] by (cases "ce_evidence_refs e = []") auto
  qed
  show ?thesis
    unfolding views_explained_def using ids ocs health by blast
qed

lemma apply_events_explained:
  assumes "views_explained done_events s" and "apply_events rp es s = (Inr u, t)"
  shows "views_explained (done_events @ es) t"
  using assms
proof (induction es arbitrary: done_events s)
  case Nil
  then show ?case by (simp add: py_return_run)
next
  case (Cons e es)
  from Cons.prems(2) obtain v s' where "apply_event rp e s = (Inr v, s')" and r: "apply_events rp es s' = (Inr u, t)"
    by (auto simp: py_bind_Inr)
  then have "views_explained (done_events @ [e]) s'"
    by (intro views_explained_step [OF Cons.prems(1)])
  from Cons.IH [OF this r] show ?case by simp
qed

text \<open>Rebuilding from a longer log is applying the later events to what was rebuilt.\<close>

lemma apply_events_append:
  "apply_events rp (es @ ds) s = py_bind (apply_events rp es) (\<lambda>_. apply_events rp ds) s"
  by (induction es arbitrary: s) (auto simp: py_bind_run py_return_run split: prod.splits sum.splits)

lemma rebuild_append:
  "rebuild rp (es @ ds) = (case apply_events rp es empty_projection of
      (Inl x, _) \<Rightarrow> Inl x
    | (Inr _, s) \<Rightarrow> (case apply_events rp ds s of (Inl x, _) \<Rightarrow> Inl x | (Inr _, t) \<Rightarrow> Inr t))"
  by (simp add: rebuild_def apply_events_append py_bind_run split: prod.splits sum.splits)

text \<open>
  The data of an event replaces the fields that the projection takes from the event itself: its
  source and its evidence among them.
\<close>

lemma data_overrides_provenance:
  assumes "map_of (ce_payload e) ''data'' = Some (PyDict [(''source'', v)])"
  shows "map_of (event_entry e) ''source'' = Some v"
  using assms by (simp add: event_entry_def event_data_def merge_def)

section \<open>The guard\<close>

fun no_secret :: "pyval \<Rightarrow> bool" where
  "no_secret (PyDict kvs) \<longleftrightarrow> list_all (\<lambda>(k, v). (secret_key k \<longrightarrow> v = PyStr ''[REDACTED]'') \<and> no_secret v) kvs"
| "no_secret (PyList xs) \<longleftrightarrow> list_all no_secret xs"
| "no_secret (PyTuple xs) \<longleftrightarrow> list_all no_secret xs"
| "no_secret _ \<longleftrightarrow> True"

lemma no_secret_redact: "no_secret (redact v)"
proof (induction v rule: redact.induct)
  case (1 kvs)
  then show ?case by (force simp: list_all_iff)
qed (auto simp: list_all_iff)

lemma redact_harmless: "no_secret v \<Longrightarrow> no_tuples v \<Longrightarrow> redact v = v"
proof (induction v rule: redact.induct)
  case (1 kvs)
  have "map (\<lambda>(k, v). (k, if secret_key k then PyStr ''[REDACTED]'' else redact v)) kvs = kvs"
    using 1 by (intro map_idI) (force simp: list_all_iff)
  then show ?case by (simp only: redact.simps)
qed (auto simp: list_all_iff intro: map_idI)

lemma no_tuples_redact: "no_tuples (redact v)"
proof (induction v rule: redact.induct)
  case (1 kvs)
  then show ?case by (force simp: list_all_iff)
qed (auto simp: list_all_iff)

definition request_authorized :: "security_request \<Rightarrow> bool" where
  "request_authorized q \<longleftrightarrow>
     [] \<notin> {sq_request_id q, sq_organization_id q, sq_ocs_id q, sq_namespace q, sq_idempotency_key q} \<and>
     sq_organization_id q = sq_expected_organization_id q \<and> sq_role q \<in> {OWNER, ADMIN} \<and>
     (sq_founder_sensitive q \<longrightarrow> sq_role q = OWNER) \<and>
     (\<exists>p. map_of PROFILES (sq_ocs_id q) = Some p \<and> sq_namespace q \<in> {op_state_namespace p, op_memory_namespace p})"

lemma missing_request_fields_Nil:
  "missing_request_fields q = [] \<longleftrightarrow> [] \<notin> {sq_request_id q, sq_organization_id q, sq_expected_organization_id q, sq_ocs_id q,
     sq_namespace q, sq_idempotency_key q}"
  by (auto simp: missing_request_fields_def split: if_splits)

lemma static_denial_None: "static_denial q = None \<longleftrightarrow> request_authorized q"
  by (auto simp: static_denial_def validate_required_def missing_request_fields_Nil request_authorized_def split: option.splits)

lemma evaluate_request_cases:
  assumes "evaluate_request H T q g = (Inr r, g')"
  shows "(sb_decision r = SECURITY_ALLOW \<longleftrightarrow> request_authorized q \<and>
       map_of g (sq_idempotency_key q) \<in> {None, Some (H (request_material q))}) \<and>
    g' = (if sb_decision r = SECURITY_ALLOW \<and> map_of g (sq_idempotency_key q) = None
          then dset (sq_idempotency_key q) (H (request_material q)) g else g) \<and>
    sb_mutation_count r = 0 \<and> map_of (sb_audit r) ''payload'' = Some (redact (PyDict (sq_payload q)))"
proof (cases "static_denial q")
  case (Some m)
  with assms static_denial_None [of q] show ?thesis
    by (auto simp: evaluate_request_def py_return_run security_deny_def security_audit_def)
next
  case None
  then have a: "request_authorized q" by (simp add: static_denial_None)
  show ?thesis
    using assms None a
    by (auto simp: evaluate_request_def py_bind_run py_lift_run py_gets_run py_modify_run py_return_run
      request_fingerprint_def security_allow_def security_deny_def security_audit_def split: option.splits if_splits)
qed


definition security_run :: "digest \<Rightarrow> (string \<Rightarrow> string) \<Rightarrow> security_request list \<Rightarrow> security_guard \<Rightarrow> security_guard" where
  "security_run H T = fold (\<lambda>q g. snd (evaluate_request H T q g))"

lemma evaluate_request_keeps:
  assumes "map_of g k = Some f" shows "map_of (snd (evaluate_request H T q g)) k = Some f"
  using assms
  by (auto simp: evaluate_request_def py_bind_run py_lift_run py_gets_run py_modify_run py_return_run
    split: option.splits sum.splits)

lemma security_run_keeps: "map_of g k = Some f \<Longrightarrow> map_of (security_run H T qs g) k = Some f"
  unfolding security_run_def by (induction qs arbitrary: g) (auto intro: evaluate_request_keeps)

lemma namespaces_distinct:
  "distinct (concat (map (\<lambda>(_, p). [op_state_namespace p, op_memory_namespace p]) PROFILES)) \<and> distinct (map fst PROFILES)"
  by code_simp

lemma concat_distinct_block:
  "distinct (concat (map f xs)) \<Longrightarrow> x \<in> set xs \<Longrightarrow> y \<in> set xs \<Longrightarrow> v \<in> set (f x) \<Longrightarrow> v \<in> set (f y) \<Longrightarrow> x = y"
  by (induction xs) auto

lemma namespace_of_one_ocs:
  assumes "request_authorized p" and "request_authorized q" and "sq_namespace p = sq_namespace q"
  shows "sq_ocs_id p = sq_ocs_id q"
proof -
  from assms obtain a b where a: "(sq_ocs_id p, a) \<in> set PROFILES" "sq_namespace p \<in> {op_state_namespace a, op_memory_namespace a}"
      and b: "(sq_ocs_id q, b) \<in> set PROFILES" "sq_namespace p \<in> {op_state_namespace b, op_memory_namespace b}"
    by (auto simp: request_authorized_def dest!: map_of_SomeD)
  have "(sq_ocs_id p, a) = (sq_ocs_id q, b)"
    by (rule concat_distinct_block [OF conjunct1 [OF namespaces_distinct] a(1) b(1), of "sq_namespace p"])
      (use a(2) b(2) in auto)
  then show ?thesis by simp
qed

section \<open>Properties\<close>

definition sample_event :: "string \<Rightarrow> int \<Rightarrow> command_event" where
  "sample_event i n = \<lparr>ce_event_id = i, ce_event_type = ''heartbeat'', ce_schema_version = ''v1'',
     ce_occurred_at = \<lparr>dt_year = 2026, dt_month = 1, dt_day = 1, dt_hour = 1, dt_minute = 30, dt_second = 0,
       dt_micro = 0, dt_offset = Some 180\<rparr>,
     ce_source = ''kernel'', ce_source_version = ''r1'', ce_institution_id = ''reis'', ce_ocs_id = Some ''ATLAS'',
     ce_project_id = None, ce_run_id = Some ''run-1'', ce_causation_id = None, ce_correlation_id = None,
     ce_sequence = n, ce_idempotency_key = i, ce_freshness = LIVE, ce_evidence_refs = [''proof:1''],
     ce_payload = [(''projection'', PyStr ''system_health''), (''data'', PyDict [(''status'', PyStr ''ok'')])]\<rparr>"

lemma first_append:
  assumes "validate_event e = Inr ()" and "to_utc (ce_occurred_at e) = Some z"
    and "serializable (PyDict (ce_payload e))" and "ce_sequence e = 1"
  shows "\<exists>rows. append_command_event e [] = (Inr True, rows)"
proof -
  obtain r where "row_of_event e = Inr r"
    using assms(2,3) by (auto simp: row_of_event_def)
  with assms(1,4) show ?thesis
    by (simp add: append_command_event_def append_new_def py_bind_run py_lift_run transaction_def py_gets_run
      py_unless_run py_return_run expected_sequence_def stream_rows_def insert_event_row_def sequence_taken_def)
qed

lemma sample_utc: "\<exists>z. to_utc (ce_occurred_at (sample_event ''e1'' 1)) = Some z"
proof -
  have "to_utc (ce_occurred_at (sample_event ''e1'' 1)) \<noteq> None" by code_simp
  then show ?thesis by blast
qed

lemma sample_append: "\<exists>rows. append_command_event (sample_event ''e1'' 1) [] = (Inr True, rows)"
proof -
  have v: "validate_event (sample_event ''e1'' 1) = Inr ()" by code_simp
  have s: "serializable (PyDict (ce_payload (sample_event ''e1'' 1)))" by code_simp
  have q: "ce_sequence (sample_event ''e1'' 1) = 1" by (simp add: sample_event_def)
  from sample_utc first_append [OF v _ s q] show ?thesis by blast
qed

lemma sample_event_valid: "valid_dt (ce_occurred_at (sample_event ''e1'' 1))"
  by (simp add: valid_dt_def sample_event_def days_in_month_def)

text \<open>
  C26: Whatever events are appended, in any order and however often, the log of the command centre
  holds every event id and every idempotency key once, the sequence numbers of each stream (a
  source and institution with an OCS and a run, present or not) are 1, 2, 3 and so on without a
  gap in the order of the log, and later calls only add rows at its end.
\<close>

theorem event_log_in_order:
  "log_ok (event_run es []) \<and> (\<exists>later. event_run (es @ ds) [] = event_run es [] @ later)"
proof -
  have "event_run (es @ ds) [] = event_run ds (event_run es [])"
    by (simp add: event_run_def)
  with log_ok_run [OF log_ok_Nil] event_run_extends show ?thesis by auto
qed

text \<open>
  C27: What is appended is read back. After any calls with events of valid times, an append that
  answers True adds to what the log reads as exactly that event, with its payload as JSON keeps it
  and the same instant in UTC, and a client that follows the feed from the start, with batches of
  any size, receives the whole log once and in order and comes to an end.
\<close>

theorem event_log_round_trip:
  assumes "\<forall>d \<in> set es. valid_dt (ce_occurred_at d)" and "valid_dt (ce_occurred_at e)"
    and "append_command_event e (event_run es []) = (Inr True, rows)"
  shows "\<exists>xs. fst (read_all_events (event_run es [])) = Inr xs \<and>
    fst (read_all_events rows) = Inr (xs @ [stored_event e]) \<and>
    dt_instant (ce_occurred_at (stored_event e)) = dt_instant (ce_occurred_at e) \<and>
    collect_pages (feed_page m rows) (length xs + 2) 0 = Some (xs @ [stored_event e])"
proof -
  obtain xs where xs: "traverse row_to_event (event_run es []) = Inr xs"
    using readable_run [OF assms(1), of "[]" "[]"] by auto
  have r: "traverse row_to_event rows = Inr (xs @ [stored_event e])"
    by (rule append_then_read [OF assms(3,2) xs])
  have "dt_instant (ce_occurred_at (stored_event e)) = dt_instant (ce_occurred_at e)"
    using assms(3) by (cases rule: append_command_event_cases) (use row_round_trip [OF assms(2)] in auto)
  with xs r feed_delivers [OF r, of m] show ?thesis
    by (auto simp: read_all_events_def)
qed

theorem event_log_round_trip_witness:
  "\<exists>rows. append_command_event (sample_event ''e1'' 1) [] = (Inr True, rows) \<and>
     collect_pages (feed_page 0 rows) 2 0 = Some [stored_event (sample_event ''e1'' 1)]"
proof -
  obtain rows where r: "append_command_event (sample_event ''e1'' 1) [] = (Inr True, rows)"
    using sample_append by blast
  then have "append_command_event (sample_event ''e1'' 1) (event_run [] []) = (Inr True, rows)"
    by (simp add: event_run_def)
  from event_log_round_trip [OF _ sample_event_valid this, of 0] r show ?thesis
    by (auto simp: event_run_def read_all_events_def numeral_2_eq_2)
qed

text \<open>
  An append can be retried. Once an event was appended, appending it again answers False and
  changes nothing; another event under its idempotency key is a conflict; an event that is not the
  next of its stream is held; and whatever raises leaves the log as it was.
\<close>

lemma event_retry_safe:
  assumes "append_command_event e rows = (Inr b, rows')"
  shows "append_command_event e rows' = (Inr False, rows') \<and>
    (\<forall>d. validate_event d = Inr () \<longrightarrow> ce_idempotency_key d = ce_idempotency_key e \<longrightarrow> ce_event_id d \<noteq> ce_event_id e \<longrightarrow>
       append_command_event d rows' = (Inl (RuntimeError ''command_event_idempotency_conflict''), rows')) \<and>
    (\<forall>d. validate_event d = Inr () \<longrightarrow> ce_idempotency_key d \<notin> row_idempotency_key ` set rows' \<longrightarrow>
       ce_sequence d \<noteq> expected_sequence rows' (stream_of d) \<longrightarrow>
       append_command_event d rows' = (Inl (ValueError ''command_event_sequence_hold''), rows')) \<and>
    (\<forall>d x t. append_command_event d rows' = (Inl x, t) \<longrightarrow> t = rows')"
proof -
  obtain r where r: "find (\<lambda>r. row_idempotency_key r = ce_idempotency_key e) rows' = Some r" "row_event_id r = ce_event_id e"
    using assms by (rule after_append_command)
  have v: "validate_event e = Inr ()"
    using assms by (auto simp: append_command_event_def py_bind_Inr py_lift_run)
  have absent: "find (\<lambda>r. row_idempotency_key r = ce_idempotency_key d) rows' = None"
    if "ce_idempotency_key d \<notin> row_idempotency_key ` set rows'" for d
    using that unfolding find_None_iff by (metis imageI)
  have "append_command_event e rows' = (Inr False, rows')"
    using append_existing_key [OF r(1) v] r(2) by simp
  moreover have "append_command_event d rows' = (Inl (RuntimeError ''command_event_idempotency_conflict''), rows')"
    if "validate_event d = Inr ()" "ce_idempotency_key d = ce_idempotency_key e" "ce_event_id d \<noteq> ce_event_id e" for d
    using append_existing_key [of d rows' r] that r by simp
  moreover have "append_command_event d rows' = (Inl (ValueError ''command_event_sequence_hold''), rows')"
    if "validate_event d = Inr ()" "ce_idempotency_key d \<notin> row_idempotency_key ` set rows'"
      "ce_sequence d \<noteq> expected_sequence rows' (stream_of d)" for d
    using append_out_of_order [OF that(1) absent [OF that(2)] that(3)] .
  ultimately show ?thesis
    using append_command_event_Inl by blast
qed

lemma event_retry_safe_witness:
  "\<exists>rows. append_command_event (sample_event ''e1'' 1) [] = (Inr True, rows) \<and>
     append_command_event (sample_event ''e1'' 1) rows = (Inr False, rows)"
proof -
  obtain rows where r: "append_command_event (sample_event ''e1'' 1) [] = (Inr True, rows)"
    using sample_append by blast
  with event_retry_safe [OF r] show ?thesis by blast
qed

text \<open>
  The views of the command centre owe everything to the events. In what a rebuild returns, the
  list of events is that of the log in its order; the entry of an OCS was made by an event of that
  OCS; and the health of the system reads other than unknown only if some health event of the log
  had evidence. A longer log is rebuilt by applying the later events to what was rebuilt.
\<close>

lemma views_owe_events:
  assumes "rebuild rp es = Inr s"
  shows "views_explained es s \<and>
    rebuild rp (es @ ds) = (case apply_events rp ds s of (Inl x, _) \<Rightarrow> Inl x | (Inr _, t) \<Rightarrow> Inr t)"
proof -
  have "views_explained [] empty_projection"
    by (simp add: views_explained_def empty_projection_def)
  moreover obtain u where "apply_events rp es empty_projection = (Inr u, s)"
    using assms by (auto simp: rebuild_def split: prod.splits sum.splits)
  ultimately show ?thesis
    using apply_events_explained [of "[]" empty_projection rp es u s] by (simp add: rebuild_append)
qed

lemma sample_rebuild: "\<exists>s. rebuild (\<lambda>_. []) [sample_event ''e1'' 1] = Inr s"
proof -
  obtain z where z: "to_utc (ce_occurred_at (sample_event ''e1'' 1)) = Some z"
    using sample_utc by blast
  have k: "projection_kind (sample_event ''e1'' 1) = PyStr ''system_health''"
    by (simp add: projection_kind_def sample_event_def)
  show ?thesis
    by (simp add: rebuild_def apply_event_def z Let_def py_bind_run py_modify_run py_return_run project_def k)
qed

lemma views_owe_events_witness:
  "\<exists>s. rebuild (\<lambda>_. []) [sample_event ''e1'' 1] = Inr s \<and> views_explained [sample_event ''e1'' 1] s"
  using sample_rebuild views_owe_events by blast

text \<open>
  C28: The guard of the command centre allows a request exactly when it is complete, names the
  organization it is for, its role is owner or admin (owner for what is sensitive to the founder),
  its namespace belongs to the OCS it names, and its idempotency key is new or was used for a
  request of the same fingerprint. It records the fingerprint of a new key and nothing else, a
  denied request changes nothing, and no request mutates anything.
\<close>

theorem command_guard_sound:
  assumes "evaluate_request H T q g = (Inr r, g')"
  shows "(sb_decision r = SECURITY_ALLOW \<longleftrightarrow> request_authorized q \<and>
       map_of g (sq_idempotency_key q) \<in> {None, Some (H (request_material q))}) \<and>
    g' = (if sb_decision r = SECURITY_ALLOW \<and> map_of g (sq_idempotency_key q) = None
          then dset (sq_idempotency_key q) (H (request_material q)) g else g) \<and>
    sb_mutation_count r = 0"
  using evaluate_request_cases [OF assms] by blast

definition sample_request :: security_request where
  "sample_request = \<lparr>sq_request_id = ''r1'', sq_organization_id = ''org'', sq_expected_organization_id = ''org'',
     sq_role = OWNER, sq_ocs_id = ''AURI'', sq_namespace = op_state_namespace (the (map_of PROFILES ''AURI'')),
     sq_idempotency_key = ''k1'', sq_payload = [(''Api_Token'', PyStr ''x''), (''note'', PyInt 1)],
     sq_founder_sensitive = False\<rparr>"

lemma sample_evaluated:
  "evaluate_request (\<lambda>_. ''h'') (\<lambda>x. x) sample_request [] = (Inr (security_allow (\<lambda>x. x) sample_request False), [(''k1'', ''h'')])"
proof -
  have "static_denial sample_request = None" by code_simp
  moreover have "serializable (PyDict (sq_payload sample_request))" and "sq_idempotency_key sample_request = ''k1''"
    by (simp_all add: sample_request_def)
  ultimately show ?thesis
    by (simp add: evaluate_request_def py_bind_run py_lift_run py_gets_run py_modify_run py_return_run request_fingerprint_def)
qed

theorem command_guard_sound_witness:
  "request_authorized sample_request \<and> sb_mutation_count (security_allow (\<lambda>x. x) sample_request False) = 0"
  using command_guard_sound [OF sample_evaluated] by (simp add: security_allow_def)

lemma role_value_inject: "role_value x = role_value y \<longleftrightarrow> x = y"
  by (cases x; cases y) simp_all

text \<open>What two requests share when their fingerprints were taken of the same text.\<close>

lemma request_material_fields:
  assumes "request_material q = request_material p"
  shows "sq_organization_id q = sq_organization_id p \<and> sq_role q = sq_role p \<and>
    sq_ocs_id q = sq_ocs_id p \<and> sq_namespace q = sq_namespace p \<and>
    json_tree (PyDict (sq_payload q)) = json_tree (PyDict (sq_payload p)) \<and>
    sq_founder_sensitive q = sq_founder_sensitive p"
proof -
  have f: "py_get (request_material r) k = map_option json_tree (map_of
     [(''organization_id'', PyStr (sq_organization_id r)), (''role'', PyStr (role_value (sq_role r))),
      (''ocs_id'', PyStr (sq_ocs_id r)), (''namespace'', PyStr (sq_namespace r)),
      (''payload'', PyDict (sq_payload r)), (''founder_sensitive'', PyBool (sq_founder_sensitive r))] k)" for r k
    unfolding request_material_def by (rule py_get_json_tree) simp
  have "py_get (request_material q) k = py_get (request_material p) k" for k using assms by simp
  from this[of "''organization_id''"] this[of "''role''"] this[of "''ocs_id''"] this[of "''namespace''"]
    this[of "''payload''"] this[of "''founder_sensitive''"]
  show ?thesis by (simp add: f role_value_inject del: json_tree.simps(3))
qed

text \<open>
  C29: A key cannot be used twice for different requests. If a request was allowed, then after any
  further requests another one is allowed under its key only with the same organization, role,
  OCS, namespace, payload (the same JSON text) and sensitivity, short of a collision of the
  digest; and two allowed requests in one namespace are about one OCS.
\<close>

theorem command_replay_bound:
  assumes "evaluate_request H T p g = (Inr r, g1)" and "sb_decision r = SECURITY_ALLOW"
    and "evaluate_request H T q (security_run H T qs g1) = (Inr s, g2)" and "sb_decision s = SECURITY_ALLOW"
  shows "(sq_idempotency_key q = sq_idempotency_key p \<longrightarrow>
       (sq_organization_id q = sq_organization_id p \<and> sq_role q = sq_role p \<and>
        sq_ocs_id q = sq_ocs_id p \<and> sq_namespace q = sq_namespace p \<and>
        json_tree (PyDict (sq_payload q)) = json_tree (PyDict (sq_payload p)) \<and>
        sq_founder_sensitive q = sq_founder_sensitive p) \<or>
       collision H (request_material q) (request_material p)) \<and>
    (sq_namespace q = sq_namespace p \<longrightarrow> sq_ocs_id q = sq_ocs_id p)"
proof -
  note c = evaluate_request_cases [OF assms(1)] and d = evaluate_request_cases [OF assms(3)]
  have "map_of g1 (sq_idempotency_key p) = Some (H (request_material p))"
    using c assms(2) by auto
  then have k: "map_of (security_run H T qs g1) (sq_idempotency_key p) = Some (H (request_material p))"
    by (rule security_run_keeps)
  have "H (request_material q) = H (request_material p)" if "sq_idempotency_key q = sq_idempotency_key p"
    using d assms(4) k that by auto
  then have "request_material q = request_material p \<or> collision H (request_material q) (request_material p)"
    if "sq_idempotency_key q = sq_idempotency_key p"
    using that by (auto simp: collision_def)
  moreover have "sq_ocs_id q = sq_ocs_id p" if "sq_namespace q = sq_namespace p"
    using namespace_of_one_ocs [OF _ _ that] c d assms(2,4) by blast
  ultimately show ?thesis
    using request_material_fields by blast
qed

text \<open>
  Under a digest that maps everything to one text, a second request with another payload is
  allowed under the key, and the two materials are the collision.
\<close>

theorem command_replay_bound_witness:
  "collision (\<lambda>_. ''h'') (request_material (sample_request\<lparr>sq_payload := [(''note'', PyInt 2)]\<rparr>))
     (request_material sample_request)"
proof -
  let ?q = "sample_request\<lparr>sq_payload := [(''note'', PyInt 2)]\<rparr>"
  have "evaluate_request (\<lambda>_. ''h'') (\<lambda>x. x) ?q (security_run (\<lambda>_. ''h'') (\<lambda>x. x) [] [(''k1'', ''h'')])
      = (Inr (security_allow (\<lambda>x. x) ?q True), [(''k1'', ''h'')])"
  proof -
    have "static_denial ?q = None" by code_simp
    moreover have "serializable (PyDict (sq_payload ?q))" and "sq_idempotency_key ?q = ''k1''"
      by (simp_all add: sample_request_def)
    ultimately show ?thesis
      by (simp add: evaluate_request_def py_bind_run py_lift_run py_gets_run py_return_run request_fingerprint_def security_run_def)
  qed
  from command_replay_bound [OF sample_evaluated _ this, THEN conjunct1]
  have "json_tree (PyDict (sq_payload ?q)) = json_tree (PyDict (sq_payload sample_request)) \<or>
      collision (\<lambda>_. ''h'') (request_material ?q) (request_material sample_request)"
    by (auto simp: security_allow_def)
  moreover have "json_tree (PyDict (sq_payload ?q)) \<noteq> json_tree (PyDict (sq_payload sample_request))"
    by code_simp
  ultimately show ?thesis by blast
qed

text \<open>
  C30: No secret reaches the audit record of a request, allowed or denied: at any depth of the
  payload it reports, the value under a key that contains one of the markers (in any case of its
  letters) is the fixed text [REDACTED]. Redaction is idempotent, and a payload of dictionaries,
  lists and plain values without such a key is reported as it is.
\<close>

theorem audit_without_secrets:
  assumes "evaluate_request H T q g = (Inr r, g')"
  shows "\<exists>v. map_of (sb_audit r) ''payload'' = Some v \<and> no_secret v \<and> redact v = v \<and>
    (no_secret (PyDict (sq_payload q)) \<longrightarrow> no_tuples (PyDict (sq_payload q)) \<longrightarrow> v = PyDict (sq_payload q))"
  using evaluate_request_cases [OF assms] no_secret_redact redact_harmless no_tuples_redact by blast

theorem audit_without_secrets_witness:
  "map_of (sb_audit (security_allow (\<lambda>x. x) sample_request False)) ''payload'' =
     Some (PyDict [(''Api_Token'', PyStr ''[REDACTED]''), (''note'', PyInt 1)])"
proof -
  obtain v where "map_of (sb_audit (security_allow (\<lambda>x. x) sample_request False)) ''payload'' = Some v"
    using audit_without_secrets [OF sample_evaluated] by blast
  moreover have "redact (PyDict (sq_payload sample_request)) = PyDict [(''Api_Token'', PyStr ''[REDACTED]''), (''note'', PyInt 1)]"
    by code_simp
  ultimately show ?thesis
    by (simp add: security_allow_def security_audit_def)
qed

end
