(* ===== verification/Expertise_Retrieval.thy ===== *)
theory Expertise_Retrieval
  imports Profiles "HOL-Library.Product_Lexorder"
begin

text \<open>
  \<^verbatim>\<open>registry.py\<close>, \<^verbatim>\<open>sources.py\<close> and \<^verbatim>\<open>retriever.py\<close> of \<^verbatim>\<open>app/expertise\<close>: the
  lenses of an OCS, the plan that a problem gets from them, the records of external sources with
  their fragments, and the retrieval of the evidence that the plan allows.

  \<open>H\<close> is \<^verbatim>\<open>sha256\<close> of a JSON text, as a function of its tree, and \<open>T\<close> is \<^verbatim>\<open>sha256\<close>
  of a plain text. A tuple of texts is a \<open>string list\<close>.
\<close>

section \<open>Texts\<close>

text \<open>\<^verbatim>\<open>s.split()\<close>: the words between runs of white space.\<close>

fun words_from :: "string \<Rightarrow> string \<Rightarrow> string list" where
  "words_from acc [] = (if acc = [] then [] else [List.rev acc])"
| "words_from acc (c # cs) =
     (if is_space c then (if acc = [] then words_from [] cs else List.rev acc # words_from [] cs)
      else words_from (c # acc) cs)"

definition words_of :: "string \<Rightarrow> string list" where
  "words_of s = words_from [] s"

text \<open>
  \<^verbatim>\<open>s.upper()\<close> on code points up to U+00FF; the two of them whose capital lies outside the
  range (U+00B5 and U+00FF) are left in place.
\<close>

definition upper_char :: "char \<Rightarrow> string" where
  "upper_char c =
     (let n = (of_char c :: nat)
      in if (97 \<le> n \<and> n \<le> 122) \<or> (224 \<le> n \<and> n \<le> 254 \<and> n \<noteq> 247) then [char_of (n - 32)]
         else if n = 223 then ''SS''
         else [c])"

definition upper :: "string \<Rightarrow> string" where
  "upper s = concat (map upper_char s)"

text \<open>\<^verbatim>\<open>tuple(dict.fromkeys(xs))\<close>: each value once, in the order of first occurrence.\<close>

definition distinct_in_order :: "'a list \<Rightarrow> 'a list" where
  "distinct_in_order xs = List.rev (remdups (List.rev xs))"

lemma set_distinct_in_order [simp]: "set (distinct_in_order xs) = set xs"
  by (simp add: distinct_in_order_def)

lemma distinct_in_order_distinct [simp]: "distinct (distinct_in_order xs)"
  by (simp add: distinct_in_order_def)

section \<open>Lenses and manifests\<close>

definition EXPERT_SOURCE_CLASS :: string where
  "EXPERT_SOURCE_CLASS = ''RETRIEVABLE_EXTERNAL_TECHNICAL_SOURCE''"

definition LOCAL_DERIVATION_INITIAL_STATUS :: string where
  "LOCAL_DERIVATION_INITIAL_STATUS = ''LOCAL_ARCHITECTURAL_DERIVATION_CANDIDATE''"

record expert_lens =
  el_lens_id :: string
  el_source_family :: string
  el_domains :: "string list"
  el_retrieval_tags :: "string list"
  el_source_class :: string

record expertise_manifest =
  em_ocs_id :: string
  em_capability_status :: string
  em_lenses :: "expert_lens list"
  em_identity_effect :: string
  em_authority_effect :: string
  em_canon_effect :: string

record retrieval_plan =
  rp_ocs_id :: string
  rp_problem :: string
  rp_candidate_lenses :: "string list"
  rp_allowed_source_families :: "string list"
  rp_retrieval_queries :: "string list"
  rp_source_class :: string
  rp_derivation_status :: string
  rp_authority_effect :: string

definition mk_lens :: "string \<Rightarrow> string \<Rightarrow> string list \<Rightarrow> string list \<Rightarrow> expert_lens" where
  "mk_lens i family domains tags =
     \<lparr>el_lens_id = i, el_source_family = family, el_domains = domains, el_retrieval_tags = tags,
      el_source_class = EXPERT_SOURCE_CLASS\<rparr>"

definition DEDALA_EXPERTISE_MANIFEST :: expertise_manifest where
  "DEDALA_EXPERTISE_MANIFEST =
     \<lparr>em_ocs_id = DEDALA,
      em_capability_status = ''OPTIONAL_SPECIALTY_CAPABILITY'',
      em_lenses =
        [mk_lens ''ARCH_REFACTORING_EVOLUTION'' ''FOWLER''
           [''architecture'', ''refactoring'', ''evolution'', ''patterns'']
           [''refactor'', ''refactoring'', ''architecture'', ''evolution'', ''legacy'', ''pattern'', ''modularity''],
         mk_lens ''DATA_CONSISTENCY_CAUSALITY'' ''KLEPPMANN''
           [''distributed_state'', ''consistency'', ''causality'', ''recovery'', ''replication'', ''logs'']
           [''state'', ''consistency'', ''causality'', ''recovery'', ''replication'', ''distributed'', ''log'', ''failure''],
         mk_lens ''BOUNDARY_DECOMPOSITION_COUPLING'' ''NEWMAN''
           [''boundaries'', ''decomposition'', ''coupling'', ''services'', ''migration'']
           [''boundary'', ''boundaries'', ''decomposition'', ''coupling'', ''service'', ''microservice'', ''migration'', ''monolith''],
         mk_lens ''MESSAGE_INTEGRATION_ROUTING'' ''HOHPE''
           [''messaging'', ''integration'', ''events'', ''routing'', ''transformation'']
           [''message'', ''messaging'', ''integration'', ''event'', ''routing'', ''handoff'', ''receipt'', ''retry'', ''delivery'']],
      em_identity_effect = ''NONE'', em_authority_effect = ''NONE'', em_canon_effect = ''NONE''\<rparr>"

text \<open>The guards of one lens, in the order of the loop.\<close>

definition lens_checks :: "expert_lens \<Rightarrow> (bool \<times> string) list" where
  "lens_checks l =
     [(el_source_class l = EXPERT_SOURCE_CLASS, ''expert_source_must_remain_external_technical_source''),
      (\<not> blank (el_source_family l), ''expert_lens_requires_source_family''),
      (el_retrieval_tags l \<noteq> [], ''expert_lens_requires_retrieval_tags'')]"

definition validate_manifest :: "expertise_manifest \<Rightarrow> unit res" where
  "validate_manifest m =
     checks ([(em_ocs_id m = DEDALA, ''dedala_first_implementation_only''),
              (em_identity_effect m = ''NONE'', ''expertise_must_not_change_identity''),
              (em_authority_effect m = ''NONE'', ''expertise_must_not_create_authority''),
              (em_canon_effect m = ''NONE'', ''expertise_must_not_create_canon''),
              (em_lenses m \<noteq> [], ''expertise_manifest_requires_lenses''),
              (distinct (map el_lens_id (em_lenses m)), ''expert_lens_ids_must_be_unique'')]
             @ concat (map lens_checks (em_lenses m))) ()"

definition lens_score :: "string \<Rightarrow> expert_lens \<Rightarrow> nat" where
  "lens_score normalized l = length (filter (\<lambda>tag. contains_str (casefold tag) normalized) (el_retrieval_tags l))"

definition select_lenses :: "string \<Rightarrow> expert_lens list \<Rightarrow> expert_lens list" where
  "select_lenses problem ls =
     (let normalized = casefold problem;
          scored = filter (\<lambda>(score, _). score \<noteq> 0) (map (\<lambda>l. (lens_score normalized l, l)) ls)
      in map snd (sort_key (\<lambda>(score, l). (- int score, el_lens_id l)) scored))"

definition build_retrieval_plan :: "string \<Rightarrow> expertise_manifest \<Rightarrow> retrieval_plan res" where
  "build_retrieval_plan problem m =
     (case validate_manifest m of
        Inl e \<Rightarrow> Inl e
      | Inr _ \<Rightarrow>
          (let selected = select_lenses problem (em_lenses m)
           in Inr \<lparr>rp_ocs_id = em_ocs_id m,
                   rp_problem = problem,
                   rp_candidate_lenses = map el_lens_id selected,
                   rp_allowed_source_families = distinct_in_order (map el_source_family selected),
                   rp_retrieval_queries = map (\<lambda>l. problem @ '' :: '' @ el_lens_id l @ '' :: '' @ join_with '','' (el_domains l)) selected,
                   rp_source_class = EXPERT_SOURCE_CLASS,
                   rp_derivation_status = LOCAL_DERIVATION_INITIAL_STATUS,
                   rp_authority_effect = ''NONE''\<rparr>))"

section \<open>Sources and fragments\<close>

record expert_source =
  es_source_id :: string
  es_author :: string
  es_work :: string
  es_edition_or_date :: string
  es_source_type :: string
  es_locator :: string
  es_content_hash :: string
  es_ingestion_version :: string
  es_licensing_access_class :: string
  es_retrieval_tags :: "string list"
  es_source_family :: string
  es_provenance_hash :: string
  es_source_class :: string

record expert_fragment =
  xf_source_id :: string
  xf_fragment_id :: string
  xf_content :: string
  xf_locator :: string
  xf_content_hash :: string
  xf_retrieval_tags :: "string list"

definition source_tree :: "expert_source \<Rightarrow> pyval" where
  "source_tree r =
     json_tree (PyDict
       [(''source_id'', PyStr (es_source_id r)),
        (''source_family'', PyStr (es_source_family r)),
        (''author'', PyStr (es_author r)),
        (''work'', PyStr (es_work r)),
        (''edition_or_date'', PyStr (es_edition_or_date r)),
        (''source_type'', PyStr (es_source_type r)),
        (''locator'', PyStr (es_locator r)),
        (''content_hash'', PyStr (es_content_hash r)),
        (''ingestion_version'', PyStr (es_ingestion_version r)),
        (''licensing_access_class'', PyStr (es_licensing_access_class r)),
        (''retrieval_tags'', PyList (map PyStr (es_retrieval_tags r))),
        (''source_class'', PyStr (es_source_class r))])"

definition source_record_digest :: "digest \<Rightarrow> expert_source \<Rightarrow> string" where
  "source_record_digest H r = H (source_tree r)"

text \<open>\<^verbatim>\<open>__post_init__\<close>: the family comes from the identifier, then the digest from the record.\<close>

definition post_init_source :: "digest \<Rightarrow> expert_source \<Rightarrow> expert_source" where
  "post_init_source H r =
     (let r1 = (if es_source_family r = [] then r\<lparr>es_source_family := upper (split_first CHR ''-'' (es_source_id r))\<rparr> else r)
      in if es_provenance_hash r1 = [] then r1\<lparr>es_provenance_hash := source_record_digest H r1\<rparr> else r1)"

definition validate_source_record :: "digest \<Rightarrow> expert_source \<Rightarrow> unit res" where
  "validate_source_record H r =
     checks
       [(es_source_class r = EXPERT_SOURCE_CLASS, ''expert_source_class_must_remain_external''),
        (list_all (\<lambda>v. \<not> blank v)
           [es_source_id r, es_source_family r, es_author r, es_work r, es_source_type r, es_locator r,
            es_content_hash r, es_provenance_hash r, es_ingestion_version r, es_licensing_access_class r],
         ''expert_source_provenance_incomplete''),
        (length (es_content_hash r) = 64, ''expert_source_hash_invalid''),
        (es_provenance_hash r = source_record_digest H r, ''expert_source_provenance_integrity_failure'')] ()"

definition validate_fragment :: "(string \<Rightarrow> string) \<Rightarrow> expert_fragment \<Rightarrow> unit res" where
  "validate_fragment T f =
     checks
       [(xf_source_id f \<noteq> [] \<and> xf_fragment_id f \<noteq> [] \<and> xf_locator f \<noteq> [], ''expert_fragment_provenance_incomplete''),
        (T (xf_content f) = xf_content_hash f, ''expert_fragment_integrity_failure'')] ()"

section \<open>Retrieval\<close>

record expert_evidence =
  xe_source_id :: string
  xe_fragment_id :: string
  xe_locator :: string
  xe_content :: string
  xe_source_class :: string
  xe_applicability_score :: nat
  xe_source_family :: string
  xe_authority_effect :: string
  xe_canon_effect :: string

text \<open>\<^verbatim>\<open>{source.source_id: source for source in sources}\<close>: the last of a name wins.\<close>

definition source_by_id :: "expert_source list \<Rightarrow> string \<Rightarrow> expert_source option" where
  "source_by_id sources i = map_of (fold (\<lambda>s d. dset (es_source_id s) s d) sources []) i"

definition shared_terms :: "string list \<Rightarrow> expert_source \<Rightarrow> expert_fragment \<Rightarrow> nat" where
  "shared_terms terms s f =
     length (filter (\<lambda>t. t \<in> set (map casefold (es_retrieval_tags s @ xf_retrieval_tags f))) (remdups terms))"

definition cite :: "expert_source \<Rightarrow> expert_fragment \<Rightarrow> nat \<Rightarrow> expert_evidence" where
  "cite s f score =
     \<lparr>xe_source_id = es_source_id s, xe_fragment_id = xf_fragment_id f, xe_locator = xf_locator f,
      xe_content = xf_content f, xe_source_class = es_source_class s, xe_applicability_score = score,
      xe_source_family = es_source_family s, xe_authority_effect = ''NONE'', xe_canon_effect = ''NONE''\<rparr>"

text \<open>One turn of the loop: an error, nothing (\<^verbatim>\<open>continue\<close>) or one piece of evidence.\<close>

definition examine :: "(string \<Rightarrow> string) \<Rightarrow> expert_source list \<Rightarrow> string list \<Rightarrow> string list
    \<Rightarrow> expert_fragment \<Rightarrow> expert_evidence list res" where
  "examine T sources families terms f =
     (case validate_fragment T f of
        Inl e \<Rightarrow> Inl e
      | Inr _ \<Rightarrow>
          (case source_by_id sources (xf_source_id f) of
             None \<Rightarrow> Inl (ValueError ''expert_fragment_source_missing'')
           | Some s \<Rightarrow>
               if es_source_family s \<notin> set families then Inr []
               else (let score = shared_terms terms s f
                     in if score = 0 then Inr [] else Inr [cite s f score])))"

definition evidence_rank :: "expert_evidence \<Rightarrow> int \<times> string \<times> string \<times> string" where
  "evidence_rank e = (- int (xe_applicability_score e), xe_source_family e, xe_source_id e, xe_fragment_id e)"

definition retrieve_expert_evidence ::
    "digest \<Rightarrow> (string \<Rightarrow> string) \<Rightarrow> retrieval_plan \<Rightarrow> expert_source list \<Rightarrow> expert_fragment list
       \<Rightarrow> expert_evidence list res" where
  "retrieve_expert_evidence H T plan sources fragments =
     (if rp_authority_effect plan \<noteq> ''NONE'' then Inl (ValueError ''retrieval_must_not_expand_authority'')
      else if rp_candidate_lenses plan = [] then Inr []
      else if rp_allowed_source_families plan = [] then Inl (ValueError ''retrieval_plan_requires_allowed_source_families'')
      else
        (case traverse (validate_source_record H) sources of
           Inl e \<Rightarrow> Inl e
         | Inr _ \<Rightarrow>
             map_sum id (\<lambda>found. sort_key evidence_rank (concat found))
               (traverse (examine T sources (rp_allowed_source_families plan) (words_of (casefold (rp_problem plan)))) fragments)))"

end
