(* ===== verification/Expertise_Corpus.thy ===== *)
theory Expertise_Corpus
  imports Expertise_Retrieval
begin

text \<open>
  \<^verbatim>\<open>app/expertise/corpus.py\<close>: the sources and the fragments that the program ships with,
  and the validation it makes of them before they are used.
\<close>

section \<open>Construction\<close>

definition CORPUS_INGESTION_VERSION :: string where
  "CORPUS_INGESTION_VERSION = ''dedala-expertise-corpus-v0.1.0''"

definition CORPUS_ACCESS_CLASS :: string where
  "CORPUS_ACCESS_CLASS = ''PUBLIC_REFERENCE_ORIGINAL_PARAPHRASE_ONLY''"

definition SOURCE_TYPE :: string where
  "SOURCE_TYPE = ''PUBLIC_WEB_REFERENCE_WITH_ORIGINAL_PARAPHRASE''"

definition seed_source ::
    "digest \<Rightarrow> (string \<Rightarrow> string) \<Rightarrow> string \<Rightarrow> string \<Rightarrow> string \<Rightarrow> string \<Rightarrow> string \<Rightarrow> string list \<Rightarrow> expert_source" where
  "seed_source H T source_id author work edition locator tags =
     post_init_source H
       \<lparr>es_source_id = source_id, es_author = author, es_work = work, es_edition_or_date = edition,
        es_source_type = SOURCE_TYPE, es_locator = locator,
        es_content_hash = T (join_with ''|'' [source_id, author, work, edition, locator, CORPUS_INGESTION_VERSION, CORPUS_ACCESS_CLASS]),
        es_ingestion_version = CORPUS_INGESTION_VERSION, es_licensing_access_class = CORPUS_ACCESS_CLASS,
        es_retrieval_tags = tags, es_source_family = [], es_provenance_hash = [],
        es_source_class = EXPERT_SOURCE_CLASS\<rparr>"

definition seed_fragment :: "(string \<Rightarrow> string) \<Rightarrow> string \<Rightarrow> string \<Rightarrow> string \<Rightarrow> string \<Rightarrow> string list \<Rightarrow> expert_fragment" where
  "seed_fragment T source_id fragment_id content locator tags =
     \<lparr>xf_source_id = source_id, xf_fragment_id = fragment_id, xf_content = content, xf_locator = locator,
      xf_content_hash = T content, xf_retrieval_tags = tags\<rparr>"

section \<open>The corpus\<close>

definition DEDALA_EXPERT_SOURCES :: "digest \<Rightarrow> (string \<Rightarrow> string) \<Rightarrow> expert_source list" where
  "DEDALA_EXPERT_SOURCES H T =
     [seed_source H T ''FOWLER-REFACTORING-2018'' ''Martin Fowler''
        ''Refactoring: Improving the Design of Existing Code''
        ''2nd edition, 2018''
        ''https://martinfowler.com/books/refactoring.html''
        [''refactor'', ''refactoring'', ''evolution'', ''legacy'', ''testing''],
      seed_source H T ''FOWLER-POEAA-2002'' ''Martin Fowler''
        ''Patterns of Enterprise Application Architecture''
        ''2002''
        ''https://martinfowler.com/books/eaa.html''
        [''architecture'', ''pattern'', ''modularity'', ''enterprise''],
      seed_source H T ''KLEPPMANN-DISTRIBUTED-LOCKING-2016'' ''Martin Kleppmann''
        ''How to do distributed locking''
        ''2016-02-08''
        ''https://martin.kleppmann.com/2016/02/08/how-to-do-distributed-locking.html''
        [''distributed'', ''consistency'', ''failure'', ''state'', ''locking''],
      seed_source H T ''KLEPPMANN-CAP-2015'' ''Martin Kleppmann''
        ''Please stop calling databases CP or AP''
        ''2015-05-11''
        ''https://martin.kleppmann.com/2015/05/11/please-stop-calling-databases-cp-or-ap.html''
        [''distributed'', ''consistency'', ''failure'', ''replication'', ''database''],
      seed_source H T ''KLEPPMANN-KAFKA-TOPICS-2018'' ''Martin Kleppmann''
        ''Should you put several event types in the same Kafka topic?''
        ''2018-01-18''
        ''https://martin.kleppmann.com/2018/01/18/event-types-in-kafka-topic.html''
        [''event'', ''log'', ''distributed'', ''stream'', ''topic''],
      seed_source H T ''NEWMAN-BUILDING-MICROSERVICES-2E'' ''Sam Newman''
        ''Building Microservices, 2nd Edition''
        ''2nd edition''
        ''https://samnewman.io/books/building_microservices_2nd_edition/''
        [''boundary'', ''coupling'', ''service'', ''microservice'', ''decomposition''],
      seed_source H T ''NEWMAN-COUPLING-COHESION'' ''Sam Newman''
        ''Hiding The Lead: Information hiding, coupling, and cohesion''
        ''public talk page''
        ''https://samnewman.io/talks/microservices-coupling-cohesion/''
        [''boundary'', ''coupling'', ''service'', ''microservice'', ''cohesion''],
      seed_source H T ''NEWMAN-GREENFIELD-2015'' ''Sam Newman''
        ''Microservices For Greenfield?''
        ''2015-04-07''
        ''https://samnewman.io/blog/2015/04/07/microservices-for-greenfield/''
        [''boundary'', ''decomposition'', ''coupling'', ''migration'', ''monolith''],
      seed_source H T ''HOHPE-EIP-INTRODUCTION'' ''Gregor Hohpe''
        ''Enterprise Integration Patterns: Introduction''
        ''public pattern site''
        ''https://www.enterpriseintegrationpatterns.com/patterns/messaging/Introduction.html''
        [''message'', ''messaging'', ''integration'', ''routing'', ''transformation''],
      seed_source H T ''HOHPE-EIP-MESSAGING-OVERVIEW'' ''Gregor Hohpe''
        ''Messaging Patterns Overview''
        ''public pattern site''
        ''https://www.enterpriseintegrationpatterns.com/patterns/messaging/index.html''
        [''message'', ''messaging'', ''integration'', ''routing'', ''event'', ''delivery'']]"

definition DEDALA_EXPERT_FRAGMENTS :: "(string \<Rightarrow> string) \<Rightarrow> expert_fragment list" where
  "DEDALA_EXPERT_FRAGMENTS T =
     [seed_fragment T ''FOWLER-REFACTORING-2018'' ''FOWLER-REF-001''
        ''Prefer small, behavior-preserving structural changes so architecture can evolve without requiring a risky all-at-once rewrite.''
        ''https://martinfowler.com/books/refactoring.html''
        [''refactor'', ''refactoring'', ''evolution'', ''legacy''],
      seed_fragment T ''FOWLER-REFACTORING-2018'' ''FOWLER-REF-002''
        ''Treat refactoring as an ongoing design activity supported by tests, not as a separate rewrite phase performed only after deterioration.''
        ''https://martinfowler.com/books/refactoring.html''
        [''refactoring'', ''testing'', ''evolution'', ''architecture''],
      seed_fragment T ''FOWLER-POEAA-2002'' ''FOWLER-ARCH-001''
        ''Enterprise architecture patterns are reusable descriptions of recurring design structures; their value depends on matching a pattern to the forces of the current context.''
        ''https://martinfowler.com/books/eaa.html''
        [''architecture'', ''pattern'', ''enterprise'', ''modularity''],
      seed_fragment T ''KLEPPMANN-DISTRIBUTED-LOCKING-2016'' ''KLEPPMANN-LOCK-001''
        ''When a distributed lock protects correctness rather than merely efficiency, the protected resource must reject stale actors; fencing tokens are one way to enforce that boundary.''
        ''https://martin.kleppmann.com/2016/02/08/how-to-do-distributed-locking.html''
        [''distributed'', ''consistency'', ''failure'', ''state'', ''locking''],
      seed_fragment T ''KLEPPMANN-CAP-2015'' ''KLEPPMANN-CAP-001''
        ''Avoid reducing a distributed datastore to a simple CP or AP label; reason about the exact operation, guarantees, failure mode, and configuration instead.''
        ''https://martin.kleppmann.com/2015/05/11/please-stop-calling-databases-cp-or-ap.html''
        [''distributed'', ''consistency'', ''failure'', ''database''],
      seed_fragment T ''KLEPPMANN-KAFKA-TOPICS-2018'' ''KLEPPMANN-KAFKA-001''
        ''Event-stream partitioning should balance consumer selectivity against operational overhead; neither one universal topic nor extreme topic fragmentation is a sound default.''
        ''https://martin.kleppmann.com/2018/01/18/event-types-in-kafka-topic.html''
        [''event'', ''log'', ''distributed'', ''stream''],
      seed_fragment T ''NEWMAN-COUPLING-COHESION'' ''NEWMAN-BOUND-001''
        ''Service boundaries should follow information hiding, coupling, cohesion, and domain understanding rather than arbitrary technical layers.''
        ''https://samnewman.io/talks/microservices-coupling-cohesion/''
        [''boundary'', ''coupling'', ''service'', ''microservice''],
      seed_fragment T ''NEWMAN-GREENFIELD-2015'' ''NEWMAN-DECOMP-001''
        ''Decomposition should be incremental and goal-driven because incorrect service boundaries create expensive cross-service change and coupling.''
        ''https://samnewman.io/blog/2015/04/07/microservices-for-greenfield/''
        [''decomposition'', ''boundary'', ''coupling'', ''migration'', ''monolith''],
      seed_fragment T ''NEWMAN-BUILDING-MICROSERVICES-2E'' ''NEWMAN-COMM-001''
        ''Choose synchronous, asynchronous, request-response, or event-driven collaboration according to workflow and coupling consequences rather than adopting one communication style universally.''
        ''https://samnewman.io/books/building_microservices_2nd_edition/''
        [''service'', ''microservice'', ''coupling'', ''event'', ''workflow''],
      seed_fragment T ''HOHPE-EIP-INTRODUCTION'' ''HOHPE-ROUTE-001''
        ''As messaging topologies grow, senders should not need detailed receiver knowledge; routing responsibilities can be isolated in explicit intermediary components.''
        ''https://www.enterpriseintegrationpatterns.com/patterns/messaging/Introduction.html''
        [''message'', ''messaging'', ''integration'', ''routing''],
      seed_fragment T ''HOHPE-EIP-INTRODUCTION'' ''HOHPE-TRANSFORM-001''
        ''When independently evolved systems disagree on message representation or meaning, explicit transformation components should mediate the contract instead of leaking format conversion everywhere.''
        ''https://www.enterpriseintegrationpatterns.com/patterns/messaging/Introduction.html''
        [''message'', ''integration'', ''transformation'', ''contract''],
      seed_fragment T ''HOHPE-EIP-MESSAGING-OVERVIEW'' ''HOHPE-ENDPOINT-001''
        ''Messaging endpoints form an explicit boundary between an application and the messaging infrastructure, keeping message production and consumption concerns from diffusing through domain code.''
        ''https://www.enterpriseintegrationpatterns.com/patterns/messaging/index.html''
        [''message'', ''messaging'', ''integration'', ''boundary'', ''delivery'']]"

section \<open>Validation\<close>

text \<open>The two guards for one prefix, in the order of the loop.\<close>

definition family_checks :: "expert_source list \<Rightarrow> expert_fragment list \<Rightarrow> string \<Rightarrow> (bool \<times> string) list" where
  "family_checks sources fragments prefix =
     [(list_ex (\<lambda>s. starts_with prefix (es_source_id s)) sources, ''expert_corpus_family_missing''),
      (list_ex (\<lambda>f. starts_with prefix (xf_fragment_id f)) fragments, ''expert_corpus_family_fragment_missing'')]"

definition validate_corpus :: "expert_source list \<Rightarrow> expert_fragment list \<Rightarrow> unit res" where
  "validate_corpus sources fragments =
     checks ([(distinct (map es_source_id sources), ''expert_corpus_source_ids_must_be_unique''),
              (distinct (map xf_fragment_id fragments), ''expert_corpus_fragment_ids_must_be_unique''),
              (list_all (\<lambda>f. xf_source_id f \<in> set (map es_source_id sources)) fragments, ''expert_corpus_fragment_source_missing'')]
             @ concat (map (family_checks sources fragments) [''FOWLER-'', ''KLEPPMANN-'', ''NEWMAN-'', ''HOHPE-''])) ()"

definition validate_seed_corpus :: "digest \<Rightarrow> (string \<Rightarrow> string) \<Rightarrow> unit res" where
  "validate_seed_corpus H T = validate_corpus (DEDALA_EXPERT_SOURCES H T) (DEDALA_EXPERT_FRAGMENTS T)"

end
