(* ===== verification/Expertise_Physiology.thy ===== *)
theory Expertise_Physiology
  imports Expertise_Corpus Mediation
begin

text \<open>
  \<^verbatim>\<open>derivation.py\<close>, \<^verbatim>\<open>assurance.py\<close> and \<^verbatim>\<open>physiology.py\<close> of \<^verbatim>\<open>app/expertise\<close>: a
  derivation with its states, the receipts that bind an assessment to the derivation, and the
  path from a problem over evidence and two assessments to the kernel.

  The port \<^verbatim>\<open>KernelExecutionPort\<close> is the runtime of \<^verbatim>\<open>Kernel_Runtime\<close>. An evaluator is a
  parameter: an object without a method \<^verbatim>\<open>evaluate\<close> is \<open>None\<close>, and its answer is an error, an
  object of another type (\<open>None\<close>) or a receipt. An evaluator has no access to the kernel.
\<close>

section \<open>Derivations\<close>

record derivation =
  ad_ocs_id :: string
  ad_problem :: string
  ad_proposition :: string
  ad_candidate_lenses :: "string list"
  ad_evidence_refs :: "string list"
  ad_derivation_status :: string
  ad_falsification_status :: string
  ad_verification_status :: string
  ad_persistence_status :: string
  ad_identity_effect :: string
  ad_authority_effect :: string
  ad_canon_effect :: string

definition evidence_reference :: "expert_evidence \<Rightarrow> string" where
  "evidence_reference e = xe_source_id e @ '':'' @ xe_fragment_id e @ ''@'' @ xe_locator e"

definition evidence_checks :: "expert_evidence \<Rightarrow> (bool \<times> string) list" where
  "evidence_checks e =
     [(xe_authority_effect e = ''NONE'', ''expert_evidence_must_not_create_authority''),
      (xe_canon_effect e = ''NONE'', ''expert_evidence_must_not_create_canon'')]"

definition draft_architectural_derivation ::
    "retrieval_plan \<Rightarrow> expert_evidence list \<Rightarrow> string \<Rightarrow> derivation res" where
  "draft_architectural_derivation plan evidence proposition =
     checks ([(rp_ocs_id plan = DEDALA, ''dedala_first_implementation_only''),
              (rp_authority_effect plan = ''NONE'', ''derivation_must_not_expand_authority''),
              (\<not> blank proposition, ''derivation_requires_proposition''),
              (evidence \<noteq> [], ''derivation_requires_retrieved_evidence'')]
             @ concat (map evidence_checks evidence))
       \<lparr>ad_ocs_id = rp_ocs_id plan, ad_problem = rp_problem plan, ad_proposition = strip_spaces proposition,
        ad_candidate_lenses = rp_candidate_lenses plan,
        ad_evidence_refs = distinct_in_order (map evidence_reference evidence),
        ad_derivation_status = LOCAL_DERIVATION_INITIAL_STATUS,
        ad_falsification_status = ''FALSIFICATION_PENDING'',
        ad_verification_status = ''VERIFICATION_PENDING'',
        ad_persistence_status = ''NOT_ELIGIBLE'',
        ad_identity_effect = ''NONE'', ad_authority_effect = ''NONE'', ad_canon_effect = ''NONE''\<rparr>"

definition record_falsification :: "derivation \<Rightarrow> bool \<Rightarrow> derivation res" where
  "record_falsification d survived =
     checks [(ad_falsification_status d = ''FALSIFICATION_PENDING'', ''falsification_already_recorded'')]
       (d\<lparr>ad_falsification_status := (if survived then ''FALSIFICATION_SURVIVED'' else ''FALSIFICATION_FAILED'')\<rparr>)"

definition record_verification :: "derivation \<Rightarrow> bool \<Rightarrow> derivation res" where
  "record_verification d verified =
     checks [(ad_falsification_status d = ''FALSIFICATION_SURVIVED'', ''verification_requires_survived_falsification''),
             (ad_verification_status d = ''VERIFICATION_PENDING'', ''verification_already_recorded'')]
       (if \<not> verified then d\<lparr>ad_verification_status := ''FAILED''\<rparr>
        else d\<lparr>ad_verification_status := ''VERIFIED'', ad_persistence_status := ''PERSISTENCE_ELIGIBLE''\<rparr>)"

definition assert_persistence_eligible :: "derivation \<Rightarrow> unit res" where
  "assert_persistence_eligible d =
     checks [(ad_falsification_status d = ''FALSIFICATION_SURVIVED'', ''persistence_requires_survived_falsification''),
             (ad_verification_status d = ''VERIFIED'', ''persistence_requires_verification''),
             (ad_persistence_status d = ''PERSISTENCE_ELIGIBLE'', ''derivation_not_persistence_eligible''),
             (ad_authority_effect d = ''NONE'', ''derivation_must_not_create_authority''),
             (ad_canon_effect d = ''NONE'', ''derivation_must_not_create_canon'')] ()"

section \<open>Receipts\<close>

definition candidate_tree :: "derivation \<Rightarrow> pyval" where
  "candidate_tree d =
     json_tree (PyDict
       [(''ocs_id'', PyStr (ad_ocs_id d)),
        (''problem'', PyStr (ad_problem d)),
        (''proposition'', PyStr (ad_proposition d)),
        (''candidate_lenses'', PyList (map PyStr (ad_candidate_lenses d))),
        (''evidence_refs'', PyList (map PyStr (ad_evidence_refs d))),
        (''identity_effect'', PyStr (ad_identity_effect d)),
        (''authority_effect'', PyStr (ad_authority_effect d)),
        (''canon_effect'', PyStr (ad_canon_effect d))])"

definition candidate_binding :: "digest \<Rightarrow> derivation \<Rightarrow> string" where
  "candidate_binding H d = H (candidate_tree d)"

definition evidence_item :: "expert_evidence \<Rightarrow> pyval" where
  "evidence_item e =
     PyDict
       [(''source_id'', PyStr (xe_source_id e)),
        (''source_family'', PyStr (xe_source_family e)),
        (''fragment_id'', PyStr (xe_fragment_id e)),
        (''locator'', PyStr (xe_locator e)),
        (''content'', PyStr (xe_content e)),
        (''source_class'', PyStr (xe_source_class e)),
        (''applicability_score'', PyInt (int (xe_applicability_score e))),
        (''authority_effect'', PyStr (xe_authority_effect e)),
        (''canon_effect'', PyStr (xe_canon_effect e))]"

definition evidence_tree :: "expert_evidence list \<Rightarrow> pyval" where
  "evidence_tree evidence = json_tree (PyList (map evidence_item evidence))"

definition evidence_binding :: "digest \<Rightarrow> expert_evidence list \<Rightarrow> string" where
  "evidence_binding H evidence = H (evidence_tree evidence)"

record falsification_receipt =
  fr_receipt_id :: string
  fr_candidate_binding :: string
  fr_evidence_binding :: string
  fr_assessed_revision :: string
  fr_procedure_id :: string
  fr_survived :: bool
  fr_evidence_refs :: "string list"

record verification_receipt =
  vr_receipt_id :: string
  vr_candidate_binding :: string
  vr_evidence_binding :: string
  vr_assessed_revision :: string
  vr_procedure_id :: string
  vr_verified :: bool
  vr_evidence_refs :: "string list"

definition validate_falsification_receipt ::
    "digest \<Rightarrow> falsification_receipt option \<Rightarrow> derivation \<Rightarrow> expert_evidence list \<Rightarrow> string
       \<Rightarrow> falsification_receipt res" where
  "validate_falsification_receipt H answer d evidence revision =
     (case answer of
        None \<Rightarrow> Inl (ValueError ''typed_falsification_receipt_required'')
      | Some r \<Rightarrow>
          checks
            [(\<not> blank (fr_receipt_id r) \<and> \<not> blank (fr_procedure_id r), ''falsification_receipt_incomplete''),
             (fr_assessed_revision r = revision \<and> \<not> blank revision, ''falsification_receipt_revision_mismatch''),
             (fr_candidate_binding r = candidate_binding H d, ''falsification_receipt_candidate_mismatch''),
             (fr_evidence_binding r = evidence_binding H evidence, ''falsification_receipt_evidence_mismatch''),
             (fr_evidence_refs r = ad_evidence_refs d, ''falsification_receipt_refs_mismatch'')] r)"

definition validate_verification_receipt ::
    "digest \<Rightarrow> verification_receipt option \<Rightarrow> derivation \<Rightarrow> expert_evidence list \<Rightarrow> string
       \<Rightarrow> verification_receipt res" where
  "validate_verification_receipt H answer d evidence revision =
     (case answer of
        None \<Rightarrow> Inl (ValueError ''typed_verification_receipt_required'')
      | Some r \<Rightarrow>
          checks
            [(\<not> blank (vr_receipt_id r) \<and> \<not> blank (vr_procedure_id r), ''verification_receipt_incomplete''),
             (vr_assessed_revision r = revision \<and> \<not> blank revision, ''verification_receipt_revision_mismatch''),
             (vr_candidate_binding r = candidate_binding H d, ''verification_receipt_candidate_mismatch''),
             (vr_evidence_binding r = evidence_binding H evidence, ''verification_receipt_evidence_mismatch''),
             (vr_evidence_refs r = ad_evidence_refs d, ''verification_receipt_refs_mismatch'')] r)"

type_synonym falsifier = "(derivation \<Rightarrow> expert_evidence list \<Rightarrow> string \<Rightarrow> falsification_receipt option res) option"
type_synonym verifier = "(derivation \<Rightarrow> expert_evidence list \<Rightarrow> string \<Rightarrow> verification_receipt option res) option"

section \<open>The path to the kernel\<close>

record physiology_outcome =
  po_action_id :: string
  po_problem :: string
  po_phases :: "string list"
  po_retrieval_plan :: "retrieval_plan option"
  po_evidence :: "expert_evidence list"
  po_candidate :: "derivation option"
  po_kernel_result :: "execution_result option"
  po_material_execution_attempted :: bool
  po_reason :: string
  po_falsification_receipt :: "falsification_receipt option"
  po_verification_receipt :: "verification_receipt option"
  po_identity_effect :: string
  po_authority_effect :: string
  po_canon_effect :: string

record 'w physiology =
  ph_kernel :: "'w kernel"
  ph_sources :: "expert_source list"
  ph_fragments :: "expert_fragment list"

definition new_physiology ::
    "digest \<Rightarrow> (string \<Rightarrow> string) \<Rightarrow> 'w kernel \<Rightarrow> expert_source list option \<Rightarrow> expert_fragment list option
       \<Rightarrow> 'w physiology res" where
  "new_physiology H T k sources fragments =
     (case (sources, fragments) of
        (Some s, Some f) \<Rightarrow> Inr \<lparr>ph_kernel = k, ph_sources = s, ph_fragments = f\<rparr>
      | (None, None) \<Rightarrow>
          map_sum id (\<lambda>_. \<lparr>ph_kernel = k, ph_sources = DEDALA_EXPERT_SOURCES H T,
                          ph_fragments = DEDALA_EXPERT_FRAGMENTS T\<rparr>) (validate_seed_corpus H T)
      | _ \<Rightarrow> Inl (ValueError ''complete_expertise_corpus_configuration_required''))"

definition on_kernel :: "('w kernel, 'a) py \<Rightarrow> ('w physiology, 'a) py" where
  "on_kernel m = py_on ph_kernel (\<lambda>k p. p\<lparr>ph_kernel := k\<rparr>) m"

definition blocked ::
    "action_proposal \<Rightarrow> string \<Rightarrow> string list \<Rightarrow> retrieval_plan \<Rightarrow> string \<Rightarrow> expert_evidence list
       \<Rightarrow> derivation option \<Rightarrow> falsification_receipt option \<Rightarrow> verification_receipt option \<Rightarrow> physiology_outcome" where
  "blocked p problem phases plan reason evidence candidate fr vr =
     \<lparr>po_action_id = ap_action_id p, po_problem = problem, po_phases = phases, po_retrieval_plan = Some plan,
      po_evidence = evidence, po_candidate = candidate, po_kernel_result = None,
      po_material_execution_attempted = False, po_reason = reason,
      po_falsification_receipt = fr, po_verification_receipt = vr,
      po_identity_effect = ''NONE'', po_authority_effect = ''NONE'', po_canon_effect = ''NONE''\<rparr>"

definition initial_phases :: "string list" where
  "initial_phases = [''BOOT'', ''LOAD_CONSTITUTION'', ''RECOVER_STATE'', ''BIND_ACTIVE_IDENTITY'',
     ''LOAD_EXPERTISE_MANIFEST'', ''UNDERSTAND'', ''FORMULATE'', ''PROBLEM_CLASSIFICATION'', ''SELECT_EXPERT_LENSES'']"

text \<open>
  The last stage. A proposal is a frozen dataclass, so the comparison of its evidence and its
  authority with what they were before the call cannot fail; it is not repeated here.
\<close>

definition hand_to_kernel ::
    "digest \<Rightarrow> mac \<Rightarrow> kernel_clock \<Rightarrow> action_proposal \<Rightarrow> string \<Rightarrow> string list \<Rightarrow> retrieval_plan \<Rightarrow> expert_evidence list
       \<Rightarrow> derivation \<Rightarrow> falsification_receipt \<Rightarrow> verification_receipt \<Rightarrow> ('w physiology, physiology_outcome) py" where
  "hand_to_kernel H M ck p problem phases plan evidence d fr vr =
     py_bind (py_lift (assert_persistence_eligible d)) (\<lambda>_.
     py_bind (on_kernel (Kernel_Runtime.execute H M ck p)) (\<lambda>result.
     py_return
       \<lparr>po_action_id = ap_action_id p, po_problem = problem,
        po_phases = phases @ [''DERIVATION_PERSISTENCE_ELIGIBLE'', ''KERNEL_GOVERNANCE_AND_EXECUTION''],
        po_retrieval_plan = Some plan, po_evidence = evidence, po_candidate = Some d,
        po_kernel_result = Some result, po_material_execution_attempted = True,
        po_reason = er_reason result, po_falsification_receipt = Some fr, po_verification_receipt = Some vr,
        po_identity_effect = ''NONE'', po_authority_effect = ''NONE'', po_canon_effect = ''NONE''\<rparr>))"

definition verify_stage ::
    "digest \<Rightarrow> mac \<Rightarrow> kernel_clock \<Rightarrow> action_proposal \<Rightarrow> string \<Rightarrow> string list \<Rightarrow> retrieval_plan \<Rightarrow> expert_evidence list
       \<Rightarrow> derivation \<Rightarrow> falsification_receipt \<Rightarrow> string
       \<Rightarrow> (derivation \<Rightarrow> expert_evidence list \<Rightarrow> string \<Rightarrow> verification_receipt option res)
       \<Rightarrow> ('w physiology, physiology_outcome) py" where
  "verify_stage H M ck p problem phases plan evidence d fr revision evaluate =
     py_bind (py_lift (evaluate d evidence revision)) (\<lambda>answer.
     py_bind (py_lift (validate_verification_receipt H answer d evidence revision)) (\<lambda>vr.
     py_bind (py_lift (record_verification d (vr_verified vr))) (\<lambda>d2.
     if ad_verification_status d2 \<noteq> ''VERIFIED'' then
       py_return (blocked p problem (phases @ [''VERIFY'']) plan ''expertise_verification_failed'' evidence (Some d2) (Some fr) (Some vr))
     else hand_to_kernel H M ck p problem (phases @ [''VERIFY'']) plan evidence d2 fr vr)))"

definition falsify_stage ::
    "digest \<Rightarrow> mac \<Rightarrow> kernel_clock \<Rightarrow> action_proposal \<Rightarrow> string \<Rightarrow> string list \<Rightarrow> retrieval_plan \<Rightarrow> expert_evidence list
       \<Rightarrow> derivation \<Rightarrow> string
       \<Rightarrow> (derivation \<Rightarrow> expert_evidence list \<Rightarrow> string \<Rightarrow> falsification_receipt option res)
       \<Rightarrow> (derivation \<Rightarrow> expert_evidence list \<Rightarrow> string \<Rightarrow> verification_receipt option res)
       \<Rightarrow> ('w physiology, physiology_outcome) py" where
  "falsify_stage H M ck p problem phases plan evidence d revision falsify verify =
     py_bind (py_lift (falsify d evidence revision)) (\<lambda>answer.
     py_bind (py_lift (validate_falsification_receipt H answer d evidence revision)) (\<lambda>fr.
     py_bind (py_lift (record_falsification d (fr_survived fr))) (\<lambda>d1.
     if ad_falsification_status d1 \<noteq> ''FALSIFICATION_SURVIVED'' then
       py_return (blocked p problem (phases @ [''FALSIFY'']) plan ''expertise_falsification_failed'' evidence (Some d1) (Some fr) None)
     else verify_stage H M ck p problem (phases @ [''FALSIFY'']) plan evidence d1 fr revision verify)))"

definition physiology_execute ::
    "digest \<Rightarrow> (string \<Rightarrow> string) \<Rightarrow> mac \<Rightarrow> kernel_clock \<Rightarrow> action_proposal \<Rightarrow> string \<Rightarrow> string \<Rightarrow> string
       \<Rightarrow> falsifier \<Rightarrow> verifier \<Rightarrow> ('w physiology, physiology_outcome) py" where
  "physiology_execute H T M ck p problem proposition revision falsifier verifier =
     py_bind (py_gets (\<lambda>s. kr_identity (ph_kernel s) \<noteq> None)) (\<lambda>institutional_run.
     py_bind (py_lift (checks
       [(ap_ocs p = DEDALA, ''dedala_expertise_path_requires_dedala_proposal''),
        (institutional_run, ''institutional_identity_binding_required_for_expertise''),
        (\<not> blank problem, ''expertise_problem_required''),
        (\<not> blank revision, ''assessed_revision_required''),
        (falsifier \<noteq> None, ''typed_falsification_evaluator_required''),
        (verifier \<noteq> None, ''typed_verification_evaluator_required'')] ())) (\<lambda>_.
     py_bind (py_lift (build_retrieval_plan problem DEDALA_EXPERTISE_MANIFEST)) (\<lambda>plan.
     if rp_candidate_lenses plan = [] then
       py_return (blocked p problem initial_phases plan ''no_applicable_expert_lens'' [] None None None)
     else
       py_bind (py_gets ph_sources) (\<lambda>sources.
       py_bind (py_gets ph_fragments) (\<lambda>fragments.
       py_bind (py_lift (retrieve_expert_evidence H T plan sources fragments)) (\<lambda>evidence.
       if evidence = [] then
         py_return (blocked p problem (initial_phases @ [''RETRIEVE_EXPERT_EVIDENCE'']) plan ''no_applicable_expert_evidence'' [] None None None)
       else
         py_bind (py_lift (draft_architectural_derivation plan evidence proposition)) (\<lambda>d.
         falsify_stage H M ck p problem (initial_phases @ [''RETRIEVE_EXPERT_EVIDENCE'', ''PLAN'']) plan evidence d revision
           (the falsifier) (the verifier))))))))"

end
