(* ===== verification/Expertise_Safety.thy ===== *)
theory Expertise_Safety
  imports Expertise_Physiology Kernel_Samples
begin

text \<open>
  What is shown of \<^verbatim>\<open>app/expertise\<close>: the evidence that a retrieval gives is exactly the
  relevant part of validated material, the shipped corpus never makes it fail, a derivation is
  eligible only after both assessments in their order, and a proposal reaches the kernel only
  over receipts that are bound to the derivation and the evidence it rests on.
\<close>

section \<open>The selection of sources\<close>

lemma fold_dset_map_of:
  "map_of (fold (\<lambda>s d. dset (key s) s d) xs d) i =
     (case map_of (List.rev (map (\<lambda>s. (key s, s)) xs)) i of None \<Rightarrow> map_of d i | Some s \<Rightarrow> Some s)"
  by (induction xs arbitrary: d) (auto simp: map_add_def split: option.splits)

lemma source_by_id_last: "source_by_id sources i = map_of (List.rev (map (\<lambda>s. (es_source_id s, s)) sources)) i"
  by (simp add: source_by_id_def fold_dset_map_of split: option.split)

lemma source_by_id_Some: "source_by_id sources i = Some s \<Longrightarrow> s \<in> set sources \<and> es_source_id s = i"
  unfolding source_by_id_last by (drule map_of_SomeD) auto

lemma source_by_id_known: "i \<in> set (map es_source_id sources) \<Longrightarrow> \<exists>s. source_by_id sources i = Some s"
  by (cases "source_by_id sources i") (force simp: source_by_id_last map_of_eq_None_iff)+

lemma traverse_map: "traverse f xs = Inr ys \<Longrightarrow> map Inr ys = map f xs"
  by (induction xs arbitrary: ys) (auto simp: map_sum_id_Inr split: sum.splits)

lemma traverse_each: "traverse f xs = Inr ys \<Longrightarrow> x \<in> set xs \<Longrightarrow> \<exists>y \<in> set ys. f x = Inr y"
  by (drule traverse_map) (metis image_iff list.set_map)

lemma examine_Inr:
  "examine T sources families terms f = Inr found \<longleftrightarrow>
     validate_fragment T f = Inr () \<and>
     (\<exists>s. source_by_id sources (xf_source_id f) = Some s \<and>
        found = (if es_source_family s \<in> set families \<and> shared_terms terms s f \<noteq> 0
                 then [cite s f (shared_terms terms s f)] else []))"
  by (auto simp: examine_def Let_def split: sum.splits option.splits if_split_asm)

lemma validate_fragment_Inr:
  "validate_fragment T f = Inr u \<longleftrightarrow> (xf_source_id f \<noteq> [] \<and> xf_fragment_id f \<noteq> [] \<and> xf_locator f \<noteq> []) \<and>
     T (xf_content f) = xf_content_hash f"
  by (simp add: validate_fragment_def checks_Inr del: checks.simps)

text \<open>What makes a fragment relevant to a plan, and its citation.\<close>

definition relevant :: "expert_source list \<Rightarrow> retrieval_plan \<Rightarrow> expert_fragment \<Rightarrow> bool" where
  "relevant sources plan f =
     (case source_by_id sources (xf_source_id f) of
        None \<Rightarrow> False
      | Some s \<Rightarrow> es_source_family s \<in> set (rp_allowed_source_families plan) \<and>
                  0 < shared_terms (words_of (casefold (rp_problem plan))) s f)"

definition citation :: "expert_source list \<Rightarrow> retrieval_plan \<Rightarrow> expert_fragment \<Rightarrow> expert_evidence" where
  "citation sources plan f =
     (let s = the (source_by_id sources (xf_source_id f))
      in cite s f (shared_terms (words_of (casefold (rp_problem plan))) s f))"

lemma examine_citation:
  "examine T sources (rp_allowed_source_families plan) (words_of (casefold (rp_problem plan))) f = Inr found
     \<Longrightarrow> found = (if relevant sources plan f then [citation sources plan f] else [])"
  by (auto simp: examine_Inr relevant_def citation_def)

lemma concat_citations:
  "traverse (examine T sources (rp_allowed_source_families plan) (words_of (casefold (rp_problem plan)))) fs = Inr found
     \<Longrightarrow> concat found = map (citation sources plan) (filter (relevant sources plan) fs)"
  by (induction fs arbitrary: found) (auto simp: map_sum_id_Inr dest: examine_citation split: sum.splits)

lemma retrieve_cases:
  assumes "retrieve_expert_evidence H T plan sources fragments = Inr ev"
    and "rp_candidate_lenses plan \<noteq> []"
  obtains us found where "traverse (validate_source_record H) sources = Inr us"
    and "traverse (examine T sources (rp_allowed_source_families plan) (words_of (casefold (rp_problem plan)))) fragments = Inr found"
    and "ev = sort_key evidence_rank (concat found)"
  using assms by (auto simp: retrieve_expert_evidence_def map_sum_id_Inr split: if_split_asm sum.splits)

text \<open>
  C32: What \<^verbatim>\<open>retrieve_expert_evidence\<close> returns for a plan with lenses is the relevant
  fragments, each cited once with the number of words it shares with the problem, in the order
  of that number and then of the names: nothing relevant is left out and nothing else gets in.
  Every source was validated against its provenance digest, every fragment has the content its
  digest was made of, and no piece of evidence carries authority.
\<close>

theorem retrieval_exact:
  assumes "retrieve_expert_evidence H T plan sources fragments = Inr ev"
    and "rp_candidate_lenses plan \<noteq> []"
  shows "mset ev = mset (map (citation sources plan) (filter (relevant sources plan) fragments))
    \<and> sorted (map evidence_rank ev)
    \<and> (\<forall>s \<in> set sources. es_provenance_hash s = source_record_digest H s)
    \<and> (\<forall>f \<in> set fragments. T (xf_content f) = xf_content_hash f)
    \<and> (\<forall>e \<in> set ev. xe_source_family e \<in> set (rp_allowed_source_families plan) \<and> 0 < xe_applicability_score e
         \<and> xe_authority_effect e = ''NONE'' \<and> xe_canon_effect e = ''NONE'')"
proof -
  obtain us found where s: "traverse (validate_source_record H) sources = Inr us"
    and f: "traverse (examine T sources (rp_allowed_source_families plan) (words_of (casefold (rp_problem plan)))) fragments = Inr found"
    and ev: "ev = sort_key evidence_rank (concat found)"
    using retrieve_cases[OF assms] .
  have c: "concat found = map (citation sources plan) (filter (relevant sources plan) fragments)"
    using concat_citations[OF f] .
  have m: "mset ev = mset (map (citation sources plan) (filter (relevant sources plan) fragments))"
    by (simp only: ev c mset_sort)
  have o1: "sorted (map evidence_rank ev)"
    by (simp only: ev sorted_sort_key)
  have v: "\<forall>s \<in> set sources. es_provenance_hash s = source_record_digest H s"
    using traverse_each[OF s] by (auto simp: validate_source_record_def checks_Inr simp del: checks.simps)
  have g: "\<forall>f \<in> set fragments. T (xf_content f) = xf_content_hash f"
    using traverse_each[OF f] by (auto simp: examine_Inr validate_fragment_Inr)
  have e: "\<forall>e \<in> set ev. xe_source_family e \<in> set (rp_allowed_source_families plan) \<and> 0 < xe_applicability_score e
      \<and> xe_authority_effect e = ''NONE'' \<and> xe_canon_effect e = ''NONE''"
    by (auto simp: ev c relevant_def citation_def cite_def split: option.splits)
  show ?thesis using m o1 v g e by blast
qed

section \<open>The shipped corpus\<close>

text \<open>
  What \<^verbatim>\<open>hexdigest()\<close> of \<^verbatim>\<open>sha256\<close> returns: 64 hexadecimal digits.
\<close>

definition hex_digest :: "string \<Rightarrow> bool" where
  "hex_digest s \<longleftrightarrow> length s = 64 \<and> list_all (\<lambda>c. c \<in> set ''0123456789abcdef'') s"

lemma not_blank_Cons: "\<not> is_space c \<Longrightarrow> \<not> blank (c # s)"
proof -
  assume c: "\<not> is_space c"
  have "c \<in> set (List.rev (c # s))" by simp
  then have "dropWhile is_space (List.rev (c # s)) \<noteq> []"
    using c by (metis dropWhile_eq_Nil_conv)
  then show "\<not> blank (c # s)"
    using c by (simp add: blank_def strip_spaces_def)
qed

lemma hex_digest_not_blank: "hex_digest s \<Longrightarrow> \<not> blank s"
  by (cases s) (auto simp: hex_digest_def is_space_def intro!: not_blank_Cons)

lemma post_init_valid:
  fixes r :: expert_source
  assumes "\<And>v. hex_digest (H v)" and "hex_digest (es_content_hash r)"
    and "es_source_class r = EXPERT_SOURCE_CLASS" and "es_source_family r = []" and "es_provenance_hash r = []"
    and "list_all (\<lambda>v. \<not> blank v) [es_source_id r, upper (split_first CHR ''-'' (es_source_id r)), es_author r,
           es_work r, es_source_type r, es_locator r, es_ingestion_version r, es_licensing_access_class r]"
  shows "validate_source_record H (post_init_source H r) = Inr ()"
proof -
  let ?r1 = "r\<lparr>es_source_family := upper (split_first CHR ''-'' (es_source_id r))\<rparr>"
  have p: "post_init_source H r = ?r1\<lparr>es_provenance_hash := source_record_digest H ?r1\<rparr>"
    using assms(4,5) by (simp add: post_init_source_def Let_def)
  have t: "source_record_digest H (?r1\<lparr>es_provenance_hash := source_record_digest H ?r1\<rparr>) = source_record_digest H ?r1"
    by (simp add: source_record_digest_def source_tree_def)
  have b: "\<not> blank (source_record_digest H ?r1)" "\<not> blank (es_content_hash r)"
    using assms(1,2) hex_digest_not_blank by (simp_all add: source_record_digest_def)
  have l: "length (es_content_hash r) = 64"
    using assms(2) by (simp add: hex_digest_def)
  show ?thesis
    unfolding p validate_source_record_def checks_Inr using t b l assms(3,6) by simp
qed

lemma seed_source_valid:
  assumes "\<And>v. hex_digest (H v)" and "\<And>s. hex_digest (T s)"
    and "list_all (\<lambda>v. \<not> blank v) [i, upper (split_first CHR ''-'' i), author, work, locator]"
  shows "validate_source_record H (seed_source H T i author work edition locator tags) = Inr ()"
  unfolding seed_source_def
  by (rule post_init_valid)
    (use assms in \<open>simp_all add: SOURCE_TYPE_def CORPUS_INGESTION_VERSION_def CORPUS_ACCESS_CLASS_def not_blank_Cons is_space_def\<close>)

lemma seed_source_id [simp]: "es_source_id (seed_source H T i author work edition locator tags) = i"
  by (simp add: seed_source_def post_init_source_def Let_def)

lemma seed_fragment_fields [simp]:
  "xf_source_id (seed_fragment T i j content locator tags) = i"
  "xf_fragment_id (seed_fragment T i j content locator tags) = j"
  "validate_fragment T (seed_fragment T i j content locator tags) = Inr () \<longleftrightarrow> i \<noteq> [] \<and> j \<noteq> [] \<and> locator \<noteq> []"
  by (simp_all add: seed_fragment_def validate_fragment_Inr)

lemma seed_sources_valid:
  assumes "\<And>v. hex_digest (H v)" and "\<And>s. hex_digest (T s)"
  shows "list_all (\<lambda>s. validate_source_record H s = Inr ()) (DEDALA_EXPERT_SOURCES H T)"
  unfolding DEDALA_EXPERT_SOURCES_def
  by (simp add: seed_source_valid[OF assms] not_blank_Cons is_space_def split_first_def upper_def upper_char_def)

lemma seed_fragments_valid: "list_all (\<lambda>f. validate_fragment T f = Inr ()) (DEDALA_EXPERT_FRAGMENTS T)"
  by (simp add: DEDALA_EXPERT_FRAGMENTS_def)

lemma seed_fragments_have_sources:
  "list_all (\<lambda>f. xf_source_id f \<in> set (map es_source_id (DEDALA_EXPERT_SOURCES H T))) (DEDALA_EXPERT_FRAGMENTS T)"
  by (simp add: DEDALA_EXPERT_FRAGMENTS_def DEDALA_EXPERT_SOURCES_def)

lemma seed_corpus_valid: "validate_seed_corpus H T = Inr ()"
proof -
  have "distinct (map es_source_id (DEDALA_EXPERT_SOURCES H T))"
    by (simp add: DEDALA_EXPERT_SOURCES_def)
  moreover have "distinct (map xf_fragment_id (DEDALA_EXPERT_FRAGMENTS T))"
    by (simp add: DEDALA_EXPERT_FRAGMENTS_def)
  moreover have "list_all fst (concat (map (family_checks (DEDALA_EXPERT_SOURCES H T) (DEDALA_EXPERT_FRAGMENTS T))
      [''FOWLER-'', ''KLEPPMANN-'', ''NEWMAN-'', ''HOHPE-'']))"
    by (simp add: family_checks_def DEDALA_EXPERT_SOURCES_def DEDALA_EXPERT_FRAGMENTS_def starts_with_def)
  ultimately show ?thesis
    using seed_fragments_have_sources[of H T]
    unfolding validate_seed_corpus_def validate_corpus_def checks_Inr by (simp only: list_all_append) simp
qed

lemma dedala_manifest_valid: "validate_manifest DEDALA_EXPERTISE_MANIFEST = Inr ()"
  by (simp add: validate_manifest_def checks_Inr DEDALA_EXPERTISE_MANIFEST_def mk_lens_def lens_checks_def
      not_blank_Cons is_space_def del: checks.simps)

lemma dedala_manifest_ocs: "em_ocs_id DEDALA_EXPERTISE_MANIFEST = DEDALA"
  by (simp add: DEDALA_EXPERTISE_MANIFEST_def)

lemma build_dedala_plan:
  obtains plan where "build_retrieval_plan problem DEDALA_EXPERTISE_MANIFEST = Inr plan"
    and "rp_ocs_id plan = DEDALA" and "rp_problem plan = problem" and "rp_authority_effect plan = ''NONE''"
    and "rp_candidate_lenses plan \<noteq> [] \<longrightarrow> rp_allowed_source_families plan \<noteq> []"
proof -
  let ?ls = "select_lenses problem (em_lenses DEDALA_EXPERTISE_MANIFEST)"
  have "distinct_in_order (map el_source_family ?ls) = [] \<longrightarrow> ?ls = []"
    by (metis set_distinct_in_order set_empty map_is_Nil_conv)
  then show thesis
    by (intro that) (auto simp: build_retrieval_plan_def dedala_manifest_valid dedala_manifest_ocs Let_def)
qed

lemma retrieve_total:
  assumes "rp_authority_effect plan = ''NONE''"
    and "rp_candidate_lenses plan \<noteq> [] \<longrightarrow> rp_allowed_source_families plan \<noteq> []"
    and "list_all (\<lambda>s. validate_source_record H s = Inr ()) sources"
    and "list_all (\<lambda>f. validate_fragment T f = Inr ()) fragments"
    and "list_all (\<lambda>f. xf_source_id f \<in> set (map es_source_id sources)) fragments"
  shows "\<exists>ev. retrieve_expert_evidence H T plan sources fragments = Inr ev"
proof -
  have "\<exists>found. examine T sources families terms f = Inr found" if "f \<in> set fragments" for families terms f
    using assms(4,5) that source_by_id_known[of "xf_source_id f" sources] by (auto simp: list_all_iff examine_Inr)
  then have "traverse (examine T sources families terms) fragments
      = Inr (map (\<lambda>f. projr (examine T sources families terms f)) fragments)" for families terms
    by (intro traverse_total) (metis sum.sel(2))
  moreover have "traverse (validate_source_record H) sources = Inr (map (\<lambda>_. ()) sources)"
    using assms(3) by (intro traverse_total) (simp add: list_all_iff)
  ultimately show ?thesis
    using assms(1,2) by (auto simp: retrieve_expert_evidence_def)
qed

lemma retrieve_citations:
  assumes "retrieve_expert_evidence H T plan sources fragments = Inr ev" and "rp_authority_effect plan = ''NONE''"
  shows "ev = (if rp_candidate_lenses plan = [] then []
      else sort_key evidence_rank (map (citation sources plan) (filter (relevant sources plan) fragments)))"
proof (cases "rp_candidate_lenses plan = []")
  case True
  then show ?thesis using assms by (simp add: retrieve_expert_evidence_def)
next
  case False
  from assms(1) False show ?thesis
    by (rule retrieve_cases) (simp only: concat_citations False if_False)
qed

lemma draft_Inr:
  "draft_architectural_derivation plan ev proposition = Inr d \<Longrightarrow>
     rp_authority_effect plan = ''NONE'' \<and> ev \<noteq> [] \<and> \<not> blank proposition
     \<and> ad_falsification_status d = ''FALSIFICATION_PENDING'' \<and> ad_verification_status d = ''VERIFICATION_PENDING''
     \<and> ad_persistence_status d = ''NOT_ELIGIBLE'' \<and> ad_authority_effect d = ''NONE'' \<and> ad_canon_effect d = ''NONE''
     \<and> ad_evidence_refs d = distinct_in_order (map evidence_reference ev) \<and> ad_problem d = rp_problem plan"
  by (auto simp: draft_architectural_derivation_def checks_Inr simp del: checks.simps)

text \<open>
  With the shipped corpus the road to a derivation never raises: the corpus passes its
  validation, every problem gets a plan, the retrieval of the plan succeeds, and whenever it
  finds evidence, any proposition that is not blank becomes a draft that cites each piece once.
  The one assumption is that \<^verbatim>\<open>hexdigest\<close> returns 64 hexadecimal digits.
\<close>

lemma seed_corpus_retrieves:
  assumes "\<And>v. hex_digest (H v)" and "\<And>s. hex_digest (T s)" and "\<not> blank proposition"
  shows "validate_seed_corpus H T = Inr ()
    \<and> (\<exists>plan ev. build_retrieval_plan problem DEDALA_EXPERTISE_MANIFEST = Inr plan
         \<and> retrieve_expert_evidence H T plan (DEDALA_EXPERT_SOURCES H T) (DEDALA_EXPERT_FRAGMENTS T) = Inr ev
         \<and> (ev \<noteq> [] \<longrightarrow> (\<exists>d. draft_architectural_derivation plan ev proposition = Inr d
              \<and> distinct (ad_evidence_refs d) \<and> set (ad_evidence_refs d) = evidence_reference ` set ev)))"
proof -
  obtain plan where p: "build_retrieval_plan problem DEDALA_EXPERTISE_MANIFEST = Inr plan"
    and ocs: "rp_ocs_id plan = DEDALA" and auth: "rp_authority_effect plan = ''NONE''"
    and fam: "rp_candidate_lenses plan \<noteq> [] \<longrightarrow> rp_allowed_source_families plan \<noteq> []"
    using build_dedala_plan by metis
  obtain ev where ev: "retrieve_expert_evidence H T plan (DEDALA_EXPERT_SOURCES H T) (DEDALA_EXPERT_FRAGMENTS T) = Inr ev"
    using retrieve_total[OF auth fam seed_sources_valid[OF assms(1,2)] seed_fragments_valid seed_fragments_have_sources] ..
  have "xe_authority_effect e = ''NONE'' \<and> xe_canon_effect e = ''NONE''" if "e \<in> set ev" for e
    using retrieve_citations[OF ev auth] that by (auto simp: citation_def cite_def Let_def split: if_split_asm)
  then have "list_all fst (concat (map evidence_checks ev))"
    by (auto simp: list_all_iff evidence_checks_def)
  then have "\<exists>d. draft_architectural_derivation plan ev proposition = Inr d" if "ev \<noteq> []"
    using that ocs auth assms(3) unfolding draft_architectural_derivation_def checks_Inr by simp
  then show ?thesis
    using p ev seed_corpus_valid[of H T] by (metis draft_Inr distinct_in_order_distinct set_distinct_in_order list.set_map)
qed

section \<open>The states of a derivation\<close>

datatype assessment = Falsification bool | Verification bool

fun assess :: "derivation \<Rightarrow> assessment \<Rightarrow> derivation res" where
  "assess d (Falsification survived) = record_falsification d survived"
| "assess d (Verification verified) = record_verification d verified"

text \<open>A caller makes assessments; a refused one leaves the (frozen) derivation as it is.\<close>

definition assess_all :: "assessment list \<Rightarrow> derivation \<Rightarrow> derivation" where
  "assess_all calls d = fold (\<lambda>a d. case assess d a of Inl _ \<Rightarrow> d | Inr d' \<Rightarrow> d') calls d"

fun is_falsification :: "assessment \<Rightarrow> bool" where
  "is_falsification (Falsification _) = True"
| "is_falsification (Verification _) = False"

text \<open>
  What the assessments come to, read off the calls alone: the first falsification decides, and
  of the verifications only the first one after it counts.
\<close>

definition counts :: "assessment list \<Rightarrow> bool" where
  "counts calls =
     (case dropWhile (\<lambda>a. \<not> is_falsification a) calls of
        Falsification True # rest \<Rightarrow>
          (case dropWhile is_falsification rest of Verification verified # _ \<Rightarrow> verified | _ \<Rightarrow> False)
      | _ \<Rightarrow> False)"

lemma assess_all_simps [simp]:
  "assess_all [] d = d"
  "assess_all (a # calls) d = assess_all calls (case assess d a of Inl _ \<Rightarrow> d | Inr d' \<Rightarrow> d')"
  by (simp_all add: assess_all_def)

lemma assess_all_settled:
  "ad_falsification_status d = ''FALSIFICATION_FAILED''
     \<or> ad_falsification_status d = ''FALSIFICATION_SURVIVED'' \<and> ad_verification_status d \<noteq> ''VERIFICATION_PENDING''
     \<Longrightarrow> assess_all calls d = d"
proof (induction calls)
  case (Cons a calls)
  then have "\<exists>e. assess d a = Inl e"
    by (cases a) (auto simp: record_falsification_def record_verification_def)
  then show ?case using Cons by auto
qed simp

lemma assess_all_survived:
  "ad_falsification_status d = ''FALSIFICATION_SURVIVED'' \<Longrightarrow> ad_verification_status d = ''VERIFICATION_PENDING'' \<Longrightarrow>
     assess_all calls d =
       (case dropWhile is_falsification calls of
          Verification True # _ \<Rightarrow> d\<lparr>ad_verification_status := ''VERIFIED'', ad_persistence_status := ''PERSISTENCE_ELIGIBLE''\<rparr>
        | Verification False # _ \<Rightarrow> d\<lparr>ad_verification_status := ''FAILED''\<rparr>
        | _ \<Rightarrow> d)"
proof (induction calls)
  case (Cons a calls)
  then show ?case
    by (cases a) (auto simp: record_falsification_def record_verification_def assess_all_settled split: bool.split)
qed simp

lemma assess_all_pending:
  "ad_falsification_status d = ''FALSIFICATION_PENDING'' \<Longrightarrow> ad_verification_status d = ''VERIFICATION_PENDING'' \<Longrightarrow>
     assess_all calls d =
       (case dropWhile (\<lambda>a. \<not> is_falsification a) calls of
          Falsification True # rest \<Rightarrow> assess_all rest (d\<lparr>ad_falsification_status := ''FALSIFICATION_SURVIVED''\<rparr>)
        | Falsification False # _ \<Rightarrow> d\<lparr>ad_falsification_status := ''FALSIFICATION_FAILED''\<rparr>
        | _ \<Rightarrow> d)"
proof (induction calls)
  case (Cons a calls)
  then show ?case
    by (cases a) (auto simp: record_falsification_def record_verification_def assess_all_settled split: bool.split)
qed simp

lemma eligible_iff:
  "assert_persistence_eligible d = Inr () \<longleftrightarrow>
     ad_falsification_status d = ''FALSIFICATION_SURVIVED'' \<and> ad_verification_status d = ''VERIFIED'' \<and>
     ad_persistence_status d = ''PERSISTENCE_ELIGIBLE'' \<and> ad_authority_effect d = ''NONE'' \<and> ad_canon_effect d = ''NONE''"
  by (simp add: assert_persistence_eligible_def checks_Inr del: checks.simps)

lemma survived_eligible:
  assumes "ad_falsification_status d = ''FALSIFICATION_SURVIVED''" "ad_verification_status d = ''VERIFICATION_PENDING''"
    and "ad_authority_effect d = ''NONE''" "ad_canon_effect d = ''NONE''"
  shows "assert_persistence_eligible (assess_all rest d) = Inr () \<longleftrightarrow>
    (case dropWhile is_falsification rest of Verification verified # _ \<Rightarrow> verified | _ \<Rightarrow> False)"
proof -
  have "assert_persistence_eligible
       (case xs of
          Verification True # _ \<Rightarrow> d\<lparr>ad_verification_status := ''VERIFIED'', ad_persistence_status := ''PERSISTENCE_ELIGIBLE''\<rparr>
        | Verification False # _ \<Rightarrow> d\<lparr>ad_verification_status := ''FAILED''\<rparr>
        | _ \<Rightarrow> d) = Inr () \<longleftrightarrow> (case xs of Verification verified # _ \<Rightarrow> verified | _ \<Rightarrow> False)" for xs
    using assms by (simp add: eligible_iff split: list.split assessment.split bool.split)
  then show ?thesis
    unfolding assess_all_survived[OF assms(1,2)] .
qed

lemma pending_eligible:
  assumes "ad_falsification_status d = ''FALSIFICATION_PENDING''" "ad_verification_status d = ''VERIFICATION_PENDING''"
    and "ad_authority_effect d = ''NONE''" "ad_canon_effect d = ''NONE''"
  shows "assert_persistence_eligible (assess_all calls d) = Inr () \<longleftrightarrow> counts calls"
proof -
  let ?s = "d\<lparr>ad_falsification_status := ''FALSIFICATION_SURVIVED''\<rparr>"
  have e: "assert_persistence_eligible (assess_all rest ?s) = Inr () \<longleftrightarrow>
      (case dropWhile is_falsification rest of Verification verified # _ \<Rightarrow> verified | _ \<Rightarrow> False)" for rest
    using assms by (intro survived_eligible) simp_all
  have f: "assert_persistence_eligible d \<noteq> Inr ()"
    "assert_persistence_eligible (d\<lparr>ad_falsification_status := ''FALSIFICATION_FAILED''\<rparr>) \<noteq> Inr ()"
    using assms by (simp_all add: eligible_iff)
  have "assert_persistence_eligible
       (case xs of
          Falsification True # rest \<Rightarrow> assess_all rest ?s
        | Falsification False # _ \<Rightarrow> d\<lparr>ad_falsification_status := ''FALSIFICATION_FAILED''\<rparr>
        | _ \<Rightarrow> d) = Inr () \<longleftrightarrow>
       (case xs of
          Falsification True # rest \<Rightarrow>
            (case dropWhile is_falsification rest of Verification verified # _ \<Rightarrow> verified | _ \<Rightarrow> False)
        | _ \<Rightarrow> False)" for xs
  proof (cases xs)
    case (Cons a rest)
    then show ?thesis by (cases a) (simp_all only: e f list.case assessment.case split: bool.split, simp_all)
  qed (simp add: f)
  then show ?thesis
    unfolding assess_all_pending[OF assms(1,2)] counts_def .
qed

lemma assess_binding:
  "assess d a = Inr d' \<Longrightarrow> candidate_tree d' = candidate_tree d \<and> ad_evidence_refs d' = ad_evidence_refs d"
  by (cases a) (auto simp: record_falsification_def record_verification_def checks_Inr candidate_tree_def
      simp del: checks.simps split: if_split_asm)

lemma assess_all_binding: "candidate_tree (assess_all calls d) = candidate_tree d"
  by (induction calls arbitrary: d) (auto dest: assess_binding split: sum.split)

text \<open>
  C33: The life cycle of a derivation, over any assessments in any order. A draft becomes
  eligible for persistence exactly when its first falsification says that it survived and the
  first verification after that one says that it holds; refused calls, repeated verdicts and
  verifications that come too early change nothing. Along the way the digest that receipts are
  bound to never moves.
\<close>

theorem derivation_lifecycle:
  assumes "draft_architectural_derivation plan ev proposition = Inr d"
  shows "(assert_persistence_eligible (assess_all calls d) = Inr () \<longleftrightarrow> counts calls)
    \<and> candidate_binding H (assess_all calls d) = candidate_binding H d"
proof -
  have d: "ad_falsification_status d = ''FALSIFICATION_PENDING''" "ad_verification_status d = ''VERIFICATION_PENDING''"
    "ad_authority_effect d = ''NONE''" "ad_canon_effect d = ''NONE''"
    using draft_Inr[OF assms] by simp_all
  show ?thesis
    using pending_eligible[OF d] by (simp add: candidate_binding_def assess_all_binding)
qed

section \<open>The path to the kernel\<close>

text \<open>
  The two assessments of a draft, read declaratively: the evaluator answered, its receipt names
  this revision, this derivation, this evidence and these references, and the verdict is good.
\<close>

definition survives ::
    "digest \<Rightarrow> (derivation \<Rightarrow> expert_evidence list \<Rightarrow> string \<Rightarrow> falsification_receipt option res)
       \<Rightarrow> derivation \<Rightarrow> expert_evidence list \<Rightarrow> string \<Rightarrow> bool" where
  "survives H falsify d ev revision \<longleftrightarrow>
     (case falsify d ev revision of
        Inr (Some r) \<Rightarrow>
          \<not> blank (fr_receipt_id r) \<and> \<not> blank (fr_procedure_id r) \<and> fr_assessed_revision r = revision \<and>
          fr_candidate_binding r = candidate_binding H d \<and> fr_evidence_binding r = evidence_binding H ev \<and>
          fr_evidence_refs r = ad_evidence_refs d \<and> fr_survived r
      | _ \<Rightarrow> False)"

definition verifies ::
    "digest \<Rightarrow> (derivation \<Rightarrow> expert_evidence list \<Rightarrow> string \<Rightarrow> verification_receipt option res)
       \<Rightarrow> derivation \<Rightarrow> expert_evidence list \<Rightarrow> string \<Rightarrow> bool" where
  "verifies H verify d ev revision \<longleftrightarrow>
     (case verify (d\<lparr>ad_falsification_status := ''FALSIFICATION_SURVIVED''\<rparr>) ev revision of
        Inr (Some r) \<Rightarrow>
          \<not> blank (vr_receipt_id r) \<and> \<not> blank (vr_procedure_id r) \<and> vr_assessed_revision r = revision \<and>
          vr_candidate_binding r = candidate_binding H d \<and> vr_evidence_binding r = evidence_binding H ev \<and>
          vr_evidence_refs r = ad_evidence_refs d \<and> vr_verified r
      | _ \<Rightarrow> False)"

definition assured ::
    "digest \<Rightarrow> (string \<Rightarrow> string) \<Rightarrow> action_proposal \<Rightarrow> string \<Rightarrow> string \<Rightarrow> string \<Rightarrow> falsifier \<Rightarrow> verifier
       \<Rightarrow> 'w physiology \<Rightarrow> bool" where
  "assured H T p problem proposition revision falsifier verifier s \<longleftrightarrow>
     ap_ocs p = DEDALA \<and> kr_identity (ph_kernel s) \<noteq> None \<and> \<not> blank problem \<and> \<not> blank revision \<and>
     (case (falsifier, verifier, build_retrieval_plan problem DEDALA_EXPERTISE_MANIFEST) of
        (Some falsify, Some verify, Inr plan) \<Rightarrow>
          (case retrieve_expert_evidence H T plan (ph_sources s) (ph_fragments s) of
             Inl _ \<Rightarrow> False
           | Inr ev \<Rightarrow>
               (case draft_architectural_derivation plan ev proposition of
                  Inl _ \<Rightarrow> False
                | Inr d \<Rightarrow> survives H falsify d ev revision \<and> verifies H verify d ev revision))
      | _ \<Rightarrow> False)"

text \<open>The two ways a call can end.\<close>

definition stays :: "'w physiology \<Rightarrow> physiology_outcome res \<times> 'w physiology \<Rightarrow> bool" where
  "stays s answer \<longleftrightarrow> snd answer = s \<and>
     (\<forall>out. fst answer = Inr out \<longrightarrow> \<not> po_material_execution_attempted out \<and> po_kernel_result out = None)"

definition reaches_kernel ::
    "digest \<Rightarrow> mac \<Rightarrow> kernel_clock \<Rightarrow> action_proposal \<Rightarrow> 'w physiology \<Rightarrow> physiology_outcome res \<times> 'w physiology \<Rightarrow> bool" where
  "reaches_kernel H M ck p s answer \<longleftrightarrow>
     (case Kernel_Runtime.execute H M ck p (ph_kernel s) of
        (Inl e, k) \<Rightarrow> answer = (Inl e, s\<lparr>ph_kernel := k\<rparr>)
      | (Inr result, k) \<Rightarrow>
          snd answer = s\<lparr>ph_kernel := k\<rparr> \<and>
          (\<exists>out d. fst answer = Inr out \<and> po_material_execution_attempted out \<and> po_kernel_result out = Some result \<and>
             po_reason out = er_reason result \<and> po_authority_effect out = ''NONE'' \<and>
             po_candidate out = Some d \<and> assert_persistence_eligible d = Inr ()))"

lemma hand_to_kernel_reaches:
  assumes "assert_persistence_eligible d = Inr ()"
  shows "reaches_kernel H M ck p s (hand_to_kernel H M ck p problem phases plan ev d fr vr s)"
  using assms by (auto simp: reaches_kernel_def hand_to_kernel_def on_kernel_def py_simps split: prod.split sum.split)

lemma validate_falsification_Inr:
  "validate_falsification_receipt H answer d ev revision = Inr r \<longleftrightarrow>
     answer = Some r \<and> \<not> blank (fr_receipt_id r) \<and> \<not> blank (fr_procedure_id r) \<and>
     fr_assessed_revision r = revision \<and> \<not> blank revision \<and>
     fr_candidate_binding r = candidate_binding H d \<and> fr_evidence_binding r = evidence_binding H ev \<and>
     fr_evidence_refs r = ad_evidence_refs d"
  by (auto simp: validate_falsification_receipt_def checks_Inr simp del: checks.simps split: option.splits)

lemma validate_verification_Inr:
  "validate_verification_receipt H answer d ev revision = Inr r \<longleftrightarrow>
     answer = Some r \<and> \<not> blank (vr_receipt_id r) \<and> \<not> blank (vr_procedure_id r) \<and>
     vr_assessed_revision r = revision \<and> \<not> blank revision \<and>
     vr_candidate_binding r = candidate_binding H d \<and> vr_evidence_binding r = evidence_binding H ev \<and>
     vr_evidence_refs r = ad_evidence_refs d"
  by (auto simp: validate_verification_receipt_def checks_Inr simp del: checks.simps split: option.splits)

lemma stays_error: "stays s (Inl e, s)"
  by (simp add: stays_def)

lemma stays_blocked: "stays s (Inr (blocked p problem phases plan reason ev d fr vr), s)"
  by (simp add: stays_def blocked_def)

lemma verify_stage_outcome:
  assumes "ad_falsification_status d = ''FALSIFICATION_PENDING''" "ad_verification_status d = ''VERIFICATION_PENDING''"
    and "ad_authority_effect d = ''NONE''" "ad_canon_effect d = ''NONE''" and "\<not> blank revision"
  shows "if verifies H verify d ev revision
    then reaches_kernel H M ck p s (verify_stage H M ck p problem phases plan ev
           (d\<lparr>ad_falsification_status := ''FALSIFICATION_SURVIVED''\<rparr>) fr revision verify s)
    else stays s (verify_stage H M ck p problem phases plan ev
           (d\<lparr>ad_falsification_status := ''FALSIFICATION_SURVIVED''\<rparr>) fr revision verify s)"
proof -
  let ?d = "d\<lparr>ad_falsification_status := ''FALSIFICATION_SURVIVED''\<rparr>"
  have b: "candidate_binding H ?d = candidate_binding H d"
    by (simp add: candidate_binding_def candidate_tree_def)
  have e: "assert_persistence_eligible (?d\<lparr>ad_verification_status := ''VERIFIED'', ad_persistence_status := ''PERSISTENCE_ELIGIBLE''\<rparr>) = Inr ()"
    using assms by (simp add: eligible_iff)
  show ?thesis
  proof (cases "verify ?d ev revision")
    case (Inl x)
    then show ?thesis by (simp add: verify_stage_def py_simps verifies_def stays_error)
  next
    case (Inr answer)
    show ?thesis
    proof (cases "validate_verification_receipt H answer ?d ev revision")
      case (Inl x)
      then have "\<not> verifies H verify d ev revision"
        using validate_verification_Inr[of H answer ?d ev revision] \<open>verify ?d ev revision = Inr answer\<close> assms(5) b
        by (auto simp: verifies_def split: option.splits)
      then show ?thesis using Inl \<open>verify ?d ev revision = Inr answer\<close> by (simp add: verify_stage_def py_simps stays_error)
    next
      case (Inr r)
      then have v: "verifies H verify d ev revision = vr_verified r"
        using \<open>verify ?d ev revision = Inr answer\<close> b by (simp add: verifies_def validate_verification_Inr)
      show ?thesis
        using Inr \<open>verify ?d ev revision = Inr answer\<close> assms v
        by (simp add: verify_stage_def py_simps record_verification_def stays_blocked hand_to_kernel_reaches[OF e])
    qed
  qed
qed

lemma falsify_stage_outcome:
  assumes "ad_falsification_status d = ''FALSIFICATION_PENDING''" "ad_verification_status d = ''VERIFICATION_PENDING''"
    and "ad_authority_effect d = ''NONE''" "ad_canon_effect d = ''NONE''" and "\<not> blank revision"
  shows "if survives H falsify d ev revision \<and> verifies H verify d ev revision
    then reaches_kernel H M ck p s (falsify_stage H M ck p problem phases plan ev d revision falsify verify s)
    else stays s (falsify_stage H M ck p problem phases plan ev d revision falsify verify s)"
proof (cases "falsify d ev revision")
  case (Inl x)
  then show ?thesis by (simp add: falsify_stage_def py_simps survives_def stays_error)
next
  case (Inr answer)
  note a = Inr
  show ?thesis
  proof (cases "validate_falsification_receipt H answer d ev revision")
    case (Inl x)
    then have "\<not> survives H falsify d ev revision"
      using validate_falsification_Inr[of H answer d ev revision] a assms(5)
      by (auto simp: survives_def split: option.splits)
    then show ?thesis using Inl a by (simp add: falsify_stage_def py_simps stays_error)
  next
    case (Inr r)
    then have v: "survives H falsify d ev revision = fr_survived r"
      using a by (simp add: survives_def validate_falsification_Inr)
    show ?thesis
      using Inr a assms(1) v verify_stage_outcome[OF assms, of H verify ev M ck p s problem "phases @ [''FALSIFY'']" plan r]
      by (simp add: falsify_stage_def py_simps record_falsification_def stays_blocked)
  qed
qed

text \<open>
  C31: Assurance comes before the kernel, and nothing else gates it. If a call of the expertise
  path is made for the right OCS under a bound identity and both evaluators answered with
  receipts bound to the very derivation, evidence and revision at hand, then the kernel runs the
  unchanged proposal once, its state and its result are the kernel's own, and the derivation is
  eligible. In every other case, an error or a blocked outcome, the kernel is untouched and no
  execution is reported.
\<close>

theorem kernel_behind_assurance:
  "if assured H T p problem proposition revision falsifier verifier s
   then reaches_kernel H M ck p s (physiology_execute H T M ck p problem proposition revision falsifier verifier s)
   else stays s (physiology_execute H T M ck p problem proposition revision falsifier verifier s)"
proof (cases "ap_ocs p = DEDALA \<and> kr_identity (ph_kernel s) \<noteq> None \<and> \<not> blank problem \<and> \<not> blank revision
    \<and> falsifier \<noteq> None \<and> verifier \<noteq> None")
  case False
  then show ?thesis
    by (auto simp: assured_def physiology_execute_def py_simps stays_error)
next
  case True
  then obtain falsify verify where fv: "falsifier = Some falsify" "verifier = Some verify" by auto
  obtain plan where p: "build_retrieval_plan problem DEDALA_EXPERTISE_MANIFEST = Inr plan" and auth: "rp_authority_effect plan = ''NONE''"
    using build_dedala_plan by metis
  show ?thesis
  proof (cases "retrieve_expert_evidence H T plan (ph_sources s) (ph_fragments s)")
    case (Inl x)
    then have "rp_candidate_lenses plan \<noteq> []"
      using auth by (auto simp: retrieve_expert_evidence_def)
    then show ?thesis
      using True fv p Inl by (simp add: assured_def physiology_execute_def py_simps stays_error)
  next
    case (Inr ev)
    note ev = Inr
    show ?thesis
    proof (cases "draft_architectural_derivation plan ev proposition")
      case (Inl x)
      then show ?thesis
        using True fv p ev by (simp add: assured_def physiology_execute_def py_simps stays_error stays_blocked)
    next
      case (Inr d)
      have "rp_candidate_lenses plan \<noteq> []"
        using draft_Inr[OF Inr] ev auth by (auto simp: retrieve_expert_evidence_def)
      then show ?thesis
        using True fv p ev Inr draft_Inr[OF Inr]
          falsify_stage_outcome[of d revision H falsify ev verify M ck p s problem
            "initial_phases @ [''RETRIEVE_EXPERT_EVIDENCE'', ''PLAN'']" plan]
        by (simp add: assured_def physiology_execute_def py_simps)
    qed
  qed
qed

section \<open>What a receipt is bound to\<close>

lemma candidate_tree_inject:
  "candidate_tree d1 = candidate_tree d2 \<Longrightarrow>
     ad_problem d1 = ad_problem d2 \<and> ad_proposition d1 = ad_proposition d2 \<and>
     ad_candidate_lenses d1 = ad_candidate_lenses d2 \<and> ad_evidence_refs d1 = ad_evidence_refs d2"
  by (simp add: candidate_tree_def inj_map_eq_map inj_def)

lemma evidence_item_inject: "json_tree (evidence_item e1) = json_tree (evidence_item e2) \<Longrightarrow> e1 = (e2 :: expert_evidence)"
  by (simp add: evidence_item_def)

lemma evidence_tree_inject:
  assumes "evidence_tree ev1 = evidence_tree ev2"
  shows "ev1 = ev2"
proof -
  have "inj (\<lambda>e :: expert_evidence. json_tree (evidence_item e))"
    by (rule injI) (rule evidence_item_inject)
  moreover have "map (\<lambda>e. json_tree (evidence_item e)) ev1 = map (\<lambda>e. json_tree (evidence_item e)) ev2"
    using assms by (simp add: evidence_tree_def comp_def)
  ultimately show ?thesis
    by (simp add: inj_map_eq_map)
qed

text \<open>
  C34: A verdict cannot be moved. If one receipt, of either kind, passes for two derivations on
  two lists of evidence, then the derivations make the same proposition about the same problem
  with the same references, and the evidence is the same to the last field, or the digest
  collides on the two texts at hand.
\<close>

theorem receipt_not_transferable:
  assumes "validate_falsification_receipt H answer d1 ev1 rev1 = Inr r \<and> validate_falsification_receipt H answer d2 ev2 rev2 = Inr r2
    \<or> validate_verification_receipt H answer' d1 ev1 rev1 = Inr r' \<and> validate_verification_receipt H answer' d2 ev2 rev2 = Inr r2'"
  shows "rev1 = rev2 \<and>
    (collision H (candidate_tree d1) (candidate_tree d2) \<or> ad_problem d1 = ad_problem d2 \<and> ad_proposition d1 = ad_proposition d2 \<and>
       ad_candidate_lenses d1 = ad_candidate_lenses d2 \<and> ad_evidence_refs d1 = ad_evidence_refs d2) \<and>
    (collision H (evidence_tree ev1) (evidence_tree ev2) \<or> ev1 = ev2)"
proof -
  have "rev1 = rev2" and h: "H (candidate_tree d1) = H (candidate_tree d2)" "H (evidence_tree ev1) = H (evidence_tree ev2)"
    using assms by (auto simp: validate_falsification_Inr validate_verification_Inr candidate_binding_def evidence_binding_def)
  moreover have "candidate_tree d1 = candidate_tree d2 \<or> collision H (candidate_tree d1) (candidate_tree d2)"
    using h(1) by (rule digest_eq_or_collision)
  moreover have "evidence_tree ev1 = evidence_tree ev2 \<or> collision H (evidence_tree ev1) (evidence_tree ev2)"
    using h(2) by (rule digest_eq_or_collision)
  ultimately show ?thesis
    using candidate_tree_inject evidence_tree_inject by metis
qed

section \<open>Concrete inputs\<close>

definition hex_a :: string where
  "hex_a = replicate 64 CHR ''a''"

lemma hex_a_digest: "hex_digest hex_a"
  by (simp add: hex_digest_def hex_a_def list_all_iff)

definition sample_source :: expert_source where
  "sample_source = seed_source (\<lambda>_. hex_a) (\<lambda>_. hex_a) ''FOWLER-1'' ''Martin Fowler'' ''Refactoring'' ''2018'' ''url'' [''legacy'']"

definition sample_fragment :: expert_fragment where
  "sample_fragment = seed_fragment (\<lambda>_. hex_a) ''FOWLER-1'' ''F-1'' ''small steps'' ''url'' [''rewrite'']"

definition sample_plan :: retrieval_plan where
  "sample_plan = projr (build_retrieval_plan ''legacy'' DEDALA_EXPERTISE_MANIFEST)"

definition sample_evidence :: expert_evidence where
  "sample_evidence = cite sample_source sample_fragment 1"

lemma sample_plan_eq: "build_retrieval_plan ''legacy'' DEDALA_EXPERTISE_MANIFEST = Inr sample_plan"
  unfolding sample_plan_def using build_dedala_plan[of "''legacy''"] by (metis sum.sel(2))

lemma legacy_lenses: "map el_lens_id (select_lenses ''legacy'' (em_lenses DEDALA_EXPERTISE_MANIFEST)) = [''ARCH_REFACTORING_EVOLUTION'']"
  "map el_source_family (select_lenses ''legacy'' (em_lenses DEDALA_EXPERTISE_MANIFEST)) = [''FOWLER'']"
  by code_simp+

lemma sample_plan_fields: "rp_candidate_lenses sample_plan = [''ARCH_REFACTORING_EVOLUTION'']"
  "rp_allowed_source_families sample_plan = [''FOWLER'']" "rp_problem sample_plan = ''legacy''"
  "rp_authority_effect sample_plan = ''NONE''" "rp_ocs_id sample_plan = DEDALA"
  unfolding sample_plan_def
  by (simp_all add: build_retrieval_plan_def dedala_manifest_valid dedala_manifest_ocs Let_def legacy_lenses distinct_in_order_def)

lemma sample_retrieval:
  "retrieve_expert_evidence (\<lambda>_. hex_a) (\<lambda>_. hex_a) sample_plan [sample_source] [sample_fragment] = Inr [sample_evidence]"
proof -
  have v: "validate_source_record (\<lambda>_. hex_a) sample_source = Inr ()"
    unfolding sample_source_def
    by (rule seed_source_valid) (simp_all add: hex_a_digest not_blank_Cons is_space_def split_first_def upper_def upper_char_def)
  have i: "es_source_id sample_source = ''FOWLER-1''" "es_source_family sample_source = ''FOWLER''" "es_retrieval_tags sample_source = [''legacy'']"
    by (simp_all add: sample_source_def seed_source_def post_init_source_def Let_def split_first_def upper_def upper_char_def)
  have f: "validate_fragment (\<lambda>_. hex_a) sample_fragment = Inr ()" "xf_source_id sample_fragment = ''FOWLER-1''"
    "xf_retrieval_tags sample_fragment = [''rewrite'']"
    by (simp_all add: sample_fragment_def) (simp add: seed_fragment_def)
  have t: "words_of (casefold ''legacy'') = [''legacy'']"
    by (simp add: words_of_def casefold_def casefold_char_def is_space_def Let_def)
  have "shared_terms [''legacy''] sample_source sample_fragment = 1"
    by (simp add: shared_terms_def i f casefold_def casefold_char_def Let_def)
  then have "examine (\<lambda>_. hex_a) [sample_source] [''FOWLER''] [''legacy''] sample_fragment = Inr [sample_evidence]"
    by (simp add: examine_def f source_by_id_def i sample_evidence_def)
  then show ?thesis
    by (simp add: retrieve_expert_evidence_def sample_plan_fields v t)
qed

theorem retrieval_exact_witness:
  "mset [sample_evidence] = mset (map (citation [sample_source] sample_plan) (filter (relevant [sample_source] sample_plan) [sample_fragment]))"
proof -
  have "rp_candidate_lenses sample_plan \<noteq> []"
    by (simp add: sample_plan_fields)
  from retrieval_exact[OF sample_retrieval this] show ?thesis
    by (rule conjunct1)
qed

lemma seed_corpus_retrieves_witness:
  "validate_seed_corpus (\<lambda>_. hex_a) (\<lambda>_. hex_a) = Inr () \<and>
   (\<exists>plan ev. build_retrieval_plan ''legacy code'' DEDALA_EXPERTISE_MANIFEST = Inr plan \<and>
      retrieve_expert_evidence (\<lambda>_. hex_a) (\<lambda>_. hex_a) plan (DEDALA_EXPERT_SOURCES (\<lambda>_. hex_a) (\<lambda>_. hex_a))
        (DEDALA_EXPERT_FRAGMENTS (\<lambda>_. hex_a)) = Inr ev)"
  using seed_corpus_retrieves[of "\<lambda>_. hex_a" "\<lambda>_. hex_a" "''split it''" "''legacy code''"]
  by (auto simp: hex_a_digest not_blank_Cons is_space_def)

definition sample_derivation :: derivation where
  "sample_derivation = projr (draft_architectural_derivation sample_plan [sample_evidence] ''split it'')"

lemma sample_draft: "draft_architectural_derivation sample_plan [sample_evidence] ''split it'' = Inr sample_derivation"
proof -
  have "\<exists>d. draft_architectural_derivation sample_plan [sample_evidence] ''split it'' = Inr d"
    by (simp add: draft_architectural_derivation_def sample_plan_fields evidence_checks_def sample_evidence_def cite_def
        not_blank_Cons is_space_def)
  then show ?thesis
    by (auto simp: sample_derivation_def)
qed

theorem derivation_lifecycle_witness:
  "assert_persistence_eligible (assess_all [Verification True, Falsification True, Falsification False, Verification True] sample_derivation) = Inr ()
   \<and> assert_persistence_eligible (assess_all [Verification True, Falsification True] sample_derivation) \<noteq> Inr ()"
  using derivation_lifecycle[OF sample_draft, of "[Verification True, Falsification True, Falsification False, Verification True]"]
    derivation_lifecycle[OF sample_draft, of "[Verification True, Falsification True]"]
  by (simp add: counts_def del: assess_all_simps)

definition sample_falsification :: falsification_receipt where
  "sample_falsification = \<lparr>fr_receipt_id = ''r1'', fr_candidate_binding = hex_a, fr_evidence_binding = hex_a,
     fr_assessed_revision = ''abc'', fr_procedure_id = ''p1'', fr_survived = True,
     fr_evidence_refs = ad_evidence_refs sample_derivation\<rparr>"

definition sample_verification :: verification_receipt where
  "sample_verification = \<lparr>vr_receipt_id = ''r2'', vr_candidate_binding = hex_a, vr_evidence_binding = hex_a,
     vr_assessed_revision = ''abc'', vr_procedure_id = ''p2'', vr_verified = True,
     vr_evidence_refs = ad_evidence_refs sample_derivation\<rparr>"

lemma sample_falsification_valid:
  "validate_falsification_receipt (\<lambda>_. hex_a) (Some sample_falsification) sample_derivation [sample_evidence] ''abc'' = Inr sample_falsification"
  by (simp add: validate_falsification_Inr sample_falsification_def candidate_binding_def evidence_binding_def not_blank_Cons is_space_def)

lemma sample_falsification_moved:
  "validate_falsification_receipt (\<lambda>_. hex_a) (Some sample_falsification) (sample_derivation\<lparr>ad_problem := ''other''\<rparr>) [sample_evidence] ''abc''
     = Inr sample_falsification"
  by (simp add: validate_falsification_Inr sample_falsification_def candidate_binding_def evidence_binding_def not_blank_Cons is_space_def)

text \<open>A digest that is constant lets the receipt move to another problem, by a collision.\<close>

theorem receipt_not_transferable_witness:
  "collision (\<lambda>_. hex_a) (candidate_tree sample_derivation) (candidate_tree (sample_derivation\<lparr>ad_problem := ''other''\<rparr>))"
proof -
  have "ad_problem sample_derivation = ''legacy''"
    using draft_Inr[OF sample_draft] by (simp add: sample_plan_fields)
  then show ?thesis
    using receipt_not_transferable[OF disjI1[OF conjI[OF sample_falsification_valid sample_falsification_moved]]] by simp
qed

definition sample_physiology :: "int physiology" where
  "sample_physiology = \<lparr>ph_kernel = institutional_sample, ph_sources = [sample_source], ph_fragments = [sample_fragment]\<rparr>"

lemma sample_assured:
  "assured (\<lambda>_. hex_a) (\<lambda>_. hex_a) (kernel_proposal\<lparr>ap_ocs := DEDALA\<rparr>) ''legacy'' ''split it'' ''abc''
     (Some (\<lambda>_ _ _. Inr (Some sample_falsification))) (Some (\<lambda>_ _ _. Inr (Some sample_verification))) sample_physiology"
  unfolding assured_def sample_plan_eq sample_physiology_def
  by (simp add: sample_retrieval sample_draft institutional_fields not_blank_Cons is_space_def survives_def verifies_def
      sample_falsification_def sample_verification_def candidate_binding_def evidence_binding_def)

theorem kernel_behind_assurance_witness:
  "\<exists>falsify verify. reaches_kernel (\<lambda>_. hex_a) sample_mac kernel_times (kernel_proposal\<lparr>ap_ocs := DEDALA\<rparr>) sample_physiology
     (physiology_execute (\<lambda>_. hex_a) (\<lambda>_. hex_a) sample_mac kernel_times (kernel_proposal\<lparr>ap_ocs := DEDALA\<rparr>)
        ''legacy'' ''split it'' ''abc'' falsify verify sample_physiology)"
  using kernel_behind_assurance[of "\<lambda>_. hex_a" "\<lambda>_. hex_a" "kernel_proposal\<lparr>ap_ocs := DEDALA\<rparr>" "''legacy''" "''split it''" "''abc''"
      "Some (\<lambda>_ _ _. Inr (Some sample_falsification))" "Some (\<lambda>_ _ _. Inr (Some sample_verification))" sample_physiology
      sample_mac kernel_times] sample_assured by auto

end
