(* ===== verification/Expertise_Causality.thy ===== *)
theory Expertise_Causality
  imports Expertise_Safety Cognition_Safety
begin

text \<open>
  \<^verbatim>\<open>causal_validation.py\<close> and \<^verbatim>\<open>semantic_causality.py\<close> of \<^verbatim>\<open>app/expertise\<close>, the two
  harnesses that judge whether evidence made a difference, and what their verdicts mean. The
  quality of a decision is a float: the quotient is rounded by \<open>fl\<close>. \<open>D\<close> is the digest of the
  text of a signature.
\<close>

section \<open>Routing and attachment of evidence\<close>

record representative_case =
  rc_case_id :: string
  rc_problem :: string
  rc_proposition :: string
  rc_expected_lens :: string
  rc_expected_source_family :: string

definition mk_case :: "string \<Rightarrow> string \<Rightarrow> string \<Rightarrow> string \<Rightarrow> string \<Rightarrow> representative_case" where
  "mk_case i problem proposition lens family = \<lparr>rc_case_id = i, rc_problem = problem, rc_proposition = proposition,
     rc_expected_lens = lens, rc_expected_source_family = family\<rparr>"

record causal_receipt =
  cx_case_id :: string
  cx_selected_lenses :: "string list"
  cx_source_ids :: "string list"
  cx_evidence_refs :: "string list"
  cx_causal_consumption_proven :: bool
  cx_reason :: string
  cx_semantic_derivation_causality_proven :: bool
  cx_identity_effect :: string
  cx_authority_effect :: string
  cx_canon_effect :: string

definition mk_causal_receipt :: "representative_case \<Rightarrow> string list \<Rightarrow> string list \<Rightarrow> string list \<Rightarrow> bool \<Rightarrow> string \<Rightarrow> causal_receipt" where
  "mk_causal_receipt c lenses source_ids refs holds reason =
     \<lparr>cx_case_id = rc_case_id c, cx_selected_lenses = lenses, cx_source_ids = source_ids, cx_evidence_refs = refs,
      cx_causal_consumption_proven = holds, cx_reason = reason, cx_semantic_derivation_causality_proven = False,
      cx_identity_effect = ''NONE'', cx_authority_effect = ''NONE'', cx_canon_effect = ''NONE''\<rparr>"

definition REPRESENTATIVE_ARCHITECTURE_CASES :: "representative_case list" where
  "REPRESENTATIVE_ARCHITECTURE_CASES =
     [mk_case ''DEDALA-CAUSAL-FOWLER-001''
        ''legacy architecture refactoring evolution with incremental structural change''
        ''Prefer an incremental behavior-preserving refactoring sequence over a big-bang rewrite.''
        ''ARCH_REFACTORING_EVOLUTION'' ''FOWLER'',
      mk_case ''DEDALA-CAUSAL-KLEPPMANN-001''
        ''distributed state consistency failure recovery and stale-writer protection''
        ''Require stale-writer rejection at the protected state boundary and reason about exact failure semantics.''
        ''DATA_CONSISTENCY_CAUSALITY'' ''KLEPPMANN'',
      mk_case ''DEDALA-CAUSAL-NEWMAN-001''
        ''service boundary decomposition coupling migration from a monolith''
        ''Choose boundaries by information hiding and coupling, then decompose incrementally.''
        ''BOUNDARY_DECOMPOSITION_COUPLING'' ''NEWMAN'',
      mk_case ''DEDALA-CAUSAL-HOHPE-001''
        ''message integration routing transformation delivery across system boundaries''
        ''Isolate routing and transformation responsibilities behind explicit messaging boundaries.''
        ''MESSAGE_INTEGRATION_ROUTING'' ''HOHPE'']"

definition effects_preserved :: "retrieval_plan \<Rightarrow> derivation \<Rightarrow> expert_evidence list \<Rightarrow> bool" where
  "effects_preserved plan d ev \<longleftrightarrow>
     rp_authority_effect plan = ''NONE'' \<and> ad_identity_effect d = ''NONE'' \<and> ad_authority_effect d = ''NONE'' \<and>
     ad_canon_effect d = ''NONE'' \<and> list_all (\<lambda>e. xe_authority_effect e = ''NONE'') ev \<and>
     list_all (\<lambda>e. xe_canon_effect e = ''NONE'') ev"

definition evidence_grounded :: "derivation \<Rightarrow> expert_evidence list \<Rightarrow> bool" where
  "evidence_grounded d ev \<longleftrightarrow>
     ad_evidence_refs d \<noteq> [] \<and>
     list_all (\<lambda>ref. list_ex (\<lambda>i. starts_with (i @ '':'') ref) (map xe_source_id ev)) (ad_evidence_refs d)"

text \<open>The part of \<^verbatim>\<open>evaluate_representative_case\<close> after the retrieval.\<close>

definition judge_case :: "representative_case \<Rightarrow> retrieval_plan \<Rightarrow> expert_evidence list \<Rightarrow> causal_receipt res" where
  "judge_case c plan ev =
     (let receipt = mk_causal_receipt c (rp_candidate_lenses plan) (map xe_source_id ev) in
      if rc_expected_lens c \<notin> set (rp_candidate_lenses plan) then Inr (receipt [] False ''expected_lens_not_selected'')
      else if rc_expected_source_family c \<notin> set (rp_allowed_source_families plan)
      then Inr (receipt [] False ''expected_source_family_not_authorized_by_lens'')
      else if filter (\<lambda>e. xe_source_family e = rc_expected_source_family c) ev = []
      then Inr (receipt [] False ''expected_source_family_not_retrieved'')
      else
        map_sum id
          (\<lambda>d. let holds = effects_preserved plan d ev \<and> evidence_grounded d ev
               in receipt (ad_evidence_refs d) holds
                    (if holds then ''bounded_routing_and_evidence_attachment_causality_proven''
                     else ''causal_chain_integrity_failed''))
          (draft_architectural_derivation plan ev (rc_proposition c)))"

definition evaluate_representative_case ::
    "digest \<Rightarrow> (string \<Rightarrow> string) \<Rightarrow> representative_case \<Rightarrow> causal_receipt res" where
  "evaluate_representative_case H T c =
     (case validate_seed_corpus H T of
        Inl e \<Rightarrow> Inl e
      | Inr _ \<Rightarrow>
          (case build_retrieval_plan (rc_problem c) DEDALA_EXPERTISE_MANIFEST of
             Inl e \<Rightarrow> Inl e
           | Inr plan \<Rightarrow>
               (case retrieve_expert_evidence H T plan (DEDALA_EXPERT_SOURCES H T) (DEDALA_EXPERT_FRAGMENTS T) of
                  Inl e \<Rightarrow> Inl e
                | Inr ev \<Rightarrow> judge_case c plan ev)))"

definition evaluate_representative_suite :: "digest \<Rightarrow> (string \<Rightarrow> string) \<Rightarrow> causal_receipt list res" where
  "evaluate_representative_suite H T = traverse (evaluate_representative_case H T) REPRESENTATIVE_ARCHITECTURE_CASES"

section \<open>Semantic derivations\<close>

record semantic_rubric =
  sb_rubric_id :: string
  sb_required_principles :: "string list"
  sb_minimum_full_score :: rat

record semantic_decision =
  sd_problem :: string
  sd_principles :: "string list"
  sd_recommendation :: string
  sd_evidence_refs :: "string list"
  sd_semantic_signature :: string
  sd_rubric_id :: string
  sd_quality_score :: rat
  sd_status :: string

record counterfactual_receipt =
  cf_case_id :: string
  cf_full_signature :: string
  cf_ablated_signature :: string
  cf_substituted_signature :: "string option"
  cf_full_quality_score :: rat
  cf_ablated_quality_score :: rat
  cf_substituted_quality_score :: "rat option"
  cf_semantic_derivation_causality_proven :: bool
  cf_bounded_quality_effect_proven :: bool
  cf_semantic_causality_scope :: string
  cf_quality_effect_scope :: string
  cf_reason :: string
  cf_identity_effect :: string
  cf_authority_effect :: string
  cf_canon_effect :: string

definition PRINCIPLE_PATTERNS :: "(string \<times> string list) list" where
  "PRINCIPLE_PATTERNS =
     [(''INCREMENTAL_BEHAVIOR_PRESERVING_CHANGE'', [''behavior-preserving'', ''all-at-once rewrite'']),
      (''CONTINUOUS_TEST_SUPPORTED_REFACTORING'', [''ongoing design activity'', ''supported by tests'']),
      (''STALE_ACTOR_REJECTION_AT_PROTECTED_BOUNDARY'', [''reject stale actors'', ''protected resource'']),
      (''EXACT_FAILURE_SEMANTICS_OVER_COARSE_LABELS'', [''exact operation'', ''failure mode'']),
      (''BOUNDARY_BY_INFORMATION_HIDING_AND_COUPLING'', [''information hiding'', ''coupling'', ''cohesion'']),
      (''INCREMENTAL_GOAL_DRIVEN_DECOMPOSITION'', [''decomposition'', ''incremental'', ''goal-driven'']),
      (''EXPLICIT_ROUTING_BOUNDARY'', [''routing responsibilities'', ''intermediary components'']),
      (''EXPLICIT_TRANSFORMATION_BOUNDARY'', [''transformation components'', ''format conversion'']),
      (''EXPLICIT_MESSAGING_ENDPOINT_BOUNDARY'', [''messaging endpoints'', ''explicit boundary''])]"

definition RECOMMENDATION_CLAUSES :: "(string \<times> string) list" where
  "RECOMMENDATION_CLAUSES =
     [(''INCREMENTAL_BEHAVIOR_PRESERVING_CHANGE'', ''evolve structure through small behavior-preserving changes''),
      (''CONTINUOUS_TEST_SUPPORTED_REFACTORING'', ''treat refactoring as continuous design backed by tests''),
      (''STALE_ACTOR_REJECTION_AT_PROTECTED_BOUNDARY'', ''reject stale actors at the protected resource boundary''),
      (''EXACT_FAILURE_SEMANTICS_OVER_COARSE_LABELS'', ''model exact operations, guarantees, and failure semantics''),
      (''BOUNDARY_BY_INFORMATION_HIDING_AND_COUPLING'', ''choose boundaries by information hiding, coupling, and cohesion''),
      (''INCREMENTAL_GOAL_DRIVEN_DECOMPOSITION'', ''decompose incrementally against an explicit architectural goal''),
      (''EXPLICIT_ROUTING_BOUNDARY'', ''isolate routing responsibility behind an explicit intermediary''),
      (''EXPLICIT_TRANSFORMATION_BOUNDARY'', ''isolate representation conversion in explicit transformation components''),
      (''EXPLICIT_MESSAGING_ENDPOINT_BOUNDARY'', ''keep messaging concerns behind explicit application endpoints'')]"

definition extract_semantic_principles :: "expert_evidence list \<Rightarrow> string list" where
  "extract_semantic_principles ev =
     (let material = join_with '' '' (map (\<lambda>e. casefold (xe_content e)) ev)
      in map fst (filter (\<lambda>(_, phrases). list_all (\<lambda>phrase. contains_str phrase material) phrases) PRINCIPLE_PATTERNS))"

definition rubric_hits :: "string list \<Rightarrow> semantic_rubric \<Rightarrow> nat" where
  "rubric_hits principles rubric = length (filter (\<lambda>p. p \<in> set principles) (sb_required_principles rubric))"

definition quality_score :: "float_arith \<Rightarrow> string list \<Rightarrow> semantic_rubric \<Rightarrow> rat res" where
  "quality_score F principles rubric =
     (if sb_required_principles rubric = [] then Inl (ValueError ''semantic_rubric_requires_principles'')
      else Inr (fl F (of_nat (rubric_hits principles rubric) / of_nat (length (sb_required_principles rubric)))))"

definition signature_tree :: "string \<Rightarrow> string list \<Rightarrow> string \<Rightarrow> pyval" where
  "signature_tree problem principles recommendation =
     json_tree (PyDict [(''problem'', PyStr (strip_spaces problem)), (''principles'', py_strs principles),
                        (''recommendation'', PyStr recommendation)])"

definition derive_semantic_architecture ::
    "digest \<Rightarrow> float_arith \<Rightarrow> string \<Rightarrow> expert_evidence list \<Rightarrow> semantic_rubric \<Rightarrow> semantic_decision res" where
  "derive_semantic_architecture D F problem ev rubric =
     (if blank problem then Inl (ValueError ''semantic_derivation_requires_problem'')
      else
        (let principles = extract_semantic_principles ev;
             clauses = map (\<lambda>p. the (map_of RECOMMENDATION_CLAUSES p)) (filter (\<lambda>p. map_of RECOMMENDATION_CLAUSES p \<noteq> None) principles);
             recommendation = join_with ''; '' clauses
         in map_sum id
              (\<lambda>score. \<lparr>sd_problem = strip_spaces problem, sd_principles = principles, sd_recommendation = recommendation,
                 sd_evidence_refs = distinct_in_order (map evidence_reference ev),
                 sd_semantic_signature = D (signature_tree problem principles recommendation),
                 sd_rubric_id = sb_rubric_id rubric, sd_quality_score = score,
                 sd_status = (if clauses \<noteq> [] then ''SEMANTIC_DERIVATION_AVAILABLE'' else ''NO_SEMANTIC_DERIVATION'')\<rparr>)
              (quality_score F principles rubric)))"

text \<open>The verdicts; a missing substitution counts as a change and as a loss.\<close>

definition semantic_proven :: "semantic_decision \<Rightarrow> semantic_decision \<Rightarrow> semantic_decision option \<Rightarrow> bool" where
  "semantic_proven full ablated substituted \<longleftrightarrow>
     sd_semantic_signature full \<noteq> sd_semantic_signature ablated \<and>
     (case substituted of None \<Rightarrow> True | Some s \<Rightarrow> sd_semantic_signature full \<noteq> sd_semantic_signature s)"

definition quality_proven :: "semantic_rubric \<Rightarrow> semantic_decision \<Rightarrow> semantic_decision \<Rightarrow> semantic_decision option \<Rightarrow> bool" where
  "quality_proven rubric full ablated substituted \<longleftrightarrow>
     sd_quality_score full \<ge> sb_minimum_full_score rubric \<and> sd_quality_score ablated < sd_quality_score full \<and>
     (case substituted of None \<Rightarrow> True | Some s \<Rightarrow> sd_quality_score s < sd_quality_score full)"

definition evaluate_counterfactual ::
    "string \<Rightarrow> semantic_decision \<Rightarrow> semantic_decision \<Rightarrow> semantic_decision option \<Rightarrow> semantic_rubric \<Rightarrow> counterfactual_receipt res" where
  "evaluate_counterfactual case_id full ablated substituted rubric =
     checks
       [(\<not> blank case_id, ''semantic_causality_case_id_required''),
        ({sd_rubric_id full, sd_rubric_id ablated} = {sb_rubric_id rubric}, ''semantic_causality_rubric_mismatch''),
        (case substituted of None \<Rightarrow> True | Some s \<Rightarrow> sd_rubric_id s = sb_rubric_id rubric, ''semantic_causality_rubric_mismatch'')]
       \<lparr>cf_case_id = case_id, cf_full_signature = sd_semantic_signature full, cf_ablated_signature = sd_semantic_signature ablated,
        cf_substituted_signature = map_option sd_semantic_signature substituted,
        cf_full_quality_score = sd_quality_score full, cf_ablated_quality_score = sd_quality_score ablated,
        cf_substituted_quality_score = map_option sd_quality_score substituted,
        cf_semantic_derivation_causality_proven = semantic_proven full ablated substituted,
        cf_bounded_quality_effect_proven = quality_proven rubric full ablated substituted,
        cf_semantic_causality_scope = ''BOUNDED_COUNTERFACTUAL_HARNESS_ONLY'',
        cf_quality_effect_scope = ''PREDECLARED_BOUNDED_RUBRIC_ONLY'',
        cf_reason = (if semantic_proven full ablated substituted \<and> quality_proven rubric full ablated substituted
          then ''bounded_counterfactual_semantic_and_quality_effect_proven''
          else ''bounded_counterfactual_semantic_or_quality_effect_not_proven''),
        cf_identity_effect = ''NONE'', cf_authority_effect = ''NONE'', cf_canon_effect = ''NONE''\<rparr>"

section \<open>What the verdicts mean\<close>

lemma starts_with_append [simp]: "starts_with p (p @ s)"
  by (simp add: starts_with_def)

lemma draft_grounded:
  assumes "draft_architectural_derivation plan ev proposition = Inr d"
  shows "evidence_grounded d ev"
proof -
  note d = draft_Inr[OF assms]
  have "starts_with (xe_source_id e @ '':'') (evidence_reference e)" for e
    using starts_with_append[of "xe_source_id e @ '':''" "xe_fragment_id e @ ''@'' @ xe_locator e"]
    by (simp add: evidence_reference_def)
  moreover have s: "set (ad_evidence_refs d) = evidence_reference ` set ev"
    using d by simp
  moreover have "ad_evidence_refs d \<noteq> []"
    using d s by (metis image_is_empty set_empty)
  ultimately show ?thesis
    unfolding evidence_grounded_def list_all_iff list_ex_iff by auto
qed

lemma draft_effects:
  "draft_architectural_derivation plan ev proposition = Inr d \<Longrightarrow> effects_preserved plan d ev"
  by (auto simp: effects_preserved_def draft_architectural_derivation_def checks_Inr list_all_iff evidence_checks_def
      simp del: checks.simps)

text \<open>
  The harness over the shipped corpus never fails and never reports a broken chain. Its
  verdict on a case with a proposition is positive exactly when the problem selects the expected
  lens, the plan allows the expected family and evidence of that family was retrieved; then the
  receipt lists the references of all the evidence.
\<close>

lemma representative_case_decided:
  assumes "\<And>v. hex_digest (H v)" and "\<And>s. hex_digest (T s)" and "\<not> blank (rc_proposition c)"
  shows "\<exists>plan ev r. build_retrieval_plan (rc_problem c) DEDALA_EXPERTISE_MANIFEST = Inr plan
    \<and> retrieve_expert_evidence H T plan (DEDALA_EXPERT_SOURCES H T) (DEDALA_EXPERT_FRAGMENTS T) = Inr ev
    \<and> evaluate_representative_case H T c = Inr r
    \<and> cx_reason r \<noteq> ''causal_chain_integrity_failed''
    \<and> (cx_causal_consumption_proven r \<longleftrightarrow> rc_expected_lens c \<in> set (rp_candidate_lenses plan)
         \<and> rc_expected_source_family c \<in> set (rp_allowed_source_families plan)
         \<and> (\<exists>e \<in> set ev. xe_source_family e = rc_expected_source_family c))
    \<and> (cx_causal_consumption_proven r \<longrightarrow> set (cx_evidence_refs r) = evidence_reference ` set ev)"
proof -
  have valid: "validate_seed_corpus H T = Inr ()" by (rule seed_corpus_valid)
  obtain plan ev where p: "build_retrieval_plan (rc_problem c) DEDALA_EXPERTISE_MANIFEST = Inr plan"
    and ev: "retrieve_expert_evidence H T plan (DEDALA_EXPERT_SOURCES H T) (DEDALA_EXPERT_FRAGMENTS T) = Inr ev"
    and drafts: "ev \<noteq> [] \<longrightarrow> (\<exists>d. draft_architectural_derivation plan ev (rc_proposition c) = Inr d)"
    using conjunct2[OF seed_corpus_retrieves[where problem = "rc_problem c" and H = H and T = T, OF assms]] by (elim exE conjE) (rule that, assumption, assumption, blast)
  have run: "evaluate_representative_case H T c = judge_case c plan ev"
    by (simp add: evaluate_representative_case_def valid p ev)
  show ?thesis
  proof (cases "rc_expected_lens c \<in> set (rp_candidate_lenses plan) \<and> rc_expected_source_family c \<in> set (rp_allowed_source_families plan)
      \<and> (\<exists>e \<in> set ev. xe_source_family e = rc_expected_source_family c)")
    case False
    then have "\<exists>r. judge_case c plan ev = Inr r \<and> \<not> cx_causal_consumption_proven r \<and> cx_reason r \<noteq> ''causal_chain_integrity_failed''"
      by (auto simp: judge_case_def mk_causal_receipt_def filter_empty_conv Let_def)
    then show ?thesis
      using False p ev run by metis
  next
    case True
    then obtain d where d: "draft_architectural_derivation plan ev (rc_proposition c) = Inr d"
      using drafts by fastforce
    have f: "filter (\<lambda>e. xe_source_family e = rc_expected_source_family c) ev \<noteq> []"
      using True by (simp add: filter_empty_conv)
    have "judge_case c plan ev = Inr (mk_causal_receipt c (rp_candidate_lenses plan) (map xe_source_id ev) (ad_evidence_refs d) True
        ''bounded_routing_and_evidence_attachment_causality_proven'')"
      using True f d draft_effects[OF d] draft_grounded[OF d] by (simp add: judge_case_def Let_def)
    moreover have "set (ad_evidence_refs d) = evidence_reference ` set ev"
      using draft_Inr[OF d] by simp
    ultimately show ?thesis
      using True p ev run by (auto simp: mk_causal_receipt_def)
  qed
qed

lemma derive_Inr:
  "derive_semantic_architecture D F problem ev rubric = Inr d \<Longrightarrow>
     sd_principles d = extract_semantic_principles ev \<and> sd_problem d = strip_spaces problem \<and> sd_rubric_id d = sb_rubric_id rubric \<and>
     sb_required_principles rubric \<noteq> [] \<and>
     sd_semantic_signature d = D (signature_tree problem (sd_principles d) (sd_recommendation d)) \<and>
     sd_recommendation d = join_with ''; '' (map (\<lambda>p. the (map_of RECOMMENDATION_CLAUSES p))
        (filter (\<lambda>p. map_of RECOMMENDATION_CLAUSES p \<noteq> None) (sd_principles d))) \<and>
     sd_quality_score d = fl F (of_nat (rubric_hits (sd_principles d) rubric) / of_nat (length (sb_required_principles rubric)))"
  by (auto simp: derive_semantic_architecture_def quality_score_def Let_def map_sum_id_Inr split: if_split_asm)

lemma fewer_hits:
  assumes "mono (fl F)" "fl F (of_nat (rubric_hits ps rubric) / n) < fl F (of_nat (rubric_hits qs rubric) / n)" "0 \<le> n"
  shows "\<exists>p \<in> set (sb_required_principles rubric). p \<in> set qs \<and> p \<notin> set ps"
proof (rule ccontr)
  assume none: "\<not> ?thesis"
  have "length (filter (\<lambda>p. p \<in> set qs) rs) \<le> length (filter (\<lambda>p. p \<in> set ps) rs)"
    if "\<forall>p \<in> set rs. p \<in> set qs \<longrightarrow> p \<in> set ps" for rs
    using that by (induction rs) auto
  then have "rubric_hits qs rubric \<le> rubric_hits ps rubric"
    using none unfolding rubric_hits_def by blast
  then have "of_nat (rubric_hits qs rubric) / n \<le> of_nat (rubric_hits ps rubric) / n"
    using assms(3) by (intro divide_right_mono) auto
  then show False
    using monoD[OF assms(1)] assms(2) by (simp add: leD)
qed

text \<open>
  What a positive counterfactual verdict is worth. If both verdicts are positive for
  decisions that were derived with the rubric from the full, the ablated and the substituted
  evidence of one problem, then taking the evidence away changed the principles that were found,
  and lost one that the rubric requires and the full evidence shows; the same holds of the
  substitution, if there is one; and the full decision meets the minimum of the rubric.
\<close>

lemma counterfactual_sound:
  assumes "evaluate_counterfactual case_id full ablated substituted rubric = Inr r"
    and "cf_semantic_derivation_causality_proven r" and "cf_bounded_quality_effect_proven r" and "mono (fl F)"
    and "derive_semantic_architecture D F problem ev rubric = Inr full"
    and "derive_semantic_architecture D F problem ev1 rubric = Inr ablated"
    and "\<And>s. substituted = Some s \<Longrightarrow> derive_semantic_architecture D F problem (ev2 s) rubric = Inr s"
  shows "sb_minimum_full_score rubric \<le> sd_quality_score full
    \<and> (\<forall>other. other = ablated \<or> substituted = Some other \<longrightarrow>
         sd_principles other \<noteq> sd_principles full \<and>
         (\<exists>p \<in> set (sb_required_principles rubric). p \<in> set (sd_principles full) \<and> p \<notin> set (sd_principles other)))"
proof -
  have r: "semantic_proven full ablated substituted" "quality_proven rubric full ablated substituted"
    using assms(1-3) by (auto simp: evaluate_counterfactual_def checks_Inr simp del: checks.simps)
  have each: "\<exists>p \<in> set (sb_required_principles rubric). p \<in> set (sd_principles full) \<and> p \<notin> set (sd_principles other)"
    if "sd_quality_score other < sd_quality_score full" "derive_semantic_architecture D F problem e rubric = Inr other" for other e
    by (rule fewer_hits[OF assms(4), of _ _ "of_nat (length (sb_required_principles rubric))"])
      (use derive_Inr[OF assms(5)] derive_Inr[OF that(2)] that(1) in simp_all)
  have "\<exists>p \<in> set (sb_required_principles rubric). p \<in> set (sd_principles full) \<and> p \<notin> set (sd_principles other)"
    if "other = ablated \<or> substituted = Some other" for other
  proof (cases "other = ablated")
    case True
    then show ?thesis using each[OF _ assms(6)] r(2) by (simp add: quality_proven_def)
  next
    case False
    then have s: "substituted = Some other" using that by simp
    then show ?thesis using each[OF _ assms(7)[OF s]] r(2) by (simp add: quality_proven_def)
  qed
  then have "sd_principles other \<noteq> sd_principles full \<and>
      (\<exists>p \<in> set (sb_required_principles rubric). p \<in> set (sd_principles full) \<and> p \<notin> set (sd_principles other))"
    if "other = ablated \<or> substituted = Some other" for other
    using that by metis
  moreover have "sb_minimum_full_score rubric \<le> sd_quality_score full"
    using r(2) by (simp add: quality_proven_def)
  ultimately show ?thesis by blast
qed

text \<open>
  The harness does not compare the problems of the decisions: the same evidence with another
  wording of the problem already counts as a semantic effect.
\<close>

lemma rewording_counts_as_effect:
  assumes "derive_semantic_architecture D F p1 ev rubric = Inr full" "derive_semantic_architecture D F p2 ev rubric = Inr ablated"
    and "strip_spaces p1 \<noteq> strip_spaces p2"
  shows "collision D (signature_tree p1 (sd_principles full) (sd_recommendation full))
           (signature_tree p2 (sd_principles ablated) (sd_recommendation ablated))
    \<or> semantic_proven full ablated None \<and> sd_principles full = sd_principles ablated"
proof -
  have "signature_tree p1 ps r \<noteq> signature_tree p2 qs t" for ps r qs t
    using assms(3) by (simp add: signature_tree_def)
  then show ?thesis
    using derive_Inr[OF assms(1)] derive_Inr[OF assms(2)] by (auto simp: collision_def semantic_proven_def)
qed

section \<open>Concrete inputs\<close>

lemma representative_case_decided_witness:
  "\<exists>r. evaluate_representative_case (\<lambda>_. hex_a) (\<lambda>_. hex_a) (hd REPRESENTATIVE_ARCHITECTURE_CASES) = Inr r
     \<and> cx_reason r \<noteq> ''causal_chain_integrity_failed''"
proof -
  have "\<not> blank (rc_proposition (hd REPRESENTATIVE_ARCHITECTURE_CASES))"
    by (simp add: REPRESENTATIVE_ARCHITECTURE_CASES_def mk_case_def not_blank_Cons is_space_def)
  then show ?thesis
    using representative_case_decided[where H = "\<lambda>_. hex_a" and T = "\<lambda>_. hex_a", OF hex_a_digest hex_a_digest] by blast
qed

definition routing_evidence :: expert_evidence where
  "routing_evidence = sample_evidence\<lparr>xe_content := ''routing responsibilities in intermediary components''\<rparr>"

definition routing_rubric :: semantic_rubric where
  "routing_rubric = \<lparr>sb_rubric_id = ''r'', sb_required_principles = [''EXPLICIT_ROUTING_BOUNDARY''], sb_minimum_full_score = 1\<rparr>"

definition echo_digest :: digest where
  "echo_digest v = (if py_get v ''principles'' = Some (PyList []) then ''none'' else ''some'')"

definition decision_on :: "expert_evidence list \<Rightarrow> semantic_decision" where
  "decision_on ev = projr (derive_semantic_architecture echo_digest exact_arith ''p'' ev routing_rubric)"

lemma extract_sample: "extract_semantic_principles [routing_evidence] = [''EXPLICIT_ROUTING_BOUNDARY'']"
  "extract_semantic_principles [] = []"
  by code_simp+

lemma decision_Inr: "derive_semantic_architecture echo_digest exact_arith ''p'' ev routing_rubric = Inr (decision_on ev)"
proof -
  have "\<exists>d. derive_semantic_architecture echo_digest exact_arith ''p'' ev routing_rubric = Inr d"
    by (simp add: derive_semantic_architecture_def quality_score_def routing_rubric_def not_blank_Cons is_space_def Let_def)
  then show ?thesis by (auto simp: decision_on_def)
qed

lemma sample_verdict:
  "\<exists>r. evaluate_counterfactual ''c'' (decision_on [routing_evidence]) (decision_on []) None routing_rubric = Inr r
     \<and> cf_semantic_derivation_causality_proven r \<and> cf_bounded_quality_effect_proven r"
proof -
  note f = derive_Inr[OF decision_Inr[of "[routing_evidence]"]] and a = derive_Inr[OF decision_Inr[of "[]"]]
  have s: "sd_semantic_signature (decision_on [routing_evidence]) = ''some''" "sd_semantic_signature (decision_on []) = ''none''"
    using f a by (simp_all add: extract_sample echo_digest_def signature_tree_def py_strs_def)
  have q: "sd_quality_score (decision_on [routing_evidence]) = 1" "sd_quality_score (decision_on []) = 0"
    using f a by (simp_all add: extract_sample rubric_hits_def routing_rubric_def exact_arith_def)
  have i: "sd_rubric_id (decision_on [routing_evidence]) = ''r''" "sd_rubric_id (decision_on []) = ''r''"
    using f a by (simp_all add: routing_rubric_def)
  show ?thesis
    by (simp add: evaluate_counterfactual_def s q i routing_rubric_def semantic_proven_def quality_proven_def not_blank_Cons is_space_def)
qed

lemma counterfactual_sound_witness:
  "\<exists>p \<in> set (sb_required_principles routing_rubric).
     p \<in> set (sd_principles (decision_on [routing_evidence])) \<and> p \<notin> set (sd_principles (decision_on []))"
proof -
  obtain r where r: "evaluate_counterfactual ''c'' (decision_on [routing_evidence]) (decision_on []) None routing_rubric = Inr r"
    "cf_semantic_derivation_causality_proven r" "cf_bounded_quality_effect_proven r"
    using sample_verdict by blast
  have "mono (fl exact_arith)"
    by (simp add: exact_arith_def mono_def)
  from counterfactual_sound[OF r this decision_Inr decision_Inr] show ?thesis
    by simp
qed

end
