(* ===== verification/Trading_Contracts.thy ===== *)
theory Trading_Contracts
  imports Cognition Py_Datetime
begin

text \<open>
  \<^verbatim>\<open>contracts.py\<close>, \<^verbatim>\<open>pricing.py\<close>, \<^verbatim>\<open>economics.py\<close> and \<^verbatim>\<open>ledger.py\<close> of
  \<^verbatim>\<open>app/trading_runtime\<close>, and the arithmetic of times it needs.

  A price is a finite float, that is a rational; the result of a float operation is rounded by
  \<open>fl\<close>, and \<^verbatim>\<open>round(x, n)\<close> is \<open>decimals\<close>. Infinities and NaN are not modelled. The budgets are
  \<^verbatim>\<open>Decimal\<close>s, whose sums are exact up to the 28 digits of the default context, here rationals
  with exact sums. What \<^verbatim>\<open>uuid4\<close> and the clock answer is given.
\<close>

section \<open>Arithmetic of times\<close>

text \<open>\<^verbatim>\<open>d + timedelta(minutes=n)\<close>; \<open>None\<close> is the \<^verbatim>\<open>OverflowError\<close> after the year 9999.\<close>

definition plus_minutes :: "nat \<Rightarrow> pydatetime \<Rightarrow> pydatetime option" where
  "plus_minutes n d =
     (let total = dt_hour d * 60 + dt_minute d + n;
          e = (next_day ^^ (total div 1440)) d
      in if dt_year e \<le> 9999 then Some (e\<lparr>dt_hour := total mod 1440 div 60, dt_minute := total mod 60\<rparr>) else None)"

text \<open>
  \<^verbatim>\<open>datetime.fromtimestamp(ms / 1000, tz=utc)\<close> for milliseconds since 1970; the float
  \<^verbatim>\<open>ms / 1000\<close> is precise enough for the rounding to microseconds to give the exact time.
\<close>

definition epoch :: pydatetime where
  "epoch = \<lparr>dt_year = 1970, dt_month = 1, dt_day = 1, dt_hour = 0, dt_minute = 0, dt_second = 0, dt_micro = 0,
     dt_offset = Some 0\<rparr>"

definition from_timestamp_ms :: "nat \<Rightarrow> pydatetime option" where
  "from_timestamp_ms ms =
     (let s = ms div 1000;
          e = (next_day ^^ (s div 86400)) epoch
      in if dt_year e \<le> 9999
         then Some (e\<lparr>dt_hour := s mod 86400 div 3600, dt_minute := s mod 3600 div 60, dt_second := s mod 60,
                     dt_micro := ms mod 1000 * 1000\<rparr>)
         else None)"

section \<open>Contracts\<close>

record price_arith = float_arith +
  decimals :: "nat \<Rightarrow> rat \<Rightarrow> rat"

datatype direction = Dir_BUY | Dir_SELL | Dir_HOLD

fun direction_value :: "direction \<Rightarrow> string" where
  "direction_value Dir_BUY = ''BUY''"
| "direction_value Dir_SELL = ''SELL''"
| "direction_value Dir_HOLD = ''HOLD''"

datatype hold_reason = Hold_NO_EDGE | Hold_DATA | Hold_COST | Hold_MODEL | Hold_RISK | Hold_DRAWDOWN
  | Hold_ANOMALY | Hold_PROVIDER | Hold_SYSTEM_STOP

record market_snapshot =
  ms_asset :: string
  ms_price :: rat
  ms_market_data_timestamp :: pydatetime
  ms_received_at :: pydatetime
  ms_data_cutoff :: pydatetime
  ms_source :: string

record trade_signal =
  ts_signal_id :: string
  ts_run_id :: string
  ts_asset :: string
  ts_direction :: direction
  ts_estimated_holding_minutes :: "int option"
  ts_signal_expires_at :: pydatetime
  ts_entry_price :: "rat option"
  ts_target_price :: "rat option"
  ts_stop_price :: "rat option"
  ts_gross_expected_return_pct :: "rat option"
  ts_estimated_trading_cost_pct :: rat
  ts_net_expected_return_pct :: "rat option"
  ts_position_size :: rat
  ts_account_risk_pct :: rat
  ts_confidence_score :: "rat option"
  ts_data_cutoff :: pydatetime
  ts_market_data_timestamp :: pydatetime
  ts_evidence_ref :: string
  ts_hold_reason :: "hold_reason option"

section \<open>Provider prices\<close>

record provider_price =
  pp_provider :: string
  pp_model :: string
  pp_input_price :: rat
  pp_cached_input_price :: rat
  pp_output_price :: rat
  pp_currency :: string
  pp_effective_at :: string
  pp_source :: string

type_synonym pricing_registry = "((string \<times> string) \<times> provider_price) list"

definition register_price :: "provider_price \<Rightarrow> (pricing_registry, unit) py" where
  "register_price p =
     (if min (pp_input_price p) (min (pp_cached_input_price p) (pp_output_price p)) < 0
      then py_raise (ValueError ''prices must be non-negative'')
      else py_modify (dset (pp_provider p, pp_model p) p))"

definition get_price :: "string \<Rightarrow> string \<Rightarrow> (pricing_registry, provider_price) py" where
  "get_price provider model =
     py_bind (py_gets (\<lambda>r. map_of r (provider, model))) (\<lambda>found.
     case found of None \<Rightarrow> py_raise (KeyError ''provider/model pricing is not configured'') | Some p \<Rightarrow> py_return p)"

section \<open>The budget\<close>

record budget_policy =
  bp_daily :: rat
  bp_monthly :: rat
  bp_run :: rat
  bp_signal :: rat
  bp_cycle_call_limit :: int
  bp_strong_model_limit :: int

record cost_reservation =
  rv_reservation_id :: string
  rv_expected_cost :: rat
  rv_strong :: bool
  rv_committed :: bool

record economic_governor =
  eg_policy :: budget_policy
  eg_spent_daily :: rat
  eg_spent_monthly :: rat
  eg_spent_run :: rat
  eg_calls_this_cycle :: int
  eg_strong_calls_today :: int
  eg_reserved :: rat
  eg_reservations :: "(string \<times> cost_reservation) list"

definition new_governor :: "budget_policy \<Rightarrow> economic_governor" where
  "new_governor p = \<lparr>eg_policy = p, eg_spent_daily = 0, eg_spent_monthly = 0, eg_spent_run = 0, eg_calls_this_cycle = 0,
     eg_strong_calls_today = 0, eg_reserved = 0, eg_reservations = []\<rparr>"

definition outstanding_strong :: "economic_governor \<Rightarrow> int" where
  "outstanding_strong g = int (length (filter (\<lambda>(_, v). rv_strong v) (eg_reservations g)))"

text \<open>The guards of \<^verbatim>\<open>reserve\<close>, in their order; each returns \<^verbatim>\<open>None\<close>.\<close>

definition reserve_refused :: "rat \<Rightarrow> bool \<Rightarrow> economic_governor \<Rightarrow> bool" where
  "reserve_refused cost strong g \<longleftrightarrow>
     (let p = eg_policy g; projected = eg_reserved g + cost
      in cost < 0 \<or> cost > bp_signal p
         \<or> eg_calls_this_cycle g \<ge> bp_cycle_call_limit p
         \<or> strong \<and> eg_strong_calls_today g + outstanding_strong g \<ge> bp_strong_model_limit p
         \<or> eg_spent_daily g + projected > bp_daily p
         \<or> eg_spent_monthly g + projected > bp_monthly p
         \<or> eg_spent_run g + projected > bp_run p)"

definition reserve_cost :: "string \<Rightarrow> rat \<Rightarrow> bool \<Rightarrow> economic_governor \<Rightarrow> cost_reservation option \<times> economic_governor" where
  "reserve_cost i cost strong g =
     (if reserve_refused cost strong g then (None, g)
      else (let r = \<lparr>rv_reservation_id = i, rv_expected_cost = cost, rv_strong = strong, rv_committed = False\<rparr>
            in (Some r, g\<lparr>eg_reservations := dset i r (eg_reservations g), eg_reserved := eg_reserved g + cost,
                         eg_calls_this_cycle := eg_calls_this_cycle g + 1\<rparr>)))"

text \<open>
  The flag \<^verbatim>\<open>committed\<close> is set on an object that has left the dictionary: it is what the
  holder of the reservation sees, not part of the state of the governor.
\<close>

definition reconcile_cost :: "string \<Rightarrow> rat \<Rightarrow> bool \<Rightarrow> economic_governor \<Rightarrow> bool \<times> economic_governor" where
  "reconcile_cost i actual strong g =
     (case map_of (eg_reservations g) i of
        None \<Rightarrow> (False, g)
      | Some r \<Rightarrow>
          if actual < 0 \<or> strong \<noteq> rv_strong r then (False, g)
          else (True, g\<lparr>eg_reservations := dpop i (eg_reservations g),
                        eg_reserved := eg_reserved g - rv_expected_cost r,
                        eg_spent_daily := eg_spent_daily g + actual,
                        eg_spent_monthly := eg_spent_monthly g + actual,
                        eg_spent_run := eg_spent_run g + actual,
                        eg_strong_calls_today := (if rv_strong r then eg_strong_calls_today g + 1 else eg_strong_calls_today g)\<rparr>))"

definition rollback_cost :: "string \<Rightarrow> economic_governor \<Rightarrow> bool \<times> economic_governor" where
  "rollback_cost i g =
     (case map_of (eg_reservations g) i of
        None \<Rightarrow> (False, g)
      | Some r \<Rightarrow> (True, g\<lparr>eg_reservations := dpop i (eg_reservations g), eg_reserved := eg_reserved g - rv_expected_cost r\<rparr>))"

section \<open>The evidence ledger\<close>

record evidence_event =
  xv_event_id :: string
  xv_causal_parent_id :: "string option"
  xv_run_id :: string
  xv_event_type :: string
  xv_input_hash :: string
  xv_output_hash :: string
  xv_config_hash :: string
  xv_data_snapshot_ref :: string
  xv_predecessor :: "string option"
  xv_created_at :: string

type_synonym evidence_ledger = "evidence_event list"

definition hash_evidence :: "digest \<Rightarrow> pyval \<Rightarrow> string" where
  "hash_evidence H payload = H (json_tree payload)"

definition append_evidence ::
    "digest \<Rightarrow> string \<Rightarrow> pydatetime \<Rightarrow> string \<Rightarrow> string \<Rightarrow> pyval \<Rightarrow> pyval \<Rightarrow> pyval \<Rightarrow> string \<Rightarrow> string option
       \<Rightarrow> string option \<Rightarrow> (evidence_ledger, evidence_event) py" where
  "append_evidence H i now run_id event_type input output config snapshot_ref parent predecessor =
     (let e = \<lparr>xv_event_id = i, xv_causal_parent_id = parent, xv_run_id = run_id, xv_event_type = event_type,
               xv_input_hash = hash_evidence H input, xv_output_hash = hash_evidence H output,
               xv_config_hash = hash_evidence H config, xv_data_snapshot_ref = snapshot_ref,
               xv_predecessor = predecessor, xv_created_at = isoformat now\<rparr>
      in py_bind (py_modify (\<lambda>es. es @ [e])) (\<lambda>_. py_return e))"

end
