(* ===== verification/Trading_Runtime.thy ===== *)
theory Trading_Runtime
  imports Trading_Contracts
begin

text \<open>
  \<^verbatim>\<open>risk.py\<close>, \<^verbatim>\<open>runtime.py\<close>, \<^verbatim>\<open>strategy.py\<close>, \<^verbatim>\<open>paper.py\<close>, the reading of candles in
  \<^verbatim>\<open>market.py\<close> and \<^verbatim>\<open>radar.py\<close> of \<^verbatim>\<open>app/trading_runtime\<close>: from candles to a signal, its
  evidence, and what became of it on paper.
\<close>

section \<open>Risk\<close>

record risk_policy =
  ri_max_capital_at_risk_per_trade_pct :: rat
  ri_max_daily_realized_loss_pct :: rat
  ri_max_daily_total_risk_pct :: rat
  ri_max_concurrent_exposure_pct :: rat
  ri_max_correlated_exposure_pct :: rat
  ri_max_drawdown_pct :: rat
  ri_absolute_max_stop_distance_pct :: rat

definition new_risk_policy :: risk_policy where
  "new_risk_policy = \<lparr>ri_max_capital_at_risk_per_trade_pct = 1, ri_max_daily_realized_loss_pct = 3,
     ri_max_daily_total_risk_pct = 4, ri_max_concurrent_exposure_pct = 25, ri_max_correlated_exposure_pct = 15,
     ri_max_drawdown_pct = 10, ri_absolute_max_stop_distance_pct = 25\<rparr>"

definition position_size :: "price_arith \<Rightarrow> risk_policy \<Rightarrow> rat \<Rightarrow> rat \<Rightarrow> rat \<Rightarrow> (rat \<times> rat) res" where
  "position_size F p capital entry stop =
     (let f = fl F in
      if capital \<le> 0 \<or> entry \<le> 0 \<or> stop \<le> 0 then Inl (ValueError ''capital, entry, and stop must be positive'')
      else
        (let distance = \<bar>f (entry - stop)\<bar>;
             stop_distance_pct = f (f (distance / entry) * 100)
         in if stop_distance_pct \<le> 0 \<or> stop_distance_pct > ri_absolute_max_stop_distance_pct p
            then Inl (ValueError ''stop distance outside policy'')
            else
              (let risk_amount = f (capital * f (ri_max_capital_at_risk_per_trade_pct p / 100));
                   units = f (risk_amount / distance)
               in Inr (f (units * entry), ri_max_capital_at_risk_per_trade_pct p))))"

section \<open>Signals\<close>

record trading_runtime =
  tr_risk_policy :: risk_policy
  tr_max_data_age_seconds :: int
  tr_assumed_trading_cost_pct :: rat

definition new_trading_runtime :: "price_arith \<Rightarrow> trading_runtime" where
  "new_trading_runtime F = \<lparr>tr_risk_policy = new_risk_policy, tr_max_data_age_seconds = 120,
     tr_assumed_trading_cost_pct = fl F (1 / 5)\<rparr>"

definition hold_signal ::
    "trading_runtime \<Rightarrow> market_snapshot \<Rightarrow> string \<Rightarrow> string \<Rightarrow> pydatetime \<Rightarrow> hold_reason \<Rightarrow> trade_signal" where
  "hold_signal t m run_id signal_id expires_at reason =
     \<lparr>ts_signal_id = signal_id, ts_run_id = run_id, ts_asset = ms_asset m, ts_direction = Dir_HOLD,
      ts_estimated_holding_minutes = None, ts_signal_expires_at = expires_at, ts_entry_price = None,
      ts_target_price = None, ts_stop_price = None, ts_gross_expected_return_pct = None,
      ts_estimated_trading_cost_pct = tr_assumed_trading_cost_pct t, ts_net_expected_return_pct = None,
      ts_position_size = 0, ts_account_risk_pct = 0, ts_confidence_score = None,
      ts_data_cutoff = ms_data_cutoff m, ts_market_data_timestamp = ms_market_data_timestamp m,
      ts_evidence_ref = ''signal:'' @ signal_id, ts_hold_reason = Some reason\<rparr>"

text \<open>The direction and the gross return of a pair of levels; \<open>None\<close> is the last \<^verbatim>\<open>else\<close>.\<close>

definition trade_edge :: "price_arith \<Rightarrow> rat \<Rightarrow> rat \<Rightarrow> rat \<Rightarrow> (direction \<times> rat) option" where
  "trade_edge F entry target stop =
     (let f = fl F in
      if target > entry \<and> stop < entry then Some (Dir_BUY, f (f (f (target - entry) / entry) * 100))
      else if target < entry \<and> stop > entry then Some (Dir_SELL, f (f (f (entry - target) / entry) * 100))
      else None)"

text \<open>
  \<^verbatim>\<open>now\<close> has the offset zero; taking a time without an offset from it is a
  \<^verbatim>\<open>TypeError\<close>.
\<close>

definition evaluate_snapshot ::
    "price_arith \<Rightarrow> trading_runtime \<Rightarrow> pydatetime \<Rightarrow> string \<Rightarrow> string \<Rightarrow> market_snapshot \<Rightarrow> rat \<Rightarrow> rat option
       \<Rightarrow> rat option \<Rightarrow> int \<Rightarrow> rat option \<Rightarrow> trade_signal res" where
  "evaluate_snapshot F t now run_id signal_id m capital technical_stop target minutes confidence =
     (if \<not> aware (ms_market_data_timestamp m) then Inl (OtherError ''TypeError'')
      else
       (let age = fl F (dt_seconds now (ms_market_data_timestamp m)) in
        case plus_minutes (nat (max 30 (minutes div 2))) now of
          None \<Rightarrow> Inl (OtherError ''OverflowError'')
        | Some expires_at \<Rightarrow>
            (let hold = (\<lambda>reason. Inr (hold_signal t m run_id signal_id expires_at reason)) in
             if age < 0 \<or> age > of_int (tr_max_data_age_seconds t) then hold Hold_DATA
             else
              (case (technical_stop, target) of
                 (Some stop, Some goal) \<Rightarrow>
                   (let entry = ms_price m in
                    if entry \<le> 0 then hold Hold_DATA
                    else
                     (case trade_edge F entry goal stop of
                        None \<Rightarrow> hold Hold_NO_EDGE
                      | Some (dir, gross) \<Rightarrow>
                          (case position_size F (tr_risk_policy t) capital entry stop of
                             Inl _ \<Rightarrow> hold Hold_RISK
                           | Inr (position, account_risk) \<Rightarrow>
                               (let net = fl F (gross - tr_assumed_trading_cost_pct t) in
                                if net \<le> 0 then hold Hold_NO_EDGE
                                else Inr
                                  \<lparr>ts_signal_id = signal_id, ts_run_id = run_id, ts_asset = ms_asset m,
                                   ts_direction = dir, ts_estimated_holding_minutes = Some minutes,
                                   ts_signal_expires_at = expires_at, ts_entry_price = Some entry,
                                   ts_target_price = Some goal, ts_stop_price = Some stop,
                                   ts_gross_expected_return_pct = Some (decimals F 4 gross),
                                   ts_estimated_trading_cost_pct = tr_assumed_trading_cost_pct t,
                                   ts_net_expected_return_pct = Some (decimals F 4 net),
                                   ts_position_size = decimals F 8 position,
                                   ts_account_risk_pct = account_risk,
                                   ts_confidence_score = confidence,
                                   ts_data_cutoff = ms_data_cutoff m,
                                   ts_market_data_timestamp = ms_market_data_timestamp m,
                                   ts_evidence_ref = ''signal:'' @ signal_id, ts_hold_reason = None\<rparr>))))
               | _ \<Rightarrow> hold Hold_NO_EDGE))))"

section \<open>Candles and opportunities\<close>

record candle =
  cd_open :: rat
  cd_high :: rat
  cd_low :: rat
  cd_close :: rat
  cd_close_time_ms :: nat

text \<open>
  \<^verbatim>\<open>klines\<close> without the request: of the rows of the answer, read as numbers, those whose
  candle has closed by the clock.
\<close>

definition closed_candles :: "nat \<Rightarrow> candle list \<Rightarrow> candle list res" where
  "closed_candles now_ms rows =
     (let candles = filter (\<lambda>c. \<not> cd_close_time_ms c > now_ms) rows
      in if candles = [] then Inl (RuntimeError ''no closed candles available'') else Inr candles)"

record opportunity =
  oy_direction :: direction
  oy_entry :: rat
  oy_stop :: "rat option"
  oy_target :: "rat option"
  oy_estimated_holding_minutes :: int
  oy_confidence_score :: rat

definition last_n :: "nat \<Rightarrow> 'a list \<Rightarrow> 'a list" where
  "last_n n xs = drop (length xs - n) xs"

definition sma :: "price_arith \<Rightarrow> rat list \<Rightarrow> nat \<Rightarrow> rat" where
  "sma F values n = fl F (fsum F (last_n n values) / of_nat n)"

definition atr :: "price_arith \<Rightarrow> candle list \<Rightarrow> nat \<Rightarrow> rat" where
  "atr F candles n =
     (let recent = last_n n candles
      in fl F (fsum F (map (\<lambda>c. fl F (cd_high c - cd_low c)) recent) / of_nat (length recent)))"

definition no_opportunity :: "rat \<Rightarrow> rat \<Rightarrow> opportunity" where
  "no_opportunity entry confidence = \<lparr>oy_direction = Dir_HOLD, oy_entry = entry, oy_stop = None, oy_target = None,
     oy_estimated_holding_minutes = 120, oy_confidence_score = confidence\<rparr>"

definition levels :: "price_arith \<Rightarrow> direction \<Rightarrow> rat \<Rightarrow> rat \<Rightarrow> rat \<Rightarrow> opportunity" where
  "levels F dir entry distance confidence =
     (let sign = (if dir = Dir_BUY then 1 else - 1)
      in \<lparr>oy_direction = dir, oy_entry = entry, oy_stop = Some (fl F (entry - sign * distance)),
          oy_target = Some (fl F (entry + sign * fl F (distance * 2))),
          oy_estimated_holding_minutes = 120, oy_confidence_score = confidence\<rparr>)"

definition derive_opportunity :: "price_arith \<Rightarrow> candle list \<Rightarrow> opportunity" where
  "derive_opportunity F candles =
     (let f = fl F in
      if length candles < 20 then no_opportunity (if candles = [] then 0 else cd_close (last candles)) 0
      else
        (let closes = map cd_close candles;
             fast = sma F closes 5;
             slow = sma F closes 20;
             range = atr F candles 14;
             entry = last closes
         in if entry \<le> 0 \<or> range \<le> 0 then no_opportunity entry 0
            else
              (let spread = f (f (\<bar>f (fast - slow)\<bar> / entry) * 100);
                   confidence = min 100 (decimals F 2 (f (50 + f (spread * 25))));
                   distance = min (f (entry * f (1 / 20))) (f (range * (3 / 2)))
               in if fast > slow then levels F Dir_BUY entry distance confidence
                  else if fast < slow then levels F Dir_SELL entry distance confidence
                  else no_opportunity entry confidence)))"

section \<open>The radar\<close>

text \<open>What the world answers during a scan: identifiers, readings of the clock, the rows.\<close>

record scan_inputs =
  sn_rows :: "candle list res"
  sn_market_ms :: nat
  sn_snapshot_now :: pydatetime
  sn_evaluate_now :: pydatetime
  sn_ledger_now :: pydatetime
  sn_run_id :: string
  sn_signal_id :: string
  sn_event_id :: string

definition snapshot_of :: "string \<Rightarrow> opportunity \<Rightarrow> pydatetime \<Rightarrow> pydatetime \<Rightarrow> market_snapshot" where
  "snapshot_of asset y now market_ts =
     \<lparr>ms_asset = asset, ms_price = oy_entry y, ms_market_data_timestamp = market_ts, ms_received_at = now,
      ms_data_cutoff = market_ts, ms_source = ''BINANCE_PUBLIC''\<rparr>"

definition scan :: "digest \<Rightarrow> price_arith \<Rightarrow> trading_runtime \<Rightarrow> scan_inputs \<Rightarrow> string \<Rightarrow> rat \<Rightarrow> (evidence_ledger, trade_signal) py" where
  "scan H F t w asset capital =
     py_bind (py_lift (case sn_rows w of Inl e \<Rightarrow> Inl e | Inr rows \<Rightarrow> closed_candles (sn_market_ms w) rows)) (\<lambda>candles.
     let y = derive_opportunity F candles; latest = last candles in
     py_bind (py_lift (case from_timestamp_ms (cd_close_time_ms latest) of
         None \<Rightarrow> Inl (ValueError ''year is out of range'') | Some d \<Rightarrow> Inr d)) (\<lambda>market_ts.
     py_bind (py_lift (evaluate_snapshot F t (sn_evaluate_now w) (sn_run_id w) (sn_signal_id w)
         (snapshot_of asset y (sn_snapshot_now w) market_ts) capital (oy_stop y) (oy_target y)
         (oy_estimated_holding_minutes y) (Some (oy_confidence_score y)))) (\<lambda>signal.
     py_bind (append_evidence H (sn_event_id w) (sn_ledger_now w) (ts_run_id signal) ''RADAR_SIGNAL''
         (PyDict [(''asset'', PyStr asset), (''candles'', PyInt (int (length candles))), (''data_cutoff'', PyStr (isoformat market_ts))])
         (PyDict [(''direction'', PyStr (direction_value (ts_direction signal))),
                  (''net'', case ts_net_expected_return_pct signal of None \<Rightarrow> PyNone | Some x \<Rightarrow> PyFloat x)])
         (PyDict [(''interval'', PyStr ''15m''), (''limit'', PyInt 100), (''real_money'', PyBool False)])
         (''binance:'' @ asset @ '':'' @ show_nat (cd_close_time_ms latest)) None None) (\<lambda>_.
     py_return signal))))"

section \<open>Paper trading\<close>

datatype paper_result = Paper_TARGET | Paper_STOP | Paper_TIMEOUT | Paper_AMBIGUOUS | Paper_NOT_ENTERED

record paper_outcome =
  pa_result :: paper_result
  pa_exit_price :: "rat option"
  pa_candles_observed :: nat

definition mk_outcome :: "paper_result \<Rightarrow> rat option \<Rightarrow> nat \<Rightarrow> paper_outcome" where
  "mk_outcome r x n = \<lparr>pa_result = r, pa_exit_price = x, pa_candles_observed = n\<rparr>"

definition hit_target :: "direction \<Rightarrow> rat \<Rightarrow> candle \<Rightarrow> bool" where
  "hit_target d target c \<longleftrightarrow> (if d = Dir_BUY then cd_high c \<ge> target else cd_low c \<le> target)"

definition hit_stop :: "direction \<Rightarrow> rat \<Rightarrow> candle \<Rightarrow> bool" where
  "hit_stop d stop c \<longleftrightarrow> (if d = Dir_BUY then cd_low c \<le> stop else cd_high c \<ge> stop)"

definition enters :: "rat \<Rightarrow> candle \<Rightarrow> bool" where
  "enters entry c \<longleftrightarrow> cd_low c \<le> entry \<and> entry \<le> cd_high c"

text \<open>The loop: an outcome returned from it, or whether the position was entered.\<close>

fun watch :: "direction \<Rightarrow> rat \<Rightarrow> rat \<Rightarrow> rat \<Rightarrow> nat \<Rightarrow> bool \<Rightarrow> candle list \<Rightarrow> paper_outcome + bool" where
  "watch d entry target stop index entered [] = Inr entered"
| "watch d entry target stop index entered (c # cs) =
     (if \<not> entered \<and> \<not> enters entry c then watch d entry target stop (index + 1) False cs
      else if hit_target d target c \<and> hit_stop d stop c then Inl (mk_outcome Paper_AMBIGUOUS None index)
      else if hit_stop d stop c then Inl (mk_outcome Paper_STOP (Some stop) index)
      else if hit_target d target c then Inl (mk_outcome Paper_TARGET (Some target) index)
      else watch d entry target stop (index + 1) True cs)"

definition simulate :: "trade_signal \<Rightarrow> candle list \<Rightarrow> paper_outcome" where
  "simulate s candles =
     (case (ts_direction s = Dir_HOLD, ts_entry_price s, ts_target_price s, ts_stop_price s) of
        (False, Some entry, Some target, Some stop) \<Rightarrow>
          (case watch (ts_direction s) entry target stop 1 False candles of
             Inl out \<Rightarrow> out
           | Inr False \<Rightarrow> mk_outcome Paper_NOT_ENTERED None (length candles)
           | Inr True \<Rightarrow> mk_outcome Paper_TIMEOUT (if candles = [] then None else Some (cd_close (last candles))) (length candles))
      | _ \<Rightarrow> mk_outcome Paper_NOT_ENTERED None 0)"

end
