(* ===== verification/Trading_Safety.thy ===== *)
theory Trading_Safety
  imports Trading_Runtime
begin

text \<open>
  What is shown of \<^verbatim>\<open>app/trading_runtime\<close>: the budget along any calls of the governor, what
  a signal that is not a HOLD guarantees, the loss it risks with the rounding of floats, the
  paper result as a first touch, and what a scan leaves in the ledger.
\<close>

section \<open>The budget along any calls\<close>

datatype governor_call = Call_reserve string rat bool | Call_reconcile string rat bool | Call_rollback string

fun governor_step :: "governor_call \<Rightarrow> economic_governor \<Rightarrow> economic_governor" where
  "governor_step (Call_reserve i cost strong) g = snd (reserve_cost i cost strong g)"
| "governor_step (Call_reconcile i actual strong) g = snd (reconcile_cost i actual strong g)"
| "governor_step (Call_rollback i) g = snd (rollback_cost i g)"

text \<open>What a call that settles a reservation spends beyond what was reserved for it.\<close>

fun overrun_of :: "governor_call \<Rightarrow> economic_governor \<Rightarrow> rat" where
  "overrun_of (Call_reconcile i actual strong) g =
     (case map_of (eg_reservations g) i of
        Some r \<Rightarrow> if fst (reconcile_cost i actual strong g) then max 0 (actual - rv_expected_cost r) else 0
      | None \<Rightarrow> 0)"
| "overrun_of _ g = 0"

fun governor_run :: "governor_call list \<Rightarrow> economic_governor \<Rightarrow> economic_governor" where
  "governor_run [] g = g"
| "governor_run (c # cs) g = governor_run cs (governor_step c g)"

fun overrun :: "governor_call list \<Rightarrow> economic_governor \<Rightarrow> rat" where
  "overrun [] g = 0"
| "overrun (c # cs) g = overrun_of c g + overrun cs (governor_step c g)"

fun issued_ids :: "governor_call list \<Rightarrow> string list" where
  "issued_ids [] = []"
| "issued_ids (Call_reserve i _ _ # cs) = i # issued_ids cs"
| "issued_ids (_ # cs) = issued_ids cs"

definition reserved_total :: "economic_governor \<Rightarrow> rat" where
  "reserved_total g = sum_list (map (rv_expected_cost \<circ> snd) (eg_reservations g))"

text \<open>The books: \<open>x\<close> is the overrun so far, \<open>p\<close> the policy.\<close>

definition books :: "budget_policy \<Rightarrow> rat \<Rightarrow> economic_governor \<Rightarrow> bool" where
  "books p x g \<longleftrightarrow>
     eg_policy g = p \<and> distinct (map fst (eg_reservations g)) \<and> 0 \<le> x \<and>
     eg_reserved g = reserved_total g \<and> (\<forall>r \<in> snd ` set (eg_reservations g). 0 \<le> rv_expected_cost r) \<and>
     eg_spent_daily g + eg_reserved g \<le> bp_daily p + x \<and>
     eg_spent_monthly g + eg_reserved g \<le> bp_monthly p + x \<and>
     eg_spent_run g + eg_reserved g \<le> bp_run p + x \<and>
     eg_calls_this_cycle g \<le> max 0 (bp_cycle_call_limit p) \<and>
     eg_strong_calls_today g + outstanding_strong g \<le> max 0 (bp_strong_model_limit p)"

lemma dpop_sum:
  fixes f :: "'b \<Rightarrow> 'a :: ab_group_add"
  assumes "distinct (map fst d)" "map_of d i = Some r"
  shows "sum_list (map (\<lambda>x. f (snd x)) (dpop i d)) = sum_list (map (\<lambda>x. f (snd x)) d) - f r"
  using assms
proof (induction d)
  case (Cons x d)
  then show ?case
    by (cases "fst x = i") (auto simp: AList.delete_notin_dom algebra_simps dest!: map_of_SomeD)
qed simp

lemma outstanding_sum: "outstanding_strong g = sum_list (map (\<lambda>x. if rv_strong (snd x) then 1 else 0) (eg_reservations g))"
proof -
  have "int (length (filter (\<lambda>(_, v). rv_strong v) d)) = sum_list (map (\<lambda>x. if rv_strong (snd x) then 1 else 0) d)" for d :: "(string \<times> cost_reservation) list"
    by (induction d) auto
  then show ?thesis by (simp add: outstanding_strong_def)
qed

lemma reserved_sum: "reserved_total g = sum_list (map (\<lambda>x. rv_expected_cost (snd x)) (eg_reservations g))"
  by (simp add: reserved_total_def comp_def)

lemma books_reserve:
  assumes "books p x g" "i \<notin> fst ` set (eg_reservations g)"
  shows "books p x (snd (reserve_cost i cost strong g))"
proof (cases "reserve_refused cost strong g")
  case True
  then show ?thesis using assms(1) by (simp add: reserve_cost_def)
next
  case False
  let ?r = "\<lparr>rv_reservation_id = i, rv_expected_cost = cost, rv_strong = strong, rv_committed = False\<rparr>"
  have d: "dset i ?r (eg_reservations g) = eg_reservations g @ [(i, ?r)]"
    using assms(2) by (intro dset_absent) (simp add: map_of_eq_None_iff)
  have "snd (reserve_cost i cost strong g) = g\<lparr>eg_reservations := eg_reservations g @ [(i, ?r)],
      eg_reserved := eg_reserved g + cost, eg_calls_this_cycle := eg_calls_this_cycle g + 1\<rparr>"
    using False by (simp add: reserve_cost_def d Let_def)
  moreover have "0 \<le> cost" "eg_calls_this_cycle g + 1 \<le> max 0 (bp_cycle_call_limit (eg_policy g))"
    "strong \<longrightarrow> eg_strong_calls_today g + outstanding_strong g + 1 \<le> max 0 (bp_strong_model_limit (eg_policy g))"
    "eg_spent_daily g + (eg_reserved g + cost) \<le> bp_daily (eg_policy g)"
    "eg_spent_monthly g + (eg_reserved g + cost) \<le> bp_monthly (eg_policy g)"
    "eg_spent_run g + (eg_reserved g + cost) \<le> bp_run (eg_policy g)"
    using False by (auto simp: reserve_refused_def Let_def)
  ultimately show ?thesis
    using assms unfolding books_def outstanding_sum reserved_sum by (auto simp: add.assoc)
qed

lemma books_settle:
  assumes "books p x g" "map_of (eg_reservations g) i = Some r"
  shows "distinct (map fst (dpop i (eg_reservations g)))"
    and "0 \<le> rv_expected_cost r"
    and "\<forall>r \<in> snd ` set (dpop i (eg_reservations g)). 0 \<le> rv_expected_cost r"
    and "sum_list (map (\<lambda>x. rv_expected_cost (snd x)) (dpop i (eg_reservations g))) = eg_reserved g - rv_expected_cost r"
    and "sum_list (map (\<lambda>x. if rv_strong (snd x) then 1 else 0) (dpop i (eg_reservations g)))
           = outstanding_strong g - (if rv_strong r then 1 else 0)"
proof -
  have d: "distinct (map fst (eg_reservations g))"
    using assms(1) by (simp add: books_def)
  show "distinct (map fst (dpop i (eg_reservations g)))"
    using d by (rule AList.distinct_delete)
  have "r \<in> snd ` set (eg_reservations g)"
    using map_of_SomeD[OF assms(2)] by force
  then show "0 \<le> rv_expected_cost r"
    using assms(1) unfolding books_def by blast
  show "\<forall>r \<in> snd ` set (dpop i (eg_reservations g)). 0 \<le> rv_expected_cost r"
    using assms(1) unfolding books_def by (auto simp: AList.delete_eq)
  show "sum_list (map (\<lambda>x. rv_expected_cost (snd x)) (dpop i (eg_reservations g))) = eg_reserved g - rv_expected_cost r"
    using assms(1) dpop_sum[OF d assms(2), of rv_expected_cost] by (simp add: books_def reserved_sum)
  show "sum_list (map (\<lambda>x. if rv_strong (snd x) then 1 else 0) (dpop i (eg_reservations g)))
      = outstanding_strong g - (if rv_strong r then 1 else 0)"
    unfolding outstanding_sum by (rule dpop_sum[OF d assms(2), of "\<lambda>r. if rv_strong r then 1 else 0"])
qed

lemma books_settled:
  assumes "books p x g" "map_of (eg_reservations g) i = Some r" and "0 \<le> y"
    and "eg_policy h = eg_policy g" "eg_reservations h = dpop i (eg_reservations g)"
    and "eg_reserved h = eg_reserved g - rv_expected_cost r" "eg_calls_this_cycle h = eg_calls_this_cycle g"
    and "eg_spent_daily h - eg_spent_daily g \<le> rv_expected_cost r + y"
      "eg_spent_monthly h - eg_spent_monthly g \<le> rv_expected_cost r + y"
      "eg_spent_run h - eg_spent_run g \<le> rv_expected_cost r + y"
    and "eg_strong_calls_today h \<le> eg_strong_calls_today g + (if rv_strong r then 1 else 0)"
  shows "books p (x + y) h"
proof -
  note settled = books_settle[OF assms(1,2)]
  have "reserved_total h = eg_reserved h"
    unfolding reserved_sum assms(5,6) by (rule settled(4))
  moreover have "outstanding_strong h = outstanding_strong g - (if rv_strong r then 1 else 0)"
    unfolding outstanding_sum[of h] assms(5) by (rule settled(5))
  ultimately show ?thesis
    using assms(1) settled(1,3) assms(3-11) unfolding books_def
    by (elim conjE) (intro conjI; (simp; fail | linarith))
qed

lemma books_step:
  assumes "books p x g" "\<And>i cost strong. c = Call_reserve i cost strong \<Longrightarrow> i \<notin> fst ` set (eg_reservations g)"
  shows "books p (x + overrun_of c g) (governor_step c g)"
proof (cases c)
  case (Call_reserve i cost strong)
  have "books p x (snd (reserve_cost i cost strong g))"
    using books_reserve[OF assms(1) assms(2)[OF Call_reserve]] .
  then show ?thesis by (simp only: Call_reserve governor_step.simps overrun_of.simps add_0_right)
next
  case (Call_rollback i)
  show ?thesis
  proof (cases "map_of (eg_reservations g) i")
    case None
    then show ?thesis using Call_rollback assms(1) by (simp add: rollback_cost_def)
  next
    case (Some r)
    show ?thesis
      using Call_rollback Some books_settle(2)[OF assms(1) Some]
      by (intro books_settled[OF assms(1) Some]) (simp_all add: rollback_cost_def)
  qed
next
  case (Call_reconcile i actual strong)
  show ?thesis
  proof (cases "map_of (eg_reservations g) i")
    case None
    then show ?thesis using Call_reconcile assms(1) by (simp add: reconcile_cost_def)
  next
    case (Some r)
    show ?thesis
    proof (cases "actual < 0 \<or> strong \<noteq> rv_strong r")
      case True
      then show ?thesis using Call_reconcile Some assms(1) by (simp add: reconcile_cost_def)
    next
      case False
      have "actual \<le> rv_expected_cost r + max 0 (actual - rv_expected_cost r)" by simp
      then show ?thesis
        using Call_reconcile Some False by (intro books_settled[OF assms(1) Some]) (simp_all add: reconcile_cost_def)
    qed
  qed
qed

lemma step_keys:
  "fst ` set (eg_reservations (governor_step c g)) \<subseteq>
     fst ` set (eg_reservations g) \<union> (case c of Call_reserve i _ _ \<Rightarrow> {i} | _ \<Rightarrow> {})"
proof -
  have "fst ` set (dpop i d) \<subseteq> fst ` set d" for i and d :: "(string \<times> cost_reservation) list"
    by (auto simp: AList.delete_eq)
  moreover have "fst ` set (dset i r d) \<subseteq> fst ` set d \<union> {i}" for i r and d :: "(string \<times> cost_reservation) list"
    by (simp add: AList.dom_update)
  ultimately show ?thesis
    by (cases c) (auto simp: reserve_cost_def reconcile_cost_def rollback_cost_def Let_def split: option.split)
qed

lemma issued_Cons:
  "distinct (issued_ids (c # cs)) \<Longrightarrow>
     distinct (issued_ids cs) \<and> (case c of Call_reserve i _ _ \<Rightarrow> {i} | _ \<Rightarrow> {}) \<inter> set (issued_ids cs) = {}"
  "set (issued_ids cs) \<subseteq> set (issued_ids (c # cs))"
  by (cases c; auto)+

lemma books_run:
  assumes "books p x g" "distinct (issued_ids cs)" "fst ` set (eg_reservations g) \<inter> set (issued_ids cs) = {}"
  shows "books p (x + overrun cs g) (governor_run cs g)"
  using assms
proof (induction cs arbitrary: x g)
  case (Cons c cs)
  have "books p (x + overrun_of c g) (governor_step c g)"
    using Cons.prems by (intro books_step) auto
  moreover have "distinct (issued_ids cs)" "fst ` set (eg_reservations (governor_step c g)) \<inter> set (issued_ids cs) = {}"
    using issued_Cons(1)[OF Cons.prems(2)] issued_Cons(2)[of cs c] Cons.prems(3) step_keys[of c g] by blast+
  ultimately show ?case
    using Cons.IH[of "x + overrun_of c g" "governor_step c g"] by (simp add: add.assoc)
qed simp

lemma books_new: "0 \<le> bp_daily p \<Longrightarrow> 0 \<le> bp_monthly p \<Longrightarrow> 0 \<le> bp_run p \<Longrightarrow> books p 0 (new_governor p)"
  by (simp add: books_def new_governor_def reserved_total_def outstanding_strong_def)

text \<open>
  C35: The budget, after any calls of a new governor whose reservations have distinct
  identifiers. What was spent and what is still reserved stay together within the daily, the
  monthly and the run budget, up to what reconciliations charged beyond their own reservations;
  what is reserved is the sum of the open reservations and never negative; calls and strong
  calls, made or open, stay within their limits.
\<close>

theorem budget_kept:
  assumes "0 \<le> bp_daily p" "0 \<le> bp_monthly p" "0 \<le> bp_run p" "distinct (issued_ids cs)"
    and "g = governor_run cs (new_governor p)" "x = overrun cs (new_governor p)"
  shows "eg_spent_daily g + eg_reserved g \<le> bp_daily p + x \<and> eg_spent_monthly g + eg_reserved g \<le> bp_monthly p + x
    \<and> eg_spent_run g + eg_reserved g \<le> bp_run p + x
    \<and> eg_reserved g = reserved_total g \<and> 0 \<le> eg_reserved g
    \<and> eg_calls_this_cycle g \<le> max 0 (bp_cycle_call_limit p)
    \<and> eg_strong_calls_today g + outstanding_strong g \<le> max 0 (bp_strong_model_limit p)"
proof -
  have b: "books p x g"
    using books_run[OF books_new[OF assms(1-3)] assms(4)] assms(5,6) by (simp add: new_governor_def)
  then have "0 \<le> reserved_total g"
    unfolding reserved_sum books_def by (intro sum_list_nonneg) auto
  then show ?thesis
    using b by (simp add: books_def)
qed

section \<open>What a signal guarantees\<close>

text \<open>Rounding is monotone and exact at zero.\<close>

definition prices_ok :: "price_arith \<Rightarrow> bool" where
  "prices_ok F \<longleftrightarrow> mono (fl F) \<and> fl F 0 = 0"

lemma rounded_nonneg: "prices_ok F \<Longrightarrow> 0 \<le> x \<Longrightarrow> 0 \<le> fl F x"
  by (metis monoD prices_ok_def)

lemma rounded_pos: "prices_ok F \<Longrightarrow> 0 < fl F x \<Longrightarrow> 0 < x"
  by (metis leD leI monoD prices_ok_def)

lemma trade_edge_Some:
  "trade_edge F entry target stop = Some (dir, gross) \<Longrightarrow>
     gross = fl F (fl F (fl F \<bar>target - entry\<bar> / entry) * 100) \<and>
     (dir = Dir_BUY \<and> stop < entry \<and> entry < target \<or> dir = Dir_SELL \<and> target < entry \<and> entry < stop)"
  by (auto simp: trade_edge_def Let_def split: if_split_asm)

lemma position_size_Inr:
  "position_size F p capital entry stop = Inr (value_held, pct) \<longleftrightarrow>
     0 < capital \<and> 0 < entry \<and> 0 < stop \<and>
     0 < fl F (fl F (\<bar>fl F (entry - stop)\<bar> / entry) * 100) \<and>
     fl F (fl F (\<bar>fl F (entry - stop)\<bar> / entry) * 100) \<le> ri_absolute_max_stop_distance_pct p \<and>
     value_held = fl F (fl F (fl F (capital * fl F (ri_max_capital_at_risk_per_trade_pct p / 100)) / \<bar>fl F (entry - stop)\<bar>) * entry) \<and>
     pct = ri_max_capital_at_risk_per_trade_pct p"
  by (auto simp: position_size_def Let_def)

lemma next_days:
  assumes "valid_dt d" "dt_year ((next_day ^^ k) d) \<le> 9999"
  shows "valid_dt ((next_day ^^ k) d) \<and> day_number ((next_day ^^ k) d) = day_number d + int k
    \<and> dt_offset ((next_day ^^ k) d) = dt_offset d \<and> dt_second ((next_day ^^ k) d) = dt_second d
    \<and> dt_micro ((next_day ^^ k) d) = dt_micro d"
  using assms(2)
proof (induction k)
  case (Suc k)
  let ?e = "(next_day ^^ k) d"
  have y: "dt_year (next_day ?e) \<le> 9999" using Suc.prems by simp
  moreover have "dt_year ?e \<le> dt_year (next_day ?e)" by (simp add: next_day_def)
  ultimately have ih: "valid_dt ?e" "day_number ?e = day_number d + int k" "dt_offset ?e = dt_offset d"
    "dt_second ?e = dt_second d" "dt_micro ?e = dt_micro d"
    using Suc.IH by simp_all
  have "dt_offset (next_day ?e) = dt_offset ?e" by (simp add: next_day_def)
  then show ?case
    using ih valid_next_day[OF ih(1) y] day_number_next[OF ih(1)] by simp
qed (use assms(1) in simp)

lemma plus_minutes_instant:
  assumes "valid_dt d" "plus_minutes n d = Some e"
  shows "dt_instant e = dt_instant d + int n * 60000000"
proof -
  let ?total = "dt_hour d * 60 + dt_minute d + n"
  let ?f = "(next_day ^^ (?total div 1440)) d"
  have y: "dt_year ?f \<le> 9999" and e: "e = ?f\<lparr>dt_hour := ?total mod 1440 div 60, dt_minute := ?total mod 60\<rparr>"
    using assms(2) by (simp_all add: plus_minutes_def Let_def split: if_split_asm)
  note f = next_days[OF assms(1) y]
  have h: "?total mod 60 = ?total mod 1440 mod 60"
    by (rule mod_mod_cancel[symmetric]) simp
  have "int (?total mod 1440 div 60 * 60 + ?total mod 1440 mod 60) = int (?total mod 1440)"
    by (simp only: div_mult_mod_eq)
  then have "int (?total mod 1440 div 60) * 60 + int (?total mod 60) = int (?total mod 1440)"
    by (simp only: h of_nat_add of_nat_mult of_nat_numeral)
  moreover have "int (?total div 1440 * 1440 + ?total mod 1440) = int ?total"
    by (simp only: div_mult_mod_eq)
  then have "int (?total div 1440) * 1440 + int (?total mod 1440) = int ?total"
    by (simp only: of_nat_add of_nat_mult of_nat_numeral)
  moreover have "day_number e = day_number ?f" by (simp add: e day_number_def)
  ultimately have "day_number e * (24 * 60) + (int (dt_hour e) * 60 + int (dt_minute e))
      = day_number d * (24 * 60) + (int (dt_hour d) * 60 + int (dt_minute d)) + int n"
    using f by (simp add: e)
  then show ?thesis
    using f by (simp add: dt_instant_split e algebra_simps)
qed

text \<open>
  C36: What \<^verbatim>\<open>evaluate\<close> answers. A HOLD carries no price, no size and a reason. Any other
  signal rests on data that are not older than allowed, on a positive price and capital, on a
  stop and a target on opposite sides of the entry, the ones its direction needs, on a stop
  distance within the policy and on a gross return that exceeds the assumed cost. Every signal
  expires after at least half an hour and half of the holding time, and carries its identifiers.
\<close>

theorem signal_sound:
  assumes "evaluate_snapshot F t now run_id signal_id m capital technical_stop target minutes confidence = Inr s"
    and "prices_ok F" and "valid_dt now"
  shows "ts_run_id s = run_id \<and> ts_signal_id s = signal_id \<and> ts_evidence_ref s = ''signal:'' @ signal_id
    \<and> dt_instant (ts_signal_expires_at s) = dt_instant now + max 30 (minutes div 2) * 60000000
    \<and> (if ts_direction s = Dir_HOLD
       then ts_entry_price s = None \<and> ts_target_price s = None \<and> ts_stop_price s = None \<and> ts_position_size s = 0
         \<and> ts_net_expected_return_pct s = None \<and> ts_hold_reason s \<noteq> None
       else ts_hold_reason s = None \<and> 0 \<le> fl F (dt_seconds now (ms_market_data_timestamp m))
         \<and> fl F (dt_seconds now (ms_market_data_timestamp m)) \<le> of_int (tr_max_data_age_seconds t)
         \<and> 0 < capital \<and> 0 < ms_price m \<and> ts_entry_price s = Some (ms_price m)
         \<and> (\<exists>stop goal. technical_stop = Some stop \<and> target = Some goal
              \<and> ts_stop_price s = Some stop \<and> ts_target_price s = Some goal \<and> 0 < stop
              \<and> (if ts_direction s = Dir_BUY then stop < ms_price m \<and> ms_price m < goal else goal < ms_price m \<and> ms_price m < stop)
              \<and> fl F (fl F (\<bar>fl F (ms_price m - stop)\<bar> / ms_price m) * 100) \<le> ri_absolute_max_stop_distance_pct (tr_risk_policy t)
              \<and> ts_account_risk_pct s = ri_max_capital_at_risk_per_trade_pct (tr_risk_policy t)
              \<and> tr_assumed_trading_cost_pct t < fl F (fl F (fl F \<bar>goal - ms_price m\<bar> / ms_price m) * 100)
              \<and> ts_gross_expected_return_pct s
                    = Some (decimals F 4 (fl F (fl F (fl F \<bar>goal - ms_price m\<bar> / ms_price m) * 100)))))"
proof -
  let ?age = "fl F (dt_seconds now (ms_market_data_timestamp m))"
  obtain e where aw: "aware (ms_market_data_timestamp m)" and e: "plus_minutes (nat (max 30 (minutes div 2))) now = Some e"
    using assms(1) by (auto simp: evaluate_snapshot_def Let_def split: if_split_asm option.splits)
  have x: "dt_instant e = dt_instant now + max 30 (minutes div 2) * 60000000"
    using plus_minutes_instant[OF assms(3) e] by simp
  note ev = assms(1)[unfolded evaluate_snapshot_def Let_def, simplified aw e, simplified]
  show ?thesis
  proof (cases "\<exists>reason. s = hold_signal t m run_id signal_id e reason")
    case True
    then show ?thesis using x by (auto simp: hold_signal_def)
  next
    case False
    then have age: "0 \<le> ?age" "?age \<le> of_int (tr_max_data_age_seconds t)"
      using ev by (auto split: if_split_asm)
    then obtain stop goal where sg: "technical_stop = Some stop" "target = Some goal"
      using ev False by (auto split: option.splits if_split_asm)
    have entry: "0 < ms_price m"
      using ev False age sg by (auto split: if_split_asm)
    obtain dir gross where edge: "trade_edge F (ms_price m) goal stop = Some (dir, gross)"
      using ev False age sg entry by (auto split: option.splits if_split_asm)
    obtain value_held pct where pos: "position_size F (tr_risk_policy t) capital (ms_price m) stop = Inr (value_held, pct)"
      using ev False age sg entry edge by (auto split: sum.splits if_split_asm)
    have net: "0 < fl F (gross - tr_assumed_trading_cost_pct t)"
      using ev False age sg entry edge pos by (auto split: if_split_asm)
    then have "tr_assumed_trading_cost_pct t < gross"
      using rounded_pos[OF assms(2)] by fastforce
    moreover have "ts_run_id s = run_id \<and> ts_signal_id s = signal_id \<and> ts_evidence_ref s = ''signal:'' @ signal_id
      \<and> ts_signal_expires_at s = e \<and> ts_direction s = dir \<and> ts_hold_reason s = None \<and> ts_entry_price s = Some (ms_price m)
      \<and> ts_stop_price s = Some stop \<and> ts_target_price s = Some goal \<and> ts_account_risk_pct s = pct
      \<and> ts_gross_expected_return_pct s = Some (decimals F 4 gross)"
      using ev age sg entry edge pos net by auto
    moreover have "gross = fl F (fl F (fl F \<bar>goal - ms_price m\<bar> / ms_price m) * 100)" "dir \<noteq> Dir_HOLD"
      "if dir = Dir_BUY then stop < ms_price m \<and> ms_price m < goal else goal < ms_price m \<and> ms_price m < stop"
      using trade_edge_Some[OF edge] by auto
    ultimately show ?thesis
      using x age entry sg pos[unfolded position_size_Inr] by simp
  qed
qed

text \<open>
  The route that evaluates a request takes any \<^verbatim>\<open>datetime\<close>; one without an offset is not
  held as bad data but raises.
\<close>

lemma naive_timestamp_raises:
  "\<not> aware (ms_market_data_timestamp m) \<Longrightarrow>
     evaluate_snapshot F t now run_id signal_id m capital stop target minutes confidence = Inl (OtherError ''TypeError'')"
  by (simp add: evaluate_snapshot_def)

section \<open>The loss at the stop\<close>

text \<open>Rounding with a relative error of at most \<open>u\<close>.\<close>

definition rounds_within :: "rat \<Rightarrow> price_arith \<Rightarrow> bool" where
  "rounds_within u F \<longleftrightarrow> 0 \<le> u \<and> u < 1 \<and> (\<forall>x. \<bar>fl F x - x\<bar> \<le> u * \<bar>x\<bar>)"

lemma rounded_up: "rounds_within u F \<Longrightarrow> 0 \<le> x \<Longrightarrow> fl F x \<le> (1 + u) * x"
  unfolding rounds_within_def by (metis abs_le_D1 abs_of_nonneg add.commute diff_le_eq distrib_right mult_1)

lemma rounded_sign: "rounds_within u F \<Longrightarrow> 0 \<le> x \<Longrightarrow> 0 \<le> fl F x"
proof -
  assume r: "rounds_within u F" and x: "0 \<le> x"
  then have "\<bar>fl F x - x\<bar> \<le> u * x" and "u * x \<le> 1 * x"
    unfolding rounds_within_def by (metis abs_of_nonneg, intro mult_right_mono) auto
  then show "0 \<le> fl F x" by simp
qed

lemma rounded_down: "rounds_within u F \<Longrightarrow> (1 - u) * \<bar>x\<bar> \<le> \<bar>fl F x\<bar>"
proof -
  assume "rounds_within u F"
  then have "\<bar>fl F x - x\<bar> \<le> u * \<bar>x\<bar>" by (simp add: rounds_within_def)
  then show "(1 - u) * \<bar>x\<bar> \<le> \<bar>fl F x\<bar>" by (simp add: algebra_simps)
qed

text \<open>
  C37: The size of a position bounds the loss at its stop. With a relative rounding error of at
  most \<open>u\<close> in each operation, the value that \<^verbatim>\<open>position_size\<close> returns loses, when the price
  moves from the entry to the stop, no more than the share of the capital that the policy puts
  at risk, up to the factor (1 + u)^4 / (1 - u), which is one for exact arithmetic.
\<close>

theorem stop_loss_bounded:
  assumes "position_size F p capital entry stop = Inr (value_held, pct)"
    and "rounds_within u F" and "0 \<le> ri_max_capital_at_risk_per_trade_pct p"
  shows "value_held / entry * \<bar>entry - stop\<bar> \<le> capital * (pct / 100) * ((1 + u) ^ 4 / (1 - u))"
proof -
  let ?d = "\<bar>entry - stop\<bar>" and ?fd = "\<bar>fl F (entry - stop)\<bar>"
  let ?risk = "fl F (capital * fl F (pct / 100))"
  let ?units = "fl F (?risk / ?fd)"
  have c: "0 < capital" "0 < entry" and pos: "0 < fl F (fl F (?fd / entry) * 100)"
    and value_held: "value_held = fl F (?units * entry)" and pct: "0 \<le> pct"
    using assms(1,3) by (auto simp: position_size_Inr)
  have u: "0 \<le> u" "u < 1" and z: "fl F 0 = 0"
    using assms(2) unfolding rounds_within_def by (simp, simp, metis abs_le_zero_iff abs_zero diff_zero mult_zero_right)
  have fd: "0 < ?fd"
    using pos z by (cases "fl F (entry - stop) = 0") auto
  have r1: "0 \<le> fl F (pct / 100)" "fl F (pct / 100) \<le> (1 + u) * (pct / 100)"
    using rounded_up[OF assms(2), of "pct / 100"] rounded_sign[OF assms(2), of "pct / 100"] pct by simp_all
  have r2: "0 \<le> ?risk" "?risk \<le> (1 + u) * (capital * fl F (pct / 100))"
    using rounded_up[OF assms(2)] rounded_sign[OF assms(2)] c r1(1) by auto
  have "(1 + u) * (capital * fl F (pct / 100)) \<le> (1 + u) * (capital * ((1 + u) * (pct / 100)))"
    using r1 c u by (intro mult_left_mono) auto
  then have risk: "?risk \<le> (1 + u)\<^sup>2 * (capital * (pct / 100))"
    using r2(2) by (simp add: power2_eq_square mult_ac)
  have r3: "0 \<le> ?units" "?units \<le> (1 + u) * (?risk / ?fd)"
    using rounded_up[OF assms(2), of "?risk / ?fd"] rounded_sign[OF assms(2), of "?risk / ?fd"] r2(1) fd by simp_all
  have r4: "value_held \<le> (1 + u) * (?units * entry)"
    using rounded_up[OF assms(2)] r3(1) c unfolding value_held by simp
  have "value_held / entry \<le> (1 + u) * ?units"
    using r4 c by (simp add: divide_le_eq mult_ac)
  then have s: "value_held / entry * ?d \<le> (1 + u) * ?units * ?d"
    by (rule mult_right_mono) simp
  have "(1 + u) * ?units * ?d \<le> (1 + u) * ((1 + u) * (?risk / ?fd)) * ?d"
    using r3(2) u by (intro mult_right_mono mult_left_mono) auto
  also have "\<dots> = (1 + u)\<^sup>2 * ?risk * (?d / ?fd)"
    by (simp add: power2_eq_square)
  also have "\<dots> \<le> (1 + u)\<^sup>2 * ?risk * (1 / (1 - u))"
    using rounded_down[OF assms(2), of "entry - stop"] fd u r2(1)
    by (intro mult_left_mono) (auto simp: divide_simps mult.commute)
  also have "\<dots> \<le> (1 + u)\<^sup>2 * ((1 + u)\<^sup>2 * (capital * (pct / 100))) * (1 / (1 - u))"
    using risk u by (intro mult_right_mono mult_left_mono) auto
  also have "\<dots> = capital * (pct / 100) * ((1 + u) ^ 4 / (1 - u))"
    by (simp add: power4_eq_xxxx power2_eq_square mult_ac)
  finally show ?thesis using s by linarith
qed

section \<open>Paper results\<close>

text \<open>
  The reference: from the first candle that reaches the entry, the first candle that reaches a
  level decides, and one that reaches both decides nothing.
\<close>

definition touches :: "direction \<Rightarrow> rat \<Rightarrow> rat \<Rightarrow> candle \<Rightarrow> bool" where
  "touches d target stop c \<longleftrightarrow> hit_target d target c \<or> hit_stop d stop c"

definition paper_reference :: "direction \<Rightarrow> rat \<Rightarrow> rat \<Rightarrow> rat \<Rightarrow> candle list \<Rightarrow> paper_outcome" where
  "paper_reference d entry target stop candles =
     (let active = dropWhile (\<lambda>c. \<not> enters entry c) candles;
          decided = dropWhile (\<lambda>c. \<not> touches d target stop c) active
      in if active = [] then mk_outcome Paper_NOT_ENTERED None (length candles)
         else if decided = [] then mk_outcome Paper_TIMEOUT (Some (cd_close (last candles))) (length candles)
         else
           (let n = length candles - length decided + 1
            in if hit_target d target (hd decided) \<and> hit_stop d stop (hd decided) then mk_outcome Paper_AMBIGUOUS None n
               else if hit_stop d stop (hd decided) then mk_outcome Paper_STOP (Some stop) n
               else mk_outcome Paper_TARGET (Some target) n))"

definition decision :: "direction \<Rightarrow> rat \<Rightarrow> rat \<Rightarrow> candle \<Rightarrow> nat \<Rightarrow> paper_outcome" where
  "decision d target stop c n =
     (if hit_target d target c \<and> hit_stop d stop c then mk_outcome Paper_AMBIGUOUS None n
      else if hit_stop d stop c then mk_outcome Paper_STOP (Some stop) n
      else mk_outcome Paper_TARGET (Some target) n)"

lemma watch_entered:
  "watch d entry target stop index True cs =
     (let decided = dropWhile (\<lambda>c. \<not> touches d target stop c) cs
      in if decided = [] then Inr True
         else Inl (decision d target stop (hd decided) (index + length cs - length decided)))"
proof (induction cs arbitrary: index)
  case (Cons c cs)
  have "length (dropWhile P cs) \<le> length cs" for P :: "candle \<Rightarrow> bool"
    by (rule length_dropWhile_le)
  then show ?case
    using Cons.IH[of "index + 1"] by (auto simp: touches_def decision_def Let_def Suc_diff_le)
qed simp

lemma watch_waiting:
  "watch d entry target stop index False cs =
     (let active = dropWhile (\<lambda>c. \<not> enters entry c) cs
      in if active = [] then Inr False else watch d entry target stop (index + length cs - length active) True active)"
proof (induction cs arbitrary: index)
  case (Cons c cs)
  have "length (dropWhile P cs) \<le> length cs" for P :: "candle \<Rightarrow> bool"
    by (rule length_dropWhile_le)
  then show ?case
    using Cons.IH[of "index + 1"] by (auto simp: Let_def Suc_diff_le)
qed simp

text \<open>
  The paper result of a signal with its three levels is that of the reference. So a target
  is reported only when no candle since the entry reached the stop before or together with it.
\<close>

lemma paper_first_touch:
  assumes "ts_direction s \<noteq> Dir_HOLD" "ts_entry_price s = Some entry" "ts_target_price s = Some target" "ts_stop_price s = Some stop"
  shows "simulate s candles = paper_reference (ts_direction s) entry target stop candles"
proof -
  let ?active = "dropWhile (\<lambda>c. \<not> enters entry c) candles"
  let ?decided = "dropWhile (\<lambda>c. \<not> touches (ts_direction s) target stop c) ?active"
  have l: "length ?active \<le> length candles" "length ?decided \<le> length ?active"
    by (rule length_dropWhile_le)+
  have w: "watch (ts_direction s) entry target stop 1 False candles =
      (if ?active = [] then Inr False else if ?decided = [] then Inr True
       else Inl (decision (ts_direction s) target stop (hd ?decided) (length candles - length ?decided + 1)))"
  proof -
    have n: "1 + length candles - length ?active + length ?active - length ?decided = length candles - length ?decided + 1"
      using l by simp
    show ?thesis
      by (simp only: watch_waiting[of _ _ _ _ 1 candles] watch_entered Let_def n)
  qed
  have "simulate s candles =
      (case watch (ts_direction s) entry target stop 1 False candles of
         Inl out \<Rightarrow> out
       | Inr False \<Rightarrow> mk_outcome Paper_NOT_ENTERED None (length candles)
       | Inr True \<Rightarrow> mk_outcome Paper_TIMEOUT (if candles = [] then None else Some (cd_close (last candles))) (length candles))"
    using assms by (simp add: simulate_def)
  moreover have "?active \<noteq> [] \<Longrightarrow> candles \<noteq> []" by auto
  ultimately show ?thesis
    unfolding w paper_reference_def Let_def decision_def
    by (cases "?active = []"; cases "?decided = []") (simp_all only: if_True if_False if_cancel sum.case bool.case simp_thms not_False_eq_True)
qed

text \<open>
  A candle stands for the prices of its interval, which it shows only in part: they lie between
  its low and its high and reach both. Price by price, the first that reaches a level decides.
\<close>

definition price_path :: "candle \<Rightarrow> rat list \<Rightarrow> bool" where
  "price_path c ts \<longleftrightarrow> (\<forall>t \<in> set ts. cd_low c \<le> t \<and> t \<le> cd_high c) \<and> cd_low c \<in> set ts \<and> cd_high c \<in> set ts"

definition at_target :: "direction \<Rightarrow> rat \<Rightarrow> rat \<Rightarrow> bool" where
  "at_target d target t \<longleftrightarrow> (if d = Dir_BUY then target \<le> t else t \<le> target)"

definition at_stop :: "direction \<Rightarrow> rat \<Rightarrow> rat \<Rightarrow> bool" where
  "at_stop d stop t \<longleftrightarrow> (if d = Dir_BUY then t \<le> stop else stop \<le> t)"

fun tick_result :: "direction \<Rightarrow> rat \<Rightarrow> rat \<Rightarrow> rat list \<Rightarrow> paper_result" where
  "tick_result d target stop [] = Paper_TIMEOUT"
| "tick_result d target stop (t # ts) =
     (if at_target d target t then Paper_TARGET else if at_stop d stop t then Paper_STOP
      else tick_result d target stop ts)"

lemma tick_result_append:
  "tick_result d target stop (p @ ts) =
     (if \<exists>t \<in> set p. at_target d target t \<or> at_stop d stop t then tick_result d target stop p
      else tick_result d target stop ts)"
  by (induction p) auto

lemma tick_result_one:
  "\<forall>t \<in> set p. \<not> at_stop d stop t \<Longrightarrow> \<exists>t \<in> set p. at_target d target t \<Longrightarrow> tick_result d target stop p = Paper_TARGET"
  "\<forall>t \<in> set p. \<not> at_target d target t \<Longrightarrow> \<exists>t \<in> set p. at_stop d stop t \<Longrightarrow> tick_result d target stop p = Paper_STOP"
  by (induction p) auto

lemma tick_result_settled:
  "tick_result d target stop p \<noteq> Paper_TIMEOUT \<Longrightarrow> tick_result d target stop (p @ ts) = tick_result d target stop p"
  by (induction p) auto

lemma price_path_hits:
  assumes "price_path c p"
  shows "(\<exists>t \<in> set p. at_target d target t) \<longleftrightarrow> hit_target d target c"
    and "(\<exists>t \<in> set p. at_stop d stop t) \<longleftrightarrow> hit_stop d stop c"
  using assms unfolding price_path_def at_target_def at_stop_def hit_target_def hit_stop_def
  by (auto intro: order_trans split: if_splits)

lemma path_orders:
  assumes "price_path c p" and "hit_target d target c" and "hit_stop d stop c"
    and "if d = Dir_BUY then stop < target else target < stop"
  shows "\<exists>up down. price_path c up \<and> price_path c down \<and>
    tick_result d target stop up = Paper_TARGET \<and> tick_result d target stop down = Paper_STOP"
proof -
  have "cd_low c \<le> cd_high c" using assms(1) by (auto simp: price_path_def)
  then have "price_path c [cd_high c, cd_low c]" "price_path c [cd_low c, cd_high c]"
    by (auto simp: price_path_def)
  moreover have "tick_result d target stop (if d = Dir_BUY then [cd_high c, cd_low c] else [cd_low c, cd_high c]) = Paper_TARGET"
    "tick_result d target stop (if d = Dir_BUY then [cd_low c, cd_high c] else [cd_high c, cd_low c]) = Paper_STOP"
    using assms(2-4) by (cases "d = Dir_BUY"; auto simp: at_target_def at_stop_def hit_target_def hit_stop_def)+
  ultimately show ?thesis by metis
qed

lemma paths_decided:
  assumes "list_all2 price_path cs ps" and "if d = Dir_BUY then stop < target else target < stop"
  shows "case dropWhile (\<lambda>c. \<not> touches d target stop c) cs of
      [] \<Rightarrow> tick_result d target stop (concat ps) = Paper_TIMEOUT
    | c # _ \<Rightarrow>
        if hit_target d target c \<and> hit_stop d stop c then
          (\<exists>us ds. list_all2 price_path cs us \<and> list_all2 price_path cs ds \<and>
             tick_result d target stop (concat us) = Paper_TARGET \<and> tick_result d target stop (concat ds) = Paper_STOP)
        else tick_result d target stop (concat ps) = (if hit_stop d stop c then Paper_STOP else Paper_TARGET)"
  using assms(1)
proof (induction rule: list_all2_induct)
  case (Cons c cs p ps)
  note hits = price_path_hits [OF Cons.hyps(1), of d]
  show ?case
  proof (cases "touches d target stop c")
    case True
    show ?thesis
    proof (cases "hit_target d target c \<and> hit_stop d stop c")
      case both: True
      obtain u w where "price_path c u" "price_path c w"
        "tick_result d target stop u = Paper_TARGET" "tick_result d target stop w = Paper_STOP"
        using path_orders [OF Cons.hyps(1)] both assms(2) by blast
      then have "list_all2 price_path (c # cs) (u # ps)" "list_all2 price_path (c # cs) (w # ps)"
        "tick_result d target stop (concat (u # ps)) = Paper_TARGET"
        "tick_result d target stop (concat (w # ps)) = Paper_STOP"
        using Cons.hyps(2) by (simp_all add: tick_result_settled)
      then have "\<exists>us ds. list_all2 price_path (c # cs) us \<and> list_all2 price_path (c # cs) ds \<and>
          tick_result d target stop (concat us) = Paper_TARGET \<and> tick_result d target stop (concat ds) = Paper_STOP"
        by blast
      then show ?thesis using True both by (simp only: dropWhile.simps if_False not_True_eq_False list.case if_True simp_thms)
    next
      case False
      then show ?thesis
        using True hits tick_result_one(1) [of p d stop target] tick_result_one(2) [of p d target stop] by (auto simp: touches_def tick_result_append)
    qed
  next
    case False
    then have q: "tick_result d target stop (concat (p # ps)) = tick_result d target stop (concat ps)"
      using hits by (auto simp: tick_result_append touches_def)
    have lift: "\<exists>us ds. list_all2 price_path (c # cs) us \<and> list_all2 price_path (c # cs) ds \<and>
        tick_result d target stop (concat us) = Paper_TARGET \<and> tick_result d target stop (concat ds) = Paper_STOP"
      if "\<exists>us ds. list_all2 price_path cs us \<and> list_all2 price_path cs ds \<and>
        tick_result d target stop (concat us) = Paper_TARGET \<and> tick_result d target stop (concat ds) = Paper_STOP"
    proof -
      note given = that
      obtain us ds where u: "list_all2 price_path cs us" "list_all2 price_path cs ds"
        "tick_result d target stop (concat us) = Paper_TARGET" "tick_result d target stop (concat ds) = Paper_STOP"
        using given by blast
      have "tick_result d target stop (concat (p # xs)) = tick_result d target stop (concat xs)" for xs
        using hits False by (auto simp: tick_result_append touches_def)
      with u Cons.hyps(1) show ?thesis
        by (intro exI [of _ "p # us"] exI [of _ "p # ds"]) simp
    qed
    have dw: "dropWhile (\<lambda>c. \<not> touches d target stop c) (c # cs) = dropWhile (\<lambda>c. \<not> touches d target stop c) cs"
      using False by simp
    show ?thesis
    proof (cases "dropWhile (\<lambda>c. \<not> touches d target stop c) cs")
      case Nil
      show ?thesis using Cons.IH unfolding dw Nil list.case q .
    next
      case D: (Cons x xs)
      show ?thesis
        using Cons.IH lift unfolding dw D list.case q
        by (cases "hit_target d target x \<and> hit_stop d stop x") (simp_all only: if_True if_False simp_thms)
    qed
  qed
qed simp

text \<open>
  C38: What a paper result means for the prices behind the candles, once the position was entered
  in a candle that reaches neither level. A target, a stop or a timeout is what every sequence of
  prices that agrees with the later candles gives, price by price; and an ambiguous result is
  given only if some such prices end at the target and others at the stop.
\<close>

theorem paper_result_resolved:
  assumes "ts_direction s \<noteq> Dir_HOLD" "ts_entry_price s = Some entry" "ts_target_price s = Some target" "ts_stop_price s = Some stop"
    and "if ts_direction s = Dir_BUY then stop < target else target < stop"
    and "candles = before @ c # later" and "\<forall>x \<in> set before. \<not> enters entry x" and "enters entry c"
    and "\<not> touches (ts_direction s) target stop c" and "list_all2 price_path later paths"
  shows "pa_result (simulate s candles) \<in> {Paper_TARGET, Paper_STOP, Paper_TIMEOUT, Paper_AMBIGUOUS} \<and>
    (pa_result (simulate s candles) \<noteq> Paper_AMBIGUOUS \<longrightarrow>
       pa_result (simulate s candles) = tick_result (ts_direction s) target stop (concat paths)) \<and>
    (pa_result (simulate s candles) = Paper_AMBIGUOUS \<longrightarrow>
       (\<exists>us ds. list_all2 price_path later us \<and> list_all2 price_path later ds \<and>
          tick_result (ts_direction s) target stop (concat us) = Paper_TARGET \<and>
          tick_result (ts_direction s) target stop (concat ds) = Paper_STOP))"
proof -
  have active: "dropWhile (\<lambda>x. \<not> enters entry x) candles = c # later"
    using assms(6-8) by (simp add: dropWhile_append)
  have "pa_result (simulate s candles) =
      (case dropWhile (\<lambda>x. \<not> touches (ts_direction s) target stop x) later of
         [] \<Rightarrow> Paper_TIMEOUT
       | x # _ \<Rightarrow> if hit_target (ts_direction s) target x \<and> hit_stop (ts_direction s) stop x then Paper_AMBIGUOUS
           else if hit_stop (ts_direction s) stop x then Paper_STOP else Paper_TARGET)"
    unfolding paper_first_touch [OF assms(1-4)] paper_reference_def Let_def active
    using assms(9)
    by (cases "dropWhile (\<lambda>x. \<not> touches (ts_direction s) target stop x) later")
      (simp_all add: mk_outcome_def del: dropWhile_eq_Nil_conv)
  with paths_decided [OF assms(10,5)] show ?thesis
    by (cases "dropWhile (\<lambda>x. \<not> touches (ts_direction s) target stop x) later")
      (auto split: if_splits)
qed

text \<open>
  The candle of the entry is the exception. A bar that opens above the target of a buy, falls to
  its entry and closes there is booked as a target at once, though no price after the entry
  reached it: the order within that bar is not asked for.
\<close>

definition gap_signal :: "trade_signal \<Rightarrow> trade_signal" where
  "gap_signal s = s\<lparr>ts_direction := Dir_BUY, ts_entry_price := Some 100, ts_target_price := Some 110, ts_stop_price := Some 95\<rparr>"

definition gap_candle :: candle where
  "gap_candle = \<lparr>cd_open = 112, cd_high = 112, cd_low = 100, cd_close = 100, cd_close_time_ms = 1\<rparr>"

lemma entry_candle_unresolved:
  "simulate (gap_signal s) [gap_candle] = mk_outcome Paper_TARGET (Some 110) 1 \<and>
   price_path gap_candle [112, 100] \<and> hd [112, 100 :: rat] = cd_open gap_candle \<and> last [112, 100 :: rat] = cd_close gap_candle \<and>
   tick_result Dir_BUY 110 95 (dropWhile (\<lambda>t. t \<noteq> 100) [112, 100]) = Paper_TIMEOUT"
  by (simp add: simulate_def gap_signal_def gap_candle_def price_path_def at_target_def at_stop_def enters_def hit_target_def hit_stop_def)

section \<open>The radar\<close>

lemma levels_ordered:
  assumes "prices_ok F" "0 \<le> distance" "fl F entry = entry" "dir \<noteq> Dir_HOLD" "y = levels F dir entry distance confidence"
  shows "\<exists>stop goal. oy_stop y = Some stop \<and> oy_target y = Some goal \<and> oy_direction y = dir \<and> oy_entry y = entry \<and>
    (if dir = Dir_BUY then stop \<le> entry \<and> entry \<le> goal else goal \<le> entry \<and> entry \<le> stop)"
proof -
  have m: "x \<le> z \<Longrightarrow> fl F x \<le> fl F z" for x z
    using assms(1) by (auto simp: prices_ok_def dest: monoD)
  have w: "0 \<le> fl F (distance * 2)"
    using assms(1,2) by (intro rounded_nonneg) auto
  have b: "fl F (entry - distance) \<le> entry" "entry \<le> fl F (entry + fl F (distance * 2))"
    "entry \<le> fl F (entry + distance)" "fl F (entry - fl F (distance * 2)) \<le> entry"
    using m[of "entry - distance" entry] m[of entry "entry + fl F (distance * 2)"] m[of entry "entry + distance"]
      m[of "entry - fl F (distance * 2)" entry] assms(2,3) w by simp_all
  show ?thesis
    using assms(4,5) b by (cases dir) (auto simp: levels_def)
qed

lemma opportunity_ordered:
  assumes "prices_ok F" "\<forall>c \<in> set candles. fl F (cd_close c) = cd_close c" "y = derive_opportunity F candles"
  shows "oy_direction y = Dir_HOLD \<and> oy_stop y = None \<or>
    (\<exists>stop goal. oy_stop y = Some stop \<and> oy_target y = Some goal \<and> oy_direction y \<noteq> Dir_HOLD \<and>
      (if oy_direction y = Dir_BUY then stop \<le> oy_entry y \<and> oy_entry y \<le> goal else goal \<le> oy_entry y \<and> oy_entry y \<le> stop))"
proof (cases "length candles < 20")
  case True
  then show ?thesis using assms(3) by (simp add: derive_opportunity_def no_opportunity_def)
next
  case False
  let ?closes = "map cd_close candles" and ?entry = "last (map cd_close candles)" and ?range = "atr F candles 14"
  let ?distance = "min (fl F (?entry * fl F (1 / 20))) (fl F (?range * (3 / 2)))"
  have "candles \<noteq> []" using False by auto
  then have e: "fl F ?entry = ?entry"
    using assms(2) by (simp add: last_map)
  show ?thesis
  proof (cases "?entry \<le> 0 \<or> ?range \<le> 0")
    case True
    then show ?thesis using False assms(3) by (auto simp: derive_opportunity_def no_opportunity_def Let_def)
  next
    case pos: False
    then have d: "0 \<le> ?distance"
      using assms(1) by (auto intro!: rounded_nonneg mult_nonneg_nonneg)
    have "\<exists>k. y = levels F Dir_BUY ?entry ?distance k \<or> y = levels F Dir_SELL ?entry ?distance k \<or> y = no_opportunity ?entry k"
      using False pos assms(3) by (simp add: derive_opportunity_def Let_def) blast
    then obtain k where "y = levels F Dir_BUY ?entry ?distance k \<or> y = levels F Dir_SELL ?entry ?distance k \<or> y = no_opportunity ?entry k" ..
    then consider "y = levels F Dir_BUY ?entry ?distance k" | "y = levels F Dir_SELL ?entry ?distance k" | "y = no_opportunity ?entry k"
      by blast
    then show ?thesis
    proof cases
      case 1
      then show ?thesis using levels_ordered[OF assms(1) d e _ 1] by auto
    next
      case 2
      then show ?thesis using levels_ordered[OF assms(1) d e _ 2] by auto
    next
      case 3
      then show ?thesis by (simp add: no_opportunity_def)
    qed
  qed
qed

lemma evaluate_direction:
  assumes "evaluate_snapshot F t now run_id signal_id m capital (oy_stop y) (oy_target y) minutes confidence = Inr s"
    and "ms_price m = oy_entry y" and "prices_ok F" and "\<forall>c \<in> set candles. fl F (cd_close c) = cd_close c"
    and "y = derive_opportunity F candles"
  shows "ts_direction s = Dir_HOLD \<or> ts_direction s = oy_direction y"
proof (cases "ts_direction s = Dir_HOLD")
  case False
  then obtain stop goal where sg: "oy_stop y = Some stop" "oy_target y = Some goal"
    and edge: "trade_edge F (oy_entry y) goal stop \<noteq> None"
    and dir: "ts_direction s = fst (the (trade_edge F (oy_entry y) goal stop))"
    using assms(1,2) by (auto simp: evaluate_snapshot_def hold_signal_def Let_def split: if_split_asm option.splits sum.splits prod.splits)
  then have "ts_direction s = Dir_BUY \<and> stop < oy_entry y \<and> oy_entry y < goal \<or> ts_direction s = Dir_SELL \<and> goal < oy_entry y \<and> oy_entry y < stop"
    using trade_edge_Some[of F "oy_entry y" goal stop "fst (the (trade_edge F (oy_entry y) goal stop))" "snd (the (trade_edge F (oy_entry y) goal stop))"]
    by auto
  then show ?thesis
    using opportunity_ordered[OF assms(3-5)] sg by (cases "oy_direction y") (auto split: if_split_asm)
qed simp

lemma closed_candles_Inr:
  "closed_candles n rows = Inr cs \<Longrightarrow> cs \<noteq> [] \<and> set cs \<subseteq> set rows \<and> (\<forall>c \<in> set cs. cd_close_time_ms c \<le> n)"
  by (auto simp: closed_candles_def Let_def not_less split: if_split_asm)

text \<open>
  C39: A scan. If it fails, whatever the reason, the ledger is as before. If it answers a
  signal, then exactly one event was appended, for the run of the signal, with the digest of its
  direction and its net return; only closed candles were read; and the signal holds or has the
  direction of the opportunity in those candles: the two roundings on the way never turn a BUY
  into a SELL.
\<close>

theorem scan_recorded:
  assumes "scan H F t w asset capital es = (r, es')" and "prices_ok F"
    and "\<And>rows c. sn_rows w = Inr rows \<Longrightarrow> c \<in> set rows \<Longrightarrow> fl F (cd_close c) = cd_close c"
  shows "case r of
      Inl _ \<Rightarrow> es' = es
    | Inr s \<Rightarrow> \<exists>rows candles ev. sn_rows w = Inr rows \<and> closed_candles (sn_market_ms w) rows = Inr candles
        \<and> (\<forall>c \<in> set candles. cd_close_time_ms c \<le> sn_market_ms w)
        \<and> es' = es @ [ev] \<and> xv_run_id ev = ts_run_id s \<and> xv_event_type ev = ''RADAR_SIGNAL''
        \<and> xv_output_hash ev = hash_evidence H (PyDict [(''direction'', PyStr (direction_value (ts_direction s))),
             (''net'', case ts_net_expected_return_pct s of None \<Rightarrow> PyNone | Some x \<Rightarrow> PyFloat x)])
        \<and> (ts_direction s = Dir_HOLD \<or> ts_direction s = oy_direction (derive_opportunity F candles))"
proof (cases r)
  case (Inl e)
  then show ?thesis
    using assms(1) by (auto simp: scan_def append_evidence_def py_simps Let_def split: sum.splits option.splits)
next
  case (Inr s)
  then obtain rows candles d where c: "sn_rows w = Inr rows" "closed_candles (sn_market_ms w) rows = Inr candles"
    and e: "evaluate_snapshot F t (sn_evaluate_now w) (sn_run_id w) (sn_signal_id w)
         (snapshot_of asset (derive_opportunity F candles) (sn_snapshot_now w) d) capital
         (oy_stop (derive_opportunity F candles)) (oy_target (derive_opportunity F candles))
         (oy_estimated_holding_minutes (derive_opportunity F candles)) (Some (oy_confidence_score (derive_opportunity F candles))) = Inr s"
    and l: "\<exists>ev. es' = es @ [ev] \<and> xv_run_id ev = ts_run_id s \<and> xv_event_type ev = ''RADAR_SIGNAL''
        \<and> xv_output_hash ev = hash_evidence H (PyDict [(''direction'', PyStr (direction_value (ts_direction s))),
             (''net'', case ts_net_expected_return_pct s of None \<Rightarrow> PyNone | Some x \<Rightarrow> PyFloat x)])"
    using assms(1) by (auto simp: scan_def append_evidence_def py_simps Let_def split: sum.splits option.splits)
  note candles = closed_candles_Inr[OF c(2)]
  have "ts_direction s = Dir_HOLD \<or> ts_direction s = oy_direction (derive_opportunity F candles)"
    by (rule evaluate_direction[OF e _ assms(2)]) (use candles assms(3)[OF c(1)] in \<open>auto simp: snapshot_of_def\<close>)
  then show ?thesis
    using Inr c candles l by auto
qed

section \<open>Concrete inputs\<close>

definition exact_prices :: price_arith where
  "exact_prices = \<lparr>fl = (\<lambda>x. x), fsum = sum_list, decimals = (\<lambda>_ x. x)\<rparr>"

lemma exact_prices_ok: "prices_ok exact_prices" "rounds_within 0 exact_prices"
  by (simp_all add: prices_ok_def exact_prices_def mono_def rounds_within_def)

definition sample_budget :: budget_policy where
  "sample_budget = \<lparr>bp_daily = 10, bp_monthly = 100, bp_run = 10, bp_signal = 6, bp_cycle_call_limit = 3, bp_strong_model_limit = 1\<rparr>"

definition governor_calls :: "governor_call list" where
  "governor_calls = [Call_reserve ''a'' 6 True, Call_reserve ''b'' 5 False, Call_reserve ''c'' 4 False,
     Call_reconcile ''a'' 5 True, Call_rollback ''c'', Call_reconcile ''a'' 1 True]"

lemma governor_calls_run:
  "governor_run governor_calls (new_governor sample_budget) =
     \<lparr>eg_policy = sample_budget, eg_spent_daily = 5, eg_spent_monthly = 5, eg_spent_run = 5, eg_calls_this_cycle = 2,
      eg_strong_calls_today = 1, eg_reserved = 0, eg_reservations = []\<rparr>"
  "overrun governor_calls (new_governor sample_budget) = 0"
  by (simp_all add: governor_calls_def new_governor_def reserve_cost_def reconcile_cost_def rollback_cost_def
      reserve_refused_def outstanding_strong_def sample_budget_def Let_def)

theorem budget_kept_witness:
  "eg_spent_daily (governor_run governor_calls (new_governor sample_budget)) +
     eg_reserved (governor_run governor_calls (new_governor sample_budget)) \<le> bp_daily sample_budget"
  using budget_kept[of sample_budget governor_calls, OF _ _ _ _ refl refl]
  by (simp add: governor_calls_run(2)) (simp add: sample_budget_def governor_calls_def)

text \<open>
  A reconciliation is not held to its reservation: it charges what it is told, and the daily
  budget is overdrawn.
\<close>

lemma reconcile_overdraws_budget:
  "let g = governor_run [Call_reserve ''a'' 6 True, Call_reconcile ''a'' 50 True] (new_governor sample_budget)
   in eg_spent_daily g = 50 \<and> eg_spent_daily g > bp_daily (eg_policy g)"
  by (simp add: new_governor_def reserve_cost_def reconcile_cost_def reserve_refused_def outstanding_strong_def sample_budget_def Let_def)

definition sample_now :: pydatetime where
  "sample_now = epoch\<lparr>dt_minute := 1\<rparr>"

definition sample_market :: market_snapshot where
  "sample_market = \<lparr>ms_asset = ''BTC'', ms_price = 100, ms_market_data_timestamp = epoch, ms_received_at = sample_now,
     ms_data_cutoff = epoch, ms_source = ''BINANCE_PUBLIC''\<rparr>"

lemma sample_times: "valid_dt sample_now" "dt_seconds sample_now epoch = 60" "aware epoch"
  by (simp_all add: sample_now_def epoch_def valid_dt_def days_in_month_def dt_seconds_def dt_instant_def
      days_before_year_def days_before_month_def aware_def)

lemma sample_expiry: "\<exists>e. plus_minutes 60 sample_now = Some e"
  by (simp add: plus_minutes_def sample_now_def epoch_def Let_def)

lemma sample_evaluation:
  "\<exists>s. evaluate_snapshot exact_prices (new_trading_runtime exact_prices) sample_now ''r'' ''s'' sample_market 1000
     (Some 95) (Some 110) 120 None = Inr s \<and> ts_direction s = Dir_BUY"
proof -
  obtain e where "plus_minutes 60 sample_now = Some e"
    using sample_expiry ..
  then show ?thesis
    by (simp add: evaluate_snapshot_def sample_market_def sample_times exact_prices_def new_trading_runtime_def
        new_risk_policy_def trade_edge_def position_size_def Let_def)
qed

theorem signal_sound_witness:
  "\<exists>s. evaluate_snapshot exact_prices (new_trading_runtime exact_prices) sample_now ''r'' ''s'' sample_market 1000
     (Some 95) (Some 110) 120 None = Inr s \<and> ts_stop_price s = Some 95 \<and> ts_target_price s = Some 110"
proof -
  obtain s where s: "evaluate_snapshot exact_prices (new_trading_runtime exact_prices) sample_now ''r'' ''s'' sample_market 1000
     (Some 95) (Some 110) 120 None = Inr s" "ts_direction s = Dir_BUY"
    using sample_evaluation by blast
  show ?thesis
    using signal_sound[OF s(1) exact_prices_ok(1) sample_times(1)] s by auto
qed

theorem stop_loss_bounded_witness:
  "(200 :: rat) / 100 * \<bar>100 - 95\<bar> \<le> 1000 * (1 / 100) * ((1 + 0) ^ 4 / (1 - 0))"
proof -
  have "position_size exact_prices new_risk_policy 1000 100 95 = Inr (200, 1)"
    by (simp add: position_size_def exact_prices_def new_risk_policy_def Let_def)
  moreover have "0 \<le> ri_max_capital_at_risk_per_trade_pct new_risk_policy"
    by (simp add: new_risk_policy_def)
  ultimately show ?thesis
    using stop_loss_bounded[OF _ exact_prices_ok(2)] by blast
qed

definition sample_candles :: "candle list" where
  "sample_candles = [\<lparr>cd_open = 90, cd_high = 92, cd_low = 89, cd_close = 91, cd_close_time_ms = 1\<rparr>,
     \<lparr>cd_open = 98, cd_high = 102, cd_low = 97, cd_close = 101, cd_close_time_ms = 2\<rparr>,
     \<lparr>cd_open = 101, cd_high = 111, cd_low = 94, cd_close = 100, cd_close_time_ms = 3\<rparr>]"

definition sample_signal :: trade_signal where
  "sample_signal = (hold_signal (new_trading_runtime exact_prices) sample_market ''r'' ''s'' sample_now Hold_NO_EDGE)
     \<lparr>ts_direction := Dir_BUY, ts_entry_price := Some 100, ts_target_price := Some 110, ts_stop_price := Some 95\<rparr>"

text \<open>A buy at 100, entered in a bar that reaches neither 110 nor 95; the next bar reaches both.\<close>

theorem paper_result_resolved_witness:
  "\<exists>us ds. list_all2 price_path [\<lparr>cd_open = 101, cd_high = 111, cd_low = 94, cd_close = 100, cd_close_time_ms = 2\<rparr>] us \<and>
     list_all2 price_path [\<lparr>cd_open = 101, cd_high = 111, cd_low = 94, cd_close = 100, cd_close_time_ms = 2\<rparr>] ds \<and>
     tick_result Dir_BUY 110 95 (concat us) = Paper_TARGET \<and> tick_result Dir_BUY 110 95 (concat ds) = Paper_STOP"
proof -
  let ?c = "\<lparr>cd_open = 100, cd_high = 102, cd_low = 99, cd_close = 101, cd_close_time_ms = 1\<rparr>"
  let ?x = "\<lparr>cd_open = 101, cd_high = 111, cd_low = 94, cd_close = 100, cd_close_time_ms = 2\<rparr>"
  let ?s = "gap_signal sample_signal"
  have d: "ts_direction ?s = Dir_BUY" "ts_entry_price ?s = Some 100" "ts_target_price ?s = Some 110" "ts_stop_price ?s = Some 95"
    by (simp_all add: gap_signal_def)
  have "list_all2 price_path [?x] [[101, 111, 94, 100]]" by (simp add: price_path_def)
  moreover have "enters 100 ?c" "\<not> touches (ts_direction ?s) 110 95 ?c"
    by (simp_all add: d enters_def touches_def hit_target_def hit_stop_def)
  moreover have "pa_result (simulate ?s [?c, ?x]) = Paper_AMBIGUOUS"
    by (simp add: simulate_def d enters_def hit_target_def hit_stop_def mk_outcome_def)
  ultimately show ?thesis
    using paper_result_resolved [of ?s 100 110 95 "[?c, ?x]" "[]" ?c "[?x]" "[[101, 111, 94, 100]]"] d by simp
qed

definition sample_scan :: scan_inputs where
  "sample_scan = \<lparr>sn_rows = Inr sample_candles, sn_market_ms = 2, sn_snapshot_now = sample_now, sn_evaluate_now = sample_now,
     sn_ledger_now = sample_now, sn_run_id = ''r'', sn_signal_id = ''s'', sn_event_id = ''e''\<rparr>"

theorem scan_recorded_witness:
  "case scan (\<lambda>_. ''h'') exact_prices (new_trading_runtime exact_prices) sample_scan ''BTC'' 1000 [] of
     (Inl _, es) \<Rightarrow> es = [] | (Inr s, es) \<Rightarrow> length es = 1"
proof -
  obtain r es' where s: "scan (\<lambda>_. ''h'') exact_prices (new_trading_runtime exact_prices) sample_scan ''BTC'' 1000 [] = (r, es')"
    by fastforce
  have "fl exact_prices x = x" for x by (simp add: exact_prices_def)
  from scan_recorded[OF s exact_prices_ok(1) this] show ?thesis
    unfolding s by (auto split: sum.splits)
qed

end
