(* ===== verification/Trading_Api.thy ===== *)
theory Trading_Api
  imports Trading_Safety Expertise_Retrieval
begin

text \<open>
  The routes of \<^verbatim>\<open>app/trading_runtime/api.py\<close> over the runtime and the radar: what they hand
  on, what they answer and which errors leave them. The web framework itself and the constant
  answer of \<^verbatim>\<open>/health\<close> are left out; \<open>request_valid\<close> is what the declared bounds of the
  request model admit.
\<close>

record trade_request =
  eq_asset :: string
  eq_price :: rat
  eq_market_data_timestamp :: pydatetime
  eq_data_cutoff :: pydatetime
  eq_capital :: rat
  eq_technical_stop_price :: "rat option"
  eq_target_price :: "rat option"
  eq_estimated_holding_minutes :: int
  eq_confidence_score :: "rat option"

definition request_valid :: "trade_request \<Rightarrow> bool" where
  "request_valid q \<longleftrightarrow>
     eq_price q > 0 \<and> eq_capital q > 0 \<and> 60 \<le> eq_estimated_holding_minutes q \<and> eq_estimated_holding_minutes q \<le> 480 \<and>
     (case eq_confidence_score q of None \<Rightarrow> True | Some x \<Rightarrow> 0 \<le> x \<and> x \<le> 100)"

fun hold_reason_value :: "hold_reason \<Rightarrow> string" where
  "hold_reason_value Hold_NO_EDGE = ''NO_EDGE''"
| "hold_reason_value Hold_DATA = ''HOLD_DATA''"
| "hold_reason_value Hold_COST = ''HOLD_COST''"
| "hold_reason_value Hold_MODEL = ''HOLD_MODEL''"
| "hold_reason_value Hold_RISK = ''HOLD_RISK''"
| "hold_reason_value Hold_DRAWDOWN = ''HOLD_DRAWDOWN''"
| "hold_reason_value Hold_ANOMALY = ''HOLD_ANOMALY''"
| "hold_reason_value Hold_PROVIDER = ''HOLD_PROVIDER''"
| "hold_reason_value Hold_SYSTEM_STOP = ''SYSTEM_STOP''"

definition py_opt_float :: "rat option \<Rightarrow> pyval" where
  "py_opt_float x = (case x of None \<Rightarrow> PyNone | Some r \<Rightarrow> PyFloat r)"

definition signal_payload :: "trade_signal \<Rightarrow> pyval" where
  "signal_payload s = PyDict
     [(''signal_id'', PyStr (ts_signal_id s)), (''run_id'', PyStr (ts_run_id s)), (''asset'', PyStr (ts_asset s)),
      (''direction'', PyStr (direction_value (ts_direction s))),
      (''estimated_holding_minutes'', case ts_estimated_holding_minutes s of None \<Rightarrow> PyNone | Some n \<Rightarrow> PyInt n),
      (''signal_expires_at'', PyStr (isoformat (ts_signal_expires_at s))),
      (''entry_price'', py_opt_float (ts_entry_price s)), (''target_price'', py_opt_float (ts_target_price s)),
      (''stop_price'', py_opt_float (ts_stop_price s)),
      (''gross_expected_return_pct'', py_opt_float (ts_gross_expected_return_pct s)),
      (''estimated_trading_cost_pct'', PyFloat (ts_estimated_trading_cost_pct s)),
      (''net_expected_return_pct'', py_opt_float (ts_net_expected_return_pct s)),
      (''position_size'', PyFloat (ts_position_size s)), (''account_risk_pct'', PyFloat (ts_account_risk_pct s)),
      (''confidence_score'', py_opt_float (ts_confidence_score s)),
      (''hold_reason'', case ts_hold_reason s of None \<Rightarrow> PyNone | Some r \<Rightarrow> PyStr (hold_reason_value r)),
      (''evidence_ref'', PyStr (ts_evidence_ref s))]"

definition evaluate_route ::
    "price_arith \<Rightarrow> trading_runtime \<Rightarrow> pydatetime \<Rightarrow> pydatetime \<Rightarrow> string \<Rightarrow> string \<Rightarrow> trade_request \<Rightarrow> pyval res" where
  "evaluate_route F t received now run_id signal_id q =
     map_sum id signal_payload
       (evaluate_snapshot F t now run_id signal_id
          \<lparr>ms_asset = eq_asset q, ms_price = eq_price q, ms_market_data_timestamp = eq_market_data_timestamp q,
           ms_received_at = received, ms_data_cutoff = eq_data_cutoff q, ms_source = ''BINANCE_PUBLIC''\<rparr>
          (eq_capital q) (eq_technical_stop_price q) (eq_target_price q) (eq_estimated_holding_minutes q)
          (eq_confidence_score q))"

definition scan_route :: "digest \<Rightarrow> price_arith \<Rightarrow> trading_runtime \<Rightarrow> scan_inputs \<Rightarrow> string \<Rightarrow> rat \<Rightarrow> (evidence_ledger, pyval) py" where
  "scan_route H F t w asset capital =
     py_try (scan H F t w (upper asset) capital)
       (\<lambda>_. py_raise (OtherError ''503 market data unavailable''))
       (\<lambda>s. py_return (signal_payload s))"

definition evidence_event_data :: "evidence_event \<Rightarrow> pyval" where
  "evidence_event_data e = PyDict
     [(''event_id'', PyStr (xv_event_id e)), (''causal_parent_id'', py_opt_str (xv_causal_parent_id e)),
      (''run_id'', PyStr (xv_run_id e)), (''event_type'', PyStr (xv_event_type e)),
      (''input_hash'', PyStr (xv_input_hash e)), (''output_hash'', PyStr (xv_output_hash e)),
      (''config_hash'', PyStr (xv_config_hash e)), (''data_snapshot_ref'', PyStr (xv_data_snapshot_ref e)),
      (''predecessor'', py_opt_str (xv_predecessor e)), (''created_at'', PyStr (xv_created_at e))]"

definition evidence_route :: "(evidence_ledger, pyval list) py" where
  "evidence_route = py_gets (map evidence_event_data)"

text \<open>
  Nothing but the one declared error leaves the route of the radar, and the evidence it
  publishes afterwards tells whether it answered: an answer added exactly one event, which is the
  last, names the run of the answer and comes after all the earlier ones; an error added none.
\<close>

lemma scan_route_evidence:
  assumes "scan_route H F t w asset capital es = (r, es')"
  shows "case r of
      Inl e \<Rightarrow> e = OtherError ''503 market data unavailable'' \<and> es' = es
    | Inr v \<Rightarrow> \<exists>x. fst (evidence_route es') = Inr (map evidence_event_data es @ [evidence_event_data x]) \<and>
                  py_get v ''run_id'' = py_get (evidence_event_data x) ''run_id''"
proof (cases "scan H F t w (upper asset) capital es")
  case (Pair a s)
  show ?thesis
  proof (cases a)
    case (Inl e)
    then have "s = es"
      using Pair by (auto simp: scan_def append_evidence_def py_simps Let_def split: sum.splits option.splits)
    then show ?thesis
      using assms Pair Inl by (auto simp: scan_route_def py_simps)
  next
    case (Inr sg)
    then obtain x where "s = es @ [x]" "xv_run_id x = ts_run_id sg"
      using Pair by (auto simp: scan_def append_evidence_def py_simps Let_def split: sum.splits option.splits)
    moreover have "r = Inr (signal_payload sg)" "es' = s"
      using assms Pair Inr by (auto simp: scan_route_def py_simps)
    ultimately show ?thesis
      by (auto simp: evidence_route_def py_simps signal_payload_def evidence_event_data_def)
  qed
qed

lemma scan_route_evidence_witness:
  "\<exists>r es'. scan_route (\<lambda>_. ''h'') exact_prices (new_trading_runtime exact_prices) sample_scan ''btc'' 1000 [] = (r, es') \<and>
     (es' = [] \<or> length es' = 1)"
proof -
  obtain r es' where s: "scan_route (\<lambda>_. ''h'') exact_prices (new_trading_runtime exact_prices) sample_scan ''btc'' 1000 [] = (r, es')"
    by fastforce
  show ?thesis
    using scan_route_evidence[OF s] s by (cases r) (auto simp: evidence_route_def py_simps)
qed

end
