(* ===== verification/Lease_Store.thy ===== *)
theory Lease_Store
  imports Leases
begin

text \<open>
  \<^verbatim>\<open>app/ocs_instances/lease_store.py\<close>: the file that keeps a signed snapshot of the lease
  manager, written beside and moved into place.

  A file holds the tree of its JSON text, or the first characters of a text that was not written
  to its end, which is no JSON document. A file whose fields have other types than \<^verbatim>\<open>save\<close>
  writes is an error here at once; the code reads some of them and then refuses their MAC.
\<close>

section \<open>The store and its files\<close>

datatype file_name = Store_path | Temporary_path

datatype file_content = Whole pyval | Torn nat

text \<open>
  A file with whether its content is known to be on the disk: the code never asks for that
  (\<^verbatim>\<open>fsync\<close>), so what it writes is not. \<^verbatim>\<open>os.replace\<close> is atomic, as its documentation
  says, and moves the file as it is.
\<close>

type_synonym lease_files = "file_name \<Rightarrow> (file_content \<times> bool) option"

datatype file_op = Write_text file_name pyval | Replace_file file_name file_name

fun file_step :: "file_op \<Rightarrow> lease_files \<Rightarrow> lease_files" where
  "file_step (Write_text p v) f = f(p := Some (Whole v, False))"
| "file_step (Replace_file src dst) f = f(dst := f src, src := None)"

definition run_files :: "file_op list \<Rightarrow> lease_files \<Rightarrow> lease_files" where
  "run_files ops f = fold file_step ops f"

record lease_store =
  lt_key :: string

definition new_lease_store :: "string \<Rightarrow> lease_store res" where
  "new_lease_store key =
     (if key = [] then Inl (ValueError ''lease_snapshot_authentication_key_required'') else Inr \<lparr>lt_key = key\<rparr>)"

definition signed_document :: "authenticated_lease_snapshot \<Rightarrow> pyval" where
  "signed_document s =
     json_tree (PyDict [(''algorithm'', PyStr (as_algorithm s)), (''mac'', PyStr (as_mac s)),
                        (''snapshots'', PyList (map snapshot_data (as_snapshots s)))])"

definition save_ops :: "pyval \<Rightarrow> file_op list" where
  "save_ops document = [Write_text Temporary_path document, Replace_file Temporary_path Store_path]"

definition save_leases :: "mac \<Rightarrow> lease_store \<Rightarrow> lease_manager \<Rightarrow> (lease_files, unit) py" where
  "save_leases M store m =
     py_bind (py_lift (authenticated_snapshot M (lt_key store) m)) (\<lambda>signed.
     py_modify (run_files (save_ops (signed_document signed))))"

section \<open>Crashes\<close>

text \<open>
  A crash of the process stops a list of file operations anywhere: after any of them, or within
  the next, and when that one writes, its file then has only the first characters of the text.
\<close>

inductive crash_state :: "file_op list \<Rightarrow> lease_files \<Rightarrow> lease_files \<Rightarrow> bool" where
  stopped: "crash_state ops f f"
| torn: "crash_state (Write_text p v # ops) f (f(p := Some (Torn n, False)))"
| later: "crash_state ops (file_step op f) g \<Longrightarrow> crash_state (op # ops) f g"

inductive_cases crash_NilE: "crash_state [] f g"
inductive_cases crash_ConsE: "crash_state (op # ops) f g"

text \<open>A loss of power can, besides, tear every file whose content was not on the disk yet.\<close>

definition power_loss :: "nat \<Rightarrow> lease_files \<Rightarrow> lease_files" where
  "power_loss n f = (\<lambda>p. case f p of Some (_, False) \<Rightarrow> Some (Torn n, True) | x \<Rightarrow> x)"

section \<open>Reading\<close>

text \<open>
  A field of a document: its value if it has the type that is written, the default if it is
  absent (\<open>None\<close> for a required one).
\<close>

definition read_field_of :: "(pyval \<Rightarrow> 'a option) \<Rightarrow> 'a option \<Rightarrow> pyval \<Rightarrow> string \<Rightarrow> 'a option" where
  "read_field_of r d v k = (case py_get v k of None \<Rightarrow> d | Some x \<Rightarrow> r x)"

fun as_text :: "pyval \<Rightarrow> string option" where "as_text (PyStr s) = Some s" | "as_text _ = None"
fun as_float :: "pyval \<Rightarrow> rat option" where "as_float (PyFloat x) = Some x" | "as_float _ = None"
fun as_int :: "pyval \<Rightarrow> int option" where "as_int (PyInt n) = Some n" | "as_int _ = None"
fun as_bool :: "pyval \<Rightarrow> bool option" where "as_bool (PyBool b) = Some b" | "as_bool _ = None"

fun all_some :: "'a option list \<Rightarrow> 'a list option" where
  "all_some [] = Some []"
| "all_some (x # xs) = Option.bind x (\<lambda>y. map_option (Cons y) (all_some xs))"

fun as_list :: "(pyval \<Rightarrow> 'a option) \<Rightarrow> pyval \<Rightarrow> 'a list option" where
  "as_list r (PyList xs) = all_some (map r xs)"
| "as_list r _ = None"

fun as_reservation :: "pyval \<Rightarrow> (string \<times> string \<times> int) option" where
  "as_reservation (PyList [PyStr k, PyStr a, PyInt i]) = Some (k, a, i)"
| "as_reservation _ = None"

fun as_lease_state :: "pyval \<Rightarrow> lease_state option" where
  "as_lease_state (PyStr s) =
     (if s = ''active'' then Some Lease_ACTIVE else if s = ''consumed'' then Some Lease_CONSUMED
      else if s = ''released'' then Some Lease_RELEASED else None)"
| "as_lease_state _ = None"

definition lease_fields :: "string list" where
  "lease_fields = map fst (dict_items (lease_data
     \<lparr>al_lease_id = [], al_ocs = [], al_capability = [], al_expires_at = 0, al_actor = [], al_issued_at = 0, al_not_before = 0,
      al_scope = [], al_tenant = [], al_context_ref = [], al_authority_ref = [], al_policy_snapshot = [],
      al_action_binding = [], al_object_ref_or_selector = [], al_trace_ref = [], al_max_uses = 1, al_uses_consumed = 0,
      al_revocable = True, al_single_use = False, al_state = Lease_ACTIVE, al_revoked = False\<rparr>))"

text \<open>
  \<^verbatim>\<open>AuthorityLease(**...)\<close>: a field of no such name is a \<^verbatim>\<open>TypeError\<close>; \<^verbatim>\<open>scope\<close> and
  \<^verbatim>\<open>state\<close> are read by name, so they have no default.
\<close>

definition read_lease :: "pyval \<Rightarrow> authority_lease option" where
  "read_lease v =
     (let text = (\<lambda>d. read_field_of as_text d v); num = (\<lambda>d. read_field_of as_float d v);
          whole = (\<lambda>d. read_field_of as_int d v); flag = (\<lambda>d. read_field_of as_bool d v)
      in if \<not> set (map fst (dict_items v)) \<subseteq> set lease_fields then None
         else
           Option.bind (text None ''lease_id'') (\<lambda>lease_id. Option.bind (text None ''ocs'') (\<lambda>ocs.
           Option.bind (text None ''capability'') (\<lambda>capability. Option.bind (num None ''expires_at'') (\<lambda>expires_at.
           Option.bind (text (Some []) ''actor'') (\<lambda>actor. Option.bind (num (Some 0) ''issued_at'') (\<lambda>issued_at.
           Option.bind (num (Some 0) ''not_before'') (\<lambda>not_before.
           Option.bind (read_field_of (as_list as_text) None v ''scope'') (\<lambda>scope.
           Option.bind (text (Some []) ''tenant'') (\<lambda>tenant. Option.bind (text (Some []) ''context_ref'') (\<lambda>context_ref.
           Option.bind (text (Some []) ''authority_ref'') (\<lambda>authority_ref.
           Option.bind (text (Some []) ''policy_snapshot'') (\<lambda>policy_snapshot.
           Option.bind (text (Some []) ''action_binding'') (\<lambda>action_binding.
           Option.bind (text (Some []) ''object_ref_or_selector'') (\<lambda>object_ref.
           Option.bind (text (Some []) ''trace_ref'') (\<lambda>trace_ref.
           Option.bind (whole (Some 1) ''max_uses'') (\<lambda>max_uses. Option.bind (whole (Some 0) ''uses_consumed'') (\<lambda>consumed.
           Option.bind (flag (Some True) ''revocable'') (\<lambda>revocable. Option.bind (flag (Some False) ''single_use'') (\<lambda>single_use.
           Option.bind (read_field_of as_lease_state None v ''state'') (\<lambda>state.
           Option.bind (flag (Some False) ''revoked'') (\<lambda>revoked.
           Some \<lparr>al_lease_id = lease_id, al_ocs = ocs, al_capability = capability, al_expires_at = expires_at,
                 al_actor = actor, al_issued_at = issued_at, al_not_before = not_before, al_scope = scope,
                 al_tenant = tenant, al_context_ref = context_ref, al_authority_ref = authority_ref,
                 al_policy_snapshot = policy_snapshot, al_action_binding = action_binding,
                 al_object_ref_or_selector = object_ref, al_trace_ref = trace_ref, al_max_uses = max_uses,
                 al_uses_consumed = consumed, al_revocable = revocable, al_single_use = single_use,
                 al_state = state, al_revoked = revoked\<rparr>))))))))))))))))))))))"

definition read_snapshot :: "pyval \<Rightarrow> lease_snapshot option" where
  "read_snapshot v =
     Option.bind (Option.bind (py_get v ''lease'') read_lease) (\<lambda>lease.
     Option.bind (read_field_of (as_list as_reservation) None v ''reservations'') (\<lambda>reservations.
     Some \<lparr>ls_lease = lease, ls_reservations = reservations\<rparr>))"

definition read_signed :: "pyval \<Rightarrow> authenticated_lease_snapshot option" where
  "read_signed v =
     Option.bind (read_field_of (as_list read_snapshot) None v ''snapshots'') (\<lambda>snapshots.
     Option.bind (read_field_of as_text None v ''mac'') (\<lambda>m.
     Option.bind (read_field_of as_text None v ''algorithm'') (\<lambda>algorithm.
     Some \<lparr>as_snapshots = snapshots, as_mac = m, as_algorithm = algorithm\<rparr>)))"

definition load_leases :: "mac \<Rightarrow> lease_store \<Rightarrow> lease_files \<Rightarrow> lease_manager res" where
  "load_leases M store f =
     (case f Store_path of
        None \<Rightarrow> Inl (OtherError ''FileNotFoundError'')
      | Some (Torn _, _) \<Rightarrow> Inl (OtherError ''JSONDecodeError'')
      | Some (Whole v, _) \<Rightarrow>
          (case read_signed v of
             None \<Rightarrow> Inl (OtherError ''malformed lease document'')
           | Some signed \<Rightarrow> from_snapshot M (Signed signed) (Some (lt_key store))))"

section \<open>What is read back\<close>

lemma all_some_map: "all_some (map (\<lambda>x. Some (f x)) xs) = Some (map f xs)"
  by (induction xs) auto

lemma read_field_json:
  "distinct (map fst kvs) \<Longrightarrow>
     read_field_of r d (json_tree (PyDict kvs)) k = (case map_of kvs k of None \<Rightarrow> d | Some x \<Rightarrow> r (json_tree x))"
  unfolding read_field_of_def py_get_json_tree by (simp split: option.split)

lemma read_field_of_dict:
  assumes "v = PyDict (dict_items v)" and "distinct (map fst (dict_items v))"
  shows "read_field_of r d (json_tree v) k = (case map_of (dict_items v) k of None \<Rightarrow> d | Some x \<Rightarrow> r (json_tree x))"
  by (subst assms(1)) (rule read_field_json[OF assms(2)])

lemma as_list_json: "as_list r (json_tree (PyList (map f xs))) = all_some (map (\<lambda>x. r (json_tree (f x))) xs)"
  "as_list r (json_tree (PyTuple (map f xs))) = all_some (map (\<lambda>x. r (json_tree (f x))) xs)"
  by (simp_all add: comp_def)

lemma as_lease_state_value: "as_lease_state (PyStr (lease_state_value x)) = Some x"
  by (cases x) simp_all

lemma keys_json: "set (map fst (dict_items (json_tree (PyDict kvs)))) = fst ` set kvs"
  by force

lemma lease_data_keys: "set (map fst (dict_items (json_tree (lease_data l)))) \<subseteq> set lease_fields"
  unfolding lease_data_def keys_json by (simp add: lease_fields_def lease_data_def)

lemma read_lease_data: "read_lease (json_tree (lease_data l)) = Some l"
proof -
  have d: "distinct (map fst (dict_items (lease_data l)))"
    by (simp add: lease_data_def)
  have f: "read_field_of r x (json_tree (lease_data l)) k =
      (case map_of (dict_items (lease_data l)) k of None \<Rightarrow> x | Some y \<Rightarrow> r (json_tree y))" for r x k
    by (rule read_field_of_dict[OF _ d]) (simp add: lease_data_def)
  have t: "all_some (map (as_text \<circ> PyStr) xs) = Some xs" for xs
    by (induction xs) auto
  have sc: "as_list as_text (json_tree (py_strs xs)) = Some xs" for xs
    unfolding py_strs_def as_list_json by (simp add: all_some_map[of "\<lambda>x. x", simplified])
  show ?thesis
    unfolding read_lease_def Let_def f using lease_data_keys[of l]
    by (simp add: lease_data_def sc t as_lease_state_value del: as_lease_state.simps json_tree.simps(1,2,3))
qed

lemma read_snapshot_data: "read_snapshot (json_tree (snapshot_data x)) = Some x"
proof -
  have d: "distinct (map fst (dict_items (snapshot_data x)))"
    by (simp add: snapshot_data_def)
  have g: "py_get (json_tree (snapshot_data x)) ''lease'' = Some (json_tree (lease_data (ls_lease x)))"
    using py_get_json_tree[of "dict_items (snapshot_data x)" "''lease''"] d by (simp add: snapshot_data_def del: json_tree.simps)
  have r: "as_list as_reservation (json_tree (PyTuple (map (\<lambda>(k, a, i). PyTuple [PyStr k, PyStr a, PyInt i]) rs))) = Some rs" for rs
    unfolding as_list_json by (induction rs) auto
  have f: "read_field_of (as_list as_reservation) None (json_tree (snapshot_data x)) ''reservations'' = Some (ls_reservations x)"
    using read_field_json[of "dict_items (snapshot_data x)" "as_list as_reservation" None "''reservations''"] d r[of "ls_reservations x"]
    by (simp add: snapshot_data_def del: json_tree.simps)
  show ?thesis
    by (simp add: read_snapshot_def g f read_lease_data)
qed

lemma read_signed_document: "read_signed (signed_document s) = Some s"
proof -
  have f: "read_field_of r d (signed_document s) k =
      (case map_of [(''algorithm'', PyStr (as_algorithm s)), (''mac'', PyStr (as_mac s)),
                    (''snapshots'', PyList (map snapshot_data (as_snapshots s)))] k of None \<Rightarrow> d | Some x \<Rightarrow> r (json_tree x))" for r d k
    unfolding signed_document_def by (rule read_field_json) simp
  have l: "as_list read_snapshot (json_tree (PyList (map snapshot_data xs))) = Some xs" for xs
    unfolding as_list_json read_snapshot_data by (simp add: all_some_map[of "\<lambda>x. x", simplified])
  show ?thesis
    by (simp add: read_signed_def f l del: json_tree.simps(1,2,3))
qed

text \<open>
  C40: The snapshot file. After a save of a well-formed manager a load answers the manager again,
  every lease with its use counters and reservations, these in sorted order. Wherever a crash of
  the process stops the operations of the save, in the middle of writing too, a load answers
  either what it would have answered before or the manager that was saved. A loss of power on top
  of that can make the load fail, but never answer anything else.
\<close>

theorem lease_store_crash_safe:
  assumes "lm_wf m" and "named_reservations m" and "new_lease_store key = Inr store"
    and "authenticated_snapshot M key m = Inr signed"
    and "crash_state (save_ops (signed_document signed)) f g"
  shows "fst (save_leases M store m f) = Inr ()
    \<and> load_leases M store (snd (save_leases M store m f)) =
        Inr \<lparr>lm_leases = lm_leases m, lm_usage = map (\<lambda>(i, u). (i, sort u)) (lm_usage m)\<rparr>
    \<and> crash_state (save_ops (signed_document signed)) f (snd (save_leases M store m f))
    \<and> load_leases M store g \<in>
        {load_leases M store f, load_leases M store (snd (save_leases M store m f))}
    \<and> load_leases M store (power_loss n g) \<in>
        {load_leases M store f, load_leases M store (snd (save_leases M store m f)),
         Inl (OtherError ''JSONDecodeError'')}"
proof -
  let ?ops = "save_ops (signed_document signed)"
  have k: "key \<noteq> []" "lt_key store = key"
    using assms(3) by (auto simp: new_lease_store_def split: if_split_asm)
  have restored: "from_snapshot M (Signed signed) (Some key) =
      Inr \<lparr>lm_leases = lm_leases m, lm_usage = map (\<lambda>(i, u). (i, sort u)) (lm_usage m)\<rparr>"
    using snapshot_round_trip[OF assms(1,2) k(1)] assms(4) by (metis sum.inject(2))
  have saved: "save_leases M store m f = (Inr (), run_files ?ops f)"
    by (simp add: save_leases_def py_simps k assms(4))
  have all: "crash_state ops h (run_files ops h)" for ops h
    by (induction ops arbitrary: h) (auto simp: run_files_def intro: crash_state.intros)
  have stops: "g Store_path \<in> {f Store_path, run_files ?ops f Store_path}"
    using assms(5)
    by (auto simp: save_ops_def run_files_def elim!: crash_ConsE crash_NilE)
  have by_path: "h Store_path = h' Store_path \<Longrightarrow> load_leases M store h = load_leases M store h'" for h h'
    by (simp add: load_leases_def)
  have lost: "load_leases M store (power_loss n h) \<in> {load_leases M store h, Inl (OtherError ''JSONDecodeError'')}" for h
    by (auto simp: load_leases_def power_loss_def split: option.splits prod.splits bool.splits file_content.splits)
  have "load_leases M store (run_files ?ops f) = from_snapshot M (Signed signed) (Some key)"
    by (simp add: load_leases_def save_ops_def run_files_def read_signed_document k)
  then show ?thesis
    using saved restored all[of ?ops f] stops by_path[of g f] by_path[of g "run_files ?ops f"] lost[of g] by auto
qed

theorem lease_store_crash_safe_witness:
  "\<exists>signed. authenticated_snapshot (\<lambda>k v. ''mac'') ''key'' (lease_run sample_calls new_lease_manager) = Inr signed \<and>
     (\<forall>n. load_leases (\<lambda>k v. ''mac'') \<lparr>lt_key = ''key''\<rparr>
        ((\<lambda>p. None)(Temporary_path := Some (Torn n, False))) \<in>
          {Inl (OtherError ''FileNotFoundError''),
           Inr \<lparr>lm_leases = lm_leases (lease_run sample_calls new_lease_manager),
                lm_usage = [(''l'', sort [(''k'', ''a'', 1), (''j'', ''b'', 2)])]\<rparr>})"
proof -
  let ?m = "lease_run sample_calls new_lease_manager"
  have u: "lm_usage ?m = [(''l'', [(''k'', ''a'', 1), (''j'', ''b'', 2)])]"
    by (simp add: lease_run_def sample_calls_def sample_simps)
  then have n: "named_reservations ?m" by (simp add: named_reservations_def)
  have wf: "lm_wf ?m" by (rule lease_run_wf[OF lm_wf_new])
  have st: "new_lease_store ''key'' = Inr \<lparr>lt_key = ''key''\<rparr>"
    by (simp add: new_lease_store_def)
  obtain signed where s: "authenticated_snapshot (\<lambda>k v. ''mac'') ''key'' ?m = Inr signed"
    using snapshot_round_trip[OF wf n, of "''key''"] by blast
  have torn: "crash_state (save_ops (signed_document signed)) (\<lambda>p. None)
      ((\<lambda>p. None)(Temporary_path := Some (Torn j, False)))" for j
    unfolding save_ops_def by (rule crash_state.torn)
  have "load_leases (\<lambda>k v. ''mac'') \<lparr>lt_key = ''key''\<rparr> (\<lambda>p. None) = Inl (OtherError ''FileNotFoundError'')"
    by (simp add: load_leases_def)
  moreover have "load_leases (\<lambda>k v. ''mac'') \<lparr>lt_key = ''key''\<rparr>
      (snd (save_leases (\<lambda>k v. ''mac'') \<lparr>lt_key = ''key''\<rparr> ?m (\<lambda>p. None)))
    = Inr \<lparr>lm_leases = lm_leases ?m, lm_usage = [(''l'', sort [(''k'', ''a'', 1), (''j'', ''b'', 2)])]\<rparr>"
    using lease_store_crash_safe[OF wf n st s torn, THEN conjunct2, THEN conjunct1]
    by (simp only: u list.map prod.case)
  ultimately have "load_leases (\<lambda>k v. ''mac'') \<lparr>lt_key = ''key''\<rparr>
        ((\<lambda>p. None)(Temporary_path := Some (Torn j, False))) \<in>
          {Inl (OtherError ''FileNotFoundError''),
           Inr \<lparr>lm_leases = lm_leases ?m, lm_usage = [(''l'', sort [(''k'', ''a'', 1), (''j'', ''b'', 2)])]\<rparr>}" for j
    using lease_store_crash_safe[OF wf n st s torn, THEN conjunct2, THEN conjunct2, THEN conjunct2, THEN conjunct1, of j]
    by (simp only:)
  with s show ?thesis by blast
qed

text \<open>
  Without \<^verbatim>\<open>fsync\<close> the save is not atomic against a loss of power: after it returned, the file in
  place can be torn, and the earlier snapshot is gone.
\<close>

lemma power_loss_after_save:
  assumes "authenticated_snapshot M (lt_key store) m = Inr signed"
  shows "fst (save_leases M store m f) = Inr () \<and>
    load_leases M store (power_loss n (snd (save_leases M store m f))) = Inl (OtherError ''JSONDecodeError'')"
  by (simp add: save_leases_def py_simps assms run_files_def save_ops_def load_leases_def power_loss_def)

end
