(* ===== verification/Command_Adapters.thy ===== *)
theory Command_Adapters
  imports Governance Hazel
begin

text \<open>
  The adapters of the command centre (\<^verbatim>\<open>app/command\<close>): the profiles it serves
  (\<^verbatim>\<open>application.py\<close>), the kernel's decision on a command (\<^verbatim>\<open>kernel_adapter.py\<close>) and
  the persistence of what was decided (\<^verbatim>\<open>hazel_adapter.py\<close>). The kernel and the continuity
  service are ports; \<open>governance_port\<close> and \<open>service_port\<close> are the modelled ones.
\<close>

section \<open>The profiles served\<close>

datatype snapshot_class = STATIC_PROFILE_DECLARATION

datatype evidence_state = State_DECLARED | State_OBSERVED | State_VERIFIED | State_ASSURED

datatype namespace_semantics = DISTINCT_DECLARATIONS

record source_metadata =
  so_content_source_ref :: string
  so_profile_version :: string
  so_snapshot_class :: snapshot_class
  so_evidence_state :: evidence_state
  so_kernel_interface_ref :: string

record namespace_declarations =
  nd_state :: string
  nd_memory :: string
  nd_semantics :: namespace_semantics

record profile_response =
  pr_slug :: string
  pr_ocs_id :: string
  pr_identity :: string
  pr_specialty :: string
  pr_support_capabilities :: "string list"
  pr_allowed_action_classes :: "string list"
  pr_denied_action_classes :: "string list"
  pr_authority_envelope_ref :: string
  pr_namespaces :: namespace_declarations
  pr_handoff_policy :: string
  pr_recovery_policy :: string
  pr_source :: source_metadata

record profile_list =
  pl_items :: "profile_response list"
  pl_count :: nat
  pl_source :: source_metadata

definition CONTENT_SOURCE_REF :: string where
  "CONTENT_SOURCE_REF =
     ''repo://jeffersonreisdejesus1-lgtm/reis-os-backend/'' @ ''app/profile_bindings/profiles.py''"

definition OCS_SLUGS :: "(string \<times> string) list" where
  "OCS_SLUGS =
    [(NOESIS, ''noesis''), (DEDALA, ''dedala''), (SYNESIS, ''synesis''), (IRIS, ''iris''),
     (''LYRA'', ''lyra''), (''SOFIA'', ''sofia''), (METIS, ''metis''), (AGORA, ''agora''),
     (''AURI'', ''auri''), (''SYNERGEIA'', ''synergeia''), (TEMIS, ''temis'')]"

definition SLUG_TO_OCS_ID :: "(string \<times> string) list" where
  "SLUG_TO_OCS_ID = foldl (\<lambda>d (ocs_id, slug). dset slug ocs_id d) [] OCS_SLUGS"

definition profile_source :: source_metadata where
  "profile_source =
     \<lparr> so_content_source_ref = CONTENT_SOURCE_REF, so_profile_version = PROFILE_VERSION,
       so_snapshot_class = STATIC_PROFILE_DECLARATION, so_evidence_state = State_DECLARED,
       so_kernel_interface_ref = KERNEL_INTERFACE_REF \<rparr>"

definition project_profile :: "ocs_profile \<Rightarrow> profile_response res" where
  "project_profile p =
     (case map_of OCS_SLUGS (op_ocs_id p) of
        None \<Rightarrow> Inl (KeyError (op_ocs_id p))
      | Some slug \<Rightarrow> Inr
         \<lparr> pr_slug = slug, pr_ocs_id = op_ocs_id p, pr_identity = op_identity p,
           pr_specialty = op_specialty p,
           pr_support_capabilities = op_support_capabilities p,
           pr_allowed_action_classes = op_allowed_action_classes p,
           pr_denied_action_classes = op_denied_action_classes p,
           pr_authority_envelope_ref = op_authority_envelope_ref p,
           pr_namespaces = \<lparr> nd_state = op_state_namespace p, nd_memory = op_memory_namespace p,
             nd_semantics = DISTINCT_DECLARATIONS \<rparr>,
           pr_handoff_policy = op_handoff_policy p, pr_recovery_policy = op_recovery_policy p,
           pr_source = profile_source \<rparr>)"

text \<open>\<^verbatim>\<open>slug.isascii() and slug.isalpha()\<close>: an empty slug is not alphabetic.\<close>

definition ascii_alpha :: "string \<Rightarrow> bool" where
  "ascii_alpha s \<longleftrightarrow> s \<noteq> [] \<and>
     list_all (\<lambda>c. let n = (of_char c :: nat) in (65 \<le> n \<and> n \<le> 90) \<or> (97 \<le> n \<and> n \<le> 122)) s"

definition validate_serving_contract :: "unit res" where
  "validate_serving_contract =
     (case validate_profiles PROFILES of
        Inl x \<Rightarrow> Inl x
      | Inr _ \<Rightarrow>
         if set (map fst OCS_SLUGS) \<noteq> set (map fst PROFILES) then
           Inl (ValueError ''command_profile_slug_coverage_required'')
         else if length SLUG_TO_OCS_ID \<noteq> length PROFILES then
           Inl (ValueError ''command_profile_slugs_must_be_unique'')
         else if list_ex (\<lambda>slug. \<not> ascii_alpha slug) (map fst SLUG_TO_OCS_ID) then
           Inl (ValueError ''command_profile_slugs_must_be_ascii_alpha'')
         else Inr ())"

definition profile_item :: "string \<Rightarrow> profile_response res" where
  "profile_item ocs_id =
     (case map_of PROFILES ocs_id of None \<Rightarrow> Inl (KeyError ocs_id) | Some p \<Rightarrow> project_profile p)"

definition list_ocs_profiles :: "profile_list res" where
  "list_ocs_profiles =
     (case validate_serving_contract of
        Inl x \<Rightarrow> Inl x
      | Inr _ \<Rightarrow>
         (case traverse profile_item (map fst OCS_SLUGS) of
            Inl x \<Rightarrow> Inl x
          | Inr items \<Rightarrow>
              Inr \<lparr> pl_items = items, pl_count = length items, pl_source = profile_source \<rparr>))"

definition get_ocs_profile :: "string \<Rightarrow> profile_response option res" where
  "get_ocs_profile ocs_slug =
     (case validate_serving_contract of
        Inl x \<Rightarrow> Inl x
      | Inr _ \<Rightarrow>
         (case map_of SLUG_TO_OCS_ID (casefold ocs_slug) of
            None \<Rightarrow> Inr None
          | Some ocs_id \<Rightarrow>
             (case profile_item ocs_id of Inl x \<Rightarrow> Inl x | Inr r \<Rightarrow> Inr (Some r))))"

section \<open>The kernel's decision on a command\<close>

record command_context =
  cx_lease_id :: "string option"
  cx_csp_ref :: string
  cx_object_ref :: string
  cx_context_ref :: string
  cx_authority_ref :: string
  cx_policy_snapshot :: string
  cx_issued_at :: pytime
  cx_expires_at :: pytime
  cx_evidence_assessment_ref :: string
  cx_recovery_ref :: string
  cx_trace_id :: string

record command_intent =
  ci_intent_id :: string
  ci_actor :: string
  ci_ocs :: string
  ci_organization :: string
  ci_capability :: string
  ci_operation :: string
  ci_scope :: "string list"
  ci_reason :: string
  ci_expected_state_ref :: string
  ci_expected_state_version :: int
  ci_idempotency_key :: string
  ci_correlation_id :: string
  ci_causation_id :: "string option"
  ci_payload :: json_dict
  ci_context :: command_context
  ci_evidence :: "evidence list"
  ci_risk :: risk_level

record kernel_decision =
  kd_intent_id :: string
  kd_decision :: authorization_decision
  kd_reason :: string
  kd_organization :: string
  kd_scope :: "string list"
  kd_expected_state_ref :: string
  kd_expected_state_version :: int
  kd_idempotency_key :: string
  kd_correlation_id :: string
  kd_causation_id :: "string option"
  kd_trace_id :: string
  kd_authority_ref :: string
  kd_policy_snapshot :: string
  kd_envelope_issued :: bool
  kd_executed :: bool
  kd_mutation_count :: int

definition intent_required :: "command_intent \<Rightarrow> (string \<times> string) list" where
  "intent_required i =
     [(''intent_id'', ci_intent_id i), (''actor'', ci_actor i), (''ocs'', ci_ocs i),
      (''organization'', ci_organization i), (''capability'', ci_capability i),
      (''operation'', ci_operation i), (''reason'', ci_reason i),
      (''expected_state_ref'', ci_expected_state_ref i),
      (''idempotency_key'', ci_idempotency_key i), (''correlation_id'', ci_correlation_id i),
      (''csp_ref'', cx_csp_ref (ci_context i)), (''object_ref'', cx_object_ref (ci_context i)),
      (''context_ref'', cx_context_ref (ci_context i)),
      (''authority_ref'', cx_authority_ref (ci_context i)),
      (''policy_snapshot'', cx_policy_snapshot (ci_context i)),
      (''evidence_assessment_ref'', cx_evidence_assessment_ref (ci_context i)),
      (''recovery_ref'', cx_recovery_ref (ci_context i)), (''trace_id'', cx_trace_id (ci_context i))]"

definition validate_intent :: "command_intent \<Rightarrow> unit res" where
  "validate_intent i =
     (let missing = sort (map fst (filter (\<lambda>(name, value). value = []) (intent_required i)))
      in if missing \<noteq> [] then
           Inl (ValueError (''command_intent_incomplete:'' @ join_with '','' missing))
         else if ci_scope i = [] then Inl (ValueError ''command_intent_incomplete:scope'')
         else if ci_expected_state_version i < 0 then
           Inl (ValueError ''command_expected_state_version_invalid'')
         else Inr ())"

definition command_payload :: "command_intent \<Rightarrow> json_dict" where
  "command_payload i =
     foldl (\<lambda>d (k, v). dset k v d) (ci_payload i)
       [(''command_reason'', PyStr (ci_reason i)),
        (''expected_state_ref'', PyStr (ci_expected_state_ref i)),
        (''expected_state_version'', PyInt (ci_expected_state_version i)),
        (''correlation_id'', PyStr (ci_correlation_id i)),
        (''causation_id'', py_opt_str (ci_causation_id i))]"

definition contextualize :: "command_intent \<Rightarrow> action_proposal" where
  "contextualize i =
     \<lparr> ap_action_id = ci_intent_id i, ap_actor = ci_actor i, ap_ocs = ci_ocs i,
       ap_capability = ci_capability i, ap_operation = ci_operation i,
       ap_payload = PyDict (command_payload i), ap_risk = ci_risk i,
       ap_lease_id = cx_lease_id (ci_context i), ap_evidence = ci_evidence i,
       ap_action_type = Some ''command_intent'',
       ap_issued_at = Some (cx_issued_at (ci_context i)),
       ap_csp_ref = Some (cx_csp_ref (ci_context i)),
       ap_object_ref = Some (cx_object_ref (ci_context i)),
       ap_tenant = Some (ci_organization i),
       ap_context_ref = Some (cx_context_ref (ci_context i)), ap_scope = ci_scope i,
       ap_authority_ref = Some (cx_authority_ref (ci_context i)),
       ap_policy_snapshot = Some (cx_policy_snapshot (ci_context i)),
       ap_idempotency_key = Some (ci_idempotency_key i),
       ap_expected_effect = Some ''none:b4-decision-only'',
       ap_side_effect_class = Some Effect_NONE, ap_reversibility_class = Some Rev_REVERSIBLE,
       ap_recovery_ref = Some (cx_recovery_ref (ci_context i)),
       ap_expires_at = Some (cx_expires_at (ci_context i)),
       ap_evidence_assessment_ref = Some (cx_evidence_assessment_ref (ci_context i)),
       ap_trace_id = Some (cx_trace_id (ci_context i)) \<rparr>"

definition decision_readback :: "command_intent \<Rightarrow> governance_result \<Rightarrow> kernel_decision" where
  "decision_readback i r =
     \<lparr> kd_intent_id = ci_intent_id i, kd_decision = gr_decision r, kd_reason = gr_reason r,
       kd_organization = ci_organization i, kd_scope = ci_scope i,
       kd_expected_state_ref = ci_expected_state_ref i,
       kd_expected_state_version = ci_expected_state_version i,
       kd_idempotency_key = ci_idempotency_key i, kd_correlation_id = ci_correlation_id i,
       kd_causation_id = ci_causation_id i, kd_trace_id = cx_trace_id (ci_context i),
       kd_authority_ref = cx_authority_ref (ci_context i),
       kd_policy_snapshot = cx_policy_snapshot (ci_context i),
       kd_envelope_issued = (gr_envelope r \<noteq> None), kd_executed = False, kd_mutation_count = 0 \<rparr>"

text \<open>\<^verbatim>\<open>KernelDecisionPort.authorize\<close> is an operation of the kernel behind the port.\<close>

type_synonym 'k decision_port = "action_proposal \<Rightarrow> ('k, governance_result) py"

definition command_decide :: "'k decision_port \<Rightarrow> command_intent \<Rightarrow> ('k, kernel_decision) py" where
  "command_decide port i =
     py_bind (py_lift (validate_intent i)) (\<lambda>_.
     py_bind (port (contextualize i)) (\<lambda>r.
     py_return (decision_readback i r)))"

definition governance_port :: "mac \<Rightarrow> pytime \<times> pytime \<times> pytime \<Rightarrow> governance decision_port" where
  "governance_port M ts p = (\<lambda>g. (authorize M ts p g, g))"

section \<open>Persistence of what was decided\<close>

text \<open>
  \<^verbatim>\<open>HazelContinuityPort\<close>; the arguments of both operations are in the order of the
  protocol, and what persisting answers is the receipt the adapter reads.
\<close>

record 's continuity_port =
  cp_persist :: "string \<Rightarrow> string \<Rightarrow> string \<Rightarrow> string \<Rightarrow> int \<Rightarrow> string option \<Rightarrow> json_dict \<Rightarrow> string
    \<Rightarrow> ('s, json_dict) py"
  cp_recover :: "string \<Rightarrow> string \<Rightarrow> string \<Rightarrow> string \<Rightarrow> ('s, json_dict) py"

definition service_port ::
    "digest \<Rightarrow> digest \<Rightarrow> 'w hazel_transport \<Rightarrow> 'w continuity continuity_port" where
  "service_port H U t =
     \<lparr> cp_persist = (\<lambda>run_id ocs host authority_ref version predecessor state trace_id.
         py_bind (hazel_persist_state H t run_id ocs host authority_ref version predecessor state trace_id)
           (\<lambda>(receipt, _). py_return receipt)),
       cp_recover = hazel_recover_state H U t \<rparr>"

record persist_request =
  hq_run_id :: string
  hq_ocs :: string
  hq_host :: string
  hq_state_version :: int
  hq_predecessor_hash :: "string option"
  hq_state :: json_dict
  hq_idempotency_key :: string
  hq_correlation_id :: string
  hq_causation_id :: "string option"

record persist_readback =
  pb_run_id :: string
  pb_decision :: authorization_decision
  pb_persisted :: bool
  pb_recovered :: bool
  pb_mutation_count :: int
  pb_state_version :: "int option"
  pb_event_hash :: "string option"
  pb_payload_hash :: "string option"
  pb_idempotent_replay :: bool

text \<open>The adapter's table of readbacks by idempotency key, and what is behind the port.\<close>

type_synonym 's command_bridge = "(string \<times> persist_readback) list \<times> 's"

definition on_hazel :: "('s, 'a) py \<Rightarrow> ('s command_bridge, 'a) py" where
  "on_hazel m = py_on snd (\<lambda>h s. (fst s, h)) m"

definition authorized_decision :: "kernel_decision \<Rightarrow> bool" where
  "authorized_decision d \<longleftrightarrow> kd_decision d = Decision_ALLOW \<and> kd_envelope_issued d"

definition unauthorized_readback :: "kernel_decision \<Rightarrow> persist_request \<Rightarrow> persist_readback" where
  "unauthorized_readback d q =
     \<lparr> pb_run_id = hq_run_id q, pb_decision = kd_decision d, pb_persisted = False,
       pb_recovered = False, pb_mutation_count = 0, pb_state_version = None, pb_event_hash = None,
       pb_payload_hash = None, pb_idempotent_replay = False \<rparr>"

definition validate_binding :: "kernel_decision \<Rightarrow> persist_request \<Rightarrow> unit res" where
  "validate_binding d q =
     (if hq_idempotency_key q \<noteq> kd_idempotency_key d then
        Inl (HazelIntegrationError ''command_hazel_idempotency_binding_mismatch'')
      else if hq_correlation_id q \<noteq> kd_correlation_id d then
        Inl (HazelIntegrationError ''command_hazel_correlation_binding_mismatch'')
      else if hq_causation_id q \<noteq> kd_causation_id d then
        Inl (HazelIntegrationError ''command_hazel_causation_binding_mismatch'')
      else if hq_state_version q \<le> 0 then
        Inl (HazelIntegrationError ''command_hazel_state_version_invalid'')
      else Inr ())"

text \<open>
  \<^verbatim>\<open>isinstance(v, int)\<close> holds for booleans; numbers of all kinds compare by value.
\<close>

fun int_value :: "pyval \<Rightarrow> int option" where
  "int_value (PyInt n) = Some n"
| "int_value (PyBool b) = Some (of_bool b)"
| "int_value _ = None"

fun number_value :: "pyval \<Rightarrow> rat option" where
  "number_value (PyFloat x) = Some x"
| "number_value v = map_option of_int (int_value v)"

definition same_value :: "pyval \<Rightarrow> pyval \<Rightarrow> bool" where
  "same_value a b \<longleftrightarrow>
     (case number_value a of None \<Rightarrow> py_eq a b | Some x \<Rightarrow> number_value b = Some x)"

definition validate_predecessor ::
    "'s continuity_port \<Rightarrow> kernel_decision \<Rightarrow> persist_request \<Rightarrow> ('s, unit) py" where
  "validate_predecessor port d q =
     (if hq_state_version q = 1 then
        py_unless (hq_predecessor_hash q = None)
          (HazelIntegrationError ''command_hazel_initial_predecessor_invalid'')
      else
        py_bind (cp_recover port (hq_run_id q) (hq_ocs q) (hq_host q) (kd_authority_ref d)) (\<lambda>current.
        if dict_get current ''event_hash'' \<noteq> py_opt_str (hq_predecessor_hash q) then
          py_raise (HazelIntegrationError ''command_hazel_predecessor_drift'')
        else
          (case int_value (dict_get current ''state_version'') of
             None \<Rightarrow> py_raise (HazelIntegrationError ''command_hazel_version_drift'')
           | Some n \<Rightarrow>
               py_unless (n + 1 = hq_state_version q)
                 (HazelIntegrationError ''command_hazel_version_drift''))))"

definition validate_readback :: "persist_request \<Rightarrow> json_dict \<Rightarrow> json_dict \<Rightarrow> unit res" where
  "validate_readback q receipt recovered =
     (if \<not> truthy (dict_get receipt ''accepted'') then
        Inl (HazelIntegrationError ''command_hazel_persist_not_accepted'')
      else
        (case find (\<lambda>field. \<not> same_value (dict_get recovered field) (dict_get receipt field))
                [''event_hash'', ''payload_hash'', ''state_version''] of
           Some field \<Rightarrow> Inl (HazelIntegrationError (''command_hazel_readback_mismatch:'' @ field))
         | None \<Rightarrow>
             if \<not> same_value (dict_get recovered ''state_version'') (PyInt (hq_state_version q)) then
               Inl (HazelIntegrationError ''command_hazel_readback_version_mismatch'')
             else
               (case dict_get recovered ''payload'' of
                  PyDict payload \<Rightarrow>
                    (case dict_get payload ''command_causality'' of
                       PyDict causality \<Rightarrow>
                         if dict_get causality ''idempotency_key'' \<noteq> PyStr (hq_idempotency_key q) then
                           Inl (HazelIntegrationError ''command_hazel_idempotency_readback_mismatch'')
                         else Inr ()
                     | _ \<Rightarrow> Inl (HazelIntegrationError ''command_hazel_causality_missing''))
                | _ \<Rightarrow> Inl (HazelIntegrationError ''command_hazel_readback_payload_invalid''))))"

definition string_or_none :: "pyval \<Rightarrow> string option" where
  "string_or_none v = (case v of PyStr s \<Rightarrow> Some s | _ \<Rightarrow> None)"

definition command_causality :: "kernel_decision \<Rightarrow> persist_request \<Rightarrow> pyval" where
  "command_causality d q =
     PyDict [(''idempotency_key'', PyStr (hq_idempotency_key q)),
       (''correlation_id'', PyStr (hq_correlation_id q)),
       (''causation_id'', py_opt_str (hq_causation_id q)),
       (''expected_state_ref'', PyStr (kd_expected_state_ref d)),
       (''expected_state_version'', PyInt (kd_expected_state_version d))]"

definition persisted_readback :: "kernel_decision \<Rightarrow> persist_request \<Rightarrow> json_dict \<Rightarrow> persist_readback" where
  "persisted_readback d q receipt =
     \<lparr> pb_run_id = hq_run_id q, pb_decision = kd_decision d, pb_persisted = True,
       pb_recovered = True, pb_mutation_count = 1, pb_state_version = Some (hq_state_version q),
       pb_event_hash = string_or_none (dict_get receipt ''event_hash''),
       pb_payload_hash = string_or_none (dict_get receipt ''payload_hash''),
       pb_idempotent_replay = False \<rparr>"

text \<open>What crosses the boundary to Hazel: the predecessor, the write, the readback.\<close>

definition persist_exchange ::
    "'s continuity_port \<Rightarrow> kernel_decision \<Rightarrow> persist_request \<Rightarrow> ('s, json_dict) py" where
  "persist_exchange port d q =
     py_bind (validate_predecessor port d q) (\<lambda>_.
     py_bind (cp_persist port (hq_run_id q) (hq_ocs q) (hq_host q) (kd_authority_ref d)
       (hq_state_version q) (hq_predecessor_hash q)
       (dset ''command_causality'' (command_causality d q) (hq_state q)) (kd_trace_id d)) (\<lambda>receipt.
     py_bind (cp_recover port (hq_run_id q) (hq_ocs q) (hq_host q) (kd_authority_ref d)) (\<lambda>recovered.
     py_bind (py_lift (validate_readback q receipt recovered)) (\<lambda>_.
     py_return receipt))))"

definition command_persist ::
    "'s continuity_port \<Rightarrow> kernel_decision \<Rightarrow> persist_request \<Rightarrow> ('s command_bridge, persist_readback) py"
  where
  "command_persist port d q =
     (if \<not> authorized_decision d then py_return (unauthorized_readback d q)
      else
        py_bind (py_lift (validate_binding d q)) (\<lambda>_.
        py_bind (py_gets (\<lambda>s. map_of (fst s) (hq_idempotency_key q))) (\<lambda>previous.
        case previous of
          Some r \<Rightarrow> py_return (r\<lparr>pb_mutation_count := 0, pb_idempotent_replay := True\<rparr>)
        | None \<Rightarrow>
            py_bind (on_hazel (persist_exchange port d q)) (\<lambda>receipt.
            let readback = persisted_readback d q receipt
            in py_bind (py_modify (\<lambda>s. (dset (hq_idempotency_key q) readback (fst s), snd s))) (\<lambda>_.
               py_return readback)))))"

definition command_recover ::
    "'s continuity_port \<Rightarrow> kernel_decision \<Rightarrow> string \<Rightarrow> string \<Rightarrow> string \<Rightarrow> ('s command_bridge, json_dict) py"
  where
  "command_recover port d run_id ocs host =
     (if \<not> authorized_decision d then
        py_raise (HazelIntegrationError ''kernel_authorization_required'')
      else on_hazel (cp_recover port run_id ocs host (kd_authority_ref d)))"

end
