(* ===== verification/Command_Governed.thy ===== *)
theory Command_Governed
  imports Command_Adapters
begin

text \<open>
  What is shown of the command adapters: which profiles are served, when a command is allowed,
  what has to hold before a write reaches the continuity service, and what an idempotency key
  does and does not protect.
\<close>

section \<open>Profiles\<close>

lemma serving_contract_holds: "validate_serving_contract = Inr ()"
  by code_simp

lemma slugs_eleven: "length OCS_SLUGS = 11" "distinct (map snd OCS_SLUGS)"
  by (code_simp, code_simp)

lemma traverse_map_Inr: "map f ys = map Inr xs \<Longrightarrow> traverse f ys = Inr xs"
  by (induction ys arbitrary: xs) auto

lemma slug_items:
  "list_all (\<lambda>(o', s). case profile_item o' of Inl _ \<Rightarrow> False | Inr r \<Rightarrow> pr_slug r = s) d \<Longrightarrow>
     \<exists>xs. map profile_item (map fst d) = map Inr xs \<and> map pr_slug xs = map snd d"
proof (induction d)
  case (Cons x d)
  then obtain r where "profile_item (fst x) = Inr r" "pr_slug r = snd x"
    by (cases "profile_item (fst x)") (auto simp: case_prod_beta)
  moreover obtain xs where "map profile_item (map fst d) = map Inr xs \<and> map pr_slug xs = map snd d"
    using Cons by auto
  ultimately show ?case by (intro exI [of _ "r # xs"]) simp
qed simp

lemma find_item:
  "map profile_item (map fst d) = map Inr xs \<Longrightarrow> map pr_slug xs = map snd d \<Longrightarrow>
     (case map_of (map (\<lambda>(o', s). (s, o')) d) k of None \<Rightarrow> Inr None
      | Some o' \<Rightarrow> (case profile_item o' of Inl x \<Rightarrow> Inl x | Inr r \<Rightarrow> Inr (Some r)))
     = Inr (find (\<lambda>i. pr_slug i = k) xs)"
  by (induction d arbitrary: xs) (auto simp: Cons_eq_map_conv)

text \<open>
  The eleven profiles are listed under distinct slugs, and a request for a slug, in any case,
  answers the listed item, or nothing when there is none; it never raises.
\<close>

lemma profiles_served:
  "\<exists>l. list_ocs_profiles = Inr l \<and> pl_count l = 11 \<and> length (pl_items l) = 11 \<and>
     distinct (map pr_slug (pl_items l)) \<and>
     (\<forall>s. get_ocs_profile s = Inr (find (\<lambda>i. pr_slug i = casefold s) (pl_items l)))"
proof -
  have keys: "SLUG_TO_OCS_ID = map (\<lambda>(o', s). (s, o')) OCS_SLUGS" by code_simp
  have "list_all (\<lambda>(o', s). case profile_item o' of Inl _ \<Rightarrow> False | Inr r \<Rightarrow> pr_slug r = s) OCS_SLUGS"
    by code_simp
  then obtain xs where xs: "map profile_item (map fst OCS_SLUGS) = map Inr xs" "map pr_slug xs = map snd OCS_SLUGS"
    using slug_items [of OCS_SLUGS] by blast
  have "get_ocs_profile s = Inr (find (\<lambda>i. pr_slug i = casefold s) xs)" for s
    using find_item [OF xs] by (simp add: get_ocs_profile_def serving_contract_holds keys)
  moreover have "length xs = 11" using xs(2) by (metis length_map slugs_eleven(1))
  moreover have "distinct (map pr_slug xs)" using xs(2) slugs_eleven(2) by simp
  moreover have "list_ocs_profiles = Inr \<lparr> pl_items = xs, pl_count = length xs, pl_source = profile_source \<rparr>"
    using xs(1) by (simp add: list_ocs_profiles_def serving_contract_holds traverse_map_Inr)
  ultimately show ?thesis
    by (intro exI [of _ "\<lparr> pl_items = xs, pl_count = length xs, pl_source = profile_source \<rparr>"]) simp
qed

section \<open>Decisions\<close>

lemma validate_intent_Inr:
  "validate_intent i = Inr () \<longleftrightarrow>
     (\<forall>v \<in> set (map snd (intent_required i)). v \<noteq> []) \<and> ci_scope i \<noteq> [] \<and> 0 \<le> ci_expected_state_version i"
proof -
  have "sort xs = [] \<longleftrightarrow> xs = []" for xs :: "string list"
    by (metis length_0_conv length_sort)
  then have "sort (map fst (filter (\<lambda>(name, value). value = []) (intent_required i))) = [] \<longleftrightarrow>
      (\<forall>v \<in> set (map snd (intent_required i)). v \<noteq> [])"
    by (auto simp: filter_empty_conv)
  then show ?thesis by (auto simp: validate_intent_def Let_def)
qed

lemma contextualized_complete:
  assumes "validate_intent i = Inr ()"
  shows "proposal_complete t (contextualize i) \<longleftrightarrow>
    cx_issued_at (ci_context i) \<le> t \<and> cx_issued_at (ci_context i) \<le> cx_expires_at (ci_context i)"
  using assms unfolding validate_intent_Inr
  by (simp add: proposal_complete_def contextualize_def missing_str_def intent_required_def)

lemma command_allow_iff:
  "command_decide (governance_port M (t0, t1, t2)) i g = (Inr d, g') \<and> kd_decision d = Decision_ALLOW \<longleftrightarrow>
     g' = g \<and> validate_intent i = Inr () \<and> actor_admitted g (contextualize i) \<and>
     evidence_holds M (ge_assurance g) (contextualize i) \<and>
     cx_issued_at (ci_context i) \<le> t0 \<and> cx_issued_at (ci_context i) \<le> cx_expires_at (ci_context i) \<and>
     (\<exists>j l. cx_lease_id (ci_context i) = Some j \<and> map_of (lm_leases (ge_leases g)) j = Some l \<and>
        lease_live t1 (ci_ocs i) (ci_capability i) l \<and> proposal_bound t2 (contextualize i) l \<and>
        d = decision_readback i (decide Decision_ALLOW ''authorized''
              (Some (envelope_of (contextualize i) (al_max_uses l)))
              (Some (assess_evidence M (ge_assurance g) (contextualize i)))))"
  (is "?L \<longleftrightarrow> ?R")
proof -
  have allow: "(\<exists>r. (authorize M (t0, t1, t2) p g = Inr r \<and> gr_decision r = Decision_ALLOW) \<and> d = decision_readback i r) \<longleftrightarrow>
      actor_admitted g p \<and> evidence_holds M (ge_assurance g) p \<and> proposal_complete t0 p \<and>
      (\<exists>j l. ap_lease_id p = Some j \<and> map_of (lm_leases (ge_leases g)) j = Some l \<and>
        lease_live t1 (ap_ocs p) (ap_capability p) l \<and> proposal_bound t2 p l \<and>
        d = decision_readback i (decide Decision_ALLOW ''authorized'' (Some (envelope_of p (al_max_uses l)))
              (Some (assess_evidence M (ge_assurance g) p))))" for p
    unfolding authorize_allow by blast
  have fields: "ap_lease_id (contextualize i) = cx_lease_id (ci_context i)" "ap_ocs (contextualize i) = ci_ocs i"
    "ap_capability (contextualize i) = ci_capability i"
    by (simp_all add: contextualize_def)
  have "?L \<longleftrightarrow> g' = g \<and> validate_intent i = Inr () \<and>
      (\<exists>r. (authorize M (t0, t1, t2) (contextualize i) g = Inr r \<and> gr_decision r = Decision_ALLOW) \<and>
        d = decision_readback i r)"
    by (auto simp: command_decide_def py_bind_Inr py_lift_run py_return_run governance_port_def decision_readback_def)
  also have "\<dots> \<longleftrightarrow> ?R"
    unfolding allow fields by (auto simp: contextualized_complete)
  finally show ?thesis .
qed

section \<open>What reaches the continuity service\<close>

text \<open>An operation that changes the world only when \<open>Q\<close>.\<close>

interpretation behind: step_order "\<lambda>s t. snd t \<noteq> snd s \<longrightarrow> Q" for Q
  by unfold_locales auto

lemma recover_behind:
  "steps (\<lambda>s t. snd t \<noteq> snd s \<longrightarrow> (\<exists>g1 b. admitted g1 run ocs host au b)) (hazel_recover_state H U t run ocs host au)"
proof (rule stepsI)
  fix s
  show "snd (snd (hazel_recover_state H U t run ocs host au s)) \<noteq> snd s \<longrightarrow> (\<exists>g1 b. admitted g1 run ocs host au b)"
    using recover_online [of H U t run ocs host au "fst s" "snd s"] by (metis prod.collapse)
qed

lemma persist_behind:
  "steps (\<lambda>s t. snd t \<noteq> snd s \<longrightarrow> (\<exists>g1 b. admitted g1 run ocs host au b))
     (hazel_persist_state H t run ocs host au v pred st tr)"
proof (rule stepsI)
  fix s
  show "snd (snd (hazel_persist_state H t run ocs host au v pred st tr s)) \<noteq> snd s \<longrightarrow> (\<exists>g1 b. admitted g1 run ocs host au b)"
    using persist_online [of H t run ocs host au v pred st tr "fst s" "snd s"] by (metis prod.collapse)
qed

lemma exchange_behind:
  "steps (\<lambda>s t. snd t \<noteq> snd s \<longrightarrow>
       (\<exists>g1 b. admitted g1 (hq_run_id q) (hq_ocs q) (hq_host q) (kd_authority_ref d) b))
     (persist_exchange (service_port H U t) d q)"
  unfolding persist_exchange_def validate_predecessor_def service_port_def
  by (auto intro!: behind.steps_bind behind.steps_basic persist_behind recover_behind
      split: option.split prod.split)

lemma command_persist_moves:
  assumes "command_persist port d q (st, s) = (r, (st', s'))" and "s' \<noteq> s"
  shows "authorized_decision d \<and> validate_binding d q = Inr () \<and> map_of st (hq_idempotency_key q) = None \<and>
    snd (persist_exchange port d q s) = s'"
proof -
  have a: "authorized_decision d" "validate_binding d q = Inr ()"
    using assms by (auto simp: command_persist_def py_simps split: if_split_asm sum.split_asm)
  moreover have n: "map_of st (hq_idempotency_key q) = None"
    using assms a by (cases "map_of st (hq_idempotency_key q)") (auto simp: command_persist_def py_simps)
  moreover have "snd (persist_exchange port d q s) = s'"
    using assms(1) a n
    by (auto simp: command_persist_def py_simps on_hazel_def Let_def split: prod.split_asm sum.split_asm)
  ultimately show ?thesis by blast
qed


section \<open>What a readback says\<close>

text \<open>
  A readback that says persisted is a replay, or the service accepted the write of the request's
  state with its causality added and then recovered a state of that version, with the receipt's
  hashes, whose causality carries the key.
\<close>

lemma validate_readback_Inr:
  assumes "validate_readback q receipt recovered = Inr ()"
  shows "truthy (dict_get receipt ''accepted'') \<and>
    (\<forall>field \<in> {''event_hash'', ''payload_hash'', ''state_version''}.
       same_value (dict_get recovered field) (dict_get receipt field)) \<and>
    same_value (dict_get recovered ''state_version'') (PyInt (hq_state_version q)) \<and>
    (\<exists>payload causality. dict_get recovered ''payload'' = PyDict payload \<and>
       dict_get payload ''command_causality'' = PyDict causality \<and>
       dict_get causality ''idempotency_key'' = PyStr (hq_idempotency_key q))"
  using assms by (auto simp: validate_readback_def split: if_split_asm pyval.split_asm)

lemma command_persist_sound:
  assumes "command_persist port d q (st, s) = (Inr r, (st', s'))" and "pb_persisted r"
    and "map_of st (hq_idempotency_key q) = None"
  shows "authorized_decision d \<and> st' = dset (hq_idempotency_key q) r st \<and>
    (\<exists>s1 s2 receipt recovered.
       r = persisted_readback d q receipt \<and>
       cp_persist port (hq_run_id q) (hq_ocs q) (hq_host q) (kd_authority_ref d) (hq_state_version q)
         (hq_predecessor_hash q) (dset ''command_causality'' (command_causality d q) (hq_state q))
         (kd_trace_id d) s1 = (Inr receipt, s2) \<and>
       cp_recover port (hq_run_id q) (hq_ocs q) (hq_host q) (kd_authority_ref d) s2 = (Inr recovered, s') \<and>
       validate_readback q receipt recovered = Inr ())"
proof -
  have a: "authorized_decision d" "validate_binding d q = Inr ()"
    using assms by (auto simp: command_persist_def py_simps unauthorized_readback_def split: if_split_asm sum.split_asm)
  then obtain receipt where x: "persist_exchange port d q s = (Inr receipt, s')"
    "r = persisted_readback d q receipt" "st' = dset (hq_idempotency_key q) r st"
    using assms(1,3)
    by (cases "persist_exchange port d q s")
      (auto simp: command_persist_def py_simps on_hazel_def Let_def split: sum.split_asm)
  obtain s1 s2 recovered where "cp_persist port (hq_run_id q) (hq_ocs q) (hq_host q) (kd_authority_ref d) (hq_state_version q)
         (hq_predecessor_hash q) (dset ''command_causality'' (command_causality d q) (hq_state q))
         (kd_trace_id d) s1 = (Inr receipt, s2)"
    "cp_recover port (hq_run_id q) (hq_ocs q) (hq_host q) (kd_authority_ref d) s2 = (Inr recovered, s')"
    "validate_readback q receipt recovered = Inr ()"
    using x(1) unfolding persist_exchange_def py_bind_Inr py_lift_run py_return_run by auto
  then show ?thesis using a(1) x(2,3) by blast
qed

section \<open>What a key protects\<close>

primrec command_run ::
    "'s continuity_port \<Rightarrow> (kernel_decision \<times> persist_request) list \<Rightarrow> 's command_bridge
       \<Rightarrow> persist_readback res list \<times> 's command_bridge" where
  "command_run port [] s = ([], s)"
| "command_run port (c # cs) s =
     (case command_persist port (fst c) (snd c) s of
        (r, u) \<Rightarrow> (case command_run port cs u of (rs, v) \<Rightarrow> (r # rs, v)))"

lemma command_run_Cons:
  assumes "command_persist port (fst c) (snd c) s = (r, u)"
  shows "fst (command_run port (c # cs) s) = r # fst (command_run port cs u)"
    and "snd (command_run port (c # cs) s) = snd (command_run port cs u)"
  using assms by (simp_all add: case_prod_beta)

declare command_run.simps(2) [simp del]

text \<open>The mutations reported for a key.\<close>

definition reported :: "string \<Rightarrow> (kernel_decision \<times> persist_request) \<times> persist_readback res \<Rightarrow> int" where
  "reported k = (\<lambda>((d, q), r). case r of Inl _ \<Rightarrow> 0
     | Inr b \<Rightarrow> if hq_idempotency_key q = k then pb_mutation_count b else 0)"

definition mutations :: "string \<Rightarrow> (kernel_decision \<times> persist_request) list \<Rightarrow> persist_readback res list \<Rightarrow> int" where
  "mutations k cs rs = sum_list (map (reported k) (zip cs rs))"

text \<open>One call, by what the table holds for its key.\<close>

lemma command_persist_table:
  assumes "command_persist port d q s = (r, s')"
  shows "(\<forall>k v. map_of (fst s) k = Some v \<longrightarrow> map_of (fst s') k = Some v) \<and>
    (map_of (fst s) (hq_idempotency_key q) \<noteq> None \<longrightarrow> s' = s \<and> (\<forall>b. r = Inr b \<longrightarrow> pb_mutation_count b = 0)) \<and>
    (\<forall>b. r = Inr b \<longrightarrow> pb_mutation_count b \<in> {0, 1} \<and>
       (pb_mutation_count b = 1 \<longrightarrow> map_of (fst s') (hq_idempotency_key q) = Some b)) \<and>
    (\<forall>e. r = Inl e \<longrightarrow> fst s' = fst s)"
proof (cases "map_of (fst s) (hq_idempotency_key q)")
  case None
  then show ?thesis
    using assms
    by (auto simp: command_persist_def py_simps on_hazel_def Let_def unauthorized_readback_def
        persisted_readback_def split: if_split_asm sum.split_asm prod.split_asm)
next
  case (Some v)
  then show ?thesis
    using assms
    by (auto simp: command_persist_def py_simps unauthorized_readback_def split: if_split_asm sum.split_asm)
qed

lemma mutations_bound:
  "mutations k cs (fst (command_run port cs s)) \<le> (if map_of (fst s) k = None then 1 else 0)"
proof (induction cs arbitrary: s)
  case Nil
  then show ?case by (simp add: mutations_def)
next
  case (Cons c cs)
  obtain d q where c: "c = (d, q)" by (cases c)
  obtain r u where p: "command_persist port d q s = (r, u)" by (metis surj_pair)
  note t = command_persist_table [OF p]
  have m: "mutations k (c # cs) (fst (command_run port (c # cs) s))
      = reported k (c, r) + mutations k cs (fst (command_run port cs u))"
    using command_run_Cons(1) [of port c s r u cs] p by (simp add: mutations_def c)
  have "reported k (c, r) \<le> (if map_of (fst s) k = None \<and> map_of (fst u) k \<noteq> None then 1 else 0)"
    using t by (auto simp: reported_def c split: sum.split)
  moreover have "map_of (fst s) k \<noteq> None \<longrightarrow> map_of (fst u) k \<noteq> None" using t by auto
  ultimately show ?case using Cons.IH [of u] m by (auto split: if_split_asm)
qed

lemma command_run_keeps:
  "map_of (fst s) k \<noteq> None \<Longrightarrow> map_of (fst (snd (command_run port cs s))) k \<noteq> None"
proof (induction cs arbitrary: s)
  case (Cons c cs)
  obtain r u where p: "command_persist port (fst c) (snd c) s = (r, u)" by (metis surj_pair)
  have "map_of (fst u) k \<noteq> None" using command_persist_table [OF p] Cons.prems by auto
  with Cons.IH [of u] show ?case by (simp add: command_run_Cons [OF p])
qed simp

lemma mutations_stored:
  "0 < mutations k cs (fst (command_run port cs s)) \<Longrightarrow> map_of (fst (snd (command_run port cs s))) k \<noteq> None"
proof (induction cs arbitrary: s)
  case Nil
  then show ?case by (simp add: mutations_def)
next
  case (Cons c cs)
  obtain d q where c: "c = (d, q)" by (cases c)
  obtain r u where p: "command_persist port d q s = (r, u)" by (metis surj_pair)
  have m: "mutations k (c # cs) (fst (command_run port (c # cs) s))
      = reported k (c, r) + mutations k cs (fst (command_run port cs u))"
    "snd (command_run port (c # cs) s) = snd (command_run port cs u)"
    using command_run_Cons [of port c s r u cs] p by (simp_all add: mutations_def c)
  show ?case
  proof (cases "0 < mutations k cs (fst (command_run port cs u))")
    case True
    then show ?thesis using Cons.IH m(2) by simp
  next
    case False
    then have "0 < reported k (c, r)" using Cons.prems m(1) by linarith
    then obtain b where "r = Inr b" "hq_idempotency_key q = k" "0 < pb_mutation_count b"
      by (auto simp: reported_def c split: sum.split_asm if_split_asm)
    moreover from this have "pb_mutation_count b = 1"
      using command_persist_table [OF p] by fastforce
    ultimately have "map_of (fst u) k \<noteq> None"
      using command_persist_table [OF p] by blast
    then show ?thesis using command_run_keeps m(2) by metis
  qed
qed

text \<open>
  An idempotency key along any sequence of calls, whatever the service answers. At most one
  mutation is reported for it, and once one was, every later call under the key leaves the
  service and the table as they are.
\<close>

lemma command_mutates_once:
  "mutations k cs (fst (command_run port cs s)) \<le> 1 \<and>
   (0 < mutations k cs (fst (command_run port cs s)) \<and> hq_idempotency_key q = k \<longrightarrow>
      snd (command_persist port d q (snd (command_run port cs s))) = snd (command_run port cs s))"
proof (intro conjI impI)
  show "mutations k cs (fst (command_run port cs s)) \<le> 1"
    using mutations_bound [of k cs port s] by (auto split: if_split_asm)
next
  assume "0 < mutations k cs (fst (command_run port cs s)) \<and> hq_idempotency_key q = k"
  then have "map_of (fst (snd (command_run port cs s))) (hq_idempotency_key q) \<noteq> None"
    using mutations_stored by blast
  then show "snd (command_persist port d q (snd (command_run port cs s))) = snd (command_run port cs s)"
    using command_persist_table [of port d q "snd (command_run port cs s)", OF prod.collapse [symmetric]] by simp
qed

section \<open>What a key does not protect\<close>

text \<open>
  A replay is answered without a look at the request: a call under a stored key is told that the
  first state was persisted, whatever run and state it asks for.
\<close>

lemma replay_ignores_request:
  assumes "authorized_decision d" and "validate_binding d q = Inr ()"
    and "map_of (fst s) (hq_idempotency_key q) = Some v"
  shows "command_persist port d (q\<lparr>hq_run_id := run, hq_state := any\<rparr>) s
    = (Inr (v\<lparr>pb_mutation_count := 0, pb_idempotent_replay := True\<rparr>), s)"
proof -
  have "validate_binding d (q\<lparr>hq_run_id := run, hq_state := any\<rparr>) = Inr ()"
    using assms(2) by (simp add: validate_binding_def split: if_splits)
  then show ?thesis using assms by (simp add: command_persist_def py_simps)
qed

text \<open>
  A write whose readback raises is not remembered: against a service that loses one readback,
  the retry under the same key writes a second time. The service's state counts its writes.
\<close>

definition flaky_port :: "(nat \<times> json_dict) continuity_port" where
  "flaky_port = \<lparr>
     cp_persist = (\<lambda>run ocs host au v pred st tr (n, w).
       let row = [(''accepted'', PyBool True), (''event_hash'', PyStr ''e''),
         (''payload_hash'', PyStr ''p''), (''state_version'', PyInt v), (''payload'', PyDict st)]
       in (Inr row, (Suc n, row))),
     cp_recover = (\<lambda>run ocs host au (n, w).
       (if n = 1 then Inl (HazelIntegrationError ''hazel_unavailable'') else Inr w, (n, w))) \<rparr>"

definition sample_decision :: kernel_decision where
  "sample_decision = \<lparr> kd_intent_id = ''i'', kd_decision = Decision_ALLOW, kd_reason = ''authorized'',
     kd_organization = ''t'', kd_scope = [''s''], kd_expected_state_ref = ''obj'',
     kd_expected_state_version = 0, kd_idempotency_key = ''k'', kd_correlation_id = ''co'',
     kd_causation_id = None, kd_trace_id = ''tr'', kd_authority_ref = ''au'',
     kd_policy_snapshot = ''p'', kd_envelope_issued = True, kd_executed = False,
     kd_mutation_count = 0 \<rparr>"

definition sample_persist_request :: persist_request where
  "sample_persist_request = \<lparr> hq_run_id = ''r'', hq_ocs = ''A'', hq_host = ''h'', hq_state_version = 1,
     hq_predecessor_hash = None, hq_state = [(''x'', PyInt 1)], hq_idempotency_key = ''k'',
     hq_correlation_id = ''co'', hq_causation_id = None \<rparr>"

lemmas persist_eval = command_persist_def persist_exchange_def validate_predecessor_def
  validate_binding_def authorized_decision_def on_hazel_def py_simps flaky_port_def sample_decision_def
  sample_persist_request_def command_causality_def validate_readback_def persisted_readback_def
  same_value_def dict_get_def string_or_none_def py_opt_str_def py_eq_def Let_def

lemma lost_readback_writes_twice:
  "fst (command_persist flaky_port sample_decision sample_persist_request ([], (0, []))) =
     Inl (HazelIntegrationError ''hazel_unavailable'') \<and>
   fst (snd (snd (command_run flaky_port
     [(sample_decision, sample_persist_request), (sample_decision, sample_persist_request)] ([], (0, []))))) = 2"
  by (simp add: persist_eval command_run.simps)

lemma command_mutates_once_sample:
  "snd (command_persist flaky_port sample_decision sample_persist_request
      (snd (command_run flaky_port [(sample_decision, sample_persist_request)] ([], (1, [])))))
   = snd (command_run flaky_port [(sample_decision, sample_persist_request)] ([], (1, [])))"
proof -
  have "0 < mutations ''k'' [(sample_decision, sample_persist_request)]
      (fst (command_run flaky_port [(sample_decision, sample_persist_request)] ([], (1, []))))"
    by (simp add: persist_eval command_run.simps mutations_def reported_def Let_def)
  moreover have "hq_idempotency_key sample_persist_request = ''k''"
    by (simp add: sample_persist_request_def)
  ultimately show ?thesis
    using command_mutates_once [of "''k''" "[(sample_decision, sample_persist_request)]" flaky_port "([], (1, []))"
        sample_persist_request sample_decision]
    by blast
qed

section \<open>A command, decided and written\<close>

definition intent_lease :: authority_lease where
  "intent_lease = sample_lease\<lparr>al_action_binding := ''command_intent'',
     al_authority_ref := ab_authority_envelope_ref sample_binding_A\<rparr>"

definition intent_governance :: governance where
  "intent_governance = sample_governance\<lparr>ge_leases :=
     \<lparr>lm_leases = [(''l'', intent_lease)], lm_usage = [(''l'', [])]\<rparr>\<rparr>"

definition sample_intent :: command_intent where
  "sample_intent = \<lparr> ci_intent_id = ''i'', ci_actor = ''A'', ci_ocs = ''A'', ci_organization = ''t'',
     ci_capability = ''c'', ci_operation = ''op'', ci_scope = [''s''], ci_reason = ''why'',
     ci_expected_state_ref = ''st'', ci_expected_state_version = 0, ci_idempotency_key = ''k'',
     ci_correlation_id = ''co'', ci_causation_id = None, ci_payload = [],
     ci_context = \<lparr> cx_lease_id = Some ''l'', cx_csp_ref = ''csp'', cx_object_ref = ''obj'',
       cx_context_ref = ''x'', cx_authority_ref = ab_authority_envelope_ref sample_binding_A,
       cx_policy_snapshot = ''p'', cx_issued_at = 1, cx_expires_at = 50,
       cx_evidence_assessment_ref = ''ev'', cx_recovery_ref = ''rec'', cx_trace_id = ''tr'' \<rparr>,
     ci_evidence = [\<lparr> ev_ref = ''e'', ev_passed = True, ev_independent_assurer = Some ''Z'' \<rparr>],
     ci_risk = Risk_LOW \<rparr>"

lemma sample_authority: "ab_authority_envelope_ref sample_binding_A \<noteq> []"
  by code_simp

lemma intent_allowed:
  "\<exists>d. command_decide (governance_port sample_mac (3, 3, 3)) sample_intent intent_governance
       = (Inr d, intent_governance) \<and> kd_decision d = Decision_ALLOW \<and>
     (\<exists>e a. d = decision_readback sample_intent (decide Decision_ALLOW ''authorized'' (Some e) a))"
proof -
  let ?p = "contextualize sample_intent"
  have "validate_intent sample_intent = Inr ()"
    unfolding validate_intent_Inr by (simp add: intent_required_def sample_intent_def sample_authority)
  moreover have "actor_admitted intent_governance ?p"
    by (simp add: actor_admitted_def intent_governance_def sample_governance_def contextualize_def
        sample_intent_def identity_loader_def register_capabilities_def has_capability_def)
  moreover have "evidence_holds sample_mac (ge_assurance intent_governance) ?p"
    by (simp add: evidence_holds_def contextualize_def sample_intent_def)
  moreover have "lease_live 3 (ci_ocs sample_intent) (ci_capability sample_intent) intent_lease"
    by (simp add: lease_live_def sample_intent_def intent_lease_def sample_lease_def)
  moreover have "proposal_bound 3 ?p intent_lease"
    by (simp add: proposal_bound_def contextualize_def sample_intent_def intent_lease_def sample_lease_def)
  moreover have "cx_lease_id (ci_context sample_intent) = Some ''l''"
    "map_of (lm_leases (ge_leases intent_governance)) ''l'' = Some intent_lease"
    "cx_issued_at (ci_context sample_intent) \<le> 3"
    "cx_issued_at (ci_context sample_intent) \<le> cx_expires_at (ci_context sample_intent)"
    by (simp_all add: sample_intent_def intent_governance_def)
  ultimately show ?thesis
    using command_allow_iff [of sample_mac 3 3 3 sample_intent intent_governance _ intent_governance]
    by blast
qed

text \<open>A service that keeps the last envelope with its receipt.\<close>

definition commit_hazel :: "json_dict hazel_transport" where
  "commit_hazel = \<lparr>
     ht_persist = (\<lambda>e w. (Inr (e @ [(''accepted'', PyBool True), (''event_hash'', PyStr ''h''), (''payload_hash'', PyStr ''u'')]),
       e @ [(''accepted'', PyBool True), (''event_hash'', PyStr ''h''), (''payload_hash'', PyStr ''u'')])),
     ht_recover = (\<lambda>q w. (Inr w, w)) \<rparr>"

lemma commit_hazel_keeps:
  "snd (snd (hazel_recover_state H U commit_hazel run ocs host au s)) = snd s"
proof (rule ccontr)
  obtain g w r g' w' where run: "s = (g, w)" "hazel_recover_state H U commit_hazel run ocs host au (g, w) = (r, (g', w'))"
    by (metis surj_pair)
  assume "snd (snd (hazel_recover_state H U commit_hazel run ocs host au s)) \<noteq> snd s"
  then have "w' \<noteq> w" using run by simp
  with recover_online [OF run(2)] show False by (auto simp: commit_hazel_def)
qed

lemma sample_write:
  assumes "authorized_decision d" and "validate_binding d sample_persist_request = Inr ()"
    and "kd_authority_ref d = ab_authority_envelope_ref sample_binding_A"
  shows "snd (snd (snd (command_persist (service_port sample_digest (\<lambda>_. ''u'') commit_hazel) d
    sample_persist_request ([], (sample_guard, []))))) \<noteq> []"
proof -
  let ?port = "service_port sample_digest (\<lambda>_. ''u'') commit_hazel" and ?q = sample_persist_request
  let ?st = "dset ''command_causality'' (command_causality d ?q) (hq_state ?q)"
  obtain g1 where "require_valid sample_digest ''r'' ''A'' PRE_PERSIST (Some ''h'') sample_guard
      = (Inr sample_binding_A, g1)" using sample_valid by (metis prod.collapse)
  then obtain receipt g2 w where p: "hazel_persist_state sample_digest commit_hazel ''r'' ''A'' ''h''
      (kd_authority_ref d) 1 None ?st (kd_trace_id d) (sample_guard, []) = (Inr (receipt, sample_binding_A), (g2, w))"
    and w: "w \<noteq> []"
    unfolding persist_state_Inr assms(3)
    by (auto simp: commit_hazel_def check_persist_receipt_def dict_get_def persist_envelope_def)
  have "snd (snd (persist_exchange ?port d ?q (sample_guard, []))) = w"
    using p commit_hazel_keeps
    by (auto simp: persist_exchange_def validate_predecessor_def service_port_def sample_persist_request_def
        py_simps split: sum.split prod.split) (metis snd_conv)+
  then show ?thesis
    using assms(1,2) w
    by (cases "persist_exchange ?port d ?q (sample_guard, [])")
      (auto simp: command_persist_def py_simps on_hazel_def Let_def split: sum.split)
qed


end
