(* ===== verification/Spec2Isabelle.thy ===== *)
theory Spec2Isabelle
  imports Kernel_Samples Profiles Handoff Hazel Service_Samples Cognition_Safety Candidate_Safety Command_Safety
    Expertise_Causality Trading_Api Lease_Store Command_Governed
begin

text \<open>
  Verification library for the REIS OS backend: the universal kernel
  (\<^verbatim>\<open>app/universal_kernel\<close>), the OCS profiles (\<^verbatim>\<open>app/profile_bindings\<close>), the registry of
  OCS instances (\<^verbatim>\<open>app/ocs_instances\<close>), the cognitive engine (\<^verbatim>\<open>app/cognitive_physiology\<close>),
  the governance candidates (\<^verbatim>\<open>app/governance_refactor\<close>), the event log, the views, the
  request guard and the adapters of the command centre (\<^verbatim>\<open>app/command\<close>), the expertise path
  (\<^verbatim>\<open>app/expertise\<close>) and the trading runtime (\<^verbatim>\<open>app/trading_runtime\<close>).

  \<^bold>\<open>The program.\<close> An OCS (an agent role with a profile) proposes actions. The governance
  engine allows a proposal on evidence, on a complete envelope and on an authority lease with a
  bounded number of uses. The runtime takes an allowed proposal through a reservation of the
  lease, the trace, the identity guard, the material effect of an adapter, the read back, the
  state core and the end of the lease. The identity guard keeps the bindings of runs to OCS
  identities in a log chained by hashes; handoffs and the Hazel continuity service check them.
  The instance service prepares, binds, checkpoints and replaces the platform instances of an
  OCS under leases, with a journal and sagas in a database. Beside these run records of
  governance that decide nothing themselves (the candidates, kept per organization), and the
  command centre, which rebuilds its views from an event log, lets a guard judge its requests, asks the kernel for
  decisions and writes what was allowed to the continuity service.
  The expertise path stands before the runtime: a proposal of one OCS reaches the kernel through
  it only after external evidence was retrieved and a derivation passed two assessments. The
  trading runtime stands alone: it turns candles into signals, keeps their evidence, holds model
  calls to a budget and follows signals on paper.

  \<^bold>\<open>Theories and sources.\<close>
  \<^item> \<^verbatim>\<open>Py_Prelude\<close>: Python's values, exceptions, dictionaries, string functions and
    \<^verbatim>\<open>json.dumps\<close>, and the state monad \<open>py\<close> in which an exception keeps the mutations made
    before it. \<^verbatim>\<open>Chained_Log\<close>: the contract of the append-only logs.
  \<^item> \<^verbatim>\<open>Profiles\<close>: \<^verbatim>\<open>profile_bindings/profiles.py\<close>, the table and its validation.
  \<^item> \<^verbatim>\<open>Identity\<close>: \<^verbatim>\<open>identity.py\<close>, bindings, holds, rebinds, the audit chain, cold start.
    \<^verbatim>\<open>Context_Guard\<close>: \<^verbatim>\<open>context_guard.py\<close>.
  \<^item> \<^verbatim>\<open>Kernel_Contracts\<close>, \<^verbatim>\<open>Leases\<close>, \<^verbatim>\<open>Governance\<close>: \<^verbatim>\<open>contracts.py\<close> and
    \<^verbatim>\<open>governance.py\<close>: envelopes, the lease manager with its signed snapshots, the assurance
    registry, the evidence engine and \<^verbatim>\<open>authorize\<close>.
  \<^item> \<^verbatim>\<open>State_Trace\<close>: \<^verbatim>\<open>state_trace.py\<close>, states in memory and in SQLite, and the trace.
    \<^verbatim>\<open>Effects\<close>: \<^verbatim>\<open>effect_recovery.py\<close>, broker, effector, compensation and recovery.
  \<^item> \<^verbatim>\<open>Kernel_Runtime\<close>: \<^verbatim>\<open>runtime.py\<close>, the whole of \<^verbatim>\<open>execute\<close>; \<^verbatim>\<open>Mediation\<close> and
    \<^verbatim>\<open>Kernel_Histories\<close> prove its properties over one call and over any sequence of calls;
    \<^verbatim>\<open>Kernel_Samples\<close> evaluates it.
  \<^item> \<^verbatim>\<open>Handoff\<close>: \<^verbatim>\<open>handoff.py\<close> and \<^verbatim>\<open>ports.py\<close>. \<^verbatim>\<open>Hazel\<close>: \<^verbatim>\<open>hazel_continuity.py\<close>.
  \<^item> \<^verbatim>\<open>Instance_Contracts\<close>, \<^verbatim>\<open>Instance_Store\<close>, \<^verbatim>\<open>Instance_Service\<close>: the files of the same
    names under \<^verbatim>\<open>ocs_instances\<close>, with \<^verbatim>\<open>work_bridge.py\<close> in the last.
    \<^verbatim>\<open>Instance_Registry\<close> and \<^verbatim>\<open>Instance_Histories\<close> prove the invariant of the tables and their
    refinement of the life cycle; \<^verbatim>\<open>Instance_Safety\<close> is about the service;
    \<^verbatim>\<open>Instance_Recovery\<close> and \<^verbatim>\<open>Recovery_Safety\<close> are \<^verbatim>\<open>recovery.py\<close>, the cold start;
    \<^verbatim>\<open>Service_Samples\<close> evaluates both. \<^verbatim>\<open>Lease_Store\<close>: \<^verbatim>\<open>lease_store.py\<close>, the file of
    the lease snapshot with crashes during its save.
  \<^item> \<^verbatim>\<open>Cognition\<close> and \<^verbatim>\<open>Cognition_Safety\<close>: \<^verbatim>\<open>app/cognitive_physiology\<close>, the runtime with
    its generations and budget, the engine and its memory. Floating-point rounding is the
    parameter \<open>fl\<close>; the built-in \<^verbatim>\<open>sum\<close> is \<open>fsum\<close>.
  \<^item> \<^verbatim>\<open>Py_Datetime\<close>: times with an offset, their instants, \<^verbatim>\<open>isoformat\<close> and
    \<^verbatim>\<open>astimezone(UTC)\<close>. \<^verbatim>\<open>Cursor_Pages\<close>: the contract of a view read page by page.
  \<^item> \<^verbatim>\<open>Candidate_Contracts\<close>, \<^verbatim>\<open>Candidate_Policy\<close>, \<^verbatim>\<open>Candidate_Store\<close>,
    \<^verbatim>\<open>Candidate_Views\<close> and \<^verbatim>\<open>Candidate_Safety\<close>: \<^verbatim>\<open>app/governance_refactor\<close>, the twelve
    records and their constructors, \<^verbatim>\<open>policy.py\<close>, \<^verbatim>\<open>capability.py\<close>, \<^verbatim>\<open>metrics.py\<close>, the
    schema with both writers, the views of one organization, and what is shown of them.
  \<^item> \<^verbatim>\<open>Command_Events\<close>, \<^verbatim>\<open>Command_Views\<close> and \<^verbatim>\<open>Command_Safety\<close>: \<^verbatim>\<open>events.py\<close>,
    \<^verbatim>\<open>event_store.py\<close>, \<^verbatim>\<open>realtime.py\<close>, \<^verbatim>\<open>projections.py\<close> and \<^verbatim>\<open>security.py\<close> of
    \<^verbatim>\<open>app/command\<close>. \<^verbatim>\<open>Command_Adapters\<close>: \<^verbatim>\<open>application.py\<close>, the profiles served with the
    records of \<^verbatim>\<open>api/schemas.py\<close>, and \<^verbatim>\<open>kernel_adapter.py\<close> and \<^verbatim>\<open>hazel_adapter.py\<close>;
    \<^verbatim>\<open>Command_Governed\<close> joins them with the models of the kernel and of Hazel.
  \<^item> \<^verbatim>\<open>Expertise_Retrieval\<close>, \<^verbatim>\<open>Expertise_Corpus\<close>, \<^verbatim>\<open>Expertise_Physiology\<close> and
    \<^verbatim>\<open>Expertise_Safety\<close>: \<^verbatim>\<open>registry.py\<close>, \<^verbatim>\<open>sources.py\<close>, \<^verbatim>\<open>retriever.py\<close>; \<^verbatim>\<open>corpus.py\<close>;
    \<^verbatim>\<open>derivation.py\<close>, \<^verbatim>\<open>assurance.py\<close>, \<^verbatim>\<open>physiology.py\<close> of \<^verbatim>\<open>app/expertise\<close>; and what is shown
    of them. The kernel port is the model of the runtime. \<^verbatim>\<open>Expertise_Causality\<close>: the two
    harnesses \<^verbatim>\<open>causal_validation.py\<close> and \<^verbatim>\<open>semantic_causality.py\<close> with the meaning of
    their verdicts.
  \<^item> \<^verbatim>\<open>Trading_Contracts\<close>, \<^verbatim>\<open>Trading_Runtime\<close> and \<^verbatim>\<open>Trading_Safety\<close>: \<^verbatim>\<open>contracts.py\<close>,
    \<^verbatim>\<open>pricing.py\<close>, \<^verbatim>\<open>economics.py\<close>, \<^verbatim>\<open>ledger.py\<close>; \<^verbatim>\<open>risk.py\<close>, \<^verbatim>\<open>runtime.py\<close>, \<^verbatim>\<open>strategy.py\<close>,
    \<^verbatim>\<open>market.py\<close>, \<^verbatim>\<open>radar.py\<close>, \<^verbatim>\<open>paper.py\<close> of \<^verbatim>\<open>app/trading_runtime\<close>; and what is shown of
    them; \<^verbatim>\<open>Trading_Api\<close>: the routes of \<^verbatim>\<open>api.py\<close>. Floats are rationals with rounded
    operations, without infinities and NaN.

  \<^bold>\<open>How the model reads.\<close> An object is a record, a method a function from its arguments to
  \<open>py\<close>, an exception a value of \<open>exn\<close> that carries the message of the source. A lock is
  modelled by a call being one step; histories of calls are lists of calls. The digest and the
  MAC (\<^verbatim>\<open>sha256\<close>, \<^verbatim>\<open>hmac\<close>) are parameters: a security property ends in equality or in an
  explicit collision, never in an assumption that there is none. What an adapter does to the
  world, the transport of Hazel and the readings of the clock are parameters too. A table of
  SQLite is a list of rows with its uniqueness constraints; a \<^verbatim>\<open>with\<close> block over a connection is
  a transaction that leaves the table as it was when it raises. Two processes on one database
  are not modelled: every call of the store is atomic.

  \<^bold>\<open>What is shown.\<close> Governance: who is allowed and that nothing reaches an adapter
  otherwise; leases are never spent twice, end for good, and their snapshots cannot be forged
  short of a collision. Runtime: an effect that was answered is never made again, truthful receipts, replay of results,
  states that are appended and never rewritten. Identity: the log and the live bindings agree
  after any calls, a hold lasts, tampering shows; what a handoff and a recovery from the
  continuity service are bound to, and what a handoff is not. Instances: the tables keep their invariant
  and refine the life cycle; a retry answers what the first call did, a stale writer changes
  nothing, a replacement moves both rows or none, a worker of an old generation is fenced,
  nothing is prepared without a live lease or activated without its challenge, a cold start
  answers the newest generation and only what registry, guard and continuity agree on. Cognition: the engine's
  invariant over any calls, one generation at a time, no effect after a commit that returned, the best candidate
  wins, and what is computed stays in range. Candidates: what every constructor guarantees, what
  the gates and the capability decisions mean, the tables along any calls, isolation of the
  organizations, one record per key, round trips, and that paging ends with everything. Command
  centre: gap-free streams, round trip and retries of events, views that owe their claims to
  events, a guard that binds a key to one request, audit records without secrets, and
  writes that reach the continuity service only behind a decision that allowed them. Expertise:
  retrieval finds exactly what is relevant, a derivation is eligible only after both assessments
  in their order, receipts cannot be moved, and the kernel runs only behind them. Trading: the
  budget along any calls, what a signal guarantees, the loss at a stop with its rounding, paper
  results against the price paths within the candles, and one piece of evidence per scan. The
  lease file: a crash of the process anywhere in the file operations of a save leaves the last
  snapshot or the new one; a loss of power can tear it, which a load then reports.

  \<^bold>\<open>Termination and bounds.\<close> Every definition is total: the recursion is structural or over
  a decreasing number (the decimal printer). The client that follows cursors is given a number of
  requests; one more than there are rows is shown to be enough.

  \<^bold>\<open>Not modelled.\<close> HTTP routes other than those of the trading runtime, ORM models and settings (\<^verbatim>\<open>auth\<close>, \<^verbatim>\<open>tasks\<close>, \<^verbatim>\<open>projects\<close>,
  \<^verbatim>\<open>workspaces\<close>, \<^verbatim>\<open>organizations\<close>, \<^verbatim>\<open>main\<close>, \<^verbatim>\<open>shared\<close>): input and output of a web framework.
  \<^verbatim>\<open>distributed_runtime\<close> is operating-system processes and files; \<^verbatim>\<open>single_surface_trial\<close> a
  surface over an HTTP provider. \<^verbatim>\<open>cognitive_validation\<close> is a set of small policies and
  receipts that the modelled parts do not call. \<^verbatim>\<open>ci\<close>, \<^verbatim>\<open>experiments\<close>, \<^verbatim>\<open>scripts\<close>
  and \<^verbatim>\<open>migrations\<close> check evidence files or maintain the repository.

  \<^bold>\<open>Plan.\<close> Left for later work: the read-only views of the command centre over the
  instance tables, and the policies of \<^verbatim>\<open>cognitive_validation\<close>.
\<close>

end
